(* ===== verification/Jury_Prelude.thy ===== *)
theory Jury_Prelude
  imports Main "HOL-Library.Word" "HOL-Library.List_Lexorder" "HOL-Library.Option_ord"
    "HOL-Library.Product_Lexorder" "HOL-Library.Char_ord"
begin

text \<open>
  What every component of the development shares.

  \<^item> The machine integers of the Rust sources (\<open>u8\<close>, \<open>u16\<close>, \<open>u32\<close>, \<open>u64\<close>) are words; a
    \<open>usize\<close> is a \<open>nat\<close> whose 64-bit limit is written out where the code checks it.
    \<open>checked_add\<close>, \<open>checked_sub\<close>, \<open>saturating_add\<close> and \<open>to_be_bytes\<close> are those of the
    Rust core library.
  \<^item> \<open>Result<T, E>\<close> is \<open>'e + 'a\<close> with \<open>Inl\<close> for \<open>Err\<close>; \<open>and_then\<close> is the \<open>?\<close> operator,
    \<open>ok_or\<close>, \<open>map_err\<close>, \<open>ensure\<close> and \<open>collect_results\<close> are the combinators the code uses.
  \<^item> The orders of \<open>derive(Ord)\<close> are the lexicographic orders of the imported library
    theories (lists and byte arrays, tuples, \<open>None < Some\<close>).
  \<^item> The collections \<open>result_simps\<close> (a computation succeeds iff its steps do) and
    \<open>enc_inj\<close> (an encoding followed by a rest is injective) carry the component proofs.
\<close>

named_theorems run_simps
  \<open>what the fallible encoders return on inputs that fit, to run them on samples\<close>
named_theorems result_simps \<open>a fallible computation returns a value iff each step does\<close>
named_theorems enc_inj \<open>prefix injectivity of the canonical encodings\<close>
named_theorems decode_simps \<open>reading back what an encoder wrote\<close>

section \<open>Machine integers\<close>

type_synonym u8 = "8 word"
type_synonym u16 = "16 word"
type_synonym u32 = "32 word"
type_synonym u64 = "64 word"
type_synonym bytes = "u8 list"

definition checked_add :: "'a::len word \<Rightarrow> 'a word \<Rightarrow> 'a word option" where
  "checked_add a b = (if unat a + unat b < 2 ^ LENGTH('a) then Some (a + b) else None)"

definition checked_sub :: "'a::len word \<Rightarrow> 'a word \<Rightarrow> 'a word option" where
  "checked_sub a b = (if b \<le> a then Some (a - b) else None)"

definition saturating_add :: "'a::len word \<Rightarrow> 'a word \<Rightarrow> 'a word" where
  "saturating_add a b = (if unat a + unat b < 2 ^ LENGTH('a) then a + b else - 1)"

definition usize_checked_add :: "nat \<Rightarrow> nat \<Rightarrow> nat option" where
  "usize_checked_add a b = (if a + b < 2 ^ 64 then Some (a + b) else None)"

definition u32_try_from :: "nat \<Rightarrow> u32 option" where
  "u32_try_from n = (if n < 2 ^ 32 then Some (of_nat n) else None)"

lemma checked_add_Some:
  assumes "checked_add a b = Some c"
  shows "unat c = unat a + unat b"
  using assms by (auto simp: checked_add_def unat_word_ariths split: if_splits)

lemma checked_sub_Some:
  assumes "checked_sub a b = Some c"
  shows "b \<le> a" and "unat c = unat a - unat b"
  using assms by (auto simp: checked_sub_def unat_sub split: if_splits)

lemma unat_saturating_add:
  fixes a b :: "'a::len word"
  shows "unat (saturating_add a b) = min (unat a + unat b) (2 ^ LENGTH('a) - 1)"
proof (cases "unat a + unat b < 2 ^ LENGTH('a)")
  case True
  then show ?thesis
    by (simp add: saturating_add_def unat_word_ariths)
next
  case False
  then show ?thesis
    by (simp add: saturating_add_def unsigned_minus_1_eq_mask mask_eq_exp_minus_1)
qed

lemma saturating_add_ge:
  fixes a b :: "'a::len word"
  shows "a \<le> saturating_add a b"
proof -
  have "unat a < 2 ^ LENGTH('a)"
    by (rule unsigned_less)
  then show ?thesis
    unfolding word_le_nat_alt unat_saturating_add by linarith
qed

lemma unat_word_of_nat_u64: "n < 2 ^ 64 \<Longrightarrow> unat (word_of_nat n :: u64) = n"
  unfolding unat_of_nat by simp

lemma next_u64:
  assumes "Suc n < 2 ^ 64"
  shows "saturating_add (word_of_nat n) (1 :: u64) = word_of_nat (Suc n)"
    and "checked_add (word_of_nat n) (1 :: u64) = Some (word_of_nat (Suc n))"
proof -
  have "unat (word_of_nat n :: u64) + unat (1 :: u64) < 2 ^ LENGTH(64)"
    using assms unat_word_of_nat_u64 [of n] by simp
  then show "saturating_add (word_of_nat n) (1 :: u64) = word_of_nat (Suc n)"
    and "checked_add (word_of_nat n) (1 :: u64) = Some (word_of_nat (Suc n))"
    by (simp_all only: saturating_add_def checked_add_def if_True of_nat_Suc add.commute)
qed

lemma u32_try_from_Some [result_simps]:
  "u32_try_from n = Some w \<longleftrightarrow> n < 2 ^ 32 \<and> w = of_nat n"
  by (auto simp: u32_try_from_def)

section \<open>Big-endian bytes\<close>

fun nat_be :: "nat \<Rightarrow> nat \<Rightarrow> bytes" where
  "nat_be 0 v = []"
| "nat_be (Suc n) v = nat_be n (v div 256) @ [of_nat v]"

fun be_nat :: "nat \<Rightarrow> bytes \<Rightarrow> nat" where
  "be_nat acc [] = acc"
| "be_nat acc (b # bs) = be_nat (256 * acc + unat b) bs"

definition to_be_bytes :: "'a::len word \<Rightarrow> bytes" where
  "to_be_bytes w = nat_be (LENGTH('a) div 8) (unat w)"

definition from_be_bytes :: "bytes \<Rightarrow> 'a::len word" where
  "from_be_bytes bs = of_nat (be_nat 0 bs)"

lemma length_nat_be [simp]: "length (nat_be n v) = n"
  by (induction n arbitrary: v) auto

lemma be_nat_append: "be_nat acc (xs @ ys) = be_nat (be_nat acc xs) ys"
  by (induction xs arbitrary: acc) auto

lemma be_nat_nat_be: "be_nat 0 (nat_be n v) = v mod 256 ^ n"
proof (induction n arbitrary: v)
  case 0
  then show ?case by simp
next
  case (Suc n)
  have "unat (of_nat v :: u8) = v mod 256"
    by (simp add: unat_of_nat)
  then show ?case
    by (simp add: be_nat_append Suc.IH mod_mult2_eq)
qed

lemma length_to_be_bytes [simp]:
  "length (to_be_bytes (w :: 'a::len word)) = LENGTH('a) div 8"
  by (simp add: to_be_bytes_def)

lemma from_to_be_bytes:
  fixes w :: "'a::len word"
  assumes "8 dvd LENGTH('a)"
  shows "from_be_bytes (to_be_bytes w) = w"
proof -
  obtain k where k: "LENGTH('a) = 8 * k"
    using assms by (auto elim: dvdE)
  have "(256::nat) ^ k = 2 ^ LENGTH('a)"
    unfolding k by (simp add: power_mult)
  then have "unat w mod 256 ^ k = unat w"
    using unsigned_less [of w] by simp
  then show ?thesis
    by (simp add: from_be_bytes_def to_be_bytes_def be_nat_nat_be k)
qed

lemma from_to_be_bytes_u16 [simp]: "from_be_bytes (to_be_bytes (w :: u16)) = w"
  by (rule from_to_be_bytes) simp

lemma from_to_be_bytes_u32 [simp]: "from_be_bytes (to_be_bytes (w :: u32)) = w"
  by (rule from_to_be_bytes) simp

lemma from_to_be_bytes_u64 [simp]: "from_be_bytes (to_be_bytes (w :: u64)) = w"
  by (rule from_to_be_bytes) simp

section \<open>Text\<close>

text \<open>A Rust \<open>str\<close> is its UTF-8 bytes; a HOL \<open>char\<close> is one byte.\<close>

definition str_bytes :: "string \<Rightarrow> bytes" where
  "str_bytes s = map of_char s"

lemma unat_of_char: "unat (of_char c :: u8) = of_char c"
proof -
  have "(of_char c :: u8) = of_nat (of_char c)"
    by (simp only: of_nat_of_char)
  moreover have "unat (of_nat (of_char c) :: u8) = of_char c"
    using nat_of_char_less_256 [of c] by (simp only: unat_of_nat) simp
  ultimately show ?thesis
    by (simp only:)
qed

lemma of_char_u8_inject: "(of_char c :: u8) = of_char d \<longleftrightarrow> c = d"
  by (metis unat_of_char of_char_eq_iff)

lemma str_bytes_inject [simp]: "str_bytes s = str_bytes t \<longleftrightarrow> s = t"
  by (auto simp: str_bytes_def inj_map_eq_map inj_def of_char_u8_inject)

section \<open>Results\<close>

type_synonym ('e, 'a) result = "'e + 'a"

fun and_then :: "'e + 'a \<Rightarrow> ('a \<Rightarrow> 'e + 'b) \<Rightarrow> 'e + 'b" where
  "and_then (Inl e) f = Inl e"
| "and_then (Inr x) f = f x"

fun map_err :: "('e \<Rightarrow> 'f) \<Rightarrow> 'e + 'a \<Rightarrow> 'f + 'a" where
  "map_err g (Inl e) = Inl (g e)"
| "map_err g (Inr x) = Inr x"

definition ok_or :: "'e \<Rightarrow> 'a option \<Rightarrow> 'e + 'a" where
  "ok_or e r = (case r of None \<Rightarrow> Inl e | Some x \<Rightarrow> Inr x)"

definition ensure :: "bool \<Rightarrow> 'e \<Rightarrow> 'e + unit" where
  "ensure b e = (if b then Inr () else Inl e)"

fun collect_results :: "('a \<Rightarrow> 'e + 'b) \<Rightarrow> 'a list \<Rightarrow> 'e + 'b list" where
  "collect_results f [] = Inr []"
| "collect_results f (x # xs) =
     and_then (f x) (\<lambda>y. and_then (collect_results f xs) (\<lambda>ys. Inr (y # ys)))"

fun fold_results :: "('s \<Rightarrow> 'a \<Rightarrow> 'e + 's) \<Rightarrow> 's \<Rightarrow> 'a list \<Rightarrow> 'e + 's" where
  "fold_results f s [] = Inr s"
| "fold_results f s (x # xs) = and_then (f s x) (\<lambda>s'. fold_results f s' xs)"

fun transpose_result :: "('e + 'a) option \<Rightarrow> 'e + 'a option" where
  "transpose_result None = Inr None"
| "transpose_result (Some (Inl e)) = Inl e"
| "transpose_result (Some (Inr x)) = Inr (Some x)"

definition is_ok :: "'e + 'a \<Rightarrow> bool" where
  "is_ok r \<longleftrightarrow> (\<exists>x. r = Inr x)"

lemma is_ok_simps [simp]: "is_ok (Inr x)" "\<not> is_ok (Inl e)"
  by (simp_all add: is_ok_def)

lemma is_ok_case [code]: "is_ok r = (case r of Inl _ \<Rightarrow> False | Inr _ \<Rightarrow> True)"
  by (cases r) auto

lemma and_then_Inr [result_simps]:
  "and_then r f = Inr y \<longleftrightarrow> (\<exists>x. r = Inr x \<and> f x = Inr y)"
  by (cases r) auto

lemma and_then_Inl [result_simps]:
  "and_then r f = Inl e \<longleftrightarrow> r = Inl e \<or> (\<exists>x. r = Inr x \<and> f x = Inl e)"
  by (cases r) auto

lemma map_err_Inr [result_simps]: "map_err g r = Inr x \<longleftrightarrow> r = Inr x"
  by (cases r) auto

lemma map_err_Inl [result_simps]: "map_err g r = Inl f \<longleftrightarrow> (\<exists>e. r = Inl e \<and> f = g e)"
  by (cases r) auto

lemma ok_or_Inr [result_simps]: "ok_or e r = Inr x \<longleftrightarrow> r = Some x"
  by (auto simp: ok_or_def split: option.splits)

lemma ok_or_Inl [result_simps]: "ok_or e r = Inl f \<longleftrightarrow> r = None \<and> f = e"
  by (auto simp: ok_or_def split: option.splits)

lemma ok_or_simps [simp]: "ok_or e None = Inl e" "ok_or e (Some x) = Inr x"
  by (simp_all add: ok_or_def)

lemma ensure_Inr [result_simps]: "ensure b e = Inr u \<longleftrightarrow> b"
  by (auto simp: ensure_def)

lemma ensure_Inl [result_simps]: "ensure b e = Inl f \<longleftrightarrow> \<not> b \<and> f = e"
  by (auto simp: ensure_def)

lemma ensure_simps [simp]: "ensure True e = Inr ()" "ensure False e = Inl e"
  by (simp_all add: ensure_def)

lemma transpose_result_Inr [result_simps]:
  "transpose_result r = Inr y \<longleftrightarrow>
     (case r of None \<Rightarrow> y = None | Some x \<Rightarrow> (\<exists>z. x = Inr z \<and> y = Some z))"
  by (cases r rule: transpose_result.cases) auto

lemma collect_results_Inr [result_simps]:
  "collect_results f xs = Inr ys \<longleftrightarrow> list_all2 (\<lambda>x y. f x = Inr y) xs ys"
proof (induction xs arbitrary: ys)
  case Nil
  then show ?case by auto
next
  case (Cons x xs)
  then show ?case
    by (auto simp: and_then_Inr list_all2_Cons1)
qed

text \<open>
  A loop that threads a state and stops at the first error: an invariant of the body is an
  invariant of the loop, and what the body establishes for its element holds for every element
  when later iterations keep it.
\<close>

lemma fold_results_invariant:
  assumes "fold_results f s xs = Inr t" and "I s"
    and "\<And>s x s'. x \<in> set xs \<Longrightarrow> I s \<Longrightarrow> f s x = Inr s' \<Longrightarrow> I s'"
  shows "I t"
  using assms by (induction xs arbitrary: s) (auto simp: and_then_Inr)

lemma fold_results_distinct:
  assumes "fold_results f s xs = Inr t" and "P [] s"
    and "\<And>ys x s s'. P ys s \<Longrightarrow> x \<in> set xs \<Longrightarrow> (distinct xs \<Longrightarrow> x \<notin> set ys) \<Longrightarrow> f s x = Inr s' \<Longrightarrow>
      P (ys @ [x]) s'"
  shows "P xs t"
proof -
  have "fold_results f s zs = Inr t \<Longrightarrow> ys @ zs = xs \<Longrightarrow> P ys s \<Longrightarrow> P (ys @ zs) t" for ys zs s
  proof (induction zs arbitrary: ys s)
    case (Cons z zs)
    then obtain s' where "f s z = Inr s'" and rest: "fold_results f s' zs = Inr t"
      by (auto simp: and_then_Inr)
    then have "P (ys @ [z]) s'"
      using Cons.prems assms(3) by auto
    then show ?case
      using Cons.IH [OF rest, of "ys @ [z]"] Cons.prems by simp
  qed simp
  from this [of s xs "[]"] show ?thesis
    using assms(1,2) by simp
qed

lemma fold_results_prefix:
  assumes "fold_results f s xs = Inr t" and "P [] s"
    and "\<And>ys x s s'. P ys s \<Longrightarrow> x \<in> set xs \<Longrightarrow> f s x = Inr s' \<Longrightarrow> P (ys @ [x]) s'"
  shows "P xs t"
  using fold_results_distinct [of f s xs t P] assms by blast

lemma fold_results_append:
  "fold_results f s (xs @ ys) = and_then (fold_results f s xs) (\<lambda>t. fold_results f t ys)"
proof (induction xs arbitrary: s)
  case (Cons x xs)
  then show ?case by (cases "f s x") auto
qed simp

lemma collect_results_length: "collect_results f xs = Inr ys \<Longrightarrow> length ys = length xs"
  by (auto simp: collect_results_Inr dest: list_all2_lengthD)

lemma collect_results_all:
  assumes "collect_results f xs = Inr ys" and "x \<in> set xs"
  shows "\<exists>y. f x = Inr y"
  using assms by (auto simp: collect_results_Inr list_all2_conv_all_nth in_set_conv_nth)

lemma collect_results_total:
  "(\<And>x. x \<in> set xs \<Longrightarrow> f x = Inr (g x)) \<Longrightarrow> collect_results f xs = Inr (map g xs)"
  by (induction xs) auto

lemma map_option_inject_iff:
  assumes "\<And>x y. f x = f y \<longleftrightarrow> x = y"
  shows "map_option f a = map_option f b \<longleftrightarrow> a = b"
  by (cases a; cases b) (auto simp: assms)

section \<open>Strict order of adjacent elements\<close>

text \<open>
  \<open>values.windows(2).all(|pair| less_than(&pair[0], &pair[1]))\<close>: the check of
  \<open>strictly_sorted_unique\<close> in \<open>witness_v1/encoding.rs\<close> and \<open>policy/witness.rs\<close>.
\<close>

fun strictly_sorted_unique :: "('a \<Rightarrow> 'a \<Rightarrow> bool) \<Rightarrow> 'a list \<Rightarrow> bool" where
  "strictly_sorted_unique lt [] = True"
| "strictly_sorted_unique lt [x] = True"
| "strictly_sorted_unique lt (x # y # zs) =
     (lt x y \<and> strictly_sorted_unique lt (y # zs))"

lemma strictly_sorted_unique_sorted_wrt:
  assumes "\<And>x y z. lt x y \<Longrightarrow> lt y z \<Longrightarrow> lt x z"
  shows "strictly_sorted_unique lt xs \<longleftrightarrow> sorted_wrt lt xs"
proof (induction xs)
  case (Cons x xs)
  then show ?case by (cases xs) (auto intro: assms)
qed simp

text \<open>Checking the adjacent pairs is checking every pair: sorted by key, no key twice.\<close>

lemma strictly_sorted_unique_key:
  fixes key :: "'a \<Rightarrow> 'k::linorder"
  shows "strictly_sorted_unique (\<lambda>x y. key x < key y) xs \<longleftrightarrow>
     sorted (map key xs) \<and> distinct (map key xs)"
proof -
  have "strictly_sorted_unique (\<lambda>x y. key x < key y) xs \<longleftrightarrow> sorted_wrt (<) (map key xs)"
    by (simp add: strictly_sorted_unique_sorted_wrt [of "\<lambda>x y. key x < key y"] sorted_wrt_map)
  then show ?thesis
    by (auto simp: strict_sorted_iff)
qed

text \<open>
  \<open>values.iter().enumerate().any(|(i, x)| values[i + 1..].iter().any(|y| p(x, y)))\<close>: some
  element and a later one satisfy \<open>p\<close>.
\<close>

fun any_later_pair :: "('a \<Rightarrow> 'a \<Rightarrow> bool) \<Rightarrow> 'a list \<Rightarrow> bool" where
  "any_later_pair p [] = False"
| "any_later_pair p (x # xs) = (list_ex (p x) xs \<or> any_later_pair p xs)"

lemma any_later_pair_sorted_wrt: "\<not> any_later_pair p xs \<longleftrightarrow> sorted_wrt (\<lambda>x y. \<not> p x y) xs"
  by (induction xs) (auto simp: list_ex_iff)

lemma no_later_pair_distinct:
  assumes "\<not> any_later_pair p xs" and "\<And>x y. key x = key y \<Longrightarrow> p x y"
  shows "distinct (map key xs)"
  using assms(1) by (induction xs) (auto simp: list_ex_iff assms(2))

end
