(* ===== verification/Jury_Bytes.thy ===== *)
theory Jury_Bytes
  imports Jury_Prelude
begin

text \<open>
  The byte-string types of \<open>jury-protocol/src/vault_v1/bytes.rs\<close>.

  \<open>'n fixed_bytes\<close> is \<open>FixedBytes<N>\<close> (and the array \<open>[u8; N]\<close> it wraps), \<open>'n bounded_bytes\<close>
  is \<open>BoundedBytes<MAX>\<close>, and \<open>ident\<close> is the type the \<open>identifier!\<close> macro makes: 32
  bytes that are not all zero. The Rust constructors are the only way to make a value, so
  the length bounds are part of the HOL types.
\<close>

datatype byte_string_error =
    WrongLength nat nat
  | TooLong nat nat
  | NonCanonical
  | ZeroIdentifier

section \<open>Fixed-length bytes\<close>

typedef (overloaded) 'n fixed_bytes = "{bs :: bytes. length bs = LENGTH('n::len)}"
  morphisms as_bytes Fixed_bytes
  by (rule exI [of _ "replicate LENGTH('n) 0"]) simp

definition fixed_of_list :: "bytes \<Rightarrow> 'n::len fixed_bytes" where
  "fixed_of_list bs = Fixed_bytes (take LENGTH('n) (bs @ replicate LENGTH('n) 0))"

definition fixed_from_slice :: "bytes \<Rightarrow> byte_string_error + 'n::len fixed_bytes" where
  "fixed_from_slice bs =
     (if length bs = LENGTH('n) then Inr (fixed_of_list bs)
      else Inl (WrongLength LENGTH('n) (length bs)))"

definition fixed_repeat :: "u8 \<Rightarrow> 'n::len fixed_bytes" where
  "fixed_repeat b = fixed_of_list (replicate LENGTH('n) b)"

lemma length_as_bytes [simp]: "length (as_bytes (x :: 'n::len fixed_bytes)) = LENGTH('n)"
  using as_bytes [of x] by simp

lemma Fixed_bytes_as_bytes [code abstype]: "Fixed_bytes (as_bytes x) = x"
  by (rule as_bytes_inverse)

lemma as_bytes_fixed_of_list [code abstract]:
  "as_bytes (fixed_of_list bs :: 'n::len fixed_bytes) =
     take LENGTH('n) (bs @ replicate LENGTH('n) 0)"
  unfolding fixed_of_list_def by (rule Fixed_bytes_inverse) simp

lemma fixed_of_list_as_bytes [simp]: "fixed_of_list (as_bytes x) = x"
  by (simp add: as_bytes_fixed_of_list flip: as_bytes_inject)

lemma as_bytes_fixed_of_list_exact [simp]:
  "length bs = LENGTH('n) \<Longrightarrow> as_bytes (fixed_of_list bs :: 'n::len fixed_bytes) = bs"
  by (simp add: as_bytes_fixed_of_list)

lemma as_bytes_fixed_repeat [simp]:
  "as_bytes (fixed_repeat b :: 'n::len fixed_bytes) = replicate LENGTH('n) b"
  by (simp add: fixed_repeat_def)

lemma fixed_from_slice_as_bytes [simp, decode_simps]:
  "fixed_from_slice (as_bytes x) = Inr x"
  by (simp add: fixed_from_slice_def)

lemma fixed_from_slice_Inr [result_simps]:
  "fixed_from_slice bs = Inr x \<longleftrightarrow> bs = as_bytes x"
  by (auto simp: fixed_from_slice_def)

lemma fixed_from_slice_Inl [result_simps]:
  "(fixed_from_slice bs :: byte_string_error + 'n::len fixed_bytes) = Inl e \<longleftrightarrow>
     length bs \<noteq> LENGTH('n) \<and> e = WrongLength LENGTH('n) (length bs)"
  by (auto simp: fixed_from_slice_def)

lemma fixed_repeat_inject [simp]:
  "(fixed_repeat a :: 'n::len fixed_bytes) = fixed_repeat b \<longleftrightarrow> a = b"
  by (simp flip: as_bytes_inject)

lemma as_bytes_append_inject [enc_inj]:
  fixes x y :: "'n::len fixed_bytes"
  shows "as_bytes x @ r = as_bytes y @ s \<longleftrightarrow> x = y \<and> r = s"
  by (simp add: as_bytes_inject)

instantiation fixed_bytes :: (len) equal
begin

definition equal_fixed_bytes :: "'a fixed_bytes \<Rightarrow> 'a fixed_bytes \<Rightarrow> bool" where
  "equal_fixed_bytes x y \<longleftrightarrow> as_bytes x = as_bytes y"

instance
  by standard (simp add: equal_fixed_bytes_def as_bytes_inject)

end

text \<open>\<open>derive(Ord)\<close> on an array compares lexicographically.\<close>

instantiation fixed_bytes :: (len) linorder
begin

definition less_eq_fixed_bytes :: "'a fixed_bytes \<Rightarrow> 'a fixed_bytes \<Rightarrow> bool" where
  "less_eq_fixed_bytes x y \<longleftrightarrow> as_bytes x \<le> as_bytes y"

definition less_fixed_bytes :: "'a fixed_bytes \<Rightarrow> 'a fixed_bytes \<Rightarrow> bool" where
  "less_fixed_bytes x y \<longleftrightarrow> as_bytes x < as_bytes y"

instance
  by standard (auto simp: less_eq_fixed_bytes_def less_fixed_bytes_def as_bytes_inject less_le_not_le)

end

lemma fixed_repeat_less [simp]:
  "(fixed_repeat a :: 'n::len fixed_bytes) < fixed_repeat b \<longleftrightarrow> a < b"
proof -
  obtain n where n: "LENGTH('n) = Suc n"
    using len_gt_0 [where 'a = 'n] by (cases "LENGTH('n)") auto
  show ?thesis
    unfolding less_fixed_bytes_def by (auto simp: n dest: less_imp_not_less)
qed

section \<open>Bounded bytes\<close>

typedef (overloaded) 'n bounded_bytes = "{bs :: bytes. length bs \<le> LENGTH('n::len)}"
  morphisms bounded_as_bytes Bounded_bytes
  by (rule exI [of _ "[]"]) simp

definition bounded_of_list :: "bytes \<Rightarrow> 'n::len bounded_bytes" where
  "bounded_of_list bs = Bounded_bytes (take LENGTH('n) bs)"

definition bounded_new :: "bytes \<Rightarrow> byte_string_error + 'n::len bounded_bytes" where
  "bounded_new bs =
     (if length bs > LENGTH('n) then Inl (TooLong LENGTH('n) (length bs))
      else Inr (bounded_of_list bs))"

definition bounded_is_empty :: "'n::len bounded_bytes \<Rightarrow> bool" where
  "bounded_is_empty x \<longleftrightarrow> bounded_as_bytes x = []"

definition bounded_len :: "'n::len bounded_bytes \<Rightarrow> nat" where
  "bounded_len x = length (bounded_as_bytes x)"

lemma length_bounded_as_bytes:
  "length (bounded_as_bytes (x :: 'n::len bounded_bytes)) \<le> LENGTH('n)"
  using bounded_as_bytes [of x] by simp

lemma Bounded_bytes_as_bytes [code abstype]: "Bounded_bytes (bounded_as_bytes x) = x"
  by (rule bounded_as_bytes_inverse)

lemma bounded_as_bytes_of_list [code abstract]:
  "bounded_as_bytes (bounded_of_list bs :: 'n::len bounded_bytes) = take LENGTH('n) bs"
  unfolding bounded_of_list_def by (rule Bounded_bytes_inverse) simp

lemma bounded_as_bytes_of_list_exact [simp]:
  "length bs \<le> LENGTH('n) \<Longrightarrow>
     bounded_as_bytes (bounded_of_list bs :: 'n::len bounded_bytes) = bs"
  by (simp add: bounded_as_bytes_of_list)

lemma bounded_of_list_as_bytes [simp]: "bounded_of_list (bounded_as_bytes x) = x"
  by (simp add: length_bounded_as_bytes flip: bounded_as_bytes_inject)

lemma bounded_new_Inr [result_simps]:
  "bounded_new bs = Inr x \<longleftrightarrow> bs = bounded_as_bytes x"
  using length_bounded_as_bytes [of x] by (auto simp: bounded_new_def)

lemma bounded_new_Inl [result_simps]:
  "(bounded_new bs :: byte_string_error + 'n::len bounded_bytes) = Inl e \<longleftrightarrow>
     LENGTH('n) < length bs \<and> e = TooLong LENGTH('n) (length bs)"
  by (auto simp: bounded_new_def)

instantiation bounded_bytes :: (len) equal
begin

definition equal_bounded_bytes :: "'a bounded_bytes \<Rightarrow> 'a bounded_bytes \<Rightarrow> bool" where
  "equal_bounded_bytes x y \<longleftrightarrow> bounded_as_bytes x = bounded_as_bytes y"

instance
  by standard (simp add: equal_bounded_bytes_def bounded_as_bytes_inject)

end

section \<open>Identifiers\<close>

typedef ident = "{bs :: bytes. length bs = 32 \<and> \<not> list_all (\<lambda>b. b = 0) bs}"
  morphisms id_bytes Identifier
  by (rule exI [of _ "replicate 32 1"]) (simp add: list_all_iff)

definition identifier_of_list :: "bytes \<Rightarrow> ident" where
  "identifier_of_list bs = Identifier
     (if length bs = 32 \<and> \<not> list_all (\<lambda>b. b = 0) bs then bs else replicate 32 1)"

definition identifier_from_bytes :: "32 fixed_bytes \<Rightarrow> byte_string_error + ident" where
  "identifier_from_bytes a =
     (if list_all (\<lambda>b. b = 0) (as_bytes a) then Inl ZeroIdentifier
      else Inr (identifier_of_list (as_bytes a)))"

text \<open>A sample identifier for closed examples: one byte repeated.\<close>

definition id_repeat :: "u8 \<Rightarrow> ident" where
  "id_repeat b = identifier_of_list (replicate 32 b)"

lemma length_id_bytes [simp]: "length (id_bytes x) = 32"
  using id_bytes [of x] by simp

lemma id_bytes_nonzero: "\<not> list_all (\<lambda>b. b = 0) (id_bytes x)"
  using id_bytes [of x] by simp

lemma Identifier_id_bytes [code abstype]: "Identifier (id_bytes x) = x"
  by (rule id_bytes_inverse)

lemma id_bytes_identifier_of_list [code abstract]:
  "id_bytes (identifier_of_list bs) =
     (if length bs = 32 \<and> \<not> list_all (\<lambda>b. b = 0) bs then bs else replicate 32 1)"
  unfolding identifier_of_list_def by (rule Identifier_inverse) (auto simp: list_all_iff)

lemma identifier_of_list_id_bytes [simp]: "identifier_of_list (id_bytes x) = x"
  by (simp add: id_bytes_identifier_of_list id_bytes_nonzero flip: id_bytes_inject)

lemma id_bytes_append_inject [enc_inj]:
  "id_bytes x @ r = id_bytes y @ s \<longleftrightarrow> x = y \<and> r = s"
  by (simp add: id_bytes_inject)

lemma identifier_from_bytes_Inr [result_simps]:
  "identifier_from_bytes a = Inr x \<longleftrightarrow> as_bytes a = id_bytes x"
  using id_bytes_nonzero [of x]
  by (auto simp: identifier_from_bytes_def id_bytes_identifier_of_list simp flip: id_bytes_inject)

lemma id_bytes_id_repeat: "b \<noteq> 0 \<Longrightarrow> id_bytes (id_repeat b) = replicate 32 b"
  by (simp add: id_repeat_def id_bytes_identifier_of_list list_all_iff)

lemma id_repeat_inject [simp]:
  "a \<noteq> 0 \<Longrightarrow> b \<noteq> 0 \<Longrightarrow> id_repeat a = id_repeat b \<longleftrightarrow> a = b"
  by (simp add: id_bytes_id_repeat flip: id_bytes_inject)

instantiation ident :: equal
begin

definition equal_ident :: "ident \<Rightarrow> ident \<Rightarrow> bool" where
  "equal_ident x y \<longleftrightarrow> id_bytes x = id_bytes y"

instance
  by standard (simp add: equal_ident_def id_bytes_inject)

end

instantiation ident :: linorder
begin

definition less_eq_ident :: "ident \<Rightarrow> ident \<Rightarrow> bool" where
  "less_eq_ident x y \<longleftrightarrow> id_bytes x \<le> id_bytes y"

definition less_ident :: "ident \<Rightarrow> ident \<Rightarrow> bool" where
  "less_ident x y \<longleftrightarrow> id_bytes x < id_bytes y"

instance
  by standard (auto simp: less_eq_ident_def less_ident_def id_bytes_inject less_le_not_le)

end

lemma id_repeat_less [simp]:
  "a \<noteq> 0 \<Longrightarrow> b \<noteq> 0 \<Longrightarrow> id_repeat a < id_repeat b \<longleftrightarrow> a < b"
  by (auto simp: less_ident_def id_bytes_id_repeat numeral_eq_Suc dest: less_imp_not_less)

end
