(* ===== verification/Jury_Canonical.thy ===== *)
theory Jury_Canonical
  imports Jury_Bytes
begin

text \<open>
  The canonical encoding primitives of \<open>jury-protocol/src/canonical.rs\<close> and their wrappers
  and digests in \<open>witness_v1/encoding.rs\<close>.

  A Rust encoder appends to \<open>output: &mut Vec<u8>\<close>. Its model returns the bytes it appends,
  so a sequence of appends is a chain of \<open>@\<close>, and an encoder that can fail (a length over
  \<open>u32::MAX\<close>) returns a result. SHA-256 is a parameter of the definitions that hash.

  The two locales state what a codec promises its users: followed by any rest, the encoded
  value and the rest can be told apart. Every primitive is an interpretation of one of them,
  and the resulting equations (\<open>enc_inj\<close>) make the injectivity of the large messages a
  matter of simplification.
\<close>

datatype length_overflow = LengthOverflow

section \<open>Primitives\<close>

definition jce_v1 :: "string \<Rightarrow> bytes" where
  "jce_v1 domain = str_bytes domain @ [0, 0, 1]"

definition u32be :: "nat \<Rightarrow> length_overflow + bytes" where
  "u32be value = ok_or LengthOverflow (map_option to_be_bytes (u32_try_from value))"

definition bytes_field :: "bytes \<Rightarrow> length_overflow + bytes" where
  "bytes_field value = and_then (u32be (length value)) (\<lambda>prefix. Inr (prefix @ value))"

definition list_bytes :: "bytes list \<Rightarrow> length_overflow + bytes" where
  "list_bytes values =
     and_then (u32be (length values)) (\<lambda>count.
     and_then (collect_results bytes_field values) (\<lambda>fields.
     Inr (count @ concat fields)))"

definition list_fixed :: "('a \<Rightarrow> bytes) \<Rightarrow> 'a list \<Rightarrow> length_overflow + bytes" where
  "list_fixed append_one values =
     and_then (u32be (length values)) (\<lambda>count.
     Inr (count @ concat (map append_one values)))"

definition optional_fixed :: "bytes option \<Rightarrow> bytes" where
  "optional_fixed value = (case value of None \<Rightarrow> [0] | Some v \<Rightarrow> 1 # v)"

definition optional_bytes :: "bytes option \<Rightarrow> length_overflow + bytes" where
  "optional_bytes value =
     (case value of
        None \<Rightarrow> Inr [0]
      | Some v \<Rightarrow> and_then (bytes_field v) (\<lambda>field. Inr (1 # field)))"

definition optional_u8 :: "u8 option \<Rightarrow> bytes" where
  "optional_u8 value = (case value of None \<Rightarrow> [0] | Some v \<Rightarrow> [1, v])"

definition optional_u64 :: "u64 option \<Rightarrow> bytes" where
  "optional_u64 value = (case value of None \<Rightarrow> [0] | Some v \<Rightarrow> 1 # to_be_bytes v)"

section \<open>What a codec promises\<close>

text \<open>A total encoder whose output can be told apart from whatever follows it.\<close>

locale prefix_codec =
  fixes enc :: "'a \<Rightarrow> bytes"
  assumes prefix_inject: "enc x @ r = enc y @ s \<longleftrightarrow> x = y \<and> r = s"
begin

lemma enc_inject: "enc x = enc y \<longleftrightarrow> x = y"
  using prefix_inject [of x "[]" y "[]"] by simp

lemma concat_inject:
  "length xs = length ys \<Longrightarrow>
     concat (map enc xs) @ r = concat (map enc ys) @ s \<longleftrightarrow> xs = ys \<and> r = s"
  by (induction xs ys rule: list_induct2) (auto simp: prefix_inject)

end

text \<open>A fallible encoder with the same promise where it succeeds.\<close>

locale fallible_codec =
  fixes try_enc :: "'a \<Rightarrow> 'e + bytes"
  assumes try_inject:
    "try_enc x = Inr p \<Longrightarrow> try_enc y = Inr q \<Longrightarrow> p @ r = q @ s \<Longrightarrow> x = y \<and> r = s"
begin

lemma try_enc_inject: "try_enc x = Inr p \<Longrightarrow> try_enc y = Inr p \<Longrightarrow> x = y"
  using try_inject [of x p y p "[]" "[]"] by simp

lemma collect_inject:
  assumes "collect_results try_enc xs = Inr ps" and "collect_results try_enc ys = Inr qs"
    and "length xs = length ys" and "concat ps @ r = concat qs @ s"
  shows "xs = ys \<and> r = s"
  using assms(3,1,2,4)
proof (induction xs ys arbitrary: ps qs rule: list_induct2)
  case Nil
  then show ?case by simp
next
  case (Cons x xs y ys)
  from Cons.prems obtain p ps' where p: "try_enc x = Inr p" "ps = p # ps'"
      "collect_results try_enc xs = Inr ps'"
    by (auto simp: and_then_Inr)
  from Cons.prems obtain q qs' where q: "try_enc y = Inr q" "qs = q # qs'"
      "collect_results try_enc ys = Inr qs'"
    by (auto simp: and_then_Inr)
  from Cons.prems p q have "x = y" and "concat ps' @ r = concat qs' @ s"
    using try_inject [of x p y q "concat ps' @ r" "concat qs' @ s"] by auto
  with Cons.IH p q show ?case by blast
qed

lemma collect_unique:
  assumes "collect_results try_enc xs = Inr ps" and "collect_results try_enc ys = Inr ps"
  shows "xs = ys"
  using collect_inject [OF assms, of "[]" "[]"] assms by (metis collect_results_length)

end

sublocale prefix_codec \<subseteq> total: fallible_codec "\<lambda>x. Inr (enc x)"
  by unfold_locales (auto simp: prefix_inject)

section \<open>The primitives keep the promise\<close>

lemma to_be_bytes_prefix_inject:
  fixes x y :: "'a::len word"
  assumes "8 dvd LENGTH('a)"
  shows "to_be_bytes x @ r = to_be_bytes y @ s \<longleftrightarrow> x = y \<and> r = s"
proof -
  have "x = y" if "to_be_bytes x = to_be_bytes y"
    using that from_to_be_bytes [OF assms] by metis
  then show ?thesis by auto
qed

interpretation be_u16: prefix_codec "to_be_bytes :: u16 \<Rightarrow> bytes"
  by unfold_locales (rule to_be_bytes_prefix_inject, simp)

interpretation be_u32: prefix_codec "to_be_bytes :: u32 \<Rightarrow> bytes"
  by unfold_locales (rule to_be_bytes_prefix_inject, simp)

interpretation be_u64: prefix_codec "to_be_bytes :: u64 \<Rightarrow> bytes"
  by unfold_locales (rule to_be_bytes_prefix_inject, simp)

interpretation fixed_codec: prefix_codec "as_bytes :: 'n::len fixed_bytes \<Rightarrow> bytes"
  by unfold_locales (rule as_bytes_append_inject)

interpretation ident_codec: prefix_codec id_bytes
  by unfold_locales (rule id_bytes_append_inject)

interpretation opt_u8: prefix_codec optional_u8
  by unfold_locales (auto simp: optional_u8_def split: option.splits)

interpretation opt_u64: prefix_codec optional_u64
  by unfold_locales (auto simp: optional_u64_def be_u64.prefix_inject split: option.splits)

interpretation opt_fixed: prefix_codec
  "\<lambda>v :: 'n::len fixed_bytes option. optional_fixed (map_option as_bytes v)"
  by unfold_locales
    (auto simp: optional_fixed_def fixed_codec.prefix_inject split: option.splits)

interpretation opt_ident: prefix_codec "\<lambda>v. optional_fixed (map_option id_bytes v)"
  by unfold_locales
    (auto simp: optional_fixed_def ident_codec.prefix_inject split: option.splits)

lemmas prefix_codec_inj [enc_inj] =
  be_u16.prefix_inject be_u32.prefix_inject be_u64.prefix_inject
  opt_u8.prefix_inject opt_u64.prefix_inject opt_fixed.prefix_inject opt_ident.prefix_inject
  be_u16.enc_inject be_u32.enc_inject be_u64.enc_inject fixed_codec.enc_inject
  ident_codec.enc_inject opt_u8.enc_inject opt_u64.enc_inject opt_fixed.enc_inject
  opt_ident.enc_inject

lemma u32be_Inr [result_simps]:
  "u32be n = Inr p \<longleftrightarrow> n < 2 ^ 32 \<and> p = to_be_bytes (of_nat n :: u32)"
  by (auto simp: u32be_def ok_or_Inr u32_try_from_Some)

lemma u32be_Inl [result_simps]: "u32be n = Inl e \<longleftrightarrow> 2 ^ 32 \<le> n"
  by (cases e) (auto simp: u32be_def ok_or_Inl u32_try_from_def)

text \<open>Equal length prefixes mean equal lengths.\<close>

lemma u32be_inject:
  assumes "u32be m = Inr p" and "u32be n = Inr q" and "p @ r = q @ s"
  shows "m = n \<and> r = s"
proof -
  from assms(1,2) have p: "p = to_be_bytes (of_nat m :: u32)" "m < 2 ^ 32"
    and q: "q = to_be_bytes (of_nat n :: u32)" "n < 2 ^ 32"
    by (simp_all only: u32be_Inr)
  from assms(3) have "(of_nat m :: u32) = of_nat n \<and> r = s"
    by (simp only: p(1) q(1) be_u32.prefix_inject)
  then show ?thesis
    using p(2) q(2) by (simp add: word_of_nat_eq_iff take_bit_nat_eq_self)
qed

interpretation len_prefix: fallible_codec u32be
  by unfold_locales (rule u32be_inject)

lemma bytes_field_Inr:
  "bytes_field v = Inr p \<longleftrightarrow> length v < 2 ^ 32 \<and> p = to_be_bytes (of_nat (length v) :: u32) @ v"
  by (auto simp: bytes_field_def result_simps)

lemma bytes_field_Inl [result_simps]: "bytes_field v = Inl e \<longleftrightarrow> 2 ^ 32 \<le> length v"
  by (auto simp: bytes_field_def result_simps)

interpretation field_codec: fallible_codec bytes_field
proof
  fix x p y q r s
  assume "bytes_field x = Inr p" and "bytes_field y = Inr q" and eq: "p @ r = q @ s"
  then have "u32be (length x) = Inr (to_be_bytes (of_nat (length x) :: u32))"
    and "u32be (length y) = Inr (to_be_bytes (of_nat (length y) :: u32))"
    and "to_be_bytes (of_nat (length x) :: u32) @ x @ r =
      to_be_bytes (of_nat (length y) :: u32) @ y @ s"
    by (simp_all only: bytes_field_Inr u32be_Inr append_assoc)
  then have "length x = length y \<and> x @ r = y @ s"
    by (rule u32be_inject)
  then show "x = y \<and> r = s"
    by (metis append_eq_append_conv)
qed

interpretation list_field_codec: fallible_codec list_bytes
proof
  fix xs p ys q r s
  assume x: "list_bytes xs = Inr p" and y: "list_bytes ys = Inr q" and eq: "p @ r = q @ s"
  obtain c ps where ps: "u32be (length xs) = Inr c" "collect_results bytes_field xs = Inr ps"
      "p = c @ concat ps"
    using x by (auto simp: list_bytes_def and_then_Inr)
  obtain d qs where qs: "u32be (length ys) = Inr d" "collect_results bytes_field ys = Inr qs"
      "q = d @ concat qs"
    using y by (auto simp: list_bytes_def and_then_Inr)
  have "length xs = length ys \<and> concat ps @ r = concat qs @ s"
    using u32be_inject [OF ps(1) qs(1)] eq ps(3) qs(3) by simp
  then show "xs = ys \<and> r = s"
    using field_codec.collect_inject [OF ps(2) qs(2)] by blast
qed

interpretation opt_field_codec: fallible_codec optional_bytes
proof
  fix x p y q r s
  assume "optional_bytes x = Inr p" and "optional_bytes y = Inr q" and "p @ r = q @ s"
  then show "x = y \<and> r = s"
    by (cases x; cases y)
      (auto simp: optional_bytes_def and_then_Inr dest: field_codec.try_inject [rotated 2])
qed

lemma list_fixed_inject:
  assumes codec: "prefix_codec enc"
    and "list_fixed enc xs = Inr p" and "list_fixed enc ys = Inr q" and "p @ r = q @ s"
  shows "xs = ys \<and> r = s"
proof -
  obtain c d where c: "u32be (length xs) = Inr c" "p = c @ concat (map enc xs)"
    and d: "u32be (length ys) = Inr d" "q = d @ concat (map enc ys)"
    using assms by (auto simp: list_fixed_def and_then_Inr)
  have "length xs = length ys \<and> concat (map enc xs) @ r = concat (map enc ys) @ s"
    using u32be_inject [OF c(1) d(1)] assms(4) c(2) d(2) by simp
  then show ?thesis
    using prefix_codec.concat_inject [OF codec] by blast
qed

section \<open>Framed values\<close>

text \<open>
  What the fallible encoders write when they succeed, as total functions with the length
  bound beside them, so that an equation between two messages simplifies field by field.
\<close>

definition framable :: "'a list \<Rightarrow> bool" where
  "framable v \<longleftrightarrow> length v < 2 ^ 32"

definition frame :: "bytes \<Rightarrow> bytes" where
  "frame v = to_be_bytes (of_nat (length v) :: u32) @ v"

definition frame_list :: "('a \<Rightarrow> bytes) \<Rightarrow> 'a list \<Rightarrow> bytes" where
  "frame_list enc xs = to_be_bytes (of_nat (length xs) :: u32) @ concat (map enc xs)"

definition frame_option :: "bytes option \<Rightarrow> bytes" where
  "frame_option v = (case v of None \<Rightarrow> [0] | Some x \<Rightarrow> 1 # frame x)"

lemma bytes_field_frame [result_simps]: "bytes_field v = Inr p \<longleftrightarrow> framable v \<and> p = frame v"
  by (simp only: bytes_field_Inr framable_def frame_def)

lemma list_fixed_frame [result_simps]:
  "list_fixed enc xs = Inr p \<longleftrightarrow> framable xs \<and> p = frame_list enc xs"
  by (auto simp: list_fixed_def and_then_Inr u32be_Inr framable_def frame_list_def)

lemma optional_bytes_frame [result_simps]:
  "optional_bytes v = Inr p \<longleftrightarrow> pred_option framable v \<and> p = frame_option v"
  by (cases v) (auto simp: optional_bytes_def and_then_Inr bytes_field_frame frame_option_def)

lemma collect_frames:
  "collect_results bytes_field vs = Inr ps \<longleftrightarrow> list_all framable vs \<and> ps = map frame vs"
  by (induction vs arbitrary: ps) (auto simp: and_then_Inr bytes_field_frame)

lemma list_bytes_frame [result_simps]:
  "list_bytes vs = Inr p \<longleftrightarrow> framable vs \<and> list_all framable vs \<and> p = frame_list frame vs"
  by (auto simp: list_bytes_def and_then_Inr u32be_Inr collect_frames framable_def frame_list_def)

lemma framed_inject [enc_inj]:
  assumes "framable v" and "framable w"
  shows "frame v @ r = frame w @ s \<longleftrightarrow> v = w \<and> r = s" and "frame v = frame w \<longleftrightarrow> v = w"
proof -
  have ok: "bytes_field v = Inr (frame v)" "bytes_field w = Inr (frame w)"
    using assms by (simp_all only: bytes_field_frame simp_thms)
  show "frame v @ r = frame w @ s \<longleftrightarrow> v = w \<and> r = s"
    using field_codec.try_inject [OF ok] by auto
  show "frame v = frame w \<longleftrightarrow> v = w"
    using field_codec.try_inject [OF ok, of "[]" "[]"] by auto
qed

lemma frame_option_inject [enc_inj]:
  assumes "pred_option framable v" and "pred_option framable w"
  shows "frame_option v @ r = frame_option w @ s \<longleftrightarrow> v = w \<and> r = s"
    and "frame_option v = frame_option w \<longleftrightarrow> v = w"
proof -
  have ok: "optional_bytes v = Inr (frame_option v)" "optional_bytes w = Inr (frame_option w)"
    using assms by (simp_all only: optional_bytes_frame simp_thms)
  show "frame_option v @ r = frame_option w @ s \<longleftrightarrow> v = w \<and> r = s"
    using opt_field_codec.try_inject [OF ok] by auto
  show "frame_option v = frame_option w \<longleftrightarrow> v = w"
    using opt_field_codec.try_inject [OF ok, of "[]" "[]"] by auto
qed

lemma frame_list_inject [enc_inj]:
  assumes "prefix_codec enc" and "framable xs" and "framable ys"
  shows "frame_list enc xs @ r = frame_list enc ys @ s \<longleftrightarrow> xs = ys \<and> r = s"
    and "frame_list enc xs = frame_list enc ys \<longleftrightarrow> xs = ys"
proof -
  have ok: "list_fixed enc xs = Inr (frame_list enc xs)" "list_fixed enc ys = Inr (frame_list enc ys)"
    using assms(2,3) by (simp_all only: list_fixed_frame simp_thms)
  show "frame_list enc xs @ r = frame_list enc ys @ s \<longleftrightarrow> xs = ys \<and> r = s"
    using list_fixed_inject [OF assms(1) ok] by auto
  show "frame_list enc xs = frame_list enc ys \<longleftrightarrow> xs = ys"
    using list_fixed_inject [OF assms(1) ok, of "[]" "[]"] by auto
qed

lemma frame_list_frame_inject [enc_inj]:
  assumes "framable vs" "list_all framable vs" "framable ws" "list_all framable ws"
  shows "frame_list frame vs @ r = frame_list frame ws @ s \<longleftrightarrow> vs = ws \<and> r = s"
    and "frame_list frame vs = frame_list frame ws \<longleftrightarrow> vs = ws"
proof -
  have ok: "list_bytes vs = Inr (frame_list frame vs)" "list_bytes ws = Inr (frame_list frame ws)"
    using assms by (simp_all only: list_bytes_frame simp_thms)
  show "frame_list frame vs @ r = frame_list frame ws @ s \<longleftrightarrow> vs = ws \<and> r = s"
    using list_field_codec.try_inject [OF ok] by auto
  show "frame_list frame vs = frame_list frame ws \<longleftrightarrow> vs = ws"
    using list_field_codec.try_inject [OF ok, of "[]" "[]"] by auto
qed

lemmas prefix_codec_instances [enc_inj] =
  be_u16.prefix_codec_axioms be_u32.prefix_codec_axioms be_u64.prefix_codec_axioms
  fixed_codec.prefix_codec_axioms ident_codec.prefix_codec_axioms

section \<open>Domain separation\<close>

definition nul_free :: "string \<Rightarrow> bool" where
  "nul_free domain \<longleftrightarrow> list_all (\<lambda>b. b \<noteq> 0) (str_bytes domain)"

lemma split_at_zero:
  fixes a b :: bytes
  assumes "list_all (\<lambda>x. x \<noteq> 0) a" and "list_all (\<lambda>x. x \<noteq> 0) b" and "a @ 0 # r = b @ 0 # s"
  shows "a = b \<and> r = s"
  using assms
proof (induction a arbitrary: b)
  case Nil
  then show ?case by (cases b) auto
next
  case (Cons x a)
  then show ?case by (cases b) auto
qed

text \<open>
  Two hashed or signed strings with different NUL-free domains never coincide, whatever
  follows the domain: no domain is a prefix of another once \<open>jce_v1\<close> has closed it.
\<close>

lemma jce_v1_prefix_inject:
  assumes "nul_free d" and "nul_free e"
  shows "jce_v1 d @ r = jce_v1 e @ s \<longleftrightarrow> d = e \<and> r = s"
proof
  assume "jce_v1 d @ r = jce_v1 e @ s"
  then have "str_bytes d @ 0 # 0 # 1 # r = str_bytes e @ 0 # 0 # 1 # s"
    by (simp add: jce_v1_def)
  then have "str_bytes d = str_bytes e \<and> 0 # 1 # r = 0 # 1 # s"
    using assms unfolding nul_free_def by (intro split_at_zero)
  then show "d = e \<and> r = s" by simp
qed simp

lemma jce_v1_same_domain [enc_inj]: "jce_v1 d @ r = jce_v1 d @ s \<longleftrightarrow> r = s"
  by simp

end
