(* ===== verification/Jury_Encoding.thy ===== *)
theory Jury_Encoding
  imports Jury_Canonical
begin

text \<open>
  The shared encoding code of the witness protocol, \<open>witness_v1/encoding.rs\<close>: the error
  type, the wrappers that turn a length overflow into \<open>CapacityExhausted\<close>, the digests, the
  request time window, and \<open>CanonicalInput\<close>, the reader that takes a canonical message apart.

  SHA-256 is the parameter \<open>H\<close> of the digests. \<open>CanonicalInput\<close> is the record of a byte
  slice and an offset; a reader returns the value read and the advanced input, or an error.
\<close>

datatype witness_protocol_error =
    InvalidFormat
  | InvalidOrdering
  | InvalidDigest
  | InvalidScope
  | InvalidTime
  | CapacityExhausted

type_synonym digest32 = "32 fixed_bytes"
type_synonym signature64 = "64 fixed_bytes"
type_synonym verification_public_key32 = "32 fixed_bytes"
type_synonym recipient_public_key1216 = "1216 fixed_bytes"
type_synonym hash_fun = "bytes \<Rightarrow> digest32"

section \<open>Wrappers and digests\<close>

definition w_bytes_field :: "bytes \<Rightarrow> witness_protocol_error + bytes" where
  "w_bytes_field value = map_err (\<lambda>_. CapacityExhausted) (bytes_field value)"

definition w_list_bytes :: "bytes list \<Rightarrow> witness_protocol_error + bytes" where
  "w_list_bytes values = map_err (\<lambda>_. CapacityExhausted) (list_bytes values)"

definition w_list_fixed :: "('a \<Rightarrow> bytes) \<Rightarrow> 'a list \<Rightarrow> witness_protocol_error + bytes" where
  "w_list_fixed append_one values =
     map_err (\<lambda>_. CapacityExhausted) (list_fixed append_one values)"

definition w_optional_bytes :: "bytes option \<Rightarrow> witness_protocol_error + bytes" where
  "w_optional_bytes value = map_err (\<lambda>_. CapacityExhausted) (optional_bytes value)"

definition hash_bytes :: "hash_fun \<Rightarrow> string \<Rightarrow> bytes \<Rightarrow> witness_protocol_error + digest32" where
  "hash_bytes H domain body =
     and_then (w_bytes_field body) (\<lambda>field. Inr (H (jce_v1 domain @ field)))"

definition hash_signed ::
    "hash_fun \<Rightarrow> string \<Rightarrow> bytes \<Rightarrow> signature64 \<Rightarrow> witness_protocol_error + digest32" where
  "hash_signed H domain signature_preimage signature =
     and_then (w_bytes_field signature_preimage) (\<lambda>field.
     Inr (H (jce_v1 domain @ field @ as_bytes signature)))"

definition signing_key_fingerprint ::
    "hash_fun \<Rightarrow> u8 \<Rightarrow> ident \<Rightarrow> u64 \<Rightarrow> verification_public_key32 \<Rightarrow> digest32" where
  "signing_key_fingerprint H role_tag subject_id key_epoch public_key =
     H (jce_v1 ''jury-witness-v1/signing-key/fingerprint'' @ [role_tag] @ id_bytes subject_id @
        to_be_bytes key_epoch @ as_bytes public_key)"

definition max_request_lifetime_ms :: u64 where
  "max_request_lifetime_ms = 900000"

definition valid_interval :: "u64 \<Rightarrow> u64 option \<Rightarrow> u64 \<Rightarrow> bool" where
  "valid_interval issued_at_ms not_before_ms expires_at_ms \<longleftrightarrow>
     issued_at_ms > 0 \<and>
     (case checked_sub expires_at_ms issued_at_ms of
        None \<Rightarrow> False
      | Some lifetime \<Rightarrow> 1 \<le> lifetime \<and> lifetime \<le> max_request_lifetime_ms) \<and>
     (case not_before_ms of
        None \<Rightarrow> True
      | Some not_before \<Rightarrow> issued_at_ms \<le> not_before \<and> not_before \<le> expires_at_ms)"

interpretation w_field_codec: fallible_codec w_bytes_field
  by unfold_locales (auto simp: w_bytes_field_def map_err_Inr dest: field_codec.try_inject)

interpretation w_list_codec: fallible_codec w_list_bytes
  by unfold_locales (auto simp: w_list_bytes_def map_err_Inr dest: list_field_codec.try_inject)

interpretation w_opt_codec: fallible_codec w_optional_bytes
  by unfold_locales (auto simp: w_optional_bytes_def map_err_Inr dest: opt_field_codec.try_inject)

lemma w_list_fixed_inject:
  assumes "prefix_codec enc" and "w_list_fixed enc xs = Inr p" and "w_list_fixed enc ys = Inr q"
    and "p @ r = q @ s"
  shows "xs = ys \<and> r = s"
  using assms by (auto simp: w_list_fixed_def map_err_Inr dest: list_fixed_inject)

lemma w_bytes_field_Inr [result_simps]:
  "w_bytes_field v = Inr p \<longleftrightarrow> framable v \<and> p = frame v"
  by (simp only: w_bytes_field_def map_err_Inr bytes_field_frame)

lemma w_list_fixed_Inr [result_simps]:
  "w_list_fixed enc xs = Inr p \<longleftrightarrow> framable xs \<and> p = frame_list enc xs"
  by (simp only: w_list_fixed_def map_err_Inr list_fixed_frame)

lemma w_list_bytes_Inr [result_simps]:
  "w_list_bytes vs = Inr p \<longleftrightarrow> framable vs \<and> list_all framable vs \<and> p = frame_list frame vs"
  by (simp only: w_list_bytes_def map_err_Inr list_bytes_frame)

lemma w_optional_bytes_Inr [result_simps]:
  "w_optional_bytes v = Inr p \<longleftrightarrow> pred_option framable v \<and> p = frame_option v"
  by (simp only: w_optional_bytes_def map_err_Inr optional_bytes_frame)

text \<open>
  Two inputs of \<open>H\<close> that collide. Collisions exist for every \<open>H\<close>, so the digest lemmas
  never speak of a collision somewhere: they name the two inputs, the ones the code hashes
  for the two messages. \<open>body_input\<close> and \<open>signed_input\<close> are those inputs, and the three
  predicates below say that the inputs computed for \<open>a\<close> and \<open>b\<close> collide.
\<close>

definition collision :: "hash_fun \<Rightarrow> bytes \<Rightarrow> bytes \<Rightarrow> bool" where
  "collision H x y \<longleftrightarrow> x \<noteq> y \<and> H x = H y"

definition body_input :: "string \<Rightarrow> bytes \<Rightarrow> bytes" where
  "body_input domain body = jce_v1 domain @ frame body"

definition signed_input :: "string \<Rightarrow> bytes \<Rightarrow> signature64 \<Rightarrow> bytes" where
  "signed_input domain preimage signature = jce_v1 domain @ frame preimage @ as_bytes signature"

definition raw_collision :: "hash_fun \<Rightarrow> ('a \<Rightarrow> 'e + bytes) \<Rightarrow> 'a \<Rightarrow> 'a \<Rightarrow> bool" where
  "raw_collision H pre a b \<longleftrightarrow> (\<exists>p q. pre a = Inr p \<and> pre b = Inr q \<and> collision H p q)"

definition body_collision ::
    "hash_fun \<Rightarrow> string \<Rightarrow> ('a \<Rightarrow> 'e + bytes) \<Rightarrow> 'a \<Rightarrow> 'a \<Rightarrow> bool" where
  "body_collision H d body a b \<longleftrightarrow> (\<exists>p q. body a = Inr p \<and> body b = Inr q \<and>
     collision H (body_input d p) (body_input d q))"

definition signed_collision ::
    "hash_fun \<Rightarrow> string \<Rightarrow> ('a \<Rightarrow> 'e + bytes) \<Rightarrow> ('a \<Rightarrow> signature64) \<Rightarrow> 'a \<Rightarrow> 'a \<Rightarrow> bool" where
  "signed_collision H d pre sig a b \<longleftrightarrow> (\<exists>p q. pre a = Inr p \<and> pre b = Inr q \<and>
     collision H (signed_input d p (sig a)) (signed_input d q (sig b)))"

lemma hash_bytes_Inr:
  "hash_bytes H d b = Inr h \<longleftrightarrow> framable b \<and> h = H (body_input d b)"
  by (auto simp: hash_bytes_def and_then_Inr w_bytes_field_Inr body_input_def)

lemma hash_signed_Inr:
  "hash_signed H d m s = Inr h \<longleftrightarrow> framable m \<and> h = H (signed_input d m s)"
  by (auto simp: hash_signed_def and_then_Inr w_bytes_field_Inr signed_input_def)

lemma encoders_run [run_simps]:
  "framable v \<Longrightarrow> w_bytes_field v = Inr (frame v)"
  "framable xs \<Longrightarrow> w_list_fixed enc xs = Inr (frame_list enc xs)"
  "framable vs \<Longrightarrow> list_all framable vs \<Longrightarrow> w_list_bytes vs = Inr (frame_list frame vs)"
  "pred_option framable w \<Longrightarrow> w_optional_bytes w = Inr (frame_option w)"
  "framable b \<Longrightarrow> hash_bytes H d b = Inr (H (body_input d b))"
  "framable m \<Longrightarrow> hash_signed H d m s = Inr (H (signed_input d m s))"
  by (simp_all add: w_bytes_field_Inr w_list_fixed_Inr w_list_bytes_Inr w_optional_bytes_Inr
      hash_bytes_Inr hash_signed_Inr)

lemmas frame_run [run_simps] =
  framable_def frame_def frame_list_def frame_option_def optional_fixed_def optional_u8_def
  optional_u64_def jce_v1_def str_bytes_def

lemma body_input_inject:
  "framable b \<Longrightarrow> framable c \<Longrightarrow> body_input d b = body_input d c \<longleftrightarrow> b = c"
  by (simp add: body_input_def framed_inject)

lemma signed_input_inject:
  "framable b \<Longrightarrow> framable c \<Longrightarrow>
     signed_input d b s = signed_input d c t \<longleftrightarrow> b = c \<and> s = t"
  by (simp add: signed_input_def framed_inject as_bytes_inject)

text \<open>Equal digests of two bodies, and of two signed messages.\<close>

lemma hash_bytes_message_binds:
  assumes "and_then (body a) (\<lambda>m. hash_bytes H d m) = Inr h"
    and "and_then (body b) (\<lambda>m. hash_bytes H d m) = Inr h"
    and "\<And>x. body a = Inr x \<Longrightarrow> body b = Inr x \<Longrightarrow> a = b"
  shows "a = b \<or> body_collision H d body a b"
proof -
  obtain p q where p: "body a = Inr p" "framable p" "h = H (body_input d p)"
    and q: "body b = Inr q" "framable q" "h = H (body_input d q)"
    using assms(1,2) by (auto simp: and_then_Inr hash_bytes_Inr)
  show ?thesis
    using assms(3) p q body_input_inject [of p q d]
    by (cases "p = q") (auto simp: body_collision_def collision_def)
qed

lemma hash_signed_message_binds:
  assumes "and_then (pre a) (\<lambda>m. hash_signed H d m (sig a)) = Inr h"
    and "and_then (pre b) (\<lambda>m. hash_signed H d m (sig b)) = Inr h"
    and "\<And>x. pre a = Inr x \<Longrightarrow> pre b = Inr x \<Longrightarrow> sig a = sig b \<Longrightarrow> a = b"
  shows "a = b \<or> signed_collision H d pre sig a b"
proof -
  obtain p q where p: "pre a = Inr p" "framable p" "h = H (signed_input d p (sig a))"
    and q: "pre b = Inr q" "framable q" "h = H (signed_input d q (sig b))"
    using assms(1,2) by (auto simp: and_then_Inr hash_signed_Inr)
  show ?thesis
    using assms(3) p q signed_input_inject [of p q d "sig a" "sig b"]
    by (cases "p = q \<and> sig a = sig b") (auto simp: signed_collision_def collision_def)
qed

lemma raw_hash_binds:
  assumes "and_then (pre a) (\<lambda>m. Inr (H m)) = Inr h" and "and_then (pre b) (\<lambda>m. Inr (H m)) = Inr h"
    and "\<And>x. pre a = Inr x \<Longrightarrow> pre b = Inr x \<Longrightarrow> f a = f b"
  shows "f a = f b \<or> raw_collision H pre a b"
proof -
  obtain p q where p: "pre a = Inr p" "h = H p" and q: "pre b = Inr q" "h = H q"
    using assms(1,2) by (auto simp: and_then_Inr)
  show ?thesis
    using assms(3) p q by (cases "p = q") (auto simp: raw_collision_def collision_def)
qed

section \<open>The reader of canonical messages\<close>

record canonical_input =
  ci_bytes :: bytes
  ci_offset :: nat

type_synonym 'a reader = "canonical_input \<Rightarrow> witness_protocol_error + ('a \<times> canonical_input)"

definition read_then :: "witness_protocol_error + ('a \<times> canonical_input) \<Rightarrow>
    ('a \<Rightarrow> canonical_input \<Rightarrow> witness_protocol_error + 'b) \<Rightarrow> witness_protocol_error + 'b" where
  "read_then m f = and_then m (\<lambda>(value, input). f value input)"

definition ci_new :: "bytes \<Rightarrow> canonical_input" where
  "ci_new bs = \<lparr>ci_bytes = bs, ci_offset = 0\<rparr>"

definition ci_take :: "nat \<Rightarrow> bytes reader" where
  "ci_take n input =
     (case usize_checked_add (ci_offset input) n of
        None \<Rightarrow> Inl InvalidFormat
      | Some finish \<Rightarrow>
          if finish \<le> length (ci_bytes input)
          then Inr (take (finish - ci_offset input) (drop (ci_offset input) (ci_bytes input)),
                    input\<lparr>ci_offset := finish\<rparr>)
          else Inl InvalidFormat)"

definition ci_domain :: "string \<Rightarrow> unit reader" where
  "ci_domain domain input =
     (let expected = jce_v1 domain in
      read_then (ci_take (length expected) input) (\<lambda>actual input'.
      if actual \<noteq> expected then Inl InvalidFormat else Inr ((), input')))"

definition ci_u8 :: "u8 reader" where
  "ci_u8 input = read_then (ci_take 1 input) (\<lambda>bs input'. Inr (hd bs, input'))"

definition ci_u16 :: "u16 reader" where
  "ci_u16 input = read_then (ci_take 2 input) (\<lambda>bs input'. Inr (from_be_bytes bs, input'))"

definition ci_u32 :: "u32 reader" where
  "ci_u32 input = read_then (ci_take 4 input) (\<lambda>bs input'. Inr (from_be_bytes bs, input'))"

definition ci_u64 :: "u64 reader" where
  "ci_u64 input = read_then (ci_take 8 input) (\<lambda>bs input'. Inr (from_be_bytes bs, input'))"

definition ci_optional_u64 :: "u64 option reader" where
  "ci_optional_u64 input =
     read_then (ci_u8 input) (\<lambda>tag input'.
     if tag = 0 then Inr (None, input')
     else if tag = 1 then
       read_then (ci_u64 input') (\<lambda>value input''. Inr (Some value, input''))
     else Inl InvalidFormat)"

definition ci_fixed :: "'n::len fixed_bytes reader" where
  "ci_fixed input =
     read_then (ci_take LENGTH('n) input) (\<lambda>bs input'.
     and_then (map_err (\<lambda>_. InvalidFormat) (fixed_from_slice bs)) (\<lambda>value. Inr (value, input')))"

definition ci_identifier :: "ident reader" where
  "ci_identifier input =
     read_then (ci_take 32 input) (\<lambda>bs input'.
     and_then (map_err (\<lambda>_. InvalidFormat) (fixed_from_slice bs)) (\<lambda>array.
     and_then (map_err (\<lambda>_. InvalidFormat) (identifier_from_bytes array)) (\<lambda>value.
     Inr (value, input'))))"

definition ci_length :: "nat \<Rightarrow> nat reader" where
  "ci_length maximum input =
     read_then (ci_u32 input) (\<lambda>value input'.
     let n = unat value in
     if n > maximum then Inl CapacityExhausted else Inr (n, input'))"

definition ci_finish :: "canonical_input \<Rightarrow> witness_protocol_error + unit" where
  "ci_finish input =
     (if ci_offset input = length (ci_bytes input) then Inr () else Inl InvalidFormat)"

text \<open>\<open>for _ in 0..count\<close>, collecting what one reader returns.\<close>

fun ci_repeat :: "nat \<Rightarrow> 'a reader \<Rightarrow> 'a list reader" where
  "ci_repeat 0 one input = Inr ([], input)"
| "ci_repeat (Suc n) one input =
     read_then (one input) (\<lambda>x input'.
     read_then (ci_repeat n one input') (\<lambda>xs input''. Inr (x # xs, input'')))"

subsection \<open>Reading back what was written\<close>

text \<open>
  The reader between what it has consumed and what is left. A slice in memory is shorter
  than \<open>2\<^sup>6\<^sup>4\<close> bytes, so the offset arithmetic of \<open>take\<close> never overflows.
\<close>

definition ci_at :: "bytes \<Rightarrow> bytes \<Rightarrow> canonical_input" where
  "ci_at consumed rest = \<lparr>ci_bytes = consumed @ rest, ci_offset = length consumed\<rparr>"

definition addressable :: "bytes \<Rightarrow> bool" where
  "addressable bs \<longleftrightarrow> length bs < 2 ^ 64"

lemma ci_new_at: "ci_new bs = ci_at [] bs"
  by (simp add: ci_new_def ci_at_def)

lemma read_then_Inr [simp]: "read_then (Inr (x, input)) f = f x input"
  by (simp add: read_then_def)

lemma read_then_Inl [simp]: "read_then (Inl e) f = Inl e"
  by (simp add: read_then_def)

lemma ci_take_at [decode_simps]:
  assumes "addressable (consumed @ xs @ rest)" and "length xs = n"
  shows "ci_take n (ci_at consumed (xs @ rest)) = Inr (xs, ci_at (consumed @ xs) rest)"
  using assms by (auto simp: ci_take_def ci_at_def addressable_def usize_checked_add_def)

lemma ci_domain_at [decode_simps]:
  "addressable (consumed @ jce_v1 d @ rest) \<Longrightarrow>
     ci_domain d (ci_at consumed (jce_v1 d @ rest)) = Inr ((), ci_at (consumed @ jce_v1 d) rest)"
  by (simp add: ci_domain_def ci_take_at)

lemma ci_u8_at [decode_simps]:
  "addressable (consumed @ b # rest) \<Longrightarrow>
     ci_u8 (ci_at consumed (b # rest)) = Inr (b, ci_at (consumed @ [b]) rest)"
  using ci_take_at [of consumed "[b]" rest 1] by (simp add: ci_u8_def)

lemma ci_u16_at [decode_simps]:
  "addressable (consumed @ to_be_bytes w @ rest) \<Longrightarrow>
     ci_u16 (ci_at consumed (to_be_bytes w @ rest)) = Inr (w, ci_at (consumed @ to_be_bytes w) rest)"
  by (simp add: ci_u16_def ci_take_at)

lemma ci_u32_at [decode_simps]:
  "addressable (consumed @ to_be_bytes w @ rest) \<Longrightarrow>
     ci_u32 (ci_at consumed (to_be_bytes w @ rest)) = Inr (w, ci_at (consumed @ to_be_bytes w) rest)"
  by (simp add: ci_u32_def ci_take_at)

lemma ci_u64_at [decode_simps]:
  "addressable (consumed @ to_be_bytes w @ rest) \<Longrightarrow>
     ci_u64 (ci_at consumed (to_be_bytes w @ rest)) = Inr (w, ci_at (consumed @ to_be_bytes w) rest)"
  by (simp add: ci_u64_def ci_take_at)

lemma ci_optional_u64_at [decode_simps]:
  "addressable (consumed @ optional_u64 v @ rest) \<Longrightarrow>
     ci_optional_u64 (ci_at consumed (optional_u64 v @ rest)) =
       Inr (v, ci_at (consumed @ optional_u64 v) rest)"
proof (cases v)
  case None
  then show ?thesis if "addressable (consumed @ optional_u64 v @ rest)"
    using that by (simp add: optional_u64_def ci_optional_u64_def ci_u8_at)
next
  case (Some w)
  then show ?thesis if "addressable (consumed @ optional_u64 v @ rest)"
    using that ci_u64_at [of "consumed @ [1]" w rest]
    by (simp add: optional_u64_def ci_optional_u64_def ci_u8_at)
qed

lemma ci_fixed_at [decode_simps]:
  "addressable (consumed @ as_bytes x @ rest) \<Longrightarrow>
     ci_fixed (ci_at consumed (as_bytes x @ rest)) = Inr (x, ci_at (consumed @ as_bytes x) rest)"
  by (simp add: ci_fixed_def ci_take_at)

lemma identifier_from_bytes_id [simp]:
  "fixed_from_slice (id_bytes x) = Inr (fixed_of_list (id_bytes x) :: 32 fixed_bytes)"
  "identifier_from_bytes (fixed_of_list (id_bytes x)) = Inr x"
  by (simp_all add: fixed_from_slice_def identifier_from_bytes_Inr)

lemma ci_identifier_at [decode_simps]:
  "addressable (consumed @ id_bytes x @ rest) \<Longrightarrow>
     ci_identifier (ci_at consumed (id_bytes x @ rest)) =
       Inr (x, ci_at (consumed @ id_bytes x) rest)"
  by (simp add: ci_identifier_def ci_take_at)

lemma ci_length_at [decode_simps]:
  assumes "addressable (consumed @ to_be_bytes (of_nat n :: u32) @ rest)"
    and "n \<le> maximum" and "maximum < 2 ^ 32"
  shows "ci_length maximum (ci_at consumed (to_be_bytes (of_nat n :: u32) @ rest)) =
     Inr (n, ci_at (consumed @ to_be_bytes (of_nat n :: u32)) rest)"
proof -
  have "unat (of_nat n :: u32) = n"
    using assms(2,3) by (simp add: unat_of_nat)
  then show ?thesis
    using assms by (simp add: ci_length_def ci_u32_at Let_def)
qed

lemma ci_repeat_at:
  assumes "\<And>consumed x rest. addressable (consumed @ enc x @ rest) \<Longrightarrow>
      one (ci_at consumed (enc x @ rest)) = Inr (x, ci_at (consumed @ enc x) rest)"
    and "addressable (consumed @ concat (map enc xs) @ rest)"
  shows "ci_repeat (length xs) one (ci_at consumed (concat (map enc xs) @ rest)) =
      Inr (xs, ci_at (consumed @ concat (map enc xs)) rest)"
  using assms(2)
proof (induction xs arbitrary: consumed)
  case Nil
  then show ?case by simp
next
  case (Cons x xs)
  then show ?case by (simp add: assms(1))
qed

lemma ci_finish_at [decode_simps]: "ci_finish (ci_at consumed []) = Inr ()"
  by (simp add: ci_finish_def ci_at_def)

end
