(* ===== verification/Jury_Vault_Types.thy ===== *)
theory Jury_Vault_Types
  imports Jury_Encoding
begin

text \<open>
  The public vault data of \<open>vault_v1/types.rs\<close> that policy replay and the witness engine
  work on, with the encodings of \<open>vault_v1/preimage.rs\<close> and the HPKE context prefixes of
  \<open>hpke_context.rs\<close>. The Rust enums are datatypes whose constructors carry the enum's name
  as a prefix, the structs are records whose fields carry a short one.
\<close>

section \<open>Enumerations and their tags\<close>

datatype principal_kind = Kind_Human | Kind_Machine | Kind_Approver | Kind_Witness

fun principal_kind_tag :: "principal_kind \<Rightarrow> u8" where
  "principal_kind_tag Kind_Human = 1"
| "principal_kind_tag Kind_Machine = 2"
| "principal_kind_tag Kind_Approver = 3"
| "principal_kind_tag Kind_Witness = 4"

datatype item_kind = Item_Canonical | Item_Legacy

fun item_kind_tag :: "item_kind \<Rightarrow> u8" where
  "item_kind_tag Item_Canonical = 1"
| "item_kind_tag Item_Legacy = 2"

datatype content_role = Content_Descriptor | Content_Body

fun content_role_tag :: "content_role \<Rightarrow> u8" where
  "content_role_tag Content_Descriptor = 1"
| "content_role_tag Content_Body = 2"

datatype access_role = Role_Reader | Role_Writer | Role_Owner

fun access_role_tag :: "access_role \<Rightarrow> u8" where
  "access_role_tag Role_Reader = 1"
| "access_role_tag Role_Writer = 2"
| "access_role_tag Role_Owner = 3"

datatype item_access_mode = Mode_DirectOnly | Mode_WitnessedOnly | Mode_Mixed

fun item_access_mode_tag :: "item_access_mode \<Rightarrow> u8" where
  "item_access_mode_tag Mode_DirectOnly = 1"
| "item_access_mode_tag Mode_WitnessedOnly = 2"
| "item_access_mode_tag Mode_Mixed = 3"

datatype removal_reason =
  Removal_Operator | Removal_Replacement | Removal_SuspectedCompromise | Removal_Retirement

fun removal_reason_tag :: "removal_reason \<Rightarrow> u8" where
  "removal_reason_tag Removal_Operator = 1"
| "removal_reason_tag Removal_Replacement = 2"
| "removal_reason_tag Removal_SuspectedCompromise = 3"
| "removal_reason_tag Removal_Retirement = 4"

lemma principal_kind_tag_inject [simp]: "principal_kind_tag a = principal_kind_tag b \<longleftrightarrow> a = b"
  by (cases a; cases b) simp_all

lemma item_kind_tag_inject [simp]: "item_kind_tag a = item_kind_tag b \<longleftrightarrow> a = b"
  by (cases a; cases b) simp_all

lemma content_role_tag_inject [simp]: "content_role_tag a = content_role_tag b \<longleftrightarrow> a = b"
  by (cases a; cases b) simp_all

lemma access_role_tag_inject [simp]: "access_role_tag a = access_role_tag b \<longleftrightarrow> a = b"
  by (cases a; cases b) simp_all

lemma item_access_mode_tag_inject [simp]:
  "item_access_mode_tag a = item_access_mode_tag b \<longleftrightarrow> a = b"
  by (cases a; cases b) simp_all

lemma removal_reason_tag_inject [simp]: "removal_reason_tag a = removal_reason_tag b \<longleftrightarrow> a = b"
  by (cases a; cases b) simp_all

text \<open>\<open>derive(Ord)\<close> on \<open>ContentRole\<close>: the order of the declaration.\<close>

instantiation content_role :: linorder
begin

definition less_eq_content_role :: "content_role \<Rightarrow> content_role \<Rightarrow> bool" where
  "less_eq_content_role a b \<longleftrightarrow> content_role_tag a \<le> content_role_tag b"

definition less_content_role :: "content_role \<Rightarrow> content_role \<Rightarrow> bool" where
  "less_content_role a b \<longleftrightarrow> content_role_tag a < content_role_tag b"

instance
  by standard (auto simp: less_eq_content_role_def less_content_role_def less_le)

end

section \<open>Suites and HPKE prefixes\<close>

datatype vault_suite = Suite1 | Suite2

definition suite_from_id :: "u16 \<Rightarrow> vault_suite option" where
  "suite_from_id n = (if n = 1 then Some Suite1 else if n = 2 then Some Suite2 else None)"

fun suite_id :: "vault_suite \<Rightarrow> u16" where
  "suite_id Suite1 = 1"
| "suite_id Suite2 = 2"

fun suite_hpke_aead :: "vault_suite \<Rightarrow> u16" where
  "suite_hpke_aead Suite1 = 3"
| "suite_hpke_aead Suite2 = 2"

definition hpke_prefix :: "string \<Rightarrow> u16 \<Rightarrow> bytes" where
  "hpke_prefix domain suite = str_bytes domain @ [0] @ to_be_bytes suite"

record contribution_hpke_context =
  chc_suite :: vault_suite
  chc_request_digest :: digest32
  chc_action_manifest_digest :: digest32
  chc_response_id :: ident
  chc_witness_id :: ident
  chc_witness_policy_digest :: digest32
  chc_checkpoint_digest :: digest32
  chc_share_commitment :: digest32
  chc_share_index :: u8
  chc_capsule_set_digest :: digest32
  chc_capsule_context_digest :: digest32
  chc_session_fingerprint :: digest32
  chc_expires_at_ms :: u64

definition chc_info_preimage :: "contribution_hpke_context \<Rightarrow> bytes" where
  "chc_info_preimage c =
     hpke_prefix ''jury-witness-v1/contribution/info'' (suite_id (chc_suite c)) @
     as_bytes (chc_request_digest c) @
     as_bytes (chc_action_manifest_digest c) @
     id_bytes (chc_response_id c) @
     id_bytes (chc_witness_id c) @
     as_bytes (chc_witness_policy_digest c) @
     as_bytes (chc_checkpoint_digest c) @
     as_bytes (chc_share_commitment c) @
     [chc_share_index c]"

definition chc_aad_preimage :: "contribution_hpke_context \<Rightarrow> bytes" where
  "chc_aad_preimage c =
     hpke_prefix ''jury-witness-v1/contribution/aad'' (suite_id (chc_suite c)) @
     as_bytes (chc_capsule_set_digest c) @
     as_bytes (chc_capsule_context_digest c) @
     as_bytes (chc_session_fingerprint c) @
     to_be_bytes (chc_expires_at_ms c)"

lemma suite_from_id_iff [result_simps]: "suite_from_id n = Some s \<longleftrightarrow> n = suite_id s"
  by (cases s) (auto simp: suite_from_id_def)

lemma hpke_prefix_inject:
  assumes "nul_free d" and "nul_free e"
  shows "hpke_prefix d m @ r = hpke_prefix e n @ s \<longleftrightarrow> d = e \<and> m = n \<and> r = s"
proof
  assume "hpke_prefix d m @ r = hpke_prefix e n @ s"
  then have "str_bytes d @ 0 # to_be_bytes m @ r = str_bytes e @ 0 # to_be_bytes n @ s"
    by (simp add: hpke_prefix_def)
  then have "str_bytes d = str_bytes e \<and> to_be_bytes m @ r = to_be_bytes n @ s"
    using assms unfolding nul_free_def by (intro split_at_zero)
  then show "d = e \<and> m = n \<and> r = s"
    by (simp add: be_u16.enc_inject)
qed simp

section \<open>Principal descriptors\<close>

record principal_descriptor =
  pd_descriptor_version :: u16
  pd_principal_id :: ident
  pd_principal_kind :: principal_kind
  pd_recipient_public_key :: recipient_public_key1216
  pd_verification_public_key :: verification_public_key32
  pd_self_signature :: signature64

definition recipient_public_key_fingerprint :: "hash_fun \<Rightarrow> recipient_public_key1216 \<Rightarrow> digest32" where
  "recipient_public_key_fingerprint H key =
     H (jce_v1 ''jury-v1/recipient-public-bundle/fingerprint'' @ as_bytes key)"

definition pd_canonical_body :: "principal_descriptor \<Rightarrow> bytes" where
  "pd_canonical_body d =
     to_be_bytes (pd_descriptor_version d) @
     id_bytes (pd_principal_id d) @
     [principal_kind_tag (pd_principal_kind d)] @
     as_bytes (pd_recipient_public_key d) @
     as_bytes (pd_verification_public_key d)"

definition pd_canonical_bytes :: "principal_descriptor \<Rightarrow> bytes" where
  "pd_canonical_bytes d = pd_canonical_body d @ as_bytes (pd_self_signature d)"

definition pd_fingerprint_preimage :: "principal_descriptor \<Rightarrow> bytes" where
  "pd_fingerprint_preimage d =
     jce_v1 ''jury-v1/principal-descriptor/fingerprint'' @ pd_canonical_body d"

definition pd_self_signature_preimage :: "principal_descriptor \<Rightarrow> bytes" where
  "pd_self_signature_preimage d =
     jce_v1 ''jury-v1/principal-descriptor/self-signature'' @ pd_canonical_body d"

interpretation pd_codec: prefix_codec pd_canonical_bytes
  by unfold_locales
    (auto simp: pd_canonical_bytes_def pd_canonical_body_def enc_inj intro: principal_descriptor.equality)

text \<open>
  Together the two HPKE inputs of a contribution determine its whole context.
\<close>

lemma suite_id_inject [simp]: "suite_id a = suite_id b \<longleftrightarrow> a = b"
  by (cases a; cases b) simp_all

lemma contribution_context_inject:
  assumes "chc_info_preimage a = chc_info_preimage b" and "chc_aad_preimage a = chc_aad_preimage b"
  shows "a = b"
  using assms
  by (auto simp: chc_info_preimage_def chc_aad_preimage_def hpke_prefix_def enc_inj
      intro!: contribution_hpke_context.equality)

section \<open>Item descriptors and slots\<close>

record descriptor_metadata =
  dm_revision :: u64
  dm_revision_seal_id :: ident
  dm_nonce :: "12 fixed_bytes"
  dm_ciphertext_length :: u32
  dm_ciphertext_digest :: digest32
  dm_plaintext_schema :: u8
  dm_key_epoch :: u64

definition dm_canonical_bytes :: "descriptor_metadata \<Rightarrow> bytes" where
  "dm_canonical_bytes d =
     to_be_bytes (dm_revision d) @
     id_bytes (dm_revision_seal_id d) @
     as_bytes (dm_nonce d) @
     to_be_bytes (dm_ciphertext_length d) @
     as_bytes (dm_ciphertext_digest d) @
     [dm_plaintext_schema d] @
     to_be_bytes (dm_key_epoch d)"

interpretation dm_codec: prefix_codec dm_canonical_bytes
  by unfold_locales
    (auto simp: dm_canonical_bytes_def enc_inj intro: descriptor_metadata.equality)

record direct_slot =
  ds_slot_schema :: u8
  ds_slot_algorithm :: u8
  ds_suite :: u16
  ds_kem :: u16
  ds_kdf :: u16
  ds_aead :: u16
  ds_vault_id :: ident
  ds_item_id :: ident
  ds_key_epoch :: u64
  ds_content_role :: content_role
  ds_revision :: u64
  ds_revision_seal_id :: ident
  ds_recipient_principal_id :: ident
  ds_policy_sequence :: u64
  ds_recipient_public_key_fingerprint :: digest32
  ds_access_role :: access_role
  ds_item_access_mode :: item_access_mode
  ds_encapsulation :: "1120 fixed_bytes"
  ds_ciphertext :: "48 fixed_bytes"

definition ds_info_preimage :: "direct_slot \<Rightarrow> bytes" where
  "ds_info_preimage s =
     hpke_prefix ''jury-vault-v1-direct-revision-secret-slot'' (ds_suite s) @
     [ds_slot_schema s] @
     id_bytes (ds_vault_id s) @
     id_bytes (ds_item_id s) @
     to_be_bytes (ds_key_epoch s) @
     [content_role_tag (ds_content_role s)] @
     to_be_bytes (ds_revision s) @
     id_bytes (ds_revision_seal_id s) @
     id_bytes (ds_recipient_principal_id s)"

definition ds_aad_preimage :: "direct_slot \<Rightarrow> bytes" where
  "ds_aad_preimage s =
     hpke_prefix ''jury-vault-v1-direct-revision-secret-slot-aad'' (ds_suite s) @
     to_be_bytes (ds_policy_sequence s) @
     as_bytes (ds_recipient_public_key_fingerprint s) @
     [access_role_tag (ds_access_role s)] @
     [ds_slot_algorithm s] @
     [item_access_mode_tag (ds_item_access_mode s)]"

definition ds_canonical_bytes :: "direct_slot \<Rightarrow> bytes" where
  "ds_canonical_bytes s =
     [ds_slot_schema s] @
     [ds_slot_algorithm s] @
     to_be_bytes (ds_suite s) @
     to_be_bytes (ds_kem s) @
     to_be_bytes (ds_kdf s) @
     to_be_bytes (ds_aead s) @
     id_bytes (ds_vault_id s) @
     id_bytes (ds_item_id s) @
     to_be_bytes (ds_key_epoch s) @
     [content_role_tag (ds_content_role s)] @
     to_be_bytes (ds_revision s) @
     id_bytes (ds_revision_seal_id s) @
     id_bytes (ds_recipient_principal_id s) @
     to_be_bytes (ds_policy_sequence s) @
     as_bytes (ds_recipient_public_key_fingerprint s) @
     [access_role_tag (ds_access_role s)] @
     [item_access_mode_tag (ds_item_access_mode s)] @
     as_bytes (ds_encapsulation s) @
     as_bytes (ds_ciphertext s)"

interpretation ds_codec: prefix_codec ds_canonical_bytes
  by unfold_locales (auto simp: ds_canonical_bytes_def enc_inj intro: direct_slot.equality)

end
