(* ===== verification/Jury_Vault_Preimage.thy ===== *)
theory Jury_Vault_Preimage
  imports Jury_Vault_Types
begin

text \<open>
  Witness share capsules, witnessed slots, the policy genesis, policy operations and the
  signed policy and item revisions: their records (\<open>vault_v1/types.rs\<close>), the exact bytes
  that are signed and hashed (\<open>vault_v1/preimage.rs\<close>), the rollover manifest's records
  (\<open>rollover_v1.rs\<close>) and the contribution context of \<open>hpke_context.rs\<close>.

  The lemmas show that each encoding determines the record it encodes (a policy operation up
  to the witnessed slots behind their digest), so a signature or a hash over it binds every
  field.
\<close>

datatype canonical_error = Canonical_LengthOverflow

definition v_bytes_field :: "bytes \<Rightarrow> canonical_error + bytes" where
  "v_bytes_field value = map_err (\<lambda>_. Canonical_LengthOverflow) (bytes_field value)"

definition v_list_bytes :: "bytes list \<Rightarrow> canonical_error + bytes" where
  "v_list_bytes values = map_err (\<lambda>_. Canonical_LengthOverflow) (list_bytes values)"

definition v_list_fixed :: "('a \<Rightarrow> bytes) \<Rightarrow> 'a list \<Rightarrow> canonical_error + bytes" where
  "v_list_fixed append_one values =
     map_err (\<lambda>_. Canonical_LengthOverflow) (list_fixed append_one values)"

definition v_optional_bytes :: "bytes option \<Rightarrow> canonical_error + bytes" where
  "v_optional_bytes value = map_err (\<lambda>_. Canonical_LengthOverflow) (optional_bytes value)"

lemma v_bytes_field_Inr [result_simps]:
  "v_bytes_field v = Inr p \<longleftrightarrow> framable v \<and> p = frame v"
  by (simp only: v_bytes_field_def map_err_Inr bytes_field_frame)

lemma v_list_bytes_Inr [result_simps]:
  "v_list_bytes vs = Inr p \<longleftrightarrow> framable vs \<and> list_all framable vs \<and> p = frame_list frame vs"
  by (simp only: v_list_bytes_def map_err_Inr list_bytes_frame)

lemma v_list_fixed_Inr [result_simps]:
  "v_list_fixed enc xs = Inr p \<longleftrightarrow> framable xs \<and> p = frame_list enc xs"
  by (simp only: v_list_fixed_def map_err_Inr list_fixed_frame)

lemma v_optional_bytes_Inr [result_simps]:
  "v_optional_bytes v = Inr p \<longleftrightarrow> pred_option framable v \<and> p = frame_option v"
  by (simp only: v_optional_bytes_def map_err_Inr optional_bytes_frame)

section \<open>Witness share capsules\<close>

record witness_share_capsule =
  cap_capsule_schema :: u16
  cap_protocol :: u16
  cap_construction :: u16
  cap_vault_id :: ident
  cap_genesis_fingerprint :: digest32
  cap_item_id :: ident
  cap_key_epoch :: u64
  cap_item_access_mode :: item_access_mode
  cap_slot_id :: ident
  cap_content_role :: content_role
  cap_revision :: u64
  cap_revision_seal_id :: ident
  cap_vault_policy_sequence :: u64
  cap_witness_policy_id :: ident
  cap_witness_policy_revision :: u64
  cap_witness_policy_digest :: digest32
  cap_threshold :: u8
  cap_member_count :: u8
  cap_witness_id :: ident
  cap_contribution_key_fingerprint :: digest32
  cap_share_index :: u8
  cap_context_digest :: digest32
  cap_share_commitment :: digest32
  cap_encapsulation :: "1120 fixed_bytes"
  cap_ciphertext :: "49 fixed_bytes"

definition cap_append_context_fields :: "witness_share_capsule \<Rightarrow> bytes" where
  "cap_append_context_fields c =
     to_be_bytes (cap_capsule_schema c) @
     to_be_bytes (cap_protocol c) @
     to_be_bytes (cap_construction c) @
     id_bytes (cap_vault_id c) @
     as_bytes (cap_genesis_fingerprint c) @
     id_bytes (cap_item_id c) @
     to_be_bytes (cap_key_epoch c) @
     [item_access_mode_tag (cap_item_access_mode c)] @
     id_bytes (cap_slot_id c) @
     [content_role_tag (cap_content_role c)] @
     to_be_bytes (cap_revision c) @
     id_bytes (cap_revision_seal_id c) @
     to_be_bytes (cap_vault_policy_sequence c) @
     id_bytes (cap_witness_policy_id c) @
     to_be_bytes (cap_witness_policy_revision c) @
     as_bytes (cap_witness_policy_digest c) @
     [cap_threshold c] @
     [cap_member_count c] @
     id_bytes (cap_witness_id c) @
     as_bytes (cap_contribution_key_fingerprint c) @
     [cap_share_index c]"

definition cap_context_preimage_for_suite :: "witness_share_capsule \<Rightarrow> vault_suite \<Rightarrow> bytes" where
  "cap_context_preimage_for_suite c suite =
     hpke_prefix ''jury-witness-v1/capsule/context'' (suite_id suite) @ cap_append_context_fields c"

definition cap_context_preimage :: "witness_share_capsule \<Rightarrow> bytes" where
  "cap_context_preimage c = cap_context_preimage_for_suite c Suite1"

definition cap_info_preimage_for_suite :: "witness_share_capsule \<Rightarrow> vault_suite \<Rightarrow> bytes" where
  "cap_info_preimage_for_suite c suite =
     hpke_prefix ''jury-witness-v1/capsule/info'' (suite_id suite) @
     as_bytes (cap_context_digest c) @
     id_bytes (cap_witness_id c) @
     as_bytes (cap_contribution_key_fingerprint c) @
     [cap_share_index c]"

definition cap_aad_preimage_for_suite :: "witness_share_capsule \<Rightarrow> vault_suite \<Rightarrow> bytes" where
  "cap_aad_preimage_for_suite c suite =
     hpke_prefix ''jury-witness-v1/capsule/aad'' (suite_id suite) @
     as_bytes (cap_context_digest c) @
     as_bytes (cap_share_commitment c) @
     as_bytes (cap_witness_policy_digest c) @
     to_be_bytes (cap_vault_policy_sequence c)"

definition cap_canonical_bytes :: "witness_share_capsule \<Rightarrow> bytes" where
  "cap_canonical_bytes c =
     cap_append_context_fields c @
     as_bytes (cap_context_digest c) @
     as_bytes (cap_share_commitment c) @
     as_bytes (cap_encapsulation c) @
     as_bytes (cap_ciphertext c)"

definition cap_recomputed_context_digest_for_suite ::
    "hash_fun \<Rightarrow> witness_share_capsule \<Rightarrow> vault_suite \<Rightarrow> digest32" where
  "cap_recomputed_context_digest_for_suite H c suite = H (cap_context_preimage_for_suite c suite)"

interpretation cap_codec: prefix_codec cap_canonical_bytes
  by unfold_locales
    (auto simp: cap_canonical_bytes_def cap_append_context_fields_def enc_inj
       intro: witness_share_capsule.equality)

section \<open>Witnessed slots\<close>

record witnessed_slot =
  ws_slot_schema :: u8
  ws_slot_algorithm :: u8
  ws_suite :: u16
  ws_protocol :: u16
  ws_construction :: u16
  ws_vault_id :: ident
  ws_genesis_fingerprint :: digest32
  ws_item_id :: ident
  ws_key_epoch :: u64
  ws_item_access_mode :: item_access_mode
  ws_slot_id :: ident
  ws_content_role :: content_role
  ws_revision :: u64
  ws_revision_seal_id :: ident
  ws_vault_policy_sequence :: u64
  ws_witness_policy_id :: ident
  ws_witness_policy_revision :: u64
  ws_witness_policy_digest :: digest32
  ws_threshold :: u8
  ws_member_count :: u8
  ws_capsules :: "witness_share_capsule list"
  ws_capsule_set_digest :: digest32

record witnessed_state =
  wst_slots :: "witnessed_slot list"
  wst_digest :: digest32

definition ws_append_common_fields :: "witnessed_slot \<Rightarrow> bytes" where
  "ws_append_common_fields s =
     [ws_slot_schema s] @
     [ws_slot_algorithm s] @
     to_be_bytes (ws_suite s) @
     to_be_bytes (ws_protocol s) @
     to_be_bytes (ws_construction s) @
     id_bytes (ws_vault_id s) @
     as_bytes (ws_genesis_fingerprint s) @
     id_bytes (ws_item_id s) @
     to_be_bytes (ws_key_epoch s) @
     [item_access_mode_tag (ws_item_access_mode s)] @
     id_bytes (ws_slot_id s) @
     [content_role_tag (ws_content_role s)] @
     to_be_bytes (ws_revision s) @
     id_bytes (ws_revision_seal_id s) @
     to_be_bytes (ws_vault_policy_sequence s) @
     id_bytes (ws_witness_policy_id s) @
     to_be_bytes (ws_witness_policy_revision s) @
     as_bytes (ws_witness_policy_digest s) @
     [ws_threshold s] @
     [ws_member_count s]"

definition ws_capsule_set_preimage :: "witnessed_slot \<Rightarrow> canonical_error + bytes" where
  "ws_capsule_set_preimage s =
     (let capsules = map cap_canonical_bytes (ws_capsules s) in
      and_then (v_list_bytes capsules) (\<lambda>field.
      Inr (jce_v1 ''jury-witness-v1/capsule-set/hash'' @ field)))"

definition ws_canonical_bytes :: "witnessed_slot \<Rightarrow> canonical_error + bytes" where
  "ws_canonical_bytes s =
     (let capsules = map cap_canonical_bytes (ws_capsules s) in
      and_then (v_list_bytes capsules) (\<lambda>field.
      Inr (ws_append_common_fields s @ field @ as_bytes (ws_capsule_set_digest s))))"

definition ws_digest_preimage :: "witnessed_slot \<Rightarrow> canonical_error + bytes" where
  "ws_digest_preimage s =
     and_then (ws_canonical_bytes s) (\<lambda>slot.
     and_then (v_bytes_field slot) (\<lambda>field.
     Inr (jce_v1 ''jury-witness-v1/slot/hash'' @ field)))"

definition ws_recomputed_capsule_set_digest ::
    "hash_fun \<Rightarrow> witnessed_slot \<Rightarrow> canonical_error + digest32" where
  "ws_recomputed_capsule_set_digest H s =
     and_then (ws_capsule_set_preimage s) (\<lambda>preimage. Inr (H preimage))"

definition ws_recomputed_digest :: "hash_fun \<Rightarrow> witnessed_slot \<Rightarrow> canonical_error + digest32" where
  "ws_recomputed_digest H s = and_then (ws_digest_preimage s) (\<lambda>preimage. Inr (H preimage))"

definition witnessed_slot_set_digest_preimage ::
    "witnessed_slot list \<Rightarrow> canonical_error + bytes" where
  "witnessed_slot_set_digest_preimage slots =
     and_then (collect_results ws_canonical_bytes slots) (\<lambda>encoded.
     and_then (v_list_bytes encoded) (\<lambda>field.
     Inr (jce_v1 ''jury-witness-v1/slot-set/hash'' @ field)))"

definition witnessed_slot_set_digest ::
    "hash_fun \<Rightarrow> witnessed_slot list \<Rightarrow> canonical_error + digest32" where
  "witnessed_slot_set_digest H slots =
     and_then (witnessed_slot_set_digest_preimage slots) (\<lambda>preimage. Inr (H preimage))"

definition wst_recomputed_digest :: "hash_fun \<Rightarrow> witnessed_state \<Rightarrow> canonical_error + digest32" where
  "wst_recomputed_digest H state =
     and_then (witnessed_slot_set_digest_preimage (wst_slots state)) (\<lambda>preimage. Inr (H preimage))"

lemma map_cap_canonical_bytes_inject [enc_inj]:
  "map cap_canonical_bytes xs = map cap_canonical_bytes ys \<longleftrightarrow> xs = ys"
  by (simp add: inj_map_eq_map inj_def cap_codec.enc_inject)

interpretation ws_codec: fallible_codec ws_canonical_bytes
  by unfold_locales
    (auto simp: ws_canonical_bytes_def ws_append_common_fields_def result_simps enc_inj
       intro: witnessed_slot.equality)

text \<open>A slot-set digest binds the whole slot set, capsules included, up to a collision.\<close>

lemma witnessed_slot_set_digest_preimage_inject:
  assumes "witnessed_slot_set_digest_preimage xs = Inr p"
    and "witnessed_slot_set_digest_preimage ys = Inr p"
  shows "xs = ys"
proof -
  obtain es fs where es: "collect_results ws_canonical_bytes xs = Inr es"
    and fs: "collect_results ws_canonical_bytes ys = Inr fs" and "es = fs"
    using assms
    by (auto simp: witnessed_slot_set_digest_preimage_def and_then_Inr v_list_bytes_Inr enc_inj)
  moreover have "length xs = length ys"
    using es fs \<open>es = fs\<close> by (metis collect_results_length)
  ultimately show ?thesis
    using ws_codec.collect_inject [of xs es ys fs "[]" "[]"] by simp
qed

lemma witnessed_slot_set_digest_binds:
  assumes "witnessed_slot_set_digest H xs = Inr d" and "witnessed_slot_set_digest H ys = Inr d"
  shows "xs = ys \<or> raw_collision H witnessed_slot_set_digest_preimage xs ys"
  by (rule raw_hash_binds [where f = "\<lambda>s. s"])
    (use assms in \<open>auto simp only: witnessed_slot_set_digest_def
      intro: witnessed_slot_set_digest_preimage_inject\<close>)

section \<open>The rollover manifest and statement\<close>

record bootstrap_principal =
  bp_principal_id :: ident
  bp_unsigned_descriptor_digest :: digest32
  bp_display_label :: string
  bp_owner :: bool

record bootstrap_grant =
  bg_principal_id :: ident
  bg_role :: access_role
  bg_direct :: bool

record bootstrap_witnessed_item =
  bw_policy_id :: ident
  bw_descriptor_slot_id :: ident
  bw_body_slot_id :: ident

record bootstrap_item =
  bi_source_item_id :: ident
  bi_destination_item_id :: ident
  bi_item_kind :: item_kind
  bi_descriptor :: descriptor_metadata
  bi_initial_item_revision_hash :: digest32
  bi_direct_slot_set_digest :: digest32
  bi_grants :: "bootstrap_grant list"
  bi_witnessed :: "bootstrap_witnessed_item option"

record bootstrap_witness_policy =
  bwp_source_policy_id :: ident
  bwp_source_policy_revision :: "u64 option"
  bwp_destination_policy_id :: ident
  bwp_intent_digest :: digest32

record bootstrap_manifest =
  bm_version :: u16
  bm_source_suite :: "u16 option"
  bm_destination_suite :: u16
  bm_destination_vault_id :: ident
  bm_created_at_ms :: u64
  bm_acting_owner_principal_id :: ident
  bm_principals :: "bootstrap_principal list"
  bm_items :: "bootstrap_item list"
  bm_witness_policies :: "bootstrap_witness_policy list"

record signed_rollover =
  sr_rollover_format :: u16
  sr_rollover_id :: ident
  sr_source_vault_id :: ident
  sr_source_genesis_fingerprint :: digest32
  sr_terminal_source_revision_hash :: digest32
  sr_destination_vault_id :: ident
  sr_destination_suite :: u16
  sr_bootstrap_manifest_digest :: digest32
  sr_bootstrap_manifest :: "bootstrap_manifest option"
  sr_acting_owner_principal_id :: ident
  sr_signature :: signature64

definition sr_signature_preimage :: "signed_rollover \<Rightarrow> bytes" where
  "sr_signature_preimage r =
     jce_v1 ''jury-v1/rollover/signature'' @
     to_be_bytes (sr_rollover_format r) @
     id_bytes (sr_rollover_id r) @
     id_bytes (sr_source_vault_id r) @
     as_bytes (sr_source_genesis_fingerprint r) @
     as_bytes (sr_terminal_source_revision_hash r) @
     id_bytes (sr_destination_vault_id r) @
     to_be_bytes (sr_destination_suite r) @
     as_bytes (sr_bootstrap_manifest_digest r) @
     id_bytes (sr_acting_owner_principal_id r)"

record signed_suite_migration =
  sm_migration_format :: u16
  sm_migration_id :: ident
  sm_old_vault_id :: ident
  sm_old_genesis_fingerprint :: digest32
  sm_old_terminal_revision_hash :: digest32
  sm_old_suite :: u16
  sm_new_vault_id :: ident
  sm_new_genesis_fingerprint :: digest32
  sm_new_suite :: u16
  sm_migrated_item_manifest_digest :: digest32
  sm_signature :: signature64

definition sm_signature_preimage :: "signed_suite_migration \<Rightarrow> bytes" where
  "sm_signature_preimage m =
     jce_v1 ''jury-v1/suite-migration/signature'' @
     to_be_bytes (sm_migration_format m) @
     id_bytes (sm_migration_id m) @
     id_bytes (sm_old_vault_id m) @
     as_bytes (sm_old_genesis_fingerprint m) @
     as_bytes (sm_old_terminal_revision_hash m) @
     to_be_bytes (sm_old_suite m) @
     id_bytes (sm_new_vault_id m) @
     as_bytes (sm_new_genesis_fingerprint m) @
     to_be_bytes (sm_new_suite m) @
     as_bytes (sm_migrated_item_manifest_digest m)"

section \<open>Policy genesis\<close>

datatype source_attestation =
    Source_LegacyMigration u16 ident digest32 digest32
  | Source_Rollover signed_rollover

fun source_attestation_canonical_bytes :: "source_attestation \<Rightarrow> canonical_error + bytes" where
  "source_attestation_canonical_bytes
     (Source_LegacyMigration source_format migration_id final_legacy_audit_digest
        terminal_legacy_audit_mac) =
     Inr ([1] @ to_be_bytes source_format @ id_bytes migration_id @
       as_bytes final_legacy_audit_digest @ as_bytes terminal_legacy_audit_mac)"
| "source_attestation_canonical_bytes (Source_Rollover statement) =
     and_then (v_bytes_field (sr_signature_preimage statement)) (\<lambda>field.
     Inr ([2] @ field @ as_bytes (sr_signature statement)))"

text \<open>
  \<open>EmptyGenesisEntryV1\<close> is an enum without constructors, so the two vectors of it are always
  empty; the genesis encodes each as a zero count.
\<close>

record policy_genesis =
  pg_vault_id :: ident
  pg_policy_sequence :: u64
  pg_previous_policy_hash :: digest32
  pg_created_at_ms :: u64
  pg_suite :: u16
  pg_owner :: principal_descriptor
  pg_source_attestation :: "source_attestation option"
  pg_owner_signature :: signature64

definition pg_signature_preimage :: "policy_genesis \<Rightarrow> canonical_error + bytes" where
  "pg_signature_preimage g =
     and_then (transpose_result
       (map_option source_attestation_canonical_bytes (pg_source_attestation g))) (\<lambda>source.
     and_then (v_bytes_field (pd_canonical_bytes (pg_owner g))) (\<lambda>owner.
     and_then (v_optional_bytes source) (\<lambda>source_field.
     Inr (jce_v1 ''jury-v1/policy-genesis/signature'' @
       id_bytes (pg_vault_id g) @
       to_be_bytes (pg_policy_sequence g) @
       as_bytes (pg_previous_policy_hash g) @
       to_be_bytes (pg_created_at_ms g) @
       owner @
       source_field @
       to_be_bytes (0 :: u32) @
       to_be_bytes (0 :: u32)))))"

definition pg_fingerprint_preimage :: "policy_genesis \<Rightarrow> canonical_error + bytes" where
  "pg_fingerprint_preimage g =
     and_then (pg_signature_preimage g) (\<lambda>signature_preimage.
     and_then (v_bytes_field signature_preimage) (\<lambda>field.
     Inr (jce_v1 ''jury-v1/policy-genesis/fingerprint'' @ field @ as_bytes (pg_owner_signature g))))"

definition pg_recomputed_fingerprint :: "hash_fun \<Rightarrow> policy_genesis \<Rightarrow> canonical_error + digest32" where
  "pg_recomputed_fingerprint H g =
     and_then (pg_fingerprint_preimage g) (\<lambda>preimage. Inr (H preimage))"

section \<open>Policy operations and revisions\<close>

datatype policy_operation =
    PrincipalAdd principal_descriptor string digest32
  | PrincipalLabelChange ident string string
  | PrincipalRemove ident removal_reason
  | OwnerGrant ident
  | OwnerRevoke ident
  | ItemCreate ident item_kind u64 descriptor_metadata digest32 "direct_slot list"
      "witnessed_state option"
  | ItemRename ident u64 descriptor_metadata
  | ItemDelete ident digest32 digest32 u64
  | ItemRoleChange ident ident "access_role option" "access_role option"
  | ItemReaderSetChange ident u64 u64 "ident list" "ident list" descriptor_metadata digest32
  | ItemSlotsReplace ident u64 "direct_slot list" "witnessed_state option"
  | PrincipalReplace ident principal_descriptor digest32

fun policy_operation_canonical_bytes :: "policy_operation \<Rightarrow> canonical_error + bytes" where
  "policy_operation_canonical_bytes
     (PrincipalAdd descriptor display_label registration_proof_digest) =
     and_then (v_bytes_field (pd_canonical_bytes descriptor)) (\<lambda>descriptor_field.
     and_then (v_bytes_field (str_bytes display_label)) (\<lambda>label_field.
     Inr ([1] @ descriptor_field @ label_field @ as_bytes registration_proof_digest)))"
| "policy_operation_canonical_bytes (PrincipalLabelChange principal_id prior_label next_label) =
     and_then (v_bytes_field (str_bytes prior_label)) (\<lambda>prior_field.
     and_then (v_bytes_field (str_bytes next_label)) (\<lambda>next_field.
     Inr ([2] @ id_bytes principal_id @ prior_field @ next_field)))"
| "policy_operation_canonical_bytes (PrincipalRemove principal_id reason) =
     Inr ([3] @ id_bytes principal_id @ [removal_reason_tag reason])"
| "policy_operation_canonical_bytes (OwnerGrant principal_id) = Inr ([4] @ id_bytes principal_id)"
| "policy_operation_canonical_bytes (OwnerRevoke principal_id) = Inr ([5] @ id_bytes principal_id)"
| "policy_operation_canonical_bytes
     (ItemCreate item_id kind key_epoch descriptor current_hash direct_slots state) =
     and_then (v_list_fixed ds_canonical_bytes direct_slots) (\<lambda>slots.
     Inr ([6] @ id_bytes item_id @ [item_kind_tag kind] @ to_be_bytes key_epoch @
       dm_canonical_bytes descriptor @ as_bytes current_hash @ slots @
       optional_fixed (map_option (\<lambda>st. as_bytes (wst_digest st)) state)))"
| "policy_operation_canonical_bytes (ItemRename item_id prior_revision next_descriptor) =
     Inr ([7] @ id_bytes item_id @ to_be_bytes prior_revision @ dm_canonical_bytes next_descriptor)"
| "policy_operation_canonical_bytes
     (ItemDelete item_id final_descriptor_digest final_item_revision_hash deletion_sequence) =
     Inr ([8] @ id_bytes item_id @ as_bytes final_descriptor_digest @
       as_bytes final_item_revision_hash @ to_be_bytes deletion_sequence)"
| "policy_operation_canonical_bytes (ItemRoleChange item_id principal_id prior_role next_role) =
     Inr ([9] @ id_bytes item_id @ id_bytes principal_id @
       optional_u8 (map_option access_role_tag prior_role) @
       optional_u8 (map_option access_role_tag next_role))"
| "policy_operation_canonical_bytes
     (ItemReaderSetChange item_id prior_epoch next_epoch prior_reader_ids next_reader_ids
        replacement_descriptor replacement_hash) =
     and_then (v_list_fixed id_bytes prior_reader_ids) (\<lambda>prior_field.
     and_then (v_list_fixed id_bytes next_reader_ids) (\<lambda>next_field.
     Inr ([10] @ id_bytes item_id @ to_be_bytes prior_epoch @ to_be_bytes next_epoch @
       prior_field @ next_field @ dm_canonical_bytes replacement_descriptor @
       as_bytes replacement_hash)))"
| "policy_operation_canonical_bytes (ItemSlotsReplace item_id next_epoch direct_slots state) =
     and_then (v_list_fixed ds_canonical_bytes direct_slots) (\<lambda>slots.
     Inr ([11] @ id_bytes item_id @ to_be_bytes next_epoch @ slots @
       optional_fixed (map_option (\<lambda>st. as_bytes (wst_digest st)) state)))"
| "policy_operation_canonical_bytes
     (PrincipalReplace prior_principal_id next_descriptor registration_proof_digest) =
     and_then (v_bytes_field (pd_canonical_bytes next_descriptor)) (\<lambda>field.
     Inr ([12] @ id_bytes prior_principal_id @ field @ as_bytes registration_proof_digest))"

record signed_policy_revision =
  spr_vault_id :: ident
  spr_sequence :: u64
  spr_previous_revision_hash :: digest32
  spr_timestamp_ms :: u64
  spr_author_principal_id :: ident
  spr_operations :: "policy_operation list"
  spr_resulting_policy_state_hash :: digest32
  spr_signature :: signature64

definition spr_signature_preimage :: "signed_policy_revision \<Rightarrow> canonical_error + bytes" where
  "spr_signature_preimage r =
     and_then (collect_results policy_operation_canonical_bytes (spr_operations r)) (\<lambda>operations.
     and_then (v_list_bytes operations) (\<lambda>field.
     Inr (jce_v1 ''jury-v1/policy-revision/signature'' @
       id_bytes (spr_vault_id r) @
       to_be_bytes (spr_sequence r) @
       as_bytes (spr_previous_revision_hash r) @
       to_be_bytes (spr_timestamp_ms r) @
       id_bytes (spr_author_principal_id r) @
       field @
       as_bytes (spr_resulting_policy_state_hash r))))"

definition spr_hash_preimage :: "signed_policy_revision \<Rightarrow> canonical_error + bytes" where
  "spr_hash_preimage r =
     and_then (spr_signature_preimage r) (\<lambda>signature_preimage.
     and_then (v_bytes_field signature_preimage) (\<lambda>field.
     Inr (jce_v1 ''jury-v1/policy-revision/hash'' @ field @ as_bytes (spr_signature r))))"

definition spr_recomputed_hash :: "hash_fun \<Rightarrow> signed_policy_revision \<Rightarrow> canonical_error + digest32" where
  "spr_recomputed_hash H r = and_then (spr_hash_preimage r) (\<lambda>preimage. Inr (H preimage))"

record policy_journal =
  pj_genesis :: policy_genesis
  pj_revisions :: "signed_policy_revision list"

record signed_item_revision =
  sir_vault_id :: ident
  sir_item_id :: ident
  sir_item_revision :: u64
  sir_previous_item_revision_hash :: digest32
  sir_key_epoch :: u64
  sir_policy_sequence :: u64
  sir_author_principal_id :: ident
  sir_timestamp_ms :: u64
  sir_revision_seal_id :: ident
  sir_nonce :: "12 fixed_bytes"
  sir_ciphertext_length :: u32
  sir_ciphertext_digest :: digest32
  sir_plaintext_schema :: u8
  sir_bucket_id :: u8
  sir_signature :: signature64

definition sir_signature_preimage :: "signed_item_revision \<Rightarrow> bytes" where
  "sir_signature_preimage r =
     jce_v1 ''jury-v1/item-revision/signature'' @
     id_bytes (sir_vault_id r) @
     id_bytes (sir_item_id r) @
     to_be_bytes (sir_item_revision r) @
     as_bytes (sir_previous_item_revision_hash r) @
     to_be_bytes (sir_key_epoch r) @
     to_be_bytes (sir_policy_sequence r) @
     id_bytes (sir_author_principal_id r) @
     to_be_bytes (sir_timestamp_ms r) @
     id_bytes (sir_revision_seal_id r) @
     as_bytes (sir_nonce r) @
     to_be_bytes (sir_ciphertext_length r) @
     as_bytes (sir_ciphertext_digest r) @
     [sir_plaintext_schema r] @
     [sir_bucket_id r]"

definition sir_hash_preimage :: "signed_item_revision \<Rightarrow> canonical_error + bytes" where
  "sir_hash_preimage r =
     and_then (v_bytes_field (sir_signature_preimage r)) (\<lambda>field.
     Inr (jce_v1 ''jury-v1/item-revision/hash'' @ field @ as_bytes (sir_signature r)))"

definition sir_recomputed_hash :: "hash_fun \<Rightarrow> signed_item_revision \<Rightarrow> canonical_error + digest32" where
  "sir_recomputed_hash H r = and_then (sir_hash_preimage r) (\<lambda>preimage. Inr (H preimage))"

definition item_descriptor_aad ::
    "32 fixed_bytes \<Rightarrow> 32 fixed_bytes \<Rightarrow> u64 \<Rightarrow> u64 \<Rightarrow> 32 fixed_bytes \<Rightarrow> bytes" where
  "item_descriptor_aad vault_id item_id key_epoch revision revision_seal_id =
     jce_v1 ''jury-vault-v1-item-descriptor'' @ [1] @ as_bytes vault_id @ as_bytes item_id @
     to_be_bytes key_epoch @ to_be_bytes revision @ as_bytes revision_seal_id"

definition item_body_aad ::
    "32 fixed_bytes \<Rightarrow> 32 fixed_bytes \<Rightarrow> u64 \<Rightarrow> u64 \<Rightarrow> 32 fixed_bytes \<Rightarrow> u8 \<Rightarrow> bytes" where
  "item_body_aad vault_id item_id key_epoch revision revision_seal_id bucket_id =
     jce_v1 ''jury-vault-v1-item-body'' @ [1] @ as_bytes vault_id @ as_bytes item_id @
     to_be_bytes key_epoch @ to_be_bytes revision @ as_bytes revision_seal_id @ [bucket_id]"

section \<open>What the hashes of the policy chain bind\<close>

text \<open>
  An operation is encoded with the digest of its witnessed state in place of the slots, and a
  rollover statement without the public opening of its manifest digest. The two views below
  forget exactly these parts; replay recomputes both digests from the slots and the manifest.
\<close>

fun operation_view :: "policy_operation \<Rightarrow> policy_operation" where
  "operation_view (ItemCreate i k e d h s st) =
     ItemCreate i k e d h s (map_option (wst_slots_update (\<lambda>_. [])) st)"
| "operation_view (ItemSlotsReplace i e s st) =
     ItemSlotsReplace i e s (map_option (wst_slots_update (\<lambda>_. [])) st)"
| "operation_view operation = operation"

lemma map_access_role_tag_inject [enc_inj]:
  "map_option access_role_tag a = map_option access_role_tag b \<longleftrightarrow> a = b"
  by (rule map_option_inject_iff) simp

lemma optional_digest_inject [enc_inj]:
  "optional_fixed (map_option (\<lambda>st. as_bytes (wst_digest st)) a) @ r =
     optional_fixed (map_option (\<lambda>st. as_bytes (wst_digest st)) b) @ s \<longleftrightarrow>
     map_option wst_digest a = map_option wst_digest b \<and> r = s"
  "optional_fixed (map_option (\<lambda>st. as_bytes (wst_digest st)) a) =
     optional_fixed (map_option (\<lambda>st. as_bytes (wst_digest st)) b) \<longleftrightarrow>
     map_option wst_digest a = map_option wst_digest b"
  by (auto simp: optional_fixed_def enc_inj split: option.splits)

lemma wst_view [enc_inj]:
  fixes a b :: "witnessed_state option"
  shows "map_option (wst_slots_update (\<lambda>_. [])) a = map_option (wst_slots_update (\<lambda>_. [])) b \<longleftrightarrow>
     map_option wst_digest a = map_option wst_digest b"
  by (cases a; cases b) (auto intro!: witnessed_state.equality dest: arg_cong [where f = wst_digest])

lemmas record_codec_inj [enc_inj] =
  pd_codec.prefix_inject pd_codec.enc_inject dm_codec.prefix_inject dm_codec.enc_inject
  ds_codec.prefix_inject ds_codec.enc_inject ds_codec.prefix_codec_axioms

lemma policy_operation_inject:
  assumes "policy_operation_canonical_bytes a = Inr p"
    and "policy_operation_canonical_bytes b = Inr p"
  shows "operation_view a = operation_view b"
  using assms by (cases a; cases b) (simp_all add: result_simps enc_inj, (auto simp: enc_inj)?)

lemma policy_operations_inject:
  assumes "collect_results policy_operation_canonical_bytes xs = Inr ps"
    and "collect_results policy_operation_canonical_bytes ys = Inr ps"
  shows "map operation_view xs = map operation_view ys"
  using assms
proof (induction xs arbitrary: ys ps)
  case Nil
  then show ?case by (cases ys) (auto simp: and_then_Inr)
next
  case (Cons x xs)
  then show ?case
    by (cases ys) (auto simp: and_then_Inr dest: policy_operation_inject)
qed

definition revision_view :: "signed_policy_revision \<Rightarrow> signed_policy_revision" where
  "revision_view r = r\<lparr>spr_operations := map operation_view (spr_operations r)\<rparr>"

lemma spr_signature_preimage_inject:
  assumes "spr_signature_preimage a = Inr p" and "spr_signature_preimage b = Inr p"
  shows "revision_view (a\<lparr>spr_signature := s\<rparr>) = revision_view (b\<lparr>spr_signature := s\<rparr>)"
proof -
  obtain es where
      es: "collect_results policy_operation_canonical_bytes (spr_operations a) = Inr es"
        "collect_results policy_operation_canonical_bytes (spr_operations b) = Inr es"
    and "spr_vault_id a = spr_vault_id b" "spr_sequence a = spr_sequence b"
    and "spr_previous_revision_hash a = spr_previous_revision_hash b"
    and "spr_timestamp_ms a = spr_timestamp_ms b"
    and "spr_author_principal_id a = spr_author_principal_id b"
    and "spr_resulting_policy_state_hash a = spr_resulting_policy_state_hash b"
    using assms by (auto simp: spr_signature_preimage_def and_then_Inr v_list_bytes_Inr enc_inj)
  then show ?thesis
    using policy_operations_inject [OF es]
    by (auto simp: revision_view_def intro!: signed_policy_revision.equality)
qed

lemma spr_hash_preimage_inject:
  assumes "spr_hash_preimage a = Inr p" and "spr_hash_preimage b = Inr p"
  shows "revision_view a = revision_view b"
proof -
  obtain e where "spr_signature_preimage a = Inr e" "spr_signature_preimage b = Inr e"
    and "spr_signature a = spr_signature b"
    using assms by (auto simp: spr_hash_preimage_def and_then_Inr v_bytes_field_Inr enc_inj)
  then have "revision_view (a\<lparr>spr_signature := spr_signature a\<rparr>) =
      revision_view (b\<lparr>spr_signature := spr_signature b\<rparr>)"
    using spr_signature_preimage_inject [of a e b "spr_signature b"] by simp
  then show ?thesis by simp
qed

lemma spr_recomputed_hash_binds:
  assumes "spr_recomputed_hash H a = Inr h" and "spr_recomputed_hash H b = Inr h"
  shows "revision_view a = revision_view b \<or> raw_collision H spr_hash_preimage a b"
  by (rule raw_hash_binds)
    (use assms in \<open>auto simp only: spr_recomputed_hash_def intro: spr_hash_preimage_inject\<close>)

lemma sir_hash_preimage_inject:
  assumes "sir_hash_preimage a = Inr p" and "sir_hash_preimage b = Inr p"
  shows "a = b"
  using assms
  by (auto simp: sir_hash_preimage_def sir_signature_preimage_def and_then_Inr v_bytes_field_Inr
      enc_inj intro!: signed_item_revision.equality)

lemma sir_recomputed_hash_binds:
  assumes "sir_recomputed_hash H a = Inr h" and "sir_recomputed_hash H b = Inr h"
  shows "a = b \<or> raw_collision H sir_hash_preimage a b"
  by (rule raw_hash_binds [where f = "\<lambda>r. r"])
    (use assms in \<open>auto simp only: sir_recomputed_hash_def intro: sir_hash_preimage_inject\<close>)

end
