(* ===== verification/Jury_BTree.thy ===== *)
theory Jury_BTree
  imports Jury_Prelude
begin

text \<open>
  The ordered maps and sets of the Rust standard library, \<open>BTreeMap\<close> and \<open>BTreeSet\<close>.

  A map is its list of entries in strictly increasing key order, which is what iteration
  yields. The list is canonical, so two maps with the same lookups are equal. A set is a map
  to unit, as in the library itself. The locale \<open>ordered_map\<close> states the laws the components
  rely on, and the interpretation discharges them for the list representation.
\<close>

section \<open>Sorted association lists\<close>

fun entries_insert :: "'k::linorder \<Rightarrow> 'v \<Rightarrow> ('k \<times> 'v) list \<Rightarrow> ('k \<times> 'v) list" where
  "entries_insert k v [] = [(k, v)]"
| "entries_insert k v ((k', v') # es) =
     (if k < k' then (k, v) # (k', v') # es
      else if k = k' then (k, v) # es
      else (k', v') # entries_insert k v es)"

definition strict_keys :: "('k::linorder \<times> 'v) list \<Rightarrow> bool" where
  "strict_keys es \<longleftrightarrow> sorted_wrt (<) (map fst es)"

lemma strict_keys_simps [simp]:
  "strict_keys []"
  "strict_keys (e # es) \<longleftrightarrow> (\<forall>e' \<in> set es. fst e < fst e') \<and> strict_keys es"
  by (auto simp: strict_keys_def)

lemma set_entries_insert: "fst ` set (entries_insert k v es) = insert k (fst ` set es)"
  by (induction es rule: entries_insert.induct [of _ k v]) (auto simp: image_iff)

lemma strict_keys_insert: "strict_keys es \<Longrightarrow> strict_keys (entries_insert k v es)"
proof (induction k v es rule: entries_insert.induct)
  case (2 k v k' v' es)
  have "\<forall>e' \<in> set (entries_insert k v es). k' < fst e'" if "k' < k" "\<forall>e' \<in> set es. k' < fst e'"
    using that set_entries_insert [of k v es] by (metis (no_types, lifting) image_iff insert_iff)
  with 2 show ?case by force
qed simp

lemma strict_keys_filter: "strict_keys es \<Longrightarrow> strict_keys (filter p es)"
  unfolding strict_keys_def by (induction es) auto

lemma strict_keys_map: "strict_keys es \<Longrightarrow> strict_keys (map (\<lambda>(k, v). (k, f k v)) es)"
  unfolding strict_keys_def by (simp add: comp_def case_prod_unfold)

lemma strict_keys_distinct: "strict_keys es \<Longrightarrow> distinct (map fst es)"
  unfolding strict_keys_def by (simp add: strict_sorted_iff)

lemma map_of_entries_insert: "map_of (entries_insert k v es) = (map_of es)(k \<mapsto> v)"
  by (induction es rule: entries_insert.induct [of _ k v]) (auto simp: fun_upd_twist)

lemma strict_keys_map_of_inject:
  assumes "strict_keys es" and "strict_keys fs" and "map_of es = map_of fs"
  shows "es = fs"
  using assms
proof (induction es arbitrary: fs)
  case Nil
  then show ?case by (metis map_of_eq_empty_iff)
next
  case (Cons e es)
  obtain f fs' where fs: "fs = f # fs'"
    using Cons.prems by (cases fs) (auto simp: fun_eq_iff split: if_splits)
  have dom: "fst ` set (e # es) = fst ` set fs"
    using Cons.prems(3) by (metis dom_map_of_conv_image_fst)
  have "fst e = fst f"
  proof (rule ccontr)
    assume "fst e \<noteq> fst f"
    then have "fst e \<in> fst ` set fs'" and "fst f \<in> fst ` set es"
      using dom fs by (simp_all, blast, metis insert_iff)
    then show False
      using Cons.prems(1,2) fs by force
  qed
  moreover have "snd e = snd f"
    using Cons.prems(3) fs calculation
    by (metis fun_upd_same map_of.simps(2) option.inject prod.collapse)
  ultimately have "e = f"
    by (simp add: prod_eq_iff)
  moreover have "map_of es = map_of fs'"
  proof
    fix k
    have out: "map_of es (fst e) = None" "map_of fs' (fst e) = None"
      using Cons.prems(1,2) fs \<open>e = f\<close> by (auto simp: map_of_eq_None_iff)
    show "map_of es k = map_of fs' k"
      using Cons.prems(3) fs \<open>e = f\<close> out
      by (cases "k = fst e") (auto simp: fun_eq_iff split: if_splits prod.splits)
  qed
  ultimately show ?case
    using Cons fs by simp
qed

section \<open>Maps\<close>

typedef (overloaded) ('k, 'v) btree_map = "{es :: ('k::linorder \<times> 'v) list. strict_keys es}"
  morphisms bt_entries Btree_map
  by (rule exI [of _ "[]"]) simp

definition bt_of_entries :: "('k::linorder \<times> 'v) list \<Rightarrow> ('k, 'v) btree_map" where
  "bt_of_entries es = Btree_map (fold (\<lambda>(k, v). entries_insert k v) es [])"

definition bt_empty :: "('k::linorder, 'v) btree_map" where
  "bt_empty = Btree_map []"

definition bt_get :: "('k::linorder, 'v) btree_map \<Rightarrow> 'k \<Rightarrow> 'v option" where
  "bt_get m k = map_of (bt_entries m) k"

definition bt_insert :: "'k::linorder \<Rightarrow> 'v \<Rightarrow> ('k, 'v) btree_map \<Rightarrow> ('k, 'v) btree_map" where
  "bt_insert k v m = Btree_map (entries_insert k v (bt_entries m))"

definition bt_remove :: "'k::linorder \<Rightarrow> ('k, 'v) btree_map \<Rightarrow> ('k, 'v) btree_map" where
  "bt_remove k m = Btree_map (filter (\<lambda>e. fst e \<noteq> k) (bt_entries m))"

definition bt_retain ::
    "('k \<Rightarrow> 'v \<Rightarrow> bool) \<Rightarrow> ('k::linorder, 'v) btree_map \<Rightarrow> ('k, 'v) btree_map" where
  "bt_retain p m = Btree_map (filter (\<lambda>(k, v). p k v) (bt_entries m))"

definition bt_map_values ::
    "('v \<Rightarrow> 'v) \<Rightarrow> ('k::linorder, 'v) btree_map \<Rightarrow> ('k, 'v) btree_map" where
  "bt_map_values f m = Btree_map (map (\<lambda>(k, v). (k, f v)) (bt_entries m))"

definition bt_contains_key :: "('k::linorder, 'v) btree_map \<Rightarrow> 'k \<Rightarrow> bool" where
  "bt_contains_key m k \<longleftrightarrow> bt_get m k \<noteq> None"

definition bt_keys :: "('k::linorder, 'v) btree_map \<Rightarrow> 'k list" where
  "bt_keys m = map fst (bt_entries m)"

definition bt_values :: "('k::linorder, 'v) btree_map \<Rightarrow> 'v list" where
  "bt_values m = map snd (bt_entries m)"

definition bt_len :: "('k::linorder, 'v) btree_map \<Rightarrow> nat" where
  "bt_len m = length (bt_entries m)"

definition bt_is_empty :: "('k::linorder, 'v) btree_map \<Rightarrow> bool" where
  "bt_is_empty m \<longleftrightarrow> bt_entries m = []"

lemma strict_keys_entries [simp]: "strict_keys (bt_entries m)"
  using bt_entries [of m] by simp

lemma Btree_map_entries [code abstype]: "Btree_map (bt_entries m) = m"
  by (rule bt_entries_inverse)

lemma bt_entries_empty [simp, code abstract]: "bt_entries bt_empty = []"
  by (simp add: bt_empty_def Btree_map_inverse)

lemma bt_entries_insert [simp, code abstract]:
  "bt_entries (bt_insert k v m) = entries_insert k v (bt_entries m)"
  by (simp add: bt_insert_def Btree_map_inverse strict_keys_insert)

lemma bt_entries_remove [simp, code abstract]:
  "bt_entries (bt_remove k m) = filter (\<lambda>e. fst e \<noteq> k) (bt_entries m)"
  by (simp add: bt_remove_def Btree_map_inverse strict_keys_filter)

lemma bt_entries_retain [simp, code abstract]:
  "bt_entries (bt_retain p m) = filter (\<lambda>(k, v). p k v) (bt_entries m)"
  by (simp add: bt_retain_def Btree_map_inverse strict_keys_filter)

lemma bt_entries_map_values [simp, code abstract]:
  "bt_entries (bt_map_values f m) = map (\<lambda>(k, v). (k, f v)) (bt_entries m)"
  using strict_keys_map [OF strict_keys_entries, of "\<lambda>_. f" m]
  by (simp add: bt_map_values_def Btree_map_inverse)

lemma strict_keys_fold_insert:
  "strict_keys fs \<Longrightarrow> strict_keys (fold (\<lambda>(k, v). entries_insert k v) es fs)"
  by (induction es arbitrary: fs) (auto simp: strict_keys_insert)

lemma bt_entries_of_entries [code abstract]:
  "bt_entries (bt_of_entries es) = fold (\<lambda>(k, v). entries_insert k v) es []"
  by (simp add: bt_of_entries_def Btree_map_inverse strict_keys_fold_insert)

lemma distinct_bt_keys [simp]: "distinct (bt_keys m)"
  by (simp add: bt_keys_def strict_keys_distinct)

lemma sorted_bt_keys: "sorted_wrt (<) (bt_keys m)"
  using strict_keys_entries [of m] by (simp add: bt_keys_def strict_keys_def)

lemma bt_ext: "bt_get m = bt_get n \<Longrightarrow> m = n"
  unfolding bt_get_def
  by (metis bt_entries_inject strict_keys_entries strict_keys_map_of_inject)

section \<open>The laws of the interface\<close>

locale ordered_map =
  fixes empty :: 'm
    and lookup :: "'m \<Rightarrow> 'k::linorder \<Rightarrow> 'v option"
    and put :: "'k \<Rightarrow> 'v \<Rightarrow> 'm \<Rightarrow> 'm"
    and remove :: "'k \<Rightarrow> 'm \<Rightarrow> 'm"
    and retain :: "('k \<Rightarrow> 'v \<Rightarrow> bool) \<Rightarrow> 'm \<Rightarrow> 'm"
    and entries :: "'m \<Rightarrow> ('k \<times> 'v) list"
  assumes lookup_empty: "lookup empty k = None"
    and lookup_put: "lookup (put k v m) k' = (if k' = k then Some v else lookup m k')"
    and lookup_remove: "lookup (remove k m) k' = (if k' = k then None else lookup m k')"
    and lookup_retain:
      "lookup (retain p m) k = (case lookup m k of Some v \<Rightarrow> if p k v then Some v else None | None \<Rightarrow> None)"
    and mem_entries: "(k, v) \<in> set (entries m) \<longleftrightarrow> lookup m k = Some v"
    and lookup_ext: "lookup m = lookup n \<Longrightarrow> m = n"
begin

text \<open>What the clients use: overwriting, and maps built from a list of pairs.\<close>

lemma put_put: "put k v (put k w m) = put k v m"
  by (rule lookup_ext) (auto simp: lookup_put)

lemma put_same: "lookup m k = Some v \<Longrightarrow> put k v m = m"
  by (rule lookup_ext) (auto simp: lookup_put)

lemma put_commute: "j \<noteq> k \<Longrightarrow> put j v (put k w m) = put k w (put j v m)"
  by (rule lookup_ext) (auto simp: lookup_put)

lemma lookup_fold_put:
  "lookup (fold (\<lambda>(k, v). put k v) es m) k =
     (case map_of (rev es) k of Some v \<Rightarrow> Some v | None \<Rightarrow> lookup m k)"
  by (induction es arbitrary: m)
    (auto simp: lookup_put map_add_def split: option.splits if_splits)

end

lemma map_of_filter_key: "map_of (filter (\<lambda>e. fst e \<noteq> k) es) k' = (if k' = k then None else map_of es k')"
  by (induction es) auto

lemma map_of_filter_strict:
  "strict_keys es \<Longrightarrow> map_of (filter (\<lambda>(k, v). p k v) es) k =
     (case map_of es k of Some v \<Rightarrow> if p k v then Some v else None | None \<Rightarrow> None)"
proof (induction es)
  case (Cons e es)
  obtain k' v' where e: "e = (k', v')" by (cases e)
  have "map_of es k' = None"
    using Cons.prems e by (auto simp: map_of_eq_None_iff)
  then show ?case
    using Cons e by (auto split: option.splits)
qed simp

interpretation btree: ordered_map bt_empty bt_get bt_insert bt_remove bt_retain bt_entries
proof
  fix m :: "('a, 'b) btree_map" and k v
  show "(k, v) \<in> set (bt_entries m) \<longleftrightarrow> bt_get m k = Some v"
    by (simp add: bt_get_def map_of_eq_Some_iff strict_keys_distinct)
qed (auto simp: bt_get_def map_of_entries_insert map_of_filter_key map_of_filter_strict
       intro: bt_ext)

lemmas btree_simps [simp] =
  btree.lookup_empty btree.lookup_put btree.lookup_remove btree.lookup_retain

lemma bt_contains_key_simps [simp]:
  "bt_contains_key bt_empty k \<longleftrightarrow> False"
  "bt_contains_key (bt_insert k v m) k' \<longleftrightarrow> k' = k \<or> bt_contains_key m k'"
  "bt_contains_key (bt_remove k m) k' \<longleftrightarrow> k' \<noteq> k \<and> bt_contains_key m k'"
  by (auto simp: bt_contains_key_def)

lemma bt_get_map_values [simp]: "bt_get (bt_map_values f m) k = map_option f (bt_get m k)"
  by (simp add: bt_get_def map_of_map)

lemma bt_contains_key_map_values [simp]:
  "bt_contains_key (bt_map_values f m) k \<longleftrightarrow> bt_contains_key m k"
  by (simp add: bt_contains_key_def)

lemma bt_get_of_entries: "bt_get (bt_of_entries es) k = map_of (rev es) k"
proof -
  have "map_of (fold (\<lambda>(k, v). entries_insert k v) es fs) k =
      (case map_of (rev es) k of Some v \<Rightarrow> Some v | None \<Rightarrow> map_of fs k)" for fs
    by (induction es arbitrary: fs)
      (auto simp: map_of_entries_insert map_add_def split: option.splits if_splits)
  then show ?thesis
    by (simp add: bt_get_def bt_entries_of_entries split: option.splits)
qed

lemma bt_is_empty_iff: "bt_is_empty m \<longleftrightarrow> (\<forall>k. bt_get m k = None)"
  unfolding bt_is_empty_def bt_get_def
  by (cases "bt_entries m") (auto simp: fun_eq_iff split: if_splits)

section \<open>Sets\<close>

type_synonym 'k btree_set = "('k, unit) btree_map"

definition bts_insert :: "'k::linorder \<Rightarrow> 'k btree_set \<Rightarrow> 'k btree_set" where
  "bts_insert k s = bt_insert k () s"

definition bts_of_list :: "'k::linorder list \<Rightarrow> 'k btree_set" where
  "bts_of_list ks = fold bts_insert ks bt_empty"

lemma bt_contains_key_bts_insert [simp]:
  "bt_contains_key (bts_insert k s) k' \<longleftrightarrow> k' = k \<or> bt_contains_key s k'"
  by (simp add: bts_insert_def)

lemma bt_contains_key_fold_insert [simp]:
  "bt_contains_key (fold bts_insert ks s) k \<longleftrightarrow> k \<in> set ks \<or> bt_contains_key s k"
  by (induction ks arbitrary: s) auto

lemma bt_contains_key_bts_of_list [simp]: "bt_contains_key (bts_of_list ks) k \<longleftrightarrow> k \<in> set ks"
  by (simp add: bts_of_list_def)

lemma set_bt_keys: "set (bt_keys m) = {k. bt_contains_key m k}"
proof -
  have "k \<in> set (bt_keys m) \<longleftrightarrow> (\<exists>v. (k, v) \<in> set (bt_entries m))" for k
    by (force simp: bt_keys_def image_iff)
  then show ?thesis
    by (auto simp: btree.mem_entries bt_contains_key_def)
qed

lemma bt_keys_bts_of_list: "set (bt_keys (bts_of_list ks)) = set ks"
  by (simp add: set_bt_keys)

text \<open>The size of the collected set tells whether the list repeats an element.\<close>

lemma bt_len_bts_of_list: "bt_len (bts_of_list ks) = length ks \<longleftrightarrow> distinct ks"
proof -
  have "bt_len (bts_of_list ks) = card (set ks)"
    using distinct_card [OF distinct_bt_keys, of "bts_of_list ks"]
    by (simp add: bt_keys_bts_of_list) (simp add: bt_keys_def bt_len_def)
  then show ?thesis
    by (metis card_distinct distinct_card)
qed

end
