(* ===== verification/Jury_Vault_Validate.thy ===== *)
theory Jury_Vault_Validate
  imports Jury_Vault_Preimage Jury_BTree
begin

text \<open>
  Format validation of policy operations, \<open>vault_v1/validate.rs\<close>, and of the rollover
  bootstrap manifest, \<open>rollover_v1.rs\<close>, in \<open>jury-protocol\<close>.

  The validators are loops that stop at the first error and carry the sets already seen;
  \<open>fold_results\<close> is that loop, with one record per loop state. The lemmas show what an
  accepted slot set satisfies (distinct encapsulations, both content roles for each recipient,
  strictly increasing shares bound to their slot) and that the bootstrap digest binds the
  manifest although two of its optional fields are encoded without a tag.
\<close>

section \<open>Errors and limits\<close>

datatype format_error =
    Format_ArtifactTooLarge
  | Format_ConflictMarker
  | Format_InvalidJson
  | Format_NonCanonicalJson
  | Format_CapacityExhausted string
  | Format_Invalid string
  | Format_CanonicalEncoding

definition max_vault_bytes :: nat where "max_vault_bytes = 16 * 1024 * 1024"
definition max_items :: nat where "max_items = 1024"
definition max_policy_revisions :: nat where "max_policy_revisions = 4096"
definition max_public_label_bytes :: nat where "max_public_label_bytes = 256"

section \<open>Descriptors and labels\<close>

definition f_validate_descriptor :: "principal_descriptor \<Rightarrow> format_error + unit" where
  "f_validate_descriptor descriptor =
     ensure (\<not> (pd_descriptor_version descriptor \<noteq> 1 \<or>
         length (pd_canonical_bytes descriptor) \<noteq> 1347))
       (Format_Invalid ''principal descriptor version differs'')"

definition validate_label :: "string \<Rightarrow> format_error + unit" where
  "validate_label label =
     ensure (\<not> (label = [] \<or> length label > max_public_label_bytes))
       (Format_Invalid ''public label length is invalid'')"

definition validate_descriptor_metadata :: "descriptor_metadata \<Rightarrow> format_error + unit" where
  "validate_descriptor_metadata descriptor =
     ensure (\<not> (dm_revision descriptor = 0 \<or> dm_key_epoch descriptor = 0 \<or>
         dm_plaintext_schema descriptor \<noteq> 1 \<or> dm_ciphertext_length descriptor \<noteq> 272 \<or>
         length (dm_canonical_bytes descriptor) \<noteq> 97))
       (Format_Invalid ''descriptor metadata differs'')"

definition validate_sorted_unique :: "ident list \<Rightarrow> string \<Rightarrow> format_error + unit" where
  "validate_sorted_unique values reason =
     ensure (strictly_sorted_unique (<) values) (Format_Invalid reason)"

section \<open>Direct slots\<close>

record direct_scan =
  dsc_last_key :: "(content_role \<times> ident \<times> bytes) option"
  dsc_recipient_roles :: "(ident, access_role) btree_map"
  dsc_recipient_content :: "(ident \<times> content_role) btree_set"
  dsc_content_scopes :: "(content_role, u64 \<times> ident) btree_map"
  dsc_encapsulations :: "(1120 fixed_bytes) btree_set"

definition direct_scan_start :: direct_scan where
  "direct_scan_start =
     \<lparr>dsc_last_key = None, dsc_recipient_roles = bt_empty, dsc_recipient_content = bt_empty,
      dsc_content_scopes = bt_empty, dsc_encapsulations = bt_empty\<rparr>"

definition direct_slot_context ::
    "ident \<Rightarrow> ident \<Rightarrow> u64 \<Rightarrow> u64 \<Rightarrow> item_access_mode \<Rightarrow> direct_slot \<Rightarrow> bool" where
  "direct_slot_context vault_id item_id key_epoch policy_sequence access_mode slot \<longleftrightarrow>
     \<not> (ds_slot_schema slot \<noteq> 1 \<or> ds_slot_algorithm slot \<noteq> 1 \<or>
        suite_from_id (ds_suite slot) = None \<or> ds_kem slot \<noteq> 0x647a \<or> ds_kdf slot \<noteq> 1 \<or>
        map_option suite_hpke_aead (suite_from_id (ds_suite slot)) \<noteq> Some (ds_aead slot) \<or>
        ds_vault_id slot \<noteq> vault_id \<or> ds_item_id slot \<noteq> item_id \<or>
        ds_key_epoch slot \<noteq> key_epoch \<or> ds_policy_sequence slot \<noteq> policy_sequence \<or>
        ds_item_access_mode slot \<noteq> access_mode \<or> ds_revision slot = 0 \<or>
        length (ds_canonical_bytes slot) \<noteq> 1365)"

definition direct_scan_step ::
    "(direct_slot \<Rightarrow> bool) \<Rightarrow> direct_scan \<Rightarrow> direct_slot \<Rightarrow> format_error + direct_scan" where
  "direct_scan_step context_ok scan slot =
     (let key = (ds_content_role slot, ds_recipient_principal_id slot, ds_canonical_bytes slot);
          scope = (ds_revision slot, ds_revision_seal_id slot) in
      if \<not> context_ok slot then Inl (Format_Invalid ''direct slot context differs'')
      else if bt_contains_key (dsc_encapsulations scan) (ds_encapsulation slot)
      then Inl (Format_Invalid ''direct encapsulation is reused'')
      else if (case dsc_last_key scan of None \<Rightarrow> False | Some last_key \<Rightarrow> last_key \<ge> key)
      then Inl (Format_Invalid ''direct slots are not canonical'')
      else if bt_contains_key (dsc_recipient_content scan)
          (ds_recipient_principal_id slot, ds_content_role slot)
      then Inl (Format_Invalid ''direct recipient slot is duplicated'')
      else if (case bt_get (dsc_recipient_roles scan) (ds_recipient_principal_id slot) of
          None \<Rightarrow> False | Some role \<Rightarrow> role \<noteq> ds_access_role slot)
      then Inl (Format_Invalid ''direct recipient role differs'')
      else if (case bt_get (dsc_content_scopes scan) (ds_content_role slot) of
          None \<Rightarrow> False | Some existing \<Rightarrow> existing \<noteq> scope)
      then Inl (Format_Invalid ''direct content seal differs'')
      else Inr
        \<lparr>dsc_last_key = Some key,
         dsc_recipient_roles =
           bt_insert (ds_recipient_principal_id slot) (ds_access_role slot)
             (dsc_recipient_roles scan),
         dsc_recipient_content =
           bts_insert (ds_recipient_principal_id slot, ds_content_role slot)
             (dsc_recipient_content scan),
         dsc_content_scopes = bt_insert (ds_content_role slot) scope (dsc_content_scopes scan),
         dsc_encapsulations = bts_insert (ds_encapsulation slot) (dsc_encapsulations scan)\<rparr>)"

definition validate_direct_slots ::
    "direct_slot list \<Rightarrow> ident \<Rightarrow> ident \<Rightarrow> u64 \<Rightarrow> u64 \<Rightarrow> item_access_mode \<Rightarrow> format_error + unit" where
  "validate_direct_slots slots vault_id item_id key_epoch policy_sequence access_mode =
     and_then (fold_results
       (direct_scan_step
         (direct_slot_context vault_id item_id key_epoch policy_sequence access_mode))
       direct_scan_start slots) (\<lambda>scan.
     ensure (list_all (\<lambda>recipient.
         bt_contains_key (dsc_recipient_content scan) (recipient, Content_Descriptor) \<and>
         bt_contains_key (dsc_recipient_content scan) (recipient, Content_Body))
         (bt_keys (dsc_recipient_roles scan)))
       (Format_Invalid ''direct recipient lacks one content role''))"

section \<open>Witnessed slots\<close>

definition validate_capsule ::
    "hash_fun \<Rightarrow> witness_share_capsule \<Rightarrow> witnessed_slot \<Rightarrow> format_error + unit" where
  "validate_capsule H capsule slot =
     (if cap_capsule_schema capsule \<noteq> 1 \<or>
         cap_protocol capsule \<noteq> ws_protocol slot \<or>
         cap_construction capsule \<noteq> ws_construction slot \<or>
         cap_vault_id capsule \<noteq> ws_vault_id slot \<or>
         cap_genesis_fingerprint capsule \<noteq> ws_genesis_fingerprint slot \<or>
         cap_item_id capsule \<noteq> ws_item_id slot \<or>
         cap_key_epoch capsule \<noteq> ws_key_epoch slot \<or>
         cap_item_access_mode capsule \<noteq> ws_item_access_mode slot \<or>
         cap_slot_id capsule \<noteq> ws_slot_id slot \<or>
         cap_content_role capsule \<noteq> ws_content_role slot \<or>
         cap_revision capsule \<noteq> ws_revision slot \<or>
         cap_revision_seal_id capsule \<noteq> ws_revision_seal_id slot \<or>
         cap_vault_policy_sequence capsule \<noteq> ws_vault_policy_sequence slot \<or>
         cap_witness_policy_id capsule \<noteq> ws_witness_policy_id slot \<or>
         cap_witness_policy_revision capsule \<noteq> ws_witness_policy_revision slot \<or>
         cap_witness_policy_digest capsule \<noteq> ws_witness_policy_digest slot \<or>
         cap_threshold capsule \<noteq> ws_threshold slot \<or>
         cap_member_count capsule \<noteq> ws_member_count slot \<or>
         cap_share_index capsule = 0 \<or> cap_share_index capsule > 32
      then Inl (Format_Invalid ''witness capsule context differs'')
      else and_then (ok_or (Format_Invalid ''unknown capsule suite'')
          (suite_from_id (ws_suite slot))) (\<lambda>suite.
        ensure (cap_recomputed_context_digest_for_suite H capsule suite =
            cap_context_digest capsule)
          (Format_Invalid ''witness capsule context differs'')))"

record capsule_scan =
  csc_last_index :: u8
  csc_witnesses :: "ident btree_set"
  csc_contribution_keys :: "digest32 btree_set"

definition capsule_scan_step ::
    "hash_fun \<Rightarrow> witnessed_slot \<Rightarrow> capsule_scan \<Rightarrow> witness_share_capsule
      \<Rightarrow> format_error + capsule_scan" where
  "capsule_scan_step H slot scan capsule =
     and_then (validate_capsule H capsule slot) (\<lambda>_.
     if cap_share_index capsule \<le> csc_last_index scan \<or>
        bt_contains_key (csc_witnesses scan) (cap_witness_id capsule) \<or>
        bt_contains_key (csc_contribution_keys scan) (cap_contribution_key_fingerprint capsule)
     then Inl (Format_Invalid ''witness capsules are not canonical'')
     else Inr
       \<lparr>csc_last_index = cap_share_index capsule,
        csc_witnesses = bts_insert (cap_witness_id capsule) (csc_witnesses scan),
        csc_contribution_keys =
          bts_insert (cap_contribution_key_fingerprint capsule) (csc_contribution_keys scan)\<rparr>)"

definition f_canonical :: "canonical_error + 'a \<Rightarrow> format_error + 'a" where
  "f_canonical r = map_err (\<lambda>_. Format_CanonicalEncoding) r"

definition validate_witnessed_slot ::
    "hash_fun \<Rightarrow> witnessed_slot \<Rightarrow> ident \<Rightarrow> digest32 \<Rightarrow> ident \<Rightarrow> u64 \<Rightarrow> u64 \<Rightarrow> item_access_mode
      \<Rightarrow> format_error + unit" where
  "validate_witnessed_slot H slot vault_id genesis_fingerprint item_id key_epoch policy_sequence
       access_mode =
     (if ws_slot_schema slot \<noteq> 1 \<or> ws_slot_algorithm slot \<noteq> 2 \<or>
         suite_from_id (ws_suite slot) = None \<or> ws_protocol slot \<noteq> 1 \<or>
         ws_construction slot \<noteq> 1 \<or> ws_vault_id slot \<noteq> vault_id \<or>
         ws_genesis_fingerprint slot \<noteq> genesis_fingerprint \<or> ws_item_id slot \<noteq> item_id \<or>
         ws_key_epoch slot \<noteq> key_epoch \<or> ws_vault_policy_sequence slot \<noteq> policy_sequence \<or>
         ws_item_access_mode slot \<noteq> access_mode \<or> ws_revision slot = 0 \<or>
         \<not> (2 \<le> ws_member_count slot \<and> ws_member_count slot \<le> 32) \<or>
         \<not> (2 \<le> ws_threshold slot \<and> ws_threshold slot \<le> ws_member_count slot) \<or>
         unat (ws_member_count slot) \<noteq> length (ws_capsules slot)
      then Inl (Format_Invalid ''witnessed slot context differs'')
      else and_then (fold_results (capsule_scan_step H slot)
          \<lparr>csc_last_index = 0, csc_witnesses = bt_empty, csc_contribution_keys = bt_empty\<rparr>
          (ws_capsules slot)) (\<lambda>_.
        and_then (f_canonical (ws_recomputed_capsule_set_digest H slot)) (\<lambda>digest.
        ensure (digest = ws_capsule_set_digest slot)
          (Format_Invalid ''capsule-set digest differs''))))"

record witnessed_scan =
  wsc_last_key :: "(content_role \<times> u64 \<times> ident \<times> ident) option"
  wsc_roles :: "content_role btree_set"
  wsc_encapsulations :: "(1120 fixed_bytes) btree_set"

definition insert_encapsulation ::
    "(1120 fixed_bytes) btree_set \<Rightarrow> witness_share_capsule
      \<Rightarrow> format_error + (1120 fixed_bytes) btree_set" where
  "insert_encapsulation seen capsule =
     (if bt_contains_key seen (cap_encapsulation capsule)
      then Inl (Format_Invalid ''witness encapsulation is reused'')
      else Inr (bts_insert (cap_encapsulation capsule) seen))"

definition witnessed_scan_step ::
    "(witnessed_slot \<Rightarrow> format_error + unit) \<Rightarrow> witnessed_scan \<Rightarrow> witnessed_slot
      \<Rightarrow> format_error + witnessed_scan" where
  "witnessed_scan_step check_slot scan slot =
     and_then (check_slot slot) (\<lambda>_.
     and_then (fold_results insert_encapsulation (wsc_encapsulations scan) (ws_capsules slot))
       (\<lambda>encapsulations.
     if bt_contains_key (wsc_roles scan) (ws_content_role slot)
     then Inl (Format_Invalid ''witnessed content role is duplicated'')
     else
       let key = (ws_content_role slot, ws_revision slot, ws_revision_seal_id slot,
             ws_slot_id slot) in
       if (case wsc_last_key scan of None \<Rightarrow> False | Some last_key \<Rightarrow> last_key \<ge> key)
       then Inl (Format_Invalid ''witnessed slots are not canonical'')
       else Inr
         \<lparr>wsc_last_key = Some key,
          wsc_roles = bts_insert (ws_content_role slot) (wsc_roles scan),
          wsc_encapsulations = encapsulations\<rparr>))"

definition validate_witnessed_state ::
    "hash_fun \<Rightarrow> witnessed_state \<Rightarrow> ident \<Rightarrow> digest32 \<Rightarrow> ident \<Rightarrow> u64 \<Rightarrow> u64 \<Rightarrow> item_access_mode
      \<Rightarrow> format_error + unit" where
  "validate_witnessed_state H state vault_id genesis_fingerprint item_id key_epoch policy_sequence
       access_mode =
     (if length (wst_slots state) \<noteq> 2
      then Inl (Format_Invalid ''witnessed slot count is invalid'')
      else and_then (fold_results
          (witnessed_scan_step (\<lambda>slot. validate_witnessed_slot H slot vault_id
             genesis_fingerprint item_id key_epoch policy_sequence access_mode))
          \<lparr>wsc_last_key = None, wsc_roles = bt_empty, wsc_encapsulations = bt_empty\<rparr>
          (wst_slots state)) (\<lambda>_.
        and_then (f_canonical (wst_recomputed_digest H state)) (\<lambda>digest.
        ensure (digest = wst_digest state) (Format_Invalid ''witnessed state digest differs''))))"

section \<open>Operations\<close>

definition validate_access_paths ::
    "hash_fun \<Rightarrow> direct_slot list \<Rightarrow> witnessed_state option \<Rightarrow> ident \<Rightarrow> digest32 \<Rightarrow> ident \<Rightarrow> u64 \<Rightarrow> u64
      \<Rightarrow> format_error + unit" where
  "validate_access_paths H direct_slots state_option vault_id genesis_fingerprint item_id key_epoch
       policy_sequence =
     and_then (case (direct_slots = [], state_option = None) of
         (False, False) \<Rightarrow> Inr Mode_Mixed
       | (False, True) \<Rightarrow> Inr Mode_DirectOnly
       | (True, False) \<Rightarrow> Inr Mode_WitnessedOnly
       | (True, True) \<Rightarrow> Inl (Format_Invalid ''item has no access path'')) (\<lambda>expected_mode.
     and_then (validate_direct_slots direct_slots vault_id item_id key_epoch policy_sequence
       expected_mode) (\<lambda>_.
     case state_option of
       None \<Rightarrow> Inr ()
     | Some state \<Rightarrow> validate_witnessed_state H state vault_id genesis_fingerprint item_id key_epoch
         policy_sequence expected_mode))"

fun validate_operation ::
    "hash_fun \<Rightarrow> policy_operation \<Rightarrow> u64 \<Rightarrow> ident \<Rightarrow> digest32 \<Rightarrow> format_error + unit" where
  "validate_operation H (PrincipalAdd descriptor display_label _) sequence vault_id fingerprint =
     and_then (f_validate_descriptor descriptor) (\<lambda>_. validate_label display_label)"
| "validate_operation H (PrincipalLabelChange _ prior_label next_label) sequence vault_id
     fingerprint =
     and_then (validate_label prior_label) (\<lambda>_. validate_label next_label)"
| "validate_operation H (ItemCreate item_id _ key_epoch descriptor _ direct_slots state) sequence
     vault_id fingerprint =
     (if key_epoch \<noteq> 1 then Inl (Format_Invalid ''item creation epoch is not one'')
      else and_then (validate_descriptor_metadata descriptor) (\<lambda>_.
        validate_access_paths H direct_slots state vault_id fingerprint item_id key_epoch sequence))"
| "validate_operation H (ItemRename _ prior_revision next_descriptor) sequence vault_id
     fingerprint =
     (if prior_revision = 0 \<or> dm_revision next_descriptor \<noteq> saturating_add prior_revision 1
      then Inl (Format_Invalid ''descriptor revision does not advance'')
      else validate_descriptor_metadata next_descriptor)"
| "validate_operation H (ItemDelete _ _ _ deletion_sequence) sequence vault_id fingerprint =
     ensure (deletion_sequence = sequence) (Format_Invalid ''deletion sequence differs'')"
| "validate_operation H (ItemRoleChange _ _ prior_role next_role) sequence vault_id fingerprint =
     ensure (prior_role \<noteq> next_role) (Format_Invalid ''item role does not change'')"
| "validate_operation H (ItemReaderSetChange _ prior_epoch next_epoch prior_readers next_readers
     replacement _) sequence vault_id fingerprint =
     (if prior_epoch = 0 \<or> next_epoch \<noteq> saturating_add prior_epoch 1
      then Inl (Format_Invalid ''reader-set epoch does not advance'')
      else and_then (validate_sorted_unique prior_readers ''prior readers are not canonical'')
        (\<lambda>_.
        and_then (validate_sorted_unique next_readers ''next readers are not canonical'') (\<lambda>_.
        if dm_key_epoch replacement \<noteq> next_epoch
        then Inl (Format_Invalid ''reader set does not rotate'')
        else validate_descriptor_metadata replacement)))"
| "validate_operation H (ItemSlotsReplace item_id next_epoch direct_slots state) sequence vault_id
     fingerprint =
     (if next_epoch = 0 then Inl (Format_Invalid ''slot epoch is zero'')
      else validate_access_paths H direct_slots state vault_id fingerprint item_id next_epoch
        sequence)"
| "validate_operation H (PrincipalReplace prior_id next_descriptor _) sequence vault_id
     fingerprint =
     and_then (f_validate_descriptor next_descriptor) (\<lambda>_.
     ensure (prior_id \<noteq> pd_principal_id next_descriptor)
       (Format_Invalid ''replacement reuses principal ID''))"
| "validate_operation H (PrincipalRemove _ _) sequence vault_id fingerprint = Inr ()"
| "validate_operation H (OwnerGrant _) sequence vault_id fingerprint = Inr ()"
| "validate_operation H (OwnerRevoke _) sequence vault_id fingerprint = Inr ()"

definition validate_policy_operation_context ::
    "hash_fun \<Rightarrow> policy_operation \<Rightarrow> u64 \<Rightarrow> ident \<Rightarrow> digest32 \<Rightarrow> format_error + unit" where
  "validate_policy_operation_context H operation sequence vault_id fingerprint =
     validate_operation H operation sequence vault_id fingerprint"

section \<open>Rollover bootstrap manifest\<close>

definition bm_invalid :: format_error where
  "bm_invalid = Format_Invalid ''rollover bootstrap manifest differs''"

definition bm_count :: "bytes \<Rightarrow> nat \<Rightarrow> format_error + bytes" where
  "bm_count output n =
     (case u32_try_from n of None \<Rightarrow> Inl bm_invalid | Some count \<Rightarrow> Inr (output @ to_be_bytes count))"

definition bm_record :: "bytes \<Rightarrow> bytes \<Rightarrow> format_error + bytes" where
  "bm_record output bytes =
     (if length output + 4 + length bytes > max_vault_bytes then Inl Format_ArtifactTooLarge
      else and_then (bm_count output (length bytes)) (\<lambda>output. Inr (output @ bytes)))"

definition bm_suite_shape :: "bootstrap_manifest \<Rightarrow> bool" where
  "bm_suite_shape m \<longleftrightarrow>
     (case bm_source_suite m of
        None \<Rightarrow> bm_version m = 1 \<and> bm_destination_suite m = 1
      | Some source \<Rightarrow>
          bm_version m = 2 \<and>
          (source = 1 \<and> (bm_destination_suite m = 1 \<or> bm_destination_suite m = 2) \<or>
           source = 2 \<and> bm_destination_suite m = 2))"

definition bm_policy_revision_shape :: "u16 \<Rightarrow> bootstrap_witness_policy \<Rightarrow> bool" where
  "bm_policy_revision_shape version entry \<longleftrightarrow>
     (if version = 1 then bwp_source_policy_revision entry = None
      else if version = 2
      then (case bwp_source_policy_revision entry of None \<Rightarrow> False | Some revision \<Rightarrow> revision > 0)
      else False)"

record bootstrap_scan =
  bsc_new_items :: "ident btree_set"
  bsc_slots :: "ident btree_set"
  bsc_used_policies :: "ident btree_set"

definition bm_grant_step ::
    "(ident, bootstrap_principal) btree_map \<Rightarrow> bootstrap_item \<Rightarrow> ident btree_set \<Rightarrow> bootstrap_grant
      \<Rightarrow> format_error + ident btree_set" where
  "bm_grant_step principals item owners grant =
     and_then (ok_or bm_invalid (bt_get principals (bg_principal_id grant))) (\<lambda>entry.
     if bp_owner entry \<noteq> (bg_role grant = Role_Owner) \<or>
        (\<not> bg_direct grant \<and> bi_witnessed item = None) \<or>
        (bi_item_kind item = Item_Legacy \<and> \<not> bp_owner entry)
     then Inl bm_invalid
     else Inr (if bp_owner entry then bts_insert (bp_principal_id entry) owners else owners))"

definition bm_item_step ::
    "(ident, bootstrap_principal) btree_map \<Rightarrow> ident btree_set \<Rightarrow> ident btree_set \<Rightarrow> nat
      \<Rightarrow> bootstrap_scan \<Rightarrow> bootstrap_item \<Rightarrow> format_error + bootstrap_scan" where
  "bm_item_step principals old_items new_policies owner_count scan item =
     (if bt_contains_key old_items (bi_destination_item_id item) \<or>
         bt_contains_key (bsc_new_items scan) (bi_destination_item_id item) \<or>
         dm_revision (bi_descriptor item) \<noteq> 1 \<or> dm_key_epoch (bi_descriptor item) \<noteq> 1 \<or>
         dm_plaintext_schema (bi_descriptor item) \<noteq> 1 \<or>
         dm_ciphertext_length (bi_descriptor item) \<noteq> 272 \<or>
         length (bi_grants item) > bt_len principals \<or>
         \<not> strictly_sorted_unique (\<lambda>a b. bg_principal_id a < bg_principal_id b) (bi_grants item)
      then Inl bm_invalid
      else and_then (fold_results (bm_grant_step principals item) bt_empty (bi_grants item))
        (\<lambda>owners.
        if bt_len owners \<noteq> owner_count then Inl bm_invalid
        else
          let scan = scan\<lparr>bsc_new_items :=
                bts_insert (bi_destination_item_id item) (bsc_new_items scan)\<rparr> in
          (case bi_witnessed item of
             None \<Rightarrow> Inr scan
           | Some witnessed \<Rightarrow>
               if \<not> bt_contains_key new_policies (bw_policy_id witnessed) \<or>
                  bt_contains_key (bsc_slots scan) (bw_descriptor_slot_id witnessed) \<or>
                  bt_contains_key
                    (bts_insert (bw_descriptor_slot_id witnessed) (bsc_slots scan))
                    (bw_body_slot_id witnessed)
               then Inl bm_invalid
               else Inr (scan
                 \<lparr>bsc_slots := bts_insert (bw_body_slot_id witnessed)
                    (bts_insert (bw_descriptor_slot_id witnessed) (bsc_slots scan)),
                  bsc_used_policies :=
                    bts_insert (bw_policy_id witnessed) (bsc_used_policies scan)\<rparr>))))"

definition bm_validate_shape :: "bootstrap_manifest \<Rightarrow> format_error + unit" where
  "bm_validate_shape m =
     (let principals =
            bt_of_entries (map (\<lambda>entry. (bp_principal_id entry, entry)) (bm_principals m));
          old_items = bts_of_list (map bi_source_item_id (bm_items m));
          old_policies = bts_of_list (map bwp_source_policy_id (bm_witness_policies m));
          new_policies = bts_of_list (map bwp_destination_policy_id (bm_witness_policies m));
          owner_count = length (filter bp_owner (bm_principals m)) in
      and_then (ensure (\<not> (\<not> bm_suite_shape m \<or> bm_principals m = [] \<or>
         length (bm_principals m) > max_vault_bytes div 66 \<or>
         length (bm_items m) > max_items \<or>
         length (bm_witness_policies m) > length (bm_items m) \<or>
         \<not> strictly_sorted_unique (\<lambda>a b. bp_principal_id a < bp_principal_id b)
           (bm_principals m) \<or>
         \<not> strictly_sorted_unique (\<lambda>a b. bi_source_item_id a < bi_source_item_id b)
           (bm_items m) \<or>
         \<not> strictly_sorted_unique (\<lambda>a b.
             (bwp_source_policy_id a, bwp_source_policy_revision a) <
             (bwp_source_policy_id b, bwp_source_policy_revision b)) (bm_witness_policies m) \<or>
         list_ex (\<lambda>entry. \<not> bm_policy_revision_shape (bm_version m) entry)
           (bm_witness_policies m))) bm_invalid) (\<lambda>_.
      and_then (ensure (\<not> (\<not> (case bt_get principals (bm_acting_owner_principal_id m) of
             None \<Rightarrow> False | Some entry \<Rightarrow> bp_owner entry) \<or>
         list_ex (\<lambda>entry. bp_display_label entry = [] \<or>
             length (bp_display_label entry) > max_public_label_bytes) (bm_principals m)))
         bm_invalid) (\<lambda>_.
      and_then (ensure (\<not> (bt_len new_policies \<noteq> length (bm_witness_policies m) \<or>
         list_ex (bt_contains_key old_policies) (bt_keys new_policies))) bm_invalid) (\<lambda>_.
      and_then (fold_results (bm_item_step principals old_items new_policies owner_count)
         \<lparr>bsc_new_items = bt_empty, bsc_slots = bt_empty, bsc_used_policies = bt_empty\<rparr>
         (bm_items m)) (\<lambda>scan.
      ensure (bt_keys (bsc_used_policies scan) = bt_keys new_policies) bm_invalid)))))"

definition bm_principal_entry :: "bootstrap_principal \<Rightarrow> format_error + bytes" where
  "bm_principal_entry p =
     and_then (bm_record (id_bytes (bp_principal_id p) @ as_bytes (bp_unsigned_descriptor_digest p))
       (str_bytes (bp_display_label p))) (\<lambda>entry.
     Inr (entry @ [if bp_owner p then 1 else 0]))"

definition bm_grant_bytes :: "bootstrap_grant \<Rightarrow> bytes" where
  "bm_grant_bytes g =
     id_bytes (bg_principal_id g) @ [access_role_tag (bg_role g)] @ [if bg_direct g then 1 else 0]"

definition bm_item_entry :: "bootstrap_item \<Rightarrow> format_error + bytes" where
  "bm_item_entry item =
     and_then (bm_record (id_bytes (bi_source_item_id item) @
         id_bytes (bi_destination_item_id item) @ [item_kind_tag (bi_item_kind item)])
       (dm_canonical_bytes (bi_descriptor item))) (\<lambda>entry.
     and_then (bm_count (entry @ as_bytes (bi_initial_item_revision_hash item) @
         as_bytes (bi_direct_slot_set_digest item)) (length (bi_grants item))) (\<lambda>entry.
     and_then (fold_results (\<lambda>entry grant. bm_record entry (bm_grant_bytes grant)) entry
       (bi_grants item)) (\<lambda>entry.
     Inr (entry @ (case bi_witnessed item of
         Some witnessed \<Rightarrow> [1] @ id_bytes (bw_policy_id witnessed) @
           id_bytes (bw_descriptor_slot_id witnessed) @ id_bytes (bw_body_slot_id witnessed)
       | None \<Rightarrow> [0])))))"

definition bm_policy_entry :: "bootstrap_witness_policy \<Rightarrow> bytes" where
  "bm_policy_entry policy =
     id_bytes (bwp_source_policy_id policy) @
     (case bwp_source_policy_revision policy of
        Some revision \<Rightarrow> to_be_bytes revision | None \<Rightarrow> []) @
     id_bytes (bwp_destination_policy_id policy) @
     as_bytes (bwp_intent_digest policy)"

definition bm_canonical_bytes :: "bootstrap_manifest \<Rightarrow> format_error + bytes" where
  "bm_canonical_bytes m =
     and_then (bm_validate_shape m) (\<lambda>_.
     and_then (bm_count (jce_v1 ''jury-v1/rollover/bootstrap'' @
         to_be_bytes (bm_version m) @
         (case bm_source_suite m of Some source_suite \<Rightarrow> to_be_bytes source_suite | None \<Rightarrow> []) @
         to_be_bytes (bm_destination_suite m) @
         id_bytes (bm_destination_vault_id m) @
         to_be_bytes (bm_created_at_ms m) @
         id_bytes (bm_acting_owner_principal_id m)) (length (bm_principals m))) (\<lambda>output.
     and_then (fold_results (\<lambda>output p. and_then (bm_principal_entry p) (bm_record output))
       output (bm_principals m)) (\<lambda>output.
     and_then (bm_count output (length (bm_items m))) (\<lambda>output.
     and_then (fold_results (\<lambda>output item. and_then (bm_item_entry item) (bm_record output))
       output (bm_items m)) (\<lambda>output.
     and_then (bm_count output (length (bm_witness_policies m))) (\<lambda>output.
     and_then (fold_results (\<lambda>output policy. bm_record output (bm_policy_entry policy))
       output (bm_witness_policies m)) (\<lambda>output.
     if length output > max_vault_bytes then Inl Format_ArtifactTooLarge else Inr output)))))))"

definition bm_digest :: "hash_fun \<Rightarrow> bootstrap_manifest \<Rightarrow> format_error + digest32" where
  "bm_digest H m = and_then (bm_canonical_bytes m) (\<lambda>bytes. Inr (H bytes))"

definition pg_permits_empty_rollover_bootstrap :: "hash_fun \<Rightarrow> policy_genesis \<Rightarrow> bool" where
  "pg_permits_empty_rollover_bootstrap H g =
     (case pg_source_attestation g of
        Some (Source_Rollover statement) \<Rightarrow>
          (case sr_bootstrap_manifest statement of
             None \<Rightarrow> False
           | Some manifest \<Rightarrow>
               bm_items manifest = [] \<and>
               bm_witness_policies manifest = [] \<and>
               (case bm_principals manifest of
                  [entry] \<Rightarrow>
                    bp_principal_id entry = pd_principal_id (pg_owner g) \<and>
                    bp_owner entry \<and>
                    bp_display_label entry = ''owner'' \<and>
                    bm_destination_vault_id manifest = pg_vault_id g \<and>
                    bm_destination_suite manifest = pg_suite g \<and>
                    bm_created_at_ms manifest = pg_created_at_ms g \<and>
                    bm_acting_owner_principal_id manifest = pd_principal_id (pg_owner g) \<and>
                    bm_digest H manifest = Inr (sr_bootstrap_manifest_digest statement) \<and>
                    bp_unsigned_descriptor_digest entry = H (pd_self_signature_preimage (pg_owner g))
                | _ \<Rightarrow> False))
      | _ \<Rightarrow> False)"

section \<open>What an accepted slot set satisfies\<close>

definition direct_scanned :: "direct_slot list \<Rightarrow> direct_scan \<Rightarrow> bool" where
  "direct_scanned slots scan \<longleftrightarrow>
     distinct (map ds_encapsulation slots) \<and>
     (\<forall>e. bt_contains_key (dsc_encapsulations scan) e \<longleftrightarrow> e \<in> ds_encapsulation ` set slots) \<and>
     distinct (map (\<lambda>s. (ds_recipient_principal_id s, ds_content_role s)) slots) \<and>
     (\<forall>k. bt_contains_key (dsc_recipient_content scan) k \<longleftrightarrow>
        k \<in> (\<lambda>s. (ds_recipient_principal_id s, ds_content_role s)) ` set slots) \<and>
     (\<forall>s \<in> set slots.
        bt_get (dsc_recipient_roles scan) (ds_recipient_principal_id s) =
          Some (ds_access_role s)) \<and>
     (\<forall>s \<in> set slots. bt_get (dsc_content_scopes scan) (ds_content_role s) =
        Some (ds_revision s, ds_revision_seal_id s))"

lemma direct_scanned_start: "direct_scanned [] direct_scan_start"
  by (simp add: direct_scanned_def direct_scan_start_def)

lemma direct_scan_step_scanned:
  assumes "direct_scanned slots scan" and "direct_scan_step ok scan slot = Inr scan'"
  shows "direct_scanned (slots @ [slot]) scan'" and "ok slot"
proof -
  show "ok slot"
    using assms(2) by (auto simp: direct_scan_step_def Let_def split: if_splits)
  have role: "bt_get (dsc_recipient_roles scan) (ds_recipient_principal_id slot) \<in>
      {None, Some (ds_access_role slot)}"
    and scope: "bt_get (dsc_content_scopes scan) (ds_content_role slot) \<in>
      {None, Some (ds_revision slot, ds_revision_seal_id slot)}"
    and fresh: "\<not> bt_contains_key (dsc_encapsulations scan) (ds_encapsulation slot)"
      "\<not> bt_contains_key (dsc_recipient_content scan)
         (ds_recipient_principal_id slot, ds_content_role slot)"
    using assms(2)
    by (auto simp: direct_scan_step_def Let_def split: if_splits option.splits)
  have scan': "dsc_recipient_roles scan' =
      bt_insert (ds_recipient_principal_id slot) (ds_access_role slot) (dsc_recipient_roles scan)"
    "dsc_recipient_content scan' = bts_insert
      (ds_recipient_principal_id slot, ds_content_role slot) (dsc_recipient_content scan)"
    "dsc_content_scopes scan' = bt_insert (ds_content_role slot)
      (ds_revision slot, ds_revision_seal_id slot) (dsc_content_scopes scan)"
    "dsc_encapsulations scan' = bts_insert (ds_encapsulation slot) (dsc_encapsulations scan)"
    using assms(2) by (auto simp: direct_scan_step_def Let_def split: if_splits)
  show "direct_scanned (slots @ [slot]) scan'"
    using assms(1) role scope fresh unfolding direct_scanned_def scan'
    by (auto simp: image_iff)
qed

lemma validate_direct_slots_Inr:
  assumes "validate_direct_slots slots vault item epoch sequence mode = Inr ()"
  shows "\<And>s. s \<in> set slots \<Longrightarrow> direct_slot_context vault item epoch sequence mode s"
    and "distinct (map ds_encapsulation slots)"
    and "distinct (map (\<lambda>s. (ds_recipient_principal_id s, ds_content_role s)) slots)"
    and "\<And>s r. s \<in> set slots \<Longrightarrow>
      \<exists>s' \<in> set slots. ds_recipient_principal_id s' = ds_recipient_principal_id s \<and>
        ds_content_role s' = r \<and> ds_access_role s' = ds_access_role s"
    and "\<And>s s'. s \<in> set slots \<Longrightarrow> s' \<in> set slots \<Longrightarrow> ds_content_role s = ds_content_role s' \<Longrightarrow>
      ds_revision s = ds_revision s' \<and> ds_revision_seal_id s = ds_revision_seal_id s'"
proof -
  let ?ok = "direct_slot_context vault item epoch sequence mode"
  obtain scan where scan: "fold_results (direct_scan_step ?ok) direct_scan_start slots = Inr scan"
    and complete: "\<And>recipient. bt_contains_key (dsc_recipient_roles scan) recipient \<Longrightarrow>
      bt_contains_key (dsc_recipient_content scan) (recipient, Content_Descriptor) \<and>
      bt_contains_key (dsc_recipient_content scan) (recipient, Content_Body)"
    using assms
    by (auto simp: validate_direct_slots_def and_then_Inr ensure_Inr list_all_iff set_bt_keys)
  have scanned: "direct_scanned slots scan \<and> list_all ?ok slots"
    by (rule fold_results_prefix [OF scan])
      (auto simp: direct_scanned_start dest: direct_scan_step_scanned)
  show "s \<in> set slots \<Longrightarrow> ?ok s" for s
    using scanned by (simp add: list_all_iff)
  show "distinct (map ds_encapsulation slots)"
    and "distinct (map (\<lambda>s. (ds_recipient_principal_id s, ds_content_role s)) slots)"
    using scanned by (simp_all add: direct_scanned_def)
  show "\<exists>s' \<in> set slots. ds_recipient_principal_id s' = ds_recipient_principal_id s \<and>
      ds_content_role s' = r \<and> ds_access_role s' = ds_access_role s" if "s \<in> set slots" for s r
  proof -
    have role: "bt_get (dsc_recipient_roles scan) (ds_recipient_principal_id s) =
        Some (ds_access_role s)"
      using scanned that by (simp add: direct_scanned_def)
    then have "bt_contains_key (dsc_recipient_content scan) (ds_recipient_principal_id s, r)"
      using complete [of "ds_recipient_principal_id s"]
      by (cases r) (simp_all add: bt_contains_key_def)
    then obtain s' where "s' \<in> set slots" "ds_recipient_principal_id s' = ds_recipient_principal_id s"
      "ds_content_role s' = r"
      using scanned by (auto simp: direct_scanned_def)
    moreover have "ds_access_role s' = ds_access_role s"
      using scanned role calculation by (auto simp: direct_scanned_def)
    ultimately show ?thesis by blast
  qed
  show "ds_revision s = ds_revision s' \<and> ds_revision_seal_id s = ds_revision_seal_id s'"
    if "s \<in> set slots" "s' \<in> set slots" "ds_content_role s = ds_content_role s'" for s s'
    using scanned that unfolding direct_scanned_def by (metis option.inject prod.inject)
qed

definition capsules_scanned :: "witness_share_capsule list \<Rightarrow> capsule_scan \<Rightarrow> bool" where
  "capsules_scanned capsules scan \<longleftrightarrow>
     sorted_wrt (<) (map cap_share_index capsules) \<and>
     (\<forall>c \<in> set capsules. cap_share_index c \<le> csc_last_index scan) \<and>
     distinct (map cap_witness_id capsules) \<and>
     (\<forall>w. bt_contains_key (csc_witnesses scan) w \<longleftrightarrow> w \<in> cap_witness_id ` set capsules) \<and>
     distinct (map cap_contribution_key_fingerprint capsules) \<and>
     (\<forall>k. bt_contains_key (csc_contribution_keys scan) k \<longleftrightarrow>
        k \<in> cap_contribution_key_fingerprint ` set capsules)"

lemma capsule_scan_step_scanned:
  assumes "capsules_scanned capsules scan" and "capsule_scan_step H slot scan c = Inr scan'"
  shows "capsules_scanned (capsules @ [c]) scan'" and "validate_capsule H c slot = Inr ()"
proof -
  show "validate_capsule H c slot = Inr ()"
    using assms(2) by (auto simp: capsule_scan_step_def and_then_Inr)
  have fresh: "csc_last_index scan < cap_share_index c"
      "\<not> bt_contains_key (csc_witnesses scan) (cap_witness_id c)"
      "\<not> bt_contains_key (csc_contribution_keys scan) (cap_contribution_key_fingerprint c)"
    and scan': "csc_last_index scan' = cap_share_index c"
      "csc_witnesses scan' = bts_insert (cap_witness_id c) (csc_witnesses scan)"
      "csc_contribution_keys scan' =
         bts_insert (cap_contribution_key_fingerprint c) (csc_contribution_keys scan)"
    using assms(2) by (auto simp: capsule_scan_step_def and_then_Inr split: if_splits)
  show "capsules_scanned (capsules @ [c]) scan'"
    using assms(1) fresh unfolding capsules_scanned_def scan'
    by (auto simp: sorted_wrt_append intro: le_less_trans order.trans [OF _ less_imp_le])
qed

lemma validate_witnessed_slot_Inr:
  assumes "validate_witnessed_slot H slot vault fp item epoch sequence mode = Inr ()"
  shows "2 \<le> unat (ws_threshold slot)"
    and "unat (ws_threshold slot) \<le> length (ws_capsules slot)"
    and "length (ws_capsules slot) \<le> 32"
    and "sorted_wrt (<) (map cap_share_index (ws_capsules slot))"
    and "distinct (map cap_witness_id (ws_capsules slot))"
    and "distinct (map cap_contribution_key_fingerprint (ws_capsules slot))"
    and "\<And>c. c \<in> set (ws_capsules slot) \<Longrightarrow> validate_capsule H c slot = Inr ()"
    and "ws_vault_id slot = vault" and "ws_item_id slot = item" and "ws_key_epoch slot = epoch"
    and "ws_vault_policy_sequence slot = sequence" and "ws_item_access_mode slot = mode"
proof -
  obtain scan where scan: "fold_results (capsule_scan_step H slot)
        \<lparr>csc_last_index = 0, csc_witnesses = bt_empty, csc_contribution_keys = bt_empty\<rparr>
        (ws_capsules slot) = Inr scan"
    using assms by (auto simp: validate_witnessed_slot_def and_then_Inr split: if_splits)
  have scanned: "capsules_scanned (ws_capsules slot) scan \<and>
      list_all (\<lambda>c. validate_capsule H c slot = Inr ()) (ws_capsules slot)"
    by (rule fold_results_prefix [OF scan])
      (auto simp: capsules_scanned_def [of "[]"] dest: capsule_scan_step_scanned)
  show "sorted_wrt (<) (map cap_share_index (ws_capsules slot))"
    and "distinct (map cap_witness_id (ws_capsules slot))"
    and "distinct (map cap_contribution_key_fingerprint (ws_capsules slot))"
    using scanned by (simp_all add: capsules_scanned_def)
  show "c \<in> set (ws_capsules slot) \<Longrightarrow> validate_capsule H c slot = Inr ()" for c
    using scanned by (simp add: list_all_iff)
  have "2 \<le> ws_threshold slot" "ws_threshold slot \<le> ws_member_count slot"
    "ws_member_count slot \<le> 32" "unat (ws_member_count slot) = length (ws_capsules slot)"
    using assms by (auto simp: validate_witnessed_slot_def split: if_splits)
  then show "2 \<le> unat (ws_threshold slot)" and "unat (ws_threshold slot) \<le> length (ws_capsules slot)"
    and "length (ws_capsules slot) \<le> 32"
    by (auto simp: word_le_nat_alt)
  show "ws_vault_id slot = vault" and "ws_item_id slot = item" and "ws_key_epoch slot = epoch"
    and "ws_vault_policy_sequence slot = sequence" and "ws_item_access_mode slot = mode"
    using assms by (auto simp: validate_witnessed_slot_def split: if_splits)
qed

lemma insert_encapsulations_Inr:
  assumes "fold_results insert_encapsulation seen capsules = Inr seen'"
  shows "distinct (map cap_encapsulation capsules)"
    and "\<forall>c \<in> set capsules. \<not> bt_contains_key seen (cap_encapsulation c)"
    and "\<forall>e. bt_contains_key seen' e \<longleftrightarrow>
      bt_contains_key seen e \<or> e \<in> cap_encapsulation ` set capsules"
proof -
  have "distinct (map cap_encapsulation capsules) \<and>
      (\<forall>c \<in> set capsules. \<not> bt_contains_key seen (cap_encapsulation c)) \<and>
      (\<forall>e. bt_contains_key seen' e \<longleftrightarrow>
         bt_contains_key seen e \<or> e \<in> cap_encapsulation ` set capsules)"
    by (rule fold_results_prefix [OF assms])
      (auto simp: insert_encapsulation_def split: if_splits)
  then show "distinct (map cap_encapsulation capsules)"
    and "\<forall>c \<in> set capsules. \<not> bt_contains_key seen (cap_encapsulation c)"
    and "\<forall>e. bt_contains_key seen' e \<longleftrightarrow>
      bt_contains_key seen e \<or> e \<in> cap_encapsulation ` set capsules"
    by blast+
qed

lemma validate_witnessed_state_Inr:
  assumes "validate_witnessed_state H state vault fp item epoch sequence mode = Inr ()"
  obtains d b where "wst_slots state = [d, b]"
    and "ws_content_role d = Content_Descriptor" and "ws_content_role b = Content_Body"
    and "validate_witnessed_slot H d vault fp item epoch sequence mode = Inr ()"
    and "validate_witnessed_slot H b vault fp item epoch sequence mode = Inr ()"
    and "distinct (map cap_encapsulation (ws_capsules d @ ws_capsules b))"
    and "wst_recomputed_digest H state = Inr (wst_digest state)"
proof -
  let ?check = "\<lambda>slot. validate_witnessed_slot H slot vault fp item epoch sequence mode"
  have two: "length (wst_slots state) = 2"
    using assms by (auto simp: validate_witnessed_state_def split: if_splits)
  then obtain d b where slots: "wst_slots state = [d, b]"
    by (auto simp: numeral_2_eq_2 length_Suc_conv)
  obtain scan where scan: "fold_results (witnessed_scan_step ?check)
        \<lparr>wsc_last_key = None, wsc_roles = bt_empty, wsc_encapsulations = bt_empty\<rparr> [d, b] = Inr scan"
    and digest: "wst_recomputed_digest H state = Inr (wst_digest state)"
    using assms two slots
    by (auto simp: validate_witnessed_state_def and_then_Inr ensure_Inr f_canonical_def map_err_Inr)
  then obtain e1 e2 where ok: "?check d = Inr ()" "?check b = Inr ()"
    and e1: "fold_results insert_encapsulation bt_empty (ws_capsules d) = Inr e1"
    and e2: "fold_results insert_encapsulation e1 (ws_capsules b) = Inr e2"
    and role: "ws_content_role b \<noteq> ws_content_role d"
    and key: "\<not> (ws_content_role d, ws_revision d, ws_revision_seal_id d, ws_slot_id d) \<ge>
      (ws_content_role b, ws_revision b, ws_revision_seal_id b, ws_slot_id b)"
    by (auto simp: witnessed_scan_step_def and_then_Inr Let_def split: if_splits)
  have "ws_content_role d = Content_Descriptor" and "ws_content_role b = Content_Body"
    using role key
    by (cases "ws_content_role d"; cases "ws_content_role b";
        simp add: less_eq_prod_def less_content_role_def)+
  moreover have "distinct (map cap_encapsulation (ws_capsules d @ ws_capsules b))"
    using insert_encapsulations_Inr(1,3) [OF e1] insert_encapsulations_Inr(1,2) [OF e2]
    by (simp add: disjoint_iff) (metis image_iff)
  ultimately show ?thesis
    using that slots ok digest by blast
qed

section \<open>What the bootstrap digest binds\<close>

lemma bm_count_Inr: "bm_count output n = Inr r \<longleftrightarrow>
    n < 2 ^ 32 \<and> r = output @ to_be_bytes (word_of_nat n :: u32)"
  by (auto simp: bm_count_def u32_try_from_def split: if_splits)

lemma bm_record_Inr:
  "bm_record output v = Inr r \<longleftrightarrow>
     length output + 4 + length v \<le> max_vault_bytes \<and> framable v \<and> r = output @ frame v"
  by (auto simp: bm_record_def and_then_Inr bm_count_Inr framable_def frame_def split: if_splits)

lemma bm_records_Inr:
  assumes "fold_results (\<lambda>out x. and_then (enc x) (bm_record out)) out xs = Inr r"
  shows "\<exists>es. collect_results enc xs = Inr es \<and> list_all framable es \<and>
    r = out @ concat (map frame es)"
  using assms
proof (induction xs arbitrary: out)
  case (Cons x xs)
  from Cons.prems obtain e out' where e: "enc x = Inr e" and rec: "bm_record out e = Inr out'"
    and rest: "fold_results (\<lambda>out x. and_then (enc x) (bm_record out)) out' xs = Inr r"
    by (auto simp: and_then_Inr)
  from Cons.IH [OF rest] rec e show ?case
    by (auto simp: bm_record_Inr)
qed simp

lemma bm_section_Inr:
  assumes "bm_count out (length xs) = Inr out'"
    and "fold_results (\<lambda>out x. and_then (enc x) (bm_record out)) out' xs = Inr r"
  shows "\<exists>es. collect_results enc xs = Inr es \<and> framable es \<and> list_all framable es \<and>
    r = out @ frame_list frame es"
proof -
  from bm_records_Inr [OF assms(2)] obtain es where es: "collect_results enc xs = Inr es"
      "list_all framable es" "r = out' @ concat (map frame es)"
    by blast
  then show ?thesis
    using assms(1) collect_results_length [OF es(1)]
    by (auto simp: bm_count_Inr framable_def frame_list_def)
qed

lemma bm_total_section_Inr:
  assumes "bm_count out (length xs) = Inr out'"
    and "fold_results (\<lambda>out x. bm_record out (enc x)) out' xs = Inr r"
  shows "framable xs \<and> list_all framable (map enc xs) \<and> r = out @ frame_list frame (map enc xs)"
proof -
  have "fold_results (\<lambda>out x. and_then (Inr (enc x)) (bm_record out)) out' xs = Inr r"
    using assms(2) by simp
  from bm_section_Inr [OF assms(1) this] obtain es where
    es: "collect_results (\<lambda>x. (Inr (enc x) :: format_error + bytes)) xs = Inr es" "framable es"
      "list_all framable es" "r = out @ frame_list frame es"
    by blast
  moreover have "es = map enc xs"
    using collect_results_total [of xs "\<lambda>x. (Inr (enc x) :: format_error + bytes)" enc] es(1)
    by simp
  ultimately show ?thesis
    by (simp add: framable_def)
qed

interpretation bm_principal_codec: fallible_codec bm_principal_entry
  by unfold_locales
    (auto simp: bm_principal_entry_def and_then_Inr bm_record_Inr enc_inj
       intro!: bootstrap_principal.equality split: if_splits)

interpretation bm_grant_codec: prefix_codec bm_grant_bytes
  by unfold_locales
    (auto simp: bm_grant_bytes_def enc_inj intro: bootstrap_grant.equality split: if_splits)

lemma map_bm_grant_inject: "map bm_grant_bytes xs = map bm_grant_bytes ys \<longleftrightarrow> xs = ys"
  using bm_grant_codec.enc_inject by (simp add: inj_map_eq_map inj_def)

lemma bm_item_entry_Inr:
  assumes "bm_item_entry item = Inr e"
  shows "framable (bi_grants item) \<and> list_all framable (map bm_grant_bytes (bi_grants item)) \<and>
    framable (dm_canonical_bytes (bi_descriptor item)) \<and>
    e = id_bytes (bi_source_item_id item) @ id_bytes (bi_destination_item_id item) @
      [item_kind_tag (bi_item_kind item)] @ frame (dm_canonical_bytes (bi_descriptor item)) @
      as_bytes (bi_initial_item_revision_hash item) @ as_bytes (bi_direct_slot_set_digest item) @
      frame_list frame (map bm_grant_bytes (bi_grants item)) @
      (case bi_witnessed item of
         Some w \<Rightarrow> [1] @ id_bytes (bw_policy_id w) @ id_bytes (bw_descriptor_slot_id w) @
           id_bytes (bw_body_slot_id w)
       | None \<Rightarrow> [0])"
  using assms
  by (auto simp: bm_item_entry_def and_then_Inr bm_record_Inr dest!: bm_total_section_Inr
      split: option.splits)

lemma bm_witnessed_inject:
  "(case a of Some w \<Rightarrow> [1] @ id_bytes (bw_policy_id w) @ id_bytes (bw_descriptor_slot_id w) @
        id_bytes (bw_body_slot_id w) | None \<Rightarrow> [0]) @ r =
   (case b of Some w \<Rightarrow> [1] @ id_bytes (bw_policy_id w) @ id_bytes (bw_descriptor_slot_id w) @
        id_bytes (bw_body_slot_id w) | None \<Rightarrow> [0]) @ s \<longleftrightarrow> a = b \<and> r = s"
  for a b :: "bootstrap_witnessed_item option"
  by (auto simp: enc_inj intro!: bootstrap_witnessed_item.equality split: option.splits)

interpretation bm_item_codec: fallible_codec bm_item_entry
proof
  fix x y p q r s
  assume "bm_item_entry x = Inr p" and "bm_item_entry y = Inr q" and eq: "p @ r = q @ s"
  note x = bm_item_entry_Inr [OF \<open>bm_item_entry x = Inr p\<close>]
    and y = bm_item_entry_Inr [OF \<open>bm_item_entry y = Inr q\<close>]
  show "x = y \<and> r = s"
    using x y eq
    by (auto simp: enc_inj map_bm_grant_inject framable_def [of "map bm_grant_bytes _"]
        framable_def [of "bi_grants _"] bm_witnessed_inject dm_codec.enc_inject
        intro!: bootstrap_item.equality)
qed

lemma bm_validate_shape_Inr:
  assumes "bm_validate_shape m = Inr ()"
  shows "bm_suite_shape m" and "list_all (bm_policy_revision_shape (bm_version m)) (bm_witness_policies m)"
  using assms
  by (auto simp: bm_validate_shape_def Let_def and_then_Inr ensure_Inr list_all_iff list_ex_iff)

definition bm_header_bytes :: "bootstrap_manifest \<Rightarrow> bytes" where
  "bm_header_bytes m =
     to_be_bytes (bm_version m) @
     (case bm_source_suite m of Some source_suite \<Rightarrow> to_be_bytes source_suite | None \<Rightarrow> []) @
     to_be_bytes (bm_destination_suite m) @
     id_bytes (bm_destination_vault_id m) @
     to_be_bytes (bm_created_at_ms m) @
     id_bytes (bm_acting_owner_principal_id m)"

lemma bm_canonical_bytes_Inr:
  assumes "bm_canonical_bytes m = Inr x"
  obtains ps items where "bm_validate_shape m = Inr ()"
    and "collect_results bm_principal_entry (bm_principals m) = Inr ps"
    and "collect_results bm_item_entry (bm_items m) = Inr items"
    and "framable ps" and "list_all framable ps" and "framable items" and "list_all framable items"
    and "framable (map bm_policy_entry (bm_witness_policies m))"
    and "list_all framable (map bm_policy_entry (bm_witness_policies m))"
    and "x = jce_v1 ''jury-v1/rollover/bootstrap'' @ bm_header_bytes m @ frame_list frame ps @
      frame_list frame items @ frame_list frame (map bm_policy_entry (bm_witness_policies m))"
proof -
  obtain c1 o1 c2 o2 c3 where shape: "bm_validate_shape m = Inr ()"
    and c1: "bm_count (jce_v1 ''jury-v1/rollover/bootstrap'' @ bm_header_bytes m)
      (length (bm_principals m)) = Inr c1"
    and o1: "fold_results (\<lambda>out p. and_then (bm_principal_entry p) (bm_record out)) c1
      (bm_principals m) = Inr o1"
    and c2: "bm_count o1 (length (bm_items m)) = Inr c2"
    and o2: "fold_results (\<lambda>out i. and_then (bm_item_entry i) (bm_record out)) c2
      (bm_items m) = Inr o2"
    and c3: "bm_count o2 (length (bm_witness_policies m)) = Inr c3"
    and o3: "fold_results (\<lambda>out p. bm_record out (bm_policy_entry p)) c3
      (bm_witness_policies m) = Inr x"
    using assms
    by (auto simp: bm_canonical_bytes_def bm_header_bytes_def and_then_Inr split: if_splits)
  show ?thesis
    using that bm_section_Inr [OF c1 o1] bm_section_Inr [OF c2 o2] bm_total_section_Inr [OF c3 o3]
      shape by (auto simp: framable_def [of "map _ _"] framable_def [of "bm_witness_policies m"])
qed

lemma bm_policy_entry_inject:
  assumes "bm_policy_revision_shape v a" and "bm_policy_revision_shape v b"
    and "bm_policy_entry a = bm_policy_entry b"
  shows "a = b"
proof -
  have "bwp_source_policy_revision a = None \<longleftrightarrow> bwp_source_policy_revision b = None"
    using assms(1,2) by (auto simp: bm_policy_revision_shape_def split: if_splits)
  then show ?thesis
    using assms(3)
    by (auto simp: bm_policy_entry_def enc_inj intro!: bootstrap_witness_policy.equality
        split: option.splits)
qed

lemma map_bm_policy_entry_inject:
  assumes "map bm_policy_entry xs = map bm_policy_entry ys"
    and "list_all (bm_policy_revision_shape v) xs" and "list_all (bm_policy_revision_shape v) ys"
  shows "xs = ys"
  using assms
proof (induction xs arbitrary: ys)
  case (Cons x xs)
  then show ?case
    by (cases ys) (auto intro: bm_policy_entry_inject)
qed simp

lemma bm_header_inject:
  assumes "bm_suite_shape a" and "bm_suite_shape b" and "bm_header_bytes a @ r = bm_header_bytes b @ s"
  shows "bm_version a = bm_version b" and "bm_source_suite a = bm_source_suite b"
    and "bm_destination_suite a = bm_destination_suite b"
    and "bm_destination_vault_id a = bm_destination_vault_id b"
    and "bm_created_at_ms a = bm_created_at_ms b"
    and "bm_acting_owner_principal_id a = bm_acting_owner_principal_id b" and "r = s"
proof -
  have "bm_version a = bm_version b"
    using assms(3) by (simp add: bm_header_bytes_def enc_inj)
  then have "bm_source_suite a = None \<longleftrightarrow> bm_source_suite b = None"
    using assms(1,2) by (auto simp: bm_suite_shape_def split: option.splits)
  then show "bm_version a = bm_version b" and "bm_source_suite a = bm_source_suite b"
    and "bm_destination_suite a = bm_destination_suite b"
    and "bm_destination_vault_id a = bm_destination_vault_id b"
    and "bm_created_at_ms a = bm_created_at_ms b"
    and "bm_acting_owner_principal_id a = bm_acting_owner_principal_id b" and "r = s"
    using assms(3) by (auto simp: bm_header_bytes_def enc_inj split: option.splits)
qed

lemma bm_canonical_bytes_inject:
  assumes "bm_canonical_bytes a = Inr x" and "bm_canonical_bytes b = Inr x"
  shows "a = b"
proof -
  obtain ps items where a: "bm_validate_shape a = Inr ()"
      "collect_results bm_principal_entry (bm_principals a) = Inr ps"
      "collect_results bm_item_entry (bm_items a) = Inr items"
      "framable ps" "list_all framable ps" "framable items" "list_all framable items"
      "framable (map bm_policy_entry (bm_witness_policies a))"
      "list_all framable (map bm_policy_entry (bm_witness_policies a))"
      "x = jce_v1 ''jury-v1/rollover/bootstrap'' @ bm_header_bytes a @ frame_list frame ps @
        frame_list frame items @ frame_list frame (map bm_policy_entry (bm_witness_policies a))"
    using assms(1) by (rule bm_canonical_bytes_Inr)
  obtain qs jtems where b: "bm_validate_shape b = Inr ()"
      "collect_results bm_principal_entry (bm_principals b) = Inr qs"
      "collect_results bm_item_entry (bm_items b) = Inr jtems"
      "framable qs" "list_all framable qs" "framable jtems" "list_all framable jtems"
      "framable (map bm_policy_entry (bm_witness_policies b))"
      "list_all framable (map bm_policy_entry (bm_witness_policies b))"
      "x = jce_v1 ''jury-v1/rollover/bootstrap'' @ bm_header_bytes b @ frame_list frame qs @
        frame_list frame jtems @ frame_list frame (map bm_policy_entry (bm_witness_policies b))"
    using assms(2) by (rule bm_canonical_bytes_Inr)
  note shape_a = bm_validate_shape_Inr [OF a(1)] and shape_b = bm_validate_shape_Inr [OF b(1)]
  have "bm_header_bytes a @ frame_list frame ps @ frame_list frame items @
        frame_list frame (map bm_policy_entry (bm_witness_policies a)) =
      bm_header_bytes b @ frame_list frame qs @ frame_list frame jtems @
        frame_list frame (map bm_policy_entry (bm_witness_policies b))"
    using a(10) b(10) by simp
  note header = bm_header_inject [OF shape_a(1) shape_b(1) this]
  have "ps = qs \<and> items = jtems \<and> map bm_policy_entry (bm_witness_policies a) =
      map bm_policy_entry (bm_witness_policies b)"
    using header(7) a(4-9) b(4-9) by (simp add: frame_list_frame_inject)
  then have "bm_principals a = bm_principals b" and "bm_items a = bm_items b"
    and "bm_witness_policies a = bm_witness_policies b"
    using a(2,3) b(2,3) bm_principal_codec.collect_unique bm_item_codec.collect_unique
      shape_a(2) shape_b(2) header(1) map_bm_policy_entry_inject
    by metis+
  then show ?thesis
    using header by (intro bootstrap_manifest.equality) simp_all
qed

lemma bm_digest_binds:
  assumes "bm_digest H a = Inr d" and "bm_digest H b = Inr d"
  shows "a = b \<or> raw_collision H bm_canonical_bytes a b"
  by (rule raw_hash_binds [where f = "\<lambda>m. m"])
    (use assms in \<open>auto simp only: bm_digest_def intro: bm_canonical_bytes_inject\<close>)

end
