(* ===== verification/Jury_Witness_Base.thy ===== *)
theory Jury_Witness_Base
  imports Jury_Vault_Types
begin

text \<open>
  The enumerations and small messages of the witness protocol, \<open>witness_v1/base.rs\<close>, with the
  constants of \<open>witness_v1.rs\<close>: operations, decisions, reasons, targets, manifest arguments,
  environment injections, operation contexts and approval targets. The lemmas show that each
  tag and each encoding is injective.
\<close>

section \<open>Constants\<close>

definition protocol_version :: u16 where "protocol_version = 1"
definition construction :: u16 where "construction = 1"
definition max_policy_actors :: nat where "max_policy_actors = 32"
definition max_recorded_approvals :: nat where "max_recorded_approvals = max_policy_actors * 2"
definition max_manifest_targets :: nat where "max_manifest_targets = 64"
definition max_arguments :: nat where "max_arguments = 128"
definition max_environment_names :: nat where "max_environment_names = 64"
definition accepted_clock_skew_ms :: u64 where "accepted_clock_skew_ms = 60000"
definition replay_retention_ms :: u64 where "replay_retention_ms = 86400000"
definition max_request_bytes :: nat where "max_request_bytes = 32 * 1024"
definition max_manifest_bytes :: nat where "max_manifest_bytes = 64 * 1024"
definition max_approval_bytes :: nat where "max_approval_bytes = 16 * 1024"
definition max_response_bytes :: nat where "max_response_bytes = 16 * 1024"
definition max_rotation_items :: nat where "max_rotation_items = 10000"
definition max_replay_records_per_vault :: nat where "max_replay_records_per_vault = 65536"
definition max_replay_records_per_service :: nat where "max_replay_records_per_service = 1048576"

type_synonym operation_bytes = "4096 bounded_bytes"
type_synonym manifest_bytes = "65536 bounded_bytes"
type_synonym request_bytes = "32768 bounded_bytes"
type_synonym approval_bytes = "16384 bounded_bytes"
type_synonym response_bytes = "16384 bounded_bytes"
type_synonym cancellation_bytes = "49152 bounded_bytes"
type_synonym registration_bytes = "65536 bounded_bytes"
type_synonym policy_material_bytes = "16777216 bounded_bytes"
type_synonym witness_descriptor_bytes = "4096 bounded_bytes"

definition witness_registration_digest ::
    "hash_fun \<Rightarrow> registration_bytes \<Rightarrow> witness_protocol_error + digest32" where
  "witness_registration_digest H registration =
     (if bounded_is_empty registration then Inl InvalidFormat
      else hash_bytes H ''jury-witness-v1/registration/hash'' (bounded_as_bytes registration))"

section \<open>Enumerations and their tags\<close>

datatype witness_operation =
    Op_ReadStdout | Op_WritePrivateFile | Op_TemplateInjection | Op_ChildEnvironment
  | Op_ChildStdin | Op_ItemMutation | Op_Backup | Op_Recovery | Op_AdministrativeRekey

fun witness_operation_tag :: "witness_operation \<Rightarrow> u8" where
  "witness_operation_tag Op_ReadStdout = 1"
| "witness_operation_tag Op_WritePrivateFile = 2"
| "witness_operation_tag Op_TemplateInjection = 3"
| "witness_operation_tag Op_ChildEnvironment = 4"
| "witness_operation_tag Op_ChildStdin = 5"
| "witness_operation_tag Op_ItemMutation = 6"
| "witness_operation_tag Op_Backup = 7"
| "witness_operation_tag Op_Recovery = 8"
| "witness_operation_tag Op_AdministrativeRekey = 9"

definition witness_operation_from_tag :: "u8 \<Rightarrow> witness_protocol_error + witness_operation" where
  "witness_operation_from_tag tag =
     (if tag = 1 then Inr Op_ReadStdout
      else if tag = 2 then Inr Op_WritePrivateFile
      else if tag = 3 then Inr Op_TemplateInjection
      else if tag = 4 then Inr Op_ChildEnvironment
      else if tag = 5 then Inr Op_ChildStdin
      else if tag = 6 then Inr Op_ItemMutation
      else if tag = 7 then Inr Op_Backup
      else if tag = 8 then Inr Op_Recovery
      else if tag = 9 then Inr Op_AdministrativeRekey
      else Inl InvalidFormat)"

datatype approval_mode = Approval_Human | Approval_Automatic

fun approval_mode_tag :: "approval_mode \<Rightarrow> u8" where
  "approval_mode_tag Approval_Human = 1"
| "approval_mode_tag Approval_Automatic = 2"

datatype approval_decision_kind = Approval_Approve | Approval_Deny

fun approval_decision_kind_tag :: "approval_decision_kind \<Rightarrow> u8" where
  "approval_decision_kind_tag Approval_Approve = 1"
| "approval_decision_kind_tag Approval_Deny = 2"

datatype witness_decision_kind = Decision_Approve | Decision_Deny | Decision_Error

fun witness_decision_kind_tag :: "witness_decision_kind \<Rightarrow> u8" where
  "witness_decision_kind_tag Decision_Approve = 1"
| "witness_decision_kind_tag Decision_Deny = 2"
| "witness_decision_kind_tag Decision_Error = 3"

datatype witness_reason =
    Reason_None | Reason_PolicyDenied | Reason_MissingApproval | Reason_ApprovalDenied
  | Reason_ApprovalConflict | Reason_StalePolicy | Reason_WitnessBehind | Reason_CheckpointFork
  | Reason_ReplayConflict | Reason_Expired | Reason_NotYetValid | Reason_Cancelled
  | Reason_WrongScope | Reason_WrongOperation | Reason_WorkloadExceeded | Reason_DirectDowngrade
  | Reason_Invalid | Reason_UnsupportedVersion | Reason_InvalidSignature
  | Reason_InvalidContribution | Reason_InsufficientQuorum | Reason_Unavailable
  | Reason_UnsafeClock | Reason_AnchorConflict | Reason_CapacityExhausted
  | Reason_RestoredStateUnsafe | Reason_InternalFailure | Reason_CancellationTooLate

fun witness_reason_tag :: "witness_reason \<Rightarrow> u8" where
  "witness_reason_tag Reason_None = 0"
| "witness_reason_tag Reason_PolicyDenied = 1"
| "witness_reason_tag Reason_MissingApproval = 2"
| "witness_reason_tag Reason_ApprovalDenied = 3"
| "witness_reason_tag Reason_ApprovalConflict = 4"
| "witness_reason_tag Reason_StalePolicy = 5"
| "witness_reason_tag Reason_WitnessBehind = 6"
| "witness_reason_tag Reason_CheckpointFork = 7"
| "witness_reason_tag Reason_ReplayConflict = 8"
| "witness_reason_tag Reason_Expired = 9"
| "witness_reason_tag Reason_NotYetValid = 10"
| "witness_reason_tag Reason_Cancelled = 11"
| "witness_reason_tag Reason_WrongScope = 12"
| "witness_reason_tag Reason_WrongOperation = 13"
| "witness_reason_tag Reason_WorkloadExceeded = 14"
| "witness_reason_tag Reason_DirectDowngrade = 15"
| "witness_reason_tag Reason_Invalid = 16"
| "witness_reason_tag Reason_UnsupportedVersion = 17"
| "witness_reason_tag Reason_InvalidSignature = 18"
| "witness_reason_tag Reason_InvalidContribution = 19"
| "witness_reason_tag Reason_InsufficientQuorum = 20"
| "witness_reason_tag Reason_Unavailable = 21"
| "witness_reason_tag Reason_UnsafeClock = 22"
| "witness_reason_tag Reason_AnchorConflict = 23"
| "witness_reason_tag Reason_CapacityExhausted = 24"
| "witness_reason_tag Reason_RestoredStateUnsafe = 25"
| "witness_reason_tag Reason_InternalFailure = 26"
| "witness_reason_tag Reason_CancellationTooLate = 27"

datatype platform_assurance = Platform_NormalizedPathOnly | Platform_StableExecutableIdentity

fun platform_assurance_tag :: "platform_assurance \<Rightarrow> u8" where
  "platform_assurance_tag Platform_NormalizedPathOnly = 1"
| "platform_assurance_tag Platform_StableExecutableIdentity = 2"

datatype stdin_mode = Stdin_None | Stdin_SecretBytes | Stdin_PublicBytes

fun stdin_mode_tag :: "stdin_mode \<Rightarrow> u8" where
  "stdin_mode_tag Stdin_None = 1"
| "stdin_mode_tag Stdin_SecretBytes = 2"
| "stdin_mode_tag Stdin_PublicBytes = 3"

datatype output_sink = Sink_Stdout | Sink_PrivateFile | Sink_ChildStdin | Sink_ChildEnvironment
  | Sink_None

fun output_sink_tag :: "output_sink \<Rightarrow> u8" where
  "output_sink_tag Sink_Stdout = 1"
| "output_sink_tag Sink_PrivateFile = 2"
| "output_sink_tag Sink_ChildStdin = 3"
| "output_sink_tag Sink_ChildEnvironment = 4"
| "output_sink_tag Sink_None = 5"

datatype owner_change_kind = Owner_Grant | Owner_Revoke

fun owner_change_kind_tag :: "owner_change_kind \<Rightarrow> u8" where
  "owner_change_kind_tag Owner_Grant = 1"
| "owner_change_kind_tag Owner_Revoke = 2"

section \<open>Targets, arguments and environment injections\<close>

record witness_target =
  wt_item_id :: ident
  wt_field_id :: "ident option"

definition wt_canonical_bytes :: "witness_target \<Rightarrow> bytes" where
  "wt_canonical_bytes t =
     id_bytes (wt_item_id t) @ optional_fixed (map_option id_bytes (wt_field_id t))"

datatype manifest_argument =
    PublicLiteral operation_bytes
  | SecretPlaceholder witness_target

fun manifest_argument_canonical_bytes :: "manifest_argument \<Rightarrow> witness_protocol_error + bytes" where
  "manifest_argument_canonical_bytes (PublicLiteral bs) =
     and_then (w_bytes_field (bounded_as_bytes bs)) (\<lambda>field. Inr ([1] @ field))"
| "manifest_argument_canonical_bytes (SecretPlaceholder target) =
     Inr ([2] @ wt_canonical_bytes target)"

record environment_injection =
  ei_name :: "128 bounded_bytes"
  ei_target :: witness_target

definition ei_canonical_bytes :: "environment_injection \<Rightarrow> witness_protocol_error + bytes" where
  "ei_canonical_bytes e =
     and_then (w_bytes_field (bounded_as_bytes (ei_name e))) (\<lambda>field.
     Inr (field @ wt_canonical_bytes (ei_target e)))"

definition is_ascii_alphabetic :: "u8 \<Rightarrow> bool" where
  "is_ascii_alphabetic b \<longleftrightarrow> (65 \<le> b \<and> b \<le> 90) \<or> (97 \<le> b \<and> b \<le> 122)"

definition is_ascii_alphanumeric :: "u8 \<Rightarrow> bool" where
  "is_ascii_alphanumeric b \<longleftrightarrow> is_ascii_alphabetic b \<or> (48 \<le> b \<and> b \<le> 57)"

definition ei_valid_name :: "environment_injection \<Rightarrow> bool" where
  "ei_valid_name e \<longleftrightarrow>
     (case bounded_as_bytes (ei_name e) of
        [] \<Rightarrow> False
      | first # rest \<Rightarrow>
          length (first # rest) \<le> 128 \<and>
          (is_ascii_alphabetic first \<or> first = 95) \<and>
          list_all (\<lambda>b. is_ascii_alphanumeric b \<or> b = 95) rest)"

section \<open>Operation contexts\<close>

datatype operation_context =
    Ctx_ReadStdout
  | Ctx_WritePrivateFile
  | Ctx_TemplateInjection
  | Ctx_ChildEnvironment
  | Ctx_ChildStdin
  | Ctx_ItemMutation u8 "ident list" digest32
  | Ctx_Backup u8 u16 digest32
  | Ctx_Recovery u8 digest32 item_access_mode
  | Ctx_OwnerChange owner_change_kind ident u64
  | Ctx_AdministrativeRekey u64 digest32 ident u64 digest32 digest32

fun operation_context_operation :: "operation_context \<Rightarrow> witness_operation" where
  "operation_context_operation Ctx_ReadStdout = Op_ReadStdout"
| "operation_context_operation Ctx_WritePrivateFile = Op_WritePrivateFile"
| "operation_context_operation Ctx_TemplateInjection = Op_TemplateInjection"
| "operation_context_operation Ctx_ChildEnvironment = Op_ChildEnvironment"
| "operation_context_operation Ctx_ChildStdin = Op_ChildStdin"
| "operation_context_operation (Ctx_ItemMutation _ _ _) = Op_ItemMutation"
| "operation_context_operation (Ctx_Backup _ _ _) = Op_Backup"
| "operation_context_operation (Ctx_Recovery _ _ _) = Op_Recovery"
| "operation_context_operation (Ctx_OwnerChange _ _ _) = Op_AdministrativeRekey"
| "operation_context_operation (Ctx_AdministrativeRekey _ _ _ _ _ _) = Op_AdministrativeRekey"

fun operation_context_suffix :: "operation_context \<Rightarrow> string" where
  "operation_context_suffix Ctx_ReadStdout = ''read-stdout''"
| "operation_context_suffix Ctx_WritePrivateFile = ''write-private-file''"
| "operation_context_suffix Ctx_TemplateInjection = ''template-injection''"
| "operation_context_suffix Ctx_ChildEnvironment = ''child-environment''"
| "operation_context_suffix Ctx_ChildStdin = ''child-stdin''"
| "operation_context_suffix (Ctx_ItemMutation _ _ _) = ''item-mutation''"
| "operation_context_suffix (Ctx_Backup _ _ _) = ''backup''"
| "operation_context_suffix (Ctx_Recovery _ _ _) = ''recovery''"
| "operation_context_suffix (Ctx_AdministrativeRekey _ _ _ _ _ _) = ''administrative-rekey''"
| "operation_context_suffix (Ctx_OwnerChange _ _ _) = ''owner-change''"

fun operation_context_body :: "operation_context \<Rightarrow> witness_protocol_error + bytes" where
  "operation_context_body (Ctx_ItemMutation mutation_kind affected_field_ids proposed_digest) =
     (if \<not> (1 \<le> mutation_kind \<and> mutation_kind \<le> 4) \<or>
         \<not> strictly_sorted_unique (<) affected_field_ids
      then Inl InvalidOrdering
      else and_then (w_list_fixed id_bytes affected_field_ids) (\<lambda>fields.
        Inr ([mutation_kind] @ fields @ as_bytes proposed_digest)))"
| "operation_context_body (Ctx_Backup scope archive_format destination_commitment) =
     (if \<not> (1 \<le> scope \<and> scope \<le> 2) \<or> archive_format = 0 then Inl InvalidFormat
      else Inr ([scope] @ to_be_bytes archive_format @ as_bytes destination_commitment))"
| "operation_context_body (Ctx_Recovery mode destination_commitment next_item_access_mode) =
     (if \<not> (1 \<le> mode \<and> mode \<le> 2) then Inl InvalidFormat
      else Inr ([mode] @ as_bytes destination_commitment @
        [item_access_mode_tag next_item_access_mode]))"
| "operation_context_body (Ctx_OwnerChange change target_principal_id next_sequence) =
     (if next_sequence = 0 then Inl InvalidFormat
      else Inr ([owner_change_kind_tag change] @ id_bytes target_principal_id @
        to_be_bytes next_sequence))"
| "operation_context_body
     (Ctx_AdministrativeRekey next_sequence next_policy_hash next_policy_id next_revision
        next_policy_digest rotation_record_digest) =
     (if next_sequence = 0 \<or> next_revision = 0 then Inl InvalidFormat
      else Inr (to_be_bytes next_sequence @ as_bytes next_policy_hash @ id_bytes next_policy_id @
        to_be_bytes next_revision @ as_bytes next_policy_digest @ as_bytes rotation_record_digest))"
| "operation_context_body _ = Inr []"

definition operation_context_canonical_bytes ::
    "operation_context \<Rightarrow> witness_protocol_error + bytes" where
  "operation_context_canonical_bytes context =
     and_then (operation_context_body context) (\<lambda>body.
     Inr (jce_v1 (''jury-witness-v1/operation-context/'' @ operation_context_suffix context) @
       to_be_bytes (1 :: u16) @ body))"

section \<open>Approval targets\<close>

record approval_target_entry =
  ate_item_id :: ident
  ate_field_id :: "ident option"
  ate_presentation_commitment :: digest32

definition ate_canonical_bytes :: "approval_target_entry \<Rightarrow> bytes" where
  "ate_canonical_bytes e =
     id_bytes (ate_item_id e) @ optional_fixed (map_option id_bytes (ate_field_id e)) @
     as_bytes (ate_presentation_commitment e)"

record approval_target =
  at_entries :: "approval_target_entry list"
  at_presentation_digest :: digest32

definition at_canonical_bytes :: "approval_target \<Rightarrow> witness_protocol_error + bytes" where
  "at_canonical_bytes t =
     (if at_entries t = [] \<or> length (at_entries t) > max_manifest_targets \<or>
         \<not> strictly_sorted_unique
           (\<lambda>l r. (ate_item_id l, ate_field_id l) < (ate_item_id r, ate_field_id r)) (at_entries t)
      then Inl InvalidOrdering
      else and_then (w_list_bytes (map ate_canonical_bytes (at_entries t))) (\<lambda>entries.
        Inr (entries @ as_bytes (at_presentation_digest t))))"

definition at_digest :: "hash_fun \<Rightarrow> approval_target \<Rightarrow> witness_protocol_error + digest32" where
  "at_digest H t =
     and_then (at_canonical_bytes t) (\<lambda>body.
     hash_bytes H ''jury-witness-v1/approval-target/hash'' body)"

section \<open>The encodings are injective\<close>

lemma witness_operation_tag_inject [simp]:
  "witness_operation_tag a = witness_operation_tag b \<longleftrightarrow> a = b"
  by (cases a; cases b) simp_all

lemma witness_operation_from_tag_tag [decode_simps]:
  "witness_operation_from_tag (witness_operation_tag a) = Inr a"
  by (cases a) (simp_all add: witness_operation_from_tag_def)

lemma approval_mode_tag_inject [simp]: "approval_mode_tag a = approval_mode_tag b \<longleftrightarrow> a = b"
  by (cases a; cases b) simp_all

lemma approval_decision_kind_tag_inject [simp]:
  "approval_decision_kind_tag a = approval_decision_kind_tag b \<longleftrightarrow> a = b"
  by (cases a; cases b) simp_all

lemma witness_decision_kind_tag_inject [simp]:
  "witness_decision_kind_tag a = witness_decision_kind_tag b \<longleftrightarrow> a = b"
  by (cases a; cases b) simp_all

lemma witness_reason_tag_inject [simp]: "witness_reason_tag a = witness_reason_tag b \<longleftrightarrow> a = b"
  by (cases a; cases b) simp_all

lemma platform_assurance_tag_inject [simp]:
  "platform_assurance_tag a = platform_assurance_tag b \<longleftrightarrow> a = b"
  by (cases a; cases b) simp_all

lemma stdin_mode_tag_inject [simp]: "stdin_mode_tag a = stdin_mode_tag b \<longleftrightarrow> a = b"
  by (cases a; cases b) simp_all

lemma output_sink_tag_inject [simp]: "output_sink_tag a = output_sink_tag b \<longleftrightarrow> a = b"
  by (cases a; cases b) simp_all

lemma owner_change_kind_tag_inject [simp]:
  "owner_change_kind_tag a = owner_change_kind_tag b \<longleftrightarrow> a = b"
  by (cases a; cases b) simp_all

interpretation wt_codec: prefix_codec wt_canonical_bytes
  by unfold_locales (auto simp: wt_canonical_bytes_def enc_inj intro: witness_target.equality)

interpretation ate_codec: prefix_codec ate_canonical_bytes
  by unfold_locales
    (auto simp: ate_canonical_bytes_def enc_inj intro: approval_target_entry.equality)

lemmas target_codec_inj [enc_inj] =
  wt_codec.prefix_inject wt_codec.enc_inject ate_codec.prefix_inject ate_codec.enc_inject
  bounded_as_bytes_inject

lemma map_ate_inject [enc_inj]:
  "map ate_canonical_bytes xs = map ate_canonical_bytes ys \<longleftrightarrow> xs = ys"
  by (simp add: inj_map_eq_map inj_def enc_inj)

interpretation argument_codec: fallible_codec manifest_argument_canonical_bytes
proof
  fix a p b q r s
  assume "manifest_argument_canonical_bytes a = Inr p"
    and "manifest_argument_canonical_bytes b = Inr q" and "p @ r = q @ s"
  then show "a = b \<and> r = s"
    by (cases a; cases b) (auto simp: result_simps enc_inj)
qed

interpretation injection_codec: fallible_codec ei_canonical_bytes
  by unfold_locales
    (auto simp: ei_canonical_bytes_def result_simps enc_inj intro: environment_injection.equality)

interpretation target_set_codec: fallible_codec at_canonical_bytes
  by unfold_locales
    (auto simp: at_canonical_bytes_def result_simps enc_inj intro: approval_target.equality
       split: if_splits)

lemma operation_context_domain_nul_free:
  "nul_free (''jury-witness-v1/operation-context/'' @ operation_context_suffix ctx)"
  by (cases ctx) (simp_all add: nul_free_def str_bytes_def)

lemma operation_context_inject:
  assumes "operation_context_canonical_bytes a = Inr p"
    and "operation_context_canonical_bytes b = Inr p"
  shows "a = b"
proof -
  obtain x y where x: "operation_context_body a = Inr x" and y: "operation_context_body b = Inr y"
    and eq: "jce_v1 (''jury-witness-v1/operation-context/'' @ operation_context_suffix a) @
        to_be_bytes (1 :: u16) @ x =
      jce_v1 (''jury-witness-v1/operation-context/'' @ operation_context_suffix b) @
        to_be_bytes (1 :: u16) @ y"
    using assms by (auto simp only: operation_context_canonical_bytes_def and_then_Inr sum.inject)
  have "operation_context_suffix a = operation_context_suffix b" and "x = y"
    using eq jce_v1_prefix_inject [OF operation_context_domain_nul_free
        operation_context_domain_nul_free] by simp_all
  then show ?thesis
    using x y
    by (cases a; cases b; simp; auto simp: result_simps enc_inj split: if_splits)
qed

end
