(* ===== verification/Jury_Policy_Witness.thy ===== *)
theory Jury_Policy_Witness
  imports Jury_Vault_Preimage Jury_Witness_Base Jury_BTree
begin

text \<open>
  Witness policies, \<open>jury-core/src/policy/witness.rs\<close> and \<open>policy/witness_v1_bridge.rs\<close>:
  approver and witness descriptors, operation rules, the policy record with its validation,
  encoding and digest, and the translation between the policy enums and the protocol enums.

  Ed25519 verification (\<open>crypto::verify_bytes\<close>, the strict verification of the signature
  library) is the parameter \<open>V\<close>: key, message, signature.

  The lemmas show what \<open>WitnessPolicy::validate\<close> establishes (thresholds between two and the
  number of active witnesses, distinct roles and keys, every eligible approver active and
  allowed), and that the policy digest binds the policy.
\<close>

type_synonym verify_fun = "verification_public_key32 \<Rightarrow> bytes \<Rightarrow> signature64 \<Rightarrow> bool"

section \<open>Errors and enumerations\<close>

datatype policy_error =
    Policy_InvalidFormat | Policy_InvalidSignature | Policy_InvalidAncestry | Policy_Unauthorized
  | Policy_UnknownPrincipal | Policy_UnknownItem | Policy_IdentifierReused | Policy_InvalidRole
  | Policy_SoleOwner | Policy_InvalidTransition | Policy_IncompleteRotation
  | Policy_AmbiguousMutation | Policy_StateHashMismatch | Policy_EntropyUnavailable
  | Policy_RetryExhausted | Policy_CapacityExhausted | Policy_MissingWitnessPolicy

datatype descriptor_status = Status_Active | Status_Revoked

fun status_tag :: "descriptor_status \<Rightarrow> u8" where
  "status_tag Status_Active = 1"
| "status_tag Status_Revoked = 2"

datatype core_approval_mode = CoreApproval_Human | CoreApproval_Automatic

datatype core_witness_operation =
    Core_ReadStdout | Core_WritePrivateFile | Core_TemplateInjection | Core_ChildEnvironment
  | Core_ChildStdin | Core_ItemMutation | Core_Backup | Core_Recovery | Core_AdministrativeRekey

datatype core_platform_assurance = CorePlatform_NormalizedPathOnly | CorePlatform_StableExecutableIdentity

fun protocol_approval_mode :: "core_approval_mode \<Rightarrow> approval_mode" where
  "protocol_approval_mode CoreApproval_Human = Approval_Human"
| "protocol_approval_mode CoreApproval_Automatic = Approval_Automatic"

definition core_approval_mode_tag :: "core_approval_mode \<Rightarrow> u8" where
  "core_approval_mode_tag mode = approval_mode_tag (protocol_approval_mode mode)"

fun protocol_platform_assurance :: "core_platform_assurance \<Rightarrow> platform_assurance" where
  "protocol_platform_assurance CorePlatform_NormalizedPathOnly = Platform_NormalizedPathOnly"
| "protocol_platform_assurance CorePlatform_StableExecutableIdentity =
     Platform_StableExecutableIdentity"

definition core_platform_assurance_tag :: "core_platform_assurance \<Rightarrow> u8" where
  "core_platform_assurance_tag assurance =
     platform_assurance_tag (protocol_platform_assurance assurance)"

fun protocol_operation :: "core_witness_operation \<Rightarrow> witness_operation" where
  "protocol_operation Core_ReadStdout = Op_ReadStdout"
| "protocol_operation Core_WritePrivateFile = Op_WritePrivateFile"
| "protocol_operation Core_TemplateInjection = Op_TemplateInjection"
| "protocol_operation Core_ChildEnvironment = Op_ChildEnvironment"
| "protocol_operation Core_ChildStdin = Op_ChildStdin"
| "protocol_operation Core_ItemMutation = Op_ItemMutation"
| "protocol_operation Core_Backup = Op_Backup"
| "protocol_operation Core_Recovery = Op_Recovery"
| "protocol_operation Core_AdministrativeRekey = Op_AdministrativeRekey"

fun core_operation :: "witness_operation \<Rightarrow> core_witness_operation" where
  "core_operation Op_ReadStdout = Core_ReadStdout"
| "core_operation Op_WritePrivateFile = Core_WritePrivateFile"
| "core_operation Op_TemplateInjection = Core_TemplateInjection"
| "core_operation Op_ChildEnvironment = Core_ChildEnvironment"
| "core_operation Op_ChildStdin = Core_ChildStdin"
| "core_operation Op_ItemMutation = Core_ItemMutation"
| "core_operation Op_Backup = Core_Backup"
| "core_operation Op_Recovery = Core_Recovery"
| "core_operation Op_AdministrativeRekey = Core_AdministrativeRekey"

definition operation_tag :: "core_witness_operation \<Rightarrow> u8" where
  "operation_tag operation = witness_operation_tag (protocol_operation operation)"

lemma core_operation_protocol [simp]: "core_operation (protocol_operation a) = a"
  by (cases a) simp_all

lemma protocol_core_operation [simp]: "protocol_operation (core_operation b) = b"
  by (cases b) simp_all

lemma operation_tag_inject [simp]: "operation_tag a = operation_tag b \<longleftrightarrow> a = b"
  unfolding operation_tag_def using core_operation_protocol by (metis witness_operation_tag_inject)

lemma status_tag_inject [simp]: "status_tag a = status_tag b \<longleftrightarrow> a = b"
  by (cases a; cases b) simp_all

lemma core_approval_mode_tag_inject [simp]:
  "core_approval_mode_tag a = core_approval_mode_tag b \<longleftrightarrow> a = b"
  by (cases a; cases b) (simp_all add: core_approval_mode_tag_def)

lemma core_platform_assurance_tag_inject [simp]:
  "core_platform_assurance_tag a = core_platform_assurance_tag b \<longleftrightarrow> a = b"
  by (cases a; cases b) (simp_all add: core_platform_assurance_tag_def)

text \<open>\<open>derive(Ord)\<close>: the declaration order, which is also the order of the tags.\<close>

instantiation core_witness_operation :: linorder
begin

definition less_eq_core_witness_operation ::
    "core_witness_operation \<Rightarrow> core_witness_operation \<Rightarrow> bool" where
  "less_eq_core_witness_operation a b \<longleftrightarrow> operation_tag a \<le> operation_tag b"

definition less_core_witness_operation ::
    "core_witness_operation \<Rightarrow> core_witness_operation \<Rightarrow> bool" where
  "less_core_witness_operation a b \<longleftrightarrow> operation_tag a < operation_tag b"

instance
  by standard
    (auto simp: less_eq_core_witness_operation_def less_core_witness_operation_def less_le)

end

section \<open>Encoding helpers\<close>

definition p_bytes_field :: "bytes \<Rightarrow> policy_error + bytes" where
  "p_bytes_field value = map_err (\<lambda>_. Policy_CapacityExhausted) (bytes_field value)"

definition p_list_fixed :: "('a \<Rightarrow> bytes) \<Rightarrow> 'a list \<Rightarrow> policy_error + bytes" where
  "p_list_fixed append_one values =
     map_err (\<lambda>_. Policy_CapacityExhausted) (list_fixed append_one values)"

definition p_list_bytes :: "bytes list \<Rightarrow> policy_error + bytes" where
  "p_list_bytes values = map_err (\<lambda>_. Policy_CapacityExhausted) (list_bytes values)"

definition preimage_with_body :: "string \<Rightarrow> bytes \<Rightarrow> policy_error + bytes" where
  "preimage_with_body domain body =
     and_then (p_bytes_field body) (\<lambda>field. Inr (jce_v1 domain @ field))"

definition hash_body :: "hash_fun \<Rightarrow> string \<Rightarrow> bytes \<Rightarrow> policy_error + digest32" where
  "hash_body H domain body =
     and_then (preimage_with_body domain body) (\<lambda>preimage. Inr (H preimage))"

section \<open>Descriptors\<close>

record automatic_read_target =
  art_item_id :: ident
  art_content_role :: content_role
  art_field_id :: "ident option"

definition art_key :: "automatic_read_target \<Rightarrow> ident \<times> content_role \<times> ident option" where
  "art_key t = (art_item_id t, art_content_role t, art_field_id t)"

record approver_policy_descriptor =
  apd_schema :: u16
  apd_approver_id :: ident
  apd_signing_public_key :: verification_public_key32
  apd_signing_key_fingerprint :: digest32
  apd_signing_key_epoch :: u64
  apd_status :: descriptor_status
  apd_approval_mode :: core_approval_mode
  apd_allowed_operations :: "core_witness_operation list"
  apd_created_at_ms :: u64
  apd_self_signature :: signature64

definition max_policy_members :: nat where "max_policy_members = 32"
definition max_operations :: nat where "max_operations = 9"
definition max_automatic_targets :: nat where "max_automatic_targets = 64"

definition apd_canonical_body :: "approver_policy_descriptor \<Rightarrow> policy_error + bytes" where
  "apd_canonical_body d =
     and_then (p_list_fixed (\<lambda>operation. [operation_tag operation]) (apd_allowed_operations d))
       (\<lambda>operations. Inr (
     to_be_bytes (apd_schema d) @
     id_bytes (apd_approver_id d) @
     as_bytes (apd_signing_public_key d) @
     as_bytes (apd_signing_key_fingerprint d) @
     to_be_bytes (apd_signing_key_epoch d) @
     [status_tag (apd_status d)] @
     [core_approval_mode_tag (apd_approval_mode d)] @
     operations @
     to_be_bytes (apd_created_at_ms d)))"

definition apd_canonical_bytes :: "approver_policy_descriptor \<Rightarrow> policy_error + bytes" where
  "apd_canonical_bytes d =
     and_then (apd_canonical_body d) (\<lambda>body. Inr (body @ as_bytes (apd_self_signature d)))"

definition apd_fingerprint ::
    "hash_fun \<Rightarrow> approver_policy_descriptor \<Rightarrow> policy_error + digest32" where
  "apd_fingerprint H d =
     and_then (apd_canonical_body d) (\<lambda>body.
     hash_body H ''jury-witness-v1/approver-descriptor/fingerprint'' body)"

definition apd_self_signature_preimage :: "approver_policy_descriptor \<Rightarrow> policy_error + bytes" where
  "apd_self_signature_preimage d =
     and_then (apd_canonical_body d) (\<lambda>body.
     preimage_with_body ''jury-witness-v1/approver-descriptor/self-signature'' body)"

definition apd_validate ::
    "hash_fun \<Rightarrow> verify_fun \<Rightarrow> approver_policy_descriptor \<Rightarrow> policy_error + unit" where
  "apd_validate H V d =
     (if apd_schema d \<noteq> 1 \<or> apd_signing_key_epoch d = 0 \<or> apd_allowed_operations d = [] \<or>
         length (apd_allowed_operations d) > max_operations \<or>
         \<not> strictly_sorted_unique (<) (apd_allowed_operations d) \<or>
         apd_signing_key_fingerprint d \<noteq>
           signing_key_fingerprint H 2 (apd_approver_id d) (apd_signing_key_epoch d)
             (apd_signing_public_key d)
      then Inl Policy_InvalidFormat
      else and_then (apd_self_signature_preimage d) (\<lambda>preimage.
        ensure (V (apd_signing_public_key d) preimage (apd_self_signature d))
          Policy_InvalidSignature))"

record witness_policy_descriptor =
  wpd_schema :: u16
  wpd_witness_id :: ident
  wpd_share_index :: u8
  wpd_signing_public_key :: verification_public_key32
  wpd_signing_key_fingerprint :: digest32
  wpd_signing_key_epoch :: u64
  wpd_contribution_public_key :: recipient_public_key1216
  wpd_contribution_key_fingerprint :: digest32
  wpd_contribution_key_epoch :: u64
  wpd_status :: descriptor_status
  wpd_created_at_ms :: u64
  wpd_self_signature :: signature64

definition wpd_canonical_body :: "witness_policy_descriptor \<Rightarrow> bytes" where
  "wpd_canonical_body d =
     to_be_bytes (wpd_schema d) @
     id_bytes (wpd_witness_id d) @
     [wpd_share_index d] @
     as_bytes (wpd_signing_public_key d) @
     as_bytes (wpd_signing_key_fingerprint d) @
     to_be_bytes (wpd_signing_key_epoch d) @
     as_bytes (wpd_contribution_public_key d) @
     as_bytes (wpd_contribution_key_fingerprint d) @
     to_be_bytes (wpd_contribution_key_epoch d) @
     [status_tag (wpd_status d)] @
     to_be_bytes (wpd_created_at_ms d)"

definition wpd_canonical_bytes :: "witness_policy_descriptor \<Rightarrow> bytes" where
  "wpd_canonical_bytes d = wpd_canonical_body d @ as_bytes (wpd_self_signature d)"

definition wpd_fingerprint ::
    "hash_fun \<Rightarrow> witness_policy_descriptor \<Rightarrow> policy_error + digest32" where
  "wpd_fingerprint H d =
     hash_body H ''jury-witness-v1/witness-descriptor/fingerprint'' (wpd_canonical_body d)"

definition wpd_self_signature_preimage :: "witness_policy_descriptor \<Rightarrow> policy_error + bytes" where
  "wpd_self_signature_preimage d =
     preimage_with_body ''jury-witness-v1/witness-descriptor/self-signature'' (wpd_canonical_body d)"

definition wpd_validate ::
    "hash_fun \<Rightarrow> verify_fun \<Rightarrow> witness_policy_descriptor \<Rightarrow> policy_error + unit" where
  "wpd_validate H V d =
     (if wpd_schema d \<noteq> 1 \<or> \<not> (1 \<le> wpd_share_index d \<and> wpd_share_index d \<le> 32) \<or>
         wpd_signing_key_epoch d = 0 \<or> wpd_contribution_key_epoch d = 0 \<or>
         wpd_signing_key_fingerprint d \<noteq>
           signing_key_fingerprint H 3 (wpd_witness_id d) (wpd_signing_key_epoch d)
             (wpd_signing_public_key d) \<or>
         wpd_contribution_key_fingerprint d \<noteq>
           recipient_public_key_fingerprint H (wpd_contribution_public_key d)
      then Inl Policy_InvalidFormat
      else and_then (wpd_self_signature_preimage d) (\<lambda>preimage.
        ensure (V (wpd_signing_public_key d) preimage (wpd_self_signature d))
          Policy_InvalidSignature))"

section \<open>Operation rules\<close>

record operation_rule =
  or_operation :: core_witness_operation
  or_eligible_approver_ids :: "ident list"
  or_approval_threshold :: u8
  or_allowed_request_lifetime_ms :: u64
  or_max_timeout_ms :: u64
  or_max_output_bytes :: u32
  or_max_target_count :: u8
  or_required_platform_assurance :: core_platform_assurance
  or_automatic_read_targets :: "automatic_read_target list"

definition art_canonical_bytes :: "automatic_read_target \<Rightarrow> bytes" where
  "art_canonical_bytes t =
     id_bytes (art_item_id t) @ [content_role_tag (art_content_role t)] @
     (case art_field_id t of Some field_id \<Rightarrow> [1] @ id_bytes field_id | None \<Rightarrow> [0])"

definition or_canonical_bytes :: "operation_rule \<Rightarrow> policy_error + bytes" where
  "or_canonical_bytes r =
     and_then (p_list_fixed id_bytes (or_eligible_approver_ids r)) (\<lambda>approvers.
     and_then (p_list_bytes (map art_canonical_bytes (or_automatic_read_targets r))) (\<lambda>targets.
     Inr (
     [operation_tag (or_operation r)] @
     approvers @
     [or_approval_threshold r] @
     to_be_bytes (or_allowed_request_lifetime_ms r) @
     to_be_bytes (or_max_timeout_ms r) @
     to_be_bytes (or_max_output_bytes r) @
     [or_max_target_count r] @
     [core_platform_assurance_tag (or_required_platform_assurance r)] @
     targets)))"

definition or_validate :: "operation_rule \<Rightarrow> policy_error + unit" where
  "or_validate r =
     (let threshold = unat (or_approval_threshold r);
          is_automatic = (or_approval_threshold r = 0) in
      if length (or_eligible_approver_ids r) > max_policy_members \<or>
         \<not> strictly_sorted_unique (<) (or_eligible_approver_ids r) \<or>
         threshold > length (or_eligible_approver_ids r) \<or>
         \<not> (1 \<le> or_allowed_request_lifetime_ms r \<and>
             or_allowed_request_lifetime_ms r \<le> max_request_lifetime_ms) \<or>
         or_max_timeout_ms r = 0 \<or> or_max_output_bytes r = 0 \<or> or_max_target_count r = 0 \<or>
         unat (or_max_target_count r) > max_automatic_targets \<or>
         length (or_automatic_read_targets r) > max_automatic_targets \<or>
         \<not> strictly_sorted_unique (\<lambda>a b. art_key a < art_key b) (or_automatic_read_targets r) \<or>
         list_ex (\<lambda>target. \<not> (case (art_content_role target, art_field_id target) of
             (Content_Descriptor, None) \<Rightarrow> True
           | (Content_Body, Some _) \<Rightarrow> True
           | _ \<Rightarrow> False)) (or_automatic_read_targets r) \<or>
         (is_automatic \<and>
            (or_operation r \<noteq> Core_ReadStdout \<or> or_automatic_read_targets r = [])) \<or>
         (\<not> is_automatic \<and> or_automatic_read_targets r \<noteq> [])
      then Inl Policy_InvalidTransition else Inr ())"

section \<open>Policies\<close>

record witness_policy =
  wp_schema :: u16
  wp_witness_policy_id :: ident
  wp_revision :: u64
  wp_predecessor_policy_digest :: digest32
  wp_vault_id :: ident
  wp_genesis_fingerprint :: digest32
  wp_vault_policy_sequence :: u64
  wp_vault_policy_hash :: digest32
  wp_construction :: u16
  wp_suite :: u16
  wp_approver_descriptors :: "approver_policy_descriptor list"
  wp_witness_descriptors :: "witness_policy_descriptor list"
  wp_witness_threshold :: u8
  wp_operation_rules :: "operation_rule list"
  wp_review_label_set_digest :: digest32
  wp_direct_fallback :: bool

definition zero_digest :: digest32 where
  "zero_digest = fixed_repeat 0"

definition zero_signature :: signature64 where
  "zero_signature = fixed_repeat 0"

definition u8_from_bool :: "bool \<Rightarrow> u8" where
  "u8_from_bool b = (if b then 1 else 0)"

definition wp_canonical_body :: "witness_policy \<Rightarrow> policy_error + bytes" where
  "wp_canonical_body p =
     and_then (collect_results apd_canonical_bytes (wp_approver_descriptors p)) (\<lambda>approvers.
     and_then (collect_results or_canonical_bytes (wp_operation_rules p)) (\<lambda>rules.
     and_then (p_list_bytes approvers) (\<lambda>approvers_field.
     and_then (p_list_bytes (map wpd_canonical_bytes (wp_witness_descriptors p))) (\<lambda>witnesses_field.
     and_then (p_list_bytes rules) (\<lambda>rules_field. Inr (
     to_be_bytes (wp_schema p) @
     id_bytes (wp_witness_policy_id p) @
     to_be_bytes (wp_revision p) @
     as_bytes (wp_predecessor_policy_digest p) @
     id_bytes (wp_vault_id p) @
     as_bytes (wp_genesis_fingerprint p) @
     to_be_bytes (wp_vault_policy_sequence p) @
     as_bytes (wp_vault_policy_hash p) @
     to_be_bytes (wp_construction p) @
     to_be_bytes (wp_suite p) @
     approvers_field @
     witnesses_field @
     [wp_witness_threshold p] @
     rules_field @
     as_bytes (wp_review_label_set_digest p) @
     [u8_from_bool (wp_direct_fallback p)]))))))"

definition wp_digest :: "hash_fun \<Rightarrow> witness_policy \<Rightarrow> policy_error + digest32" where
  "wp_digest H p =
     and_then (wp_canonical_body p) (\<lambda>body. hash_body H ''jury-witness-v1/policy/hash'' body)"

definition wp_active_witnesses :: "witness_policy \<Rightarrow> witness_policy_descriptor list" where
  "wp_active_witnesses p = filter (\<lambda>d. wpd_status d = Status_Active) (wp_witness_descriptors p)"

definition wp_active_approvers ::
    "witness_policy \<Rightarrow> (ident, approver_policy_descriptor) btree_map" where
  "wp_active_approvers p =
     bt_of_entries (map (\<lambda>d. (apd_approver_id d, d))
       (filter (\<lambda>d. apd_status d = Status_Active) (wp_approver_descriptors p)))"

definition wp_validate_rule_approvers ::
    "witness_policy \<Rightarrow> operation_rule \<Rightarrow> policy_error + unit list" where
  "wp_validate_rule_approvers p rule =
     collect_results (\<lambda>approver_id.
       and_then (ok_or Policy_InvalidRole (bt_get (wp_active_approvers p) approver_id)) (\<lambda>approver.
       ensure (or_operation rule \<in> set (apd_allowed_operations approver)) Policy_InvalidRole))
     (or_eligible_approver_ids rule)"

definition wp_validate :: "hash_fun \<Rightarrow> verify_fun \<Rightarrow> witness_policy \<Rightarrow> policy_error + unit" where
  "wp_validate H V p =
     (let active = wp_active_witnesses p;
          members = length (wp_approver_descriptors p) + length (wp_witness_descriptors p) in
      and_then (ensure (\<not> (wp_schema p \<noteq> 1 \<or> wp_revision p = 0 \<or> wp_construction p \<noteq> 1 \<or>
         \<not> (wp_suite p = 1 \<or> wp_suite p = 2) \<or> wp_direct_fallback p \<or>
         length (wp_approver_descriptors p) > max_policy_members \<or>
         length (wp_witness_descriptors p) > max_policy_members \<or>
         wp_operation_rules p = [] \<or> length (wp_operation_rules p) > max_operations \<or>
         \<not> strictly_sorted_unique (\<lambda>a b. apd_approver_id a < apd_approver_id b)
           (wp_approver_descriptors p) \<or>
         \<not> strictly_sorted_unique (\<lambda>a b. wpd_witness_id a < wpd_witness_id b)
           (wp_witness_descriptors p) \<or>
         \<not> strictly_sorted_unique (\<lambda>a b. or_operation a < or_operation b) (wp_operation_rules p) \<or>
         (wp_revision p = 1 \<and> wp_predecessor_policy_digest p \<noteq> zero_digest) \<or>
         (wp_revision p > 1 \<and> wp_predecessor_policy_digest p = zero_digest))) Policy_InvalidFormat)
       (\<lambda>_.
      and_then (collect_results (apd_validate H V) (wp_approver_descriptors p)) (\<lambda>_.
      and_then (collect_results (wpd_validate H V) (wp_witness_descriptors p)) (\<lambda>_.
      and_then (collect_results or_validate (wp_operation_rules p)) (\<lambda>_.
      and_then (ensure (bt_len (bts_of_list (map apd_approver_id (wp_approver_descriptors p) @
         map wpd_witness_id (wp_witness_descriptors p))) = members) Policy_InvalidRole) (\<lambda>_.
      and_then (ensure (2 \<le> length active \<and> length active \<le> 32 \<and>
         2 \<le> unat (wp_witness_threshold p) \<and> unat (wp_witness_threshold p) \<le> length active)
         Policy_InvalidTransition) (\<lambda>_.
      and_then (ensure (bt_len (bts_of_list (map wpd_share_index active)) = length active)
         Policy_InvalidTransition) (\<lambda>_.
      and_then (collect_results (wp_validate_rule_approvers p) (wp_operation_rules p)) (\<lambda>_.
      and_then (ensure (bt_len (bts_of_list (map apd_signing_public_key (wp_approver_descriptors p) @
         map wpd_signing_public_key (wp_witness_descriptors p))) = members) Policy_InvalidRole) (\<lambda>_.
      ensure (bt_len (bts_of_list (map wpd_contribution_public_key (wp_witness_descriptors p))) =
         length (wp_witness_descriptors p)) Policy_InvalidRole))))))))))"

record witness_access_rule =
  war_policy_id :: ident
  war_policy_revision :: u64
  war_policy_digest :: digest32
  war_operation :: core_witness_operation
  war_eligible_approver_ids :: "ident list"
  war_approval_threshold :: u8
  war_witness_ids :: "ident list"
  war_witness_threshold :: u8
  war_allowed_request_lifetime_ms :: u64
  war_max_timeout_ms :: u64
  war_max_output_bytes :: u32
  war_max_target_count :: u8
  war_required_platform_assurance :: core_platform_assurance
  war_automatic_read_targets :: "automatic_read_target list"
  war_carries_quorum_claim :: bool

section \<open>What the policy digest binds\<close>

lemma p_bytes_field_Inr [result_simps]:
  "p_bytes_field v = Inr p \<longleftrightarrow> framable v \<and> p = frame v"
  by (simp only: p_bytes_field_def map_err_Inr bytes_field_frame)

lemma p_list_fixed_Inr [result_simps]:
  "p_list_fixed enc xs = Inr p \<longleftrightarrow> framable xs \<and> p = frame_list enc xs"
  by (simp only: p_list_fixed_def map_err_Inr list_fixed_frame)

lemma p_list_bytes_Inr [result_simps]:
  "p_list_bytes vs = Inr p \<longleftrightarrow> framable vs \<and> list_all framable vs \<and> p = frame_list frame vs"
  by (simp only: p_list_bytes_def map_err_Inr list_bytes_frame)

lemma hash_body_Inr:
  "hash_body H d b = Inr h \<longleftrightarrow> framable b \<and> h = H (body_input d b)"
  by (auto simp: hash_body_def preimage_with_body_def and_then_Inr p_bytes_field_Inr body_input_def)

interpretation operation_byte_codec: prefix_codec "\<lambda>operation. [operation_tag operation]"
  by unfold_locales auto

interpretation art_codec: prefix_codec art_canonical_bytes
  by unfold_locales
    (auto simp: art_canonical_bytes_def enc_inj intro: automatic_read_target.equality
       split: option.splits)

lemmas policy_list_inject [enc_inj] =
  frame_list_inject [OF operation_byte_codec.prefix_codec_axioms]

interpretation apd_codec: fallible_codec apd_canonical_bytes
  by unfold_locales
    (auto simp: apd_canonical_bytes_def apd_canonical_body_def and_then_Inr p_list_fixed_Inr enc_inj
       intro!: approver_policy_descriptor.equality)

interpretation wpd_codec: prefix_codec wpd_canonical_bytes
  by unfold_locales
    (auto simp: wpd_canonical_bytes_def wpd_canonical_body_def enc_inj
       intro: witness_policy_descriptor.equality)

lemma map_art_inject: "map art_canonical_bytes xs = map art_canonical_bytes ys \<longleftrightarrow> xs = ys"
  using art_codec.enc_inject by (simp add: inj_map_eq_map inj_def)

lemma map_wpd_inject: "map wpd_canonical_bytes xs = map wpd_canonical_bytes ys \<longleftrightarrow> xs = ys"
  using wpd_codec.enc_inject by (simp add: inj_map_eq_map inj_def)

interpretation or_codec: fallible_codec or_canonical_bytes
  by unfold_locales
    (auto simp: or_canonical_bytes_def and_then_Inr p_list_fixed_Inr p_list_bytes_Inr enc_inj
       map_art_inject intro!: operation_rule.equality)

lemma u8_from_bool_inject [simp]: "u8_from_bool a = u8_from_bool b \<longleftrightarrow> a = b"
  by (simp add: u8_from_bool_def)

lemma wp_canonical_body_inject:
  assumes "wp_canonical_body a = Inr x" and "wp_canonical_body b = Inr x"
  shows "a = b"
  using assms
  by (auto simp: wp_canonical_body_def and_then_Inr p_list_bytes_Inr enc_inj map_wpd_inject
      dest: apd_codec.collect_unique or_codec.collect_unique intro!: witness_policy.equality)

lemma wp_digest_binds:
  assumes "wp_digest H a = Inr d" and "wp_digest H b = Inr d"
  shows "a = b \<or> body_collision H ''jury-witness-v1/policy/hash'' wp_canonical_body a b"
proof -
  obtain p q where p: "wp_canonical_body a = Inr p" "framable p"
      "d = H (body_input ''jury-witness-v1/policy/hash'' p)"
    and q: "wp_canonical_body b = Inr q" "framable q"
      "d = H (body_input ''jury-witness-v1/policy/hash'' q)"
    using assms by (auto simp: wp_digest_def and_then_Inr hash_body_Inr)
  show ?thesis
    using wp_canonical_body_inject [of a p b] p q body_input_inject [of p q]
    by (cases "p = q") (auto simp: body_collision_def collision_def)
qed

section \<open>What a valid policy guarantees\<close>

lemma or_validate_Inr:
  assumes "or_validate r = Inr ()"
  shows "distinct (or_eligible_approver_ids r)"
    and "unat (or_approval_threshold r) \<le> length (or_eligible_approver_ids r)"
    and "or_allowed_request_lifetime_ms r \<le> max_request_lifetime_ms"
    and "or_approval_threshold r = 0 \<longleftrightarrow> or_automatic_read_targets r \<noteq> []"
    and "or_approval_threshold r = 0 \<Longrightarrow> or_operation r = Core_ReadStdout"
  using assms strictly_sorted_unique_key [of "\<lambda>x. x" "or_eligible_approver_ids r"]
  by (auto simp: or_validate_def Let_def split: if_splits)

lemma wp_active_approvers_Some:
  assumes "bt_get (wp_active_approvers p) a = Some d"
  shows "d \<in> set (wp_approver_descriptors p)" and "apd_approver_id d = a"
    and "apd_status d = Status_Active"
proof -
  have "(a, d) \<in> set (map (\<lambda>d. (apd_approver_id d, d))
      (filter (\<lambda>d. apd_status d = Status_Active) (wp_approver_descriptors p)))"
    using assms map_of_SomeD by (fastforce simp: wp_active_approvers_def bt_get_of_entries)
  then show "d \<in> set (wp_approver_descriptors p)" and "apd_approver_id d = a"
    and "apd_status d = Status_Active"
    by auto
qed

lemma wp_validate_rule_approvers_Inr:
  assumes "wp_validate_rule_approvers p rule = Inr us" and "a \<in> set (or_eligible_approver_ids rule)"
  obtains d where "d \<in> set (wp_approver_descriptors p)" and "apd_approver_id d = a"
    and "apd_status d = Status_Active" and "or_operation rule \<in> set (apd_allowed_operations d)"
proof -
  obtain d where "bt_get (wp_active_approvers p) a = Some d"
    and "or_operation rule \<in> set (apd_allowed_operations d)"
    using collect_results_all [OF assms [unfolded wp_validate_rule_approvers_def]]
    by (auto simp: and_then_Inr ok_or_Inr ensure_Inr)
  then show ?thesis
    using wp_active_approvers_Some that by metis
qed

lemma wp_validate_Inr:
  assumes "wp_validate H V p = Inr ()"
  shows "2 \<le> unat (wp_witness_threshold p)"
    and "unat (wp_witness_threshold p) \<le> length (wp_active_witnesses p)"
    and "length (wp_active_witnesses p) \<le> 32"
    and "distinct (map wpd_share_index (wp_active_witnesses p))"
    and "distinct (map apd_approver_id (wp_approver_descriptors p) @
           map wpd_witness_id (wp_witness_descriptors p))"
    and "distinct (map apd_signing_public_key (wp_approver_descriptors p) @
           map wpd_signing_public_key (wp_witness_descriptors p))"
    and "distinct (map wpd_contribution_public_key (wp_witness_descriptors p))"
    and "\<exists>us. collect_results or_validate (wp_operation_rules p) = Inr us"
    and "\<exists>us. collect_results (wp_validate_rule_approvers p) (wp_operation_rules p) = Inr us"
    and "\<exists>us. collect_results (wpd_validate H V) (wp_witness_descriptors p) = Inr us"
    and "\<exists>us. collect_results (apd_validate H V) (wp_approver_descriptors p) = Inr us"
    and "strictly_sorted_unique (\<lambda>a b. or_operation a < or_operation b) (wp_operation_rules p)"
    and "\<not> wp_direct_fallback p"
proof -
  note lens = bt_len_bts_of_list [of "map apd_approver_id (wp_approver_descriptors p) @
        map wpd_witness_id (wp_witness_descriptors p)"]
    bt_len_bts_of_list [of "map apd_signing_public_key (wp_approver_descriptors p) @
        map wpd_signing_public_key (wp_witness_descriptors p)"]
    bt_len_bts_of_list [of "map wpd_contribution_public_key (wp_witness_descriptors p)"]
    bt_len_bts_of_list [of "map wpd_share_index (wp_active_witnesses p)"]
  note facts = assms [unfolded wp_validate_def Let_def and_then_Inr ensure_Inr]
  show "2 \<le> unat (wp_witness_threshold p)"
    and "unat (wp_witness_threshold p) \<le> length (wp_active_witnesses p)"
    and "length (wp_active_witnesses p) \<le> 32"
    and "distinct (map wpd_share_index (wp_active_witnesses p))"
    and "distinct (map apd_approver_id (wp_approver_descriptors p) @
           map wpd_witness_id (wp_witness_descriptors p))"
    and "distinct (map apd_signing_public_key (wp_approver_descriptors p) @
           map wpd_signing_public_key (wp_witness_descriptors p))"
    and "distinct (map wpd_contribution_public_key (wp_witness_descriptors p))"
    and "\<exists>us. collect_results or_validate (wp_operation_rules p) = Inr us"
    and "\<exists>us. collect_results (wp_validate_rule_approvers p) (wp_operation_rules p) = Inr us"
    and "\<exists>us. collect_results (wpd_validate H V) (wp_witness_descriptors p) = Inr us"
    and "\<exists>us. collect_results (apd_validate H V) (wp_approver_descriptors p) = Inr us"
    and "strictly_sorted_unique (\<lambda>a b. or_operation a < or_operation b) (wp_operation_rules p)"
    and "\<not> wp_direct_fallback p"
    using facts lens by (simp_all only: length_append length_map, blast+)
qed

end
