(* ===== verification/Jury_Witness_Manifest.thy ===== *)
theory Jury_Witness_Manifest
  imports Jury_Witness_Base
begin

text \<open>
  The action manifest (\<open>ActionManifestV1\<close> in \<open>witness_v1/base.rs\<close> and
  \<open>witness_v1/request.rs\<close>): the description of the one action a request asks for, its shape
  rules per operation, its canonical body and its two digests.

  The lemmas show that a digest of a valid manifest binds the whole manifest, and that a
  manifest whose shape is valid exposes a secret only to the targets it lists for approval.
\<close>

record action_manifest =
  mf_schema :: u16
  mf_request_id :: ident
  mf_vault_id :: ident
  mf_genesis_fingerprint :: digest32
  mf_item_id :: ident
  mf_key_epoch :: u64
  mf_item_access_mode :: item_access_mode
  mf_slot_id :: ident
  mf_content_role :: content_role
  mf_revision :: u64
  mf_revision_seal_id :: ident
  mf_vault_policy_sequence :: u64
  mf_vault_policy_hash :: digest32
  mf_witness_policy_id :: ident
  mf_witness_policy_revision :: u64
  mf_witness_policy_digest :: digest32
  mf_requester_principal_id :: ident
  mf_requested_access_role :: access_role
  mf_operation :: witness_operation
  mf_operation_context :: operation_context
  mf_approval_target :: approval_target
  mf_approval_target_digest :: digest32
  mf_executable_identity :: "operation_bytes option"
  mf_arguments :: "manifest_argument list"
  mf_working_directory_commitment :: "digest32 option"
  mf_environment_injections :: "environment_injection list"
  mf_stdin_target :: "witness_target option"
  mf_stdin_mode :: stdin_mode
  mf_output_sink :: output_sink
  mf_output_sink_commitment :: "digest32 option"
  mf_platform_assurance :: platform_assurance
  mf_timeout_ms :: u64
  mf_output_limit_bytes :: u32
  mf_issued_at_ms :: u64
  mf_not_before_ms :: "u64 option"
  mf_expires_at_ms :: u64
  mf_presentation_digest :: digest32

section \<open>Shape\<close>

definition mf_target_is_approved :: "action_manifest \<Rightarrow> witness_target \<Rightarrow> bool" where
  "mf_target_is_approved m target \<longleftrightarrow>
     list_ex (\<lambda>entry. ate_item_id entry = wt_item_id target \<and> ate_field_id entry = wt_field_id target)
       (at_entries (mf_approval_target m))"

definition mf_no_child :: "action_manifest \<Rightarrow> bool" where
  "mf_no_child m \<longleftrightarrow>
     mf_executable_identity m = None \<and> mf_arguments m = [] \<and>
     mf_working_directory_commitment m = None \<and> mf_environment_injections m = [] \<and>
     mf_stdin_target m = None \<and> mf_stdin_mode m = Stdin_None"

fun argument_is_secret :: "manifest_argument \<Rightarrow> bool" where
  "argument_is_secret (PublicLiteral _) = False"
| "argument_is_secret (SecretPlaceholder _) = True"

definition mf_secret_arguments_match :: "action_manifest \<Rightarrow> bool" where
  "mf_secret_arguments_match m \<longleftrightarrow>
     list_all (\<lambda>argument. case argument of
         PublicLiteral _ \<Rightarrow> True
       | SecretPlaceholder target \<Rightarrow> mf_target_is_approved m target) (mf_arguments m)"

definition mf_environment_matches :: "action_manifest \<Rightarrow> bool" where
  "mf_environment_matches m \<longleftrightarrow>
     list_all (\<lambda>entry. mf_target_is_approved m (ei_target entry)) (mf_environment_injections m)"

definition mf_sink_shape :: "action_manifest \<Rightarrow> bool" where
  "mf_sink_shape m \<longleftrightarrow>
     (case mf_output_sink m of
        Sink_PrivateFile \<Rightarrow> mf_output_sink_commitment m \<noteq> None
      | _ \<Rightarrow> mf_output_sink_commitment m = None)"

definition mf_single_item_target :: "action_manifest \<Rightarrow> bool" where
  "mf_single_item_target m \<longleftrightarrow>
     length (at_entries (mf_approval_target m)) = 1 \<and>
     ate_field_id (hd (at_entries (mf_approval_target m))) = None"

definition mf_validate_workload_shape :: "action_manifest \<Rightarrow> witness_protocol_error + unit" where
  "mf_validate_workload_shape m =
     ensure (case mf_operation m of
         Op_ReadStdout \<Rightarrow>
           mf_no_child m \<and> mf_output_sink m = Sink_Stdout \<and> mf_output_sink_commitment m = None
       | Op_WritePrivateFile \<Rightarrow>
           mf_no_child m \<and> mf_output_sink m = Sink_PrivateFile \<and>
           mf_output_sink_commitment m \<noteq> None
       | Op_TemplateInjection \<Rightarrow>
           mf_executable_identity m \<noteq> None \<and> mf_arguments m \<noteq> [] \<and>
           mf_working_directory_commitment m \<noteq> None \<and> mf_environment_injections m = [] \<and>
           mf_stdin_target m = None \<and> mf_stdin_mode m = Stdin_None \<and>
           mf_output_sink m \<noteq> Sink_None \<and> mf_sink_shape m \<and> mf_secret_arguments_match m \<and>
           list_ex argument_is_secret (mf_arguments m)
       | Op_ChildEnvironment \<Rightarrow>
           mf_executable_identity m \<noteq> None \<and> mf_arguments m \<noteq> [] \<and>
           mf_environment_injections m \<noteq> [] \<and> mf_stdin_target m = None \<and>
           mf_stdin_mode m = Stdin_None \<and> mf_output_sink m \<noteq> Sink_None \<and> mf_sink_shape m \<and>
           mf_secret_arguments_match m \<and> mf_environment_matches m
       | Op_ChildStdin \<Rightarrow>
           mf_executable_identity m \<noteq> None \<and> mf_arguments m \<noteq> [] \<and>
           length (at_entries (mf_approval_target m)) = 1 \<and> mf_environment_injections m = [] \<and>
           (case mf_stdin_target m of None \<Rightarrow> False | Some target \<Rightarrow> mf_target_is_approved m target) \<and>
           mf_stdin_mode m = Stdin_SecretBytes \<and> mf_output_sink m \<noteq> Sink_None \<and>
           mf_sink_shape m \<and> mf_secret_arguments_match m
       | Op_ItemMutation \<Rightarrow>
           mf_no_child m \<and> mf_output_sink m = Sink_None \<and> mf_output_sink_commitment m = None \<and>
           (case mf_operation_context m of
              Ctx_ItemMutation mutation_kind affected_field_ids _ \<Rightarrow>
                affected_field_ids =
                  List.map_filter ate_field_id (at_entries (mf_approval_target m)) \<and>
                (mutation_kind = 1 \<or> mutation_kind = 4) = (affected_field_ids = [])
            | _ \<Rightarrow> False)
       | Op_Backup \<Rightarrow>
           mf_no_child m \<and> mf_single_item_target m \<and> mf_output_sink m = Sink_PrivateFile \<and>
           (case mf_operation_context m of
              Ctx_Backup _ _ destination_commitment \<Rightarrow>
                mf_output_sink_commitment m = Some destination_commitment
            | _ \<Rightarrow> False)
       | Op_Recovery \<Rightarrow>
           mf_no_child m \<and> mf_single_item_target m \<and> mf_output_sink m = Sink_PrivateFile \<and>
           (case mf_operation_context m of
              Ctx_Recovery _ destination_commitment _ \<Rightarrow>
                mf_output_sink_commitment m = Some destination_commitment
            | _ \<Rightarrow> False)
       | Op_AdministrativeRekey \<Rightarrow>
           mf_no_child m \<and> mf_single_item_target m \<and> mf_output_sink m = Sink_None \<and>
           mf_output_sink_commitment m = None) InvalidScope"

definition mf_validate_shape :: "hash_fun \<Rightarrow> action_manifest \<Rightarrow> witness_protocol_error + unit" where
  "mf_validate_shape H m =
     (if mf_schema m \<noteq> 1 \<or> mf_key_epoch m = 0 \<or> mf_revision m = 0 \<or>
         mf_vault_policy_sequence m = 0 \<or> mf_witness_policy_revision m = 0 \<or>
         \<not> (mf_item_access_mode m = Mode_WitnessedOnly \<or> mf_item_access_mode m = Mode_Mixed) \<or>
         mf_operation m \<noteq> operation_context_operation (mf_operation_context m)
      then Inl InvalidFormat
      else and_then (at_digest H (mf_approval_target m)) (\<lambda>target_digest.
        if mf_approval_target_digest m \<noteq> target_digest \<or>
           mf_presentation_digest m \<noteq> at_presentation_digest (mf_approval_target m) \<or>
           length (mf_arguments m) > max_arguments \<or>
           length (mf_environment_injections m) > max_environment_names \<or>
           \<not> valid_interval (mf_issued_at_ms m) (mf_not_before_ms m) (mf_expires_at_ms m) \<or>
           list_ex (\<lambda>entry. ate_item_id entry \<noteq> mf_item_id m) (at_entries (mf_approval_target m)) \<or>
           (mf_content_role m = Content_Descriptor \<and>
            list_ex (\<lambda>entry. ate_field_id entry \<noteq> None) (at_entries (mf_approval_target m))) \<or>
           list_ex (\<lambda>entry. \<not> ei_valid_name entry) (mf_environment_injections m) \<or>
           \<not> strictly_sorted_unique
             (\<lambda>l r. bounded_as_bytes (ei_name l) < bounded_as_bytes (ei_name r))
             (mf_environment_injections m)
        then Inl InvalidFormat
        else mf_validate_workload_shape m))"

section \<open>Canonical body and digests\<close>

definition mf_canonical_body :: "hash_fun \<Rightarrow> action_manifest \<Rightarrow> witness_protocol_error + bytes" where
  "mf_canonical_body H m =
     and_then (mf_validate_shape H m) (\<lambda>_.
     and_then (operation_context_canonical_bytes (mf_operation_context m)) (\<lambda>ctx.
     and_then (at_canonical_bytes (mf_approval_target m)) (\<lambda>target.
     and_then (collect_results manifest_argument_canonical_bytes (mf_arguments m)) (\<lambda>arguments.
     and_then (collect_results ei_canonical_bytes (mf_environment_injections m)) (\<lambda>environment.
     and_then (w_bytes_field ctx) (\<lambda>ctx_field.
     and_then (w_bytes_field target) (\<lambda>target_field.
     and_then (w_optional_bytes (map_option bounded_as_bytes (mf_executable_identity m)))
       (\<lambda>executable_field.
     and_then (w_list_bytes arguments) (\<lambda>argument_field.
     and_then (w_list_bytes environment) (\<lambda>environment_field.
     and_then (w_optional_bytes (map_option wt_canonical_bytes (mf_stdin_target m))) (\<lambda>stdin_field.
     (let output =
       to_be_bytes (mf_schema m) @
       id_bytes (mf_request_id m) @
       id_bytes (mf_vault_id m) @
       as_bytes (mf_genesis_fingerprint m) @
       id_bytes (mf_item_id m) @
       to_be_bytes (mf_key_epoch m) @
       [item_access_mode_tag (mf_item_access_mode m)] @
       id_bytes (mf_slot_id m) @
       [content_role_tag (mf_content_role m)] @
       to_be_bytes (mf_revision m) @
       id_bytes (mf_revision_seal_id m) @
       to_be_bytes (mf_vault_policy_sequence m) @
       as_bytes (mf_vault_policy_hash m) @
       id_bytes (mf_witness_policy_id m) @
       to_be_bytes (mf_witness_policy_revision m) @
       as_bytes (mf_witness_policy_digest m) @
       id_bytes (mf_requester_principal_id m) @
       [access_role_tag (mf_requested_access_role m)] @
       [witness_operation_tag (mf_operation m)] @
       ctx_field @
       target_field @
       as_bytes (mf_approval_target_digest m) @
       executable_field @
       argument_field @
       optional_fixed (map_option as_bytes (mf_working_directory_commitment m)) @
       environment_field @
       stdin_field @
       [stdin_mode_tag (mf_stdin_mode m)] @
       [output_sink_tag (mf_output_sink m)] @
       optional_fixed (map_option as_bytes (mf_output_sink_commitment m)) @
       [platform_assurance_tag (mf_platform_assurance m)] @
       to_be_bytes (mf_timeout_ms m) @
       to_be_bytes (mf_output_limit_bytes m) @
       to_be_bytes (mf_issued_at_ms m) @
       optional_u64 (mf_not_before_ms m) @
       to_be_bytes (mf_expires_at_ms m) @
       as_bytes (mf_presentation_digest m)
      in if length output > max_manifest_bytes then Inl CapacityExhausted
         else Inr output))))))))))))"

definition mf_digest :: "hash_fun \<Rightarrow> action_manifest \<Rightarrow> witness_protocol_error + digest32" where
  "mf_digest H m =
     and_then (mf_canonical_body H m) (\<lambda>body.
     hash_bytes H ''jury-witness-v1/action-manifest/hash'' body)"

definition mf_workload_preimage :: "hash_fun \<Rightarrow> action_manifest \<Rightarrow> witness_protocol_error + bytes" where
  "mf_workload_preimage H m =
     and_then (mf_validate_shape H m) (\<lambda>_.
     and_then (operation_context_canonical_bytes (mf_operation_context m)) (\<lambda>ctx.
     and_then (collect_results manifest_argument_canonical_bytes (mf_arguments m)) (\<lambda>arguments.
     and_then (collect_results ei_canonical_bytes (mf_environment_injections m)) (\<lambda>environment.
     and_then (w_bytes_field ctx) (\<lambda>ctx_field.
     and_then (w_optional_bytes (map_option bounded_as_bytes (mf_executable_identity m)))
       (\<lambda>executable_field.
     and_then (w_list_bytes arguments) (\<lambda>argument_field.
     and_then (w_list_bytes environment) (\<lambda>environment_field.
     and_then (w_optional_bytes (map_option wt_canonical_bytes (mf_stdin_target m))) (\<lambda>stdin_field.
     Inr (jce_v1 ''jury-witness-v1/workload/hash'' @
       [witness_operation_tag (mf_operation m)] @
       ctx_field @
       executable_field @
       argument_field @
       optional_fixed (map_option as_bytes (mf_working_directory_commitment m)) @
       environment_field @
       stdin_field @
       [stdin_mode_tag (mf_stdin_mode m)] @
       [output_sink_tag (mf_output_sink m)] @
       optional_fixed (map_option as_bytes (mf_output_sink_commitment m)) @
       [platform_assurance_tag (mf_platform_assurance m)] @
       to_be_bytes (mf_timeout_ms m) @
       to_be_bytes (mf_output_limit_bytes m)))))))))))"

definition mf_workload_digest :: "hash_fun \<Rightarrow> action_manifest \<Rightarrow> witness_protocol_error + digest32" where
  "mf_workload_digest H m = and_then (mf_workload_preimage H m) (\<lambda>output. Inr (H output))"

section \<open>What the digests bind\<close>

lemma map_wt_inject [enc_inj]:
  "map_option wt_canonical_bytes a = map_option wt_canonical_bytes b \<longleftrightarrow> a = b"
  by (rule map_option_inject_iff) (rule wt_codec.enc_inject)

lemma map_bounded_inject [enc_inj]:
  "map_option bounded_as_bytes a = map_option bounded_as_bytes b \<longleftrightarrow> a = b"
  by (rule map_option_inject_iff) (rule bounded_as_bytes_inject)

lemma mf_canonical_body_inject:
  assumes "mf_canonical_body H a = Inr p" and "mf_canonical_body H b = Inr p"
  shows "a = b"
  using assms
  by (auto simp: mf_canonical_body_def and_then_Inr w_bytes_field_Inr w_list_bytes_Inr
      w_optional_bytes_Inr Let_def enc_inj
      dest: operation_context_inject target_set_codec.try_enc_inject
        argument_codec.collect_unique injection_codec.collect_unique
      intro!: action_manifest.equality split: if_splits)

lemma mf_digest_binds_manifest:
  assumes "mf_digest H a = Inr d" and "mf_digest H b = Inr d"
  shows "a = b \<or>
    body_collision H ''jury-witness-v1/action-manifest/hash'' (mf_canonical_body H) a b"
  by (rule hash_bytes_message_binds)
    (use assms in \<open>auto simp only: mf_digest_def intro: mf_canonical_body_inject\<close>)

section \<open>Where a valid manifest lets a secret go\<close>

definition argument_targets :: "manifest_argument list \<Rightarrow> witness_target list" where
  "argument_targets arguments =
     List.map_filter (\<lambda>argument. case argument of
       PublicLiteral _ \<Rightarrow> None | SecretPlaceholder target \<Rightarrow> Some target) arguments"

text \<open>Every place of the manifest that names a secret to be released.\<close>

definition mf_released_targets :: "action_manifest \<Rightarrow> witness_target list" where
  "mf_released_targets m =
     argument_targets (mf_arguments m) @ map ei_target (mf_environment_injections m) @
     (case mf_stdin_target m of None \<Rightarrow> [] | Some target \<Rightarrow> [target])"

lemma argument_targets_approved:
  assumes "mf_secret_arguments_match m" and "t \<in> set (argument_targets (mf_arguments m))"
  shows "mf_target_is_approved m t"
  using assms
  by (auto simp: argument_targets_def mf_secret_arguments_match_def List.map_filter_def list_all_iff
      split: manifest_argument.splits)

lemma workload_shape_releases_approved:
  assumes "mf_validate_workload_shape m = Inr ()" and "t \<in> set (mf_released_targets m)"
  shows "mf_target_is_approved m t"
proof -
  have none: "mf_released_targets m = []" if "mf_no_child m"
    using that by (simp add: mf_released_targets_def mf_no_child_def argument_targets_def
        List.map_filter_def)
  show ?thesis
  proof (cases "mf_no_child m")
    case True
    then show ?thesis using none assms(2) by simp
  next
    case False
    then have "mf_operation m \<in> {Op_TemplateInjection, Op_ChildEnvironment, Op_ChildStdin}"
      and match: "mf_secret_arguments_match m"
      using assms(1)
      by (auto simp: mf_validate_workload_shape_def ensure_Inr split: witness_operation.splits)
    then show ?thesis
      using assms argument_targets_approved [OF match, of t]
      by (auto simp: mf_validate_workload_shape_def mf_released_targets_def ensure_Inr
          mf_environment_matches_def list_all_iff split: option.splits)
  qed
qed

lemma mf_validate_shape_Inr:
  assumes "mf_validate_shape H m = Inr ()"
  shows "mf_validate_workload_shape m = Inr ()"
    and "list_all (\<lambda>entry. ate_item_id entry = mf_item_id m) (at_entries (mf_approval_target m))"
    and "valid_interval (mf_issued_at_ms m) (mf_not_before_ms m) (mf_expires_at_ms m)"
    and "at_digest H (mf_approval_target m) = Inr (mf_approval_target_digest m)"
  using assms
  by (auto simp: mf_validate_shape_def and_then_Inr list_all_iff list_ex_iff split: if_splits)

lemma mf_target_is_approved_item:
  assumes "mf_validate_shape H m = Inr ()" and "mf_target_is_approved m t"
  shows "wt_item_id t = mf_item_id m"
  using mf_validate_shape_Inr(2) [OF assms(1)] assms(2)
  by (auto simp: mf_target_is_approved_def list_ex_iff list_all_iff)

section \<open>Properties\<close>

text \<open>A manifest that pipes one field of an item into a child process.\<close>

definition sample_manifest :: "u64 \<Rightarrow> action_manifest" where
  "sample_manifest timeout_ms =
     \<lparr>mf_schema = 1, mf_request_id = id_repeat 1, mf_vault_id = id_repeat 2,
      mf_genesis_fingerprint = fixed_repeat 3, mf_item_id = id_repeat 4, mf_key_epoch = 1,
      mf_item_access_mode = Mode_WitnessedOnly, mf_slot_id = id_repeat 5,
      mf_content_role = Content_Body, mf_revision = 1, mf_revision_seal_id = id_repeat 6,
      mf_vault_policy_sequence = 1, mf_vault_policy_hash = fixed_repeat 7,
      mf_witness_policy_id = id_repeat 8, mf_witness_policy_revision = 1,
      mf_witness_policy_digest = fixed_repeat 9, mf_requester_principal_id = id_repeat 10,
      mf_requested_access_role = Role_Reader, mf_operation = Op_ChildStdin,
      mf_operation_context = Ctx_ChildStdin,
      mf_approval_target = \<lparr>at_entries = [\<lparr>ate_item_id = id_repeat 4,
         ate_field_id = Some (id_repeat 11), ate_presentation_commitment = fixed_repeat 12\<rparr>],
         at_presentation_digest = fixed_repeat 13\<rparr>,
      mf_approval_target_digest = fixed_repeat 14,
      mf_executable_identity = Some (bounded_of_list [47]),
      mf_arguments = [PublicLiteral (bounded_of_list [45])],
      mf_working_directory_commitment = None, mf_environment_injections = [],
      mf_stdin_target = Some \<lparr>wt_item_id = id_repeat 4, wt_field_id = Some (id_repeat 11)\<rparr>,
      mf_stdin_mode = Stdin_SecretBytes, mf_output_sink = Sink_Stdout,
      mf_output_sink_commitment = None, mf_platform_assurance = Platform_NormalizedPathOnly,
      mf_timeout_ms = timeout_ms, mf_output_limit_bytes = 4096, mf_issued_at_ms = 1000,
      mf_not_before_ms = None, mf_expires_at_ms = 2000,
      mf_presentation_digest = fixed_repeat 13\<rparr>"

lemma sample_manifest_valid: "mf_validate_shape (\<lambda>_. fixed_repeat 14) (sample_manifest t) = Inr ()"
proof -
  have "at_digest (\<lambda>_. fixed_repeat 14) (mf_approval_target (sample_manifest t)) = Inr (fixed_repeat 14)"
    by (simp add: sample_manifest_def at_digest_def at_canonical_bytes_def and_then_Inr
        w_list_bytes_Inr hash_bytes_Inr max_manifest_targets_def framable_def ate_canonical_bytes_def
        optional_fixed_def frame_list_def frame_def)
  then show ?thesis
    by (simp add: mf_validate_shape_def)
      (simp add: sample_manifest_def mf_validate_workload_shape_def mf_target_is_approved_def
        mf_sink_shape_def mf_secret_arguments_match_def valid_interval_def checked_sub_def
        max_arguments_def max_environment_names_def max_request_lifetime_ms_def)
qed

text \<open>
  C14. A manifest that passes validation can release a secret only to targets it lists for
  approval, and all of them belong to the item of the request: every secret argument, every
  environment injection and the stdin source names an approved (item, field) pair of that item.
\<close>

theorem valid_manifest_releases_only_approved:
  assumes "mf_validate_shape H m = Inr ()" and "t \<in> set (mf_released_targets m)"
  shows "mf_target_is_approved m t \<and> wt_item_id t = mf_item_id m"
  using workload_shape_releases_approved [OF mf_validate_shape_Inr(1) [OF assms(1)] assms(2)]
    mf_target_is_approved_item [OF assms(1)] by blast

theorem valid_manifest_releases_only_approved_witness:
  "\<lparr>wt_item_id = id_repeat 4, wt_field_id = Some (id_repeat 11)\<rparr> \<in>
     set (mf_released_targets (sample_manifest 1000)) \<and>
   mf_target_is_approved (sample_manifest 1000) \<lparr>wt_item_id = id_repeat 4, wt_field_id = Some (id_repeat 11)\<rparr>"
proof -
  have "\<lparr>wt_item_id = id_repeat 4, wt_field_id = Some (id_repeat 11)\<rparr> \<in>
      set (mf_released_targets (sample_manifest 1000))"
    by (simp add: sample_manifest_def mf_released_targets_def)
  then show ?thesis
    using valid_manifest_releases_only_approved [OF sample_manifest_valid] by blast
qed

lemma sample_manifest_digest:
  "mf_digest (\<lambda>_. fixed_repeat 14) (sample_manifest t) = Inr (fixed_repeat 14)"
  by (simp add: mf_digest_def mf_canonical_body_def sample_manifest_valid)
    (simp add: sample_manifest_def operation_context_canonical_bytes_def at_canonical_bytes_def
      max_manifest_targets_def ate_canonical_bytes_def max_manifest_bytes_def
      wt_canonical_bytes_def run_simps)

text \<open>
  C15. The digest of a valid manifest binds every field of it: two manifests with the same digest
  are equal, unless the two canonical bodies the code hashes for them collide.
\<close>

theorem manifest_digest_binds:
  assumes "mf_digest H a = Inr d" and "mf_digest H b = Inr d"
  shows "a = b \<or>
    body_collision H ''jury-witness-v1/action-manifest/hash'' (mf_canonical_body H) a b"
  using assms by (rule mf_digest_binds_manifest)

theorem manifest_digest_binds_witness:
  "body_collision (\<lambda>_. fixed_repeat 14) ''jury-witness-v1/action-manifest/hash''
     (mf_canonical_body (\<lambda>_. fixed_repeat 14)) (sample_manifest 1000) (sample_manifest 2000)"
proof -
  have "sample_manifest 1000 \<noteq> sample_manifest 2000"
    by (simp add: sample_manifest_def)
  then show ?thesis
    using manifest_digest_binds [OF sample_manifest_digest sample_manifest_digest] by blast
qed

end
