(* ===== verification/Jury_Witness_Request.thy ===== *)
theory Jury_Witness_Request
  imports Jury_Witness_Manifest
begin

text \<open>
  The witness request (\<open>IntendedWitnessV1\<close> and \<open>WitnessRequestV1\<close> in
  \<open>witness_v1/request.rs\<close>): its shape, the bytes the client signs, its digests, and the parser
  \<open>from_signature_preimage\<close> that receipts use to rebuild the typed request from signed bytes.

  The lemmas show that parsing inverts signing-preimage construction in both directions, so a
  receipt cannot carry a request that differs from the signed one.
\<close>

record intended_witness =
  iw_witness_id :: ident
  iw_share_index :: u8
  iw_signing_key_fingerprint :: digest32
  iw_contribution_key_fingerprint :: digest32

definition iw_canonical_bytes :: "intended_witness \<Rightarrow> bytes" where
  "iw_canonical_bytes w =
     id_bytes (iw_witness_id w) @ [iw_share_index w] @ as_bytes (iw_signing_key_fingerprint w) @
     as_bytes (iw_contribution_key_fingerprint w)"

record witness_request =
  rq_schema :: u16
  rq_protocol_version :: u16
  rq_construction :: u16
  rq_request_id :: ident
  rq_client_nonce :: ident
  rq_vault_id :: ident
  rq_genesis_fingerprint :: digest32
  rq_item_id :: ident
  rq_key_epoch :: u64
  rq_item_access_mode :: item_access_mode
  rq_slot_id :: ident
  rq_content_role :: content_role
  rq_revision :: u64
  rq_revision_seal_id :: ident
  rq_vault_policy_sequence :: u64
  rq_vault_policy_hash :: digest32
  rq_policy_checkpoint_digest :: digest32
  rq_witness_policy_id :: ident
  rq_witness_policy_revision :: u64
  rq_witness_policy_digest :: digest32
  rq_requester_principal_id :: ident
  rq_requester_signing_key_fingerprint :: digest32
  rq_requester_signing_key_epoch :: u64
  rq_requested_access_role :: access_role
  rq_operation :: witness_operation
  rq_approval_target_digest :: digest32
  rq_action_manifest_digest :: digest32
  rq_workload_digest :: digest32
  rq_issued_at_ms :: u64
  rq_not_before_ms :: "u64 option"
  rq_expires_at_ms :: u64
  rq_request_session_public_key :: recipient_public_key1216
  rq_request_session_key_fingerprint :: digest32
  rq_intended_witness_set :: "intended_witness list"
  rq_client_signature :: signature64

section \<open>Shape\<close>

definition rq_validate_shape :: "hash_fun \<Rightarrow> witness_request \<Rightarrow> witness_protocol_error + unit" where
  "rq_validate_shape H r =
     (if rq_schema r \<noteq> 1 \<or> rq_protocol_version r \<noteq> protocol_version \<or>
         rq_construction r \<noteq> construction \<or> rq_key_epoch r = 0 \<or> rq_revision r = 0 \<or>
         rq_vault_policy_sequence r = 0 \<or> rq_witness_policy_revision r = 0 \<or>
         rq_requester_signing_key_epoch r = 0 \<or>
         \<not> (rq_item_access_mode r = Mode_WitnessedOnly \<or> rq_item_access_mode r = Mode_Mixed) \<or>
         \<not> valid_interval (rq_issued_at_ms r) (rq_not_before_ms r) (rq_expires_at_ms r) \<or>
         length (rq_intended_witness_set r) < 2 \<or>
         length (rq_intended_witness_set r) > max_policy_actors \<or>
         \<not> strictly_sorted_unique (\<lambda>a b. iw_witness_id a < iw_witness_id b)
           (rq_intended_witness_set r) \<or>
         list_ex (\<lambda>entry. iw_share_index entry = 0 \<or> iw_share_index entry > 32)
           (rq_intended_witness_set r) \<or>
         any_later_pair (\<lambda>entry other.
             iw_share_index entry = iw_share_index other \<or>
             iw_signing_key_fingerprint entry = iw_signing_key_fingerprint other \<or>
             iw_contribution_key_fingerprint entry = iw_contribution_key_fingerprint other)
           (rq_intended_witness_set r) \<or>
         rq_request_session_key_fingerprint r \<noteq>
           recipient_public_key_fingerprint H (rq_request_session_public_key r)
      then Inl InvalidFormat
      else Inr ())"

section \<open>Encoding\<close>

definition rq_append_fields :: "witness_request \<Rightarrow> witness_protocol_error + bytes" where
  "rq_append_fields r =
     and_then (w_list_fixed iw_canonical_bytes (rq_intended_witness_set r)) (\<lambda>witnesses. Inr (
     to_be_bytes (rq_schema r) @
     to_be_bytes (rq_protocol_version r) @
     to_be_bytes (rq_construction r) @
     id_bytes (rq_request_id r) @
     id_bytes (rq_client_nonce r) @
     id_bytes (rq_vault_id r) @
     as_bytes (rq_genesis_fingerprint r) @
     id_bytes (rq_item_id r) @
     to_be_bytes (rq_key_epoch r) @
     [item_access_mode_tag (rq_item_access_mode r)] @
     id_bytes (rq_slot_id r) @
     [content_role_tag (rq_content_role r)] @
     to_be_bytes (rq_revision r) @
     id_bytes (rq_revision_seal_id r) @
     to_be_bytes (rq_vault_policy_sequence r) @
     as_bytes (rq_vault_policy_hash r) @
     as_bytes (rq_policy_checkpoint_digest r) @
     id_bytes (rq_witness_policy_id r) @
     to_be_bytes (rq_witness_policy_revision r) @
     as_bytes (rq_witness_policy_digest r) @
     id_bytes (rq_requester_principal_id r) @
     as_bytes (rq_requester_signing_key_fingerprint r) @
     to_be_bytes (rq_requester_signing_key_epoch r) @
     [access_role_tag (rq_requested_access_role r)] @
     [witness_operation_tag (rq_operation r)] @
     as_bytes (rq_approval_target_digest r) @
     as_bytes (rq_action_manifest_digest r) @
     as_bytes (rq_workload_digest r) @
     to_be_bytes (rq_issued_at_ms r) @
     optional_u64 (rq_not_before_ms r) @
     to_be_bytes (rq_expires_at_ms r) @
     as_bytes (rq_request_session_public_key r) @
     as_bytes (rq_request_session_key_fingerprint r) @
     witnesses))"

definition rq_signature_preimage :: "hash_fun \<Rightarrow> witness_request \<Rightarrow> witness_protocol_error + bytes" where
  "rq_signature_preimage H r =
     and_then (rq_validate_shape H r) (\<lambda>_.
     and_then (rq_append_fields r) (\<lambda>fields.
     Inr (jce_v1 ''jury-witness-v1/request/signature'' @ fields)))"

definition rq_canonical_bytes :: "hash_fun \<Rightarrow> witness_request \<Rightarrow> witness_protocol_error + bytes" where
  "rq_canonical_bytes H r =
     and_then (rq_validate_shape H r) (\<lambda>_.
     and_then (rq_append_fields r) (\<lambda>fields.
     let output = fields @ as_bytes (rq_client_signature r) in
     if length output > max_request_bytes then Inl CapacityExhausted else Inr output))"

definition rq_digest :: "hash_fun \<Rightarrow> witness_request \<Rightarrow> witness_protocol_error + digest32" where
  "rq_digest H r =
     and_then (rq_signature_preimage H r) (\<lambda>preimage.
     hash_signed H ''jury-witness-v1/request/hash'' preimage (rq_client_signature r))"

definition rq_intended_witness_set_digest ::
    "hash_fun \<Rightarrow> witness_request \<Rightarrow> witness_protocol_error + digest32" where
  "rq_intended_witness_set_digest H r =
     and_then (w_list_fixed iw_canonical_bytes (rq_intended_witness_set r)) (\<lambda>field.
     Inr (H (jce_v1 ''jury-witness-v1/intended-witness-set/hash'' @ field)))"

section \<open>Parsing\<close>

definition ci_item_access_mode :: "item_access_mode reader" where
  "ci_item_access_mode input =
     read_then (ci_u8 input) (\<lambda>tag input.
     if tag = 1 then Inr (Mode_DirectOnly, input)
     else if tag = 2 then Inr (Mode_WitnessedOnly, input)
     else if tag = 3 then Inr (Mode_Mixed, input)
     else Inl InvalidFormat)"

definition ci_content_role :: "content_role reader" where
  "ci_content_role input =
     read_then (ci_u8 input) (\<lambda>tag input.
     if tag = 1 then Inr (Content_Descriptor, input)
     else if tag = 2 then Inr (Content_Body, input)
     else Inl InvalidFormat)"

definition ci_access_role :: "access_role reader" where
  "ci_access_role input =
     read_then (ci_u8 input) (\<lambda>tag input.
     if tag = 1 then Inr (Role_Reader, input)
     else if tag = 2 then Inr (Role_Writer, input)
     else if tag = 3 then Inr (Role_Owner, input)
     else Inl InvalidFormat)"

definition ci_witness_operation :: "witness_operation reader" where
  "ci_witness_operation input =
     read_then (ci_u8 input) (\<lambda>tag input.
     and_then (witness_operation_from_tag tag) (\<lambda>operation. Inr (operation, input)))"

definition ci_intended_witness :: "intended_witness reader" where
  "ci_intended_witness input =
     read_then (ci_identifier input) (\<lambda>witness_id input.
     read_then (ci_u8 input) (\<lambda>share_index input.
     read_then (ci_fixed input) (\<lambda>signing_key_fingerprint input.
     read_then (ci_fixed input) (\<lambda>contribution_key_fingerprint input.
     Inr (\<lparr>iw_witness_id = witness_id, iw_share_index = share_index,
       iw_signing_key_fingerprint = signing_key_fingerprint,
       iw_contribution_key_fingerprint = contribution_key_fingerprint\<rparr>, input)))))"

definition rq_from_signature_preimage ::
    "hash_fun \<Rightarrow> bytes \<Rightarrow> signature64 \<Rightarrow> witness_protocol_error + witness_request" where
  "rq_from_signature_preimage H preimage client_signature =
     (if length preimage > max_request_bytes then Inl CapacityExhausted else
      let input = ci_new preimage in
      read_then (ci_domain ''jury-witness-v1/request/signature'' input) (\<lambda>_ input.
      read_then (ci_u16 input) (\<lambda>schema input.
      read_then (ci_u16 input) (\<lambda>protocol_version input.
      read_then (ci_u16 input) (\<lambda>construction input.
      read_then (ci_identifier input) (\<lambda>request_id input.
      read_then (ci_identifier input) (\<lambda>client_nonce input.
      read_then (ci_identifier input) (\<lambda>vault_id input.
      read_then (ci_fixed input) (\<lambda>genesis_fingerprint input.
      read_then (ci_identifier input) (\<lambda>item_id input.
      read_then (ci_u64 input) (\<lambda>key_epoch input.
      read_then (ci_item_access_mode input) (\<lambda>item_access_mode input.
      read_then (ci_identifier input) (\<lambda>slot_id input.
      read_then (ci_content_role input) (\<lambda>content_role input.
      read_then (ci_u64 input) (\<lambda>revision input.
      read_then (ci_identifier input) (\<lambda>revision_seal_id input.
      read_then (ci_u64 input) (\<lambda>vault_policy_sequence input.
      read_then (ci_fixed input) (\<lambda>vault_policy_hash input.
      read_then (ci_fixed input) (\<lambda>policy_checkpoint_digest input.
      read_then (ci_identifier input) (\<lambda>witness_policy_id input.
      read_then (ci_u64 input) (\<lambda>witness_policy_revision input.
      read_then (ci_fixed input) (\<lambda>witness_policy_digest input.
      read_then (ci_identifier input) (\<lambda>requester_principal_id input.
      read_then (ci_fixed input) (\<lambda>requester_signing_key_fingerprint input.
      read_then (ci_u64 input) (\<lambda>requester_signing_key_epoch input.
      read_then (ci_access_role input) (\<lambda>requested_access_role input.
      read_then (ci_witness_operation input) (\<lambda>operation input.
      read_then (ci_fixed input) (\<lambda>approval_target_digest input.
      read_then (ci_fixed input) (\<lambda>action_manifest_digest input.
      read_then (ci_fixed input) (\<lambda>workload_digest input.
      read_then (ci_u64 input) (\<lambda>issued_at_ms input.
      read_then (ci_optional_u64 input) (\<lambda>not_before_ms input.
      read_then (ci_u64 input) (\<lambda>expires_at_ms input.
      read_then (ci_fixed input) (\<lambda>request_session_public_key input.
      read_then (ci_fixed input) (\<lambda>request_session_key_fingerprint input.
      read_then (ci_length max_policy_actors input) (\<lambda>witness_count input.
      read_then (ci_repeat witness_count ci_intended_witness input) (\<lambda>intended_witness_set input.
      and_then (ci_finish input) (\<lambda>_.
      let request = \<lparr>
        rq_schema = schema,
        rq_protocol_version = protocol_version,
        rq_construction = construction,
        rq_request_id = request_id,
        rq_client_nonce = client_nonce,
        rq_vault_id = vault_id,
        rq_genesis_fingerprint = genesis_fingerprint,
        rq_item_id = item_id,
        rq_key_epoch = key_epoch,
        rq_item_access_mode = item_access_mode,
        rq_slot_id = slot_id,
        rq_content_role = content_role,
        rq_revision = revision,
        rq_revision_seal_id = revision_seal_id,
        rq_vault_policy_sequence = vault_policy_sequence,
        rq_vault_policy_hash = vault_policy_hash,
        rq_policy_checkpoint_digest = policy_checkpoint_digest,
        rq_witness_policy_id = witness_policy_id,
        rq_witness_policy_revision = witness_policy_revision,
        rq_witness_policy_digest = witness_policy_digest,
        rq_requester_principal_id = requester_principal_id,
        rq_requester_signing_key_fingerprint = requester_signing_key_fingerprint,
        rq_requester_signing_key_epoch = requester_signing_key_epoch,
        rq_requested_access_role = requested_access_role,
        rq_operation = operation,
        rq_approval_target_digest = approval_target_digest,
        rq_action_manifest_digest = action_manifest_digest,
        rq_workload_digest = workload_digest,
        rq_issued_at_ms = issued_at_ms,
        rq_not_before_ms = not_before_ms,
        rq_expires_at_ms = expires_at_ms,
        rq_request_session_public_key = request_session_public_key,
        rq_request_session_key_fingerprint = request_session_key_fingerprint,
        rq_intended_witness_set = intended_witness_set,
        rq_client_signature = client_signature\<rparr>
      in and_then (rq_signature_preimage H request) (\<lambda>reencoded.
         if reencoded \<noteq> preimage then Inl InvalidFormat else Inr request)))))))))))))))))))))))))))))))))))))))"

section \<open>Parsing inverts encoding\<close>

interpretation iw_codec: prefix_codec iw_canonical_bytes
  by unfold_locales (auto simp: iw_canonical_bytes_def enc_inj intro: intended_witness.equality)

lemma ci_item_access_mode_at [decode_simps]:
  "addressable (consumed @ item_access_mode_tag m # rest) \<Longrightarrow>
     ci_item_access_mode (ci_at consumed (item_access_mode_tag m # rest)) =
       Inr (m, ci_at (consumed @ [item_access_mode_tag m]) rest)"
  by (cases m) (simp_all add: ci_item_access_mode_def ci_u8_at)

lemma ci_content_role_at [decode_simps]:
  "addressable (consumed @ content_role_tag m # rest) \<Longrightarrow>
     ci_content_role (ci_at consumed (content_role_tag m # rest)) =
       Inr (m, ci_at (consumed @ [content_role_tag m]) rest)"
  by (cases m) (simp_all add: ci_content_role_def ci_u8_at)

lemma ci_access_role_at [decode_simps]:
  "addressable (consumed @ access_role_tag m # rest) \<Longrightarrow>
     ci_access_role (ci_at consumed (access_role_tag m # rest)) =
       Inr (m, ci_at (consumed @ [access_role_tag m]) rest)"
  by (cases m) (simp_all add: ci_access_role_def ci_u8_at)

lemma ci_witness_operation_at [decode_simps]:
  "addressable (consumed @ witness_operation_tag m # rest) \<Longrightarrow>
     ci_witness_operation (ci_at consumed (witness_operation_tag m # rest)) =
       Inr (m, ci_at (consumed @ [witness_operation_tag m]) rest)"
  by (simp add: ci_witness_operation_def ci_u8_at witness_operation_from_tag_tag)

lemma ci_intended_witness_at:
  "addressable (consumed @ iw_canonical_bytes w @ rest) \<Longrightarrow>
     ci_intended_witness (ci_at consumed (iw_canonical_bytes w @ rest)) =
       Inr (w, ci_at (consumed @ iw_canonical_bytes w) rest)"
  by (simp add: ci_intended_witness_def iw_canonical_bytes_def decode_simps)

lemma ci_intended_witnesses_at:
  assumes "addressable (consumed @ concat (map iw_canonical_bytes ws))"
  shows "ci_repeat (length ws) ci_intended_witness
      (ci_at consumed (concat (map iw_canonical_bytes ws))) =
    Inr (ws, ci_at (consumed @ concat (map iw_canonical_bytes ws)) [])"
  using ci_repeat_at [of iw_canonical_bytes ci_intended_witness consumed ws "[]"]
    ci_intended_witness_at assms by simp

lemma length_concat_iw [simp]: "length (concat (map iw_canonical_bytes ws)) = 97 * length ws"
  by (induction ws) (simp_all add: iw_canonical_bytes_def)

lemma rq_signature_preimage_signature [simp]:
  "rq_signature_preimage H (r\<lparr>rq_client_signature := s\<rparr>) = rq_signature_preimage H r"
  by (simp add: rq_signature_preimage_def rq_append_fields_def rq_validate_shape_def)

lemma rq_validate_shape_Inr:
  assumes "rq_validate_shape H r = Inr u"
  shows "2 \<le> length (rq_intended_witness_set r)"
    and "length (rq_intended_witness_set r) \<le> max_policy_actors"
    and "strictly_sorted_unique (\<lambda>a b. iw_witness_id a < iw_witness_id b) (rq_intended_witness_set r)"
    and "valid_interval (rq_issued_at_ms r) (rq_not_before_ms r) (rq_expires_at_ms r)"
    and "\<not> any_later_pair (\<lambda>entry other.
             iw_share_index entry = iw_share_index other \<or>
             iw_signing_key_fingerprint entry = iw_signing_key_fingerprint other \<or>
             iw_contribution_key_fingerprint entry = iw_contribution_key_fingerprint other)
           (rq_intended_witness_set r)"
  using assms by (auto simp: rq_validate_shape_def split: if_splits)

text \<open>A request of valid shape always fits: the capacity check of the parser never rejects it.\<close>

lemma length_rq_signature_preimage:
  assumes "rq_signature_preimage H r = Inr p"
  shows "length p \<le> max_request_bytes"
proof -
  obtain fields where "rq_validate_shape H r = Inr ()" and fields: "rq_append_fields r = Inr fields"
    and p: "p = jce_v1 ''jury-witness-v1/request/signature'' @ fields"
    using assms by (auto simp: rq_signature_preimage_def and_then_Inr)
  then have "length (rq_intended_witness_set r) \<le> 32"
    using rq_validate_shape_Inr(2) by (simp add: max_policy_actors_def)
  moreover have "length (optional_u64 (rq_not_before_ms r)) \<le> 9"
    by (simp add: optional_u64_def split: option.split)
  ultimately show ?thesis
    using fields
    by (auto simp: p rq_append_fields_def and_then_Inr w_list_fixed_Inr frame_list_def jce_v1_def
        str_bytes_def max_request_bytes_def)
qed

lemma rq_rebuild:
  "\<lparr>rq_schema = rq_schema r, rq_protocol_version = rq_protocol_version r,
      rq_construction = rq_construction r, rq_request_id = rq_request_id r,
      rq_client_nonce = rq_client_nonce r, rq_vault_id = rq_vault_id r,
      rq_genesis_fingerprint = rq_genesis_fingerprint r, rq_item_id = rq_item_id r,
      rq_key_epoch = rq_key_epoch r, rq_item_access_mode = rq_item_access_mode r,
      rq_slot_id = rq_slot_id r, rq_content_role = rq_content_role r, rq_revision = rq_revision r,
      rq_revision_seal_id = rq_revision_seal_id r,
      rq_vault_policy_sequence = rq_vault_policy_sequence r,
      rq_vault_policy_hash = rq_vault_policy_hash r,
      rq_policy_checkpoint_digest = rq_policy_checkpoint_digest r,
      rq_witness_policy_id = rq_witness_policy_id r,
      rq_witness_policy_revision = rq_witness_policy_revision r,
      rq_witness_policy_digest = rq_witness_policy_digest r,
      rq_requester_principal_id = rq_requester_principal_id r,
      rq_requester_signing_key_fingerprint = rq_requester_signing_key_fingerprint r,
      rq_requester_signing_key_epoch = rq_requester_signing_key_epoch r,
      rq_requested_access_role = rq_requested_access_role r, rq_operation = rq_operation r,
      rq_approval_target_digest = rq_approval_target_digest r,
      rq_action_manifest_digest = rq_action_manifest_digest r,
      rq_workload_digest = rq_workload_digest r, rq_issued_at_ms = rq_issued_at_ms r,
      rq_not_before_ms = rq_not_before_ms r, rq_expires_at_ms = rq_expires_at_ms r,
      rq_request_session_public_key = rq_request_session_public_key r,
      rq_request_session_key_fingerprint = rq_request_session_key_fingerprint r,
      rq_intended_witness_set = rq_intended_witness_set r, rq_client_signature = s\<rparr> =
    r\<lparr>rq_client_signature := s\<rparr>"
  by simp

lemma rq_parse_encoded:
  assumes "rq_signature_preimage H r = Inr p"
  shows "rq_from_signature_preimage H p s = Inr (r\<lparr>rq_client_signature := s\<rparr>)"
proof -
  obtain fields where shape: "rq_validate_shape H r = Inr ()"
    and fields: "rq_append_fields r = Inr fields"
    and p: "p = jce_v1 ''jury-witness-v1/request/signature'' @ fields"
    using assms by (auto simp: rq_signature_preimage_def and_then_Inr)
  have small: "length p \<le> max_request_bytes"
    using assms by (rule length_rq_signature_preimage)
  then have "addressable p"
    by (simp add: addressable_def max_request_bytes_def)
  moreover have "length (rq_intended_witness_set r) \<le> max_policy_actors" "max_policy_actors < 2 ^ 32"
    using rq_validate_shape_Inr(2) [OF shape] by (simp_all add: max_policy_actors_def)
  ultimately show ?thesis
    using fields small assms
    by (auto simp: p rq_append_fields_def and_then_Inr w_list_fixed_Inr frame_list_def
        rq_from_signature_preimage_def Let_def ci_new_at decode_simps ci_intended_witnesses_at rq_rebuild)
qed

lemma read_then_Inr_iff:
  "read_then m f = Inr y \<longleftrightarrow> (\<exists>x input. m = Inr (x, input) \<and> f x input = Inr y)"
  by (auto simp: read_then_def and_then_Inr)

lemma rq_parse_sound:
  assumes "rq_from_signature_preimage H p s = Inr r"
  shows "rq_signature_preimage H r = Inr p" and "rq_client_signature r = s"
  using assms
  by (auto simp: rq_from_signature_preimage_def Let_def read_then_Inr_iff and_then_Inr
      split: if_splits)

lemma rq_signature_preimage_inject:
  assumes "rq_signature_preimage H a = Inr p" and "rq_signature_preimage H b = Inr p"
    and "rq_client_signature a = rq_client_signature b"
  shows "a = b"
proof -
  have "a = a\<lparr>rq_client_signature := rq_client_signature a\<rparr>"
    by simp
  also have "\<dots> = b\<lparr>rq_client_signature := rq_client_signature a\<rparr>"
    using rq_parse_encoded [OF assms(1)] rq_parse_encoded [OF assms(2)] by (metis sum.inject(2))
  also have "\<dots> = b"
    unfolding assms(3) by simp
  finally show ?thesis .
qed

lemma rq_digest_binds_request:
  assumes "rq_digest H a = Inr d" and "rq_digest H b = Inr d"
  shows "a = b \<or>
    signed_collision H ''jury-witness-v1/request/hash'' (rq_signature_preimage H) rq_client_signature a b"
  by (rule hash_signed_message_binds [where pre = "rq_signature_preimage H"
        and sig = rq_client_signature and d = "''jury-witness-v1/request/hash''"])
    (use assms in \<open>auto simp: rq_digest_def dest: rq_signature_preimage_inject\<close>)

section \<open>Properties\<close>

text \<open>
  C16. Parsing is the exact inverse of encoding: a byte string parses to a request exactly when it
  is that request's signature preimage and the supplied signature is the one it carries. So no
  second byte string stands for the same request, nothing trails a parsed message, and every
  request the parser returns has a valid shape.
\<close>

theorem request_parse_iff_encoded:
  "rq_from_signature_preimage H p s = Inr r \<longleftrightarrow>
     rq_signature_preimage H r = Inr p \<and> rq_client_signature r = s"
  using rq_parse_sound [of H p s r] rq_parse_encoded [of H r p s] by auto

definition sample_request :: "u64 \<Rightarrow> witness_request" where
  "sample_request expires_at_ms =
     \<lparr>rq_schema = 1, rq_protocol_version = 1, rq_construction = 1, rq_request_id = id_repeat 1,
      rq_client_nonce = id_repeat 20, rq_vault_id = id_repeat 2,
      rq_genesis_fingerprint = fixed_repeat 3, rq_item_id = id_repeat 4, rq_key_epoch = 1,
      rq_item_access_mode = Mode_WitnessedOnly, rq_slot_id = id_repeat 5,
      rq_content_role = Content_Body, rq_revision = 1, rq_revision_seal_id = id_repeat 6,
      rq_vault_policy_sequence = 1, rq_vault_policy_hash = fixed_repeat 7,
      rq_policy_checkpoint_digest = fixed_repeat 21, rq_witness_policy_id = id_repeat 8,
      rq_witness_policy_revision = 1, rq_witness_policy_digest = fixed_repeat 9,
      rq_requester_principal_id = id_repeat 10,
      rq_requester_signing_key_fingerprint = fixed_repeat 14, rq_requester_signing_key_epoch = 1,
      rq_requested_access_role = Role_Reader, rq_operation = Op_ChildStdin,
      rq_approval_target_digest = fixed_repeat 14, rq_action_manifest_digest = fixed_repeat 14,
      rq_workload_digest = fixed_repeat 14, rq_issued_at_ms = 1000, rq_not_before_ms = None,
      rq_expires_at_ms = expires_at_ms, rq_request_session_public_key = fixed_repeat 22,
      rq_request_session_key_fingerprint = fixed_repeat 14,
      rq_intended_witness_set =
        [\<lparr>iw_witness_id = id_repeat 30, iw_share_index = 1,
          iw_signing_key_fingerprint = fixed_repeat 31,
          iw_contribution_key_fingerprint = fixed_repeat 32\<rparr>,
         \<lparr>iw_witness_id = id_repeat 40, iw_share_index = 2,
          iw_signing_key_fingerprint = fixed_repeat 41,
          iw_contribution_key_fingerprint = fixed_repeat 42\<rparr>],
      rq_client_signature = fixed_repeat 23\<rparr>"

lemma sample_request_valid:
  "rq_validate_shape (\<lambda>_. fixed_repeat 14) (sample_request 2000) = Inr ()"
  "rq_validate_shape (\<lambda>_. fixed_repeat 14) (sample_request 3000) = Inr ()"
  by (simp_all add: rq_validate_shape_def sample_request_def protocol_version_def construction_def
      valid_interval_def checked_sub_def max_request_lifetime_ms_def max_policy_actors_def
      recipient_public_key_fingerprint_def)

lemma sample_request_digest:
  "rq_digest (\<lambda>_. fixed_repeat 14) (sample_request 2000) = Inr (fixed_repeat 14)"
  "rq_digest (\<lambda>_. fixed_repeat 14) (sample_request 3000) = Inr (fixed_repeat 14)"
  by (simp_all add: rq_digest_def rq_signature_preimage_def sample_request_valid)
    (simp_all add: sample_request_def rq_append_fields_def iw_canonical_bytes_def run_simps)

text \<open>
  C17. The request digest, which approvals, cancellations and decisions refer to, binds every field
  of the request and its client signature: equal digests mean equal requests, unless the two exact
  hash inputs of the requests collide.
\<close>

theorem request_digest_binds:
  assumes "rq_digest H a = Inr d" and "rq_digest H b = Inr d"
  shows "a = b \<or>
    signed_collision H ''jury-witness-v1/request/hash'' (rq_signature_preimage H)
      rq_client_signature a b"
  using assms by (rule rq_digest_binds_request)

theorem request_digest_binds_witness:
  "signed_collision (\<lambda>_. fixed_repeat 14) ''jury-witness-v1/request/hash''
     (rq_signature_preimage (\<lambda>_. fixed_repeat 14)) rq_client_signature
     (sample_request 2000) (sample_request 3000)"
proof -
  have "sample_request 2000 \<noteq> sample_request 3000"
    by (simp add: sample_request_def)
  then show ?thesis
    using request_digest_binds [OF sample_request_digest] by blast
qed

end
