(* ===== verification/Jury_Witness_Decision.thy ===== *)
theory Jury_Witness_Decision
  imports Jury_Witness_Request
begin

text \<open>
  The signed messages that answer a request, \<open>witness_v1/decision.rs\<close>: approval decisions,
  cancellations, vault policy checkpoints, contribution envelopes, witness decisions and
  responses. Each has its shape rule, its signature preimage, its canonical bytes and its
  digest; the lemmas show that the preimage and the digest bind every field.
\<close>

section \<open>Approval decisions\<close>

record approval_decision =
  ap_schema :: u16
  ap_approval_id :: ident
  ap_request_id :: ident
  ap_request_digest :: digest32
  ap_action_manifest_digest :: digest32
  ap_presentation_digest :: digest32
  ap_witness_policy_id :: ident
  ap_witness_policy_revision :: u64
  ap_witness_policy_digest :: digest32
  ap_approver_id :: ident
  ap_approver_key_fingerprint :: digest32
  ap_approver_key_epoch :: u64
  ap_approval_mode :: approval_mode
  ap_decision :: approval_decision_kind
  ap_reason :: witness_reason
  ap_issued_at_ms :: u64
  ap_not_before_ms :: "u64 option"
  ap_expires_at_ms :: u64
  ap_nonce :: ident
  ap_intended_witness_set_digest :: digest32
  ap_signature :: signature64

definition ap_append_fields :: "approval_decision \<Rightarrow> bytes" where
  "ap_append_fields r =
     to_be_bytes (ap_schema r) @
     id_bytes (ap_approval_id r) @
     id_bytes (ap_request_id r) @
     as_bytes (ap_request_digest r) @
     as_bytes (ap_action_manifest_digest r) @
     as_bytes (ap_presentation_digest r) @
     id_bytes (ap_witness_policy_id r) @
     to_be_bytes (ap_witness_policy_revision r) @
     as_bytes (ap_witness_policy_digest r) @
     id_bytes (ap_approver_id r) @
     as_bytes (ap_approver_key_fingerprint r) @
     to_be_bytes (ap_approver_key_epoch r) @
     [approval_mode_tag (ap_approval_mode r)] @
     [approval_decision_kind_tag (ap_decision r)] @
     [witness_reason_tag (ap_reason r)] @
     to_be_bytes (ap_issued_at_ms r) @
     optional_u64 (ap_not_before_ms r) @
     to_be_bytes (ap_expires_at_ms r) @
     id_bytes (ap_nonce r) @
     as_bytes (ap_intended_witness_set_digest r)"

definition ap_validate_shape :: "approval_decision \<Rightarrow> witness_protocol_error + unit" where
  "ap_validate_shape r =
     (let reason_valid = (case ap_decision r of
         Approval_Approve \<Rightarrow> ap_reason r = Reason_None
       | Approval_Deny \<Rightarrow> ap_reason r \<noteq> Reason_None) in
      if ap_schema r \<noteq> 1 \<or> ap_witness_policy_revision r = 0 \<or> ap_approver_key_epoch r = 0 \<or>
         \<not> reason_valid \<or>
         \<not> valid_interval (ap_issued_at_ms r) (ap_not_before_ms r) (ap_expires_at_ms r)
      then Inl InvalidFormat else Inr ())"

definition ap_signature_preimage :: "approval_decision \<Rightarrow> witness_protocol_error + bytes" where
  "ap_signature_preimage r =
     and_then (ap_validate_shape r) (\<lambda>_.
     Inr (jce_v1 ''jury-witness-v1/approval-decision/signature'' @ ap_append_fields r))"

definition ap_canonical_bytes :: "approval_decision \<Rightarrow> witness_protocol_error + bytes" where
  "ap_canonical_bytes r =
     and_then (ap_validate_shape r) (\<lambda>_.
     let output = ap_append_fields r @ as_bytes (ap_signature r) in
     if length output > max_approval_bytes then Inl CapacityExhausted else Inr output)"

definition ap_digest :: "hash_fun \<Rightarrow> approval_decision \<Rightarrow> witness_protocol_error + digest32" where
  "ap_digest H r =
     and_then (ap_signature_preimage r) (\<lambda>preimage.
     hash_signed H ''jury-witness-v1/approval-decision/hash'' preimage (ap_signature r))"

section \<open>Cancellations\<close>

datatype canceller_role = Canceller_OriginalRequester | Canceller_CurrentOwner

fun canceller_role_tag :: "canceller_role \<Rightarrow> u8" where
  "canceller_role_tag Canceller_OriginalRequester = 1"
| "canceller_role_tag Canceller_CurrentOwner = 2"

record request_cancellation =
  ca_schema :: u16
  ca_cancellation_id :: ident
  ca_request_signature_preimage :: request_bytes
  ca_client_signature :: signature64
  ca_request_id :: ident
  ca_request_digest :: digest32
  ca_canceller_id :: ident
  ca_canceller_key_fingerprint :: digest32
  ca_canceller_key_epoch :: u64
  ca_canceller_role :: canceller_role
  ca_issued_at_ms :: u64
  ca_reason :: witness_reason
  ca_nonce :: ident
  ca_signature :: signature64

definition ca_append_fields :: "request_cancellation \<Rightarrow> witness_protocol_error + bytes" where
  "ca_append_fields r =
     and_then (w_bytes_field (bounded_as_bytes (ca_request_signature_preimage r))) (\<lambda>preimage. Inr (
     to_be_bytes (ca_schema r) @
     id_bytes (ca_cancellation_id r) @
     preimage @
     as_bytes (ca_client_signature r) @
     id_bytes (ca_request_id r) @
     as_bytes (ca_request_digest r) @
     id_bytes (ca_canceller_id r) @
     as_bytes (ca_canceller_key_fingerprint r) @
     to_be_bytes (ca_canceller_key_epoch r) @
     [canceller_role_tag (ca_canceller_role r)] @
     to_be_bytes (ca_issued_at_ms r) @
     [witness_reason_tag (ca_reason r)] @
     id_bytes (ca_nonce r)))"

definition ca_validate_shape :: "request_cancellation \<Rightarrow> witness_protocol_error + unit" where
  "ca_validate_shape r =
     (if ca_schema r \<noteq> 1 \<or> ca_canceller_key_epoch r = 0 \<or> ca_issued_at_ms r = 0 \<or>
         ca_reason r \<noteq> Reason_Cancelled \<or> bounded_is_empty (ca_request_signature_preimage r)
      then Inl InvalidFormat else Inr ())"

definition ca_signature_preimage :: "request_cancellation \<Rightarrow> witness_protocol_error + bytes" where
  "ca_signature_preimage r =
     and_then (ca_validate_shape r) (\<lambda>_.
     and_then (ca_append_fields r) (\<lambda>fields.
     Inr (jce_v1 ''jury-witness-v1/cancellation/signature'' @ fields)))"

definition ca_canonical_bytes :: "request_cancellation \<Rightarrow> witness_protocol_error + bytes" where
  "ca_canonical_bytes r =
     and_then (ca_validate_shape r) (\<lambda>_.
     and_then (ca_append_fields r) (\<lambda>fields.
     let output = fields @ as_bytes (ca_signature r) in
     if length output > 48 * 1024 then Inl CapacityExhausted else Inr output))"

definition ca_digest :: "hash_fun \<Rightarrow> request_cancellation \<Rightarrow> witness_protocol_error + digest32" where
  "ca_digest H r =
     and_then (ca_signature_preimage r) (\<lambda>preimage.
     hash_signed H ''jury-witness-v1/cancellation/hash'' preimage (ca_signature r))"

section \<open>Vault policy checkpoints\<close>

record vault_policy_checkpoint =
  cp_schema :: u16
  cp_vault_id :: ident
  cp_genesis_fingerprint :: digest32
  cp_vault_policy_sequence :: u64
  cp_vault_policy_hash :: digest32
  cp_active_witness_policy_set_digest :: digest32
  cp_predecessor_checkpoint_digest :: digest32
  cp_issued_at_ms :: u64
  cp_issuer_owner_id :: ident
  cp_issuer_key_fingerprint :: digest32
  cp_issuer_key_epoch :: u64
  cp_signature :: signature64

definition cp_append_fields :: "vault_policy_checkpoint \<Rightarrow> bytes" where
  "cp_append_fields r =
     to_be_bytes (cp_schema r) @
     id_bytes (cp_vault_id r) @
     as_bytes (cp_genesis_fingerprint r) @
     to_be_bytes (cp_vault_policy_sequence r) @
     as_bytes (cp_vault_policy_hash r) @
     as_bytes (cp_active_witness_policy_set_digest r) @
     as_bytes (cp_predecessor_checkpoint_digest r) @
     to_be_bytes (cp_issued_at_ms r) @
     id_bytes (cp_issuer_owner_id r) @
     as_bytes (cp_issuer_key_fingerprint r) @
     to_be_bytes (cp_issuer_key_epoch r)"

definition cp_validate_shape :: "vault_policy_checkpoint \<Rightarrow> witness_protocol_error + unit" where
  "cp_validate_shape r =
     (if cp_schema r \<noteq> 1 \<or> cp_vault_policy_sequence r = 0 \<or> cp_issued_at_ms r = 0 \<or>
         cp_issuer_key_epoch r = 0
      then Inl InvalidFormat else Inr ())"

definition cp_signature_preimage :: "vault_policy_checkpoint \<Rightarrow> witness_protocol_error + bytes" where
  "cp_signature_preimage r =
     and_then (cp_validate_shape r) (\<lambda>_.
     Inr (jce_v1 ''jury-witness-v1/checkpoint/signature'' @ cp_append_fields r))"

definition cp_canonical_bytes :: "vault_policy_checkpoint \<Rightarrow> witness_protocol_error + bytes" where
  "cp_canonical_bytes r =
     and_then (cp_validate_shape r) (\<lambda>_.
     Inr (cp_append_fields r @ as_bytes (cp_signature r)))"

definition cp_digest :: "hash_fun \<Rightarrow> vault_policy_checkpoint \<Rightarrow> witness_protocol_error + digest32" where
  "cp_digest H r =
     and_then (cp_signature_preimage r) (\<lambda>preimage.
     hash_signed H ''jury-witness-v1/checkpoint/hash'' preimage (cp_signature r))"

section \<open>Contribution envelopes\<close>

record witness_contribution_envelope =
  ce_schema :: u16
  ce_response_id :: ident
  ce_share_index :: u8
  ce_share_commitment :: digest32
  ce_capsule_context_digest :: digest32
  ce_capsule_set_digest :: digest32
  ce_request_session_key_fingerprint :: digest32
  ce_encapsulation :: "1120 fixed_bytes"
  ce_ciphertext :: "49 fixed_bytes"

definition ce_canonical_bytes :: "witness_contribution_envelope \<Rightarrow> bytes" where
  "ce_canonical_bytes r =
     to_be_bytes (ce_schema r) @
     id_bytes (ce_response_id r) @
     [ce_share_index r] @
     as_bytes (ce_share_commitment r) @
     as_bytes (ce_capsule_context_digest r) @
     as_bytes (ce_capsule_set_digest r) @
     as_bytes (ce_request_session_key_fingerprint r) @
     as_bytes (ce_encapsulation r) @
     as_bytes (ce_ciphertext r)"

definition ce_digest :: "hash_fun \<Rightarrow> witness_contribution_envelope \<Rightarrow> witness_protocol_error + digest32" where
  "ce_digest H r =
     (if ce_schema r \<noteq> 1 \<or> ce_share_index r = 0 \<or> ce_share_index r > 32 then Inl InvalidFormat
      else hash_bytes H ''jury-witness-v1/contribution/hash'' (ce_canonical_bytes r))"

section \<open>Witness decisions and responses\<close>

record witness_decision =
  wd_schema :: u16
  wd_response_id :: ident
  wd_request_id :: ident
  wd_request_digest :: digest32
  wd_action_manifest_digest :: digest32
  wd_witness_id :: ident
  wd_witness_signing_key_fingerprint :: digest32
  wd_witness_signing_key_epoch :: u64
  wd_witness_policy_id :: ident
  wd_witness_policy_revision :: u64
  wd_witness_policy_digest :: digest32
  wd_policy_checkpoint_digest :: digest32
  wd_state_generation :: u64
  wd_decision :: witness_decision_kind
  wd_reason :: witness_reason
  wd_issued_at_ms :: u64
  wd_expires_at_ms :: u64
  wd_contribution_digest :: "digest32 option"
  wd_share_index :: "u8 option"
  wd_share_commitment :: "digest32 option"
  wd_signature :: signature64

definition wd_append_fields :: "witness_decision \<Rightarrow> bytes" where
  "wd_append_fields r =
     to_be_bytes (wd_schema r) @
     id_bytes (wd_response_id r) @
     id_bytes (wd_request_id r) @
     as_bytes (wd_request_digest r) @
     as_bytes (wd_action_manifest_digest r) @
     id_bytes (wd_witness_id r) @
     as_bytes (wd_witness_signing_key_fingerprint r) @
     to_be_bytes (wd_witness_signing_key_epoch r) @
     id_bytes (wd_witness_policy_id r) @
     to_be_bytes (wd_witness_policy_revision r) @
     as_bytes (wd_witness_policy_digest r) @
     as_bytes (wd_policy_checkpoint_digest r) @
     to_be_bytes (wd_state_generation r) @
     [witness_decision_kind_tag (wd_decision r)] @
     [witness_reason_tag (wd_reason r)] @
     to_be_bytes (wd_issued_at_ms r) @
     to_be_bytes (wd_expires_at_ms r) @
     optional_fixed (map_option as_bytes (wd_contribution_digest r)) @
     optional_u8 (wd_share_index r) @
     optional_fixed (map_option as_bytes (wd_share_commitment r))"

definition wd_validate_shape :: "witness_decision \<Rightarrow> witness_protocol_error + unit" where
  "wd_validate_shape r =
     (let approving = (wd_decision r = Decision_Approve);
          contribution = (wd_contribution_digest r \<noteq> None \<and> wd_share_index r \<noteq> None \<and>
            wd_share_commitment r \<noteq> None) in
      if wd_schema r \<noteq> 1 \<or> wd_witness_signing_key_epoch r = 0 \<or>
         wd_witness_policy_revision r = 0 \<or> wd_state_generation r = 0 \<or>
         wd_issued_at_ms r = 0 \<or> wd_expires_at_ms r = 0 \<or>
         (approving \<and> wd_expires_at_ms r \<le> wd_issued_at_ms r) \<or>
         approving \<noteq> contribution \<or>
         (approving \<and> wd_reason r \<noteq> Reason_None) \<or>
         (\<not> approving \<and> wd_reason r = Reason_None) \<or>
         (case wd_share_index r of None \<Rightarrow> False | Some index \<Rightarrow> index = 0 \<or> index > 32)
      then Inl InvalidFormat else Inr ())"

definition wd_signature_preimage :: "witness_decision \<Rightarrow> witness_protocol_error + bytes" where
  "wd_signature_preimage r =
     and_then (wd_validate_shape r) (\<lambda>_.
     Inr (jce_v1 ''jury-witness-v1/decision/signature'' @ wd_append_fields r))"

definition wd_canonical_bytes :: "witness_decision \<Rightarrow> witness_protocol_error + bytes" where
  "wd_canonical_bytes r =
     and_then (wd_validate_shape r) (\<lambda>_.
     Inr (wd_append_fields r @ as_bytes (wd_signature r)))"

definition wd_digest :: "hash_fun \<Rightarrow> witness_decision \<Rightarrow> witness_protocol_error + digest32" where
  "wd_digest H r =
     and_then (wd_signature_preimage r) (\<lambda>preimage.
     hash_signed H ''jury-witness-v1/decision/hash'' preimage (wd_signature r))"

record witness_response =
  wr_decision :: witness_decision
  wr_contribution :: "witness_contribution_envelope option"

definition wr_canonical_bytes :: "hash_fun \<Rightarrow> witness_response \<Rightarrow> witness_protocol_error + bytes" where
  "wr_canonical_bytes H r =
     and_then (wd_canonical_bytes (wr_decision r)) (\<lambda>decision.
     and_then (case (wd_contribution_digest (wr_decision r), wr_contribution r) of
         (Some expected, Some contribution) \<Rightarrow>
           and_then (ce_digest H contribution) (\<lambda>actual.
           if actual = expected then Inr (decision @ ce_canonical_bytes contribution)
           else Inl InvalidDigest)
       | (None, None) \<Rightarrow> Inr decision
       | _ \<Rightarrow> Inl InvalidDigest) (\<lambda>output.
     if length output > max_response_bytes then Inl CapacityExhausted else Inr output))"

definition max_current_slots :: nat where "max_current_slots = 16384"

definition active_witness_policy_set_digest ::
    "hash_fun \<Rightarrow> digest32 list \<Rightarrow> witness_protocol_error + digest32" where
  "active_witness_policy_set_digest H policies =
     (if length policies > max_current_slots \<or>
         list_ex (\<lambda>value. as_bytes value = replicate 32 0) policies \<or>
         \<not> strictly_sorted_unique (<) policies
      then Inl InvalidFormat
      else and_then (w_list_fixed as_bytes policies) (\<lambda>field.
        Inr (H (jce_v1 ''jury-witness-v1/active-policy-set/hash'' @ field))))"

section \<open>What the signatures and digests bind\<close>

lemma canceller_role_tag_inject [simp]: "canceller_role_tag a = canceller_role_tag b \<longleftrightarrow> a = b"
  by (cases a; cases b) simp_all

interpretation ce_codec: prefix_codec ce_canonical_bytes
  by unfold_locales
    (auto simp: ce_canonical_bytes_def enc_inj intro: witness_contribution_envelope.equality)

lemma ap_signature_preimage_inject:
  assumes "ap_signature_preimage a = Inr x" and "ap_signature_preimage b = Inr x"
    and "ap_signature a = ap_signature b"
  shows "a = b"
  using assms
  by (auto simp: ap_signature_preimage_def ap_append_fields_def and_then_Inr enc_inj
      intro!: approval_decision.equality)

lemma ap_digest_binds:
  assumes "ap_digest H a = Inr d" and "ap_digest H b = Inr d"
  shows "a = b \<or>
    signed_collision H ''jury-witness-v1/approval-decision/hash'' ap_signature_preimage ap_signature a b"
  by (rule hash_signed_message_binds [where pre = ap_signature_preimage
        and sig = ap_signature and d = "''jury-witness-v1/approval-decision/hash''"])
    (use assms in \<open>auto simp: ap_digest_def dest: ap_signature_preimage_inject\<close>)

lemma ca_signature_preimage_inject:
  assumes "ca_signature_preimage a = Inr x" and "ca_signature_preimage b = Inr x"
    and "ca_signature a = ca_signature b"
  shows "a = b"
  using assms
  by (auto simp: ca_signature_preimage_def ca_append_fields_def and_then_Inr result_simps enc_inj
      intro!: request_cancellation.equality)

lemma ca_digest_binds:
  assumes "ca_digest H a = Inr d" and "ca_digest H b = Inr d"
  shows "a = b \<or>
    signed_collision H ''jury-witness-v1/cancellation/hash'' ca_signature_preimage ca_signature a b"
  by (rule hash_signed_message_binds [where pre = ca_signature_preimage
        and sig = ca_signature and d = "''jury-witness-v1/cancellation/hash''"])
    (use assms in \<open>auto simp: ca_digest_def dest: ca_signature_preimage_inject\<close>)

lemma cp_signature_preimage_inject:
  assumes "cp_signature_preimage a = Inr x" and "cp_signature_preimage b = Inr x"
    and "cp_signature a = cp_signature b"
  shows "a = b"
  using assms
  by (auto simp: cp_signature_preimage_def cp_append_fields_def and_then_Inr enc_inj
      intro!: vault_policy_checkpoint.equality)

lemma cp_digest_binds:
  assumes "cp_digest H a = Inr d" and "cp_digest H b = Inr d"
  shows "a = b \<or>
    signed_collision H ''jury-witness-v1/checkpoint/hash'' cp_signature_preimage cp_signature a b"
  by (rule hash_signed_message_binds [where pre = cp_signature_preimage
        and sig = cp_signature and d = "''jury-witness-v1/checkpoint/hash''"])
    (use assms in \<open>auto simp: cp_digest_def dest: cp_signature_preimage_inject\<close>)

lemma wd_signature_preimage_inject:
  assumes "wd_signature_preimage a = Inr x" and "wd_signature_preimage b = Inr x"
    and "wd_signature a = wd_signature b"
  shows "a = b"
  using assms
  by (auto simp: wd_signature_preimage_def wd_append_fields_def and_then_Inr enc_inj
      intro!: witness_decision.equality)

lemma wd_digest_binds:
  assumes "wd_digest H a = Inr d" and "wd_digest H b = Inr d"
  shows "a = b \<or>
    signed_collision H ''jury-witness-v1/decision/hash'' wd_signature_preimage wd_signature a b"
  by (rule hash_signed_message_binds [where pre = wd_signature_preimage
        and sig = wd_signature and d = "''jury-witness-v1/decision/hash''"])
    (use assms in \<open>auto simp: wd_digest_def dest: wd_signature_preimage_inject\<close>)

lemma ce_digest_binds:
  assumes "ce_digest H a = Inr d" and "ce_digest H b = Inr d"
  shows "a = b \<or> collision H
    (body_input ''jury-witness-v1/contribution/hash'' (ce_canonical_bytes a))
    (body_input ''jury-witness-v1/contribution/hash'' (ce_canonical_bytes b))"
  using assms
  by (auto simp: ce_digest_def hash_bytes_Inr collision_def body_input_inject ce_codec.enc_inject
      split: if_splits)

definition policy_set_input :: "digest32 list \<Rightarrow> bytes" where
  "policy_set_input policies =
     jce_v1 ''jury-witness-v1/active-policy-set/hash'' @ frame_list as_bytes policies"

lemma active_witness_policy_set_digest_binds:
  assumes "active_witness_policy_set_digest H xs = Inr d"
    and "active_witness_policy_set_digest H ys = Inr d"
  shows "xs = ys \<or> collision H (policy_set_input xs) (policy_set_input ys)"
  using assms
  by (auto simp: active_witness_policy_set_digest_def policy_set_input_def and_then_Inr
      w_list_fixed_Inr collision_def enc_inj split: if_splits)

end
