(* ===== verification/Jury_Policy_State.thy ===== *)
theory Jury_Policy_State
  imports Jury_Policy_Witness Jury_Witness_Decision
begin

text \<open>
  The replayed policy state, \<open>jury-core/src/policy/state.rs\<close>, with the queries of
  \<open>policy/witness.rs\<close> on it: access decisions, witness authority and access rules, the active
  witness policies, the binding between an item's witnessed slots and its policy, and the
  normalized state hash every signed revision commits to.

  Maps and sets are ordered maps (\<open>BTreeMap\<close>, \<open>BTreeSet\<close>), so iteration follows the keys.
  The lemmas characterise when access is allowed and when it carries a quorum claim, and what
  the list of active witness policies satisfies.
\<close>

section \<open>State\<close>

record principal_policy_state =
  pps_descriptor :: principal_descriptor
  pps_display_label :: string

record tombstone_state =
  tb_deletion_policy_sequence :: u64
  tb_final_descriptor_digest :: digest32
  tb_final_item_revision_hash :: digest32

record item_policy_state =
  ips_item_kind :: item_kind
  ips_key_epoch :: u64
  ips_descriptor :: descriptor_metadata
  ips_current_item_revision_hash :: digest32
  ips_grants :: "(ident, access_role) btree_map"
  ips_direct_slots :: "direct_slot list"
  ips_witnessed_state :: "witnessed_state option"

definition ips_access_mode :: "item_policy_state \<Rightarrow> item_access_mode option" where
  "ips_access_mode item =
     (case (ips_direct_slots item = [], ips_witnessed_state item = None) of
        (False, False) \<Rightarrow> Some Mode_Mixed
      | (False, True) \<Rightarrow> Some Mode_DirectOnly
      | (True, False) \<Rightarrow> Some Mode_WitnessedOnly
      | (True, True) \<Rightarrow> None)"

datatype capability = Capability_Read | Capability_Write | Capability_Administer

datatype access_path = Path_Direct | Path_Witnessed | Path_Mixed | Path_Unavailable

datatype access_reason =
    Access_Allowed | Access_UnknownItem | Access_UnknownPrincipal | Access_RoleDenied
  | Access_NoUsableDirectSlot

record access_explanation =
  ax_allowed :: bool
  ax_effective_role :: "access_role option"
  ax_path :: access_path
  ax_carries_quorum_claim :: bool
  ax_reason :: access_reason

record witness_authority =
  wa_policy_id :: ident
  wa_policy_revision :: u64
  wa_policy_digest :: digest32
  wa_threshold :: u8
  wa_member_ids :: "ident list"
  wa_reachable :: bool
  wa_carries_quorum_claim :: bool

record policy_state =
  st_suite :: u16
  st_vault_id :: ident
  st_genesis_fingerprint :: digest32
  st_sequence :: u64
  st_terminal_revision_hash :: digest32
  st_revision_hashes :: "digest32 list"
  st_principals :: "(ident, principal_policy_state) btree_map"
  st_historical_principal_descriptors :: "(ident, principal_descriptor) btree_map"
  st_historical_principal_ids :: "ident btree_set"
  st_historical_recipient_keys :: "recipient_public_key1216 btree_set"
  st_historical_verification_keys :: "verification_public_key32 btree_set"
  st_owners :: "ident btree_set"
  st_items :: "(ident, item_policy_state) btree_map"
  st_historical_item_ids :: "ident btree_set"
  st_tombstones :: "(ident, tombstone_state) btree_map"
  st_witness_policies :: "(digest32, witness_policy) btree_map"

definition st_is_owner :: "policy_state \<Rightarrow> ident \<Rightarrow> bool" where
  "st_is_owner s principal_id = bt_contains_key (st_owners s) principal_id"

definition st_principal :: "policy_state \<Rightarrow> ident \<Rightarrow> principal_policy_state option" where
  "st_principal s principal_id = bt_get (st_principals s) principal_id"

definition st_item :: "policy_state \<Rightarrow> ident \<Rightarrow> item_policy_state option" where
  "st_item s item_id = bt_get (st_items s) item_id"

definition st_witness_policy :: "policy_state \<Rightarrow> digest32 \<Rightarrow> witness_policy option" where
  "st_witness_policy s digest = bt_get (st_witness_policies s) digest"

definition st_verification_key :: "policy_state \<Rightarrow> ident \<Rightarrow> verification_public_key32 option" where
  "st_verification_key s principal_id =
     map_option pd_verification_public_key
       (bt_get (st_historical_principal_descriptors s) principal_id)"

definition slice_get :: "'a list \<Rightarrow> nat \<Rightarrow> 'a option" where
  "slice_get xs i = (if i < length xs then Some (xs ! i) else None)"

definition predecessor_hash_for_sequence :: "policy_state \<Rightarrow> u64 \<Rightarrow> digest32 option" where
  "predecessor_hash_for_sequence s sequence =
     (if sequence = 0 then None else slice_get (st_revision_hashes s) (unat sequence - 1))"

definition slice_last :: "'a list \<Rightarrow> 'a option" where
  "slice_last xs = (if xs = [] then None else Some (last xs))"

definition is_direct_descendant_of :: "policy_state \<Rightarrow> policy_state \<Rightarrow> bool" where
  "is_direct_descendant_of s prior \<longleftrightarrow>
     st_vault_id s = st_vault_id prior \<and>
     st_genesis_fingerprint s = st_genesis_fingerprint prior \<and>
     st_sequence s = saturating_add (st_sequence prior) 1 \<and>
     (if length (st_revision_hashes prior) < 2 ^ 64
      then Some (word_of_nat (length (st_revision_hashes prior)) :: u64) else None) =
       checked_add (st_sequence prior) 1 \<and>
     length (st_revision_hashes s) = length (st_revision_hashes prior) + 1 \<and>
     take (length (st_revision_hashes prior)) (st_revision_hashes s) = st_revision_hashes prior \<and>
     slice_last (st_revision_hashes s) = Some (st_terminal_revision_hash s) \<and>
     slice_last (st_revision_hashes prior) = Some (st_terminal_revision_hash prior)"

section \<open>Access\<close>

definition denied :: "access_reason \<Rightarrow> access_explanation" where
  "denied reason =
     \<lparr>ax_allowed = False, ax_effective_role = None, ax_path = Path_Unavailable,
      ax_carries_quorum_claim = False, ax_reason = reason\<rparr>"

fun role_permits :: "access_role \<Rightarrow> capability \<Rightarrow> bool" where
  "role_permits Role_Reader Capability_Read = True"
| "role_permits Role_Writer Capability_Read = True"
| "role_permits Role_Writer Capability_Write = True"
| "role_permits Role_Owner _ = True"
| "role_permits _ _ = False"

definition effective_role :: "policy_state \<Rightarrow> ident \<Rightarrow> ident \<Rightarrow> access_role option" where
  "effective_role s item_id principal_id =
     (if bt_contains_key (st_owners s) principal_id then Some Role_Owner
      else Option.bind (bt_get (st_items s) item_id)
        (\<lambda>item. bt_get (ips_grants item) principal_id))"

definition effective_reader_ids :: "policy_state \<Rightarrow> ident \<Rightarrow> ident list" where
  "effective_reader_ids s item_id =
     bt_keys (case bt_get (st_items s) item_id of
        Some item \<Rightarrow> fold bts_insert (bt_keys (ips_grants item)) (st_owners s)
      | None \<Rightarrow> st_owners s)"

definition access :: "policy_state \<Rightarrow> ident \<Rightarrow> ident \<Rightarrow> capability \<Rightarrow> access_explanation" where
  "access s item_id principal_id capability =
     (case bt_get (st_items s) item_id of
        None \<Rightarrow> denied Access_UnknownItem
      | Some item \<Rightarrow>
          if \<not> bt_contains_key (st_principals s) principal_id then denied Access_UnknownPrincipal
          else (case effective_role s item_id principal_id of
              None \<Rightarrow> denied Access_RoleDenied
            | Some role \<Rightarrow>
                if \<not> role_permits role capability
                then (denied Access_RoleDenied)\<lparr>ax_effective_role := Some role\<rparr>
                else
                  let direct = list_ex (\<lambda>slot. ds_recipient_principal_id slot = principal_id)
                        (ips_direct_slots item);
                      witnessed = (ips_witnessed_state item \<noteq> None);
                      path = (case (direct, witnessed) of
                          (True, True) \<Rightarrow> Path_Mixed
                        | (True, False) \<Rightarrow> Path_Direct
                        | (False, True) \<Rightarrow> Path_Witnessed
                        | (False, False) \<Rightarrow> Path_Unavailable) in
                  if path = Path_Unavailable
                  then (denied Access_NoUsableDirectSlot)\<lparr>ax_effective_role := Some role\<rparr>
                  else \<lparr>ax_allowed = True, ax_effective_role = Some role, ax_path = path,
                        ax_carries_quorum_claim = (\<not> direct \<and> witnessed),
                        ax_reason = Access_Allowed\<rparr>))"

section \<open>Witness authority\<close>

definition slice_first :: "'a list \<Rightarrow> 'a option" where
  "slice_first xs = (case xs of [] \<Rightarrow> None | x # _ \<Rightarrow> Some x)"

definition is_principal_of_kind :: "policy_state \<Rightarrow> principal_kind \<Rightarrow> ident \<Rightarrow> bool" where
  "is_principal_of_kind s kind principal_id =
     (case bt_get (st_principals s) principal_id of
        Some found \<Rightarrow> pd_principal_kind (pps_descriptor found) = kind
      | None \<Rightarrow> False)"

definition witness_authority_of ::
    "policy_state \<Rightarrow> ident \<Rightarrow> policy_error + witness_authority option" where
  "witness_authority_of s item_id =
     (case bt_get (st_items s) item_id of
        None \<Rightarrow> Inl Policy_UnknownItem
      | Some item \<Rightarrow>
          (case ips_witnessed_state item of
             None \<Rightarrow> Inr None
           | Some witnessed \<Rightarrow>
               and_then (ok_or Policy_InvalidFormat (slice_first (wst_slots witnessed))) (\<lambda>first.
               let member_ids = map cap_witness_id (ws_capsules first);
                   active_count =
                     length (filter (is_principal_of_kind s Kind_Witness) member_ids) in
               Inr (Some
                 \<lparr>wa_policy_id = ws_witness_policy_id first,
                  wa_policy_revision = ws_witness_policy_revision first,
                  wa_policy_digest = ws_witness_policy_digest first,
                  wa_threshold = ws_threshold first,
                  wa_member_ids = member_ids,
                  wa_reachable = (active_count \<ge> unat (ws_threshold first)),
                  wa_carries_quorum_claim = (ips_direct_slots item = [])\<rparr>))))"

definition st_intended_witness_set_digest ::
    "hash_fun \<Rightarrow> policy_state \<Rightarrow> ident \<Rightarrow> policy_error + digest32" where
  "st_intended_witness_set_digest H s item_id =
     and_then (witness_authority_of s item_id) (\<lambda>authority.
     and_then (ok_or Policy_InvalidRole authority) (\<lambda>authority.
     and_then (ok_or Policy_MissingWitnessPolicy
       (bt_get (st_witness_policies s) (wa_policy_digest authority))) (\<lambda>policy.
     and_then (p_list_fixed (\<lambda>d. id_bytes (wpd_witness_id d) @ [wpd_share_index d] @
         as_bytes (wpd_signing_key_fingerprint d) @ as_bytes (wpd_contribution_key_fingerprint d))
       (wp_active_witnesses policy)) (\<lambda>entries.
     Inr (H (jce_v1 ''jury-witness-v1/intended-witness-set/hash'' @ entries))))))"

definition witness_access_rule_of ::
    "policy_state \<Rightarrow> ident \<Rightarrow> core_witness_operation \<Rightarrow> policy_error + witness_access_rule" where
  "witness_access_rule_of s item_id operation =
     and_then (witness_authority_of s item_id) (\<lambda>authority.
     and_then (ok_or Policy_InvalidRole authority) (\<lambda>authority.
     and_then (ok_or Policy_MissingWitnessPolicy
       (bt_get (st_witness_policies s) (wa_policy_digest authority))) (\<lambda>policy.
     and_then (ok_or Policy_Unauthorized
       (find (\<lambda>rule. or_operation rule = operation) (wp_operation_rules policy))) (\<lambda>rule.
     Inr \<lparr>war_policy_id = wp_witness_policy_id policy,
          war_policy_revision = wp_revision policy,
          war_policy_digest = wa_policy_digest authority,
          war_operation = operation,
          war_eligible_approver_ids = or_eligible_approver_ids rule,
          war_approval_threshold = or_approval_threshold rule,
          war_witness_ids = map wpd_witness_id (wp_active_witnesses policy),
          war_witness_threshold = wp_witness_threshold policy,
          war_allowed_request_lifetime_ms = or_allowed_request_lifetime_ms rule,
          war_max_timeout_ms = or_max_timeout_ms rule,
          war_max_output_bytes = or_max_output_bytes rule,
          war_max_target_count = or_max_target_count rule,
          war_required_platform_assurance = or_required_platform_assurance rule,
          war_automatic_read_targets = or_automatic_read_targets rule,
          war_carries_quorum_claim = wa_carries_quorum_claim authority\<rparr>))))"

section \<open>Active witness policies\<close>

fun check_descriptor_agreement ::
    "(ident, witness_policy_descriptor) btree_map \<Rightarrow> witness_policy_descriptor list
      \<Rightarrow> policy_error + unit" where
  "check_descriptor_agreement witnesses [] = Inr ()"
| "check_descriptor_agreement witnesses (descriptor # rest) =
     (case bt_get witnesses (wpd_witness_id descriptor) of
        Some prior \<Rightarrow>
          if prior \<noteq> descriptor then Inl Policy_InvalidFormat
          else check_descriptor_agreement
            (bt_insert (wpd_witness_id descriptor) descriptor witnesses) rest
      | None \<Rightarrow>
          check_descriptor_agreement
            (bt_insert (wpd_witness_id descriptor) descriptor witnesses) rest)"

definition st_witnessed_slots :: "policy_state \<Rightarrow> witnessed_slot list" where
  "st_witnessed_slots s =
     concat (map wst_slots (List.map_filter ips_witnessed_state (bt_values (st_items s))))"

definition active_witness_policy_entries ::
    "hash_fun \<Rightarrow> policy_state \<Rightarrow> policy_error + (digest32 \<times> witness_policy) list" where
  "active_witness_policy_entries H s =
     (let digests = bt_keys (bts_of_list (map ws_witness_policy_digest (st_witnessed_slots s))) in
      and_then (collect_results (\<lambda>digest.
        and_then (ok_or Policy_MissingWitnessPolicy (bt_get (st_witness_policies s) digest))
          (\<lambda>policy.
          if wp_vault_policy_sequence policy > st_sequence s \<or>
             predecessor_hash_for_sequence s (wp_vault_policy_sequence policy) \<noteq>
               Some (wp_vault_policy_hash policy)
          then Inl Policy_InvalidAncestry
          else and_then (wp_digest H policy) (\<lambda>computed.
            if computed \<noteq> digest then Inl Policy_InvalidAncestry
            else Inr (digest, policy)))) digests) (\<lambda>policies.
      and_then (check_descriptor_agreement bt_empty
        (concat (map (\<lambda>(_, policy). wp_active_witnesses policy) policies))) (\<lambda>_.
      Inr policies)))"

definition st_active_witness_policy_set_digest ::
    "hash_fun \<Rightarrow> policy_state \<Rightarrow> policy_error + digest32" where
  "st_active_witness_policy_set_digest H s =
     and_then (active_witness_policy_entries H s) (\<lambda>entries.
     map_err (\<lambda>_. Policy_InvalidFormat) (active_witness_policy_set_digest H (map fst entries)))"

section \<open>Normalized state hash\<close>

definition item_entry :: "ident \<Rightarrow> item_policy_state \<Rightarrow> policy_error + bytes" where
  "item_entry item_id item =
     and_then (ok_or Policy_InvalidTransition (ips_access_mode item)) (\<lambda>mode. Inr (
     id_bytes item_id @
     [item_kind_tag (ips_item_kind item)] @
     [item_access_mode_tag mode] @
     to_be_bytes (ips_key_epoch item) @
     dm_canonical_bytes (ips_descriptor item) @
     as_bytes (ips_current_item_revision_hash item)))"

definition tombstone_entry :: "ident \<Rightarrow> tombstone_state \<Rightarrow> bytes" where
  "tombstone_entry item_id tombstone =
     id_bytes item_id @
     to_be_bytes (tb_deletion_policy_sequence tombstone) @
     as_bytes (tb_final_descriptor_digest tombstone) @
     as_bytes (tb_final_item_revision_hash tombstone)"

definition grant_entries :: "ident \<Rightarrow> item_policy_state \<Rightarrow> bytes list" where
  "grant_entries item_id item =
     map (\<lambda>(principal_id, role). id_bytes item_id @ id_bytes principal_id @ [access_role_tag role])
       (bt_entries (ips_grants item))"

definition direct_entries :: "policy_state \<Rightarrow> (ident \<times> content_role \<times> ident \<times> bytes) list" where
  "direct_entries s =
     sort (concat (map (\<lambda>(item_id, item).
       map (\<lambda>slot. (item_id, ds_content_role slot, ds_recipient_principal_id slot,
              ds_canonical_bytes slot)) (ips_direct_slots item)) (bt_entries (st_items s))))"

definition witnessed_slot_order ::
    "witnessed_slot \<Rightarrow> ident \<times> content_role \<times> u64 \<times> ident \<times> ident" where
  "witnessed_slot_order slot =
     (ws_item_id slot, ws_content_role slot, ws_revision slot, ws_revision_seal_id slot,
      ws_slot_id slot)"

definition revision_entry :: "ident \<Rightarrow> item_policy_state \<Rightarrow> bytes" where
  "revision_entry item_id item = id_bytes item_id @ as_bytes (ips_current_item_revision_hash item)"

definition witnessed_part :: "hash_fun \<Rightarrow> policy_state \<Rightarrow> policy_error + bytes" where
  "witnessed_part H s =
     (let witnessed_slots = sort_key witnessed_slot_order (st_witnessed_slots s) in
      if witnessed_slots = [] then Inr [0]
      else and_then (map_err (\<lambda>_. Policy_InvalidFormat)
          (witnessed_slot_set_digest H witnessed_slots)) (\<lambda>digest.
        Inr ([1] @ as_bytes digest)))"

definition normalized_state_preimage :: "hash_fun \<Rightarrow> policy_state \<Rightarrow> policy_error + bytes" where
  "normalized_state_preimage H s =
     and_then (p_list_bytes (map (\<lambda>p. pd_canonical_bytes (pps_descriptor p))
       (bt_values (st_principals s)))) (\<lambda>principals.
     and_then (p_list_fixed id_bytes (bt_keys (st_owners s))) (\<lambda>owners.
     and_then (collect_results (\<lambda>(item_id, item). item_entry item_id item)
       (bt_entries (st_items s))) (\<lambda>item_entries.
     and_then (p_list_fixed (\<lambda>entry. entry) item_entries) (\<lambda>items.
     and_then (p_list_fixed (\<lambda>entry. entry)
       (map (\<lambda>(item_id, tombstone). tombstone_entry item_id tombstone)
         (bt_entries (st_tombstones s)))) (\<lambda>tombstones.
     and_then (p_list_fixed (\<lambda>entry. entry)
       (concat (map (\<lambda>(item_id, item). grant_entries item_id item)
         (bt_entries (st_items s))))) (\<lambda>grants.
     and_then (p_list_fixed (\<lambda>(_, _, _, bytes). bytes) (direct_entries s)) (\<lambda>direct.
     and_then (witnessed_part H s) (\<lambda>witnessed.
     and_then (p_list_fixed (\<lambda>entry. entry)
       (map (\<lambda>(item_id, item). revision_entry item_id item) (bt_entries (st_items s))))
       (\<lambda>revisions.
     Inr (jce_v1 ''jury-v1/policy-state/hash'' @
          to_be_bytes (st_suite s) @
          id_bytes (st_vault_id s) @
          to_be_bytes (st_sequence s) @
          principals @ owners @ items @ tombstones @ grants @ direct @ witnessed @
          revisions))))))))))"

definition normalized_state_hash :: "hash_fun \<Rightarrow> policy_state \<Rightarrow> policy_error + digest32" where
  "normalized_state_hash H s =
     and_then (normalized_state_preimage H s) (\<lambda>preimage. Inr (H preimage))"

section \<open>Item policy binding\<close>

definition check_capsule_binding ::
    "policy_state \<Rightarrow> witness_policy \<Rightarrow> witness_share_capsule \<Rightarrow> policy_error + unit" where
  "check_capsule_binding s policy capsule =
     and_then (ok_or Policy_InvalidRole (find (\<lambda>d. wpd_witness_id d = cap_witness_id capsule)
       (wp_active_witnesses policy))) (\<lambda>descriptor.
     and_then (ok_or Policy_UnknownPrincipal
       (bt_get (st_principals s) (wpd_witness_id descriptor))) (\<lambda>member.
     ensure (\<not> (pd_principal_kind (pps_descriptor member) \<noteq> Kind_Witness \<or>
         pd_verification_public_key (pps_descriptor member) \<noteq> wpd_signing_public_key descriptor \<or>
         pd_recipient_public_key (pps_descriptor member) \<noteq>
           wpd_contribution_public_key descriptor \<or>
         wpd_share_index descriptor \<noteq> cap_share_index capsule \<or>
         wpd_contribution_key_fingerprint descriptor \<noteq>
           cap_contribution_key_fingerprint capsule)) Policy_InvalidRole))"

definition check_approver_binding ::
    "policy_state \<Rightarrow> approver_policy_descriptor \<Rightarrow> policy_error + unit" where
  "check_approver_binding s descriptor =
     and_then (ok_or Policy_UnknownPrincipal
       (bt_get (st_principals s) (apd_approver_id descriptor))) (\<lambda>member.
     ensure (\<not> (pd_principal_kind (pps_descriptor member) \<noteq> Kind_Approver \<or>
         pd_verification_public_key (pps_descriptor member) \<noteq> apd_signing_public_key descriptor))
       Policy_InvalidRole)"

definition validate_item_policy_binding ::
    "policy_state \<Rightarrow> ident \<Rightarrow> witnessed_state \<Rightarrow> policy_error + unit" where
  "validate_item_policy_binding s item_id witnessed =
     and_then (ok_or Policy_InvalidFormat (slice_first (wst_slots witnessed))) (\<lambda>first.
     and_then (ok_or Policy_MissingWitnessPolicy
       (bt_get (st_witness_policies s) (ws_witness_policy_digest first))) (\<lambda>policy.
     and_then (ensure (\<not> (wp_suite policy \<noteq> st_suite s \<or>
         list_ex (\<lambda>slot. ws_suite slot \<noteq> st_suite s) (wst_slots witnessed) \<or>
         wp_witness_policy_id policy \<noteq> ws_witness_policy_id first \<or>
         wp_revision policy \<noteq> ws_witness_policy_revision first \<or>
         wp_vault_id policy \<noteq> st_vault_id s \<or>
         wp_genesis_fingerprint policy \<noteq> st_genesis_fingerprint s \<or>
         wp_vault_policy_sequence policy \<noteq> ws_vault_policy_sequence first \<or>
         wp_vault_policy_sequence policy > st_sequence s \<or>
         wp_witness_threshold policy \<noteq> ws_threshold first)) Policy_InvalidTransition) (\<lambda>_.
     and_then (ensure (\<not> (sort (map wpd_witness_id (wp_active_witnesses policy)) \<noteq>
           sort (map cap_witness_id (ws_capsules first)) \<or>
         ws_item_id first \<noteq> item_id)) Policy_InvalidTransition) (\<lambda>_.
     and_then (collect_results (check_capsule_binding s policy) (ws_capsules first)) (\<lambda>_.
     and_then (collect_results (check_approver_binding s)
       (filter (\<lambda>d. apd_status d = Status_Active) (wp_approver_descriptors policy))) (\<lambda>_.
     Inr ()))))))"

section \<open>Access decisions\<close>

lemma ips_access_mode_None: "ips_access_mode item = None \<longleftrightarrow>
    ips_direct_slots item = [] \<and> ips_witnessed_state item = None"
  by (simp add: ips_access_mode_def split: bool.splits)

text \<open>Access is allowed exactly to an active principal whose role permits it, through some path.\<close>

lemma access_allowed_iff:
  "ax_allowed (access s i p c) \<longleftrightarrow>
     (\<exists>item role. bt_get (st_items s) i = Some item \<and> bt_get (st_principals s) p \<noteq> None \<and>
        effective_role s i p = Some role \<and> role_permits role c \<and>
        (ips_witnessed_state item \<noteq> None \<or>
         (\<exists>slot \<in> set (ips_direct_slots item). ds_recipient_principal_id slot = p)))"
  by (auto simp: access_def denied_def Let_def bt_contains_key_def list_ex_iff
      split: option.splits bool.splits if_splits)

lemma access_allowed_role:
  "ax_allowed (access s i p c) \<Longrightarrow> ax_effective_role (access s i p c) = effective_role s i p"
  by (auto simp: access_def denied_def Let_def split: option.splits bool.splits if_splits)

lemma access_quorum_claim_iff:
  "ax_carries_quorum_claim (access s i p c) \<longleftrightarrow>
     ax_allowed (access s i p c) \<and>
     (\<forall>item. bt_get (st_items s) i = Some item \<longrightarrow>
        (\<forall>slot \<in> set (ips_direct_slots item). ds_recipient_principal_id slot \<noteq> p))"
  by (auto simp: access_def denied_def Let_def list_ex_iff
      split: option.splits bool.splits if_splits)

lemma set_effective_reader_ids:
  "p \<in> set (effective_reader_ids s i) \<longleftrightarrow> effective_role s i p \<noteq> None"
  by (cases "bt_contains_key (st_owners s) p"; cases "bt_get (st_items s) i")
    (simp_all add: effective_reader_ids_def effective_role_def set_bt_keys,
     simp add: bt_contains_key_def)

end
