(* ===== verification/Jury_Policy_Replay.thy ===== *)
theory Jury_Policy_Replay
  imports Jury_Policy_State Jury_Vault_Validate
begin

text \<open>
  Replay of the signed policy journal, \<open>jury-core/src/policy/replay/core.rs\<close> and
  \<open>replay/operations.rs\<close>, and the catalog of witness policies it starts from
  (\<open>replay_policy_with_witness_policies\<close> in \<open>policy/witness.rs\<close>).

  A revision is applied to a copy of the state and discarded on the first error, so every
  operation is a function from a state to an error or a new state. Each loop of the source is
  \<open>fold_results\<close> over its list with the variables it changes as the accumulator.

  The lemmas are the invariants of every replayed state (some human owner, no identifier or key
  ever reused, deleted items stay deleted, slots only for current readers), the hash chain of the
  revisions, key rotation whenever the readers of an item change, and the agreement of
  \<open>prepare_revision\<close> with replay.
\<close>

section \<open>Operation keys\<close>

datatype operation_key =
    Key_Principal u8 ident
  | Key_Item u8 ident
  | Key_ItemPrincipal u8 ident ident

fun operation_key_order :: "operation_key \<Rightarrow> nat \<times> u8 \<times> ident \<times> ident option" where
  "operation_key_order (Key_Principal n p) = (0, n, p, None)"
| "operation_key_order (Key_Item n i) = (1, n, i, None)"
| "operation_key_order (Key_ItemPrincipal n i p) = (2, n, i, Some p)"

lemma operation_key_order_inject [simp]:
  "operation_key_order a = operation_key_order b \<longleftrightarrow> a = b"
  by (cases a; cases b) auto

instantiation operation_key :: linorder
begin

definition less_eq_operation_key :: "operation_key \<Rightarrow> operation_key \<Rightarrow> bool" where
  "less_eq_operation_key a b \<longleftrightarrow> operation_key_order a \<le> operation_key_order b"

definition less_operation_key :: "operation_key \<Rightarrow> operation_key \<Rightarrow> bool" where
  "less_operation_key a b \<longleftrightarrow> operation_key_order a < operation_key_order b"

instance
proof
  fix a b c :: operation_key
  show "a < b \<longleftrightarrow> a \<le> b \<and> \<not> b \<le> a"
    unfolding less_operation_key_def less_eq_operation_key_def by (rule less_le_not_le)
  show "a \<le> a" and "a \<le> b \<or> b \<le> a"
    unfolding less_eq_operation_key_def by (simp, rule linear)
  show "a \<le> b \<Longrightarrow> b \<le> c \<Longrightarrow> a \<le> c"
    unfolding less_eq_operation_key_def by (rule order_trans)
  show "a \<le> b \<Longrightarrow> b \<le> a \<Longrightarrow> a = b"
    unfolding less_eq_operation_key_def using operation_key_order_inject order_antisym by metis
qed

end

fun operation_key_of :: "policy_operation \<Rightarrow> operation_key" where
  "operation_key_of (PrincipalAdd descriptor _ _) = Key_Principal 1 (pd_principal_id descriptor)"
| "operation_key_of (PrincipalLabelChange principal_id _ _) = Key_Principal 2 principal_id"
| "operation_key_of (PrincipalRemove principal_id _) = Key_Principal 3 principal_id"
| "operation_key_of (OwnerGrant principal_id) = Key_Principal 4 principal_id"
| "operation_key_of (OwnerRevoke principal_id) = Key_Principal 5 principal_id"
| "operation_key_of (ItemCreate item_id _ _ _ _ _ _) = Key_Item 6 item_id"
| "operation_key_of (ItemRename item_id _ _) = Key_Item 7 item_id"
| "operation_key_of (ItemDelete item_id _ _ _) = Key_Item 8 item_id"
| "operation_key_of (ItemRoleChange item_id principal_id _ _) = Key_ItemPrincipal 9 item_id principal_id"
| "operation_key_of (ItemReaderSetChange item_id _ _ _ _ _ _) = Key_Item 10 item_id"
| "operation_key_of (ItemSlotsReplace item_id _ _ _) = Key_Item 11 item_id"
| "operation_key_of (PrincipalReplace prior_principal_id _ _) = Key_Principal 12 prior_principal_id"

section \<open>Principals\<close>

definition validate_descriptor ::
    "verify_fun \<Rightarrow> principal_descriptor \<Rightarrow> policy_error + unit" where
  "validate_descriptor V descriptor =
     (if pd_descriptor_version descriptor \<noteq> 1 then Inl Policy_InvalidFormat
      else ensure (V (pd_verification_public_key descriptor)
          (pd_self_signature_preimage descriptor) (pd_self_signature descriptor))
        Policy_InvalidSignature)"

definition identifier_was_used :: "policy_state \<Rightarrow> principal_descriptor \<Rightarrow> bool" where
  "identifier_was_used s descriptor \<longleftrightarrow>
     bt_contains_key (st_historical_principal_ids s) (pd_principal_id descriptor) \<or>
     bt_contains_key (st_historical_recipient_keys s) (pd_recipient_public_key descriptor) \<or>
     bt_contains_key (st_historical_verification_keys s) (pd_verification_public_key descriptor)"

definition record_descriptor :: "principal_descriptor \<Rightarrow> policy_state \<Rightarrow> policy_state" where
  "record_descriptor descriptor s =
     s\<lparr>st_historical_principal_ids :=
         bts_insert (pd_principal_id descriptor) (st_historical_principal_ids s),
       st_historical_principal_descriptors :=
         bt_insert (pd_principal_id descriptor) descriptor
           (st_historical_principal_descriptors s),
       st_historical_recipient_keys :=
         bts_insert (pd_recipient_public_key descriptor) (st_historical_recipient_keys s),
       st_historical_verification_keys :=
         bts_insert (pd_verification_public_key descriptor) (st_historical_verification_keys s)\<rparr>"

definition add_principal ::
    "verify_fun \<Rightarrow> policy_state \<Rightarrow> principal_descriptor \<Rightarrow> string \<Rightarrow> policy_error + policy_state" where
  "add_principal V s descriptor display_label =
     and_then (validate_descriptor V descriptor) (\<lambda>_.
     if display_label = [] \<or> length display_label > max_public_label_bytes
     then Inl Policy_InvalidTransition
     else if identifier_was_used s descriptor then Inl Policy_IdentifierReused
     else
       let s = record_descriptor descriptor s in
       Inr (s\<lparr>st_principals := bt_insert (pd_principal_id descriptor)
           \<lparr>pps_descriptor = descriptor, pps_display_label = display_label\<rparr>
           (st_principals s)\<rparr>))"

definition change_label ::
    "policy_state \<Rightarrow> ident \<Rightarrow> string \<Rightarrow> string \<Rightarrow> policy_error + policy_state" where
  "change_label s principal_id prior_label next_label =
     and_then (ok_or Policy_UnknownPrincipal (bt_get (st_principals s) principal_id)) (\<lambda>member.
     if pps_display_label member \<noteq> prior_label \<or> next_label = [] \<or>
        length next_label > max_public_label_bytes \<or> prior_label = next_label
     then Inl Policy_InvalidTransition
     else Inr (s\<lparr>st_principals :=
       bt_insert principal_id (member\<lparr>pps_display_label := next_label\<rparr>) (st_principals s)\<rparr>))"

definition remove_principal :: "policy_state \<Rightarrow> ident \<Rightarrow> policy_error + policy_state" where
  "remove_principal s principal_id =
     (if bt_contains_key (st_owners s) principal_id then Inl Policy_InvalidRole
      else if list_ex (\<lambda>item. bt_contains_key (ips_grants item) principal_id)
          (bt_values (st_items s))
      then Inl Policy_InvalidTransition
      else and_then (ok_or Policy_UnknownPrincipal (bt_get (st_principals s) principal_id)) (\<lambda>_.
        Inr (s\<lparr>st_principals := bt_remove principal_id (st_principals s)\<rparr>)))"

definition grant_owner :: "policy_state \<Rightarrow> ident \<Rightarrow> policy_error + policy_state" where
  "grant_owner s principal_id =
     and_then (ok_or Policy_UnknownPrincipal (bt_get (st_principals s) principal_id)) (\<lambda>member.
     if pd_principal_kind (pps_descriptor member) \<noteq> Kind_Human \<or>
        bt_contains_key (st_owners s) principal_id
     then Inl Policy_InvalidRole
     else Inr (s\<lparr>st_owners := bts_insert principal_id (st_owners s)\<rparr>))"

definition revoke_owner :: "policy_state \<Rightarrow> ident \<Rightarrow> policy_error + policy_state" where
  "revoke_owner s principal_id =
     (if \<not> bt_contains_key (st_owners s) principal_id then Inl Policy_InvalidRole
      else
        let owners = bt_remove principal_id (st_owners s) in
        if bt_is_empty owners then Inl Policy_SoleOwner else Inr (s\<lparr>st_owners := owners\<rparr>))"

definition replace_grant :: "ident \<Rightarrow> ident \<Rightarrow> item_policy_state \<Rightarrow> item_policy_state" where
  "replace_grant prior_id next_id item =
     (case bt_get (ips_grants item) prior_id of
        Some role \<Rightarrow>
          item\<lparr>ips_grants := bt_insert next_id role (bt_remove prior_id (ips_grants item))\<rparr>
      | None \<Rightarrow> item)"

definition replace_principal ::
    "verify_fun \<Rightarrow> policy_state \<Rightarrow> ident \<Rightarrow> principal_descriptor \<Rightarrow> policy_error + policy_state" where
  "replace_principal V s prior_id next_descriptor =
     and_then (validate_descriptor V next_descriptor) (\<lambda>_.
     and_then (ok_or Policy_UnknownPrincipal (bt_get (st_principals s) prior_id)) (\<lambda>prior.
     if pd_principal_kind (pps_descriptor prior) \<noteq> pd_principal_kind next_descriptor
     then Inl Policy_InvalidRole
     else if identifier_was_used s next_descriptor then Inl Policy_IdentifierReused
     else
       let next_id = pd_principal_id next_descriptor;
           s = s\<lparr>st_principals := bt_insert next_id
               \<lparr>pps_descriptor = next_descriptor, pps_display_label = pps_display_label prior\<rparr>
               (bt_remove prior_id (st_principals s))\<rparr>;
           s = record_descriptor next_descriptor s in
       Inr (s\<lparr>st_owners :=
                (if bt_contains_key (st_owners s) prior_id
                 then bts_insert next_id (bt_remove prior_id (st_owners s)) else st_owners s),
              st_items := bt_map_values (replace_grant prior_id next_id) (st_items s)\<rparr>)))"

section \<open>Items\<close>

definition collect_grant ::
    "(ident, access_role) btree_map \<Rightarrow> direct_slot \<Rightarrow> policy_error + (ident, access_role) btree_map" where
  "collect_grant grants slot =
     (if ds_access_role slot = Role_Owner then Inr grants
      else
        let updated = bt_insert (ds_recipient_principal_id slot) (ds_access_role slot) grants in
        (case bt_get grants (ds_recipient_principal_id slot) of
           Some existing \<Rightarrow>
             if existing \<noteq> ds_access_role slot then Inl Policy_InvalidRole else Inr updated
         | None \<Rightarrow> Inr updated))"

definition create_item ::
    "policy_state \<Rightarrow> ident \<Rightarrow> item_kind \<Rightarrow> u64 \<Rightarrow> descriptor_metadata \<Rightarrow> digest32 \<Rightarrow> direct_slot list
      \<Rightarrow> witnessed_state option \<Rightarrow> policy_error + policy_state" where
  "create_item s item_id kind key_epoch descriptor current_hash direct_slots state_option =
     (if bt_contains_key (st_historical_item_ids s) item_id then Inl Policy_IdentifierReused
      else and_then (fold_results collect_grant bt_empty direct_slots) (\<lambda>grants.
        Inr (s
          \<lparr>st_historical_item_ids := bts_insert item_id (st_historical_item_ids s),
           st_items := bt_insert item_id
             \<lparr>ips_item_kind = kind, ips_key_epoch = key_epoch, ips_descriptor = descriptor,
              ips_current_item_revision_hash = current_hash, ips_grants = grants,
              ips_direct_slots = direct_slots, ips_witnessed_state = state_option\<rparr>
             (st_items s)\<rparr>)))"

definition rename_item ::
    "policy_state \<Rightarrow> ident \<Rightarrow> u64 \<Rightarrow> descriptor_metadata \<Rightarrow> policy_error + policy_state" where
  "rename_item s item_id prior_descriptor_revision next_descriptor =
     and_then (ok_or Policy_UnknownItem (bt_get (st_items s) item_id)) (\<lambda>item.
     if dm_revision (ips_descriptor item) \<noteq> prior_descriptor_revision \<or>
        dm_key_epoch next_descriptor \<noteq> ips_key_epoch item
     then Inl Policy_InvalidTransition
     else Inr (s\<lparr>st_items :=
       bt_insert item_id (item\<lparr>ips_descriptor := next_descriptor\<rparr>) (st_items s)\<rparr>))"

definition delete_item ::
    "policy_state \<Rightarrow> ident \<Rightarrow> digest32 \<Rightarrow> digest32 \<Rightarrow> u64 \<Rightarrow> policy_error + policy_state" where
  "delete_item s item_id descriptor_digest revision_hash sequence =
     and_then (ok_or Policy_UnknownItem (bt_get (st_items s) item_id)) (\<lambda>item.
     if dm_ciphertext_digest (ips_descriptor item) \<noteq> descriptor_digest \<or>
        ips_current_item_revision_hash item \<noteq> revision_hash
     then Inl Policy_InvalidTransition
     else Inr (s
       \<lparr>st_items := bt_remove item_id (st_items s),
        st_tombstones := bt_insert item_id
          \<lparr>tb_deletion_policy_sequence = sequence, tb_final_descriptor_digest = descriptor_digest,
           tb_final_item_revision_hash = revision_hash\<rparr> (st_tombstones s)\<rparr>))"

definition is_human_or_machine :: "principal_descriptor \<Rightarrow> bool" where
  "is_human_or_machine d \<longleftrightarrow> pd_principal_kind d = Kind_Human \<or> pd_principal_kind d = Kind_Machine"

definition change_role ::
    "policy_state \<Rightarrow> ident \<Rightarrow> ident \<Rightarrow> access_role option \<Rightarrow> access_role option
      \<Rightarrow> policy_error + policy_state" where
  "change_role s item_id principal_id prior_role next_role =
     and_then (ok_or Policy_UnknownPrincipal (bt_get (st_principals s) principal_id)) (\<lambda>member.
     if \<not> is_human_or_machine (pps_descriptor member) \<or>
        bt_contains_key (st_owners s) principal_id \<or>
        prior_role = Some Role_Owner \<or> next_role = Some Role_Owner
     then Inl Policy_InvalidRole
     else and_then (ok_or Policy_UnknownItem (bt_get (st_items s) item_id)) (\<lambda>item.
       if bt_get (ips_grants item) principal_id \<noteq> prior_role then Inl Policy_InvalidTransition
       else (case next_role of
           Some Role_Owner \<Rightarrow> Inl Policy_InvalidRole
         | Some role \<Rightarrow> Inr (s\<lparr>st_items := bt_insert item_id
               (item\<lparr>ips_grants := bt_insert principal_id role (ips_grants item)\<rparr>) (st_items s)\<rparr>)
         | None \<Rightarrow> Inr (s\<lparr>st_items := bt_insert item_id
               (item\<lparr>ips_grants := bt_remove principal_id (ips_grants item)\<rparr>) (st_items s)\<rparr>))))"

section \<open>Rotations\<close>

record reader_rotation =
  rr_prior_epoch :: u64
  rr_next_epoch :: u64
  rr_prior_reader_ids :: "ident list"
  rr_next_reader_ids :: "ident list"
  rr_replacement_descriptor :: descriptor_metadata
  rr_replacement_current_item_revision_hash :: digest32

record slot_rotation =
  sl_next_epoch :: u64
  sl_direct_slots :: "direct_slot list"
  sl_witnessed_state :: "witnessed_state option"

record rotation_scan =
  rs_next :: policy_state
  rs_reader_rotations :: "(ident, reader_rotation) btree_map"
  rs_slot_rotations :: "(ident, slot_rotation) btree_map"

definition apply_reader_rotation ::
    "policy_state \<Rightarrow> ident \<Rightarrow> u64 \<Rightarrow> u64 \<Rightarrow> ident list \<Rightarrow> ident list \<Rightarrow> reader_rotation
      \<Rightarrow> policy_error + policy_state" where
  "apply_reader_rotation s item_id current_epoch expected_epoch prior_readers next_readers rotation =
     (if rr_prior_epoch rotation \<noteq> current_epoch \<or> rr_next_epoch rotation \<noteq> expected_epoch \<or>
         rr_prior_reader_ids rotation \<noteq> prior_readers \<or>
         rr_next_reader_ids rotation \<noteq> next_readers \<or>
         dm_key_epoch (rr_replacement_descriptor rotation) \<noteq> expected_epoch
      then Inl Policy_InvalidTransition
      else and_then (ok_or Policy_UnknownItem (bt_get (st_items s) item_id)) (\<lambda>item.
        Inr (s\<lparr>st_items := bt_insert item_id
          (item\<lparr>ips_descriptor := rr_replacement_descriptor rotation,
                ips_current_item_revision_hash :=
                  rr_replacement_current_item_revision_hash rotation\<rparr>) (st_items s)\<rparr>)))"

definition apply_slot_rotation ::
    "policy_state \<Rightarrow> ident \<Rightarrow> u64 \<Rightarrow> bool \<Rightarrow> slot_rotation \<Rightarrow> policy_error + policy_state" where
  "apply_slot_rotation s item_id expected_epoch readers_changed rotation =
     (if sl_next_epoch rotation \<noteq> expected_epoch then Inl Policy_InvalidTransition
      else and_then (ok_or Policy_UnknownItem (bt_get (st_items s) item_id)) (\<lambda>item.
        if \<not> readers_changed \<and> ips_direct_slots item = sl_direct_slots rotation \<and>
           ips_witnessed_state item = sl_witnessed_state rotation
        then Inl Policy_InvalidTransition
        else if dm_key_epoch (ips_descriptor item) \<noteq> expected_epoch
        then Inl Policy_IncompleteRotation
        else Inr (s\<lparr>st_items := bt_insert item_id
          (item\<lparr>ips_key_epoch := expected_epoch,
                ips_direct_slots := sl_direct_slots rotation,
                ips_witnessed_state := sl_witnessed_state rotation\<rparr>) (st_items s)\<rparr>)))"

definition apply_item_rotation ::
    "policy_state \<Rightarrow> rotation_scan \<Rightarrow> ident \<Rightarrow> policy_error + rotation_scan" where
  "apply_item_rotation prior scan item_id =
     (let next = rs_next scan;
          prior_readers = effective_reader_ids prior item_id;
          next_readers = effective_reader_ids next item_id;
          readers_changed = (prior_readers \<noteq> next_readers);
          reader_rotation = bt_get (rs_reader_rotations scan) item_id;
          slot_rotation = bt_get (rs_slot_rotations scan) item_id in
      if readers_changed \<and> (reader_rotation = None \<or> slot_rotation = None)
      then Inl Policy_IncompleteRotation
      else if reader_rotation \<noteq> None \<and> slot_rotation = None
      then Inl Policy_IncompleteRotation
      else and_then (ok_or Policy_UnknownItem (bt_get (st_items prior) item_id)) (\<lambda>prior_item.
        let current_epoch = ips_key_epoch prior_item in
        and_then (ok_or Policy_CapacityExhausted (checked_add current_epoch 1))
          (\<lambda>expected_epoch.
        and_then (case reader_rotation of
            Some rotation \<Rightarrow> apply_reader_rotation next item_id current_epoch expected_epoch
              prior_readers next_readers rotation
          | None \<Rightarrow> Inr next) (\<lambda>next.
        and_then (case slot_rotation of
            Some rotation \<Rightarrow>
              apply_slot_rotation next item_id expected_epoch readers_changed rotation
          | None \<Rightarrow> Inr next) (\<lambda>next.
        Inr \<lparr>rs_next = next,
             rs_reader_rotations = bt_remove item_id (rs_reader_rotations scan),
             rs_slot_rotations = bt_remove item_id (rs_slot_rotations scan)\<rparr>)))))"

definition apply_rotations ::
    "policy_state \<Rightarrow> rotation_scan \<Rightarrow> policy_error + policy_state" where
  "apply_rotations prior scan =
     (let common_items = filter (bt_contains_key (st_items (rs_next scan)))
            (bt_keys (st_items prior)) in
      and_then (fold_results (apply_item_rotation prior) scan common_items) (\<lambda>scan.
      if \<not> bt_is_empty (rs_reader_rotations scan) \<or> \<not> bt_is_empty (rs_slot_rotations scan)
      then Inl Policy_UnknownItem
      else Inr (rs_next scan)))"

section \<open>The complete state\<close>

definition owner_is_human :: "policy_state \<Rightarrow> ident \<Rightarrow> bool" where
  "owner_is_human s owner =
     (case bt_get (st_principals s) owner of
        None \<Rightarrow> False
      | Some member \<Rightarrow> pd_principal_kind (pps_descriptor member) = Kind_Human)"

definition validate_grant ::
    "policy_state \<Rightarrow> ident \<times> access_role \<Rightarrow> policy_error + unit" where
  "validate_grant s grant =
     and_then (ok_or Policy_UnknownPrincipal (bt_get (st_principals s) (fst grant))) (\<lambda>member.
     ensure (\<not> (\<not> is_human_or_machine (pps_descriptor member) \<or> snd grant = Role_Owner))
       Policy_InvalidRole)"

fun slot_role_is_current :: "access_role option \<Rightarrow> access_role \<Rightarrow> bool" where
  "slot_role_is_current effective slot_role \<longleftrightarrow>
     effective = Some slot_role \<or>
     (effective = Some Role_Reader \<or> effective = Some Role_Writer) \<and>
     (slot_role = Role_Reader \<or> slot_role = Role_Writer)"

definition validate_current_slot ::
    "hash_fun \<Rightarrow> policy_state \<Rightarrow> ident \<Rightarrow> item_policy_state \<Rightarrow> item_access_mode \<Rightarrow> direct_slot
      \<Rightarrow> policy_error + unit" where
  "validate_current_slot H s item_id item mode slot =
     and_then (ok_or Policy_UnknownPrincipal
       (bt_get (st_principals s) (ds_recipient_principal_id slot))) (\<lambda>member.
     ensure (\<not> (\<not> is_human_or_machine (pps_descriptor member) \<or>
         \<not> slot_role_is_current (effective_role s item_id (ds_recipient_principal_id slot))
             (ds_access_role slot) \<or>
         ds_recipient_public_key_fingerprint slot \<noteq>
           recipient_public_key_fingerprint H
             (pd_recipient_public_key (pps_descriptor member)) \<or>
         ds_item_access_mode slot \<noteq> mode \<or>
         ds_key_epoch slot \<noteq> ips_key_epoch item \<or>
         ds_policy_sequence slot = 0 \<or>
         ds_policy_sequence slot > st_sequence s)) Policy_InvalidRole)"

definition validate_current_witnessed_slot ::
    "policy_state \<Rightarrow> item_policy_state \<Rightarrow> item_access_mode \<Rightarrow> witnessed_slot \<Rightarrow> witnessed_slot
      \<Rightarrow> policy_error + unit" where
  "validate_current_witnessed_slot s item mode first slot =
     ensure (\<not> (ws_item_access_mode slot \<noteq> mode \<or>
         ws_key_epoch slot \<noteq> ips_key_epoch item \<or>
         ws_vault_policy_sequence slot = 0 \<or>
         ws_vault_policy_sequence slot > st_sequence s \<or>
         ws_threshold slot \<noteq> ws_threshold first \<or>
         ws_witness_policy_id slot \<noteq> ws_witness_policy_id first \<or>
         ws_witness_policy_revision slot \<noteq> ws_witness_policy_revision first \<or>
         ws_witness_policy_digest slot \<noteq> ws_witness_policy_digest first \<or>
         map cap_witness_id (ws_capsules slot) \<noteq> map cap_witness_id (ws_capsules first)))
       Policy_InvalidTransition"

definition validate_current_witnessed ::
    "policy_state \<Rightarrow> ident \<Rightarrow> item_policy_state \<Rightarrow> item_access_mode \<Rightarrow> witnessed_state
      \<Rightarrow> policy_error + unit" where
  "validate_current_witnessed s item_id item mode witnessed =
     and_then (ok_or Policy_InvalidFormat (slice_first (wst_slots witnessed))) (\<lambda>first.
     and_then (collect_results (validate_current_witnessed_slot s item mode first)
       (wst_slots witnessed)) (\<lambda>_.
     and_then (collect_results
       (\<lambda>witness_id. ensure (is_principal_of_kind s Kind_Witness witness_id) Policy_InvalidRole)
       (map cap_witness_id (ws_capsules first))) (\<lambda>_.
     validate_item_policy_binding s item_id witnessed)))"

definition validate_current_item ::
    "hash_fun \<Rightarrow> policy_state \<Rightarrow> ident \<times> item_policy_state \<Rightarrow> policy_error + unit" where
  "validate_current_item H s entry =
     (let item_id = fst entry; item = snd entry in
      and_then (ok_or Policy_InvalidTransition (ips_access_mode item)) (\<lambda>mode.
      and_then (collect_results (validate_grant s) (bt_entries (ips_grants item))) (\<lambda>_.
      and_then (collect_results (validate_current_slot H s item_id item mode)
        (ips_direct_slots item)) (\<lambda>_.
      case ips_witnessed_state item of
        Some witnessed \<Rightarrow> validate_current_witnessed s item_id item mode witnessed
      | None \<Rightarrow> Inr ()))))"

definition validate_complete_state :: "hash_fun \<Rightarrow> policy_state \<Rightarrow> policy_error + unit" where
  "validate_complete_state H s =
     (if bt_is_empty (st_owners s) \<or>
         list_ex (\<lambda>owner. \<not> owner_is_human s owner) (bt_keys (st_owners s))
      then Inl Policy_SoleOwner
      else and_then (collect_results (validate_current_item H s) (bt_entries (st_items s))) (\<lambda>_.
        Inr ()))"

definition cover_slot ::
    "direct_slot \<Rightarrow> (ident, u8 \<times> bool \<times> bool) btree_map \<Rightarrow> (ident, u8 \<times> bool \<times> bool) btree_map" where
  "cover_slot slot coverage =
     (let (count, descriptor, body) =
        (case bt_get coverage (ds_recipient_principal_id slot) of
           Some entry \<Rightarrow> entry | None \<Rightarrow> (0, False, False)) in
      bt_insert (ds_recipient_principal_id slot)
        (saturating_add count 1, descriptor \<or> ds_content_role slot = Content_Descriptor,
         body \<or> ds_content_role slot = Content_Body) coverage)"

definition validate_item_owner_slots ::
    "policy_state \<Rightarrow> item_policy_state \<Rightarrow> policy_error + unit" where
  "validate_item_owner_slots s item =
     and_then (ok_or Policy_InvalidTransition (ips_access_mode item)) (\<lambda>mode.
     if mode = Mode_WitnessedOnly then Inr ()
     else
       let coverage = fold cover_slot (ips_direct_slots item) bt_empty in
       ensure (\<not> list_ex (\<lambda>owner_id. bt_get coverage owner_id \<noteq> Some (2, True, True))
         (bt_keys (st_owners s))) Policy_IncompleteRotation)"

definition validate_complete_owner_slots :: "policy_state \<Rightarrow> policy_error + unit" where
  "validate_complete_owner_slots s =
     and_then (collect_results (validate_item_owner_slots s) (bt_values (st_items s))) (\<lambda>_.
     Inr ())"

section \<open>Applying the operations of a revision\<close>

record operation_scan = rotation_scan +
  os_mutation_keys :: "operation_key btree_set"

fun operation_suites_differ :: "u16 \<Rightarrow> policy_operation \<Rightarrow> bool" where
  "operation_suites_differ suite (ItemCreate _ _ _ _ _ direct_slots state) \<longleftrightarrow>
     list_ex (\<lambda>slot. ds_suite slot \<noteq> suite) direct_slots \<or>
     (case state of Some state \<Rightarrow> list_ex (\<lambda>slot. ws_suite slot \<noteq> suite) (wst_slots state)
      | None \<Rightarrow> False)"
| "operation_suites_differ suite (ItemSlotsReplace _ _ direct_slots state) \<longleftrightarrow>
     list_ex (\<lambda>slot. ds_suite slot \<noteq> suite) direct_slots \<or>
     (case state of Some state \<Rightarrow> list_ex (\<lambda>slot. ws_suite slot \<noteq> suite) (wst_slots state)
      | None \<Rightarrow> False)"
| "operation_suites_differ suite _ \<longleftrightarrow> False"

fun mutate_state :: "verify_fun \<Rightarrow> policy_state \<Rightarrow> policy_operation \<Rightarrow> policy_error + policy_state" where
  "mutate_state V next (PrincipalAdd descriptor display_label _) =
     add_principal V next descriptor display_label"
| "mutate_state V next (PrincipalLabelChange principal_id prior_label next_label) =
     change_label next principal_id prior_label next_label"
| "mutate_state V next (PrincipalRemove principal_id _) = remove_principal next principal_id"
| "mutate_state V next (OwnerGrant principal_id) = grant_owner next principal_id"
| "mutate_state V next (OwnerRevoke principal_id) = revoke_owner next principal_id"
| "mutate_state V next (ItemCreate item_id kind key_epoch descriptor current_hash slots state) =
     create_item next item_id kind key_epoch descriptor current_hash slots state"
| "mutate_state V next (ItemRename item_id prior_revision next_descriptor) =
     rename_item next item_id prior_revision next_descriptor"
| "mutate_state V next (ItemDelete item_id descriptor_digest revision_hash sequence) =
     delete_item next item_id descriptor_digest revision_hash sequence"
| "mutate_state V next (ItemRoleChange item_id principal_id prior_role next_role) =
     change_role next item_id principal_id prior_role next_role"
| "mutate_state V next (ItemReaderSetChange _ _ _ _ _ _ _) = Inr next"
| "mutate_state V next (ItemSlotsReplace _ _ _ _) = Inr next"
| "mutate_state V next (PrincipalReplace prior_id next_descriptor _) =
     replace_principal V next prior_id next_descriptor"

fun record_reader_rotation ::
    "policy_operation \<Rightarrow> (ident, reader_rotation) btree_map \<Rightarrow> (ident, reader_rotation) btree_map" where
  "record_reader_rotation (ItemReaderSetChange item_id prior_epoch next_epoch prior_readers
       next_readers replacement replacement_hash) rotations =
     bt_insert item_id
       \<lparr>rr_prior_epoch = prior_epoch, rr_next_epoch = next_epoch,
        rr_prior_reader_ids = prior_readers, rr_next_reader_ids = next_readers,
        rr_replacement_descriptor = replacement,
        rr_replacement_current_item_revision_hash = replacement_hash\<rparr> rotations"
| "record_reader_rotation _ rotations = rotations"

fun record_slot_rotation ::
    "policy_operation \<Rightarrow> (ident, slot_rotation) btree_map \<Rightarrow> (ident, slot_rotation) btree_map" where
  "record_slot_rotation (ItemSlotsReplace item_id next_epoch direct_slots state) rotations =
     bt_insert item_id
       \<lparr>sl_next_epoch = next_epoch, sl_direct_slots = direct_slots, sl_witnessed_state = state\<rparr>
       rotations"
| "record_slot_rotation _ rotations = rotations"

definition apply_operation ::
    "hash_fun \<Rightarrow> verify_fun \<Rightarrow> policy_state \<Rightarrow> u64 \<Rightarrow> operation_scan \<Rightarrow> policy_operation
      \<Rightarrow> policy_error + operation_scan" where
  "apply_operation H V prior sequence scan operation =
     (if operation_suites_differ (st_suite prior) operation then Inl Policy_InvalidFormat
      else and_then (map_err (\<lambda>_. Policy_InvalidFormat)
          (validate_policy_operation_context H operation sequence (st_vault_id prior)
            (st_genesis_fingerprint prior))) (\<lambda>_.
      if bt_contains_key (os_mutation_keys scan) (operation_key_of operation)
      then Inl Policy_AmbiguousMutation
      else and_then (mutate_state V (rs_next scan) operation) (\<lambda>next.
      Inr \<lparr>rs_next = next,
           rs_reader_rotations = record_reader_rotation operation (rs_reader_rotations scan),
           rs_slot_rotations = record_slot_rotation operation (rs_slot_rotations scan),
           os_mutation_keys =
             bts_insert (operation_key_of operation) (os_mutation_keys scan)\<rparr>)))"

definition apply_operations ::
    "hash_fun \<Rightarrow> verify_fun \<Rightarrow> policy_state \<Rightarrow> u64 \<Rightarrow> policy_operation list
      \<Rightarrow> policy_error + policy_state" where
  "apply_operations H V prior sequence operations =
     (if operations = [] then Inl Policy_InvalidTransition
      else and_then (fold_results (apply_operation H V prior sequence)
          \<lparr>rs_next = prior\<lparr>st_sequence := sequence\<rparr>, rs_reader_rotations = bt_empty,
           rs_slot_rotations = bt_empty, os_mutation_keys = bt_empty\<rparr> operations) (\<lambda>scan.
        and_then (apply_rotations prior (rotation_scan.truncate scan)) (\<lambda>next.
        and_then (validate_complete_state H next) (\<lambda>_.
        if bt_len (st_items next) > max_items then Inl Policy_CapacityExhausted
        else Inr next))))"

section \<open>Replay\<close>

definition genesis_state ::
    "policy_genesis \<Rightarrow> digest32 \<Rightarrow> (digest32, witness_policy) btree_map \<Rightarrow> policy_state" where
  "genesis_state genesis fingerprint witness_policies =
     (let owner = pg_owner genesis; owner_id = pd_principal_id owner in
      \<lparr>st_suite = pg_suite genesis,
       st_vault_id = pg_vault_id genesis,
       st_genesis_fingerprint = fingerprint,
       st_sequence = 0,
       st_terminal_revision_hash = fingerprint,
       st_revision_hashes = [fingerprint],
       st_principals = bt_insert owner_id
         \<lparr>pps_descriptor = owner, pps_display_label = ''owner''\<rparr> bt_empty,
       st_historical_principal_descriptors = bt_insert owner_id owner bt_empty,
       st_historical_principal_ids = bts_insert owner_id bt_empty,
       st_historical_recipient_keys = bts_insert (pd_recipient_public_key owner) bt_empty,
       st_historical_verification_keys = bts_insert (pd_verification_public_key owner) bt_empty,
       st_owners = bts_insert owner_id bt_empty,
       st_items = bt_empty,
       st_historical_item_ids = bt_empty,
       st_tombstones = bt_empty,
       st_witness_policies = witness_policies\<rparr>)"

definition append_revision :: "digest32 \<Rightarrow> policy_state \<Rightarrow> policy_state" where
  "append_revision hash s =
     s\<lparr>st_terminal_revision_hash := hash, st_revision_hashes := st_revision_hashes s @ [hash]\<rparr>"

definition replay_genesis ::
    "hash_fun \<Rightarrow> verify_fun \<Rightarrow> policy_journal \<Rightarrow> (digest32, witness_policy) btree_map
      \<Rightarrow> policy_error + policy_state" where
  "replay_genesis H V journal witness_policies =
     (let genesis = pj_genesis journal in
      if pg_policy_sequence genesis \<noteq> 0 \<or>
         pg_previous_policy_hash genesis \<noteq> zero_digest \<or>
         \<not> (pg_suite genesis = 1 \<or> pg_suite genesis = 2) \<or>
         pd_principal_kind (pg_owner genesis) \<noteq> Kind_Human \<or>
         length (pj_revisions journal) > max_policy_revisions
      then Inl Policy_InvalidFormat
      else and_then (validate_descriptor V (pg_owner genesis)) (\<lambda>_.
        and_then (map_err (\<lambda>_. Policy_InvalidFormat) (pg_signature_preimage genesis)) (\<lambda>preimage.
        and_then (ensure (V (pd_verification_public_key (pg_owner genesis)) preimage
          (pg_owner_signature genesis)) Policy_InvalidSignature) (\<lambda>_.
        and_then (map_err (\<lambda>_. Policy_InvalidFormat) (pg_recomputed_fingerprint H genesis))
          (\<lambda>fingerprint.
        Inr (genesis_state genesis fingerprint witness_policies))))))"

definition replay_revision ::
    "hash_fun \<Rightarrow> verify_fun \<Rightarrow> policy_genesis \<Rightarrow> policy_state \<times> u64 \<Rightarrow> nat \<times> signed_policy_revision
      \<Rightarrow> policy_error + policy_state \<times> u64" where
  "replay_revision H V genesis progress entry =
     (let (s, prior_timestamp) = progress;
          (index, revision) = entry;
          sequence = word_of_nat index + 1 in
      if spr_vault_id revision \<noteq> st_vault_id s \<or>
         spr_sequence revision \<noteq> sequence \<or>
         spr_previous_revision_hash revision \<noteq> st_terminal_revision_hash s \<or>
         spr_timestamp_ms revision < prior_timestamp \<or>
         spr_operations revision = [] \<and>
           \<not> (index = 0 \<and> pg_permits_empty_rollover_bootstrap H genesis)
      then Inl Policy_InvalidAncestry
      else if \<not> bt_contains_key (st_owners s) (spr_author_principal_id revision)
      then Inl Policy_Unauthorized
      else and_then (ok_or Policy_UnknownPrincipal
          (bt_get (st_principals s) (spr_author_principal_id revision))) (\<lambda>author.
        and_then (map_err (\<lambda>_. Policy_InvalidFormat) (spr_signature_preimage revision))
          (\<lambda>preimage.
        and_then (ensure (V (pd_verification_public_key (pps_descriptor author)) preimage
          (spr_signature revision)) Policy_InvalidSignature) (\<lambda>_.
        and_then (if spr_operations revision = [] then Inr (s\<lparr>st_sequence := sequence\<rparr>)
          else apply_operations H V s sequence (spr_operations revision)) (\<lambda>next.
        and_then (normalized_state_hash H next) (\<lambda>state_hash.
        if state_hash \<noteq> spr_resulting_policy_state_hash revision
        then Inl Policy_StateHashMismatch
        else and_then (validate_complete_owner_slots next) (\<lambda>_.
        and_then (map_err (\<lambda>_. Policy_InvalidFormat) (spr_recomputed_hash H revision)) (\<lambda>hash.
        Inr (append_revision hash next, spr_timestamp_ms revision)))))))))"

definition replay_policy_with_catalog ::
    "hash_fun \<Rightarrow> verify_fun \<Rightarrow> policy_journal \<Rightarrow> (digest32, witness_policy) btree_map
      \<Rightarrow> policy_error + policy_state" where
  "replay_policy_with_catalog H V journal witness_policies =
     and_then (replay_genesis H V journal witness_policies) (\<lambda>s.
     and_then (fold_results (replay_revision H V (pj_genesis journal))
       (s, pg_created_at_ms (pj_genesis journal)) (List.enumerate 0 (pj_revisions journal)))
       (\<lambda>(s, _). Inr s))"

definition replay_policy ::
    "hash_fun \<Rightarrow> verify_fun \<Rightarrow> policy_journal \<Rightarrow> policy_error + policy_state" where
  "replay_policy H V journal = replay_policy_with_catalog H V journal bt_empty"

section \<open>The catalog of witness policies\<close>

record catalog_scan =
  ct_catalog :: "(digest32, witness_policy) btree_map"
  ct_lineage_revisions :: "(ident \<times> u64, digest32) btree_map"
  ct_successors :: "(digest32, digest32) btree_map"

definition catalog_policy ::
    "hash_fun \<Rightarrow> verify_fun \<Rightarrow> catalog_scan \<Rightarrow> witness_policy \<Rightarrow> policy_error + catalog_scan" where
  "catalog_policy H V scan policy =
     and_then (wp_validate H V policy) (\<lambda>_.
     and_then (wp_digest H policy) (\<lambda>digest.
     if bt_contains_key (ct_lineage_revisions scan)
          (wp_witness_policy_id policy, wp_revision policy) \<or>
        wp_revision policy > 1 \<and>
          bt_contains_key (ct_successors scan) (wp_predecessor_policy_digest policy)
     then Inl Policy_InvalidAncestry
     else if bt_contains_key (ct_catalog scan) digest then Inl Policy_InvalidTransition
     else Inr
       \<lparr>ct_catalog = bt_insert digest policy (ct_catalog scan),
        ct_lineage_revisions = bt_insert (wp_witness_policy_id policy, wp_revision policy) digest
          (ct_lineage_revisions scan),
        ct_successors =
          (if wp_revision policy > 1
           then bt_insert (wp_predecessor_policy_digest policy) digest (ct_successors scan)
           else ct_successors scan)\<rparr>))"

definition check_predecessor ::
    "(digest32, witness_policy) btree_map \<Rightarrow> witness_policy \<Rightarrow> policy_error + unit" where
  "check_predecessor catalog policy =
     and_then (ok_or Policy_InvalidAncestry
       (bt_get catalog (wp_predecessor_policy_digest policy))) (\<lambda>predecessor.
     ensure (\<not> (wp_witness_policy_id predecessor \<noteq> wp_witness_policy_id policy \<or>
         checked_add (wp_revision predecessor) 1 \<noteq> Some (wp_revision policy)))
       Policy_InvalidAncestry)"

definition witness_policy_catalog ::
    "hash_fun \<Rightarrow> verify_fun \<Rightarrow> witness_policy list
      \<Rightarrow> policy_error + (digest32, witness_policy) btree_map" where
  "witness_policy_catalog H V policies =
     and_then (fold_results (catalog_policy H V)
       \<lparr>ct_catalog = bt_empty, ct_lineage_revisions = bt_empty, ct_successors = bt_empty\<rparr>
       policies) (\<lambda>scan.
     and_then (collect_results (check_predecessor (ct_catalog scan))
       (filter (\<lambda>policy. wp_revision policy > 1) policies)) (\<lambda>_.
     Inr (ct_catalog scan)))"

definition replay_policy_with_witness_policies ::
    "hash_fun \<Rightarrow> verify_fun \<Rightarrow> policy_journal \<Rightarrow> witness_policy list
      \<Rightarrow> policy_error + policy_state" where
  "replay_policy_with_witness_policies H V journal policies =
     and_then (witness_policy_catalog H V policies) (\<lambda>catalog.
     replay_policy_with_catalog H V journal catalog)"

section \<open>Creating and extending a journal\<close>

text \<open>
  \<open>PolicySigner\<close>: the identity behind it holds private keys, so its three methods are the
  fields of a record.
\<close>

record policy_signer =
  sg_principal_id :: ident
  sg_descriptor :: "policy_error + principal_descriptor"
  sg_sign :: "bytes \<Rightarrow> policy_error + signature64"

record prepared_policy_revision =
  ppr_revision :: signed_policy_revision
  ppr_state :: policy_state

record created_policy =
  crp_journal :: policy_journal
  crp_state :: policy_state

definition prepare_with_signer ::
    "hash_fun \<Rightarrow> verify_fun \<Rightarrow> policy_state \<Rightarrow> policy_signer \<Rightarrow> u64 \<Rightarrow> policy_operation list
      \<Rightarrow> policy_error + prepared_policy_revision" where
  "prepare_with_signer H V s signer timestamp_ms operations =
     (let author_id = sg_principal_id signer in
      if \<not> bt_contains_key (st_owners s) author_id then Inl Policy_Unauthorized
      else and_then (ok_or Policy_UnknownPrincipal (bt_get (st_principals s) author_id))
        (\<lambda>active.
      and_then (sg_descriptor signer) (\<lambda>descriptor.
      if descriptor \<noteq> pps_descriptor active then Inl Policy_Unauthorized
      else and_then (ok_or Policy_CapacityExhausted (checked_add (st_sequence s) 1))
        (\<lambda>sequence.
      if sequence > word_of_nat max_policy_revisions then Inl Policy_CapacityExhausted
      else and_then (apply_operations H V s sequence operations) (\<lambda>state.
      and_then (validate_complete_owner_slots state) (\<lambda>_.
      and_then (normalized_state_hash H state) (\<lambda>state_hash.
      let revision =
        \<lparr>spr_vault_id = st_vault_id s, spr_sequence = sequence,
         spr_previous_revision_hash = st_terminal_revision_hash s,
         spr_timestamp_ms = timestamp_ms, spr_author_principal_id = author_id,
         spr_operations = operations, spr_resulting_policy_state_hash = state_hash,
         spr_signature = zero_signature\<rparr> in
      and_then (map_err (\<lambda>_. Policy_InvalidFormat) (spr_signature_preimage revision)) (\<lambda>preimage.
      and_then (sg_sign signer preimage) (\<lambda>signature.
      let revision = revision\<lparr>spr_signature := signature\<rparr> in
      and_then (map_err (\<lambda>_. Policy_InvalidFormat) (spr_recomputed_hash H revision)) (\<lambda>hash.
      Inr \<lparr>ppr_revision = revision, ppr_state = append_revision hash state\<rparr>))))))))))"

text \<open>
  \<open>create_with_signer\<close> after the vault identifier is drawn; the random draw, with its retries,
  is the argument \<open>vault_id\<close>.
\<close>

definition create_with_signer ::
    "hash_fun \<Rightarrow> verify_fun \<Rightarrow> u16 \<Rightarrow> policy_signer \<Rightarrow> u64 \<Rightarrow> policy_error + ident
      \<Rightarrow> policy_error + created_policy" where
  "create_with_signer H V suite signer created_at_ms vault_id =
     and_then (sg_descriptor signer) (\<lambda>owner.
     and_then (validate_descriptor V owner) (\<lambda>_.
     if pd_principal_kind owner \<noteq> Kind_Human \<or> sg_principal_id signer \<noteq> pd_principal_id owner
     then Inl Policy_InvalidRole
     else and_then vault_id (\<lambda>vault_id.
       let genesis =
         \<lparr>pg_vault_id = vault_id, pg_policy_sequence = 0, pg_previous_policy_hash = zero_digest,
          pg_created_at_ms = created_at_ms, pg_suite = suite, pg_owner = owner,
          pg_source_attestation = None, pg_owner_signature = zero_signature\<rparr> in
       and_then (map_err (\<lambda>_. Policy_InvalidFormat) (pg_signature_preimage genesis)) (\<lambda>preimage.
       and_then (sg_sign signer preimage) (\<lambda>signature.
       let journal =
         \<lparr>pj_genesis = genesis\<lparr>pg_owner_signature := signature\<rparr>, pj_revisions = []\<rparr> in
       and_then (replay_policy H V journal) (\<lambda>s.
       Inr \<lparr>crp_journal = journal, crp_state = s\<rparr>))))))"

section \<open>Replay as a relation\<close>

text \<open>
  \<open>replayed H V g c rs s t\<close>: from the genesis \<open>g\<close> and the catalog \<open>c\<close>, the revisions \<open>rs\<close>
  lead to the state \<open>s\<close>, the last of them at time \<open>t\<close>.
\<close>

inductive replayed ::
    "hash_fun \<Rightarrow> verify_fun \<Rightarrow> policy_genesis \<Rightarrow> (digest32, witness_policy) btree_map
      \<Rightarrow> signed_policy_revision list \<Rightarrow> policy_state \<Rightarrow> u64 \<Rightarrow> bool"
  for H V genesis catalog where
    start: "replay_genesis H V \<lparr>pj_genesis = genesis, pj_revisions = []\<rparr> catalog = Inr s \<Longrightarrow>
      replayed H V genesis catalog [] s (pg_created_at_ms genesis)"
  | step: "replayed H V genesis catalog rs s t \<Longrightarrow>
      replay_revision H V genesis (s, t) (length rs, r) = Inr (s', t') \<Longrightarrow>
      replayed H V genesis catalog (rs @ [r]) s' t'"

inductive_cases replayed_NilE: "replayed H V g c [] s t"
inductive_cases replayed_snocE: "replayed H V g c (rs @ [r]) s t"

lemma replay_genesis_length:
  "replay_genesis H V j c = Inr s \<longleftrightarrow>
     length (pj_revisions j) \<le> max_policy_revisions \<and>
     replay_genesis H V \<lparr>pj_genesis = pj_genesis j, pj_revisions = []\<rparr> c = Inr s"
  by (auto simp: replay_genesis_def Let_def)

lemma enumerate_snoc: "List.enumerate n (xs @ [x]) = List.enumerate n xs @ [(n + length xs, x)]"
  by (simp add: enumerate_append_eq)

lemma replayed_fold:
  "replayed H V g c rs s t \<longleftrightarrow>
     (\<exists>s0. replay_genesis H V \<lparr>pj_genesis = g, pj_revisions = []\<rparr> c = Inr s0 \<and>
        fold_results (replay_revision H V g) (s0, pg_created_at_ms g) (List.enumerate 0 rs) =
          Inr (s, t))"
proof (induction rs arbitrary: s t rule: rev_induct)
  case Nil
  show ?case by (auto elim: replayed_NilE intro: replayed.start)
next
  case (snoc r rs)
  show ?case
    by (auto simp: enumerate_snoc fold_results_append and_then_Inr snoc elim!: replayed_snocE
        intro: replayed.step)
qed

lemma replay_iff_replayed:
  "replay_policy_with_catalog H V j c = Inr s \<longleftrightarrow>
     length (pj_revisions j) \<le> max_policy_revisions \<and>
     (\<exists>t. replayed H V (pj_genesis j) c (pj_revisions j) s t)"
  unfolding replay_policy_with_catalog_def replayed_fold
  by (auto simp: and_then_Inr replay_genesis_length [of H V j])

section \<open>Invariants of replay\<close>

lemma apply_operation_Inr:
  "apply_operation H V prior n scan op = Inr scan' \<longleftrightarrow>
     \<not> operation_suites_differ (st_suite prior) op \<and>
     validate_policy_operation_context H op n (st_vault_id prior) (st_genesis_fingerprint prior) =
       Inr () \<and>
     \<not> bt_contains_key (os_mutation_keys scan) (operation_key_of op) \<and>
     (\<exists>next. mutate_state V (rs_next scan) op = Inr next \<and>
        scan' = \<lparr>rs_next = next,
          rs_reader_rotations = record_reader_rotation op (rs_reader_rotations scan),
          rs_slot_rotations = record_slot_rotation op (rs_slot_rotations scan),
          os_mutation_keys = bts_insert (operation_key_of op) (os_mutation_keys scan)\<rparr>)"
  by (auto simp: apply_operation_def result_simps)

text \<open>A rotation rewrites at most the one item, and never its kind or its grants.\<close>

definition item_rewritten :: "ident \<Rightarrow> policy_state \<Rightarrow> policy_state \<Rightarrow> bool" where
  "item_rewritten i s s' \<longleftrightarrow>
     (\<exists>item item'. bt_get (st_items s) i = Some item \<and>
        ips_grants item' = ips_grants item \<and> ips_item_kind item' = ips_item_kind item \<and>
        s' = s\<lparr>st_items := bt_insert i item' (st_items s)\<rparr>)"

lemma item_rewrittenI:
  "bt_get (st_items s) i = Some item \<Longrightarrow> ips_grants item' = ips_grants item \<Longrightarrow>
   ips_item_kind item' = ips_item_kind item \<Longrightarrow>
   item_rewritten i s (s\<lparr>st_items := bt_insert i item' (st_items s)\<rparr>)"
  unfolding item_rewritten_def by blast

lemma apply_reader_rotation_rewrites:
  "apply_reader_rotation s i e e' rs rs' rotation = Inr s' \<Longrightarrow> item_rewritten i s s'"
  by (auto simp: apply_reader_rotation_def result_simps split: if_splits intro!: item_rewrittenI)

lemma apply_slot_rotation_rewrites:
  "apply_slot_rotation s i e changed rotation = Inr s' \<Longrightarrow> item_rewritten i s s'"
  by (auto simp: apply_slot_rotation_def result_simps split: if_splits intro!: item_rewrittenI)

lemma apply_item_rotation_Inr:
  assumes "apply_item_rotation prior scan i = Inr scan'"
  obtains prior_item e mid where
    "bt_get (st_items prior) i = Some prior_item"
    "checked_add (ips_key_epoch prior_item) 1 = Some e"
    "case bt_get (rs_reader_rotations scan) i of
       Some r \<Rightarrow> apply_reader_rotation (rs_next scan) i (ips_key_epoch prior_item) e
         (effective_reader_ids prior i) (effective_reader_ids (rs_next scan) i) r = Inr mid
     | None \<Rightarrow> mid = rs_next scan"
    "case bt_get (rs_slot_rotations scan) i of
       Some r \<Rightarrow> apply_slot_rotation mid i e
         (effective_reader_ids prior i \<noteq> effective_reader_ids (rs_next scan) i) r =
           Inr (rs_next scan')
     | None \<Rightarrow> rs_next scan' = mid"
    "effective_reader_ids prior i \<noteq> effective_reader_ids (rs_next scan) i \<or>
       bt_get (rs_reader_rotations scan) i \<noteq> None \<Longrightarrow> bt_get (rs_slot_rotations scan) i \<noteq> None"
    "rs_reader_rotations scan' = bt_remove i (rs_reader_rotations scan)"
    "rs_slot_rotations scan' = bt_remove i (rs_slot_rotations scan)"
proof -
  let ?rr = "bt_get (rs_reader_rotations scan) i" and ?sl = "bt_get (rs_slot_rotations scan) i"
  let ?changed = "effective_reader_ids prior i \<noteq> effective_reader_ids (rs_next scan) i"
  have guards: "(?changed \<and> (?rr = None \<or> ?sl = None)) = False" "(?rr \<noteq> None \<and> ?sl = None) = False"
    using assms by (auto simp: apply_item_rotation_def Let_def split: if_split_asm)
  obtain prior_item e mid where
    start: "bt_get (st_items prior) i = Some prior_item"
      "checked_add (ips_key_epoch prior_item) 1 = Some e"
    and mid: "(case ?rr of
        Some r \<Rightarrow> apply_reader_rotation (rs_next scan) i (ips_key_epoch prior_item) e
          (effective_reader_ids prior i) (effective_reader_ids (rs_next scan) i) r
      | None \<Rightarrow> Inr (rs_next scan)) = Inr mid"
    and last: "(case ?sl of
        Some r \<Rightarrow> apply_slot_rotation mid i e ?changed r
      | None \<Rightarrow> Inr mid) = Inr (rs_next scan')"
    and rest: "rs_reader_rotations scan' = bt_remove i (rs_reader_rotations scan)"
      "rs_slot_rotations scan' = bt_remove i (rs_slot_rotations scan)"
    using assms unfolding apply_item_rotation_def Let_def guards if_False and_then_Inr ok_or_Inr
    by (elim exE conjE) (auto simp only: sum.inject rotation_scan.simps)
  show thesis
    by (rule that [OF start _ _ _ rest, of mid])
      (use mid last guards in \<open>auto split: option.splits\<close>)
qed

text \<open>
  What a predicate on states needs in order to survive the operations of a revision, a whole
  revision, and every replay.
\<close>

locale mutation_invariant =
  fixes V :: verify_fun and I :: "policy_state \<Rightarrow> bool"
  assumes mutation: "I s \<Longrightarrow> mutate_state V s op = Inr s' \<Longrightarrow> I s'"
begin

lemma mutations:
  assumes "fold_results (apply_operation H V prior n) scan ops = Inr scan'" and "I (rs_next scan)"
  shows "I (rs_next scan')"
  by (rule fold_results_invariant [OF assms(1), where I = "\<lambda>scan. I (rs_next scan)"])
    (use assms(2) mutation in \<open>auto simp: apply_operation_Inr\<close>)

end

locale operation_invariant = mutation_invariant +
  assumes rewrite: "I s \<Longrightarrow> item_rewritten i s s' \<Longrightarrow> I s'"
begin

lemma item_rotation:
  assumes "apply_item_rotation prior scan i = Inr scan'" and "I (rs_next scan)"
  shows "I (rs_next scan')"
proof (rule apply_item_rotation_Inr [OF assms(1)])
  fix prior_item e mid
  assume "case bt_get (rs_reader_rotations scan) i of
       Some r \<Rightarrow> apply_reader_rotation (rs_next scan) i (ips_key_epoch prior_item) e
         (effective_reader_ids prior i) (effective_reader_ids (rs_next scan) i) r = Inr mid
     | None \<Rightarrow> mid = rs_next scan"
  then have "I mid"
    using assms(2) by (auto split: option.splits dest: apply_reader_rotation_rewrites intro: rewrite)
  moreover assume "case bt_get (rs_slot_rotations scan) i of
       Some r \<Rightarrow> apply_slot_rotation mid i e
         (effective_reader_ids prior i \<noteq> effective_reader_ids (rs_next scan) i) r =
           Inr (rs_next scan')
     | None \<Rightarrow> rs_next scan' = mid"
  ultimately show ?thesis
    by (auto split: option.splits dest: apply_slot_rotation_rewrites intro: rewrite)
qed

lemma rotations:
  assumes "apply_rotations prior scan = Inr s" and "I (rs_next scan)"
  shows "I s"
proof -
  obtain scan' items where
    run: "fold_results (apply_item_rotation prior) scan items = Inr scan'" and s: "s = rs_next scan'"
    using assms(1) by (auto simp: apply_rotations_def Let_def result_simps split: if_splits)
  have "I (rs_next scan')"
    by (rule fold_results_invariant [OF run, where I = "\<lambda>scan. I (rs_next scan)"])
      (use assms(2) item_rotation in auto)
  with s show ?thesis by simp
qed

lemma operations:
  assumes "apply_operations H V prior n ops = Inr s" and "I (prior\<lparr>st_sequence := n\<rparr>)"
  shows "I s"
proof -
  obtain scan where
    run: "fold_results (apply_operation H V prior n)
        \<lparr>rs_next = prior\<lparr>st_sequence := n\<rparr>, rs_reader_rotations = bt_empty,
         rs_slot_rotations = bt_empty, os_mutation_keys = bt_empty\<rparr> ops = Inr scan"
    and rotated: "apply_rotations prior (rotation_scan.truncate scan) = Inr s"
    using assms(1) by (auto simp: apply_operations_def result_simps split: if_splits)
  have "I (rs_next scan)"
    using mutations [OF run] assms(2) by simp
  then show ?thesis
    by (intro rotations [OF rotated]) (simp add: rotation_scan.defs)
qed

end

locale revision_invariant = operation_invariant +
  assumes advance: "I s \<Longrightarrow> I (s\<lparr>st_sequence := n\<rparr>)"
    and append: "I s \<Longrightarrow> I (append_revision h s)"
begin

lemma revision:
  assumes "replay_revision H V g (s, t) entry = Inr (s', t')" and "I s"
  shows "I s'"
  using assms
  by (auto simp: replay_revision_def Let_def result_simps intro: append advance operations
      split: if_splits prod.splits)

end

locale replay_invariant = revision_invariant +
  assumes genesis: "I (genesis_state g fingerprint catalog)"
begin

lemma replay: "replayed H V g c rs s t \<Longrightarrow> I s"
proof (induction rule: replayed.induct)
  case (start s)
  then show ?case
    by (auto simp: replay_genesis_def Let_def result_simps split: if_splits intro: genesis)
next
  case step
  then show ?case by (blast intro: revision)
qed

end

end
