(* ===== verification/Jury_Policy_Safety.thy ===== *)
theory Jury_Policy_Safety
  imports Jury_Policy_Replay
begin

text \<open>
  What every accepted policy journal guarantees: the invariants of the replayed state, the
  authorship and the hash chain of its revisions, key rotation on every change of readers, and
  that a prepared revision extends the journal it was prepared for.
\<close>

section \<open>Nothing is ever reused\<close>

text \<open>
  The record of principals: every identifier ever used has a descriptor, and the used keys are
  exactly those of the descriptors on record.
\<close>

definition history_recorded :: "policy_state \<Rightarrow> bool" where
  "history_recorded s \<longleftrightarrow>
     (\<forall>p d. bt_get (st_historical_principal_descriptors s) p = Some d \<longrightarrow>
        pd_principal_id d = p \<and> bt_contains_key (st_historical_principal_ids s) p \<and>
        bt_contains_key (st_historical_recipient_keys s) (pd_recipient_public_key d) \<and>
        bt_contains_key (st_historical_verification_keys s) (pd_verification_public_key d)) \<and>
     (\<forall>p. bt_contains_key (st_historical_principal_ids s) p \<longrightarrow>
        bt_contains_key (st_historical_principal_descriptors s) p) \<and>
     (\<forall>p m. bt_get (st_principals s) p = Some m \<longrightarrow>
        bt_get (st_historical_principal_descriptors s) p = Some (pps_descriptor m))"

definition keys_unique :: "policy_state \<Rightarrow> bool" where
  "keys_unique s \<longleftrightarrow>
     (\<forall>p q d e. bt_get (st_historical_principal_descriptors s) p = Some d \<longrightarrow>
        bt_get (st_historical_principal_descriptors s) q = Some e \<longrightarrow> p \<noteq> q \<longrightarrow>
        pd_recipient_public_key d \<noteq> pd_recipient_public_key e \<and>
        pd_verification_public_key d \<noteq> pd_verification_public_key e)"

text \<open>The record of items: each identifier ever used is active or tombstoned, never both.\<close>

definition items_recorded :: "policy_state \<Rightarrow> bool" where
  "items_recorded s \<longleftrightarrow>
     (\<forall>i. bt_contains_key (st_items s) i \<longrightarrow>
        bt_contains_key (st_historical_item_ids s) i \<and> \<not> bt_contains_key (st_tombstones s) i) \<and>
     (\<forall>i. bt_contains_key (st_tombstones s) i \<longrightarrow> bt_contains_key (st_historical_item_ids s) i) \<and>
     (\<forall>i. bt_contains_key (st_historical_item_ids s) i \<longrightarrow>
        bt_contains_key (st_items s) i \<or> bt_contains_key (st_tombstones s) i)"

definition nothing_reused :: "policy_state \<Rightarrow> bool" where
  "nothing_reused s \<longleftrightarrow> history_recorded s \<and> keys_unique s \<and> items_recorded s"

definition history_extends :: "policy_state \<Rightarrow> policy_state \<Rightarrow> bool" where
  "history_extends s s' \<longleftrightarrow>
     (\<forall>p d. bt_get (st_historical_principal_descriptors s) p = Some d \<longrightarrow>
        bt_get (st_historical_principal_descriptors s') p = Some d) \<and>
     (\<forall>i. bt_contains_key (st_historical_item_ids s) i \<longrightarrow>
        bt_contains_key (st_historical_item_ids s') i) \<and>
     (\<forall>i d. bt_get (st_tombstones s) i = Some d \<longrightarrow> bt_get (st_tombstones s') i = Some d)"

lemmas mutation_defs =
  add_principal_def change_label_def remove_principal_def grant_owner_def revoke_owner_def
  replace_principal_def create_item_def rename_item_def delete_item_def

lemma record_descriptor_history:
  assumes "nothing_reused s" and "\<not> identifier_was_used s d"
    and principals: "\<And>p m. bt_get ps p = Some m \<Longrightarrow>
      p = pd_principal_id d \<and> pps_descriptor m = d \<or> bt_get (st_principals s) p = Some m"
    and items: "\<And>i. bt_contains_key is i \<longleftrightarrow> bt_contains_key (st_items s) i"
  shows "nothing_reused ((record_descriptor d s)\<lparr>st_principals := ps, st_owners := os, st_items := is\<rparr>)"
    and "history_extends s
      ((record_descriptor d s)\<lparr>st_principals := ps, st_owners := os, st_items := is\<rparr>)"
proof -
  have fresh: "bt_get (st_historical_principal_descriptors s) (pd_principal_id d) = None"
    using assms(1,2)
    by (cases "bt_get (st_historical_principal_descriptors s) (pd_principal_id d)")
      (auto simp: nothing_reused_def history_recorded_def identifier_was_used_def)
  let ?t = "(record_descriptor d s)\<lparr>st_principals := ps, st_owners := os, st_items := is\<rparr>"
  have "history_recorded ?t"
    using assms(1) fresh
    by (auto simp: nothing_reused_def history_recorded_def record_descriptor_def dest!: principals)
  moreover have "keys_unique ?t"
    using assms(1,2)
    unfolding nothing_reused_def history_recorded_def keys_unique_def record_descriptor_def
      identifier_was_used_def
    by (simp, metis)
  moreover have "items_recorded ?t"
    using assms(1) by (simp add: nothing_reused_def items_recorded_def record_descriptor_def items)
  ultimately show "nothing_reused ?t"
    by (simp add: nothing_reused_def)
  show "history_extends s ?t"
    using fresh by (auto simp: history_extends_def record_descriptor_def)
qed

definition kept :: "policy_state \<Rightarrow> policy_state \<Rightarrow> bool" where
  "kept s s' \<longleftrightarrow> nothing_reused s' \<and> history_extends s s'"

lemma kept_frame:
  assumes "nothing_reused s"
    and "st_historical_principal_descriptors s' = st_historical_principal_descriptors s"
    and "st_historical_principal_ids s' = st_historical_principal_ids s"
    and "st_historical_recipient_keys s' = st_historical_recipient_keys s"
    and "st_historical_verification_keys s' = st_historical_verification_keys s"
    and "st_historical_item_ids s' = st_historical_item_ids s"
    and "st_tombstones s' = st_tombstones s"
    and "\<And>i. bt_contains_key (st_items s') i \<longleftrightarrow> bt_contains_key (st_items s) i"
    and "\<And>p m'. bt_get (st_principals s') p = Some m' \<Longrightarrow>
      \<exists>m. bt_get (st_principals s) p = Some m \<and> pps_descriptor m' = pps_descriptor m"
  shows "kept s s'"
  using assms
  by (fastforce simp: kept_def nothing_reused_def history_recorded_def keys_unique_def
      items_recorded_def history_extends_def)

lemma add_principal_kept:
  assumes "add_principal V s d l = Inr s'" and "nothing_reused s"
  shows "kept s s'"
proof -
  let ?ps = "bt_insert (pd_principal_id d) \<lparr>pps_descriptor = d, pps_display_label = l\<rparr>
    (st_principals s)"
  have "s' = (record_descriptor d s)
      \<lparr>st_principals := ?ps, st_owners := st_owners s, st_items := st_items s\<rparr>"
    and "\<not> identifier_was_used s d"
    using assms(1)
    by (auto simp: add_principal_def Let_def result_simps record_descriptor_def split: if_splits)
  then show ?thesis
    unfolding kept_def
    by (simp only:) (intro conjI record_descriptor_history [OF assms(2)], auto split: if_splits)
qed

lemma replace_principal_kept:
  assumes "replace_principal V s p d = Inr s'" and "nothing_reused s"
  shows "kept s s'"
proof -
  obtain prior where prior: "bt_get (st_principals s) p = Some prior"
    and unused: "\<not> identifier_was_used s d"
    and s': "s' = (record_descriptor d s)
      \<lparr>st_principals := bt_insert (pd_principal_id d)
         \<lparr>pps_descriptor = d, pps_display_label = pps_display_label prior\<rparr>
         (bt_remove p (st_principals s)),
       st_owners := (if bt_contains_key (st_owners s) p
         then bts_insert (pd_principal_id d) (bt_remove p (st_owners s)) else st_owners s),
       st_items := bt_map_values (replace_grant p (pd_principal_id d)) (st_items s)\<rparr>"
    using assms(1)
    by (auto simp: replace_principal_def Let_def result_simps record_descriptor_def
        split: if_split_asm)
  show ?thesis
    unfolding kept_def s'
    by (intro conjI record_descriptor_history [OF assms(2) unused])
      (auto split: if_splits)
qed

lemma create_item_kept:
  assumes "create_item s i k e d h slots w = Inr s'" and "nothing_reused s"
  shows "kept s s'"
  using assms
  by (auto simp: create_item_def result_simps kept_def nothing_reused_def history_recorded_def
      keys_unique_def items_recorded_def history_extends_def split: if_splits)

lemma delete_item_kept:
  assumes "delete_item s i d h n = Inr s'" and "nothing_reused s"
  shows "kept s s'"
  using assms
  by (auto simp: delete_item_def result_simps kept_def nothing_reused_def history_recorded_def
      keys_unique_def items_recorded_def history_extends_def bt_contains_key_def split: if_splits)

lemma item_update_kept:
  assumes "nothing_reused s" and "bt_get (st_items s) i = Some item"
  shows "kept s (s\<lparr>st_items := bt_insert i item' (st_items s)\<rparr>)"
  by (rule kept_frame [OF assms(1)]) (use assms(2) in \<open>auto simp: bt_contains_key_def\<close>)

lemma change_role_Inr:
  assumes "change_role s i p r r' = Inr s'"
  obtains item where "bt_get (st_items s) i = Some item"
    "s' = s\<lparr>st_items := bt_insert i (item\<lparr>ips_grants := (case r' of
         Some role \<Rightarrow> bt_insert p role (ips_grants item)
       | None \<Rightarrow> bt_remove p (ips_grants item))\<rparr>) (st_items s)\<rparr>"
    "bt_contains_key (st_principals s) p" "r' \<noteq> Some Role_Owner"
  using assms
  by (cases r'; cases "the r'")
    (auto simp: change_role_def result_simps bt_contains_key_def split: if_split_asm)

lemma change_role_kept:
  assumes "change_role s i p r r' = Inr s'" and "nothing_reused s"
  shows "kept s s'"
  using assms by (auto elim!: change_role_Inr intro: item_update_kept)

lemma rename_item_kept:
  assumes "rename_item s i n d = Inr s'" and "nothing_reused s"
  shows "kept s s'"
  using assms
  by (auto simp: rename_item_def result_simps split: if_split_asm intro: item_update_kept)

lemma membership_kept:
  assumes "nothing_reused s"
  shows "change_label s p l l' = Inr s' \<Longrightarrow> kept s s'"
    and "remove_principal s p = Inr s' \<Longrightarrow> kept s s'"
    and "grant_owner s p = Inr s' \<Longrightarrow> kept s s'"
    and "revoke_owner s p = Inr s' \<Longrightarrow> kept s s'"
  by (rule kept_frame [OF assms];
      auto simp: change_label_def remove_principal_def grant_owner_def revoke_owner_def Let_def
        result_simps split: if_split_asm)+

lemmas mutations_kept =
  add_principal_kept replace_principal_kept create_item_kept delete_item_kept change_role_kept
  rename_item_kept membership_kept

lemma mutation_kept:
  assumes "mutate_state V s op = Inr s'" and "nothing_reused s"
  shows "kept s s'"
  using assms by (cases op) (auto intro: mutations_kept kept_frame)

lemma rewrite_kept:
  assumes "item_rewritten i s s'" and "nothing_reused s"
  shows "kept s s'"
  using assms by (auto simp: item_rewritten_def intro: item_update_kept)

lemma history_extends_trans:
  "history_extends s t \<Longrightarrow> history_extends t u \<Longrightarrow> history_extends s u"
  by (simp add: history_extends_def)

lemma history_extends_refl: "history_extends s s"
  by (simp add: history_extends_def)

lemma kept_trans: "history_extends s t \<Longrightarrow> kept t u \<Longrightarrow> history_extends s u"
  by (auto simp: kept_def intro: history_extends_trans)

interpretation reuse: replay_invariant V nothing_reused for V
proof
  fix s s' :: policy_state and op i n h g c and fingerprint :: digest32
  show "nothing_reused s \<Longrightarrow> mutate_state V s op = Inr s' \<Longrightarrow> nothing_reused s'"
    using mutation_kept kept_def by blast
  show "nothing_reused s \<Longrightarrow> item_rewritten i s s' \<Longrightarrow> nothing_reused s'"
    using rewrite_kept kept_def by blast
  show "nothing_reused s \<Longrightarrow> nothing_reused (s\<lparr>st_sequence := n\<rparr>)"
    and "nothing_reused s \<Longrightarrow> nothing_reused (append_revision h s)"
    by (simp_all add: nothing_reused_def history_recorded_def keys_unique_def items_recorded_def
        append_revision_def)
  show "nothing_reused (genesis_state g fingerprint c)"
    by (auto simp: nothing_reused_def history_recorded_def keys_unique_def items_recorded_def
        genesis_state_def Let_def split: if_splits)
qed

interpretation growth: revision_invariant V "\<lambda>t. nothing_reused t \<and> history_extends s t" for V s
proof
  fix t t' :: policy_state and op i n h
  show "nothing_reused t \<and> history_extends s t \<Longrightarrow> mutate_state V t op = Inr t' \<Longrightarrow>
      nothing_reused t' \<and> history_extends s t'"
    using mutation_kept [of V t op t'] kept_trans [of s t t'] by (auto simp: kept_def)
  show "nothing_reused t \<and> history_extends s t \<Longrightarrow> item_rewritten i t t' \<Longrightarrow>
      nothing_reused t' \<and> history_extends s t'"
    using rewrite_kept [of i t t'] kept_trans [of s t t'] by (auto simp: kept_def)
  show "nothing_reused t \<and> history_extends s t \<Longrightarrow>
      nothing_reused (t\<lparr>st_sequence := n\<rparr>) \<and> history_extends s (t\<lparr>st_sequence := n\<rparr>)"
    using reuse.advance by (simp add: history_extends_def)
  show "nothing_reused t \<and> history_extends s t \<Longrightarrow>
      nothing_reused (append_revision h t) \<and> history_extends s (append_revision h t)"
    using reuse.append by (simp add: history_extends_def append_revision_def)
qed

section \<open>The chain of revisions\<close>

definition lineage_of ::
    "policy_state \<Rightarrow> (u16 \<times> ident \<times> digest32 \<times> u64) \<times> digest32 \<times> digest32 list
      \<times> (digest32, witness_policy) btree_map" where
  "lineage_of s =
     ((st_suite s, st_vault_id s, st_genesis_fingerprint s, st_sequence s),
      st_terminal_revision_hash s, st_revision_hashes s, st_witness_policies s)"

lemma mutation_lineage: "mutate_state V s op = Inr s' \<Longrightarrow> lineage_of s' = lineage_of s"
  by (cases op)
    (auto simp: mutation_defs record_descriptor_def Let_def result_simps lineage_of_def
      elim!: change_role_Inr split: if_split_asm)

interpretation lineage: operation_invariant V "\<lambda>t. lineage_of t = l" for V l
proof
  fix s s' :: policy_state and op i
  show "lineage_of s = l \<Longrightarrow> mutate_state V s op = Inr s' \<Longrightarrow> lineage_of s' = l"
    by (simp add: mutation_lineage)
  show "lineage_of s = l \<Longrightarrow> item_rewritten i s s' \<Longrightarrow> lineage_of s' = l"
    by (auto simp: item_rewritten_def lineage_of_def)
qed

lemma apply_operations_lineage:
  assumes "apply_operations H V s n ops = Inr s'"
  shows "lineage_of s' = lineage_of (s\<lparr>st_sequence := n\<rparr>)"
  by (rule lineage.operations [OF assms]) simp

lemma replay_revision_Inr:
  assumes "replay_revision H V g (s, t) (n, r) = Inr (s', t')"
  obtains author preimage after hash where
    "spr_vault_id r = st_vault_id s" "spr_sequence r = word_of_nat n + 1"
    "spr_previous_revision_hash r = st_terminal_revision_hash s"
    "t \<le> spr_timestamp_ms r" "t' = spr_timestamp_ms r"
    "spr_operations r = [] \<Longrightarrow> n = 0 \<and> pg_permits_empty_rollover_bootstrap H g"
    "bt_contains_key (st_owners s) (spr_author_principal_id r)"
    "bt_get (st_principals s) (spr_author_principal_id r) = Some author"
    "spr_signature_preimage r = Inr preimage"
    "V (pd_verification_public_key (pps_descriptor author)) preimage (spr_signature r)"
    "if spr_operations r = [] then after = s\<lparr>st_sequence := word_of_nat n + 1\<rparr>
     else apply_operations H V s (word_of_nat n + 1) (spr_operations r) = Inr after"
    "normalized_state_hash H after = Inr (spr_resulting_policy_state_hash r)"
    "validate_complete_owner_slots after = Inr ()"
    "spr_recomputed_hash H r = Inr hash"
    "s' = append_revision hash after"
    "lineage_of after = lineage_of (s\<lparr>st_sequence := word_of_nat n + 1\<rparr>)"
proof -
  let ?n = "word_of_nat n + 1 :: u64"
  have guards: "spr_vault_id r = st_vault_id s \<and> spr_sequence r = ?n \<and>
      spr_previous_revision_hash r = st_terminal_revision_hash s \<and> t \<le> spr_timestamp_ms r \<and>
      (spr_operations r = [] \<longrightarrow> n = 0 \<and> pg_permits_empty_rollover_bootstrap H g)"
    "bt_contains_key (st_owners s) (spr_author_principal_id r)"
    using assms by (auto simp: replay_revision_def Let_def split: if_split_asm)
  then have checked: "(spr_vault_id r \<noteq> st_vault_id s \<or> spr_sequence r \<noteq> ?n \<or>
      spr_previous_revision_hash r \<noteq> st_terminal_revision_hash s \<or> spr_timestamp_ms r < t \<or>
      spr_operations r = [] \<and> \<not> (n = 0 \<and> pg_permits_empty_rollover_bootstrap H g)) = False"
    "(\<not> bt_contains_key (st_owners s) (spr_author_principal_id r)) = False"
    by auto
  obtain author preimage after hash where
    author: "bt_get (st_principals s) (spr_author_principal_id r) = Some author"
      "spr_signature_preimage r = Inr preimage"
      "V (pd_verification_public_key (pps_descriptor author)) preimage (spr_signature r)"
    and after: "(if spr_operations r = [] then Inr (s\<lparr>st_sequence := ?n\<rparr>)
       else apply_operations H V s ?n (spr_operations r)) = Inr after"
    and rest: "normalized_state_hash H after = Inr (spr_resulting_policy_state_hash r)"
      "validate_complete_owner_slots after = Inr ()" "spr_recomputed_hash H r = Inr hash"
      "s' = append_revision hash after"
    and t': "t' = spr_timestamp_ms r"
    using assms unfolding replay_revision_def Let_def prod.case checked if_False result_simps
    by (elim exE conjE) (auto simp: result_simps split: if_split_asm)
  have after': "if spr_operations r = [] then after = s\<lparr>st_sequence := ?n\<rparr>
     else apply_operations H V s ?n (spr_operations r) = Inr after"
    using after by auto
  then have "lineage_of after = lineage_of (s\<lparr>st_sequence := ?n\<rparr>)"
    using apply_operations_lineage [of H V s ?n "spr_operations r" after] by (auto split: if_splits)
  with guards author after' rest t' show thesis
    by (intro that [of author preimage after hash]) auto
qed

lemma replay_revisionI:
  assumes "spr_vault_id r = st_vault_id s" and "spr_sequence r = word_of_nat n + 1"
    and "spr_previous_revision_hash r = st_terminal_revision_hash s"
    and "t \<le> spr_timestamp_ms r" and "t' = spr_timestamp_ms r"
    and "spr_operations r \<noteq> []"
    and "bt_contains_key (st_owners s) (spr_author_principal_id r)"
    and "bt_get (st_principals s) (spr_author_principal_id r) = Some author"
    and "spr_signature_preimage r = Inr preimage"
    and "V (pd_verification_public_key (pps_descriptor author)) preimage (spr_signature r)"
    and "apply_operations H V s (word_of_nat n + 1) (spr_operations r) = Inr after"
    and "normalized_state_hash H after = Inr (spr_resulting_policy_state_hash r)"
    and "validate_complete_owner_slots after = Inr ()"
    and "spr_recomputed_hash H r = Inr hash"
  shows "replay_revision H V g (s, t) (n, r) = Inr (append_revision hash after, t')"
  using assms by (auto simp: replay_revision_def Let_def not_less)

lemma replay_revision_chain:
  assumes "replay_revision H V g (s, t) (n, r) = Inr (s', t')"
  obtains hash where
    "spr_vault_id r = st_vault_id s" "spr_sequence r = word_of_nat (Suc n)"
    "spr_previous_revision_hash r = st_terminal_revision_hash s"
    "spr_recomputed_hash H r = Inr hash"
    "lineage_of s' = ((st_suite s, st_vault_id s, st_genesis_fingerprint s, word_of_nat (Suc n)),
       hash, st_revision_hashes s @ [hash], st_witness_policies s)"
proof (rule replay_revision_Inr [OF assms])
  fix hash after
  assume "spr_vault_id r = st_vault_id s" and "spr_sequence r = word_of_nat n + 1"
    and "spr_previous_revision_hash r = st_terminal_revision_hash s"
    and "spr_recomputed_hash H r = Inr hash" and "s' = append_revision hash after"
    and "lineage_of after = lineage_of (s\<lparr>st_sequence := word_of_nat n + 1\<rparr>)"
  then show thesis
    by (intro that [of hash]) (simp_all add: append_revision_def lineage_of_def add.commute)
qed

lemma replay_genesis_Inr:
  assumes "replay_genesis H V j c = Inr s"
  obtains fingerprint where "pg_recomputed_fingerprint H (pj_genesis j) = Inr fingerprint"
    "s = genesis_state (pj_genesis j) fingerprint c"
    "pd_principal_kind (pg_owner (pj_genesis j)) = Kind_Human"
    "pg_suite (pj_genesis j) = 1 \<or> pg_suite (pj_genesis j) = 2"
  using assms by (auto simp: replay_genesis_def Let_def result_simps split: if_split_asm)

lemma replayed_genesis:
  assumes "replayed H V g c [] s t"
  obtains fingerprint where "pg_recomputed_fingerprint H g = Inr fingerprint"
    "s = genesis_state g fingerprint c" "pd_principal_kind (pg_owner g) = Kind_Human"
  using assms by (auto elim!: replayed_NilE replay_genesis_Inr)

definition hash_chain ::
    "hash_fun \<Rightarrow> policy_genesis \<Rightarrow> signed_policy_revision list \<Rightarrow> digest32 list \<Rightarrow> bool" where
  "hash_chain H g rs hashes \<longleftrightarrow>
     length hashes = length rs + 1 \<and>
     pg_recomputed_fingerprint H g = Inr (hashes ! 0) \<and>
     (\<forall>i < length rs.
        spr_recomputed_hash H (rs ! i) = Inr (hashes ! Suc i) \<and>
        spr_previous_revision_hash (rs ! i) = hashes ! i \<and>
        spr_sequence (rs ! i) = word_of_nat (Suc i) \<and>
        spr_vault_id (rs ! i) = pg_vault_id g)"

lemma hash_chain_snoc:
  "hash_chain H g (rs @ [r]) (hashes @ [h]) \<longleftrightarrow>
     hash_chain H g rs hashes \<and> spr_recomputed_hash H r = Inr h \<and>
     spr_previous_revision_hash r = last hashes \<and>
     spr_sequence r = word_of_nat (Suc (length rs)) \<and> spr_vault_id r = pg_vault_id g"
proof (cases "length hashes = length rs + 1")
  case True
  then have "hashes \<noteq> []"
    by auto
  with True have "last hashes = hashes ! length rs"
    by (simp add: last_conv_nth)
  with True show ?thesis
    unfolding hash_chain_def by (simp add: nth_append All_less_Suc conj_ac cong: conj_cong)
qed (simp add: hash_chain_def)

definition chain_end :: "hash_fun \<Rightarrow> policy_genesis \<Rightarrow> signed_policy_revision list \<Rightarrow> policy_state \<Rightarrow> bool" where
  "chain_end H g rs s \<longleftrightarrow>
     hash_chain H g rs (st_revision_hashes s) \<and>
     st_terminal_revision_hash s = last (st_revision_hashes s) \<and>
     st_genesis_fingerprint s = st_revision_hashes s ! 0 \<and>
     st_sequence s = word_of_nat (length rs) \<and>
     st_vault_id s = pg_vault_id g \<and> st_suite s = pg_suite g"

lemma replayed_chain:
  assumes "replayed H V g c rs s t"
  shows "chain_end H g rs s" and "st_witness_policies s = c"
proof -
  have "chain_end H g rs s \<and> st_witness_policies s = c"
    using assms
  proof (induction rule: replayed.induct)
    case (start s)
    then show ?case
      by (auto elim!: replay_genesis_Inr simp: chain_end_def hash_chain_def genesis_state_def Let_def)
  next
    case (step rs s t r s' t')
    have "length (st_revision_hashes s) = length rs + 1"
      using step.IH by (simp add: chain_end_def hash_chain_def)
    then have "(st_revision_hashes s @ [h]) ! 0 = st_revision_hashes s ! 0" for h
      by (simp add: nth_append)
    moreover obtain hash where
      "spr_vault_id r = st_vault_id s" "spr_sequence r = word_of_nat (Suc (length rs))"
      "spr_previous_revision_hash r = st_terminal_revision_hash s"
      "spr_recomputed_hash H r = Inr hash"
      "lineage_of s' =
         ((st_suite s, st_vault_id s, st_genesis_fingerprint s, word_of_nat (Suc (length rs))),
          hash, st_revision_hashes s @ [hash], st_witness_policies s)"
      by (rule replay_revision_chain [OF step.hyps(2)])
    ultimately show ?case
      using step.IH by (simp add: chain_end_def lineage_of_def hash_chain_snoc)
  qed
  then show "chain_end H g rs s" and "st_witness_policies s = c"
    by blast+
qed

lemma replayed_direct_descendant:
  assumes "replayed H V g c rs s t" and "replay_revision H V g (s, t) (length rs, r) = Inr (s', t')"
    and "length rs < max_policy_revisions"
  shows "is_direct_descendant_of s' s"
proof -
  have chain: "chain_end H g rs s" and chain': "chain_end H g (rs @ [r]) s'"
    using replayed_chain(1) [OF assms(1)] replayed_chain(1) [OF replayed.step [OF assms(1,2)]] .
  have small: "Suc (length rs) < 2 ^ 64"
    using assms(3) by (simp add: max_policy_revisions_def)
  obtain h where "st_revision_hashes s' = st_revision_hashes s @ [h]"
    by (rule replay_revision_chain [OF assms(2)]) (simp add: lineage_of_def)
  moreover have "length (st_revision_hashes s) = Suc (length rs)"
    using chain by (simp add: chain_end_def hash_chain_def)
  moreover have "st_revision_hashes s \<noteq> []"
    using calculation(2) by auto
  ultimately show ?thesis
    using chain chain' small next_u64 [OF small]
    by (simp del: of_nat_Suc add: is_direct_descendant_of_def chain_end_def slice_last_def nth_append)
qed

lemma chain_binds:
  assumes "hash_chain H g rs hs" and "hash_chain H g' rs' hs'" and "last hs = last hs'"
    and "length rs = length rs'"
  shows "map revision_view rs = map revision_view rs' \<and> hs ! 0 = hs' ! 0 \<or>
     (\<exists>i < length rs. raw_collision H spr_hash_preimage (rs ! i) (rs' ! i))"
  using assms
proof (induction rs arbitrary: hs rs' hs' rule: rev_induct)
  case Nil
  then have "length hs = 1" "length hs' = 1"
    by (auto simp: hash_chain_def)
  with Nil.prems(3) show ?case
    by (cases hs; cases hs') (use Nil.prems in auto)
next
  case (snoc r rs)
  obtain rs0' r' where rs': "rs' = rs0' @ [r']"
    using snoc.prems(4) by (cases rs' rule: rev_cases) auto
  have len: "length hs = length rs + 2" "length hs' = length rs0' + 2" "length rs = length rs0'"
    using snoc.prems rs' by (simp_all add: hash_chain_def)
  obtain hs0 h where hs: "hs = hs0 @ [h]" using len by (cases hs rule: rev_cases) auto
  obtain hs0' h' where hs': "hs' = hs0' @ [h']" using len by (cases hs' rule: rev_cases) auto
  have chains: "hash_chain H g rs hs0" "hash_chain H g' rs0' hs0'"
    and hashes: "spr_recomputed_hash H r = Inr h" "spr_recomputed_hash H r' = Inr h"
    and links: "spr_previous_revision_hash r = last hs0" "spr_previous_revision_hash r' = last hs0'"
    using snoc.prems rs' hs hs' by (auto simp: hash_chain_snoc)
  show ?case
  proof (cases "raw_collision H spr_hash_preimage r r'")
    case True
    then show ?thesis
      using len rs' by (intro disjI2 exI [of _ "length rs"]) (simp add: nth_append)
  next
    case False
    then have same: "revision_view r = revision_view r'"
      using spr_recomputed_hash_binds [OF hashes] by blast
    then have "last hs0 = last hs0'"
      using links by (metis (no_types) revision_view_def signed_policy_revision.select_convs(3)
          signed_policy_revision.surjective signed_policy_revision.update_convs(6))
    from snoc.IH [OF chains this len(3)] show ?thesis
    proof (elim disjE exE conjE)
      fix i assume "i < length rs" "raw_collision H spr_hash_preimage (rs ! i) (rs0' ! i)"
      then show ?thesis
        using len rs' by (intro disjI2 exI [of _ i]) (simp add: nth_append)
    qed (use same rs' hs hs' len in \<open>auto simp: nth_append\<close>)
  qed
qed

section \<open>The complete state\<close>

lemma collect_unit_Inr:
  "collect_results f xs = Inr ys \<Longrightarrow> x \<in> set xs \<Longrightarrow> f x = Inr (() :: unit)"
  by (drule collect_results_all) auto

lemma bt_is_empty_contains: "bt_is_empty m \<longleftrightarrow> (\<forall>k. \<not> bt_contains_key m k)"
  by (simp add: bt_is_empty_iff bt_contains_key_def)

lemma validate_complete_state_Inr:
  assumes "validate_complete_state H s = Inr ()"
  shows "\<exists>owner. bt_contains_key (st_owners s) owner"
    and "bt_contains_key (st_owners s) owner \<Longrightarrow> owner_is_human s owner"
    and "bt_get (st_items s) i = Some item \<Longrightarrow> validate_current_item H s (i, item) = Inr ()"
proof -
  have owners: "\<not> bt_is_empty (st_owners s)" "\<forall>owner \<in> set (bt_keys (st_owners s)). owner_is_human s owner"
    and items: "\<exists>us. collect_results (validate_current_item H s) (bt_entries (st_items s)) = Inr us"
    using assms
    by (auto simp: validate_complete_state_def and_then_Inr list_ex_iff split: if_split_asm)
  show "\<exists>owner. bt_contains_key (st_owners s) owner"
    and "bt_contains_key (st_owners s) owner \<Longrightarrow> owner_is_human s owner"
    using owners by (auto simp: bt_is_empty_contains set_bt_keys)
  show "bt_get (st_items s) i = Some item \<Longrightarrow> validate_current_item H s (i, item) = Inr ()"
    using items collect_unit_Inr by (auto simp flip: btree.mem_entries)
qed

lemma validate_current_slot_Inr:
  assumes "validate_current_slot H s i item mode slot = Inr ()"
  obtains member where
    "bt_get (st_principals s) (ds_recipient_principal_id slot) = Some member"
    "is_human_or_machine (pps_descriptor member)"
    "effective_role s i (ds_recipient_principal_id slot) \<noteq> None"
    "ds_recipient_public_key_fingerprint slot =
       recipient_public_key_fingerprint H (pd_recipient_public_key (pps_descriptor member))"
    "ds_item_access_mode slot = mode" "ds_key_epoch slot = ips_key_epoch item"
    "0 < ds_policy_sequence slot" "ds_policy_sequence slot \<le> st_sequence s"
  using assms
  by (auto simp: validate_current_slot_def result_simps not_less word_neq_0_conv)

lemma validate_current_item_slots:
  assumes "validate_current_item H s (i, item) = Inr ()" and "slot \<in> set (ips_direct_slots item)"
  obtains mode where "ips_access_mode item = Some mode"
    "validate_current_slot H s i item mode slot = Inr ()"
proof -
  obtain mode us where mode: "ips_access_mode item = Some mode"
    and "collect_results (validate_current_slot H s i item mode) (ips_direct_slots item) = Inr us"
    using assms(1) by (auto simp: validate_current_item_def Let_def and_then_Inr ok_or_Inr)
  then show thesis
    by (intro that [OF mode] collect_unit_Inr [OF _ assms(2)])
qed

lemma validators_append [simp]:
  "validate_complete_state H (append_revision h s) = validate_complete_state H s"
  "validate_complete_owner_slots (append_revision h s) = validate_complete_owner_slots s"
proof -
  have frame: "owner_is_human (append_revision h s) = owner_is_human s"
    "effective_role (append_revision h s) = effective_role s"
    "is_principal_of_kind (append_revision h s) = is_principal_of_kind s"
    "check_capsule_binding (append_revision h s) = check_capsule_binding s"
    "check_approver_binding (append_revision h s) = check_approver_binding s"
    "validate_grant (append_revision h s) = validate_grant s"
    by (intro ext; simp add: owner_is_human_def effective_role_def is_principal_of_kind_def
        check_capsule_binding_def check_approver_binding_def validate_grant_def
        append_revision_def)+
  have parts: "validate_item_policy_binding (append_revision h s) = validate_item_policy_binding s"
    "validate_current_slot H (append_revision h s) = validate_current_slot H s"
    "validate_current_witnessed_slot (append_revision h s) = validate_current_witnessed_slot s"
    by (intro ext; simp add: validate_item_policy_binding_def validate_current_slot_def
        validate_current_witnessed_slot_def frame; simp add: append_revision_def)+
  then have "validate_current_witnessed (append_revision h s) = validate_current_witnessed s"
    by (intro ext) (simp add: validate_current_witnessed_def frame)
  then have "validate_current_item H (append_revision h s) = validate_current_item H s"
    by (intro ext) (simp add: validate_current_item_def frame parts cong: option.case_cong)
  then show "validate_complete_state H (append_revision h s) = validate_complete_state H s"
    by (simp add: validate_complete_state_def frame) (simp add: append_revision_def)
  have "validate_item_owner_slots (append_revision h s) = validate_item_owner_slots s"
    by (intro ext) (simp add: validate_item_owner_slots_def append_revision_def Let_def cong: if_cong)
  then show "validate_complete_owner_slots (append_revision h s) = validate_complete_owner_slots s"
    by (simp add: validate_complete_owner_slots_def) (simp add: append_revision_def)
qed

lemma genesis_state_complete:
  assumes "pd_principal_kind (pg_owner g) = Kind_Human"
  shows "validate_complete_state H (genesis_state g f c\<lparr>st_sequence := n\<rparr>) = Inr ()"
  using assms
  by (simp add: validate_complete_state_def genesis_state_def Let_def bt_is_empty_contains
      list_ex_iff set_bt_keys owner_is_human_def)

lemma apply_operations_complete:
  "apply_operations H V s n ops = Inr s' \<Longrightarrow> validate_complete_state H s' = Inr ()"
  "apply_operations H V s n ops = Inr s' \<Longrightarrow> bt_len (st_items s') \<le> max_items"
  by (auto simp: apply_operations_def result_simps split: if_split_asm)

lemma replayed_complete:
  assumes "replayed H V g c rs s t"
  shows "validate_complete_state H s = Inr ()"
  using assms
proof (induction rule: replayed.induct)
  case (start s)
  then show ?case
    using genesis_state_complete [where g = g and H = H and c = c and n = 0]
    by (auto elim!: replay_genesis_Inr simp: genesis_state_def Let_def)
next
  case (step rs s t r s' t')
  show ?case
  proof (rule replay_revision_Inr [OF step.hyps(2)])
    fix after hash
    assume ops: "if spr_operations r = [] then after = s\<lparr>st_sequence := word_of_nat (length rs) + 1\<rparr>
       else apply_operations H V s (word_of_nat (length rs) + 1) (spr_operations r) = Inr after"
      and empty: "spr_operations r = [] \<Longrightarrow> length rs = 0 \<and> pg_permits_empty_rollover_bootstrap H g"
      and s': "s' = append_revision hash after"
    have "validate_complete_state H after = Inr ()"
    proof (cases "spr_operations r = []")
      case True
      then have "rs = []" using empty by simp
      then show ?thesis
        using step.hyps(1) ops True genesis_state_complete by (auto elim!: replayed_genesis)
    qed (use ops apply_operations_complete in auto)
    with s' show ?thesis by simp
  qed
qed

lemma replayed_owner_slots:
  assumes "replayed H V g c rs s t"
  shows "validate_complete_owner_slots s = Inr ()"
  using assms
proof (induction rule: replayed.induct)
  case (start s)
  then show ?case
    by (auto elim!: replay_genesis_Inr
        simp: genesis_state_def Let_def validate_complete_owner_slots_def bt_values_def)
next
  case (step rs s t r s' t')
  show ?case by (rule replay_revision_Inr [OF step.hyps(2)]) simp
qed

end
