(* ===== verification/Jury_Policy_Rotation.thy ===== *)
theory Jury_Policy_Rotation
  imports Jury_Policy_Safety
begin

text \<open>
  Key rotation in the policy journal: the epochs of the items a revision keeps, the slots an
  owner holds, and the revisions \<open>prepare_revision\<close> produces.
\<close>

section \<open>Owner slots\<close>

lemma saturating_count:
  "saturating_add (word_of_nat (min 255 n) :: u8) 1 = word_of_nat (min 255 (Suc n))"
proof (cases "n < 255")
  case True
  then have "unat (word_of_nat n :: u8) = n"
    unfolding unat_of_nat by simp
  with True show ?thesis
    by (simp add: saturating_add_def add.commute)
next
  case False
  then show ?thesis by (simp add: saturating_add_def min_def)
qed

definition recipient_slots :: "ident \<Rightarrow> direct_slot list \<Rightarrow> direct_slot list" where
  "recipient_slots p slots = filter (\<lambda>slot. ds_recipient_principal_id slot = p) slots"

lemma coverage_get:
  "bt_get (fold cover_slot slots bt_empty) p =
     (if recipient_slots p slots = [] then None
      else Some (word_of_nat (min 255 (length (recipient_slots p slots))),
        \<exists>slot \<in> set (recipient_slots p slots). ds_content_role slot = Content_Descriptor,
        \<exists>slot \<in> set (recipient_slots p slots). ds_content_role slot = Content_Body))"
proof (induction slots rule: rev_induct)
  case Nil
  then show ?case by (simp add: recipient_slots_def)
next
  case (snoc slot slots)
  have one: "saturating_add (0 :: u8) 1 = 1"
    by (simp add: saturating_add_def)
  show ?case
  proof (cases "ds_recipient_principal_id slot = p")
    case True
    then have own: "recipient_slots p (slots @ [slot]) = recipient_slots p slots @ [slot]"
      by (simp add: recipient_slots_def)
    show ?thesis
      using snoc True one saturating_count [of "length (recipient_slots p slots)"]
      by (auto simp: cover_slot_def own Let_def)
  next
    case False
    then show ?thesis
      using snoc by (simp add: cover_slot_def recipient_slots_def Let_def split: prod.splits)
  qed
qed

lemma two_slots:
  assumes "length xs = 2" and "\<exists>x \<in> set xs. f x = Content_Descriptor" and "\<exists>x \<in> set xs. f x = Content_Body"
  shows "length (filter (\<lambda>x. f x = role) xs) = 1"
proof -
  obtain a b where "xs = [a, b]"
    using assms(1) by (auto simp: length_Suc_conv numeral_2_eq_2)
  then show ?thesis
    using assms(2,3) by (cases role) auto
qed

lemma coverage_complete:
  assumes "bt_get (fold cover_slot slots bt_empty) p = Some (2, True, True)"
  shows "length (filter (\<lambda>slot. ds_content_role slot = role) (recipient_slots p slots)) = 1"
proof -
  have "(word_of_nat (min 255 (length (recipient_slots p slots))) :: u8) = 2"
    and roles: "\<exists>slot \<in> set (recipient_slots p slots). ds_content_role slot = Content_Descriptor"
      "\<exists>slot \<in> set (recipient_slots p slots). ds_content_role slot = Content_Body"
    using assms by (auto simp: coverage_get split: if_split_asm)
  then have "unat (word_of_nat (min 255 (length (recipient_slots p slots))) :: u8) = 2"
    by simp
  then have "length (recipient_slots p slots) = 2"
    unfolding unat_of_nat by (simp add: min_def split: if_splits)
  from two_slots [OF this roles] show ?thesis .
qed

lemma owner_slots_complete:
  assumes "validate_complete_owner_slots s = Inr ()"
    and "bt_get (st_items s) i = Some item" and "ips_direct_slots item \<noteq> []"
    and "bt_contains_key (st_owners s) p"
  shows "length (filter (\<lambda>slot. ds_content_role slot = role)
      (recipient_slots p (ips_direct_slots item))) = 1"
proof -
  have "item \<in> set (bt_values (st_items s))"
    using assms(2) by (force simp: bt_values_def simp flip: btree.mem_entries)
  then have "validate_item_owner_slots s item = Inr ()"
    using assms(1) collect_unit_Inr [of "validate_item_owner_slots s"]
    by (auto simp: validate_complete_owner_slots_def and_then_Inr)
  moreover obtain mode where "ips_access_mode item = Some mode" "mode \<noteq> Mode_WitnessedOnly"
    using assms(3) that by (cases "ips_witnessed_state item = None") (auto simp: ips_access_mode_def)
  ultimately have "bt_get (fold cover_slot (ips_direct_slots item) bt_empty) p = Some (2, True, True)"
    using assms(4)
    by (auto simp: validate_item_owner_slots_def Let_def ensure_Inr list_ex_iff set_bt_keys)
  then show ?thesis by (rule coverage_complete)
qed

section \<open>Key epochs\<close>

lemma grants_readers:
  assumes "st_owners s' = st_owners s"
    and "map_option ips_grants (bt_get (st_items s') j) = map_option ips_grants (bt_get (st_items s) j)"
  shows "effective_reader_ids s' j = effective_reader_ids s j"
  using assms by (auto simp: effective_reader_ids_def split: option.splits)

lemma rewritten_readers:
  "item_rewritten i s s' \<Longrightarrow> effective_reader_ids s' j = effective_reader_ids s j"
  by (rule grants_readers) (auto simp: item_rewritten_def split: if_splits)

lemma rewritten_others:
  "item_rewritten i s s' \<Longrightarrow> j \<noteq> i \<Longrightarrow> bt_get (st_items s') j = bt_get (st_items s) j"
  by (auto simp: item_rewritten_def)

lemma apply_slot_rotation_epoch:
  assumes "apply_slot_rotation s i e changed rotation = Inr s'"
  obtains item where "bt_get (st_items s') i = Some item" "ips_key_epoch item = e"
    "dm_key_epoch (ips_descriptor item) = e"
  using assms by (auto simp: apply_slot_rotation_def result_simps split: if_split_asm)

definition epoch_advanced :: "policy_state \<Rightarrow> policy_state \<Rightarrow> policy_state \<Rightarrow> ident \<Rightarrow> bool" where
  "epoch_advanced prior start s i \<longleftrightarrow>
     bt_get (st_items s) i = bt_get (st_items start) i \<and>
       effective_reader_ids prior i = effective_reader_ids s i \<or>
     (\<exists>item item'. bt_get (st_items prior) i = Some item \<and> bt_get (st_items s) i = Some item' \<and>
        unat (ips_key_epoch item') = unat (ips_key_epoch item) + 1 \<and>
        dm_key_epoch (ips_descriptor item') = ips_key_epoch item')"

lemma apply_item_rotation_epoch:
  assumes "apply_item_rotation prior scan i = Inr scan'"
  shows "epoch_advanced prior (rs_next scan) (rs_next scan') i"
    and "effective_reader_ids (rs_next scan') j = effective_reader_ids (rs_next scan) j"
    and "j \<noteq> i \<Longrightarrow> bt_get (st_items (rs_next scan')) j = bt_get (st_items (rs_next scan)) j"
proof -
  let ?next = "rs_next scan" and ?next' = "rs_next scan'"
  let ?changed = "effective_reader_ids prior i \<noteq> effective_reader_ids ?next i"
  obtain prior_item e mid where
    item: "bt_get (st_items prior) i = Some prior_item"
      "checked_add (ips_key_epoch prior_item) 1 = Some e"
    and mid: "case bt_get (rs_reader_rotations scan) i of
       Some r \<Rightarrow> apply_reader_rotation ?next i (ips_key_epoch prior_item) e
         (effective_reader_ids prior i) (effective_reader_ids ?next i) r = Inr mid
     | None \<Rightarrow> mid = ?next"
    and last: "case bt_get (rs_slot_rotations scan) i of
       Some r \<Rightarrow> apply_slot_rotation mid i e ?changed r = Inr ?next'
     | None \<Rightarrow> ?next' = mid"
    and both: "?changed \<or> bt_get (rs_reader_rotations scan) i \<noteq> None \<Longrightarrow>
      bt_get (rs_slot_rotations scan) i \<noteq> None"
    by (rule apply_item_rotation_Inr [OF assms]) (rule that)
  have mid_rw: "mid = ?next \<or> item_rewritten i ?next mid"
    using mid by (auto split: option.splits dest: apply_reader_rotation_rewrites)
  have next_rw: "?next' = mid \<or> item_rewritten i mid ?next'"
    using last by (auto split: option.splits dest: apply_slot_rotation_rewrites)
  show readers: "effective_reader_ids ?next' j = effective_reader_ids ?next j" for j
    using mid_rw next_rw rewritten_readers by metis
  show "j \<noteq> i \<Longrightarrow> bt_get (st_items ?next') j = bt_get (st_items ?next) j"
    using mid_rw next_rw rewritten_others by metis
  show "epoch_advanced prior ?next ?next' i"
  proof (cases "bt_get (rs_slot_rotations scan) i")
    case None
    then have "?next' = ?next" and "\<not> ?changed"
      using both mid last by (auto split: option.splits)
    then show ?thesis by (simp add: epoch_advanced_def)
  next
    case (Some r)
    then obtain item' where "bt_get (st_items ?next') i = Some item'" "ips_key_epoch item' = e"
      "dm_key_epoch (ips_descriptor item') = e"
      using last by (auto elim: apply_slot_rotation_epoch)
    then show ?thesis
      using item checked_add_Some [OF item(2)] by (auto simp: epoch_advanced_def)
  qed
qed

lemma apply_rotations_epoch:
  assumes "apply_rotations prior scan = Inr s"
    and "bt_contains_key (st_items prior) i" and "bt_contains_key (st_items (rs_next scan)) i"
  shows "epoch_advanced prior (rs_next scan) s i"
proof -
  define common where
    "common = filter (bt_contains_key (st_items (rs_next scan))) (bt_keys (st_items prior))"
  obtain scan' where
    run: "fold_results (apply_item_rotation prior) scan common = Inr scan'" and s: "s = rs_next scan'"
    using assms(1)
    by (auto simp: apply_rotations_def Let_def result_simps common_def split: if_split_asm)
  let ?P = "\<lambda>done sc.
    (\<forall>j. effective_reader_ids (rs_next sc) j = effective_reader_ids (rs_next scan) j) \<and>
    (\<forall>j. j \<notin> set done \<longrightarrow> bt_get (st_items (rs_next sc)) j = bt_get (st_items (rs_next scan)) j) \<and>
    (\<forall>j \<in> set done. epoch_advanced prior (rs_next scan) (rs_next sc) j)"
  have "?P common scan'"
  proof (rule fold_results_distinct [OF run])
    fix ys x sc sc'
    assume P: "?P ys sc" and fresh: "distinct common \<Longrightarrow> x \<notin> set ys"
      and stepped: "apply_item_rotation prior sc x = Inr sc'"
    have x: "x \<notin> set ys"
      by (rule fresh) (simp add: common_def)
    note facts = apply_item_rotation_epoch [OF stepped]
    have readers: "effective_reader_ids (rs_next sc') j = effective_reader_ids (rs_next scan) j" for j
      using P facts(2) by simp
    have others: "bt_get (st_items (rs_next sc')) j = bt_get (st_items (rs_next sc)) j" if "j \<noteq> x" for j
      using facts(3) that .
    have "epoch_advanced prior (rs_next scan) (rs_next sc') x"
      using facts(1) P x by (simp add: epoch_advanced_def)
    moreover have "epoch_advanced prior (rs_next scan) (rs_next sc') j" if "j \<in> set ys" for j
    proof -
      have "j \<noteq> x" using that x by auto
      moreover have "epoch_advanced prior (rs_next scan) (rs_next sc) j"
        and "effective_reader_ids (rs_next sc) j = effective_reader_ids (rs_next scan) j"
        using P that by blast+
      ultimately show ?thesis
        using others [of j] readers [of j] by (simp add: epoch_advanced_def)
    qed
    ultimately show "?P (ys @ [x]) sc'"
      using P readers others by auto
  qed simp
  moreover have "i \<in> set common"
    using assms(2,3) by (simp add: common_def set_bt_keys)
  ultimately show ?thesis
    using s by blast
qed

text \<open>Before the rotations an item the revision keeps still has its old epoch.\<close>

lemma mutation_epoch:
  assumes "mutate_state V s op = Inr s'" and "bt_get (st_items s') i = Some item'"
  shows "\<not> bt_contains_key (st_historical_item_ids s) i \<or>
    (\<exists>item. bt_get (st_items s) i = Some item \<and> ips_key_epoch item' = ips_key_epoch item)"
  using assms
  by (cases op)
    (auto simp: mutation_defs record_descriptor_def replace_grant_def Let_def result_simps
      elim!: change_role_Inr split: if_split_asm option.split_asm)

definition epochs_kept :: "policy_state \<Rightarrow> policy_state \<Rightarrow> bool" where
  "epochs_kept prior s \<longleftrightarrow>
     nothing_reused s \<and> history_extends prior s \<and>
     (\<forall>i item item'. bt_get (st_items prior) i = Some item \<longrightarrow> bt_get (st_items s) i = Some item' \<longrightarrow>
        ips_key_epoch item' = ips_key_epoch item)"

lemma mutation_epochs_kept:
  assumes "nothing_reused prior" and "epochs_kept prior s" and "mutate_state V s op = Inr s'"
  shows "epochs_kept prior s'"
proof -
  have kept: "kept s s'"
    using mutation_kept [OF assms(3)] assms(2) by (simp add: epochs_kept_def)
  have "ips_key_epoch item' = ips_key_epoch item"
    if "bt_get (st_items prior) i = Some item" "bt_get (st_items s') i = Some item'" for i item item'
  proof -
    have "bt_contains_key (st_historical_item_ids prior) i"
      using assms(1) that(1) by (auto simp: nothing_reused_def items_recorded_def bt_contains_key_def)
    then have "bt_contains_key (st_historical_item_ids s) i"
      using assms(2) by (simp add: epochs_kept_def history_extends_def)
    then show ?thesis
      using mutation_epoch [OF assms(3) that(2)] assms(2) that(1) by (auto simp: epochs_kept_def)
  qed
  then show ?thesis
    using kept assms(2) kept_trans by (auto simp: epochs_kept_def kept_def)
qed

interpretation epochs: mutation_invariant V "\<lambda>s. nothing_reused prior \<longrightarrow> epochs_kept prior s"
  for V prior
  by unfold_locales (blast intro: mutation_epochs_kept)

text \<open>
  Over one revision: the epoch of an item that stays is kept or advanced by one, and advanced
  whenever the set of readers changes.
\<close>

definition epochs_step :: "policy_state \<Rightarrow> policy_state \<Rightarrow> bool" where
  "epochs_step s s' \<longleftrightarrow>
     (\<forall>i item item'. bt_get (st_items s) i = Some item \<longrightarrow> bt_get (st_items s') i = Some item' \<longrightarrow>
        unat (ips_key_epoch item') = unat (ips_key_epoch item) + 1 \<and>
          dm_key_epoch (ips_descriptor item') = ips_key_epoch item' \<or>
        ips_key_epoch item' = ips_key_epoch item \<and>
          effective_reader_ids s' i = effective_reader_ids s i)"

lemma rotations_domain:
  assumes "apply_rotations prior scan = Inr s"
  shows "bt_contains_key (st_items s) i \<longleftrightarrow> bt_contains_key (st_items (rs_next scan)) i"
proof -
  obtain scan' items where
    run: "fold_results (apply_item_rotation prior) scan items = Inr scan'" and s: "s = rs_next scan'"
    using assms by (auto simp: apply_rotations_def Let_def result_simps split: if_split_asm)
  have "bt_contains_key (st_items (rs_next scan')) i \<longleftrightarrow> bt_contains_key (st_items (rs_next scan)) i"
  proof (rule fold_results_invariant [OF run, where I = "\<lambda>sc.
      bt_contains_key (st_items (rs_next sc)) i \<longleftrightarrow> bt_contains_key (st_items (rs_next scan)) i"])
    fix sc x sc'
    assume same: "bt_contains_key (st_items (rs_next sc)) i \<longleftrightarrow> bt_contains_key (st_items (rs_next scan)) i"
      and stepped: "apply_item_rotation prior sc x = Inr sc'"
    have domain: "item_rewritten x a b \<Longrightarrow>
        bt_contains_key (st_items b) i \<longleftrightarrow> bt_contains_key (st_items a) i" for a b
      by (auto simp: item_rewritten_def bt_contains_key_def split: if_splits)
    obtain mid where "mid = rs_next sc \<or> item_rewritten x (rs_next sc) mid"
      and "rs_next sc' = mid \<or> item_rewritten x mid (rs_next sc')"
      by (rule apply_item_rotation_Inr [OF stepped])
        (auto split: option.splits dest: apply_reader_rotation_rewrites apply_slot_rotation_rewrites)
    then show "bt_contains_key (st_items (rs_next sc')) i \<longleftrightarrow>
        bt_contains_key (st_items (rs_next scan)) i"
      using same domain by metis
  qed simp
  with s show ?thesis by simp
qed

lemma apply_operations_epochs:
  assumes "apply_operations H V s n ops = Inr s'" and "nothing_reused s"
  shows "epochs_step s s'"
  unfolding epochs_step_def
proof (intro allI impI)
  fix i item item'
  assume item: "bt_get (st_items s) i = Some item" and item': "bt_get (st_items s') i = Some item'"
  let ?start = "\<lparr>rs_next = s\<lparr>st_sequence := n\<rparr>, rs_reader_rotations = bt_empty,
    rs_slot_rotations = bt_empty, os_mutation_keys = bt_empty\<rparr>"
  obtain scan where run: "fold_results (apply_operation H V s n) ?start ops = Inr scan"
    and rotated: "apply_rotations s (rotation_scan.truncate scan) = Inr s'"
    using assms(1) by (auto simp: apply_operations_def result_simps split: if_split_asm)
  have "epochs_kept s (rs_next scan)"
  proof (rule epochs.mutations [OF run, rule_format])
    have "nothing_reused (s\<lparr>st_sequence := n\<rparr>)"
      using assms(2) reuse.advance by blast
    then show "epochs_kept s (rs_next ?start)"
      by (simp add: epochs_kept_def history_extends_def)
  qed (rule assms(2))
  moreover have "bt_contains_key (st_items (rs_next scan)) i"
    using rotations_domain [OF rotated, of i] item'
    by (simp add: bt_contains_key_def rotation_scan.defs)
  ultimately obtain mid where "bt_get (st_items (rs_next scan)) i = Some mid"
    "ips_key_epoch mid = ips_key_epoch item"
    using item by (auto simp: bt_contains_key_def epochs_kept_def)
  moreover have "epoch_advanced s (rs_next scan) s' i"
    using apply_rotations_epoch [OF rotated, of i] item calculation(1)
    by (simp add: bt_contains_key_def rotation_scan.defs)
  ultimately show "unat (ips_key_epoch item') = unat (ips_key_epoch item) + 1 \<and>
        dm_key_epoch (ips_descriptor item') = ips_key_epoch item' \<or>
      ips_key_epoch item' = ips_key_epoch item \<and> effective_reader_ids s' i = effective_reader_ids s i"
    using item item' by (auto simp: epoch_advanced_def)
qed

lemma replay_revision_epochs:
  assumes "replay_revision H V g (s, t) (n, r) = Inr (s', t')" and "nothing_reused s"
  shows "epochs_step s s'"
proof (rule replay_revision_Inr [OF assms(1)])
  fix after hash
  assume ops: "if spr_operations r = [] then after = s\<lparr>st_sequence := word_of_nat n + 1\<rparr>
       else apply_operations H V s (word_of_nat n + 1) (spr_operations r) = Inr after"
    and s': "s' = append_revision hash after"
  have "epochs_step s after"
  proof (cases "spr_operations r = []")
    case True
    then show ?thesis
      using ops by (auto simp: epochs_step_def effective_reader_ids_def)
  qed (use ops apply_operations_epochs [OF _ assms(2)] in auto)
  then show ?thesis
    by (simp add: s' epochs_step_def append_revision_def effective_reader_ids_def)
qed

section \<open>Creation epochs\<close>

text \<open>
  An item starts at epoch one and its epoch grows by at most one per revision, so it never
  exceeds the number of revisions.
\<close>

definition epochs_started :: "policy_state \<Rightarrow> policy_state \<Rightarrow> bool" where
  "epochs_started prior s \<longleftrightarrow>
     (\<forall>i item'. bt_get (st_items s) i = Some item' \<longrightarrow> bt_get (st_items prior) i = None \<longrightarrow>
        ips_key_epoch item' = 1)"

lemma mutation_epochs_started:
  assumes "mutate_state V s op = Inr s'" and "validate_policy_operation_context H op n v f = Inr ()"
    and "epochs_started prior s"
  shows "epochs_started prior s'"
  using assms
  by (cases op)
    (auto simp: mutation_defs record_descriptor_def replace_grant_def Let_def result_simps
      epochs_started_def validate_policy_operation_context_def
      elim!: change_role_Inr split: if_split_asm option.split_asm)

lemma operation_epochs_started:
  assumes "apply_operation H V prior n scan op = Inr scan'" and "epochs_started prior (rs_next scan)"
  shows "epochs_started prior (rs_next scan')"
  using assms by (auto simp: apply_operation_Inr intro: mutation_epochs_started)

lemma rotation_new_items:
  assumes "apply_rotations prior scan = Inr s" and "bt_get (st_items prior) i = None"
  shows "bt_get (st_items s) i = bt_get (st_items (rs_next scan)) i"
proof -
  obtain scan' items where
    run: "fold_results (apply_item_rotation prior) scan items = Inr scan'" and s: "s = rs_next scan'"
    using assms(1) by (auto simp: apply_rotations_def Let_def result_simps split: if_split_asm)
  have "bt_get (st_items (rs_next scan')) i = bt_get (st_items (rs_next scan)) i"
  proof (rule fold_results_invariant [OF run, where I = "\<lambda>sc.
      bt_get (st_items (rs_next sc)) i = bt_get (st_items (rs_next scan)) i"])
    fix sc x sc'
    assume same: "bt_get (st_items (rs_next sc)) i = bt_get (st_items (rs_next scan)) i"
      and stepped: "apply_item_rotation prior sc x = Inr sc'"
    have "i \<noteq> x"
      by (rule apply_item_rotation_Inr [OF stepped]) (use assms(2) in auto)
    then show "bt_get (st_items (rs_next sc')) i = bt_get (st_items (rs_next scan)) i"
      using same apply_item_rotation_epoch(3) [OF stepped] by simp
  qed simp
  with s show ?thesis by simp
qed

lemma apply_operations_started:
  assumes "apply_operations H V s n ops = Inr s'"
  shows "epochs_started s s'"
proof -
  let ?start = "\<lparr>rs_next = s\<lparr>st_sequence := n\<rparr>, rs_reader_rotations = bt_empty,
    rs_slot_rotations = bt_empty, os_mutation_keys = bt_empty\<rparr>"
  obtain scan where run: "fold_results (apply_operation H V s n) ?start ops = Inr scan"
    and rotated: "apply_rotations s (rotation_scan.truncate scan) = Inr s'"
    using assms by (auto simp: apply_operations_def result_simps split: if_split_asm)
  have "epochs_started s (rs_next scan)"
    by (rule fold_results_invariant [OF run, where I = "\<lambda>scan. epochs_started s (rs_next scan)"])
      (auto simp: epochs_started_def [of s "_\<lparr>st_sequence := _\<rparr>"] intro: operation_epochs_started)
  then show ?thesis
    using rotation_new_items [OF rotated] by (auto simp: epochs_started_def rotation_scan.defs)
qed

lemma replayed_epochs:
  assumes "replayed H V g c rs s t" and "length rs < 2 ^ 64"
  shows "\<forall>i item. bt_get (st_items s) i = Some item \<longrightarrow>
    0 < unat (ips_key_epoch item) \<and> unat (ips_key_epoch item) \<le> length rs"
  using assms
proof (induction rule: replayed.induct)
  case (start s)
  then show ?case by (auto elim!: replay_genesis_Inr simp: genesis_state_def Let_def)
next
  case (step rs s t r s' t')
  have prior: "0 < unat (ips_key_epoch item) \<and> unat (ips_key_epoch item) \<le> length rs"
    if "bt_get (st_items s) i = Some item" for i item
    using step.IH step.prems that by simp
  have epochs: "epochs_step s s'"
    using replay_revision_epochs [OF step.hyps(2)] reuse.replay [OF step.hyps(1)] by blast
  have started: "epochs_started s s'"
    by (rule replay_revision_Inr [OF step.hyps(2)])
      (auto simp: append_revision_def epochs_started_def dest!: apply_operations_started
        split: if_split_asm)
  show ?case
  proof (intro allI impI)
    fix i item' assume item': "bt_get (st_items s') i = Some item'"
    show "0 < unat (ips_key_epoch item') \<and> unat (ips_key_epoch item') \<le> length (rs @ [r])"
    proof (cases "bt_get (st_items s) i")
      case None
      then have "ips_key_epoch item' = 1"
        using started item' by (simp add: epochs_started_def)
      then show ?thesis by simp
    next
      case (Some item)
      then show ?thesis
        using epochs item' prior [OF Some] unfolding epochs_step_def by fastforce
    qed
  qed
qed

section \<open>Prepared revisions\<close>

lemma prepare_Inr:
  assumes "prepare_with_signer H V s signer ts ops = Inr p"
  obtains author sequence state_hash after preimage signature hash where
    "bt_contains_key (st_owners s) (sg_principal_id signer)"
    "bt_get (st_principals s) (sg_principal_id signer) = Some author"
    "sg_descriptor signer = Inr (pps_descriptor author)"
    "checked_add (st_sequence s) 1 = Some sequence"
    "sequence \<le> word_of_nat max_policy_revisions"
    "apply_operations H V s sequence ops = Inr after"
    "validate_complete_owner_slots after = Inr ()"
    "normalized_state_hash H after = Inr state_hash"
    "spr_signature_preimage (ppr_revision p) = Inr preimage"
    "sg_sign signer preimage = Inr signature"
    "spr_recomputed_hash H (ppr_revision p) = Inr hash"
    "ppr_revision p = \<lparr>spr_vault_id = st_vault_id s, spr_sequence = sequence,
       spr_previous_revision_hash = st_terminal_revision_hash s, spr_timestamp_ms = ts,
       spr_author_principal_id = sg_principal_id signer, spr_operations = ops,
       spr_resulting_policy_state_hash = state_hash, spr_signature = signature\<rparr>"
    "ppr_state p = append_revision hash after"
proof -
  have unsigned: "spr_signature_preimage (r\<lparr>spr_signature := x\<rparr>) = spr_signature_preimage r" for r x
    by (simp add: spr_signature_preimage_def)
  let ?r = "\<lambda>sequence state_hash signature.
    \<lparr>spr_vault_id = st_vault_id s, spr_sequence = sequence,
     spr_previous_revision_hash = st_terminal_revision_hash s, spr_timestamp_ms = ts,
     spr_author_principal_id = sg_principal_id signer, spr_operations = ops,
     spr_resulting_policy_state_hash = state_hash, spr_signature = signature\<rparr>"
  obtain author sequence state_hash after preimage signature hash where
    facts: "bt_contains_key (st_owners s) (sg_principal_id signer)"
      "bt_get (st_principals s) (sg_principal_id signer) = Some author"
      "sg_descriptor signer = Inr (pps_descriptor author)"
      "checked_add (st_sequence s) 1 = Some sequence"
      "sequence \<le> word_of_nat max_policy_revisions"
      "apply_operations H V s sequence ops = Inr after"
      "validate_complete_owner_slots after = Inr ()"
      "normalized_state_hash H after = Inr state_hash"
    and preimage: "spr_signature_preimage (?r sequence state_hash zero_signature) = Inr preimage"
    and signed: "sg_sign signer preimage = Inr signature"
      "spr_recomputed_hash H (?r sequence state_hash signature) = Inr hash"
    and p: "p = \<lparr>ppr_revision = ?r sequence state_hash signature,
      ppr_state = append_revision hash after\<rparr>"
    using assms unfolding prepare_with_signer_def Let_def
    by (auto simp: result_simps not_less split: if_split_asm)
  have "spr_signature_preimage (?r sequence state_hash signature) = Inr preimage"
    using preimage unsigned [of signature "?r sequence state_hash zero_signature"] by simp
  with facts signed show thesis
    by (intro that [of author sequence after state_hash preimage signature hash]) (simp_all add: p)
qed

lemma prepared_replays:
  assumes "replayed H V g c rs s t" and "length rs \<le> max_policy_revisions"
    and "prepare_with_signer H V s signer ts ops = Inr p" and "t \<le> ts"
    and "\<And>d m sig. sg_descriptor signer = Inr d \<Longrightarrow> sg_sign signer m = Inr sig \<Longrightarrow>
      V (pd_verification_public_key d) m sig"
  shows "replayed H V g c (rs @ [ppr_revision p]) (ppr_state p) ts"
    and "Suc (length rs) \<le> max_policy_revisions"
proof (atomize (full), rule prepare_Inr [OF assms(3)])
  fix author sequence after state_hash preimage signature hash
  assume prepared: "bt_contains_key (st_owners s) (sg_principal_id signer)"
      "bt_get (st_principals s) (sg_principal_id signer) = Some author"
      "sg_descriptor signer = Inr (pps_descriptor author)"
      "checked_add (st_sequence s) 1 = Some sequence"
      "sequence \<le> word_of_nat max_policy_revisions"
      "apply_operations H V s sequence ops = Inr after"
      "validate_complete_owner_slots after = Inr ()"
      "normalized_state_hash H after = Inr state_hash"
      "spr_signature_preimage (ppr_revision p) = Inr preimage"
      "sg_sign signer preimage = Inr signature"
      "spr_recomputed_hash H (ppr_revision p) = Inr hash"
      "ppr_revision p = \<lparr>spr_vault_id = st_vault_id s, spr_sequence = sequence,
         spr_previous_revision_hash = st_terminal_revision_hash s, spr_timestamp_ms = ts,
         spr_author_principal_id = sg_principal_id signer, spr_operations = ops,
         spr_resulting_policy_state_hash = state_hash, spr_signature = signature\<rparr>"
      "ppr_state p = append_revision hash after"
  have small: "Suc (length rs) < 2 ^ 64"
    using assms(2) by (simp add: max_policy_revisions_def)
  have "st_sequence s = word_of_nat (length rs)"
    using replayed_chain(1) [OF assms(1)] by (simp add: chain_end_def)
  then have sequence: "sequence = word_of_nat (Suc (length rs))"
    using prepared(4) next_u64(2) [OF small] by simp
  have "unat sequence \<le> unat (word_of_nat max_policy_revisions :: u64)"
    using prepared(5) by (simp add: word_le_nat_alt)
  then have "Suc (length rs) \<le> max_policy_revisions"
    unfolding sequence using unat_word_of_nat_u64 [OF small]
    by (simp del: of_nat_Suc add: max_policy_revisions_def)
  moreover have "ops \<noteq> []"
    using prepared(6) by (auto simp: apply_operations_def)
  then have "replay_revision H V g (s, t) (length rs, ppr_revision p) = Inr (ppr_state p, ts)"
    unfolding prepared(13)
    by (intro replay_revisionI [where author = author and preimage = preimage])
      (use prepared assms(4,5) sequence in \<open>simp_all add: add.commute\<close>)
  ultimately show "replayed H V g c (rs @ [ppr_revision p]) (ppr_state p) ts \<and>
      Suc (length rs) \<le> max_policy_revisions"
    using replayed.step [OF assms(1)] by blast
qed

section \<open>The catalog of witness policies\<close>

definition lineage_key :: "witness_policy \<Rightarrow> ident \<times> u64" where
  "lineage_key p = (wp_witness_policy_id p, wp_revision p)"

definition catalog_scanned :: "hash_fun \<Rightarrow> verify_fun \<Rightarrow> witness_policy list \<Rightarrow> catalog_scan \<Rightarrow> bool" where
  "catalog_scanned H V ps scan \<longleftrightarrow>
     (\<forall>p \<in> set ps. wp_validate H V p = Inr ()) \<and>
     (\<forall>d p. bt_get (ct_catalog scan) d = Some p \<longleftrightarrow> p \<in> set ps \<and> wp_digest H p = Inr d) \<and>
     (\<forall>k. bt_contains_key (ct_lineage_revisions scan) k \<longleftrightarrow> k \<in> lineage_key ` set ps) \<and>
     distinct (map lineage_key ps) \<and>
     (\<forall>d. bt_contains_key (ct_successors scan) d \<longleftrightarrow>
        (\<exists>p \<in> set ps. wp_revision p > 1 \<and> wp_predecessor_policy_digest p = d)) \<and>
     (\<forall>p \<in> set ps. \<forall>q \<in> set ps. wp_revision p > 1 \<longrightarrow> wp_revision q > 1 \<longrightarrow>
        wp_predecessor_policy_digest p = wp_predecessor_policy_digest q \<longrightarrow> p = q)"

lemma catalog_policy_scanned:
  assumes "catalog_scanned H V ps scan" and "catalog_policy H V scan p = Inr scan'"
  shows "catalog_scanned H V (ps @ [p]) scan'"
proof -
  obtain d where valid: "wp_validate H V p = Inr ()" and digest: "wp_digest H p = Inr d"
    and unseen: "\<not> bt_contains_key (ct_lineage_revisions scan) (lineage_key p)"
      "wp_revision p > 1 \<Longrightarrow> \<not> bt_contains_key (ct_successors scan) (wp_predecessor_policy_digest p)"
      "\<not> bt_contains_key (ct_catalog scan) d"
    and scan': "scan' = \<lparr>ct_catalog = bt_insert d p (ct_catalog scan),
      ct_lineage_revisions = bt_insert (lineage_key p) d (ct_lineage_revisions scan),
      ct_successors = (if wp_revision p > 1
        then bt_insert (wp_predecessor_policy_digest p) d (ct_successors scan)
        else ct_successors scan)\<rparr>"
    using assms(2)
    by (auto simp: catalog_policy_def lineage_key_def result_simps split: if_split_asm)
  have fresh: "lineage_key p \<notin> lineage_key ` set ps"
    using assms(1) unseen(1) unfolding catalog_scanned_def by blast
  have absent: "bt_get (ct_catalog scan) d = None"
    using unseen(3) by (simp only: bt_contains_key_def not_not)
  show ?thesis
    unfolding catalog_scanned_def
  proof (intro conjI)
    show "\<forall>e q. bt_get (ct_catalog scan') e = Some q \<longleftrightarrow> q \<in> set (ps @ [p]) \<and> wp_digest H q = Inr e"
    proof (intro allI)
      fix e q
      have "bt_get (ct_catalog scan) e = Some q \<longleftrightarrow> q \<in> set ps \<and> wp_digest H q = Inr e" for e q
        using assms(1) unfolding catalog_scanned_def by blast
      from this [of e q] this [of d q] show "bt_get (ct_catalog scan') e = Some q \<longleftrightarrow>
          q \<in> set (ps @ [p]) \<and> wp_digest H q = Inr e"
        using absent digest by (auto simp: scan')
    qed
    show "\<forall>k. bt_contains_key (ct_lineage_revisions scan') k \<longleftrightarrow> k \<in> lineage_key ` set (ps @ [p])"
      using assms(1) unfolding scan' catalog_scanned_def by auto
    show "distinct (map lineage_key (ps @ [p]))"
      using assms(1) fresh unfolding catalog_scanned_def by auto
    show "\<forall>e. bt_contains_key (ct_successors scan') e \<longleftrightarrow>
        (\<exists>q \<in> set (ps @ [p]). wp_revision q > 1 \<and> wp_predecessor_policy_digest q = e)"
      using assms(1) unfolding scan' catalog_scanned_def by auto
    show "\<forall>a \<in> set (ps @ [p]). \<forall>b \<in> set (ps @ [p]). wp_revision a > 1 \<longrightarrow> wp_revision b > 1 \<longrightarrow>
        wp_predecessor_policy_digest a = wp_predecessor_policy_digest b \<longrightarrow> a = b"
      using assms(1) unseen(2) unfolding catalog_scanned_def by auto
  qed (use assms(1) valid in \<open>auto simp: catalog_scanned_def\<close>)
qed

definition linear_lineages ::
    "hash_fun \<Rightarrow> witness_policy list \<Rightarrow> bool" where
  "linear_lineages H ps \<longleftrightarrow>
     distinct (map lineage_key ps) \<and>
     (\<forall>p \<in> set ps. wp_revision p > 1 \<longrightarrow>
        (\<exists>q \<in> set ps. wp_digest H q = Inr (wp_predecessor_policy_digest p) \<and>
           wp_witness_policy_id q = wp_witness_policy_id p \<and>
           unat (wp_revision p) = unat (wp_revision q) + 1)) \<and>
     (\<forall>p \<in> set ps. \<forall>q \<in> set ps. wp_revision p > 1 \<longrightarrow> wp_revision q > 1 \<longrightarrow>
        wp_predecessor_policy_digest p = wp_predecessor_policy_digest q \<longrightarrow> p = q)"

lemma witness_policy_catalog_Inr:
  assumes "witness_policy_catalog H V ps = Inr catalog"
  shows "bt_get catalog d = Some p \<longleftrightarrow> p \<in> set ps \<and> wp_digest H p = Inr d"
    and "p \<in> set ps \<Longrightarrow> wp_validate H V p = Inr ()"
    and "linear_lineages H ps"
proof -
  obtain scan us where
    run: "fold_results (catalog_policy H V)
      \<lparr>ct_catalog = bt_empty, ct_lineage_revisions = bt_empty, ct_successors = bt_empty\<rparr> ps = Inr scan"
    and preds: "collect_results (check_predecessor (ct_catalog scan))
      (filter (\<lambda>p. wp_revision p > 1) ps) = Inr us"
    and catalog: "catalog = ct_catalog scan"
    using assms by (auto simp: witness_policy_catalog_def and_then_Inr)
  have scanned: "catalog_scanned H V ps scan"
    by (rule fold_results_prefix [OF run])
      (simp add: catalog_scanned_def, rule catalog_policy_scanned)
  then show get: "bt_get catalog d = Some p \<longleftrightarrow> p \<in> set ps \<and> wp_digest H p = Inr d" for d p
    unfolding catalog catalog_scanned_def by blast
  show "p \<in> set ps \<Longrightarrow> wp_validate H V p = Inr ()"
    using scanned unfolding catalog_scanned_def by blast
  have "\<exists>q \<in> set ps. wp_digest H q = Inr (wp_predecessor_policy_digest p) \<and>
      wp_witness_policy_id q = wp_witness_policy_id p \<and>
      unat (wp_revision p) = unat (wp_revision q) + 1"
    if "p \<in> set ps" "wp_revision p > 1" for p
  proof -
    have "check_predecessor (ct_catalog scan) p = Inr ()"
      using collect_unit_Inr [OF preds, of p] that by simp
    then obtain q where "bt_get catalog (wp_predecessor_policy_digest p) = Some q"
      "wp_witness_policy_id q = wp_witness_policy_id p"
      "checked_add (wp_revision q) 1 = Some (wp_revision p)"
      by (auto simp: check_predecessor_def result_simps catalog)
    then show ?thesis
      using get checked_add_Some by fastforce
  qed
  then show "linear_lineages H ps"
    using scanned unfolding linear_lineages_def catalog_scanned_def by blast
qed

end
