(* ===== verification/Jury_Policy_Theorems.thy ===== *)
theory Jury_Policy_Theorems
  imports Jury_Policy_Rotation
begin

text \<open>
  The theorems on the policy journal, with a concrete journal on which they are applied: the
  owner adds a machine and an item it can read, then takes the machine's access away, which
  rotates the key of the item. Its hash is constant and every signature verifies.
\<close>

section \<open>A journal\<close>

definition sample_hash :: hash_fun where
  "sample_hash = (\<lambda>_. fixed_repeat 14)"

definition sample_verify :: verify_fun where
  "sample_verify = (\<lambda>_ _ _. True)"

definition sample_descriptor :: "u8 \<Rightarrow> principal_kind \<Rightarrow> principal_descriptor" where
  "sample_descriptor n kind =
     \<lparr>pd_descriptor_version = 1, pd_principal_id = id_repeat n, pd_principal_kind = kind,
      pd_recipient_public_key = fixed_repeat n, pd_verification_public_key = fixed_repeat n,
      pd_self_signature = fixed_repeat n\<rparr>"

definition sample_genesis :: "u16 \<Rightarrow> policy_genesis" where
  "sample_genesis suite =
     \<lparr>pg_vault_id = id_repeat 9, pg_policy_sequence = 0, pg_previous_policy_hash = zero_digest,
      pg_created_at_ms = 1000, pg_suite = suite, pg_owner = sample_descriptor 1 Kind_Human,
      pg_source_attestation = None, pg_owner_signature = fixed_repeat 1\<rparr>"

definition sample_metadata :: "u64 \<Rightarrow> descriptor_metadata" where
  "sample_metadata epoch =
     \<lparr>dm_revision = epoch, dm_revision_seal_id = id_repeat 7, dm_nonce = fixed_repeat 1,
      dm_ciphertext_length = 272, dm_ciphertext_digest = fixed_repeat 3, dm_plaintext_schema = 1,
      dm_key_epoch = epoch\<rparr>"

definition sample_slot :: "u64 \<Rightarrow> content_role \<Rightarrow> u8 \<Rightarrow> access_role \<Rightarrow> u8 \<Rightarrow> direct_slot" where
  "sample_slot epoch content recipient role n =
     \<lparr>ds_slot_schema = 1, ds_slot_algorithm = 1, ds_suite = 1, ds_kem = 0x647a, ds_kdf = 1,
      ds_aead = suite_hpke_aead (the (suite_from_id 1)),
      ds_vault_id = id_repeat 9, ds_item_id = id_repeat 5, ds_key_epoch = epoch,
      ds_content_role = content, ds_revision = epoch, ds_revision_seal_id = id_repeat 7,
      ds_recipient_principal_id = id_repeat recipient, ds_policy_sequence = epoch,
      ds_recipient_public_key_fingerprint = fixed_repeat 14, ds_access_role = role,
      ds_item_access_mode = Mode_DirectOnly, ds_encapsulation = fixed_repeat n,
      ds_ciphertext = fixed_repeat n\<rparr>"

definition sample_operations0 :: "policy_operation list" where
  "sample_operations0 = [PrincipalAdd (sample_descriptor 2 Kind_Machine) ''ci'' (fixed_repeat 4)]"

definition sample_operations1 :: "policy_operation list" where
  "sample_operations1 =
     [PrincipalAdd (sample_descriptor 2 Kind_Machine) ''ci'' (fixed_repeat 4),
      ItemCreate (id_repeat 5) Item_Canonical 1 (sample_metadata 1) (fixed_repeat 6)
        [sample_slot 1 Content_Descriptor 1 Role_Owner 1,
         sample_slot 1 Content_Descriptor 2 Role_Reader 2,
         sample_slot 1 Content_Body 1 Role_Owner 3, sample_slot 1 Content_Body 2 Role_Reader 4]
        None]"

definition sample_operations2 :: "policy_operation list" where
  "sample_operations2 =
     [ItemRoleChange (id_repeat 5) (id_repeat 2) (Some Role_Reader) None,
      ItemReaderSetChange (id_repeat 5) 1 2 [id_repeat 1, id_repeat 2] [id_repeat 1]
        (sample_metadata 2) (fixed_repeat 7),
      ItemSlotsReplace (id_repeat 5) 2
        [sample_slot 2 Content_Descriptor 1 Role_Owner 5, sample_slot 2 Content_Body 1 Role_Owner 6]
        None]"

definition sample_revision :: "u64 \<Rightarrow> u64 \<Rightarrow> policy_operation list \<Rightarrow> signed_policy_revision" where
  "sample_revision start n operations =
     \<lparr>spr_vault_id = id_repeat 9, spr_sequence = n, spr_previous_revision_hash = fixed_repeat 14,
      spr_timestamp_ms = start + n, spr_author_principal_id = id_repeat 1,
      spr_operations = operations, spr_resulting_policy_state_hash = fixed_repeat 14,
      spr_signature = fixed_repeat 1\<rparr>"

lemma sample_fields [simp]:
  "pd_descriptor_version (sample_descriptor n k) = 1"
  "pd_principal_id (sample_descriptor n k) = id_repeat n"
  "pd_principal_kind (sample_descriptor n k) = k"
  "pd_recipient_public_key (sample_descriptor n k) = fixed_repeat n"
  "pd_verification_public_key (sample_descriptor n k) = fixed_repeat n"
  "dm_key_epoch (sample_metadata e) = e" "dm_revision (sample_metadata e) = e"
  "ds_suite (sample_slot e t r a n) = 1" "ds_key_epoch (sample_slot e t r a n) = e"
  "ds_content_role (sample_slot e t r a n) = t"
  "ds_recipient_principal_id (sample_slot e t r a n) = id_repeat r"
  "ds_policy_sequence (sample_slot e t r a n) = e"
  "ds_recipient_public_key_fingerprint (sample_slot e t r a n) = fixed_repeat 14"
  "ds_access_role (sample_slot e t r a n) = a"
  "ds_item_access_mode (sample_slot e t r a n) = Mode_DirectOnly"
  by (simp_all add: sample_descriptor_def sample_metadata_def sample_slot_def)

section \<open>Running it\<close>

lemma vault_encoders_run [run_simps]:
  "framable v \<Longrightarrow> v_bytes_field v = Inr (frame v)"
  "framable xs \<Longrightarrow> v_list_fixed enc xs = Inr (frame_list enc xs)"
  "framable vs \<Longrightarrow> list_all framable vs \<Longrightarrow> v_list_bytes vs = Inr (frame_list frame vs)"
  "pred_option framable w \<Longrightarrow> v_optional_bytes w = Inr (frame_option w)"
  "framable xs \<Longrightarrow> p_list_fixed enc xs = Inr (frame_list enc xs)"
  "framable vs \<Longrightarrow> list_all framable vs \<Longrightarrow> p_list_bytes vs = Inr (frame_list frame vs)"
  by (simp_all add: result_simps)

lemma length_frames [simp]:
  "length (frame v) = 4 + length v"
  "length (frame_list enc xs) = 4 + (\<Sum>x\<leftarrow>xs. length (enc x))"
  by (simp_all add: frame_def frame_list_def length_concat comp_def)

lemma length_text [simp]: "length (str_bytes s) = length s" "length (jce_v1 d) = length d + 3"
  by (simp_all add: str_bytes_def jce_v1_def)

lemma length_records [simp]:
  "length (pd_canonical_bytes d) = 1347"
  "length (dm_canonical_bytes m) = 97"
  "length (ds_canonical_bytes s) = 1365"
  by (simp_all add: pd_canonical_bytes_def pd_canonical_body_def dm_canonical_bytes_def
      ds_canonical_bytes_def)

lemma sample_genesis_state:
  assumes "suite = 1 \<or> suite = 2"
  shows "replay_genesis sample_hash sample_verify
      \<lparr>pj_genesis = sample_genesis suite, pj_revisions = []\<rparr> c =
    Inr (genesis_state (sample_genesis suite) (fixed_repeat 14) c)"
  using assms
  by (simp add: replay_genesis_def Let_def sample_genesis_def validate_descriptor_def
      sample_descriptor_def sample_verify_def sample_hash_def pg_recomputed_fingerprint_def
      pg_fingerprint_preimage_def pg_signature_preimage_def)
    (simp add: run_simps)

lemma content_role_order [simp]:
  "Content_Descriptor < Content_Body" "\<not> Content_Body < Content_Descriptor"
  "Content_Descriptor \<le> Content_Body" "\<not> Content_Body \<le> Content_Descriptor"
  by (simp_all add: less_content_role_def less_eq_content_role_def word_le_nat_alt word_less_nat_alt)

lemma id_repeat_le [simp]:
  "a \<noteq> 0 \<Longrightarrow> b \<noteq> 0 \<Longrightarrow> id_repeat a \<le> id_repeat b \<longleftrightarrow> \<not> b < a"
  by (simp flip: not_less)

lemma sample_context:
  "list_all (\<lambda>op. \<not> operation_suites_differ 1 op \<and>
     validate_policy_operation_context sample_hash op 1 (id_repeat 9) fp = Inr ()) sample_operations1"
  "list_all (\<lambda>op. \<not> operation_suites_differ 1 op \<and>
     validate_policy_operation_context sample_hash op 2 (id_repeat 9) fp = Inr ()) sample_operations2"
  by (simp_all add: sample_operations1_def sample_operations2_def validate_policy_operation_context_def
      f_validate_descriptor_def validate_label_def max_public_label_bytes_def
      validate_descriptor_metadata_def validate_access_paths_def validate_direct_slots_def
      direct_scan_start_def direct_scan_step_def direct_slot_context_def suite_from_id_def Let_def
      sample_descriptor_def sample_metadata_def sample_slot_def saturating_add_def
      validate_sorted_unique_def bt_keys_def bts_insert_def less_eq_prod_def)

definition sample_state0 :: policy_state where
  "sample_state0 = genesis_state (sample_genesis 1) (fixed_repeat 14) bt_empty"

definition sample_item :: "u64 \<Rightarrow> digest32 \<Rightarrow> (ident, access_role) btree_map \<Rightarrow> direct_slot list \<Rightarrow> item_policy_state" where
  "sample_item epoch hash grants slots =
     \<lparr>ips_item_kind = Item_Canonical, ips_key_epoch = epoch,
      ips_descriptor = sample_metadata epoch, ips_current_item_revision_hash = hash,
      ips_grants = grants, ips_direct_slots = slots, ips_witnessed_state = None\<rparr>"

definition sample_slots1 :: "direct_slot list" where
  "sample_slots1 =
     [sample_slot 1 Content_Descriptor 1 Role_Owner 1,
      sample_slot 1 Content_Descriptor 2 Role_Reader 2,
      sample_slot 1 Content_Body 1 Role_Owner 3, sample_slot 1 Content_Body 2 Role_Reader 4]"

definition sample_mutated1 :: policy_state where
  "sample_mutated1 =
     (record_descriptor (sample_descriptor 2 Kind_Machine) sample_state0)
      \<lparr>st_sequence := 1,
       st_principals := bt_insert (id_repeat 2)
         \<lparr>pps_descriptor = sample_descriptor 2 Kind_Machine, pps_display_label = ''ci''\<rparr>
         (st_principals sample_state0),
       st_historical_item_ids := bts_insert (id_repeat 5) bt_empty,
       st_items := bt_insert (id_repeat 5)
         (sample_item 1 (fixed_repeat 6) (bt_insert (id_repeat 2) Role_Reader bt_empty)
           sample_slots1) bt_empty\<rparr>"

lemma sample_operation1:
  "fold_results (apply_operation sample_hash sample_verify sample_state0 1)
     \<lparr>rs_next = sample_state0\<lparr>st_sequence := 1\<rparr>, rs_reader_rotations = bt_empty,
      rs_slot_rotations = bt_empty, os_mutation_keys = bt_empty\<rparr> sample_operations1 =
   Inr \<lparr>rs_next = sample_mutated1, rs_reader_rotations = bt_empty, rs_slot_rotations = bt_empty,
     os_mutation_keys = bts_insert (Key_Item 6 (id_repeat 5))
       (bts_insert (Key_Principal 1 (id_repeat 2)) bt_empty)\<rparr>"
  using sample_context(1) [of "fixed_repeat 14"]
  by (simp add: sample_operations1_def apply_operation_def add_principal_def create_item_def
      validate_descriptor_def identifier_was_used_def sample_state0_def genesis_state_def Let_def
      sample_genesis_def sample_verify_def max_public_label_bytes_def
      collect_grant_def record_descriptor_def sample_mutated1_def sample_item_def
      sample_slots1_def btree.put_put)

lemma sample_applied1:
  "apply_operations sample_hash sample_verify sample_state0 1 sample_operations1 = Inr sample_mutated1"
proof -
  have "apply_rotations sample_state0 \<lparr>rs_next = sample_mutated1, rs_reader_rotations = bt_empty,
      rs_slot_rotations = bt_empty\<rparr> = Inr sample_mutated1"
    by (simp add: apply_rotations_def sample_state0_def genesis_state_def Let_def bt_keys_def
        bt_is_empty_def)
  moreover have "validate_complete_state sample_hash sample_mutated1 = Inr ()"
    by (simp add: validate_complete_state_def sample_mutated1_def sample_state0_def genesis_state_def
        Let_def bt_is_empty_def bt_keys_def bts_insert_def record_descriptor_def sample_genesis_def
        owner_is_human_def validate_current_item_def sample_item_def sample_slots1_def
        ips_access_mode_def validate_grant_def is_human_or_machine_def validate_current_slot_def
        effective_role_def recipient_public_key_fingerprint_def sample_hash_def bt_contains_key_def)
  moreover have "bt_len (st_items sample_mutated1) \<le> max_items"
    by (simp add: sample_mutated1_def bt_len_def max_items_def)
  ultimately show ?thesis
    by (simp add: apply_operations_def sample_operation1 rotation_scan.defs)
      (simp add: sample_operations1_def)
qed

definition sample_state1 :: policy_state where
  "sample_state1 = append_revision (fixed_repeat 14) sample_mutated1"

lemma sample_revision_hash:
  assumes "operations = sample_operations0 \<or> operations = sample_operations1 \<or>
      operations = sample_operations2"
  shows "\<exists>p. spr_signature_preimage (sample_revision b n operations) = Inr p"
    and "spr_recomputed_hash sample_hash (sample_revision b n operations) = Inr (fixed_repeat 14)"
  using assms
  by (auto simp: spr_recomputed_hash_def spr_hash_preimage_def spr_signature_preimage_def
      sample_revision_def sample_operations0_def sample_operations1_def sample_operations2_def
      sample_hash_def       vault_encoders_run framable_def optional_u8_def optional_fixed_def)

lemma sample_hash1: "normalized_state_hash sample_hash sample_mutated1 = Inr (fixed_repeat 14)"
  by (simp add: normalized_state_hash_def normalized_state_preimage_def sample_mutated1_def
      sample_state0_def genesis_state_def Let_def sample_genesis_def record_descriptor_def
      bt_values_def bt_keys_def bts_insert_def item_entry_def sample_item_def sample_slots1_def
      ips_access_mode_def grant_entries_def direct_entries_def witnessed_part_def
      st_witnessed_slots_def sample_hash_def vault_encoders_run framable_def map_filter_simps)

lemma sample_revised:
  assumes "operations = sample_operations0 \<or> operations = sample_operations1 \<or>
      operations = sample_operations2"
    and "m = word_of_nat n + 1" and "t \<le> b + m"
    and "apply_operations sample_hash sample_verify s m operations = Inr after"
    and "normalized_state_hash sample_hash after = Inr (fixed_repeat 14)"
    and "validate_complete_owner_slots after = Inr ()"
    and "st_vault_id s = id_repeat 9" and "st_terminal_revision_hash s = fixed_repeat 14"
    and "bt_contains_key (st_owners s) (id_repeat 1)"
    and "bt_contains_key (st_principals s) (id_repeat 1)"
  shows "replay_revision sample_hash sample_verify g (s, t) (n, sample_revision b m operations) =
    Inr (append_revision (fixed_repeat 14) after, b + m)"
proof -
  obtain p where "spr_signature_preimage (sample_revision b m operations) = Inr p"
    using sample_revision_hash(1) [OF assms(1)] by blast
  moreover obtain author where "bt_get (st_principals s) (id_repeat 1) = Some author"
    using assms(10) by (auto simp: bt_contains_key_def)
  moreover have "operations \<noteq> []"
    using assms(1) by (auto simp: sample_operations0_def sample_operations1_def
        sample_operations2_def)
  moreover have "spr_vault_id (sample_revision b m operations) = id_repeat 9"
    "spr_sequence (sample_revision b m operations) = m"
    "spr_previous_revision_hash (sample_revision b m operations) = fixed_repeat 14"
    "spr_timestamp_ms (sample_revision b m operations) = b + m"
    "spr_author_principal_id (sample_revision b m operations) = id_repeat 1"
    "spr_operations (sample_revision b m operations) = operations"
    "spr_resulting_policy_state_hash (sample_revision b m operations) = fixed_repeat 14"
    by (simp_all add: sample_revision_def)
  ultimately show ?thesis
    using assms(2-9) sample_revision_hash(2) [OF assms(1), of b m]
    by (intro replay_revisionI [where author = author and preimage = p])
      (simp_all add: sample_verify_def)
qed

lemma sample_revised1:
  assumes "b = 1000 \<or> b = 5000"
  shows "replay_revision sample_hash sample_verify (sample_genesis 1) (sample_state0, 1000)
     (0, sample_revision b 1 sample_operations1) = Inr (sample_state1, b + 1)"
proof -
  have "validate_complete_owner_slots sample_mutated1 = Inr ()"
    by (simp add: validate_complete_owner_slots_def validate_item_owner_slots_def
        sample_mutated1_def sample_state0_def genesis_state_def Let_def sample_genesis_def
        record_descriptor_def bt_values_def bt_keys_def bts_insert_def sample_item_def
        sample_slots1_def ips_access_mode_def cover_slot_def saturating_add_def)
  then show ?thesis
    using sample_revised [of sample_operations1 1 0 1000 b sample_state0 sample_mutated1]
      sample_applied1 sample_hash1 assms
    by (auto simp: sample_state1_def) (simp_all add: sample_state0_def genesis_state_def
        sample_genesis_def Let_def)
qed

definition sample_slots2 :: "direct_slot list" where
  "sample_slots2 =
     [sample_slot 2 Content_Descriptor 1 Role_Owner 5, sample_slot 2 Content_Body 1 Role_Owner 6]"

definition sample_mutated2 :: policy_state where
  "sample_mutated2 =
     sample_state1\<lparr>st_sequence := 2,
       st_items := bt_insert (id_repeat 5)
         (sample_item 1 (fixed_repeat 6) bt_empty sample_slots1) bt_empty\<rparr>"

definition sample_rotated2 :: policy_state where
  "sample_rotated2 =
     sample_state1\<lparr>st_sequence := 2,
       st_items := bt_insert (id_repeat 5)
         (sample_item 2 (fixed_repeat 7) bt_empty sample_slots2) bt_empty\<rparr>"

definition sample_scan2 :: rotation_scan where
  "sample_scan2 =
     \<lparr>rs_next = sample_mutated2,
      rs_reader_rotations = bt_insert (id_repeat 5)
        \<lparr>rr_prior_epoch = 1, rr_next_epoch = 2, rr_prior_reader_ids = [id_repeat 1, id_repeat 2],
         rr_next_reader_ids = [id_repeat 1], rr_replacement_descriptor = sample_metadata 2,
         rr_replacement_current_item_revision_hash = fixed_repeat 7\<rparr> bt_empty,
      rs_slot_rotations = bt_insert (id_repeat 5)
        \<lparr>sl_next_epoch = 2, sl_direct_slots = sample_slots2, sl_witnessed_state = None\<rparr> bt_empty\<rparr>"

lemma remove_single [simp]: "bt_remove k (bt_insert k v bt_empty) = bt_empty"
  by (rule bt_ext) auto

lemmas sample_state_defs =
  sample_state1_def append_revision_def sample_mutated1_def sample_state0_def genesis_state_def
  sample_genesis_def record_descriptor_def sample_item_def

lemma sample_operation2:
  "\<exists>keys. fold_results (apply_operation sample_hash sample_verify sample_state1 2)
     \<lparr>rs_next = sample_state1\<lparr>st_sequence := 2\<rparr>, rs_reader_rotations = bt_empty,
      rs_slot_rotations = bt_empty, os_mutation_keys = bt_empty\<rparr> sample_operations2 =
   Inr (rotation_scan.extend sample_scan2 (operation_scan.fields keys))"
  using sample_context(2) [of "fixed_repeat 14"]
  by (simp add: sample_operations2_def apply_operation_def change_role_def sample_state_defs
      sample_scan2_def sample_mutated2_def sample_slots2_def Let_def is_human_or_machine_def
      btree.put_put rotation_scan.defs operation_scan.defs)

lemma sample_readers:
  "effective_reader_ids sample_state1 (id_repeat 5) = [id_repeat 1, id_repeat 2]"
  "effective_reader_ids sample_mutated2 (id_repeat 5) = [id_repeat 1]"
  "effective_reader_ids sample_rotated2 (id_repeat 5) = [id_repeat 1]"
  by (simp_all add: effective_reader_ids_def sample_mutated2_def sample_rotated2_def
      sample_state_defs Let_def bt_keys_def bts_insert_def)

lemma sample_rotations2: "apply_rotations sample_state1 sample_scan2 = Inr sample_rotated2"
proof -
  have "filter (bt_contains_key (st_items sample_mutated2)) (bt_keys (st_items sample_state1)) =
      [id_repeat 5]"
    by (simp add: sample_mutated2_def sample_state_defs Let_def bt_keys_def)
  moreover have "apply_item_rotation sample_state1 sample_scan2 (id_repeat 5) =
      Inr \<lparr>rs_next = sample_rotated2, rs_reader_rotations = bt_empty, rs_slot_rotations = bt_empty\<rparr>"
    by (simp add: apply_item_rotation_def sample_scan2_def sample_readers Let_def)
      (simp add: apply_reader_rotation_def apply_slot_rotation_def sample_mutated2_def
        sample_rotated2_def sample_state_defs Let_def checked_add_def btree.put_put)
  ultimately show ?thesis
    by (simp add: apply_rotations_def sample_scan2_def Let_def bt_is_empty_def)
qed

lemma truncate_extend [simp]:
  fixes r :: rotation_scan
  shows "rotation_scan.truncate (rotation_scan.extend r x) = r"
  by (simp add: rotation_scan.defs)

lemma sample_applied2:
  "apply_operations sample_hash sample_verify sample_state1 2 sample_operations2 = Inr sample_rotated2"
proof -
  obtain keys where run: "fold_results (apply_operation sample_hash sample_verify sample_state1 2)
     \<lparr>rs_next = sample_state1\<lparr>st_sequence := 2\<rparr>, rs_reader_rotations = bt_empty,
      rs_slot_rotations = bt_empty, os_mutation_keys = bt_empty\<rparr> sample_operations2 =
    Inr (rotation_scan.extend sample_scan2 (operation_scan.fields keys))"
    using sample_operation2 by blast
  have "validate_complete_state sample_hash sample_rotated2 = Inr ()"
    by (simp add: validate_complete_state_def sample_rotated2_def sample_state_defs Let_def
        bt_is_empty_def bt_keys_def bts_insert_def owner_is_human_def validate_current_item_def
        sample_slots2_def ips_access_mode_def is_human_or_machine_def validate_current_slot_def
        effective_role_def recipient_public_key_fingerprint_def sample_hash_def bt_contains_key_def)
  moreover have "bt_len (st_items sample_rotated2) \<le> max_items"
    by (simp add: sample_rotated2_def bt_len_def max_items_def)
  ultimately show ?thesis
    using sample_rotations2
    by (simp add: apply_operations_def run) (simp add: sample_operations2_def)
qed

lemma sample_hash2: "normalized_state_hash sample_hash sample_rotated2 = Inr (fixed_repeat 14)"
  by (simp add: normalized_state_hash_def normalized_state_preimage_def sample_rotated2_def
      sample_state_defs Let_def bt_values_def bt_keys_def bts_insert_def item_entry_def
      sample_slots2_def ips_access_mode_def grant_entries_def direct_entries_def
      witnessed_part_def st_witnessed_slots_def sample_hash_def vault_encoders_run framable_def
      map_filter_simps)

definition sample_state2 :: policy_state where
  "sample_state2 = append_revision (fixed_repeat 14) sample_rotated2"

lemma sample_revised2:
  "replay_revision sample_hash sample_verify (sample_genesis 1) (sample_state1, 1001)
     (1, sample_revision 1000 2 sample_operations2) = Inr (sample_state2, 1002)"
proof -
  have "validate_complete_owner_slots sample_rotated2 = Inr ()"
    by (simp add: validate_complete_owner_slots_def validate_item_owner_slots_def
        sample_rotated2_def sample_state_defs Let_def bt_values_def bt_keys_def bts_insert_def
        sample_slots2_def ips_access_mode_def cover_slot_def saturating_add_def)
  then show ?thesis
    using sample_revised [of sample_operations2 2 1 1001 1000 sample_state1 sample_rotated2]
      sample_applied2 sample_hash2
    by (simp add: sample_state2_def) (simp add: sample_state_defs Let_def)
qed

definition sample_journal :: policy_journal where
  "sample_journal =
     \<lparr>pj_genesis = sample_genesis 1,
      pj_revisions =
        [sample_revision 1000 1 sample_operations1, sample_revision 1000 2 sample_operations2]\<rparr>"

lemma sample_replayed1:
  assumes "b = 1000 \<or> b = 5000"
  shows "replayed sample_hash sample_verify (sample_genesis 1) bt_empty
     [sample_revision b 1 sample_operations1] sample_state1 (b + 1)"
proof -
  have "replayed sample_hash sample_verify (sample_genesis 1) bt_empty [] sample_state0 1000"
    using replayed.start [OF sample_genesis_state [of 1 bt_empty]]
    by (simp add: sample_state0_def sample_genesis_def)
  from replayed.step [OF this] show ?thesis
    using sample_revised1 [OF assms] by simp
qed

lemma sample_replay1:
  assumes "b = 1000 \<or> b = 5000"
  shows "replay_policy_with_catalog sample_hash sample_verify \<lparr>pj_genesis = sample_genesis 1,
      pj_revisions = [sample_revision b 1 sample_operations1]\<rparr> bt_empty = Inr sample_state1"
  using sample_replayed1 [OF assms] by (auto simp: replay_iff_replayed max_policy_revisions_def)

lemma sample_replayed2:
  "replayed sample_hash sample_verify (sample_genesis 1) bt_empty
     [sample_revision 1000 1 sample_operations1, sample_revision 1000 2 sample_operations2]
     sample_state2 1002"
  using replayed.step [OF sample_replayed1 [of 1000]] sample_revised2 by simp

lemma sample_replay:
  "replay_policy_with_catalog sample_hash sample_verify sample_journal bt_empty = Inr sample_state2"
  unfolding replay_iff_replayed
  using sample_replayed2 by (auto simp: sample_journal_def max_policy_revisions_def)

section \<open>What an accepted journal guarantees\<close>

lemma replayed_unique:
  "replayed H V g c rs s t \<Longrightarrow> replayed H V g c rs s' t' \<Longrightarrow> s' = s \<and> t' = t"
  by (auto simp: replayed_fold)

lemma replay_snoc:
  assumes "replay_policy_with_catalog H V \<lparr>pj_genesis = g, pj_revisions = rs\<rparr> c = Inr s"
    and "replay_policy_with_catalog H V \<lparr>pj_genesis = g, pj_revisions = rs @ [r]\<rparr> c = Inr s'"
  obtains t t' where "replayed H V g c rs s t" "replayed H V g c (rs @ [r]) s' t'"
    "replay_revision H V g (s, t) (length rs, r) = Inr (s', t')" "length rs < max_policy_revisions"
proof -
  obtain t where t: "replayed H V g c rs s t"
    using assms(1) by (auto simp: replay_iff_replayed)
  obtain t' where t': "replayed H V g c (rs @ [r]) s' t'" and "length rs < max_policy_revisions"
    using assms(2) by (auto simp: replay_iff_replayed)
  moreover from t' t have "replay_revision H V g (s, t) (length rs, r) = Inr (s', t')"
    by (auto elim!: replayed_snocE dest: replayed_unique)
  ultimately show thesis
    using that t by blast
qed

lemma replayed_prefix:
  assumes "replayed H V g c (rs @ rs') s' t'"
  obtains s t where "replayed H V g c rs s t" "history_extends s s'"
  using assms
proof (induction rs' arbitrary: s' t' thesis rule: rev_induct)
  case Nil
  then show ?case using history_extends_refl by auto
next
  case (snoc r rs')
  obtain u v where u: "replayed H V g c (rs @ rs') u v"
    and revision: "replay_revision H V g (u, v) (length (rs @ rs'), r) = Inr (s', t')"
    using snoc.prems(2) by (auto elim: replayed_snocE simp flip: append_assoc)
  obtain s t where s: "replayed H V g c rs s t" "history_extends s u"
    using snoc.IH [OF _ u] by blast
  have "nothing_reused u \<and> history_extends s u"
    using reuse.replay [OF u] s(2) by blast
  with growth.revision [OF revision] have "history_extends s s'"
    by blast
  with snoc.prems(1) s(1) show ?case by blast
qed

text \<open>
  C18. Changing who can read an item rotates its key. When an accepted revision leaves an item
  in place but changes the set of its effective readers, the item moves to the next key epoch,
  its descriptor is sealed under that epoch, and every direct slot belongs to that epoch and to
  a reader of the new set; so no slot of the new epoch is addressed to a removed reader.
\<close>

theorem reader_change_rotates_key:
  assumes "replay_policy_with_catalog H V \<lparr>pj_genesis = g, pj_revisions = rs\<rparr> c = Inr s"
    and "replay_policy_with_catalog H V \<lparr>pj_genesis = g, pj_revisions = rs @ [r]\<rparr> c = Inr s'"
    and "bt_get (st_items s) i = Some item" and "bt_get (st_items s') i = Some item'"
    and "effective_reader_ids s i \<noteq> effective_reader_ids s' i"
  shows "unat (ips_key_epoch item') = unat (ips_key_epoch item) + 1 \<and>
    dm_key_epoch (ips_descriptor item') = ips_key_epoch item' \<and>
    (\<forall>slot \<in> set (ips_direct_slots item').
       ds_key_epoch slot = ips_key_epoch item' \<and>
       ds_recipient_principal_id slot \<in> set (effective_reader_ids s' i))"
proof -
  obtain t t' where s: "replayed H V g c rs s t" and s': "replayed H V g c (rs @ [r]) s' t'"
    and revision: "replay_revision H V g (s, t) (length rs, r) = Inr (s', t')"
    by (rule replay_snoc [OF assms(1,2)])
  have "epochs_step s s'"
    using replay_revision_epochs [OF revision] reuse.replay [OF s] by blast
  then have "unat (ips_key_epoch item') = unat (ips_key_epoch item) + 1 \<and>
      dm_key_epoch (ips_descriptor item') = ips_key_epoch item'"
    using assms(3-5) unfolding epochs_step_def by metis
  moreover have "ds_key_epoch slot = ips_key_epoch item' \<and>
      ds_recipient_principal_id slot \<in> set (effective_reader_ids s' i)"
    if "slot \<in> set (ips_direct_slots item')" for slot
    using validate_complete_state_Inr(3) [OF replayed_complete [OF s'] assms(4)] that
    by (auto elim!: validate_current_item_slots validate_current_slot_Inr
        simp: set_effective_reader_ids)
  ultimately show ?thesis by blast
qed

theorem reader_change_rotates_key_witness:
  "\<exists>item'. bt_get (st_items sample_state2) (id_repeat 5) = Some item' \<and>
     unat (ips_key_epoch item') = 2 \<and>
     (\<forall>slot \<in> set (ips_direct_slots item').
        ds_recipient_principal_id slot \<in> set (effective_reader_ids sample_state2 (id_repeat 5)))"
proof -
  let ?item = "sample_item 1 (fixed_repeat 6) (bt_insert (id_repeat 2) Role_Reader bt_empty)
    sample_slots1" and ?item' = "sample_item 2 (fixed_repeat 7) bt_empty sample_slots2"
  have "replay_policy_with_catalog sample_hash sample_verify \<lparr>pj_genesis = sample_genesis 1,
      pj_revisions = [sample_revision 1000 1 sample_operations1]\<rparr> bt_empty = Inr sample_state1"
    by (simp add: sample_replay1)
  moreover have "replay_policy_with_catalog sample_hash sample_verify
      \<lparr>pj_genesis = sample_genesis 1, pj_revisions = [sample_revision 1000 1 sample_operations1] @
        [sample_revision 1000 2 sample_operations2]\<rparr> bt_empty = Inr sample_state2"
    using sample_replay by (simp add: sample_journal_def)
  moreover have "bt_get (st_items sample_state1) (id_repeat 5) = Some ?item"
    by (simp add: sample_state1_def append_revision_def sample_mutated1_def)
  moreover have item': "bt_get (st_items sample_state2) (id_repeat 5) = Some ?item'"
    by (simp add: sample_state2_def append_revision_def sample_rotated2_def)
  moreover have "effective_reader_ids sample_state2 = effective_reader_ids sample_rotated2"
    by (rule ext, rule grants_readers) (simp_all add: sample_state2_def append_revision_def)
  then have "effective_reader_ids sample_state1 (id_repeat 5) \<noteq>
      effective_reader_ids sample_state2 (id_repeat 5)"
    by (simp add: sample_readers)
  ultimately have "unat (ips_key_epoch ?item') = unat (ips_key_epoch ?item) + 1 \<and>
      dm_key_epoch (ips_descriptor ?item') = ips_key_epoch ?item' \<and>
      (\<forall>slot \<in> set (ips_direct_slots ?item'). ds_key_epoch slot = ips_key_epoch ?item' \<and>
        ds_recipient_principal_id slot \<in> set (effective_reader_ids sample_state2 (id_repeat 5)))"
    by (rule reader_change_rotates_key)
  then show ?thesis
    using item' by (simp add: sample_item_def)
qed

text \<open>
  C19. Every accepted journal leaves the vault with an owner, every owner is an active human
  principal, and on every item with direct slots each owner holds exactly one descriptor slot
  and exactly one body slot.
\<close>

theorem owners_keep_access:
  assumes "replay_policy_with_catalog H V j c = Inr s"
  shows "(\<exists>owner. bt_contains_key (st_owners s) owner) \<and>
    (\<forall>owner. bt_contains_key (st_owners s) owner \<longrightarrow>
       is_principal_of_kind s Kind_Human owner \<and>
       (\<forall>i item role. bt_get (st_items s) i = Some item \<longrightarrow> ips_direct_slots item \<noteq> [] \<longrightarrow>
          length (filter (\<lambda>slot. ds_content_role slot = role)
            (recipient_slots owner (ips_direct_slots item))) = 1))"
proof -
  obtain t where replayed: "replayed H V (pj_genesis j) c (pj_revisions j) s t"
    using assms by (auto simp: replay_iff_replayed)
  note complete = validate_complete_state_Inr [OF replayed_complete [OF replayed]]
  have "is_principal_of_kind s Kind_Human owner" if "bt_contains_key (st_owners s) owner" for owner
    using complete(2) [OF that] by (auto simp: owner_is_human_def is_principal_of_kind_def
        split: option.splits)
  then show ?thesis
    using complete(1) owner_slots_complete [OF replayed_owner_slots [OF replayed]] by blast
qed

theorem owners_keep_access_witness:
  "bt_contains_key (st_owners sample_state2) (id_repeat 1) \<and>
   length (filter (\<lambda>slot. ds_content_role slot = Content_Body)
     (recipient_slots (id_repeat 1) sample_slots2)) = 1"
proof -
  have owner: "bt_contains_key (st_owners sample_state2) (id_repeat 1)"
    by (simp add: sample_state2_def append_revision_def sample_rotated2_def sample_state_defs Let_def)
  moreover have "bt_get (st_items sample_state2) (id_repeat 5) =
      Some (sample_item 2 (fixed_repeat 7) bt_empty sample_slots2)"
    by (simp add: sample_state2_def append_revision_def sample_rotated2_def)
  moreover have "ips_direct_slots (sample_item 2 (fixed_repeat 7) bt_empty sample_slots2) =
      sample_slots2" "sample_slots2 \<noteq> []"
    by (simp_all add: sample_item_def sample_slots2_def)
  ultimately show ?thesis
    using owners_keep_access [OF sample_replay] by metis
qed

text \<open>
  C20. Nothing is ever reused or forgotten. In every replayed state two recorded principals never
  share a recipient key or a verification key, every identifier of a principal ever used has its
  descriptor on record, and every item identifier ever used is either active or tombstoned, never
  both. Looking back along the journal: the descriptor of every principal that was active after
  some prefix, since removed or not, is on record as it was, and every item that was active after
  some prefix is still active or has a tombstone.
\<close>

theorem replay_never_reuses:
  assumes "replay_policy_with_catalog H V \<lparr>pj_genesis = g, pj_revisions = rs @ rs'\<rparr> c = Inr s"
    and "replay_policy_with_catalog H V \<lparr>pj_genesis = g, pj_revisions = rs\<rparr> c = Inr before"
  shows "history_recorded s \<and> keys_unique s \<and> items_recorded s \<and>
    (\<forall>p m. st_principal before p = Some m \<longrightarrow>
       bt_get (st_historical_principal_descriptors s) p = Some (pps_descriptor m)) \<and>
    (\<forall>i. st_item before i \<noteq> None \<longrightarrow>
       (st_item s i \<noteq> None) \<noteq> bt_contains_key (st_tombstones s) i)"
proof -
  obtain t t' where s: "replayed H V g c (rs @ rs') s t" and before: "replayed H V g c rs before t'"
    using assms by (auto simp: replay_iff_replayed)
  have "history_extends before s"
    by (rule replayed_prefix [OF s]) (use before replayed_unique in blast)
  moreover have "nothing_reused s" "nothing_reused before"
    using reuse.replay s before by blast+
  moreover from calculation have "bt_contains_key (st_items s) i \<noteq> bt_contains_key (st_tombstones s) i"
    if "bt_contains_key (st_items before) i" for i
    using that unfolding nothing_reused_def items_recorded_def history_extends_def by metis
  ultimately show ?thesis
    by (auto simp: nothing_reused_def history_recorded_def history_extends_def st_principal_def
        st_item_def bt_contains_key_def)
qed

lemma sample_replays:
  "replay_policy_with_catalog sample_hash sample_verify
     \<lparr>pj_genesis = sample_genesis 1, pj_revisions = [sample_revision 1000 1 sample_operations1] @
       [sample_revision 1000 2 sample_operations2]\<rparr> bt_empty = Inr sample_state2"
  using sample_replay by (simp add: sample_journal_def)

theorem replay_never_reuses_witness:
  "keys_unique sample_state2 \<and>
   bt_get (st_historical_principal_descriptors sample_state2) (id_repeat 2) =
     Some (sample_descriptor 2 Kind_Machine)"
proof -
  have "st_principal sample_state1 (id_repeat 2) =
      Some \<lparr>pps_descriptor = sample_descriptor 2 Kind_Machine, pps_display_label = ''ci''\<rparr>"
    by (simp add: st_principal_def sample_state_defs Let_def)
  then show ?thesis
    using replay_never_reuses [OF sample_replays sample_replay1 [of 1000]] by fastforce
qed

text \<open>
  C21. History only grows: extending an accepted journal keeps the recorded descriptor of every
  principal exactly as it was, keys and kind included (so signatures of removed authors stay
  verifiable), every used item identifier, and every tombstone exactly as it was; a tombstoned
  item never becomes active again.
\<close>

theorem history_only_grows:
  assumes "replay_policy_with_catalog H V \<lparr>pj_genesis = g, pj_revisions = rs\<rparr> c = Inr s"
    and "replay_policy_with_catalog H V \<lparr>pj_genesis = g, pj_revisions = rs @ rs'\<rparr> c = Inr s'"
  shows "(\<forall>p d. bt_get (st_historical_principal_descriptors s) p = Some d \<longrightarrow>
       bt_get (st_historical_principal_descriptors s') p = Some d) \<and>
    (\<forall>p key. st_verification_key s p = Some key \<longrightarrow> st_verification_key s' p = Some key) \<and>
    (\<forall>i. bt_contains_key (st_historical_item_ids s) i \<longrightarrow>
       bt_contains_key (st_historical_item_ids s') i) \<and>
    (\<forall>i tombstone. bt_get (st_tombstones s) i = Some tombstone \<longrightarrow>
       bt_get (st_tombstones s') i = Some tombstone \<and> \<not> bt_contains_key (st_items s') i)"
proof -
  obtain t t' where s: "replayed H V g c rs s t" and s': "replayed H V g c (rs @ rs') s' t'"
    using assms by (auto simp: replay_iff_replayed)
  have "history_extends s s'"
    by (rule replayed_prefix [OF s']) (use s replayed_unique in blast)
  moreover have "items_recorded s'"
    using reuse.replay [OF s'] by (simp add: nothing_reused_def)
  ultimately show ?thesis
    by (auto simp: history_extends_def st_verification_key_def items_recorded_def
        bt_contains_key_def)
qed

theorem history_only_grows_witness:
  "bt_get (st_historical_principal_descriptors sample_state2) (id_repeat 2) =
     Some (sample_descriptor 2 Kind_Machine) \<and>
   st_verification_key sample_state2 (id_repeat 2) = Some (fixed_repeat 2)"
proof -
  have "bt_get (st_historical_principal_descriptors sample_state1) (id_repeat 2) =
      Some (sample_descriptor 2 Kind_Machine)"
    by (simp add: sample_state_defs Let_def)
  moreover have "st_verification_key sample_state1 (id_repeat 2) = Some (fixed_repeat 2)"
    by (simp add: st_verification_key_def sample_state_defs Let_def)
  ultimately show ?thesis
    using history_only_grows [OF sample_replay1 [of 1000] sample_replays] by blast
qed

text \<open>
  C22. Every revision of an accepted journal was authored by an owner of the state just before
  it, and carries a signature that verifies under the key that owner had in that state, over
  the canonical bytes of exactly that revision.
\<close>

theorem revisions_signed_by_owners:
  assumes "replay_policy_with_catalog H V j c = Inr s" and "i < length (pj_revisions j)"
  shows "\<exists>before author preimage.
    replay_policy_with_catalog H V (j\<lparr>pj_revisions := take i (pj_revisions j)\<rparr>) c = Inr before \<and>
    st_is_owner before (spr_author_principal_id (pj_revisions j ! i)) \<and>
    st_principal before (spr_author_principal_id (pj_revisions j ! i)) = Some author \<and>
    spr_signature_preimage (pj_revisions j ! i) = Inr preimage \<and>
    V (pd_verification_public_key (pps_descriptor author)) preimage
      (spr_signature (pj_revisions j ! i))"
proof -
  let ?rs = "pj_revisions j"
  obtain t where "replayed H V (pj_genesis j) c ?rs s t" and len: "length ?rs \<le> max_policy_revisions"
    using assms(1) by (auto simp: replay_iff_replayed)
  moreover have "?rs = (take i ?rs @ [?rs ! i]) @ drop (Suc i) ?rs"
    using assms(2) by (simp add: id_take_nth_drop)
  ultimately obtain s1 t1 where "replayed H V (pj_genesis j) c (take i ?rs @ [?rs ! i]) s1 t1"
    using replayed_prefix by metis
  then obtain before t0 where before: "replayed H V (pj_genesis j) c (take i ?rs) before t0"
    and revision: "replay_revision H V (pj_genesis j) (before, t0)
      (length (take i ?rs), ?rs ! i) = Inr (s1, t1)"
    by (auto elim: replayed_snocE)
  have "replay_policy_with_catalog H V (j\<lparr>pj_revisions := take i ?rs\<rparr>) c = Inr before"
    using before len assms(2) by (auto simp: replay_iff_replayed)
  then show ?thesis
    by (rule_tac replay_revision_Inr [OF revision])
      (auto simp: st_is_owner_def st_principal_def)
qed

theorem revisions_signed_by_owners_witness:
  "\<exists>before. replay_policy_with_catalog sample_hash sample_verify
      (sample_journal\<lparr>pj_revisions := take 1 (pj_revisions sample_journal)\<rparr>) bt_empty = Inr before \<and>
    st_is_owner before (id_repeat 1)"
  using revisions_signed_by_owners [OF sample_replay, of 1]
  by (auto simp: sample_journal_def sample_revision_def)

text \<open>
  C23. The replayed state is the end of a hash chain over the whole journal: the first hash is
  the fingerprint of the genesis, every revision names its predecessor's hash, its position and
  the vault, the list of hashes is the one the state keeps, and each state is a direct
  descendant of the one before its last revision.
\<close>

theorem replay_is_hash_chain:
  assumes "replay_policy_with_catalog H V j c = Inr s"
  shows "hash_chain H (pj_genesis j) (pj_revisions j) (st_revision_hashes s) \<and>
    st_terminal_revision_hash s = last (st_revision_hashes s) \<and>
    unat (st_sequence s) = length (pj_revisions j) \<and>
    (\<forall>rs r before. pj_revisions j = rs @ [r] \<longrightarrow>
       replay_policy_with_catalog H V (j\<lparr>pj_revisions := rs\<rparr>) c = Inr before \<longrightarrow>
       is_direct_descendant_of s before)"
proof -
  obtain t where replayed: "replayed H V (pj_genesis j) c (pj_revisions j) s t"
    and len: "length (pj_revisions j) \<le> max_policy_revisions"
    using assms by (auto simp: replay_iff_replayed)
  have chain: "chain_end H (pj_genesis j) (pj_revisions j) s"
    by (rule replayed_chain [OF replayed])
  have "length (pj_revisions j) < 2 ^ 64"
    using len by (simp add: max_policy_revisions_def)
  then have "unat (st_sequence s) = length (pj_revisions j)"
    using chain unat_word_of_nat_u64 by (simp add: chain_end_def)
  moreover have "is_direct_descendant_of s before"
    if ends: "pj_revisions j = rs @ [r]"
      and before: "replay_policy_with_catalog H V (j\<lparr>pj_revisions := rs\<rparr>) c = Inr before" for rs r before
  proof -
    obtain u where u: "replayed H V (pj_genesis j) c rs before u"
      using before by (auto simp: replay_iff_replayed)
    then have "replay_revision H V (pj_genesis j) (before, u) (length rs, r) = Inr (s, t)"
      using replayed ends by (auto elim!: replayed_snocE dest: replayed_unique)
    then show ?thesis
      using replayed_direct_descendant [OF u] len ends by simp
  qed
  ultimately show ?thesis
    using chain by (auto simp: chain_end_def)
qed

theorem replay_is_hash_chain_witness:
  "hash_chain sample_hash (sample_genesis 1)
     [sample_revision 1000 1 sample_operations1, sample_revision 1000 2 sample_operations2]
     [fixed_repeat 14, fixed_repeat 14, fixed_repeat 14] \<and>
   unat (st_sequence sample_state2) = 2"
  using replay_is_hash_chain [OF sample_replay]
  by (simp add: sample_journal_def sample_state2_def append_revision_def sample_rotated2_def
      sample_state1_def sample_mutated1_def record_descriptor_def sample_state0_def
      genesis_state_def Let_def)

text \<open>
  C24. The terminal hash of a state binds its journal: two accepted journals of the same length
  that end in the same hash have the same revisions, operation by operation up to the witnessed
  slots their signed digests stand for, and the same genesis fingerprint, unless some two
  revisions at the same position are a collision of the hash.
\<close>

theorem terminal_hash_binds_journal:
  assumes "replay_policy_with_catalog H V j c = Inr s"
    and "replay_policy_with_catalog H V' j' c' = Inr s'"
    and "length (pj_revisions j) = length (pj_revisions j')"
    and "st_terminal_revision_hash s = st_terminal_revision_hash s'"
  shows "map revision_view (pj_revisions j) = map revision_view (pj_revisions j') \<and>
      st_genesis_fingerprint s = st_genesis_fingerprint s' \<or>
    (\<exists>i < length (pj_revisions j).
       raw_collision H spr_hash_preimage (pj_revisions j ! i) (pj_revisions j' ! i))"
proof -
  obtain t t' where "replayed H V (pj_genesis j) c (pj_revisions j) s t"
    and "replayed H V' (pj_genesis j') c' (pj_revisions j') s' t'"
    using assms(1,2) by (auto simp: replay_iff_replayed)
  then have "chain_end H (pj_genesis j) (pj_revisions j) s"
    and "chain_end H (pj_genesis j') (pj_revisions j') s'"
    using replayed_chain(1) by blast+
  then show ?thesis
    using chain_binds [of H "pj_genesis j" "pj_revisions j" "st_revision_hashes s" "pj_genesis j'"
        "pj_revisions j'" "st_revision_hashes s'"] assms(3,4)
    by (simp add: chain_end_def)
qed

theorem terminal_hash_binds_journal_witness:
  "raw_collision sample_hash spr_hash_preimage (sample_revision 1000 1 sample_operations1)
     (sample_revision 5000 1 sample_operations1)"
proof -
  have "map revision_view [sample_revision 1000 1 sample_operations1] \<noteq>
      map revision_view [sample_revision 5000 1 sample_operations1]"
    by (simp add: revision_view_def sample_revision_def)
  then show ?thesis
    using terminal_hash_binds_journal [OF sample_replay1 [of 1000] sample_replay1 [of 5000]] by simp
qed

text \<open>
  C25. A prepared revision is accepted: when an owner's signer makes signatures that verify under
  its descriptor, and its clock is not behind the journal, the revision it
  prepares extends the journal, and replaying the longer journal gives
  exactly the state it returned; there is always room for it.
\<close>

theorem prepared_revision_accepted:
  assumes "replay_policy_with_catalog H V j c = Inr s"
    and "prepare_with_signer H V s signer timestamp operations = Inr p"
    and "\<And>d m sig. sg_descriptor signer = Inr d \<Longrightarrow> sg_sign signer m = Inr sig \<Longrightarrow>
      V (pd_verification_public_key d) m sig"
    and "pg_created_at_ms (pj_genesis j) \<le> timestamp"
    and "\<And>r. r \<in> set (pj_revisions j) \<Longrightarrow> spr_timestamp_ms r \<le> timestamp"
  shows "replay_policy_with_catalog H V
    (j\<lparr>pj_revisions := pj_revisions j @ [ppr_revision p]\<rparr>) c = Inr (ppr_state p)"
proof -
  obtain t where t: "replayed H V (pj_genesis j) c (pj_revisions j) s t"
    and len: "length (pj_revisions j) \<le> max_policy_revisions"
    using assms(1) by (auto simp: replay_iff_replayed)
  have "t \<le> timestamp"
  proof (cases "pj_revisions j" rule: rev_cases)
    case Nil
    then show ?thesis using t assms(4) by (auto elim!: replayed_NilE)
  next
    case (snoc rs r)
    then show ?thesis
      using t assms(5) by (auto elim!: replayed_snocE replay_revision_Inr)
  qed
  then show ?thesis
    using prepared_replays [OF t len assms(2) _ assms(3)] by (auto simp: replay_iff_replayed)
qed

definition sample_signer :: policy_signer where
  "sample_signer =
     \<lparr>sg_principal_id = id_repeat 1, sg_descriptor = Inr (sample_descriptor 1 Kind_Human),
      sg_sign = (\<lambda>_. Inr (fixed_repeat 1))\<rparr>"

lemma sample_prepared:
  "prepare_with_signer sample_hash sample_verify sample_state1 sample_signer 1002 sample_operations2 =
     Inr \<lparr>ppr_revision = sample_revision 1000 2 sample_operations2, ppr_state = sample_state2\<rparr>"
proof -
  have revision: "\<lparr>spr_vault_id = id_repeat 9, spr_sequence = 2,
      spr_previous_revision_hash = fixed_repeat 14, spr_timestamp_ms = 1002,
      spr_author_principal_id = id_repeat 1, spr_operations = sample_operations2,
      spr_resulting_policy_state_hash = fixed_repeat 14, spr_signature = signature\<rparr> =
    sample_revision 1000 2 sample_operations2\<lparr>spr_signature := signature\<rparr>" for signature
    by (simp add: sample_revision_def)
  have unsigned: "spr_signature_preimage (sample_revision 1000 2 sample_operations2
      \<lparr>spr_signature := signature\<rparr>) = spr_signature_preimage
        (sample_revision 1000 2 sample_operations2)" for signature
    by (simp add: spr_signature_preimage_def)
  have signed: "sample_revision 1000 2 sample_operations2\<lparr>spr_signature := fixed_repeat 1\<rparr> =
      sample_revision 1000 2 sample_operations2"
    by (simp add: sample_revision_def)
  obtain preimage where "spr_signature_preimage (sample_revision 1000 2 sample_operations2) = Inr preimage"
    using sample_revision_hash(1) by blast
  moreover have "bt_contains_key (st_owners sample_state1) (id_repeat 1)"
    "bt_get (st_principals sample_state1) (id_repeat 1) =
       Some \<lparr>pps_descriptor = sample_descriptor 1 Kind_Human, pps_display_label = ''owner''\<rparr>"
    "st_sequence sample_state1 = 1" "st_vault_id sample_state1 = id_repeat 9"
    "st_terminal_revision_hash sample_state1 = fixed_repeat 14"
    by (simp_all add: sample_state_defs Let_def)
  moreover have "checked_add (1 :: u64) 1 = Some 2"
    by (simp add: checked_add_def)
  moreover have "validate_complete_owner_slots sample_rotated2 = Inr ()"
    using replayed_owner_slots [OF sample_replayed2] by (simp add: sample_state2_def)
  moreover have "\<not> (2 :: u64) > word_of_nat max_policy_revisions"
    by (simp add: max_policy_revisions_def)
  ultimately show ?thesis
    by (simp add: prepare_with_signer_def Let_def sample_signer_def sample_applied2 sample_hash2
        revision unsigned signed sample_revision_hash sample_state2_def)
qed

theorem prepared_revision_accepted_witness:
  "replay_policy_with_catalog sample_hash sample_verify
     \<lparr>pj_genesis = sample_genesis 1, pj_revisions =
       [sample_revision 1000 1 sample_operations1] @ [sample_revision 1000 2 sample_operations2]\<rparr>
     bt_empty = Inr sample_state2"
  using prepared_revision_accepted [OF sample_replay1 [of 1000] sample_prepared]
  by (simp add: sample_verify_def sample_genesis_def sample_revision_def)

lemma replayed_item_count:
  assumes "replayed H V g c rs s t"
  shows "bt_len (st_items s) \<le> max_items"
  using assms
proof (induction rule: replayed.induct)
  case (start s)
  then show ?case
    by (auto elim!: replay_genesis_Inr simp: genesis_state_def Let_def bt_len_def)
next
  case (step rs s t r s' t')
  show ?case
    by (rule replay_revision_Inr [OF step.hyps(2)])
      (use step.IH apply_operations_complete(2) in
        \<open>auto simp: append_revision_def split: if_split_asm\<close>)
qed



section \<open>The suite of a lineage\<close>

text \<open>
  C27. The genesis signature and the genesis fingerprint do not cover the suite: rewriting the
  suite of a genesis changes neither, so a journal without revisions that is accepted under one
  suite is accepted under the other, with the same signature and the same fingerprint.
\<close>

theorem genesis_does_not_bind_suite:
  assumes "replay_policy_with_catalog H V \<lparr>pj_genesis = g, pj_revisions = []\<rparr> c = Inr s"
    and "suite = 1 \<or> suite = 2"
  shows "replay_policy_with_catalog H V \<lparr>pj_genesis = g\<lparr>pg_suite := suite\<rparr>, pj_revisions = []\<rparr> c =
      Inr (s\<lparr>st_suite := suite\<rparr>) \<and>
    pg_signature_preimage (g\<lparr>pg_suite := suite\<rparr>) = pg_signature_preimage g \<and>
    st_genesis_fingerprint (s\<lparr>st_suite := suite\<rparr>) = st_genesis_fingerprint s"
proof -
  have preimage: "pg_signature_preimage (g\<lparr>pg_suite := suite\<rparr>) = pg_signature_preimage g"
    by (simp add: pg_signature_preimage_def)
  then have fingerprint: "pg_recomputed_fingerprint H (g\<lparr>pg_suite := suite\<rparr>) =
      pg_recomputed_fingerprint H g"
    by (simp add: pg_recomputed_fingerprint_def pg_fingerprint_preimage_def)
  have "replay_policy_with_catalog H V \<lparr>pj_genesis = g\<lparr>pg_suite := suite\<rparr>, pj_revisions = []\<rparr> c =
      Inr (s\<lparr>st_suite := suite\<rparr>)"
    using assms preimage fingerprint
    by (auto simp: replay_policy_with_catalog_def replay_genesis_def Let_def result_simps
        genesis_state_def max_policy_revisions_def split: if_split_asm)
  with preimage show ?thesis by simp
qed

theorem genesis_does_not_bind_suite_witness:
  "replay_policy_with_catalog sample_hash sample_verify
     \<lparr>pj_genesis = sample_genesis 1\<lparr>pg_suite := 2\<rparr>, pj_revisions = []\<rparr> bt_empty =
   Inr (sample_state0\<lparr>st_suite := 2\<rparr>)"
proof -
  have "replay_policy_with_catalog sample_hash sample_verify
      \<lparr>pj_genesis = sample_genesis 1, pj_revisions = []\<rparr> bt_empty = Inr sample_state0"
    by (simp add: replay_policy_with_catalog_def sample_genesis_state sample_state0_def)
  then show ?thesis
    using genesis_does_not_bind_suite [of _ _ _ _ sample_state0 2] by blast
qed

lemma normalized_preimage_suite:
  assumes "normalized_state_preimage H s = Inr p" and "normalized_state_preimage H s' = Inr p"
  shows "st_suite s = st_suite s'"
  using assms by (auto simp: normalized_state_preimage_def and_then_Inr enc_inj)

lemma normalized_preimage_append [simp]:
  "normalized_state_preimage H (append_revision h s) = normalized_state_preimage H s"
proof -
  have "direct_entries (append_revision h s) = direct_entries s"
    "st_witnessed_slots (append_revision h s) = st_witnessed_slots s"
    by (simp_all add: direct_entries_def st_witnessed_slots_def append_revision_def)
  then have "witnessed_part H (append_revision h s) = witnessed_part H s"
    by (simp add: witnessed_part_def)
  then show ?thesis
    unfolding normalized_state_preimage_def \<open>direct_entries _ = _\<close>
    by (simp add: append_revision_def)
qed

lemma replayed_state_hash:
  assumes "replayed H V g c (rs @ [r]) s t"
  shows "normalized_state_hash H s = Inr (spr_resulting_policy_state_hash r)"
  using assms by (auto elim!: replayed_snocE replay_revision_Inr simp: normalized_state_hash_def)

text \<open>
  C28. From its first revision on a journal does bind the suite: when the same non-empty list of
  revisions is accepted under a genesis of another suite, the canonical bytes of the two
  resulting states are a collision of the hash.
\<close>

theorem revisions_bind_suite:
  assumes "replay_policy_with_catalog H V \<lparr>pj_genesis = g, pj_revisions = rs\<rparr> c = Inr s"
    and "replay_policy_with_catalog H V' \<lparr>pj_genesis = g', pj_revisions = rs\<rparr> c' = Inr s'"
    and "rs \<noteq> []" and "pg_suite g \<noteq> pg_suite g'"
  shows "raw_collision H (normalized_state_preimage H) s s'"
proof -
  obtain ys r where rs: "rs = ys @ [r]"
    using assms(3) by (cases rs rule: rev_cases) auto
  obtain t t' where t: "replayed H V g c rs s t" and t': "replayed H V' g' c' rs s' t'"
    using assms(1,2) by (auto simp: replay_iff_replayed)
  have "st_suite s \<noteq> st_suite s'"
    using replayed_chain(1) [OF t] replayed_chain(1) [OF t'] assms(4) by (simp add: chain_end_def)
  moreover have "normalized_state_hash H s = normalized_state_hash H s'"
    "\<exists>h. normalized_state_hash H s = Inr h"
    using replayed_state_hash t t' unfolding rs by metis+
  ultimately show ?thesis
    using normalized_preimage_suite [of H s _ s']
    by (auto simp: normalized_state_hash_def and_then_Inr raw_collision_def collision_def)
qed

lemma sample_bound_suite:
  assumes "suite = 1 \<or> suite = 2"
  shows "\<exists>s. replay_policy_with_catalog sample_hash sample_verify
    \<lparr>pj_genesis = sample_genesis suite, pj_revisions = [sample_revision 1000 1 sample_operations0]\<rparr>
    bt_empty = Inr s"
proof -
  let ?s = "genesis_state (sample_genesis suite) (fixed_repeat 14) bt_empty"
  let ?after = "(record_descriptor (sample_descriptor 2 Kind_Machine) ?s)
      \<lparr>st_sequence := 1,
       st_principals := bt_insert (id_repeat 2)
         \<lparr>pps_descriptor = sample_descriptor 2 Kind_Machine, pps_display_label = ''ci''\<rparr>
         (st_principals ?s)\<rparr>"
  have "validate_complete_state sample_hash ?after = Inr ()"
    by (simp add: validate_complete_state_def genesis_state_def Let_def bt_is_empty_def bt_keys_def
        bts_insert_def record_descriptor_def sample_genesis_def owner_is_human_def)
  then have "apply_operations sample_hash sample_verify ?s 1 sample_operations0 = Inr ?after"
    by (simp add: apply_operations_def sample_operations0_def apply_operation_def
        validate_policy_operation_context_def f_validate_descriptor_def validate_label_def
        max_public_label_bytes_def add_principal_def validate_descriptor_def sample_verify_def
        identifier_was_used_def genesis_state_def Let_def sample_genesis_def record_descriptor_def
        rotation_scan.defs apply_rotations_def bt_keys_def bt_is_empty_def bt_len_def)
  moreover have "normalized_state_hash sample_hash ?after = Inr (fixed_repeat 14)"
    by (simp add: normalized_state_hash_def normalized_state_preimage_def genesis_state_def Let_def
        sample_genesis_def record_descriptor_def bt_values_def bt_keys_def bts_insert_def
        direct_entries_def witnessed_part_def st_witnessed_slots_def sample_hash_def
        vault_encoders_run framable_def map_filter_simps)
  moreover have "validate_complete_owner_slots ?after = Inr ()"
    by (simp add: validate_complete_owner_slots_def genesis_state_def Let_def record_descriptor_def
        bt_values_def)
  ultimately have "replay_revision sample_hash sample_verify (sample_genesis suite) (?s, 1000)
      (0, sample_revision 1000 1 sample_operations0) =
    Inr (append_revision (fixed_repeat 14) ?after, 1001)"
    using sample_revised [of sample_operations0 1 0 1000 1000 ?s ?after]
    by (simp add: genesis_state_def sample_genesis_def Let_def)
  moreover have "replayed sample_hash sample_verify (sample_genesis suite) bt_empty [] ?s 1000"
    using replayed.start [OF sample_genesis_state [OF assms, of bt_empty]]
    by (simp add: sample_genesis_def)
  ultimately have "replayed sample_hash sample_verify (sample_genesis suite) bt_empty
      [sample_revision 1000 1 sample_operations0] (append_revision (fixed_repeat 14) ?after) 1001"
    using replayed.step by fastforce
  then show ?thesis
    by (auto simp: replay_iff_replayed max_policy_revisions_def)
qed

theorem revisions_bind_suite_witness:
  "\<exists>s s'. raw_collision sample_hash (normalized_state_preimage sample_hash) s s'"
proof -
  obtain s s' where
    "replay_policy_with_catalog sample_hash sample_verify \<lparr>pj_genesis = sample_genesis 1,
       pj_revisions = [sample_revision 1000 1 sample_operations0]\<rparr> bt_empty = Inr s"
    "replay_policy_with_catalog sample_hash sample_verify \<lparr>pj_genesis = sample_genesis 2,
       pj_revisions = [sample_revision 1000 1 sample_operations0]\<rparr> bt_empty = Inr s'"
    using sample_bound_suite [of 1] sample_bound_suite [of 2] by blast
  then show ?thesis
    using revisions_bind_suite [of sample_hash sample_verify "sample_genesis 1" _ bt_empty s
        sample_verify "sample_genesis 2" bt_empty s']
    by (auto simp: sample_genesis_def)
qed

end
