(* ===== verification/Jury_Policy_Quorum.thy ===== *)
theory Jury_Policy_Quorum
  imports Jury_Policy_Theorems
begin

text \<open>
  The theorems on witness policies and on access: what a valid policy guarantees about its
  quorum, what its digest binds, that the catalog given to replay consists of linear lineages,
  and who may use an item of a replayed state.
\<close>

section \<open>A policy\<close>

definition sample_approver :: approver_policy_descriptor where
  "sample_approver =
     \<lparr>apd_schema = 1, apd_approver_id = id_repeat 21, apd_signing_public_key = fixed_repeat 21,
      apd_signing_key_fingerprint = fixed_repeat 14, apd_signing_key_epoch = 1,
      apd_status = Status_Active, apd_approval_mode = CoreApproval_Human,
      apd_allowed_operations = [Core_ReadStdout], apd_created_at_ms = 1000,
      apd_self_signature = fixed_repeat 1\<rparr>"

definition sample_member :: "u8 \<Rightarrow> witness_policy_descriptor" where
  "sample_member n =
     \<lparr>wpd_schema = 1, wpd_witness_id = id_repeat n, wpd_share_index = n,
      wpd_signing_public_key = fixed_repeat n, wpd_signing_key_fingerprint = fixed_repeat 14,
      wpd_signing_key_epoch = 1, wpd_contribution_public_key = fixed_repeat n,
      wpd_contribution_key_fingerprint = fixed_repeat 14, wpd_contribution_key_epoch = 1,
      wpd_status = Status_Active, wpd_created_at_ms = 1000, wpd_self_signature = fixed_repeat 1\<rparr>"

definition sample_rule :: "u64 \<Rightarrow> operation_rule" where
  "sample_rule lifetime =
     \<lparr>or_operation = Core_ReadStdout, or_eligible_approver_ids = [id_repeat 21],
      or_approval_threshold = 1, or_allowed_request_lifetime_ms = lifetime,
      or_max_timeout_ms = 1000, or_max_output_bytes = 1000, or_max_target_count = 1,
      or_required_platform_assurance = CorePlatform_NormalizedPathOnly,
      or_automatic_read_targets = []\<rparr>"

definition sample_policy :: "u64 \<Rightarrow> witness_policy" where
  "sample_policy lifetime =
     \<lparr>wp_schema = 1, wp_witness_policy_id = id_repeat 31, wp_revision = 1,
      wp_predecessor_policy_digest = zero_digest, wp_vault_id = id_repeat 9,
      wp_genesis_fingerprint = fixed_repeat 14, wp_vault_policy_sequence = 1,
      wp_vault_policy_hash = fixed_repeat 14, wp_construction = 1, wp_suite = 1,
      wp_approver_descriptors = [sample_approver],
      wp_witness_descriptors = [sample_member 22, sample_member 23],
      wp_witness_threshold = 2, wp_operation_rules = [sample_rule lifetime],
      wp_review_label_set_digest = fixed_repeat 3, wp_direct_fallback = False\<rparr>"

lemma policy_encoders_run [run_simps]: "framable v \<Longrightarrow> p_bytes_field v = Inr (frame v)"
  by (simp add: result_simps)

lemma sample_policy_valid:
  assumes "lifetime = 1000 \<or> lifetime = 2000"
  shows "wp_validate sample_hash sample_verify (sample_policy lifetime) = Inr ()"
  using assms
  by (auto simp: wp_validate_def sample_policy_def Let_def max_policy_members_def max_operations_def
      apd_validate_def wpd_validate_def or_validate_def sample_approver_def sample_member_def
      sample_rule_def signing_key_fingerprint_def recipient_public_key_fingerprint_def
      sample_hash_def sample_verify_def apd_self_signature_preimage_def
      wpd_self_signature_preimage_def apd_canonical_body_def wpd_canonical_body_def
      preimage_with_body_def policy_encoders_run vault_encoders_run framable_def
      max_request_lifetime_ms_def max_automatic_targets_def bt_len_def bts_of_list_def
      bts_insert_def wp_active_witnesses_def wp_validate_rule_approvers_def
      wp_active_approvers_def bt_get_of_entries)

lemma sample_policy_digest:
  "wp_digest sample_hash (sample_policy lifetime) = Inr (fixed_repeat 14)"
  by (simp add: wp_digest_def wp_canonical_body_def hash_body_def preimage_with_body_def
      sample_policy_def apd_canonical_bytes_def apd_canonical_body_def wpd_canonical_bytes_def
      wpd_canonical_body_def or_canonical_bytes_def sample_approver_def sample_member_def
      sample_rule_def policy_encoders_run vault_encoders_run framable_def sample_hash_def)

section \<open>Witness policies\<close>

text \<open>
  C29. A valid witness policy is a real quorum: at least two and at most 32 active witnesses with
  distinct share indices, a threshold of at least two that the active witnesses can reach, no
  identifier and no signing key shared between any two approvers or witnesses, and no direct
  fallback. Every approver a rule names is active and allowed that operation, the rule's
  threshold can be reached, and only a read of listed targets may need no approval.
\<close>

theorem valid_policy_is_quorum:
  assumes "wp_validate H V p = Inr ()"
  shows "2 \<le> unat (wp_witness_threshold p) \<and>
    unat (wp_witness_threshold p) \<le> length (wp_active_witnesses p) \<and>
    length (wp_active_witnesses p) \<le> 32 \<and>
    distinct (map wpd_share_index (wp_active_witnesses p)) \<and>
    distinct (map apd_approver_id (wp_approver_descriptors p) @
      map wpd_witness_id (wp_witness_descriptors p)) \<and>
    distinct (map apd_signing_public_key (wp_approver_descriptors p) @
      map wpd_signing_public_key (wp_witness_descriptors p)) \<and>
    \<not> wp_direct_fallback p \<and>
    (\<forall>rule \<in> set (wp_operation_rules p).
       distinct (or_eligible_approver_ids rule) \<and>
       unat (or_approval_threshold rule) \<le> length (or_eligible_approver_ids rule) \<and>
       (or_approval_threshold rule = 0 \<longrightarrow>
          or_operation rule = Core_ReadStdout \<and> or_automatic_read_targets rule \<noteq> []) \<and>
       (\<forall>a \<in> set (or_eligible_approver_ids rule).
          \<exists>d \<in> set (wp_approver_descriptors p). apd_approver_id d = a \<and>
            apd_status d = Status_Active \<and> or_operation rule \<in> set (apd_allowed_operations d)))"
proof -
  note valid = wp_validate_Inr [OF assms]
  have "distinct (or_eligible_approver_ids rule) \<and>
       unat (or_approval_threshold rule) \<le> length (or_eligible_approver_ids rule) \<and>
       (or_approval_threshold rule = 0 \<longrightarrow>
          or_operation rule = Core_ReadStdout \<and> or_automatic_read_targets rule \<noteq> [])"
    if "rule \<in> set (wp_operation_rules p)" for rule
    using valid(8) collect_unit_Inr that or_validate_Inr [of rule] by metis
  moreover have "\<exists>d \<in> set (wp_approver_descriptors p). apd_approver_id d = a \<and>
      apd_status d = Status_Active \<and> or_operation rule \<in> set (apd_allowed_operations d)"
    if rule: "rule \<in> set (wp_operation_rules p)" and a: "a \<in> set (or_eligible_approver_ids rule)"
    for rule a
  proof -
    obtain us where "wp_validate_rule_approvers p rule = Inr us"
      using valid(9) collect_results_all rule by metis
    then show ?thesis
      using wp_validate_rule_approvers_Inr [OF _ a] by metis
  qed
  ultimately show ?thesis
    using valid(1-7,13) by blast
qed

theorem valid_policy_is_quorum_witness:
  "2 \<le> unat (wp_witness_threshold (sample_policy 1000)) \<and>
   distinct (map wpd_share_index (wp_active_witnesses (sample_policy 1000)))"
  using valid_policy_is_quorum [OF sample_policy_valid [of 1000]] by blast

text \<open>
  C30. The digest of a witness policy binds the whole policy: members, keys, thresholds, rules
  and the vault position it was made for. Two policies with the same digest are equal, unless
  their canonical bodies are a collision of the hash.
\<close>

theorem policy_digest_binds:
  assumes "wp_digest H a = Inr d" and "wp_digest H b = Inr d"
  shows "a = b \<or> body_collision H ''jury-witness-v1/policy/hash'' wp_canonical_body a b"
  using assms by (rule wp_digest_binds)

theorem policy_digest_binds_witness:
  "body_collision sample_hash ''jury-witness-v1/policy/hash'' wp_canonical_body
     (sample_policy 1000) (sample_policy 2000)"
proof -
  have "sample_policy 1000 \<noteq> sample_policy 2000"
    by (simp add: sample_policy_def sample_rule_def)
  then show ?thesis
    using policy_digest_binds [OF sample_policy_digest sample_policy_digest] by blast
qed

text \<open>
  C31. The witness policies a replay starts from form linear lineages: each is valid and filed
  under its own digest, no policy has two versions of the same revision, every later revision
  has its predecessor in the catalog with the same policy identifier and the revision just
  below, and no policy has two successors. The catalog reaches the replayed state unchanged.
\<close>

theorem replay_catalog_is_linear:
  assumes "replay_policy_with_witness_policies H V j policies = Inr s"
  shows "(\<forall>d p. st_witness_policy s d = Some p \<longleftrightarrow> p \<in> set policies \<and> wp_digest H p = Inr d) \<and>
    (\<forall>p \<in> set policies. wp_validate H V p = Inr ()) \<and> linear_lineages H policies"
proof -
  obtain catalog where catalog: "witness_policy_catalog H V policies = Inr catalog"
    and replay: "replay_policy_with_catalog H V j catalog = Inr s"
    using assms by (auto simp: replay_policy_with_witness_policies_def and_then_Inr)
  have "st_witness_policies s = catalog"
    using replay replayed_chain(2) by (auto simp: replay_iff_replayed)
  then show ?thesis
    using witness_policy_catalog_Inr [OF catalog] by (simp add: st_witness_policy_def)
qed

lemma sample_catalog_replay:
  "replay_policy_with_witness_policies sample_hash sample_verify
     \<lparr>pj_genesis = sample_genesis 1, pj_revisions = []\<rparr> [sample_policy 1000] =
   Inr (genesis_state (sample_genesis 1) (fixed_repeat 14)
     (bt_insert (fixed_repeat 14) (sample_policy 1000) bt_empty))"
proof -
  have "witness_policy_catalog sample_hash sample_verify [sample_policy 1000] =
      Inr (bt_insert (fixed_repeat 14) (sample_policy 1000) bt_empty)"
    by (simp add: witness_policy_catalog_def catalog_policy_def sample_policy_valid
        sample_policy_digest) (simp add: sample_policy_def)
  then show ?thesis
    by (simp add: replay_policy_with_witness_policies_def replay_policy_with_catalog_def
        sample_genesis_state)
qed

theorem replay_catalog_is_linear_witness:
  "linear_lineages sample_hash [sample_policy 1000]"
  using replay_catalog_is_linear [OF sample_catalog_replay] by blast

section \<open>Access\<close>

definition holds_direct_slot :: "item_policy_state \<Rightarrow> ident \<Rightarrow> bool" where
  "holds_direct_slot item p \<longleftrightarrow>
     (\<exists>slot \<in> set (ips_direct_slots item). ds_recipient_principal_id slot = p)"

lemma replayed_slot_holder:
  assumes "replayed H V g c rs s t" and "bt_get (st_items s) i = Some item"
    and "holds_direct_slot item p"
  shows "bt_get (st_principals s) p \<noteq> None" and "effective_role s i p \<noteq> None"
proof -
  obtain slot where slot: "slot \<in> set (ips_direct_slots item)" "ds_recipient_principal_id slot = p"
    using assms(3) by (auto simp: holds_direct_slot_def)
  note valid = validate_complete_state_Inr(3) [OF replayed_complete [OF assms(1)] assms(2)]
  show "bt_get (st_principals s) p \<noteq> None" "effective_role s i p \<noteq> None"
    by (rule validate_current_item_slots [OF valid slot(1)], erule validate_current_slot_Inr,
        use slot(2) in auto)+
qed

lemma replayed_owner_path:
  assumes "replayed H V g c rs s t" and "bt_get (st_items s) i = Some item"
    and "bt_contains_key (st_owners s) p"
  shows "bt_get (st_principals s) p \<noteq> None"
    and "ips_witnessed_state item \<noteq> None \<or> holds_direct_slot item p"
proof -
  note complete = validate_complete_state_Inr [OF replayed_complete [OF assms(1)]]
  show "bt_get (st_principals s) p \<noteq> None"
    using complete(2) [OF assms(3)] by (auto simp: owner_is_human_def split: option.splits)
  obtain mode where "ips_access_mode item = Some mode"
    using complete(3) [OF assms(2)]
    by (auto simp: validate_current_item_def Let_def and_then_Inr ok_or_Inr)
  moreover have "holds_direct_slot item p" if "ips_direct_slots item \<noteq> []"
  proof -
    have "filter (\<lambda>slot. ds_content_role slot = Content_Body)
        (recipient_slots p (ips_direct_slots item)) \<noteq> []"
      using owner_slots_complete [OF replayed_owner_slots [OF assms(1)] assms(2) that assms(3),
          of Content_Body] by force
    then show ?thesis
      by (auto simp: holds_direct_slot_def recipient_slots_def filter_empty_conv)
  qed
  ultimately show "ips_witnessed_state item \<noteq> None \<or> holds_direct_slot item p"
    using ips_access_mode_None [of item] by auto
qed

lemma role_permits_read: "role_permits role Capability_Read"
  by (cases role) simp_all



end
