(* ===== verification/Jury_Witness_State.thy ===== *)
theory Jury_Witness_State
  imports Jury_Witness_Decision
begin

text \<open>
  The durable state of a witness, \<open>witness_v1/state_and_rotation.rs\<close>: the signed state anchor
  with its per-vault watermarks, checkpoint acknowledgements, replay records, vault states, the
  database state whose digest the anchor carries, refusals, and the owner-signed rotation and
  recovery records. The lemmas show that an anchor digest binds the anchor, and a database
  digest binds every replay record and vault state.
\<close>

section \<open>State anchors\<close>

record vault_high_watermark =
  hw_vault_id :: ident
  hw_genesis_fingerprint :: digest32
  hw_policy_sequence :: u64
  hw_checkpoint_digest :: digest32
  hw_highest_retained_request_expiry_ms :: u64

definition hw_canonical_bytes :: "vault_high_watermark \<Rightarrow> bytes" where
  "hw_canonical_bytes r =
     id_bytes (hw_vault_id r) @
     as_bytes (hw_genesis_fingerprint r) @
     to_be_bytes (hw_policy_sequence r) @
     as_bytes (hw_checkpoint_digest r) @
     to_be_bytes (hw_highest_retained_request_expiry_ms r)"

record witness_state_anchor =
  an_schema :: u16
  an_witness_id :: ident
  an_witness_signing_key_fingerprint :: digest32
  an_witness_signing_key_epoch :: u64
  an_state_generation :: u64
  an_database_state_digest :: digest32
  an_vault_high_watermarks :: "vault_high_watermark list"
  an_replay_retain_through_ms :: u64
  an_last_accepted_wall_time_ms :: u64
  an_predecessor_anchor_digest :: digest32
  an_issued_at_ms :: u64
  an_signature :: signature64

definition an_append_fields :: "witness_state_anchor \<Rightarrow> witness_protocol_error + bytes" where
  "an_append_fields r =
     and_then (w_list_fixed hw_canonical_bytes (an_vault_high_watermarks r)) (\<lambda>watermarks. Inr (
     to_be_bytes (an_schema r) @
     id_bytes (an_witness_id r) @
     as_bytes (an_witness_signing_key_fingerprint r) @
     to_be_bytes (an_witness_signing_key_epoch r) @
     to_be_bytes (an_state_generation r) @
     as_bytes (an_database_state_digest r) @
     watermarks @
     to_be_bytes (an_replay_retain_through_ms r) @
     to_be_bytes (an_last_accepted_wall_time_ms r) @
     as_bytes (an_predecessor_anchor_digest r) @
     to_be_bytes (an_issued_at_ms r)))"

definition an_validate_shape :: "witness_state_anchor \<Rightarrow> witness_protocol_error + unit" where
  "an_validate_shape r =
     (if an_schema r \<noteq> 1 \<or> an_witness_signing_key_epoch r = 0 \<or> an_state_generation r = 0 \<or>
         an_issued_at_ms r = 0 \<or>
         \<not> strictly_sorted_unique (\<lambda>a b. hw_vault_id a < hw_vault_id b) (an_vault_high_watermarks r)
      then Inl InvalidFormat else Inr ())"

definition an_signature_preimage :: "witness_state_anchor \<Rightarrow> witness_protocol_error + bytes" where
  "an_signature_preimage r =
     and_then (an_validate_shape r) (\<lambda>_.
     and_then (an_append_fields r) (\<lambda>fields.
     Inr (jce_v1 ''jury-witness-v1/state-anchor/signature'' @ fields)))"

definition an_canonical_bytes :: "witness_state_anchor \<Rightarrow> witness_protocol_error + bytes" where
  "an_canonical_bytes r =
     and_then (an_validate_shape r) (\<lambda>_.
     and_then (an_append_fields r) (\<lambda>fields.
     Inr (fields @ as_bytes (an_signature r))))"

definition an_digest :: "hash_fun \<Rightarrow> witness_state_anchor \<Rightarrow> witness_protocol_error + digest32" where
  "an_digest H r =
     and_then (an_signature_preimage r) (\<lambda>preimage.
     hash_signed H ''jury-witness-v1/state-anchor/hash'' preimage (an_signature r))"

record witness_checkpoint_acknowledgement =
  ack_schema :: u16
  ack_witness_id :: ident
  ack_vault_id :: ident
  ack_checkpoint_digest :: digest32
  ack_vault_policy_sequence :: u64
  ack_active_witness_policy_set_digest :: digest32
  ack_state_generation :: u64
  ack_anchor_digest :: digest32
  ack_exact_anchor :: witness_state_anchor

definition ack_validate_shape ::
    "hash_fun \<Rightarrow> witness_checkpoint_acknowledgement \<Rightarrow> witness_protocol_error + unit" where
  "ack_validate_shape H r =
     and_then (an_validate_shape (ack_exact_anchor r)) (\<lambda>_.
     and_then (an_digest H (ack_exact_anchor r)) (\<lambda>anchor_digest.
     let matching_watermark =
       (case find (\<lambda>watermark. hw_vault_id watermark = ack_vault_id r)
           (an_vault_high_watermarks (ack_exact_anchor r)) of
          None \<Rightarrow> False
        | Some watermark \<Rightarrow>
            hw_policy_sequence watermark = ack_vault_policy_sequence r \<and>
            hw_checkpoint_digest watermark = ack_checkpoint_digest r) in
     if ack_schema r \<noteq> 1 \<or> ack_vault_policy_sequence r = 0 \<or> ack_state_generation r = 0 \<or>
        ack_witness_id r \<noteq> an_witness_id (ack_exact_anchor r) \<or>
        ack_state_generation r \<noteq> an_state_generation (ack_exact_anchor r) \<or>
        ack_anchor_digest r \<noteq> anchor_digest \<or> \<not> matching_watermark
     then Inl InvalidFormat else Inr ()))"

section \<open>Replay records and the database state\<close>

datatype replay_state = Replay_Reserved | Replay_Approved | Replay_Denied | Replay_Cancelled

fun replay_state_tag :: "replay_state \<Rightarrow> u8" where
  "replay_state_tag Replay_Reserved = 1"
| "replay_state_tag Replay_Approved = 2"
| "replay_state_tag Replay_Denied = 3"
| "replay_state_tag Replay_Cancelled = 4"

record witness_replay_record =
  rp_schema :: u16
  rp_vault_id :: ident
  rp_request_id :: ident
  rp_request_digest :: digest32
  rp_request_message :: request_bytes
  rp_action_manifest_digest :: digest32
  rp_state :: replay_state
  rp_expires_at_ms :: u64
  rp_retain_through_ms :: u64
  rp_approval_decisions :: "approval_bytes list"
  rp_cancellation :: "cancellation_bytes option"
  rp_witness_response :: "response_bytes option"

definition rp_canonical_bytes :: "witness_replay_record \<Rightarrow> witness_protocol_error + bytes" where
  "rp_canonical_bytes r =
     (if rp_schema r \<noteq> 1 \<or>
         rp_retain_through_ms r < saturating_add (rp_expires_at_ms r) replay_retention_ms \<or>
         length (rp_approval_decisions r) > max_recorded_approvals
      then Inl InvalidFormat
      else
        and_then (w_bytes_field (bounded_as_bytes (rp_request_message r))) (\<lambda>message.
        and_then (w_list_bytes (map bounded_as_bytes (rp_approval_decisions r))) (\<lambda>approvals.
        and_then (w_optional_bytes (map_option bounded_as_bytes (rp_cancellation r))) (\<lambda>cancellation.
        and_then (w_optional_bytes (map_option bounded_as_bytes (rp_witness_response r))) (\<lambda>response.
        Inr (
        to_be_bytes (rp_schema r) @
        id_bytes (rp_vault_id r) @
        id_bytes (rp_request_id r) @
        as_bytes (rp_request_digest r) @
        message @
        as_bytes (rp_action_manifest_digest r) @
        [replay_state_tag (rp_state r)] @
        to_be_bytes (rp_expires_at_ms r) @
        to_be_bytes (rp_retain_through_ms r) @
        approvals @
        cancellation @
        response))))))"

record witness_vault_state =
  vs_schema :: u16
  vs_vault_id :: ident
  vs_genesis_fingerprint :: digest32
  vs_accepted_registration :: registration_bytes
  vs_current_checkpoint :: "65536 bounded_bytes"
  vs_current_policy_material :: policy_material_bytes

definition vs_canonical_bytes :: "witness_vault_state \<Rightarrow> witness_protocol_error + bytes" where
  "vs_canonical_bytes r =
     (if vs_schema r \<noteq> 1 then Inl InvalidFormat
      else
        and_then (w_bytes_field (bounded_as_bytes (vs_accepted_registration r))) (\<lambda>registration.
        and_then (w_bytes_field (bounded_as_bytes (vs_current_checkpoint r))) (\<lambda>checkpoint.
        and_then (w_bytes_field (bounded_as_bytes (vs_current_policy_material r))) (\<lambda>material.
        Inr (to_be_bytes (vs_schema r) @ id_bytes (vs_vault_id r) @
          as_bytes (vs_genesis_fingerprint r) @ registration @ checkpoint @ material)))))"

record witness_database_state =
  db_schema :: u16
  db_witness_id :: ident
  db_state_generation :: u64
  db_vault_states :: "witness_vault_state list"
  db_replay_records :: "witness_replay_record list"
  db_last_accepted_wall_time_ms :: u64

definition db_canonical_body :: "witness_database_state \<Rightarrow> witness_protocol_error + bytes" where
  "db_canonical_body r =
     (if db_schema r \<noteq> 1 \<or>
         \<not> strictly_sorted_unique (\<lambda>a b. vs_vault_id a < vs_vault_id b) (db_vault_states r) \<or>
         \<not> strictly_sorted_unique
           (\<lambda>a b. (rp_vault_id a, rp_request_id a) < (rp_vault_id b, rp_request_id b))
           (db_replay_records r) \<or>
         length (db_replay_records r) > max_replay_records_per_service
      then Inl InvalidOrdering
      else
        and_then (collect_results vs_canonical_bytes (db_vault_states r)) (\<lambda>vaults.
        and_then (collect_results rp_canonical_bytes (db_replay_records r)) (\<lambda>records.
        and_then (w_list_bytes vaults) (\<lambda>vaults_field.
        and_then (w_list_bytes records) (\<lambda>records_field.
        Inr (to_be_bytes (db_schema r) @ id_bytes (db_witness_id r) @
          to_be_bytes (db_state_generation r) @ vaults_field @ records_field @
          to_be_bytes (db_last_accepted_wall_time_ms r)))))))"

definition db_digest :: "hash_fun \<Rightarrow> witness_database_state \<Rightarrow> witness_protocol_error + digest32" where
  "db_digest H r =
     and_then (db_canonical_body r) (\<lambda>body.
     hash_bytes H ''jury-witness-v1/database-state/hash'' body)"

record protocol_refusal =
  rf_schema :: u16
  rf_reason :: witness_reason
  rf_request_id :: "ident option"
  rf_vault_id :: "ident option"
  rf_witness_id :: "ident option"

definition rf_canonical_bytes :: "protocol_refusal \<Rightarrow> witness_protocol_error + bytes" where
  "rf_canonical_bytes r =
     (if rf_schema r \<noteq> 1 \<or> rf_reason r = Reason_None then Inl InvalidFormat
      else Inr (to_be_bytes (rf_schema r) @ [witness_reason_tag (rf_reason r)] @
        optional_fixed (map_option id_bytes (rf_request_id r)) @
        optional_fixed (map_option id_bytes (rf_vault_id r)) @
        optional_fixed (map_option id_bytes (rf_witness_id r))))"

section \<open>Rotation and recovery records\<close>

datatype witness_rotation_reason =
    Rotation_WitnessMembership | Rotation_WitnessThreshold | Rotation_ShareIndex
  | Rotation_ContributionKey | Rotation_Construction | Rotation_Suite
  | Rotation_WitnessSigningKey | Rotation_ApproverRuleOrLabel | Rotation_DirectMode

fun witness_rotation_reason_tag :: "witness_rotation_reason \<Rightarrow> u8" where
  "witness_rotation_reason_tag Rotation_WitnessMembership = 1"
| "witness_rotation_reason_tag Rotation_WitnessThreshold = 2"
| "witness_rotation_reason_tag Rotation_ShareIndex = 3"
| "witness_rotation_reason_tag Rotation_ContributionKey = 4"
| "witness_rotation_reason_tag Rotation_Construction = 5"
| "witness_rotation_reason_tag Rotation_Suite = 6"
| "witness_rotation_reason_tag Rotation_WitnessSigningKey = 7"
| "witness_rotation_reason_tag Rotation_ApproverRuleOrLabel = 8"
| "witness_rotation_reason_tag Rotation_DirectMode = 9"

record witness_rotation_item =
  ri_item_id :: ident
  ri_prior_key_epoch :: u64
  ri_next_key_epoch :: u64
  ri_next_descriptor_revision :: u64
  ri_next_descriptor_revision_seal_id :: ident
  ri_next_descriptor_capsule_set_digest :: digest32
  ri_next_body_revision :: u64
  ri_next_body_revision_seal_id :: ident
  ri_next_body_capsule_set_digest :: digest32

definition ri_canonical_bytes :: "witness_rotation_item \<Rightarrow> witness_protocol_error + bytes" where
  "ri_canonical_bytes r =
     (if ri_prior_key_epoch r = 0 \<or> ri_next_key_epoch r \<noteq> saturating_add (ri_prior_key_epoch r) 1 \<or>
         ri_next_descriptor_revision r = 0 \<or> ri_next_body_revision r = 0
      then Inl InvalidFormat
      else Inr (
        id_bytes (ri_item_id r) @
        to_be_bytes (ri_prior_key_epoch r) @
        to_be_bytes (ri_next_key_epoch r) @
        to_be_bytes (ri_next_descriptor_revision r) @
        id_bytes (ri_next_descriptor_revision_seal_id r) @
        as_bytes (ri_next_descriptor_capsule_set_digest r) @
        to_be_bytes (ri_next_body_revision r) @
        id_bytes (ri_next_body_revision_seal_id r) @
        as_bytes (ri_next_body_capsule_set_digest r)))"

record witness_policy_rotation =
  ro_schema :: u16
  ro_rotation_id :: ident
  ro_vault_id :: ident
  ro_genesis_fingerprint :: digest32
  ro_prior_vault_policy_sequence :: u64
  ro_prior_vault_policy_hash :: digest32
  ro_next_vault_policy_sequence :: u64
  ro_next_vault_policy_hash :: digest32
  ro_prior_witness_policy_id :: ident
  ro_prior_witness_policy_revision :: u64
  ro_prior_witness_policy_digest :: digest32
  ro_next_witness_policy_id :: ident
  ro_next_witness_policy_revision :: u64
  ro_next_witness_policy_digest :: digest32
  ro_reason :: witness_rotation_reason
  ro_affected_items :: "witness_rotation_item list"
  ro_issued_at_ms :: u64
  ro_owner_id :: ident
  ro_owner_key_fingerprint :: digest32
  ro_owner_key_epoch :: u64
  ro_signature :: signature64

definition ro_append_fields :: "witness_policy_rotation \<Rightarrow> witness_protocol_error + bytes" where
  "ro_append_fields r =
     and_then (collect_results ri_canonical_bytes (ro_affected_items r)) (\<lambda>items.
     and_then (w_list_bytes items) (\<lambda>items_field. Inr (
     to_be_bytes (ro_schema r) @
     id_bytes (ro_rotation_id r) @
     id_bytes (ro_vault_id r) @
     as_bytes (ro_genesis_fingerprint r) @
     to_be_bytes (ro_prior_vault_policy_sequence r) @
     as_bytes (ro_prior_vault_policy_hash r) @
     to_be_bytes (ro_next_vault_policy_sequence r) @
     as_bytes (ro_next_vault_policy_hash r) @
     id_bytes (ro_prior_witness_policy_id r) @
     to_be_bytes (ro_prior_witness_policy_revision r) @
     as_bytes (ro_prior_witness_policy_digest r) @
     id_bytes (ro_next_witness_policy_id r) @
     to_be_bytes (ro_next_witness_policy_revision r) @
     as_bytes (ro_next_witness_policy_digest r) @
     [witness_rotation_reason_tag (ro_reason r)] @
     items_field @
     to_be_bytes (ro_issued_at_ms r) @
     id_bytes (ro_owner_id r) @
     as_bytes (ro_owner_key_fingerprint r) @
     to_be_bytes (ro_owner_key_epoch r))))"

definition ro_validate_shape :: "witness_policy_rotation \<Rightarrow> witness_protocol_error + unit" where
  "ro_validate_shape r =
     (if ro_schema r \<noteq> 1 \<or> ro_prior_vault_policy_sequence r = 0 \<or>
         ro_next_vault_policy_sequence r \<noteq> saturating_add (ro_prior_vault_policy_sequence r) 1 \<or>
         ro_prior_witness_policy_revision r = 0 \<or> ro_next_witness_policy_revision r = 0 \<or>
         ro_affected_items r = [] \<or> length (ro_affected_items r) > max_rotation_items \<or>
         \<not> strictly_sorted_unique (\<lambda>a b. ri_item_id a < ri_item_id b) (ro_affected_items r) \<or>
         ro_issued_at_ms r = 0 \<or> ro_owner_key_epoch r = 0
      then Inl InvalidFormat
      else and_then (collect_results ri_canonical_bytes (ro_affected_items r)) (\<lambda>_. Inr ()))"

definition ro_signature_preimage :: "witness_policy_rotation \<Rightarrow> witness_protocol_error + bytes" where
  "ro_signature_preimage r =
     and_then (ro_validate_shape r) (\<lambda>_.
     and_then (ro_append_fields r) (\<lambda>fields.
     Inr (jce_v1 ''jury-witness-v1/rotation/signature'' @ fields)))"

definition ro_canonical_bytes :: "witness_policy_rotation \<Rightarrow> witness_protocol_error + bytes" where
  "ro_canonical_bytes r =
     and_then (ro_append_fields r) (\<lambda>fields.
     and_then (ro_validate_shape r) (\<lambda>_.
     Inr (fields @ as_bytes (ro_signature r))))"

definition ro_digest :: "hash_fun \<Rightarrow> witness_policy_rotation \<Rightarrow> witness_protocol_error + digest32" where
  "ro_digest H r =
     and_then (ro_signature_preimage r) (\<lambda>preimage.
     hash_signed H ''jury-witness-v1/rotation/hash'' preimage (ro_signature r))"

record witness_recovery =
  rv_schema :: u16
  rv_recovery_id :: ident
  rv_vault_id :: ident
  rv_genesis_fingerprint :: digest32
  rv_unavailable_prior_witness_id :: "ident option"
  rv_new_witness_descriptor :: witness_descriptor_bytes
  rv_new_registration_digest :: digest32
  rv_prior_checkpoint_digest :: digest32
  rv_next_checkpoint_digest :: digest32
  rv_rotation_record_digest :: digest32
  rv_statement :: u8
  rv_issued_at_ms :: u64
  rv_owner_id :: ident
  rv_owner_key_fingerprint :: digest32
  rv_owner_key_epoch :: u64
  rv_signature :: signature64

definition rv_append_fields :: "witness_recovery \<Rightarrow> witness_protocol_error + bytes" where
  "rv_append_fields r =
     and_then (w_bytes_field (bounded_as_bytes (rv_new_witness_descriptor r))) (\<lambda>descriptor. Inr (
     to_be_bytes (rv_schema r) @
     id_bytes (rv_recovery_id r) @
     id_bytes (rv_vault_id r) @
     as_bytes (rv_genesis_fingerprint r) @
     optional_fixed (map_option id_bytes (rv_unavailable_prior_witness_id r)) @
     descriptor @
     as_bytes (rv_new_registration_digest r) @
     as_bytes (rv_prior_checkpoint_digest r) @
     as_bytes (rv_next_checkpoint_digest r) @
     as_bytes (rv_rotation_record_digest r) @
     [rv_statement r] @
     to_be_bytes (rv_issued_at_ms r) @
     id_bytes (rv_owner_id r) @
     as_bytes (rv_owner_key_fingerprint r) @
     to_be_bytes (rv_owner_key_epoch r)))"

definition rv_validate_shape :: "witness_recovery \<Rightarrow> witness_protocol_error + unit" where
  "rv_validate_shape r =
     (if rv_schema r \<noteq> 1 \<or> bounded_is_empty (rv_new_witness_descriptor r) \<or> rv_statement r \<noteq> 1 \<or>
         rv_issued_at_ms r = 0 \<or> rv_owner_key_epoch r = 0
      then Inl InvalidFormat else Inr ())"

definition rv_signature_preimage :: "witness_recovery \<Rightarrow> witness_protocol_error + bytes" where
  "rv_signature_preimage r =
     and_then (rv_validate_shape r) (\<lambda>_.
     and_then (rv_append_fields r) (\<lambda>fields.
     Inr (jce_v1 ''jury-witness-v1/recovery/signature'' @ fields)))"

definition rv_canonical_bytes :: "witness_recovery \<Rightarrow> witness_protocol_error + bytes" where
  "rv_canonical_bytes r =
     and_then (rv_validate_shape r) (\<lambda>_.
     and_then (rv_append_fields r) (\<lambda>fields.
     Inr (fields @ as_bytes (rv_signature r))))"

definition rv_digest :: "hash_fun \<Rightarrow> witness_recovery \<Rightarrow> witness_protocol_error + digest32" where
  "rv_digest H r =
     and_then (rv_signature_preimage r) (\<lambda>preimage.
     hash_signed H ''jury-witness-v1/recovery/hash'' preimage (rv_signature r))"

section \<open>What the digests bind\<close>

lemma replay_state_tag_inject [simp]: "replay_state_tag a = replay_state_tag b \<longleftrightarrow> a = b"
  by (cases a; cases b) simp_all

lemma witness_rotation_reason_tag_inject [simp]:
  "witness_rotation_reason_tag a = witness_rotation_reason_tag b \<longleftrightarrow> a = b"
  by (cases a; cases b) simp_all

interpretation hw_codec: prefix_codec hw_canonical_bytes
  by unfold_locales
    (auto simp: hw_canonical_bytes_def enc_inj intro: vault_high_watermark.equality)

declare hw_codec.prefix_codec_axioms [enc_inj]

lemma map_bounded_as_bytes_inject [enc_inj]:
  "map bounded_as_bytes xs = map bounded_as_bytes ys \<longleftrightarrow> xs = ys"
  by (simp add: inj_map_eq_map inj_def bounded_as_bytes_inject)

interpretation rp_codec: fallible_codec rp_canonical_bytes
  by unfold_locales
    (auto simp: rp_canonical_bytes_def result_simps enc_inj intro: witness_replay_record.equality
       split: if_splits)

interpretation vs_codec: fallible_codec vs_canonical_bytes
  by unfold_locales
    (auto simp: vs_canonical_bytes_def result_simps enc_inj intro: witness_vault_state.equality
       split: if_splits)

interpretation ri_codec: fallible_codec ri_canonical_bytes
  by unfold_locales
    (auto simp: ri_canonical_bytes_def enc_inj intro: witness_rotation_item.equality
       split: if_splits)

lemma an_signature_preimage_inject:
  assumes "an_signature_preimage a = Inr x" and "an_signature_preimage b = Inr x"
    and "an_signature a = an_signature b"
  shows "a = b"
  using assms
  by (auto simp: an_signature_preimage_def an_append_fields_def and_then_Inr result_simps enc_inj
      intro!: witness_state_anchor.equality)

lemma an_digest_binds:
  assumes "an_digest H a = Inr d" and "an_digest H b = Inr d"
  shows "a = b \<or>
    signed_collision H ''jury-witness-v1/state-anchor/hash'' an_signature_preimage an_signature a b"
  by (rule hash_signed_message_binds [where pre = an_signature_preimage
        and sig = an_signature and d = "''jury-witness-v1/state-anchor/hash''"])
    (use assms in \<open>auto simp: an_digest_def dest: an_signature_preimage_inject\<close>)

lemma rv_signature_preimage_inject:
  assumes "rv_signature_preimage a = Inr x" and "rv_signature_preimage b = Inr x"
    and "rv_signature a = rv_signature b"
  shows "a = b"
  using assms
  by (auto simp: rv_signature_preimage_def rv_append_fields_def and_then_Inr result_simps enc_inj
      intro!: witness_recovery.equality)

lemma rv_digest_binds:
  assumes "rv_digest H a = Inr d" and "rv_digest H b = Inr d"
  shows "a = b \<or>
    signed_collision H ''jury-witness-v1/recovery/hash'' rv_signature_preimage rv_signature a b"
  by (rule hash_signed_message_binds [where pre = rv_signature_preimage
        and sig = rv_signature and d = "''jury-witness-v1/recovery/hash''"])
    (use assms in \<open>auto simp: rv_digest_def dest: rv_signature_preimage_inject\<close>)

text \<open>A list of records collected into equal encodings is the same list.\<close>

lemmas collect_same_records =
  rp_codec.collect_unique vs_codec.collect_unique ri_codec.collect_unique

lemma ro_signature_preimage_inject:
  assumes "ro_signature_preimage a = Inr x" and "ro_signature_preimage b = Inr x"
    and "ro_signature a = ro_signature b"
  shows "a = b"
  using assms
  by (auto simp: ro_signature_preimage_def ro_append_fields_def and_then_Inr w_list_bytes_Inr enc_inj
      intro!: witness_policy_rotation.equality dest: collect_same_records)

lemma ro_digest_binds:
  assumes "ro_digest H a = Inr d" and "ro_digest H b = Inr d"
  shows "a = b \<or>
    signed_collision H ''jury-witness-v1/rotation/hash'' ro_signature_preimage ro_signature a b"
  by (rule hash_signed_message_binds [where pre = ro_signature_preimage
        and sig = ro_signature and d = "''jury-witness-v1/rotation/hash''"])
    (use assms in \<open>auto simp: ro_digest_def dest: ro_signature_preimage_inject\<close>)

lemma db_canonical_body_inject:
  assumes "db_canonical_body a = Inr x" and "db_canonical_body b = Inr x"
  shows "a = b"
  using assms
  by (auto simp: db_canonical_body_def and_then_Inr w_list_bytes_Inr enc_inj split: if_splits
      intro!: witness_database_state.equality dest: collect_same_records)

lemma db_digest_binds_state:
  assumes "db_digest H a = Inr d" and "db_digest H b = Inr d"
  shows "a = b \<or>
    body_collision H ''jury-witness-v1/database-state/hash'' db_canonical_body a b"
  by (rule hash_bytes_message_binds)
    (use assms in \<open>auto simp only: db_digest_def intro: db_canonical_body_inject\<close>)

end
