(* ===== verification/Jury_Validation.thy ===== *)
theory Jury_Validation
  imports Jury_Policy_State Jury_Witness_State
begin

text \<open>
  The checks a live witness, an approver and an offline verifier share:
  \<open>witness_validation.rs\<close> (a request against the replayed policy state),
  \<open>checkpoint_validation.rs\<close>, and the free functions of \<open>witness_engine/validation.rs\<close> and
  \<open>approval_validation.rs\<close> (request times, automatic rules, approvals, cancellations, the
  approval tally, witness responses and receipt material). The lemmas list what each accepted
  value satisfies.
\<close>

section \<open>Errors\<close>

datatype witness_engine_error =
    Engine_Refused witness_reason | Engine_StoreUnavailable | Engine_AnchorUnavailable

fun engine_error_reason :: "witness_engine_error \<Rightarrow> witness_reason" where
  "engine_error_reason (Engine_Refused reason) = reason"
| "engine_error_reason Engine_StoreUnavailable = Reason_InternalFailure"
| "engine_error_reason Engine_AnchorUnavailable = Reason_Unavailable"

datatype request_policy_error =
    RequestPolicy_Invalid | RequestPolicy_InvalidSignature | RequestPolicy_PolicyDenied
  | RequestPolicy_StalePolicy | RequestPolicy_WrongScope

fun map_request_policy_error :: "request_policy_error \<Rightarrow> witness_engine_error" where
  "map_request_policy_error RequestPolicy_Invalid = Engine_Refused Reason_Invalid"
| "map_request_policy_error RequestPolicy_InvalidSignature = Engine_Refused Reason_InvalidSignature"
| "map_request_policy_error RequestPolicy_PolicyDenied = Engine_Refused Reason_PolicyDenied"
| "map_request_policy_error RequestPolicy_StalePolicy = Engine_Refused Reason_StalePolicy"
| "map_request_policy_error RequestPolicy_WrongScope = Engine_Refused Reason_WrongScope"

datatype checkpoint_policy_error =
    CheckpointPolicy_Invalid | CheckpointPolicy_ScopeMismatch | CheckpointPolicy_MissingOwner
  | CheckpointPolicy_InvalidSignature

abbreviation or_refuse :: "witness_reason \<Rightarrow> 'e + 'a \<Rightarrow> witness_engine_error + 'a" where
  "or_refuse reason r \<equiv> map_err (\<lambda>_. Engine_Refused reason) r"

section \<open>Requests against the policy state\<close>

record validated_request_policy =
  vrp_rule :: witness_access_rule
  vrp_policy :: witness_policy
  vrp_slot :: witnessed_slot

fun operation_capability :: "witness_operation \<Rightarrow> capability" where
  "operation_capability Op_ReadStdout = Capability_Read"
| "operation_capability Op_WritePrivateFile = Capability_Read"
| "operation_capability Op_TemplateInjection = Capability_Read"
| "operation_capability Op_ChildEnvironment = Capability_Read"
| "operation_capability Op_ChildStdin = Capability_Read"
| "operation_capability Op_ItemMutation = Capability_Write"
| "operation_capability Op_Backup = Capability_Write"
| "operation_capability Op_Recovery = Capability_Administer"
| "operation_capability Op_AdministrativeRekey = Capability_Administer"

fun access_rule_error :: "policy_error \<Rightarrow> request_policy_error" where
  "access_rule_error Policy_UnknownItem = RequestPolicy_WrongScope"
| "access_rule_error Policy_Unauthorized = RequestPolicy_WrongScope"
| "access_rule_error Policy_MissingWitnessPolicy = RequestPolicy_StalePolicy"
| "access_rule_error _ = RequestPolicy_PolicyDenied"

definition expected_witnesses :: "witness_policy \<Rightarrow> intended_witness list" where
  "expected_witnesses policy =
     map (\<lambda>d. \<lparr>iw_witness_id = wpd_witness_id d, iw_share_index = wpd_share_index d,
               iw_signing_key_fingerprint = wpd_signing_key_fingerprint d,
               iw_contribution_key_fingerprint = wpd_contribution_key_fingerprint d\<rparr>)
       (filter (\<lambda>d. wpd_status d = Status_Active) (wp_witness_descriptors policy))"

definition request_slot_matches ::
    "witness_request \<Rightarrow> witness_policy \<Rightarrow> witnessed_slot \<Rightarrow> bool" where
  "request_slot_matches request policy slot \<longleftrightarrow>
     ws_slot_id slot = rq_slot_id request \<and>
     ws_content_role slot = rq_content_role request \<and>
     ws_revision slot = rq_revision request \<and>
     ws_revision_seal_id slot = rq_revision_seal_id request \<and>
     ws_key_epoch slot = rq_key_epoch request \<and>
     ws_item_access_mode slot = rq_item_access_mode request \<and>
     ws_vault_policy_sequence slot = wp_vault_policy_sequence policy \<and>
     ws_witness_policy_id slot = rq_witness_policy_id request \<and>
     ws_witness_policy_revision slot = rq_witness_policy_revision request \<and>
     ws_witness_policy_digest slot = rq_witness_policy_digest request"

definition validate_requester ::
    "hash_fun \<Rightarrow> verify_fun \<Rightarrow> policy_state \<Rightarrow> witness_request \<Rightarrow> request_policy_error + unit" where
  "validate_requester H V policy request =
     and_then (ok_or RequestPolicy_PolicyDenied
       (st_principal policy (rq_requester_principal_id request))) (\<lambda>requester.
     let descriptor = pps_descriptor requester;
         key = pd_verification_public_key descriptor in
     if pd_principal_kind descriptor = Kind_Approver \<or> pd_principal_kind descriptor = Kind_Witness \<or>
        rq_requester_signing_key_epoch request \<noteq> 1 \<or>
        rq_requester_signing_key_fingerprint request \<noteq>
          signing_key_fingerprint H 1 (rq_requester_principal_id request) 1 key
     then Inl RequestPolicy_InvalidSignature
     else and_then (map_err (\<lambda>_. RequestPolicy_Invalid) (rq_signature_preimage H request))
       (\<lambda>preimage.
       ensure (V key preimage (rq_client_signature request)) RequestPolicy_InvalidSignature))"

definition validate_intended_witnesses ::
    "hash_fun \<Rightarrow> policy_state \<Rightarrow> witness_request \<Rightarrow> witness_policy \<Rightarrow> request_policy_error + unit" where
  "validate_intended_witnesses H policy request witness_policy =
     (if rq_intended_witness_set request \<noteq> expected_witnesses witness_policy
      then Inl RequestPolicy_WrongScope
      else
        and_then (map_err (\<lambda>_. RequestPolicy_Invalid) (rq_intended_witness_set_digest H request))
          (\<lambda>requested.
        and_then (map_err (\<lambda>_. RequestPolicy_StalePolicy)
          (st_intended_witness_set_digest H policy (rq_item_id request))) (\<lambda>current.
        ensure (requested = current) RequestPolicy_WrongScope)))"

definition request_item_slot ::
    "policy_state \<Rightarrow> witness_request \<Rightarrow> witness_policy \<Rightarrow> witness_access_rule
      \<Rightarrow> request_policy_error + witnessed_slot" where
  "request_item_slot policy request witness_policy rule =
     and_then (ok_or RequestPolicy_WrongScope (st_item policy (rq_item_id request))) (\<lambda>item.
     if ips_key_epoch item \<noteq> rq_key_epoch request \<or>
        ips_access_mode item \<noteq> Some (rq_item_access_mode request)
     then Inl RequestPolicy_WrongScope
     else and_then (ok_or RequestPolicy_WrongScope
       (Option.bind (ips_witnessed_state item) (\<lambda>witnessed.
         find (request_slot_matches request witness_policy) (wst_slots witnessed)))) (\<lambda>slot.
       if ws_threshold slot \<noteq> war_witness_threshold rule \<or>
          unat (ws_member_count slot) \<noteq> length (expected_witnesses witness_policy)
       then Inl RequestPolicy_WrongScope
       else Inr slot))"

definition validate_request_policy ::
    "hash_fun \<Rightarrow> verify_fun \<Rightarrow> policy_state \<Rightarrow> witness_request
      \<Rightarrow> request_policy_error + validated_request_policy" where
  "validate_request_policy H V policy request =
     and_then (map_err (\<lambda>_. RequestPolicy_Invalid) (rq_validate_shape H request)) (\<lambda>_.
     if rq_vault_id request \<noteq> st_vault_id policy \<or>
        rq_genesis_fingerprint request \<noteq> st_genesis_fingerprint policy \<or>
        rq_vault_policy_sequence request \<noteq> st_sequence policy \<or>
        rq_vault_policy_hash request \<noteq> st_terminal_revision_hash policy
     then Inl RequestPolicy_StalePolicy
     else
     and_then (ok_or RequestPolicy_Invalid
       (checked_sub (rq_expires_at_ms request) (rq_issued_at_ms request))) (\<lambda>request_lifetime.
     and_then (map_err access_rule_error (witness_access_rule_of policy (rq_item_id request)
       (core_operation (rq_operation request)))) (\<lambda>rule.
     if rq_witness_policy_id request \<noteq> war_policy_id rule \<or>
        rq_witness_policy_revision request \<noteq> war_policy_revision rule \<or>
        rq_witness_policy_digest request \<noteq> war_policy_digest rule
     then Inl RequestPolicy_WrongScope
     else if request_lifetime > war_allowed_request_lifetime_ms rule
     then Inl RequestPolicy_StalePolicy
     else
     let decision = access policy (rq_item_id request) (rq_requester_principal_id request)
       (operation_capability (rq_operation request)) in
     if \<not> ax_allowed decision \<or>
        ax_effective_role decision \<noteq> Some (rq_requested_access_role request)
     then Inl RequestPolicy_PolicyDenied
     else
     and_then (validate_requester H V policy request) (\<lambda>_.
     and_then (ok_or RequestPolicy_StalePolicy
       (st_witness_policy policy (rq_witness_policy_digest request))) (\<lambda>witness_policy.
     if wp_vault_policy_sequence witness_policy > rq_vault_policy_sequence request \<or>
        predecessor_hash_for_sequence policy (wp_vault_policy_sequence witness_policy) \<noteq>
          Some (wp_vault_policy_hash witness_policy)
     then Inl RequestPolicy_StalePolicy
     else
     and_then (validate_intended_witnesses H policy request witness_policy) (\<lambda>_.
     and_then (request_item_slot policy request witness_policy rule) (\<lambda>slot.
     Inr \<lparr>vrp_rule = rule, vrp_policy = witness_policy, vrp_slot = slot\<rparr>)))))))"

definition st_owner_count :: "policy_state \<Rightarrow> nat" where
  "st_owner_count policy = bt_len (st_owners policy)"

fun validate_owner_change_context ::
    "policy_state \<Rightarrow> ident \<Rightarrow> operation_context \<Rightarrow> request_policy_error + unit" where
  "validate_owner_change_context policy requester
     (Ctx_OwnerChange change target_principal_id next_vault_policy_sequence) =
     (if checked_add (st_sequence policy) 1 \<noteq> Some next_vault_policy_sequence
      then Inl RequestPolicy_WrongScope
      else if \<not> st_is_owner policy requester \<or>
        (case st_principal policy target_principal_id of
           None \<Rightarrow> True
         | Some p \<Rightarrow> pd_principal_kind (pps_descriptor p) \<noteq> Kind_Human)
      then Inl RequestPolicy_PolicyDenied
      else
        let target_is_owner = st_is_owner policy target_principal_id in
        if (case change of
              Owner_Grant \<Rightarrow> target_is_owner
            | Owner_Revoke \<Rightarrow>
                \<not> target_is_owner \<or> requester = target_principal_id \<or> st_owner_count policy \<le> 1)
        then Inl RequestPolicy_PolicyDenied
        else Inr ())"
| "validate_owner_change_context policy requester _ = Inr ()"

definition validate_manifest_policy ::
    "hash_fun \<Rightarrow> verify_fun \<Rightarrow> policy_state \<Rightarrow> witness_request \<Rightarrow> action_manifest
      \<Rightarrow> request_policy_error + validated_request_policy" where
  "validate_manifest_policy H V policy request manifest =
     and_then (validate_request_policy H V policy request) (\<lambda>validated.
     and_then (validate_owner_change_context policy (rq_requester_principal_id request)
       (mf_operation_context manifest)) (\<lambda>_.
     Inr validated))"

section \<open>Checkpoints against the policy state\<close>

definition validate_checkpoint_policy ::
    "hash_fun \<Rightarrow> verify_fun \<Rightarrow> policy_state \<Rightarrow> vault_policy_checkpoint
      \<Rightarrow> checkpoint_policy_error + witness_policy list" where
  "validate_checkpoint_policy H V policy checkpoint =
     and_then (map_err (\<lambda>_. CheckpointPolicy_Invalid) (cp_validate_shape checkpoint)) (\<lambda>_.
     if cp_vault_id checkpoint \<noteq> st_vault_id policy \<or>
        cp_genesis_fingerprint checkpoint \<noteq> st_genesis_fingerprint policy \<or>
        cp_vault_policy_sequence checkpoint \<noteq> st_sequence policy \<or>
        cp_vault_policy_hash checkpoint \<noteq> st_terminal_revision_hash policy
     then Inl CheckpointPolicy_ScopeMismatch
     else
     and_then (map_err (\<lambda>_. CheckpointPolicy_Invalid) (active_witness_policy_entries H policy))
       (\<lambda>policies.
     and_then (map_err (\<lambda>_. CheckpointPolicy_Invalid)
       (active_witness_policy_set_digest H (map fst policies))) (\<lambda>set_digest.
     if cp_active_witness_policy_set_digest checkpoint \<noteq> set_digest
     then Inl CheckpointPolicy_ScopeMismatch
     else
     and_then (ok_or CheckpointPolicy_MissingOwner
       (if st_is_owner policy (cp_issuer_owner_id checkpoint)
        then st_principal policy (cp_issuer_owner_id checkpoint) else None)) (\<lambda>owner.
     let key = pd_verification_public_key (pps_descriptor owner) in
     if cp_issuer_key_epoch checkpoint \<noteq> 1 \<or>
        cp_issuer_key_fingerprint checkpoint \<noteq>
          signing_key_fingerprint H 1 (cp_issuer_owner_id checkpoint) 1 key
     then Inl CheckpointPolicy_InvalidSignature
     else
     and_then (map_err (\<lambda>_. CheckpointPolicy_Invalid) (cp_signature_preimage checkpoint))
       (\<lambda>preimage.
     and_then (ensure (V key preimage (cp_signature checkpoint)) CheckpointPolicy_InvalidSignature)
       (\<lambda>_.
     Inr (map snd policies)))))))"

fun checkpoint_error :: "checkpoint_policy_error \<Rightarrow> witness_engine_error" where
  "checkpoint_error CheckpointPolicy_Invalid = Engine_Refused Reason_Invalid"
| "checkpoint_error CheckpointPolicy_ScopeMismatch = Engine_Refused Reason_CheckpointFork"
| "checkpoint_error CheckpointPolicy_MissingOwner = Engine_Refused Reason_InvalidSignature"
| "checkpoint_error CheckpointPolicy_InvalidSignature = Engine_Refused Reason_InvalidSignature"

definition validate_checkpoint_public ::
    "hash_fun \<Rightarrow> verify_fun \<Rightarrow> policy_state \<Rightarrow> vault_policy_checkpoint
      \<Rightarrow> witness_engine_error + witness_policy list" where
  "validate_checkpoint_public H V policy checkpoint =
     map_err checkpoint_error (validate_checkpoint_policy H V policy checkpoint)"

section \<open>Requests, manifests and time\<close>

definition validate_request_time :: "witness_request \<Rightarrow> u64 \<Rightarrow> witness_engine_error + unit" where
  "validate_request_time request now_ms =
     (let skewed_now = saturating_add now_ms accepted_clock_skew_ms in
      if rq_issued_at_ms request > skewed_now then Inl (Engine_Refused Reason_NotYetValid)
      else if (case rq_not_before_ms request of
          None \<Rightarrow> False | Some not_before \<Rightarrow> not_before > skewed_now)
      then Inl (Engine_Refused Reason_NotYetValid)
      else if now_ms \<ge> rq_expires_at_ms request then Inl (Engine_Refused Reason_Expired)
      else Inr ())"

definition validate_automatic_rule ::
    "action_manifest \<Rightarrow> witness_access_rule \<Rightarrow> witness_engine_error + unit" where
  "validate_automatic_rule manifest rule =
     (if war_approval_threshold rule \<noteq> 0 then Inr ()
      else
        let all_allowed = list_all (\<lambda>entry.
          list_ex (\<lambda>target. art_item_id target = ate_item_id entry \<and>
              art_content_role target = mf_content_role manifest \<and>
              art_field_id target = ate_field_id entry)
            (war_automatic_read_targets rule)) (at_entries (mf_approval_target manifest)) in
        if \<not> all_allowed \<or> mf_operation manifest \<noteq> Op_ReadStdout
        then Inl (Engine_Refused Reason_PolicyDenied)
        else Inr ())"

definition request_differs_from_manifest ::
    "witness_request \<Rightarrow> action_manifest \<Rightarrow> digest32 \<Rightarrow> digest32 \<Rightarrow> bool" where
  "request_differs_from_manifest request manifest manifest_digest workload_digest \<longleftrightarrow>
     rq_request_id request \<noteq> mf_request_id manifest \<or>
     rq_vault_id request \<noteq> mf_vault_id manifest \<or>
     rq_genesis_fingerprint request \<noteq> mf_genesis_fingerprint manifest \<or>
     rq_item_id request \<noteq> mf_item_id manifest \<or>
     rq_key_epoch request \<noteq> mf_key_epoch manifest \<or>
     rq_item_access_mode request \<noteq> mf_item_access_mode manifest \<or>
     rq_slot_id request \<noteq> mf_slot_id manifest \<or>
     rq_content_role request \<noteq> mf_content_role manifest \<or>
     rq_revision request \<noteq> mf_revision manifest \<or>
     rq_revision_seal_id request \<noteq> mf_revision_seal_id manifest \<or>
     rq_vault_policy_sequence request \<noteq> mf_vault_policy_sequence manifest \<or>
     rq_vault_policy_hash request \<noteq> mf_vault_policy_hash manifest \<or>
     rq_witness_policy_id request \<noteq> mf_witness_policy_id manifest \<or>
     rq_witness_policy_revision request \<noteq> mf_witness_policy_revision manifest \<or>
     rq_witness_policy_digest request \<noteq> mf_witness_policy_digest manifest \<or>
     rq_requester_principal_id request \<noteq> mf_requester_principal_id manifest \<or>
     rq_requested_access_role request \<noteq> mf_requested_access_role manifest \<or>
     rq_operation request \<noteq> mf_operation manifest \<or>
     rq_approval_target_digest request \<noteq> mf_approval_target_digest manifest \<or>
     rq_action_manifest_digest request \<noteq> manifest_digest \<or>
     rq_workload_digest request \<noteq> workload_digest \<or>
     rq_issued_at_ms request \<noteq> mf_issued_at_ms manifest \<or>
     rq_not_before_ms request \<noteq> mf_not_before_ms manifest \<or>
     rq_expires_at_ms request \<noteq> mf_expires_at_ms manifest"

definition validate_request_manifest ::
    "hash_fun \<Rightarrow> witness_request \<Rightarrow> action_manifest \<Rightarrow> witness_engine_error + unit" where
  "validate_request_manifest H request manifest =
     (if rq_schema request \<noteq> 1 \<or> rq_protocol_version request \<noteq> protocol_version \<or>
         rq_construction request \<noteq> construction \<or> mf_schema manifest \<noteq> 1
      then Inl (Engine_Refused Reason_UnsupportedVersion)
      else
      and_then (or_refuse Reason_Invalid (rq_validate_shape H request)) (\<lambda>_.
      and_then (or_refuse Reason_WrongScope (mf_validate_shape H manifest)) (\<lambda>_.
      if list_ex (\<lambda>entry. ate_item_id entry \<noteq> rq_item_id request \<or>
           (rq_content_role request = Content_Descriptor \<and> ate_field_id entry \<noteq> None))
         (at_entries (mf_approval_target manifest))
      then Inl (Engine_Refused Reason_WrongScope)
      else
      and_then (or_refuse Reason_Invalid (mf_digest H manifest)) (\<lambda>manifest_digest.
      and_then (or_refuse Reason_Invalid (mf_workload_digest H manifest)) (\<lambda>workload_digest.
      if request_differs_from_manifest request manifest manifest_digest workload_digest
      then Inl (Engine_Refused Reason_WrongScope)
      else Inr ())))))"

definition workload_exceeds :: "action_manifest \<Rightarrow> witness_access_rule \<Rightarrow> bool" where
  "workload_exceeds manifest rule \<longleftrightarrow>
     mf_timeout_ms manifest > war_max_timeout_ms rule \<or>
     mf_output_limit_bytes manifest > war_max_output_bytes rule \<or>
     length (at_entries (mf_approval_target manifest)) > unat (war_max_target_count rule) \<or>
     platform_assurance_tag (mf_platform_assurance manifest) <
       core_platform_assurance_tag (war_required_platform_assurance rule)"

definition validate_public_request ::
    "hash_fun \<Rightarrow> verify_fun \<Rightarrow> policy_state \<Rightarrow> vault_policy_checkpoint \<Rightarrow> witness_request
      \<Rightarrow> action_manifest \<Rightarrow> witness_engine_error + validated_request_policy" where
  "validate_public_request H V policy checkpoint request manifest =
     and_then (validate_request_manifest H request manifest) (\<lambda>_.
     and_then (validate_checkpoint_public H V policy checkpoint) (\<lambda>_.
     and_then (or_refuse Reason_Invalid (cp_digest H checkpoint)) (\<lambda>checkpoint_digest.
     if rq_vault_id request \<noteq> cp_vault_id checkpoint \<or>
        rq_genesis_fingerprint request \<noteq> cp_genesis_fingerprint checkpoint \<or>
        rq_vault_policy_sequence request \<noteq> cp_vault_policy_sequence checkpoint \<or>
        rq_vault_policy_hash request \<noteq> cp_vault_policy_hash checkpoint \<or>
        rq_policy_checkpoint_digest request \<noteq> checkpoint_digest
     then Inl (Engine_Refused Reason_WrongScope)
     else
     and_then (map_err map_request_policy_error (validate_manifest_policy H V policy request manifest))
       (\<lambda>validated.
     if workload_exceeds manifest (vrp_rule validated)
     then Inl (Engine_Refused Reason_WorkloadExceeded)
     else
     and_then (validate_automatic_rule manifest (vrp_rule validated)) (\<lambda>_.
     Inr validated)))))"

section \<open>Approvals\<close>

definition approval_is_current :: "approval_decision \<Rightarrow> u64 \<Rightarrow> bool" where
  "approval_is_current approval now_ms \<longleftrightarrow>
     ap_issued_at_ms approval \<le> saturating_add now_ms accepted_clock_skew_ms \<and>
     now_ms < ap_expires_at_ms approval \<and>
     (case ap_not_before_ms approval of
        None \<Rightarrow> True
      | Some not_before \<Rightarrow> not_before \<le> saturating_add now_ms accepted_clock_skew_ms)"

definition validate_approval_against_policy ::
    "hash_fun \<Rightarrow> verify_fun \<Rightarrow> approval_decision \<Rightarrow> witness_request \<Rightarrow> action_manifest
      \<Rightarrow> witness_access_rule \<Rightarrow> witness_policy \<Rightarrow> witness_engine_error + unit" where
  "validate_approval_against_policy H V approval request manifest rule policy =
     and_then (or_refuse Reason_Invalid (ap_validate_shape approval)) (\<lambda>_.
     and_then (ok_or (Engine_Refused Reason_PolicyDenied) (find (\<lambda>descriptor.
         apd_status descriptor = Status_Active \<and>
         apd_approver_id descriptor = ap_approver_id approval) (wp_approver_descriptors policy)))
       (\<lambda>descriptor.
     and_then (or_refuse Reason_Invalid (rq_digest H request)) (\<lambda>request_digest.
     and_then (or_refuse Reason_Invalid (mf_digest H manifest)) (\<lambda>manifest_digest.
     and_then (or_refuse Reason_Invalid (rq_intended_witness_set_digest H request)) (\<lambda>set_digest.
     if ap_approver_id approval \<notin> set (war_eligible_approver_ids rule) \<or>
        ap_request_id approval \<noteq> rq_request_id request \<or>
        ap_request_digest approval \<noteq> request_digest \<or>
        ap_action_manifest_digest approval \<noteq> manifest_digest \<or>
        ap_presentation_digest approval \<noteq> mf_presentation_digest manifest \<or>
        ap_witness_policy_id approval \<noteq> rq_witness_policy_id request \<or>
        ap_witness_policy_revision approval \<noteq> rq_witness_policy_revision request \<or>
        ap_witness_policy_digest approval \<noteq> rq_witness_policy_digest request \<or>
        ap_intended_witness_set_digest approval \<noteq> set_digest \<or>
        ap_approver_key_fingerprint approval \<noteq> apd_signing_key_fingerprint descriptor \<or>
        ap_approver_key_epoch approval \<noteq> apd_signing_key_epoch descriptor \<or>
        ap_approval_mode approval \<noteq> protocol_approval_mode (apd_approval_mode descriptor) \<or>
        ap_issued_at_ms approval < rq_issued_at_ms request \<or>
        ap_expires_at_ms approval > rq_expires_at_ms request
     then Inl (Engine_Refused Reason_Invalid)
     else
     and_then (or_refuse Reason_Invalid (ap_signature_preimage approval)) (\<lambda>preimage.
     ensure (V (apd_signing_public_key descriptor) preimage (ap_signature approval))
       (Engine_Refused Reason_InvalidSignature)))))))"

definition validate_approval_decision ::
    "hash_fun \<Rightarrow> verify_fun \<Rightarrow> policy_state \<Rightarrow> vault_policy_checkpoint \<Rightarrow> witness_request
      \<Rightarrow> action_manifest \<Rightarrow> approval_decision \<Rightarrow> u64 \<Rightarrow> witness_engine_error + unit" where
  "validate_approval_decision H V policy checkpoint request manifest approval now_ms =
     and_then (validate_public_request H V policy checkpoint request manifest) (\<lambda>validated.
     and_then (validate_approval_against_policy H V approval request manifest (vrp_rule validated)
       (vrp_policy validated)) (\<lambda>_.
     ensure (approval_is_current approval now_ms) (Engine_Refused Reason_Invalid)))"

section \<open>Cancellations\<close>

definition canceller_role_valid ::
    "policy_state \<Rightarrow> witness_request \<Rightarrow> request_cancellation \<Rightarrow> bool" where
  "canceller_role_valid policy request cancellation =
     (case ca_canceller_role cancellation of
        Canceller_OriginalRequester \<Rightarrow>
          ca_canceller_id cancellation = rq_requester_principal_id request
      | Canceller_CurrentOwner \<Rightarrow> st_is_owner policy (ca_canceller_id cancellation))"

definition validate_request_cancellation ::
    "hash_fun \<Rightarrow> verify_fun \<Rightarrow> policy_state \<Rightarrow> witness_request \<Rightarrow> request_cancellation \<Rightarrow> u64
      \<Rightarrow> witness_engine_error + unit" where
  "validate_request_cancellation H V policy request cancellation now_ms =
     and_then (or_refuse Reason_Invalid (ca_validate_shape cancellation)) (\<lambda>_.
     and_then (or_refuse Reason_Invalid (rq_signature_preimage H request)) (\<lambda>request_preimage.
     and_then (or_refuse Reason_Invalid (rq_digest H request)) (\<lambda>request_digest.
     if bounded_as_bytes (ca_request_signature_preimage cancellation) \<noteq> request_preimage \<or>
        ca_client_signature cancellation \<noteq> rq_client_signature request \<or>
        ca_request_id cancellation \<noteq> rq_request_id request \<or>
        ca_request_digest cancellation \<noteq> request_digest \<or>
        ca_issued_at_ms cancellation > saturating_add now_ms accepted_clock_skew_ms \<or>
        ca_issued_at_ms cancellation < rq_issued_at_ms request \<or>
        ca_canceller_key_epoch cancellation \<noteq> 1
     then Inl (Engine_Refused Reason_Invalid)
     else
     and_then (ok_or (Engine_Refused Reason_PolicyDenied)
       (st_principal policy (ca_canceller_id cancellation))) (\<lambda>canceller.
     let key = pd_verification_public_key (pps_descriptor canceller) in
     if \<not> canceller_role_valid policy request cancellation \<or>
        ca_canceller_key_fingerprint cancellation \<noteq>
          signing_key_fingerprint H 1 (ca_canceller_id cancellation) 1 key
     then Inl (Engine_Refused Reason_PolicyDenied)
     else
     and_then (or_refuse Reason_Invalid (ca_signature_preimage cancellation)) (\<lambda>preimage.
     ensure (V key preimage (ca_signature cancellation))
       (Engine_Refused Reason_InvalidSignature))))))"

section \<open>Recording and counting approvals\<close>

type_synonym keyed_approval = "ident \<times> bytes \<times> approval_decision"

definition approval_key :: "keyed_approval \<Rightarrow> ident \<times> bytes" where
  "approval_key entry = (fst entry, fst (snd entry))"

fun dedup_by :: "('a \<Rightarrow> 'a \<Rightarrow> bool) \<Rightarrow> 'a list \<Rightarrow> 'a list" where
  "dedup_by same [] = []"
| "dedup_by same [x] = [x]"
| "dedup_by same (x # y # rest) =
     (if same y x then dedup_by same (x # rest) else x # dedup_by same (y # rest))"

definition retain_two :: "keyed_approval list \<Rightarrow> keyed_approval \<Rightarrow> keyed_approval list" where
  "retain_two retained entry =
     (let same_approver = length (takeWhile (\<lambda>prior. fst prior = fst entry) (rev retained)) in
      if same_approver < 2 then retained @ [entry] else retained)"

definition normalize_approvals ::
    "approval_decision list \<Rightarrow> witness_engine_error + approval_decision list" where
  "normalize_approvals approvals =
     and_then (collect_results (\<lambda>approval.
       and_then (or_refuse Reason_Invalid (ap_canonical_bytes approval)) (\<lambda>bytes.
       Inr (ap_approver_id approval, bytes, approval))) approvals) (\<lambda>keyed.
     let keyed = sort_key approval_key keyed;
         keyed = dedup_by (\<lambda>left right. fst left = fst right \<and> fst (snd left) = fst (snd right)) keyed;
         retained = foldl retain_two [] keyed in
     if length retained > max_recorded_approvals then Inl (Engine_Refused Reason_CapacityExhausted)
     else Inr (map (\<lambda>entry. snd (snd entry)) retained))"

record approval_tally =
  tally_approved :: nat
  tally_undecided :: nat
  tally_conflicted :: bool

definition tally_approver ::
    "approval_decision list \<Rightarrow> ident \<Rightarrow> approval_tally \<Rightarrow> approval_tally" where
  "tally_approver approvals approver_id tally =
     (case filter (\<lambda>decision. ap_approver_id decision = approver_id) approvals of
        [] \<Rightarrow> tally\<lparr>tally_undecided := tally_undecided tally + 1\<rparr>
      | [decision] \<Rightarrow>
          if ap_decision decision = Approval_Approve
          then tally\<lparr>tally_approved := tally_approved tally + 1\<rparr>
          else tally
      | _ \<Rightarrow> tally\<lparr>tally_conflicted := True\<rparr>)"

definition tally_approvals ::
    "approval_decision list \<Rightarrow> witness_access_rule \<Rightarrow> approval_tally" where
  "tally_approvals approvals rule =
     fold (tally_approver approvals) (war_eligible_approver_ids rule)
       \<lparr>tally_approved = 0, tally_undecided = 0, tally_conflicted = False\<rparr>"

section \<open>Byte equality\<close>

definition same_request ::
    "hash_fun \<Rightarrow> witness_request \<Rightarrow> witness_request \<Rightarrow> witness_engine_error + bool" where
  "same_request H left right =
     and_then (or_refuse Reason_Invalid (rq_canonical_bytes H left)) (\<lambda>left_bytes.
     and_then (or_refuse Reason_Invalid (rq_canonical_bytes H right)) (\<lambda>right_bytes.
     Inr (left_bytes = right_bytes)))"

definition exact_anchor_eq ::
    "witness_state_anchor \<Rightarrow> witness_state_anchor \<Rightarrow> witness_engine_error + bool" where
  "exact_anchor_eq left right =
     and_then (or_refuse Reason_Invalid (an_canonical_bytes left)) (\<lambda>left_bytes.
     and_then (or_refuse Reason_Invalid (an_canonical_bytes right)) (\<lambda>right_bytes.
     Inr (left_bytes = right_bytes)))"

section \<open>Responses and receipt material\<close>

definition contribution_matches ::
    "witness_request \<Rightarrow> witness_decision \<Rightarrow> witness_policy_descriptor \<Rightarrow> witnessed_slot
      \<Rightarrow> witness_share_capsule \<Rightarrow> witness_contribution_envelope \<Rightarrow> bool" where
  "contribution_matches request decision descriptor slot capsule contribution \<longleftrightarrow>
     ce_response_id contribution = wd_response_id decision \<and>
     wd_share_index decision = Some (ce_share_index contribution) \<and>
     wd_share_commitment decision = Some (ce_share_commitment contribution) \<and>
     ce_share_index contribution = wpd_share_index descriptor \<and>
     ce_share_index contribution = cap_share_index capsule \<and>
     ce_share_commitment contribution = cap_share_commitment capsule \<and>
     ce_capsule_context_digest contribution = cap_context_digest capsule \<and>
     ce_capsule_set_digest contribution = ws_capsule_set_digest slot \<and>
     ce_request_session_key_fingerprint contribution = rq_request_session_key_fingerprint request"

definition validate_witness_response ::
    "hash_fun \<Rightarrow> verify_fun \<Rightarrow> policy_state \<Rightarrow> vault_policy_checkpoint \<Rightarrow> witness_request
      \<Rightarrow> action_manifest \<Rightarrow> witness_response \<Rightarrow> witness_engine_error + unit" where
  "validate_witness_response H V policy checkpoint request manifest response =
     and_then (validate_public_request H V policy checkpoint request manifest) (\<lambda>validated.
     and_then (or_refuse Reason_Invalid (rq_digest H request)) (\<lambda>request_digest.
     and_then (or_refuse Reason_Invalid (mf_digest H manifest)) (\<lambda>manifest_digest.
     and_then (or_refuse Reason_Invalid (cp_digest H checkpoint)) (\<lambda>checkpoint_digest.
     and_then (or_refuse Reason_InvalidContribution (wr_canonical_bytes H response)) (\<lambda>_.
     let decision = wr_decision response in
     if wd_request_id decision \<noteq> rq_request_id request \<or>
        wd_request_digest decision \<noteq> request_digest \<or>
        wd_action_manifest_digest decision \<noteq> manifest_digest \<or>
        wd_witness_policy_id decision \<noteq> rq_witness_policy_id request \<or>
        wd_witness_policy_revision decision \<noteq> rq_witness_policy_revision request \<or>
        wd_witness_policy_digest decision \<noteq> rq_witness_policy_digest request \<or>
        wd_policy_checkpoint_digest decision \<noteq> checkpoint_digest \<or>
        wd_policy_checkpoint_digest decision \<noteq> rq_policy_checkpoint_digest request \<or>
        wd_issued_at_ms decision < rq_issued_at_ms request \<or>
        wd_expires_at_ms decision \<noteq> rq_expires_at_ms request
     then Inl (Engine_Refused Reason_WrongScope)
     else
     and_then (ok_or (Engine_Refused Reason_PolicyDenied) (find (\<lambda>descriptor.
         wpd_status descriptor = Status_Active \<and> wpd_witness_id descriptor = wd_witness_id decision)
       (wp_witness_descriptors (vrp_policy validated)))) (\<lambda>descriptor.
     if wd_witness_signing_key_epoch decision \<noteq> wpd_signing_key_epoch descriptor \<or>
        wd_witness_signing_key_fingerprint decision \<noteq> wpd_signing_key_fingerprint descriptor
     then Inl (Engine_Refused Reason_InvalidSignature)
     else
     and_then (or_refuse Reason_Invalid (wd_signature_preimage decision)) (\<lambda>preimage.
     and_then (ensure (V (wpd_signing_public_key descriptor) preimage (wd_signature decision))
       (Engine_Refused Reason_InvalidSignature)) (\<lambda>_.
     if wd_decision decision \<noteq> Decision_Approve then Inr ()
     else
     and_then (ok_or (Engine_Refused Reason_InvalidContribution) (wr_contribution response))
       (\<lambda>contribution.
     and_then (ok_or (Engine_Refused Reason_InvalidContribution) (find (\<lambda>capsule.
         cap_witness_id capsule = wd_witness_id decision) (ws_capsules (vrp_slot validated))))
       (\<lambda>capsule.
     ensure (contribution_matches request decision descriptor (vrp_slot validated) capsule
       contribution) (Engine_Refused Reason_InvalidContribution)))))))))))"

record witness_receipt_material =
  rm_schema :: u16
  rm_receipt_id :: ident
  rm_request_digest :: digest32
  rm_action_manifest_digest :: digest32
  rm_presentation_digest :: digest32
  rm_policy_checkpoint_digest :: digest32
  rm_witness_policy_digest :: digest32
  rm_approval_threshold :: u8
  rm_witness_threshold :: u8
  rm_counted_approver_ids :: "ident list"
  rm_counted_witness_ids :: "ident list"
  rm_reason :: witness_reason
  rm_issued_at_ms :: u64
  rm_expires_at_ms :: u64

definition rm_canonical_bytes ::
    "witness_receipt_material \<Rightarrow> witness_protocol_error + bytes" where
  "rm_canonical_bytes r =
     (if rm_schema r \<noteq> 1 \<or> unat (rm_approval_threshold r) > max_policy_actors \<or>
         rm_witness_threshold r < 2 \<or> unat (rm_witness_threshold r) > max_policy_actors \<or>
         length (rm_counted_approver_ids r) > max_policy_actors \<or>
         length (rm_counted_witness_ids r) > max_policy_actors \<or>
         rm_issued_at_ms r = 0 \<or> rm_expires_at_ms r \<le> rm_issued_at_ms r \<or>
         \<not> strictly_sorted_unique (<) (rm_counted_approver_ids r) \<or>
         \<not> strictly_sorted_unique (<) (rm_counted_witness_ids r)
      then Inl InvalidFormat
      else
        and_then (w_list_fixed id_bytes (rm_counted_approver_ids r)) (\<lambda>approvers.
        and_then (w_list_fixed id_bytes (rm_counted_witness_ids r)) (\<lambda>witnesses.
        Inr (
        to_be_bytes (rm_schema r) @
        id_bytes (rm_receipt_id r) @
        as_bytes (rm_request_digest r) @
        as_bytes (rm_action_manifest_digest r) @
        as_bytes (rm_presentation_digest r) @
        as_bytes (rm_policy_checkpoint_digest r) @
        as_bytes (rm_witness_policy_digest r) @
        [rm_approval_threshold r] @
        [rm_witness_threshold r] @
        approvers @
        witnesses @
        [witness_reason_tag (rm_reason r)] @
        to_be_bytes (rm_issued_at_ms r) @
        to_be_bytes (rm_expires_at_ms r)))))"

definition validate_receipt_material ::
    "hash_fun \<Rightarrow> verify_fun \<Rightarrow> policy_state \<Rightarrow> vault_policy_checkpoint \<Rightarrow> witness_request
      \<Rightarrow> action_manifest \<Rightarrow> witness_receipt_material \<Rightarrow> witness_engine_error + unit" where
  "validate_receipt_material H V policy checkpoint request manifest material =
     and_then (validate_public_request H V policy checkpoint request manifest) (\<lambda>validated.
     and_then (or_refuse Reason_Invalid (rm_canonical_bytes material)) (\<lambda>_.
     let rule = vrp_rule validated;
         valid_approvers = list_all (\<lambda>i. i \<in> set (war_eligible_approver_ids rule))
           (rm_counted_approver_ids material);
         valid_witnesses = list_all (\<lambda>i. i \<in> set (war_witness_ids rule))
           (rm_counted_witness_ids material);
         successful = (rm_reason material = Reason_None) in
     and_then (or_refuse Reason_Invalid (rq_digest H request)) (\<lambda>request_digest.
     if rm_request_digest material \<noteq> request_digest then Inl (Engine_Refused Reason_WrongScope)
     else
     and_then (or_refuse Reason_Invalid (mf_digest H manifest)) (\<lambda>manifest_digest.
     if rm_action_manifest_digest material \<noteq> manifest_digest \<or>
        rm_presentation_digest material \<noteq> mf_presentation_digest manifest
     then Inl (Engine_Refused Reason_WrongScope)
     else
     and_then (or_refuse Reason_Invalid (cp_digest H checkpoint)) (\<lambda>checkpoint_digest.
     if rm_policy_checkpoint_digest material \<noteq> checkpoint_digest \<or>
        rm_witness_policy_digest material \<noteq> rq_witness_policy_digest request \<or>
        rm_approval_threshold material \<noteq> war_approval_threshold rule \<or>
        rm_witness_threshold material \<noteq> war_witness_threshold rule \<or>
        rm_issued_at_ms material < rq_issued_at_ms request \<or>
        rm_expires_at_ms material \<noteq> rq_expires_at_ms request \<or>
        \<not> valid_approvers \<or> \<not> valid_witnesses \<or>
        (successful \<and>
          (length (rm_counted_approver_ids material) < unat (war_approval_threshold rule) \<or>
           length (rm_counted_witness_ids material) < unat (war_witness_threshold rule)))
     then Inl (Engine_Refused Reason_WrongScope)
     else Inr ())))))"

section \<open>Byte equality is equality\<close>

lemma ap_canonical_bytes_inject:
  assumes "ap_canonical_bytes a = Inr x" and "ap_canonical_bytes b = Inr x"
  shows "a = b"
  using assms
  by (auto simp: ap_canonical_bytes_def Let_def ap_append_fields_def and_then_Inr enc_inj
      intro!: approval_decision.equality split: if_splits)

lemma an_canonical_bytes_inject:
  assumes "an_canonical_bytes a = Inr x" and "an_canonical_bytes b = Inr x"
  shows "a = b"
  using assms
  by (auto simp: an_canonical_bytes_def an_append_fields_def and_then_Inr result_simps enc_inj
      intro!: witness_state_anchor.equality)

lemma rq_canonical_bytes_inject:
  assumes "rq_canonical_bytes H a = Inr x" and "rq_canonical_bytes H b = Inr x"
  shows "a = b"
proof -
  obtain f g where shape: "rq_validate_shape H a = Inr ()" "rq_validate_shape H b = Inr ()"
    and fields: "rq_append_fields a = Inr f" "rq_append_fields b = Inr g"
    and bytes: "x = f @ as_bytes (rq_client_signature a)" "x = g @ as_bytes (rq_client_signature b)"
    using assms by (auto simp: rq_canonical_bytes_def Let_def and_then_Inr split: if_splits)
  have "f = g" and "rq_client_signature a = rq_client_signature b"
    using bytes by (auto simp: as_bytes_inject)
  then show ?thesis
    using shape fields by (intro rq_signature_preimage_inject [of H])
      (auto simp: rq_signature_preimage_def)
qed

lemma exact_anchor_eq_True: "exact_anchor_eq a b = Inr True \<Longrightarrow> a = b"
  by (auto simp: exact_anchor_eq_def result_simps dest: an_canonical_bytes_inject)

lemma same_request_True: "same_request H a b = Inr True \<Longrightarrow> a = b"
  by (auto simp: same_request_def result_simps dest: rq_canonical_bytes_inject)

end
