(* ===== verification/Jury_Calls.thy ===== *)
theory Jury_Calls
  imports Jury_Prelude
begin

text \<open>
  Calls with effects. A call takes a world and returns a result with the world after it, also
  when the result is an error. The theory has the combinators the engine is written with, a
  weakest-precondition transformer with one postcondition for success and one for failure, and
  relations every call keeps between the world before and after.
\<close>

named_theorems wp_simps

section \<open>Combinators\<close>

type_synonym ('w, 'e, 'a) call = "'w \<Rightarrow> ('e + 'a) \<times> 'w"

definition call_then ::
    "('w, 'e, 'a) call \<Rightarrow> ('a \<Rightarrow> ('w, 'e, 'b) call) \<Rightarrow> ('w, 'e, 'b) call" where
  "call_then call continue w =
     (case call w of (Inl e, w') \<Rightarrow> (Inl e, w') | (Inr x, w') \<Rightarrow> continue x w')"

definition call_map_err :: "('e \<Rightarrow> 'f) \<Rightarrow> ('w, 'e, 'a) call \<Rightarrow> ('w, 'f, 'a) call" where
  "call_map_err g call w = (case call w of (r, w') \<Rightarrow> (map_err g r, w'))"

definition call_result :: "'e + 'a \<Rightarrow> ('w, 'e, 'a) call" where
  "call_result r w = (r, w)"

fun call_fold :: "('s \<Rightarrow> 'a \<Rightarrow> ('w, 'e, 's) call) \<Rightarrow> 's \<Rightarrow> 'a list \<Rightarrow> ('w, 'e, 's) call" where
  "call_fold f s [] = call_result (Inr s)"
| "call_fold f s (x # xs) = call_then (f s x) (\<lambda>s'. call_fold f s' xs)"

section \<open>Weakest preconditions\<close>

definition call_wp ::
    "('w, 'e, 'a) call \<Rightarrow> ('a \<Rightarrow> 'w \<Rightarrow> bool) \<Rightarrow> ('e \<Rightarrow> 'w \<Rightarrow> bool) \<Rightarrow> 'w \<Rightarrow> bool" where
  "call_wp call Q E w = (case call w of (Inl e, w') \<Rightarrow> E e w' | (Inr x, w') \<Rightarrow> Q x w')"

lemma call_wp_then [wp_simps]:
  "call_wp (call_then call continue) Q E = call_wp call (\<lambda>x. call_wp (continue x) Q E) E"
  by (rule ext) (auto simp: call_wp_def call_then_def split: prod.splits sum.splits)

lemma call_wp_result [wp_simps]:
  "call_wp (call_result r) Q E w \<longleftrightarrow> (case r of Inl e \<Rightarrow> E e w | Inr x \<Rightarrow> Q x w)"
  by (simp add: call_wp_def call_result_def)

lemma call_wp_map_err [wp_simps]:
  "call_wp (call_map_err g call) Q E = call_wp call Q (\<lambda>e. E (g e))"
  by (rule ext) (auto simp: call_wp_def call_map_err_def split: prod.splits sum.splits)

lemma call_wp_if [wp_simps]:
  "call_wp (if b then c else d) Q E w \<longleftrightarrow>
     (b \<longrightarrow> call_wp c Q E w) \<and> (\<not> b \<longrightarrow> call_wp d Q E w)"
  by simp

lemma call_wp_mono:
  assumes "call_wp call Q E w"
    and "\<And>x w'. Q x w' \<Longrightarrow> Q' x w'" and "\<And>e w'. E e w' \<Longrightarrow> E' e w'"
  shows "call_wp call Q' E' w"
  using assms by (auto simp: call_wp_def split: prod.splits sum.splits)

lemma call_wp_conj:
  assumes "call_wp call Q E w" and "call_wp call Q' E' w"
  shows "call_wp call (\<lambda>x w'. Q x w' \<and> Q' x w') (\<lambda>e w'. E e w' \<and> E' e w') w"
  using assms by (auto simp: call_wp_def split: prod.splits sum.splits)

lemma call_wp_Inr: "call_wp call Q E w \<Longrightarrow> call w = (Inr x, w') \<Longrightarrow> Q x w'"
  by (simp add: call_wp_def)

lemma call_wp_Inl: "call_wp call Q E w \<Longrightarrow> call w = (Inl e, w') \<Longrightarrow> E e w'"
  by (simp add: call_wp_def)

lemma call_wpI:
  assumes "\<And>x w'. call w = (Inr x, w') \<Longrightarrow> Q x w'" and "\<And>e w'. call w = (Inl e, w') \<Longrightarrow> E e w'"
  shows "call_wp call Q E w"
  using assms by (auto simp: call_wp_def split: prod.splits sum.splits)

lemma call_wp_snd: "call_wp call (\<lambda>_. P) (\<lambda>_. P) w \<longleftrightarrow> P (snd (call w))"
  by (auto simp: call_wp_def split: prod.splits sum.splits)

lemma call_wp_fold:
  assumes "I s w" and "\<And>s x w. x \<in> set xs \<Longrightarrow> I s w \<Longrightarrow> call_wp (f s x) I E w"
  shows "call_wp (call_fold f s xs) I E w"
  using assms
proof (induction xs arbitrary: s w)
  case (Cons x xs)
  have "call_wp (f s x) I E w"
    using Cons.prems by simp
  moreover have "call_wp (call_fold f t xs) I E v" if "I t v" for t v
    by (rule Cons.IH [OF that]) (simp add: Cons.prems(2))
  ultimately show ?case
    unfolding call_fold.simps call_wp_then by (rule call_wp_mono)
qed (simp add: wp_simps)

lemma call_wp_fold_prefix:
  assumes "I [] s w"
    and "\<And>ys x s w. x \<in> set xs \<Longrightarrow> I ys s w \<Longrightarrow> call_wp (f s x) (I (ys @ [x])) E w"
  shows "call_wp (call_fold f s xs) (I xs) E w"
proof -
  have "call_wp (call_fold f s zs) (I (ys @ zs)) E w"
    if "I ys s w" and "set zs \<subseteq> set xs" for ys zs s w
    using that
  proof (induction zs arbitrary: ys s w)
    case (Cons z zs)
    have "call_wp (f s z) (I (ys @ [z])) E w"
      using Cons.prems by (intro assms(2)) auto
    moreover have "call_wp (call_fold f t zs) (I (ys @ z # zs)) E v" if "I (ys @ [z]) t v" for t v
      using Cons.IH [OF that] Cons.prems by simp
    ultimately show ?case
      unfolding call_fold.simps call_wp_then by (rule call_wp_mono)
  qed (simp add: wp_simps)
  from this [of "[]" s w xs] show ?thesis
    using assms(1) by simp
qed

section \<open>Calls that keep a relation\<close>

definition call_keeps :: "('w \<Rightarrow> 'w \<Rightarrow> bool) \<Rightarrow> ('w, 'e, 'a) call \<Rightarrow> bool" where
  "call_keeps R call \<longleftrightarrow> (\<forall>w. R w (snd (call w)))"

named_theorems keeps_intros

locale world_order =
  fixes R :: "'w \<Rightarrow> 'w \<Rightarrow> bool"
  assumes refl: "R w w" and trans: "R u v \<Longrightarrow> R v w \<Longrightarrow> R u w"
begin

lemma keeps_result [keeps_intros]: "call_keeps R (call_result r)"
  by (simp add: call_keeps_def call_result_def refl)

lemma keeps_then [keeps_intros]:
  "call_keeps R call \<Longrightarrow> (\<And>x. call_keeps R (continue x)) \<Longrightarrow>
     call_keeps R (call_then call continue)"
  by (auto simp: call_keeps_def call_then_def split: prod.splits sum.splits)
    (metis snd_conv, metis snd_conv trans)

lemma keeps_map_err [keeps_intros]: "call_keeps R call \<Longrightarrow> call_keeps R (call_map_err g call)"
  by (auto simp: call_keeps_def call_map_err_def split: prod.splits) (metis snd_conv)

lemma keeps_fold [keeps_intros]:
  "(\<And>s x. call_keeps R (f s x)) \<Longrightarrow> call_keeps R (call_fold f s xs)"
  by (induction xs arbitrary: s) (auto intro: keeps_result keeps_then)

end

lemma keeps_if [keeps_intros]:
  "(b \<Longrightarrow> call_keeps R c) \<Longrightarrow> (\<not> b \<Longrightarrow> call_keeps R d) \<Longrightarrow> call_keeps R (if b then c else d)"
  by simp

lemma keeps_option [keeps_intros]:
  "call_keeps R c \<Longrightarrow> (\<And>x. call_keeps R (d x)) \<Longrightarrow>
     call_keeps R (case r of None \<Rightarrow> c | Some x \<Rightarrow> d x)"
  by (cases r) auto

lemma keeps_sum [keeps_intros]:
  "(\<And>x. call_keeps R (c x)) \<Longrightarrow> (\<And>x. call_keeps R (d x)) \<Longrightarrow>
     call_keeps R (case r of Inl x \<Rightarrow> c x | Inr x \<Rightarrow> d x)"
  by (cases r) auto

lemma keeps_prod [keeps_intros]:
  "(\<And>x y. call_keeps R (c x y)) \<Longrightarrow> call_keeps R (case p of (x, y) \<Rightarrow> c x y)"
  by (cases p) auto

lemma call_keepsI:
  "(\<And>w. call_wp call (\<lambda>_ w'. R w w') (\<lambda>_ w'. R w w') w) \<Longrightarrow> call_keeps R call"
  by (simp add: call_wp_snd call_keeps_def)

lemma call_keeps_wp:
  "call_keeps R call \<Longrightarrow> call_wp call (\<lambda>_ w'. R w w') (\<lambda>_ w'. R w w') w"
  by (simp add: call_wp_snd call_keeps_def)

end
