(* ===== verification/Jury_Engine_State.thy ===== *)
theory Jury_Engine_State
  imports Jury_Validation Jury_Calls
begin

text \<open>
  The witness engine's state and its reconciliation with the external anchor:
  \<open>witness_engine.rs\<close> (logical and persisted state, the canonical database state, the traits
  of the store, the external anchor, the clock, the entropy source and the identity) and
  \<open>witness_engine/state.rs\<close> (readiness, publication of a pending anchor, commit). The traits
  are the fields of one record of operations on a world \<open>'w\<close>: every call takes the world and
  returns the result with the world after it, failures included.
\<close>

section \<open>Effects\<close>

type_synonym ('w, 'a) engine_call = "('w, witness_engine_error, 'a) call"

definition call_refuse :: "witness_reason \<Rightarrow> ('w, 'a) engine_call" where
  "call_refuse reason = call_result (Inl (Engine_Refused reason))"

section \<open>State\<close>

record registered_witness_vault =
  rw_accepted_registration :: registration_bytes
  rw_current_checkpoint :: vault_policy_checkpoint
  rw_current_policy_material :: policy_material_bytes

record witness_replay_entry =
  re_request :: witness_request
  re_action_manifest_digest :: digest32
  re_state :: replay_state
  re_retain_through_ms :: u64
  re_approvals :: "approval_decision list"
  re_cancellation :: "cancellation_bytes option"
  re_response :: "witness_response option"

record witness_logical_state =
  lg_witness_id :: ident
  lg_state_generation :: u64
  lg_vaults :: "(ident, registered_witness_vault) btree_map"
  lg_replay :: "(ident \<times> ident, witness_replay_entry) btree_map"
  lg_last_accepted_wall_time_ms :: u64

definition lg_empty :: "ident \<Rightarrow> witness_logical_state" where
  "lg_empty witness_id =
     \<lparr>lg_witness_id = witness_id, lg_state_generation = 0, lg_vaults = bt_empty,
      lg_replay = bt_empty, lg_last_accepted_wall_time_ms = 0\<rparr>"

record persisted_witness_state =
  ps_logical :: witness_logical_state
  ps_published_anchor :: "witness_state_anchor option"
  ps_pending_anchor :: "witness_state_anchor option"

definition ps_empty :: "ident \<Rightarrow> persisted_witness_state" where
  "ps_empty witness_id =
     \<lparr>ps_logical = lg_empty witness_id, ps_published_anchor = None, ps_pending_anchor = None\<rparr>"

datatype witness_progress = Progress_Reserved | Progress_Pending | Progress_Stable witness_response

datatype cancellation_progress =
    Cancellation_Cancelled witness_response | Cancellation_TooLate witness_response

record witness_operational_status =
  wos_witness_id :: ident
  wos_state_generation :: u64
  wos_replay_record_count :: nat
  wos_compactable_replay_record_count :: nat
  wos_replay_retain_through_ms :: u64
  wos_published_anchor :: "witness_state_anchor option"

section \<open>The canonical database state\<close>

definition canonical_vault_state ::
    "ident \<times> registered_witness_vault \<Rightarrow> witness_engine_error + witness_vault_state" where
  "canonical_vault_state entry =
     (case entry of (vault_id, vault) \<Rightarrow>
       and_then (or_refuse Reason_Invalid (cp_canonical_bytes (rw_current_checkpoint vault)))
         (\<lambda>bytes.
       and_then (or_refuse Reason_CapacityExhausted (bounded_new bytes)) (\<lambda>checkpoint.
       Inr \<lparr>vs_schema = 1, vs_vault_id = vault_id,
            vs_genesis_fingerprint = cp_genesis_fingerprint (rw_current_checkpoint vault),
            vs_accepted_registration = rw_accepted_registration vault,
            vs_current_checkpoint = checkpoint,
            vs_current_policy_material = rw_current_policy_material vault\<rparr>)))"

definition re_to_protocol ::
    "hash_fun \<Rightarrow> (ident \<times> ident) \<times> witness_replay_entry
      \<Rightarrow> witness_engine_error + witness_replay_record" where
  "re_to_protocol H keyed =
     (case keyed of ((vault_id, request_id), entry) \<Rightarrow>
       and_then (or_refuse Reason_Invalid (rq_canonical_bytes H (re_request entry))) (\<lambda>request_bytes.
       and_then (or_refuse Reason_CapacityExhausted (bounded_new request_bytes)) (\<lambda>request_message.
       and_then (collect_results (\<lambda>approval.
           and_then (or_refuse Reason_Invalid (ap_canonical_bytes approval)) (\<lambda>bytes.
           or_refuse Reason_CapacityExhausted (bounded_new bytes))) (re_approvals entry))
         (\<lambda>approvals.
       and_then (transpose_result (map_option (\<lambda>response.
           and_then (or_refuse Reason_Invalid (wr_canonical_bytes H response)) (\<lambda>bytes.
           or_refuse Reason_CapacityExhausted (bounded_new bytes))) (re_response entry)))
         (\<lambda>response.
       and_then (or_refuse Reason_Invalid (rq_digest H (re_request entry))) (\<lambda>request_digest.
       Inr \<lparr>rp_schema = 1, rp_vault_id = vault_id, rp_request_id = request_id,
            rp_request_digest = request_digest, rp_request_message = request_message,
            rp_action_manifest_digest = re_action_manifest_digest entry,
            rp_state = re_state entry, rp_expires_at_ms = rq_expires_at_ms (re_request entry),
            rp_retain_through_ms = re_retain_through_ms entry,
            rp_approval_decisions = approvals, rp_cancellation = re_cancellation entry,
            rp_witness_response = response\<rparr>))))))"

definition canonical_database_state ::
    "hash_fun \<Rightarrow> witness_logical_state \<Rightarrow> witness_engine_error + witness_database_state" where
  "canonical_database_state H state =
     and_then (collect_results canonical_vault_state (bt_entries (lg_vaults state)))
       (\<lambda>vault_states.
     and_then (collect_results (re_to_protocol H) (bt_entries (lg_replay state)))
       (\<lambda>replay_records.
     Inr \<lparr>db_schema = 1, db_witness_id = lg_witness_id state,
          db_state_generation = lg_state_generation state, db_vault_states = vault_states,
          db_replay_records = replay_records,
          db_last_accepted_wall_time_ms = lg_last_accepted_wall_time_ms state\<rparr>))"

definition logical_digest ::
    "hash_fun \<Rightarrow> witness_logical_state \<Rightarrow> witness_engine_error + digest32" where
  "logical_digest H state =
     and_then (canonical_database_state H state) (\<lambda>database.
     or_refuse Reason_Invalid (db_digest H database))"

definition predecessor_digest ::
    "hash_fun \<Rightarrow> witness_state_anchor option \<Rightarrow> witness_engine_error + digest32" where
  "predecessor_digest H published =
     and_then (or_refuse Reason_Invalid (transpose_result (map_option (an_digest H) published)))
       (\<lambda>digest. Inr (case digest of None \<Rightarrow> zero_digest | Some d \<Rightarrow> d))"

section \<open>The engine's environment\<close>

datatype witness_store_error = Store_Unavailable | Store_CapacityExhausted

datatype witness_anchor_error = Anchor_Unavailable | Anchor_CapacityExhausted

datatype anchor_compare_and_swap = Cas_Published | Cas_Conflict

datatype provider_failure = Provider_Failure

fun map_store_error :: "witness_store_error \<Rightarrow> witness_engine_error" where
  "map_store_error Store_Unavailable = Engine_StoreUnavailable"
| "map_store_error Store_CapacityExhausted = Engine_Refused Reason_CapacityExhausted"

fun map_anchor_error :: "witness_anchor_error \<Rightarrow> witness_engine_error" where
  "map_anchor_error Anchor_Unavailable = Engine_AnchorUnavailable"
| "map_anchor_error Anchor_CapacityExhausted = Engine_Refused Reason_CapacityExhausted"

record witness_contribution_target =
  wct_request_digest :: digest32
  wct_action_manifest_digest :: digest32
  wct_response_id :: ident
  wct_checkpoint_digest :: digest32
  wct_capsule_set_digest :: digest32
  wct_session_public_key :: recipient_public_key1216
  wct_session_fingerprint :: digest32
  wct_expires_at_ms :: u64

record 'w witness_engine =
  en_hash :: hash_fun
  en_verify :: verify_fun
  en_principal_id :: ident
  en_public_descriptor :: "provider_failure + principal_descriptor"
  en_sign_witness_statement :: "bytes \<Rightarrow> provider_failure + signature64"
  en_seal_witness_contribution ::
    "vault_suite \<Rightarrow> witness_share_capsule \<Rightarrow> witness_contribution_target
      \<Rightarrow> 'w \<Rightarrow> (provider_failure + witness_contribution_envelope) \<times> 'w"
  en_load :: "'w \<Rightarrow> (witness_store_error + persisted_witness_state) \<times> 'w"
  en_commit :: "u64 \<Rightarrow> persisted_witness_state \<Rightarrow> 'w \<Rightarrow> (witness_store_error + unit) \<times> 'w"
  en_mark_anchor_published :: "digest32 \<Rightarrow> 'w \<Rightarrow> (witness_store_error + unit) \<times> 'w"
  en_ensure_publishable :: "witness_state_anchor \<Rightarrow> 'w \<Rightarrow> (witness_anchor_error + unit) \<times> 'w"
  en_read :: "'w \<Rightarrow> (witness_anchor_error + witness_state_anchor option) \<times> 'w"
  en_compare_and_swap ::
    "witness_state_anchor option \<Rightarrow> witness_state_anchor
      \<Rightarrow> 'w \<Rightarrow> (witness_anchor_error + anchor_compare_and_swap) \<times> 'w"
  en_wall_time_ms :: "'w \<Rightarrow> u64 \<times> 'w"
  en_fill :: "'w \<Rightarrow> (provider_failure + 32 fixed_bytes) \<times> 'w"

definition store_load :: "'w witness_engine \<Rightarrow> ('w, persisted_witness_state) engine_call" where
  "store_load e = call_map_err map_store_error (en_load e)"

definition anchor_read :: "'w witness_engine \<Rightarrow> ('w, witness_state_anchor option) engine_call" where
  "anchor_read e = call_map_err map_anchor_error (en_read e)"

definition wall_time :: "'w witness_engine \<Rightarrow> ('w, u64) engine_call" where
  "wall_time e w = (case en_wall_time_ms e w of (now_ms, w') \<Rightarrow> (Inr now_ms, w'))"

definition engine_descriptor ::
    "'w witness_engine \<Rightarrow> witness_engine_error + principal_descriptor" where
  "engine_descriptor e = or_refuse Reason_InternalFailure (en_public_descriptor e)"

definition engine_signing_fingerprint :: "'w witness_engine \<Rightarrow> principal_descriptor \<Rightarrow> digest32" where
  "engine_signing_fingerprint e descriptor =
     signing_key_fingerprint (en_hash e) 3 (pd_principal_id descriptor) 1
       (pd_verification_public_key descriptor)"

section \<open>Reconciliation with the external anchor\<close>

definition validate_stored_identity ::
    "'w witness_engine \<Rightarrow> persisted_witness_state \<Rightarrow> witness_engine_error + unit" where
  "validate_stored_identity e state =
     (if lg_witness_id (ps_logical state) \<noteq> en_principal_id e
      then Inl (Engine_Refused Reason_RestoredStateUnsafe)
      else if lg_state_generation (ps_logical state) = 0 \<and>
        (\<not> bt_is_empty (lg_vaults (ps_logical state)) \<or>
         \<not> bt_is_empty (lg_replay (ps_logical state)) \<or>
         lg_last_accepted_wall_time_ms (ps_logical state) \<noteq> 0 \<or>
         ps_published_anchor state \<noteq> None \<or> ps_pending_anchor state \<noteq> None)
      then Inl (Engine_Refused Reason_RestoredStateUnsafe)
      else Inr ())"

definition validate_anchor ::
    "'w witness_engine \<Rightarrow> witness_state_anchor \<Rightarrow> witness_engine_error + unit" where
  "validate_anchor e anchor =
     and_then (engine_descriptor e) (\<lambda>descriptor.
     if an_witness_id anchor \<noteq> pd_principal_id descriptor \<or>
        an_witness_signing_key_epoch anchor \<noteq> 1 \<or>
        an_witness_signing_key_fingerprint anchor \<noteq> engine_signing_fingerprint e descriptor
     then Inl (Engine_Refused Reason_RestoredStateUnsafe)
     else
     and_then (or_refuse Reason_Invalid (an_signature_preimage anchor)) (\<lambda>preimage.
     ensure (en_verify e (pd_verification_public_key descriptor) preimage (an_signature anchor))
       (Engine_Refused Reason_RestoredStateUnsafe)))"

definition published_equality ::
    "'w witness_engine \<Rightarrow> persisted_witness_state \<Rightarrow> witness_state_anchor option
      \<Rightarrow> witness_engine_error + unit" where
  "published_equality e state external =
     (case (ps_published_anchor state, external) of
        (None, None) \<Rightarrow>
          if lg_state_generation (ps_logical state) = 0 then Inr ()
          else Inl (Engine_Refused Reason_AnchorConflict)
      | (Some local_anchor, Some external_anchor) \<Rightarrow>
          and_then (exact_anchor_eq local_anchor external_anchor) (\<lambda>equal.
          if \<not> equal \<or>
             an_state_generation local_anchor \<noteq> lg_state_generation (ps_logical state)
          then Inl (Engine_Refused Reason_AnchorConflict)
          else
          and_then (logical_digest (en_hash e) (ps_logical state)) (\<lambda>digest.
          if an_database_state_digest local_anchor = digest then validate_anchor e local_anchor
          else Inl (Engine_Refused Reason_AnchorConflict)))
      | _ \<Rightarrow> Inl (Engine_Refused Reason_AnchorConflict))"

definition require_published_equality ::
    "'w witness_engine \<Rightarrow> persisted_witness_state \<Rightarrow> ('w, unit) engine_call" where
  "require_published_equality e state =
     call_then (anchor_read e) (\<lambda>external. call_result (published_equality e state external))"

definition mark_published ::
    "'w witness_engine \<Rightarrow> witness_state_anchor \<Rightarrow> ('w, unit) engine_call" where
  "mark_published e candidate =
     call_then (call_result (or_refuse Reason_Invalid (an_digest (en_hash e) candidate)))
       (\<lambda>digest. call_map_err map_store_error (en_mark_anchor_published e digest))"

definition is_exactly :: "witness_state_anchor option \<Rightarrow> witness_state_anchor \<Rightarrow> bool" where
  "is_exactly external candidate =
     (case external of
        None \<Rightarrow> False
      | Some anchor \<Rightarrow>
          (case exact_anchor_eq anchor candidate of Inl _ \<Rightarrow> False | Inr equal \<Rightarrow> equal))"

definition predecessor_matches ::
    "persisted_witness_state \<Rightarrow> witness_state_anchor option \<Rightarrow> witness_engine_error + bool" where
  "predecessor_matches state external =
     (case (ps_published_anchor state, external) of
        (None, None) \<Rightarrow> Inr True
      | (Some expected, Some actual) \<Rightarrow> exact_anchor_eq expected actual
      | _ \<Rightarrow> Inr False)"

definition check_candidate ::
    "'w witness_engine \<Rightarrow> persisted_witness_state \<Rightarrow> witness_engine_error + witness_state_anchor" where
  "check_candidate e state =
     and_then (ok_or (Engine_Refused Reason_AnchorConflict) (ps_pending_anchor state))
       (\<lambda>candidate.
     and_then (validate_anchor e candidate) (\<lambda>_.
     and_then (logical_digest (en_hash e) (ps_logical state)) (\<lambda>database_digest.
     and_then (predecessor_digest (en_hash e) (ps_published_anchor state)) (\<lambda>expected_predecessor.
     if an_state_generation candidate \<noteq> lg_state_generation (ps_logical state) \<or>
        an_database_state_digest candidate \<noteq> database_digest \<or>
        an_predecessor_anchor_digest candidate \<noteq> expected_predecessor
     then Inl (Engine_Refused Reason_AnchorConflict)
     else Inr candidate))))"

definition swap_in ::
    "'w witness_engine \<Rightarrow> witness_state_anchor option \<Rightarrow> witness_state_anchor
      \<Rightarrow> ('w, unit) engine_call" where
  "swap_in e published candidate =
     call_then (call_map_err map_anchor_error (en_compare_and_swap e published candidate))
       (\<lambda>outcome.
     case outcome of
       Cas_Published \<Rightarrow> call_result (Inr ())
     | Cas_Conflict \<Rightarrow>
         call_then (anchor_read e) (\<lambda>observed.
         call_result (ensure (is_exactly observed candidate)
           (Engine_Refused Reason_AnchorConflict))))"

definition publish_pending ::
    "'w witness_engine \<Rightarrow> persisted_witness_state \<Rightarrow> ('w, unit) engine_call" where
  "publish_pending e state =
     call_then (call_result (check_candidate e state)) (\<lambda>candidate.
     call_then (anchor_read e) (\<lambda>external.
     if is_exactly external candidate then mark_published e candidate
     else
     call_then (call_result (predecessor_matches state external)) (\<lambda>matches.
     if \<not> matches then call_refuse Reason_AnchorConflict
     else
     call_then (swap_in e (ps_published_anchor state) candidate) (\<lambda>_.
     call_then (anchor_read e) (\<lambda>readback.
     call_then (call_result (ok_or (Engine_Refused Reason_AnchorConflict) readback)) (\<lambda>readback.
     call_then (call_result (exact_anchor_eq readback candidate)) (\<lambda>equal.
     if \<not> equal then call_refuse Reason_AnchorConflict
     else mark_published e candidate)))))))"

definition ready_state :: "'w witness_engine \<Rightarrow> ('w, persisted_witness_state) engine_call" where
  "ready_state e =
     call_then (store_load e) (\<lambda>state.
     call_then (call_result (validate_stored_identity e state)) (\<lambda>_.
     call_then (if ps_pending_anchor state \<noteq> None then publish_pending e state
                else require_published_equality e state) (\<lambda>_.
     call_then (store_load e) (\<lambda>ready.
     call_then (call_result (validate_stored_identity e ready)) (\<lambda>_.
     if ps_pending_anchor ready \<noteq> None then call_refuse Reason_AnchorConflict
     else
     call_then (require_published_equality e ready) (\<lambda>_.
     call_result (Inr ready)))))))"

definition require_safe_clock ::
    "persisted_witness_state \<Rightarrow> u64 \<Rightarrow> witness_engine_error + unit" where
  "require_safe_clock state now_ms =
     (if saturating_add now_ms accepted_clock_skew_ms <
         lg_last_accepted_wall_time_ms (ps_logical state)
      then Inl (Engine_Refused Reason_UnsafeClock) else Inr ())"

section \<open>Committing a state\<close>

definition max_or_zero :: "u64 list \<Rightarrow> u64" where
  "max_or_zero values = fold max values 0"

definition vault_watermark ::
    "'w witness_engine \<Rightarrow> persisted_witness_state \<Rightarrow> ident \<times> registered_witness_vault
      \<Rightarrow> witness_engine_error + vault_high_watermark" where
  "vault_watermark e state entry =
     (case entry of (vault_id, vault) \<Rightarrow>
       and_then (or_refuse Reason_Invalid (cp_digest (en_hash e) (rw_current_checkpoint vault)))
         (\<lambda>checkpoint_digest.
       Inr \<lparr>hw_vault_id = vault_id,
            hw_genesis_fingerprint = cp_genesis_fingerprint (rw_current_checkpoint vault),
            hw_policy_sequence = cp_vault_policy_sequence (rw_current_checkpoint vault),
            hw_checkpoint_digest = checkpoint_digest,
            hw_highest_retained_request_expiry_ms =
              max_or_zero (map (\<lambda>(_, record). rq_expires_at_ms (re_request record))
                (filter (\<lambda>((record_vault_id, _), _). record_vault_id = vault_id)
                  (bt_entries (lg_replay (ps_logical state)))))\<rparr>))"

definition build_anchor ::
    "'w witness_engine \<Rightarrow> persisted_witness_state \<Rightarrow> u64
      \<Rightarrow> witness_engine_error + witness_state_anchor" where
  "build_anchor e state now_ms =
     and_then (engine_descriptor e) (\<lambda>descriptor.
     and_then (logical_digest (en_hash e) (ps_logical state)) (\<lambda>database_state_digest.
     and_then (collect_results (vault_watermark e state) (bt_entries (lg_vaults (ps_logical state))))
       (\<lambda>watermarks.
     and_then (predecessor_digest (en_hash e) (ps_published_anchor state)) (\<lambda>predecessor.
     let anchor =
       \<lparr>an_schema = 1, an_witness_id = pd_principal_id descriptor,
        an_witness_signing_key_fingerprint = engine_signing_fingerprint e descriptor,
        an_witness_signing_key_epoch = 1,
        an_state_generation = lg_state_generation (ps_logical state),
        an_database_state_digest = database_state_digest,
        an_vault_high_watermarks = watermarks,
        an_replay_retain_through_ms =
          max_or_zero (map re_retain_through_ms (bt_values (lg_replay (ps_logical state)))),
        an_last_accepted_wall_time_ms = lg_last_accepted_wall_time_ms (ps_logical state),
        an_predecessor_anchor_digest = predecessor,
        an_issued_at_ms = now_ms,
        an_signature = zero_signature\<rparr> in
     and_then (or_refuse Reason_Invalid (an_signature_preimage anchor)) (\<lambda>preimage.
     and_then (or_refuse Reason_InternalFailure (en_sign_witness_statement e preimage))
       (\<lambda>signature.
     Inr (anchor\<lparr>an_signature := signature\<rparr>)))))))"

definition commit_and_publish ::
    "'w witness_engine \<Rightarrow> persisted_witness_state \<Rightarrow> u64 \<Rightarrow> ('w, persisted_witness_state) engine_call"
  where
  "commit_and_publish e state now_ms =
     (let logical = ps_logical state; expected_generation = lg_state_generation logical in
      call_then (call_result (ok_or (Engine_Refused Reason_CapacityExhausted)
        (checked_add expected_generation 1))) (\<lambda>generation.
      let state = state\<lparr>ps_logical := logical\<lparr>lg_state_generation := generation,
            lg_last_accepted_wall_time_ms := max (lg_last_accepted_wall_time_ms logical) now_ms\<rparr>\<rparr> in
      call_then (call_result (build_anchor e state now_ms)) (\<lambda>candidate.
      call_then (call_map_err map_anchor_error (en_ensure_publishable e candidate)) (\<lambda>_.
      call_then (call_map_err map_store_error
        (en_commit e expected_generation (state\<lparr>ps_pending_anchor := Some candidate\<rparr>))) (\<lambda>_.
      ready_state e)))))"

end
