(* ===== verification/Jury_Engine.thy ===== *)
theory Jury_Engine
  imports Jury_Engine_State
begin

text \<open>
  The operations of the witness engine: \<open>witness_engine/operations.rs\<close> (readiness, status,
  registration, checkpoint advancement, cancellation, compaction, reservation and decision),
  \<open>witness_engine/requests.rs\<close> (validation of a request by a live witness, the signed denial
  and approval responses) and the checkpoint checks of \<open>witness_engine/validation.rs\<close> that
  need the engine's identity.
\<close>

section \<open>Checkpoints\<close>

definition checkpoint_acknowledgement ::
    "hash_fun \<Rightarrow> persisted_witness_state \<Rightarrow> ident
      \<Rightarrow> witness_engine_error + witness_checkpoint_acknowledgement" where
  "checkpoint_acknowledgement H state vault_id =
     and_then (ok_or (Engine_Refused Reason_StalePolicy)
       (bt_get (lg_vaults (ps_logical state)) vault_id)) (\<lambda>vault.
     and_then (ok_or (Engine_Refused Reason_AnchorConflict) (ps_published_anchor state))
       (\<lambda>exact_anchor.
     and_then (or_refuse Reason_Invalid (cp_digest H (rw_current_checkpoint vault)))
       (\<lambda>checkpoint_digest.
     and_then (or_refuse Reason_Invalid (an_digest H exact_anchor)) (\<lambda>anchor_digest.
     let acknowledgement =
       \<lparr>ack_schema = 1, ack_witness_id = lg_witness_id (ps_logical state),
        ack_vault_id = vault_id, ack_checkpoint_digest = checkpoint_digest,
        ack_vault_policy_sequence = cp_vault_policy_sequence (rw_current_checkpoint vault),
        ack_active_witness_policy_set_digest =
          cp_active_witness_policy_set_digest (rw_current_checkpoint vault),
        ack_state_generation = lg_state_generation (ps_logical state),
        ack_anchor_digest = anchor_digest, ack_exact_anchor = exact_anchor\<rparr> in
     and_then (or_refuse Reason_InternalFailure (ack_validate_shape H acknowledgement)) (\<lambda>_.
     Inr acknowledgement)))))"

definition validate_checkpoint ::
    "'w witness_engine \<Rightarrow> policy_state \<Rightarrow> vault_policy_checkpoint \<Rightarrow> witness_engine_error + unit" where
  "validate_checkpoint e policy checkpoint =
     and_then (validate_checkpoint_public (en_hash e) (en_verify e) policy checkpoint) (\<lambda>policies.
     and_then (engine_descriptor e) (\<lambda>own_descriptor.
     ensure (list_ex (\<lambda>descriptor. wpd_status descriptor = Status_Active \<and>
         wpd_witness_id descriptor = pd_principal_id own_descriptor \<and>
         wpd_signing_public_key descriptor = pd_verification_public_key own_descriptor \<and>
         wpd_contribution_public_key descriptor = pd_recipient_public_key own_descriptor)
       (concat (map wp_witness_descriptors policies))) (Engine_Refused Reason_PolicyDenied)))"

definition validate_registered_checkpoint ::
    "'w witness_engine \<Rightarrow> policy_state \<Rightarrow> vault_policy_checkpoint \<Rightarrow> witness_engine_error + unit" where
  "validate_registered_checkpoint e policy checkpoint =
     (if cp_vault_policy_sequence checkpoint < st_sequence policy
      then Inl (Engine_Refused Reason_WitnessBehind)
      else if cp_vault_policy_sequence checkpoint > st_sequence policy
      then Inl (Engine_Refused Reason_StalePolicy)
      else validate_checkpoint e policy checkpoint)"

section \<open>Requests\<close>

record validated_request =
  vr_suite :: vault_suite
  vr_rule :: witness_access_rule
  vr_policy :: witness_policy
  vr_capsule :: witness_share_capsule
  vr_capsule_set_digest :: digest32

definition current_registration ::
    "'w witness_engine \<Rightarrow> policy_state \<Rightarrow> persisted_witness_state \<Rightarrow> witness_request
      \<Rightarrow> witness_engine_error + unit" where
  "current_registration e policy state request =
     and_then (ok_or (Engine_Refused Reason_StalePolicy)
       (bt_get (lg_vaults (ps_logical state)) (rq_vault_id request))) (\<lambda>registered.
     and_then (validate_registered_checkpoint e policy (rw_current_checkpoint registered)) (\<lambda>_.
     and_then (or_refuse Reason_Invalid (cp_digest (en_hash e) (rw_current_checkpoint registered)))
       (\<lambda>checkpoint_digest.
     ensure (rq_policy_checkpoint_digest request = checkpoint_digest)
       (Engine_Refused Reason_StalePolicy))))"

definition own_capsule ::
    "'w witness_engine \<Rightarrow> validated_request_policy \<Rightarrow> witness_engine_error + witness_share_capsule"
  where
  "own_capsule e validated =
     and_then (ok_or (Engine_Refused Reason_PolicyDenied) (find (\<lambda>capsule.
       cap_witness_id capsule = en_principal_id e) (ws_capsules (vrp_slot validated)))) (\<lambda>capsule.
     and_then (ok_or (Engine_Refused Reason_PolicyDenied) (find (\<lambda>descriptor.
       wpd_status descriptor = Status_Active \<and> wpd_witness_id descriptor = en_principal_id e)
       (wp_witness_descriptors (vrp_policy validated)))) (\<lambda>witness_descriptor.
     and_then (engine_descriptor e) (\<lambda>identity_descriptor.
     if wpd_signing_public_key witness_descriptor \<noteq>
          pd_verification_public_key identity_descriptor \<or>
        wpd_contribution_public_key witness_descriptor \<noteq>
          pd_recipient_public_key identity_descriptor \<or>
        wpd_share_index witness_descriptor \<noteq> cap_share_index capsule \<or>
        wpd_contribution_key_fingerprint witness_descriptor \<noteq>
          cap_contribution_key_fingerprint capsule
     then Inl (Engine_Refused Reason_PolicyDenied)
     else Inr capsule)))"

definition validate_request ::
    "'w witness_engine \<Rightarrow> policy_state \<Rightarrow> persisted_witness_state \<Rightarrow> witness_request
      \<Rightarrow> action_manifest \<Rightarrow> u64 \<Rightarrow> witness_engine_error + validated_request" where
  "validate_request e policy state request manifest now_ms =
     and_then (validate_request_manifest (en_hash e) request manifest) (\<lambda>_.
     and_then (current_registration e policy state request) (\<lambda>_.
     and_then (validate_request_time request now_ms) (\<lambda>_.
     and_then (map_err map_request_policy_error
       (validate_manifest_policy (en_hash e) (en_verify e) policy request manifest)) (\<lambda>validated.
     if workload_exceeds manifest (vrp_rule validated)
     then Inl (Engine_Refused Reason_WorkloadExceeded)
     else
     and_then (validate_automatic_rule manifest (vrp_rule validated)) (\<lambda>_.
     and_then (own_capsule e validated) (\<lambda>capsule.
     and_then (ok_or (Engine_Refused Reason_Invalid) (suite_from_id (ws_suite (vrp_slot validated))))
       (\<lambda>suite.
     Inr \<lparr>vr_suite = suite, vr_rule = vrp_rule validated, vr_policy = vrp_policy validated,
          vr_capsule = capsule,
          vr_capsule_set_digest = ws_capsule_set_digest (vrp_slot validated)\<rparr>)))))))"

definition validate_embedded_request ::
    "'w witness_engine \<Rightarrow> policy_state \<Rightarrow> persisted_witness_state \<Rightarrow> witness_request \<Rightarrow> u64
      \<Rightarrow> witness_engine_error + unit" where
  "validate_embedded_request e policy state request now_ms =
     and_then (validate_request_time request now_ms) (\<lambda>_.
     and_then (current_registration e policy state request) (\<lambda>_.
     and_then (map_err map_request_policy_error
       (validate_request_policy (en_hash e) (en_verify e) policy request)) (\<lambda>_.
     Inr ())))"

definition validate_approval_static ::
    "'w witness_engine \<Rightarrow> approval_decision \<Rightarrow> witness_request \<Rightarrow> action_manifest
      \<Rightarrow> validated_request \<Rightarrow> witness_engine_error + unit" where
  "validate_approval_static e approval request manifest validated =
     validate_approval_against_policy (en_hash e) (en_verify e) approval request manifest
       (vr_rule validated) (vr_policy validated)"

definition validate_approval ::
    "'w witness_engine \<Rightarrow> approval_decision \<Rightarrow> witness_request \<Rightarrow> action_manifest
      \<Rightarrow> validated_request \<Rightarrow> u64 \<Rightarrow> witness_engine_error + unit" where
  "validate_approval e approval request manifest validated now_ms =
     and_then (validate_approval_static e approval request manifest validated) (\<lambda>_.
     ensure (approval_is_current approval now_ms) (Engine_Refused Reason_Invalid))"

section \<open>Responses\<close>

definition random_response_id :: "'w witness_engine \<Rightarrow> ('w, ident) engine_call" where
  "random_response_id e =
     call_then (call_map_err (\<lambda>_. Engine_Refused Reason_InternalFailure) (en_fill e)) (\<lambda>bytes.
     call_result (or_refuse Reason_InternalFailure (identifier_from_bytes bytes)))"

definition sign_decision ::
    "'w witness_engine \<Rightarrow> witness_decision \<Rightarrow> witness_engine_error + witness_decision" where
  "sign_decision e decision =
     and_then (or_refuse Reason_Invalid (wd_signature_preimage decision)) (\<lambda>preimage.
     and_then (or_refuse Reason_InternalFailure (en_sign_witness_statement e preimage))
       (\<lambda>signature.
     Inr (decision\<lparr>wd_signature := signature\<rparr>)))"

definition denial_response ::
    "'w witness_engine \<Rightarrow> witness_request \<Rightarrow> digest32 \<Rightarrow> witness_reason \<Rightarrow> u64 \<Rightarrow> u64
      \<Rightarrow> ('w, witness_response) engine_call" where
  "denial_response e request action_manifest_digest reason state_generation now_ms =
     call_then (random_response_id e) (\<lambda>response_id.
     call_result (
     and_then (engine_descriptor e) (\<lambda>descriptor.
     and_then (or_refuse Reason_Invalid (rq_digest (en_hash e) request)) (\<lambda>request_digest.
     and_then (sign_decision e
       \<lparr>wd_schema = 1, wd_response_id = response_id, wd_request_id = rq_request_id request,
        wd_request_digest = request_digest,
        wd_action_manifest_digest = action_manifest_digest,
        wd_witness_id = pd_principal_id descriptor,
        wd_witness_signing_key_fingerprint = engine_signing_fingerprint e descriptor,
        wd_witness_signing_key_epoch = 1,
        wd_witness_policy_id = rq_witness_policy_id request,
        wd_witness_policy_revision = rq_witness_policy_revision request,
        wd_witness_policy_digest = rq_witness_policy_digest request,
        wd_policy_checkpoint_digest = rq_policy_checkpoint_digest request,
        wd_state_generation = state_generation,
        wd_decision = Decision_Deny, wd_reason = reason,
        wd_issued_at_ms = now_ms, wd_expires_at_ms = rq_expires_at_ms request,
        wd_contribution_digest = None, wd_share_index = None, wd_share_commitment = None,
        wd_signature = zero_signature\<rparr>) (\<lambda>decision.
     Inr \<lparr>wr_decision = decision, wr_contribution = None\<rparr>)))))"

definition approval_response ::
    "'w witness_engine \<Rightarrow> witness_request \<Rightarrow> action_manifest \<Rightarrow> validated_request \<Rightarrow> u64 \<Rightarrow> u64
      \<Rightarrow> ('w, witness_response) engine_call" where
  "approval_response e request manifest validated state_generation now_ms =
     call_then (random_response_id e) (\<lambda>response_id.
     call_then (call_result (or_refuse Reason_Invalid (rq_digest (en_hash e) request)))
       (\<lambda>request_digest.
     call_then (call_result (or_refuse Reason_Invalid (mf_digest (en_hash e) manifest)))
       (\<lambda>action_manifest_digest.
     call_then (call_map_err (\<lambda>_. Engine_Refused Reason_InvalidContribution)
       (en_seal_witness_contribution e (vr_suite validated) (vr_capsule validated)
         \<lparr>wct_request_digest = request_digest,
          wct_action_manifest_digest = action_manifest_digest,
          wct_response_id = response_id,
          wct_checkpoint_digest = rq_policy_checkpoint_digest request,
          wct_capsule_set_digest = vr_capsule_set_digest validated,
          wct_session_public_key = rq_request_session_public_key request,
          wct_session_fingerprint = rq_request_session_key_fingerprint request,
          wct_expires_at_ms = rq_expires_at_ms request\<rparr>)) (\<lambda>contribution.
     call_result (
     and_then (or_refuse Reason_InvalidContribution (ce_digest (en_hash e) contribution))
       (\<lambda>contribution_digest.
     and_then (engine_descriptor e) (\<lambda>descriptor.
     and_then (sign_decision e
       \<lparr>wd_schema = 1, wd_response_id = response_id, wd_request_id = rq_request_id request,
        wd_request_digest = request_digest,
        wd_action_manifest_digest = action_manifest_digest,
        wd_witness_id = pd_principal_id descriptor,
        wd_witness_signing_key_fingerprint = engine_signing_fingerprint e descriptor,
        wd_witness_signing_key_epoch = 1,
        wd_witness_policy_id = rq_witness_policy_id request,
        wd_witness_policy_revision = rq_witness_policy_revision request,
        wd_witness_policy_digest = rq_witness_policy_digest request,
        wd_policy_checkpoint_digest = rq_policy_checkpoint_digest request,
        wd_state_generation = state_generation,
        wd_decision = Decision_Approve, wd_reason = Reason_None,
        wd_issued_at_ms = now_ms, wd_expires_at_ms = rq_expires_at_ms request,
        wd_contribution_digest = Some contribution_digest,
        wd_share_index = Some (ce_share_index contribution),
        wd_share_commitment = Some (ce_share_commitment contribution),
        wd_signature = zero_signature\<rparr>) (\<lambda>decision.
     Inr \<lparr>wr_decision = decision, wr_contribution = Some contribution\<rparr>))))))))"

section \<open>Operations\<close>

definition check_ready :: "'w witness_engine \<Rightarrow> ('w, unit) engine_call" where
  "check_ready e =
     call_then (ready_state e) (\<lambda>state.
     call_then (wall_time e) (\<lambda>now_ms.
     call_result (require_safe_clock state now_ms)))"

definition safe_state ::
    "'w witness_engine \<Rightarrow> (u64 \<Rightarrow> persisted_witness_state \<Rightarrow> ('w, 'a) engine_call)
      \<Rightarrow> ('w, 'a) engine_call" where
  "safe_state e continue =
     call_then (wall_time e) (\<lambda>now_ms.
     call_then (ready_state e) (\<lambda>state.
     call_then (call_result (require_safe_clock state now_ms)) (\<lambda>_.
     continue now_ms state)))"

definition operational_status ::
    "'w witness_engine \<Rightarrow> ('w, witness_operational_status) engine_call" where
  "operational_status e =
     safe_state e (\<lambda>now_ms state.
     let replay = lg_replay (ps_logical state) in
     call_result (Inr
       \<lparr>wos_witness_id = lg_witness_id (ps_logical state),
        wos_state_generation = lg_state_generation (ps_logical state),
        wos_replay_record_count = bt_len replay,
        wos_compactable_replay_record_count =
          length (filter (\<lambda>entry. now_ms > re_retain_through_ms entry) (bt_values replay)),
        wos_replay_retain_through_ms = max_or_zero (map re_retain_through_ms (bt_values replay)),
        wos_published_anchor = ps_published_anchor state\<rparr>))"

definition with_vaults ::
    "persisted_witness_state \<Rightarrow> (ident, registered_witness_vault) btree_map \<Rightarrow> persisted_witness_state"
  where
  "with_vaults state vaults = state\<lparr>ps_logical := (ps_logical state)\<lparr>lg_vaults := vaults\<rparr>\<rparr>"

definition with_replay ::
    "persisted_witness_state \<Rightarrow> (ident \<times> ident, witness_replay_entry) btree_map
      \<Rightarrow> persisted_witness_state" where
  "with_replay state replay = state\<lparr>ps_logical := (ps_logical state)\<lparr>lg_replay := replay\<rparr>\<rparr>"

definition register_vault ::
    "'w witness_engine \<Rightarrow> policy_state \<Rightarrow> registration_bytes \<Rightarrow> vault_policy_checkpoint
      \<Rightarrow> policy_material_bytes \<Rightarrow> ('w, witness_checkpoint_acknowledgement) engine_call" where
  "register_vault e policy accepted_registration checkpoint current_policy_material =
     (if bounded_is_empty accepted_registration \<or> bounded_is_empty current_policy_material
      then call_refuse Reason_Invalid
      else safe_state e (\<lambda>now_ms state.
        call_then (call_result (validate_checkpoint e policy checkpoint)) (\<lambda>_.
        if cp_issued_at_ms checkpoint > saturating_add now_ms accepted_clock_skew_ms
        then call_refuse Reason_NotYetValid
        else
        let vaults = lg_vaults (ps_logical state); vault_id = cp_vault_id checkpoint;
            registered = \<lparr>rw_accepted_registration = accepted_registration,
              rw_current_checkpoint = checkpoint,
              rw_current_policy_material = current_policy_material\<rparr> in
        case bt_get vaults vault_id of
          Some current \<Rightarrow>
            if rw_current_checkpoint current = checkpoint \<and>
               rw_accepted_registration current = accepted_registration \<and>
               rw_current_policy_material current = current_policy_material
            then call_result (checkpoint_acknowledgement (en_hash e) state vault_id)
            else call_refuse Reason_CheckpointFork
        | None \<Rightarrow>
            call_then (commit_and_publish e
              (with_vaults state (bt_insert vault_id registered vaults)) now_ms) (\<lambda>state.
            call_result (checkpoint_acknowledgement (en_hash e) state vault_id)))))"

definition deny_entry ::
    "witness_replay_entry \<Rightarrow> witness_response \<Rightarrow> witness_replay_entry" where
  "deny_entry entry response = entry\<lparr>re_state := Replay_Denied, re_response := Some response\<rparr>"

definition stale_keys ::
    "witness_logical_state \<Rightarrow> ident \<Rightarrow> ((ident \<times> ident) \<times> witness_replay_entry) list" where
  "stale_keys logical vault_id =
     filter (\<lambda>((record_vault_id, _), entry).
       record_vault_id = vault_id \<and> re_state entry = Replay_Reserved)
       (bt_entries (lg_replay logical))"

definition deny_stale ::
    "'w witness_engine \<Rightarrow> u64 \<Rightarrow> u64 \<Rightarrow> (ident \<times> ident, witness_replay_entry) btree_map
      \<Rightarrow> (ident \<times> ident) \<times> witness_replay_entry
      \<Rightarrow> ('w, (ident \<times> ident, witness_replay_entry) btree_map) engine_call" where
  "deny_stale e next_generation now_ms replay stale =
     (case stale of (key, entry) \<Rightarrow>
       call_then (denial_response e (re_request entry) (re_action_manifest_digest entry)
         Reason_StalePolicy next_generation now_ms) (\<lambda>response.
       call_then (call_result (ok_or (Engine_Refused Reason_InternalFailure) (bt_get replay key)))
         (\<lambda>current.
       call_result (Inr (bt_insert key (deny_entry current response) replay)))))"

definition check_descendant ::
    "hash_fun \<Rightarrow> registered_witness_vault \<Rightarrow> vault_policy_checkpoint \<Rightarrow> witness_engine_error + unit"
  where
  "check_descendant H current checkpoint =
     (let stored = rw_current_checkpoint current in
      if cp_vault_policy_sequence checkpoint < cp_vault_policy_sequence stored
      then Inl (Engine_Refused Reason_StalePolicy)
      else if cp_vault_policy_sequence checkpoint = cp_vault_policy_sequence stored
      then Inl (Engine_Refused Reason_CheckpointFork)
      else if cp_vault_policy_sequence checkpoint \<noteq>
        saturating_add (cp_vault_policy_sequence stored) 1
      then Inl (Engine_Refused Reason_WitnessBehind)
      else
      and_then (or_refuse Reason_Invalid (cp_digest H stored)) (\<lambda>predecessor.
      if cp_predecessor_checkpoint_digest checkpoint \<noteq> predecessor \<or>
         cp_issued_at_ms checkpoint \<le> cp_issued_at_ms stored
      then Inl (Engine_Refused Reason_CheckpointFork)
      else Inr ()))"

definition advance_checkpoint ::
    "'w witness_engine \<Rightarrow> policy_state \<Rightarrow> vault_policy_checkpoint \<Rightarrow> policy_material_bytes
      \<Rightarrow> ('w, witness_checkpoint_acknowledgement) engine_call" where
  "advance_checkpoint e policy checkpoint current_policy_material =
     (if bounded_is_empty current_policy_material then call_refuse Reason_Invalid
      else safe_state e (\<lambda>now_ms state.
        call_then (call_result (validate_checkpoint_public (en_hash e) (en_verify e) policy
          checkpoint)) (\<lambda>_.
        if cp_issued_at_ms checkpoint > saturating_add now_ms accepted_clock_skew_ms
        then call_refuse Reason_NotYetValid
        else
        let logical = ps_logical state; vault_id = cp_vault_id checkpoint in
        call_then (call_result (ok_or (Engine_Refused Reason_StalePolicy)
          (bt_get (lg_vaults logical) vault_id))) (\<lambda>current.
        if rw_current_checkpoint current = checkpoint
        then
          if rw_current_policy_material current = current_policy_material
          then call_result (checkpoint_acknowledgement (en_hash e) state vault_id)
          else call_refuse Reason_CheckpointFork
        else
        call_then (call_result (check_descendant (en_hash e) current checkpoint)) (\<lambda>_.
        call_then (call_fold
          (deny_stale e (saturating_add (lg_state_generation logical) 1) now_ms)
          (lg_replay logical) (stale_keys logical vault_id)) (\<lambda>replay.
        call_then (call_result (ok_or (Engine_Refused Reason_InternalFailure)
          (bt_get (lg_vaults logical) vault_id))) (\<lambda>current.
        call_then (commit_and_publish e
          (with_replay (with_vaults state (bt_insert vault_id
            (current\<lparr>rw_current_checkpoint := checkpoint,
              rw_current_policy_material := current_policy_material\<rparr>) (lg_vaults logical))) replay)
          now_ms) (\<lambda>state.
        call_result (checkpoint_acknowledgement (en_hash e) state vault_id)))))))))"

definition request_key :: "witness_request \<Rightarrow> ident \<times> ident" where
  "request_key request = (rq_vault_id request, rq_request_id request)"

definition cancel_entry ::
    "'w witness_engine \<Rightarrow> policy_state \<Rightarrow> witness_request \<Rightarrow> request_cancellation \<Rightarrow> u64
      \<Rightarrow> persisted_witness_state \<Rightarrow> ('w, cancellation_progress) engine_call" where
  "cancel_entry e policy request cancellation now_ms state =
     (let replay = lg_replay (ps_logical state); key = request_key request in
      call_then (call_result (validate_embedded_request e policy state request now_ms)) (\<lambda>_.
      call_then (call_result (validate_request_cancellation (en_hash e) (en_verify e) policy
        request cancellation now_ms)) (\<lambda>_.
      call_then (call_result (or_refuse Reason_Invalid (ca_canonical_bytes cancellation))) (\<lambda>bytes.
      call_then (call_result (or_refuse Reason_CapacityExhausted (bounded_new bytes)))
        (\<lambda>cancellation_bytes.
      call_then (denial_response e request (rq_action_manifest_digest request) Reason_Cancelled
        (saturating_add (lg_state_generation (ps_logical state)) 1) now_ms) (\<lambda>response.
      call_then (call_result (ok_or (Engine_Refused Reason_Invalid)
        (checked_add (rq_expires_at_ms request) replay_retention_ms))) (\<lambda>retain_through_ms.
      let entry = (case bt_get replay key of
          Some entry \<Rightarrow> entry\<lparr>re_state := Replay_Cancelled,
            re_cancellation := Some cancellation_bytes, re_response := Some response\<rparr>
        | None \<Rightarrow> \<lparr>re_request = request,
            re_action_manifest_digest = rq_action_manifest_digest request,
            re_state = Replay_Cancelled, re_retain_through_ms = retain_through_ms,
            re_approvals = [], re_cancellation = Some cancellation_bytes,
            re_response = Some response\<rparr>) in
      call_then (commit_and_publish e (with_replay state (bt_insert key entry replay)) now_ms)
        (\<lambda>_. call_result (Inr (Cancellation_Cancelled response))))))))))"

definition cancel ::
    "'w witness_engine \<Rightarrow> policy_state \<Rightarrow> witness_request \<Rightarrow> request_cancellation
      \<Rightarrow> ('w, cancellation_progress) engine_call" where
  "cancel e policy request cancellation =
     safe_state e (\<lambda>now_ms state.
     case bt_get (lg_replay (ps_logical state)) (request_key request) of
       None \<Rightarrow> cancel_entry e policy request cancellation now_ms state
     | Some known \<Rightarrow>
         call_then (call_result (same_request (en_hash e) (re_request known) request)) (\<lambda>same.
         if \<not> same then call_refuse Reason_ReplayConflict
         else (case re_response known of
             None \<Rightarrow> cancel_entry e policy request cancellation now_ms state
           | Some response \<Rightarrow>
               call_then (call_result (validate_request_cancellation (en_hash e) (en_verify e)
                 policy request cancellation now_ms)) (\<lambda>_.
               call_result (Inr (if re_state known = Replay_Cancelled
                 then Cancellation_Cancelled response else Cancellation_TooLate response))))))"

definition compact_replay :: "'w witness_engine \<Rightarrow> ('w, nat) engine_call" where
  "compact_replay e =
     safe_state e (\<lambda>now_ms state.
     let replay = lg_replay (ps_logical state);
         retained = bt_retain (\<lambda>_ entry. now_ms \<le> re_retain_through_ms entry) replay;
         removed = bt_len replay - bt_len retained in
     if removed \<noteq> 0
     then call_then (commit_and_publish e (with_replay state retained) now_ms)
       (\<lambda>_. call_result (Inr removed))
     else call_result (Inr removed))"

definition store_denial ::
    "'w witness_engine \<Rightarrow> witness_request \<Rightarrow> witness_replay_entry \<Rightarrow> ident \<times> ident \<Rightarrow> witness_reason
      \<Rightarrow> u64 \<Rightarrow> persisted_witness_state \<Rightarrow> ('w, witness_progress) engine_call" where
  "store_denial e request known key reason now_ms state =
     call_then (denial_response e request (re_action_manifest_digest known) reason
       (saturating_add (lg_state_generation (ps_logical state)) 1) now_ms) (\<lambda>response.
     call_then (commit_and_publish e (with_replay state
       (bt_insert key (deny_entry known response) (lg_replay (ps_logical state)))) now_ms) (\<lambda>_.
     call_result (Inr (Progress_Stable response))))"

definition replay_at_capacity :: "witness_logical_state \<Rightarrow> ident \<Rightarrow> bool" where
  "replay_at_capacity logical vault_id \<longleftrightarrow>
     bt_len (lg_replay logical) \<ge> max_replay_records_per_service \<or>
     length (filter (\<lambda>(record_vault_id, _). record_vault_id = vault_id) (bt_keys (lg_replay logical)))
       \<ge> max_replay_records_per_vault"

definition reserve ::
    "'w witness_engine \<Rightarrow> policy_state \<Rightarrow> witness_request \<Rightarrow> action_manifest
      \<Rightarrow> ('w, witness_progress) engine_call" where
  "reserve e policy request manifest =
     safe_state e (\<lambda>now_ms state.
     let replay = lg_replay (ps_logical state); key = request_key request in
     case bt_get replay key of
       Some known \<Rightarrow>
         call_then (call_result (same_request (en_hash e) (re_request known) request)) (\<lambda>same.
         if same then
           call_then (call_result (validate_request_manifest (en_hash e) request manifest)) (\<lambda>_.
           call_then (call_result (or_refuse Reason_Invalid (mf_digest (en_hash e) manifest)))
             (\<lambda>manifest_digest.
           if re_action_manifest_digest known \<noteq> manifest_digest
           then call_refuse Reason_WrongScope
           else call_result (Inr (case re_response known of
               Some response \<Rightarrow> Progress_Stable response
             | None \<Rightarrow> Progress_Reserved))))
         else if re_state known \<noteq> Replay_Reserved then call_refuse Reason_ReplayConflict
         else store_denial e (re_request known) known key Reason_ReplayConflict now_ms state)
     | None \<Rightarrow>
         call_then (call_result (validate_request e policy state request manifest now_ms)) (\<lambda>_.
         if replay_at_capacity (ps_logical state) (rq_vault_id request)
         then call_refuse Reason_CapacityExhausted
         else
         call_then (call_result (or_refuse Reason_Invalid (mf_digest (en_hash e) manifest)))
           (\<lambda>action_manifest_digest.
         call_then (call_result (ok_or (Engine_Refused Reason_Invalid)
           (checked_add (rq_expires_at_ms request) replay_retention_ms))) (\<lambda>retain_through_ms.
         call_then (commit_and_publish e (with_replay state (bt_insert key
           \<lparr>re_request = request, re_action_manifest_digest = action_manifest_digest,
            re_state = Replay_Reserved, re_retain_through_ms = retain_through_ms,
            re_approvals = [], re_cancellation = None, re_response = None\<rparr> replay)) now_ms) (\<lambda>_.
         call_result (Inr Progress_Reserved))))))"

definition accept_approvals ::
    "'w witness_engine \<Rightarrow> witness_request \<Rightarrow> action_manifest \<Rightarrow> validated_request \<Rightarrow> u64
      \<Rightarrow> approval_decision list \<Rightarrow> approval_decision list
      \<Rightarrow> witness_engine_error + approval_decision list" where
  "accept_approvals e request manifest validated now_ms known approvals =
     and_then (collect_results (\<lambda>approval.
         and_then (validate_approval_static e approval request manifest validated) (\<lambda>_.
         Inr approval)) known) (\<lambda>recorded.
     and_then (fold_results (\<lambda>accepted approval.
         and_then (validate_approval e approval request manifest validated now_ms) (\<lambda>_.
         Inr (accepted @ [approval])))
       (filter (\<lambda>approval. approval_is_current approval now_ms) recorded) approvals) (\<lambda>accepted.
     normalize_approvals accepted))"

definition usize_saturating_add :: "nat \<Rightarrow> nat \<Rightarrow> nat" where
  "usize_saturating_add a b = min (a + b) (2 ^ 64 - 1)"

definition conclude ::
    "'w witness_engine \<Rightarrow> witness_request \<Rightarrow> action_manifest \<Rightarrow> validated_request \<Rightarrow> u64
      \<Rightarrow> persisted_witness_state \<Rightarrow> witness_replay_entry \<Rightarrow> approval_decision list
      \<Rightarrow> ('w, witness_progress) engine_call" where
  "conclude e request manifest validated now_ms state known accepted =
     (let replay = lg_replay (ps_logical state); key = request_key request;
          next_generation = saturating_add (lg_state_generation (ps_logical state)) 1;
          tally = tally_approvals accepted (vr_rule validated);
          threshold = unat (war_approval_threshold (vr_rule validated)) in
      if tally_approved tally \<ge> threshold
      then
        call_then (approval_response e request manifest validated next_generation now_ms)
          (\<lambda>response.
        call_then (commit_and_publish e (with_replay state (bt_insert key
          (known\<lparr>re_approvals := accepted, re_state := Replay_Approved,
            re_response := Some response\<rparr>) replay)) now_ms) (\<lambda>_.
        call_result (Inr (Progress_Stable response))))
      else if usize_saturating_add (tally_approved tally) (tally_undecided tally) < threshold
      then
        store_denial e request (known\<lparr>re_approvals := accepted\<rparr>) key
          (if tally_conflicted tally then Reason_ApprovalConflict else Reason_ApprovalDenied)
          now_ms state
      else if accepted \<noteq> re_approvals known
      then
        call_then (commit_and_publish e (with_replay state (bt_insert key
          (known\<lparr>re_approvals := accepted\<rparr>) replay)) now_ms) (\<lambda>_.
        call_result (Inr Progress_Pending))
      else call_result (Inr Progress_Pending))"

definition decide_open ::
    "'w witness_engine \<Rightarrow> policy_state \<Rightarrow> witness_request \<Rightarrow> action_manifest
      \<Rightarrow> approval_decision list \<Rightarrow> u64 \<Rightarrow> persisted_witness_state \<Rightarrow> witness_replay_entry
      \<Rightarrow> ('w, witness_progress) engine_call" where
  "decide_open e policy request manifest approvals now_ms state known =
     (case validate_request e policy state request manifest now_ms of
        Inl error \<Rightarrow>
          if engine_error_reason error = Reason_Expired
          then store_denial e request known (request_key request) Reason_Expired now_ms state
          else call_result (Inl error)
      | Inr validated \<Rightarrow>
          call_then (call_result (or_refuse Reason_Invalid (mf_digest (en_hash e) manifest)))
            (\<lambda>manifest_digest.
          if re_action_manifest_digest known \<noteq> manifest_digest then call_refuse Reason_WrongScope
          else
          call_then (call_result (accept_approvals e request manifest validated now_ms
            (re_approvals known) approvals)) (\<lambda>accepted.
          conclude e request manifest validated now_ms state known accepted)))"

definition decide ::
    "'w witness_engine \<Rightarrow> policy_state \<Rightarrow> witness_request \<Rightarrow> action_manifest
      \<Rightarrow> approval_decision list \<Rightarrow> ('w, witness_progress) engine_call" where
  "decide e policy request manifest approvals =
     (if length approvals > max_recorded_approvals then call_refuse Reason_CapacityExhausted
      else safe_state e (\<lambda>now_ms state.
        call_then (call_result (ok_or (Engine_Refused Reason_Invalid)
          (bt_get (lg_replay (ps_logical state)) (request_key request)))) (\<lambda>known.
        call_then (call_result (same_request (en_hash e) (re_request known) request)) (\<lambda>same.
        if \<not> same then call_refuse Reason_ReplayConflict
        else
        call_then (call_result (validate_request_manifest (en_hash e) request manifest)) (\<lambda>_.
        call_then (call_result (or_refuse Reason_Invalid (mf_digest (en_hash e) manifest)))
          (\<lambda>manifest_digest.
        if re_action_manifest_digest known \<noteq> manifest_digest then call_refuse Reason_WrongScope
        else (case re_response known of
            Some response \<Rightarrow> call_result (Inr (Progress_Stable response))
          | None \<Rightarrow> decide_open e policy request manifest approvals now_ms state known)))))))"

end
