(* ===== verification/Jury_Tally.thy ===== *)
theory Jury_Tally
  imports Jury_Validation
begin

text \<open>
  How approvals are recorded and counted: \<open>normalize_approvals\<close> and \<open>tally_approvals\<close> of
  \<open>witness_engine/validation.rs\<close>. The code sorts, drops duplicates, keeps at most two
  decisions per approver and counts by list patterns. The lemmas show that this computes a
  count over sets: an approver counts exactly when the set of decisions submitted in their
  name is one approving decision, whatever the order and multiplicity of the submission.
\<close>

section \<open>The tally as a count\<close>

definition decisions_of :: "approval_decision list \<Rightarrow> ident \<Rightarrow> approval_decision list" where
  "decisions_of approvals approver_id =
     filter (\<lambda>decision. ap_approver_id decision = approver_id) approvals"

definition counts_as_approved :: "approval_decision list \<Rightarrow> bool" where
  "counts_as_approved decisions \<longleftrightarrow>
     (\<exists>decision. decisions = [decision] \<and> ap_decision decision = Approval_Approve)"

lemma tally_approver_fields:
  "tally_approved (tally_approver approvals a t) =
     tally_approved t + (if counts_as_approved (decisions_of approvals a) then 1 else 0)"
  "tally_undecided (tally_approver approvals a t) =
     tally_undecided t + (if decisions_of approvals a = [] then 1 else 0)"
  "tally_conflicted (tally_approver approvals a t) =
     (tally_conflicted t \<or> 2 \<le> length (decisions_of approvals a))"
  by (auto simp: tally_approver_def counts_as_approved_def decisions_of_def split: list.splits)

lemma fold_tally_approver:
  "tally_approved (fold (tally_approver approvals) ids t) =
     tally_approved t + length (filter (\<lambda>a. counts_as_approved (decisions_of approvals a)) ids)"
  "tally_undecided (fold (tally_approver approvals) ids t) =
     tally_undecided t + length (filter (\<lambda>a. decisions_of approvals a = []) ids)"
  "tally_conflicted (fold (tally_approver approvals) ids t) =
     (tally_conflicted t \<or> (\<exists>a \<in> set ids. 2 \<le> length (decisions_of approvals a)))"
  by (induction ids arbitrary: t) (auto simp: tally_approver_fields)

lemma tally_approvals_fields:
  "tally_approved (tally_approvals approvals rule) =
     length (filter (\<lambda>a. counts_as_approved (decisions_of approvals a))
       (war_eligible_approver_ids rule))"
  "tally_undecided (tally_approvals approvals rule) =
     length (filter (\<lambda>a. decisions_of approvals a = []) (war_eligible_approver_ids rule))"
  "tally_conflicted (tally_approvals approvals rule) =
     (\<exists>a \<in> set (war_eligible_approver_ids rule). 2 \<le> length (decisions_of approvals a))"
  by (simp_all add: tally_approvals_def fold_tally_approver)

section \<open>Sorting, duplicates and the two-decision limit\<close>

lemma dedup_by_hd: "xs \<noteq> [] \<Longrightarrow> dedup_by same xs \<noteq> [] \<and> hd (dedup_by same xs) = hd xs"
  by (induction same xs rule: dedup_by.induct) auto

lemma set_dedup_by: "set (dedup_by same xs) \<subseteq> set xs"
  by (induction same xs rule: dedup_by.induct) auto

lemma set_dedup_by_key:
  assumes "\<And>x y. x \<in> set xs \<Longrightarrow> y \<in> set xs \<Longrightarrow> same x y \<longleftrightarrow> x = y"
  shows "set (dedup_by same xs) = set xs"
  using assms by (induction same xs rule: dedup_by.induct) auto

lemma sorted_dedup_by:
  assumes "sorted_wrt (\<lambda>x y. key x \<le> (key y :: 'k::linorder)) xs"
  shows "sorted_wrt (\<lambda>x y. key x < key y) (dedup_by (\<lambda>x y. key x = key y) xs)"
  using assms
proof (induction "\<lambda>x y. key x = key y" xs rule: dedup_by.induct)
  case (3 x y rest)
  show ?case
  proof (cases "key y = key x")
    case True
    then show ?thesis
      using 3 by simp
  next
    case False
    have "key x < key z" if "z \<in> set (y # rest)" for z
    proof -
      have "key x < key y" and "key y \<le> key z"
        using False 3(3) that by (auto simp: order_less_le)
      then show ?thesis by order
    qed
    then have "\<forall>z \<in> set (dedup_by (\<lambda>x y. key x = key y) (y # rest)). key x < key z"
      using set_dedup_by [of _ "y # rest"] by blast
    then show ?thesis
      using False 3 by simp
  qed
qed auto

definition sorted_by_approver :: "keyed_approval list \<Rightarrow> bool" where
  "sorted_by_approver entries = sorted_wrt (\<lambda>x y. fst x \<le> fst y) entries"

lemma takeWhile_rev_filter:
  assumes "sorted_by_approver entries" and "\<And>entry. entry \<in> set entries \<Longrightarrow> fst entry \<le> a"
  shows "length (takeWhile (\<lambda>prior. fst prior = a) (rev entries)) =
    length (filter (\<lambda>entry. fst entry = a) entries)"
  using assms
proof (induction entries rule: rev_induct)
  case (snoc x entries)
  show ?case
  proof (cases "fst x = a")
    case True
    then show ?thesis
      using snoc by (simp add: sorted_by_approver_def sorted_wrt_append)
  next
    case False
    have "fst entry \<noteq> a" if "entry \<in> set entries" for entry
    proof -
      have "fst entry \<le> fst x"
        using snoc.prems that by (auto simp: sorted_by_approver_def sorted_wrt_append)
      moreover have "fst x \<le> a"
        using snoc.prems by simp
      ultimately show ?thesis using False by order
    qed
    then show ?thesis
      using False by (simp add: filter_empty_conv)
  qed
qed simp

lemma foldl_retain_two:
  assumes "sorted_by_approver entries"
  shows "sorted_by_approver (foldl retain_two [] entries) \<and>
    set (foldl retain_two [] entries) \<subseteq> set entries \<and>
    (\<forall>a. filter (\<lambda>entry. fst entry = a) (foldl retain_two [] entries) =
      take 2 (filter (\<lambda>entry. fst entry = a) entries))"
  using assms
proof (induction entries rule: rev_induct)
  case (snoc x entries)
  define kept where "kept = foldl retain_two [] entries"
  have sorted: "sorted_by_approver entries" and last: "\<forall>entry \<in> set entries. fst entry \<le> fst x"
    using snoc.prems by (auto simp: sorted_by_approver_def sorted_wrt_append)
  have IH: "sorted_by_approver kept" "set kept \<subseteq> set entries"
    "\<And>a. filter (\<lambda>entry. fst entry = a) kept = take 2 (filter (\<lambda>entry. fst entry = a) entries)"
    using snoc.IH [OF sorted] by (auto simp: kept_def)
  have count: "length (takeWhile (\<lambda>prior. fst prior = fst x) (rev kept)) =
      min 2 (length (filter (\<lambda>entry. fst entry = fst x) entries))"
    using IH(2) last
    by (subst takeWhile_rev_filter [OF IH(1)]) (auto simp: IH(3) min.commute)
  have step: "foldl retain_two [] (entries @ [x]) =
      (if length (filter (\<lambda>entry. fst entry = fst x) entries) < 2 then kept @ [x] else kept)"
    by (simp add: kept_def [symmetric] retain_two_def count)
  show ?case
    using IH last unfolding step by (auto simp: sorted_by_approver_def sorted_wrt_append)
qed (simp add: sorted_by_approver_def)

section \<open>What normalization keeps\<close>

definition keyed_of :: "approval_decision \<Rightarrow> bytes \<Rightarrow> keyed_approval" where
  "keyed_of approval bytes = (ap_approver_id approval, bytes, approval)"

lemma normalize_approvals_Inr:
  assumes "normalize_approvals approvals = Inr kept"
  obtains entries where "sorted_wrt (\<lambda>x y. approval_key x < approval_key y) entries"
    and "(\<lambda>entry. snd (snd entry)) ` set entries = set approvals"
    and "\<And>entry. entry \<in> set entries \<Longrightarrow> fst entry = ap_approver_id (snd (snd entry))"
    and "inj_on (\<lambda>entry. snd (snd entry)) (set entries)"
    and "kept = map (\<lambda>entry. snd (snd entry)) (foldl retain_two [] entries)"
    and "length kept \<le> max_recorded_approvals"
proof -
  define same :: "keyed_approval \<Rightarrow> keyed_approval \<Rightarrow> bool" where
    "same left right \<longleftrightarrow> fst left = fst right \<and> fst (snd left) = fst (snd right)" for left right
  obtain keyed where keyed: "list_all2 (\<lambda>approval entry. \<exists>bytes.
        ap_canonical_bytes approval = Inr bytes \<and> keyed_of approval bytes = entry) approvals keyed"
    and kept: "kept = map (\<lambda>entry. snd (snd entry))
        (foldl retain_two [] (dedup_by same (sort_key approval_key keyed)))"
    and length: "length kept \<le> max_recorded_approvals"
    using assms unfolding normalize_approvals_def Let_def same_def [abs_def]
    by (auto simp: result_simps keyed_of_def split: if_splits)
  have same_key: "same = (\<lambda>left right. approval_key left = approval_key right)"
    by (simp add: fun_eq_iff same_def approval_key_def)
  define entries where "entries = dedup_by same (sort_key approval_key keyed)"
  have key: "\<exists>bytes. ap_canonical_bytes (snd (snd entry)) = Inr bytes \<and>
      entry = keyed_of (snd (snd entry)) bytes" if member: "entry \<in> set keyed" for entry
  proof -
    obtain i where "i < length keyed" and "entry = keyed ! i"
      using member by (auto simp: in_set_conv_nth)
    moreover obtain bytes where "ap_canonical_bytes (approvals ! i) = Inr bytes"
      and "keyed_of (approvals ! i) bytes = keyed ! i"
      using list_all2_nthD2 [OF keyed] \<open>i < length keyed\<close> by blast
    ultimately show ?thesis
      by (metis keyed_of_def snd_conv)
  qed
  have same: "same x y \<longleftrightarrow> x = y" if "x \<in> set keyed" and "y \<in> set keyed" for x y
  proof (cases x; cases y)
    fix a b c a' b' c'
    assume "x = (a, b, c)" and "y = (a', b', c')"
    then show ?thesis
      using key [OF that(1)] key [OF that(2)]
      by (auto simp: same_def keyed_of_def dest: ap_canonical_bytes_inject)
  qed
  have set: "set entries = set keyed"
    using set_dedup_by_key [of "sort_key approval_key keyed" same] same by (simp add: entries_def)
  have "sorted_wrt (\<lambda>x y. approval_key x \<le> approval_key y) (sort_key approval_key keyed)"
    using sorted_sort_key [of approval_key keyed] by (simp add: sorted_map)
  then have sorted: "sorted_wrt (\<lambda>x y. approval_key x < approval_key y) entries"
    unfolding entries_def same_key by (rule sorted_dedup_by)
  have image: "(\<lambda>entry. snd (snd entry)) ` set entries = set approvals"
  proof -
    have "map (\<lambda>entry. snd (snd entry)) keyed = approvals"
      using keyed by (induction rule: list_all2_induct) (auto simp: keyed_of_def)
    then show ?thesis unfolding set by (metis image_set)
  qed
  show ?thesis
  proof (rule that [OF sorted image _ _ kept [folded entries_def] length])
    show "fst entry = ap_approver_id (snd (snd entry))" if "entry \<in> set entries" for entry
      using key that set by (fastforce simp: keyed_of_def)
    show "inj_on (\<lambda>entry. snd (snd entry)) (set entries)"
    proof (rule inj_onI)
      fix x y
      assume "x \<in> set entries" and "y \<in> set entries" and "snd (snd x) = snd (snd y)"
      then show "x = y"
        using key [of x] key [of y] set by (auto simp: keyed_of_def)
    qed
  qed
qed

lemma sorted_by_approver_of_keys:
  "sorted_wrt (\<lambda>x y. approval_key x < approval_key y) entries \<Longrightarrow> sorted_by_approver entries"
  unfolding sorted_by_approver_def
  by (erule sorted_wrt_mono_rel [rotated]) (auto simp: approval_key_def less_prod_def)

lemma normalize_approvals_decisions:
  assumes "normalize_approvals approvals = Inr kept"
  shows "\<exists>decisions. decisions_of kept a = take 2 decisions \<and> distinct decisions \<and>
    set decisions = {d \<in> set approvals. ap_approver_id d = a}"
proof -
  obtain entries where sorted: "sorted_wrt (\<lambda>x y. approval_key x < approval_key y) entries"
    and image: "(\<lambda>entry. snd (snd entry)) ` set entries = set approvals"
    and owner: "\<And>entry. entry \<in> set entries \<Longrightarrow> fst entry = ap_approver_id (snd (snd entry))"
    and inj: "inj_on (\<lambda>entry. snd (snd entry)) (set entries)"
    and kept: "kept = map (\<lambda>entry. snd (snd entry)) (foldl retain_two [] entries)"
    by (rule normalize_approvals_Inr [OF assms]) (rule that)
  note two = foldl_retain_two [OF sorted_by_approver_of_keys [OF sorted]]
  define own where "own = filter (\<lambda>entry. fst entry = a) entries"
  have "filter (\<lambda>entry. ap_approver_id (snd (snd entry)) = a) (foldl retain_two [] entries) =
      filter (\<lambda>entry. fst entry = a) (foldl retain_two [] entries)"
    by (rule filter_cong) (use two owner in auto)
  then have "decisions_of kept a =
      map (\<lambda>entry. snd (snd entry)) (filter (\<lambda>entry. fst entry = a) (foldl retain_two [] entries))"
    by (simp add: kept decisions_of_def filter_map o_def)
  also have "\<dots> = take 2 (map (\<lambda>entry. snd (snd entry)) own)"
    using two by (simp add: own_def take_map)
  finally have "decisions_of kept a = take 2 (map (\<lambda>entry. snd (snd entry)) own)" .
  moreover have "distinct (map (\<lambda>entry. snd (snd entry)) own)"
  proof -
    have "distinct entries"
      using sorted by (auto simp: sorted_wrt_iff_nth_less distinct_conv_nth) (metis linorder_neqE_nat order_less_irrefl)
    then show ?thesis
      using inj by (auto simp: own_def distinct_map intro: inj_on_subset)
  qed
  moreover have "set (map (\<lambda>entry. snd (snd entry)) own) = {d \<in> set approvals. ap_approver_id d = a}"
    unfolding image [symmetric] own_def using owner by auto
  ultimately show ?thesis by blast
qed

text \<open>
  The count by list patterns is a count over sets: normalization leaves one decision of an
  approver exactly when the submitted decisions of that approver are one decision.
\<close>

lemma normalized_counts:
  assumes "normalize_approvals approvals = Inr kept"
  shows "counts_as_approved (decisions_of kept a) \<longleftrightarrow>
      (\<exists>d. {d \<in> set approvals. ap_approver_id d = a} = {d} \<and> ap_decision d = Approval_Approve)"
    and "decisions_of kept a = [] \<longleftrightarrow> (\<forall>d \<in> set approvals. ap_approver_id d \<noteq> a)"
    and "2 \<le> length (decisions_of kept a) \<longleftrightarrow>
      (\<exists>c \<in> set approvals. \<exists>d \<in> set approvals. c \<noteq> d \<and> ap_approver_id c = a \<and> ap_approver_id d = a)"
proof -
  obtain decisions where kept: "decisions_of kept a = take 2 decisions"
    and decisions: "distinct decisions" "set decisions = {d \<in> set approvals. ap_approver_id d = a}"
    using normalize_approvals_decisions [OF assms] by blast
  consider "decisions = []" | d where "decisions = [d]" | c d rest where "decisions = c # d # rest"
    by (metis neq_Nil_conv)
  note cases = this
  show "counts_as_approved (decisions_of kept a) \<longleftrightarrow>
      (\<exists>d. {d \<in> set approvals. ap_approver_id d = a} = {d} \<and> ap_decision d = Approval_Approve)"
    using cases by cases (use decisions kept in \<open>auto simp: counts_as_approved_def\<close>)
  show "decisions_of kept a = [] \<longleftrightarrow> (\<forall>d \<in> set approvals. ap_approver_id d \<noteq> a)"
    using cases by cases (use decisions kept in auto)
  show "2 \<le> length (decisions_of kept a) \<longleftrightarrow>
      (\<exists>c \<in> set approvals. \<exists>d \<in> set approvals. c \<noteq> d \<and> ap_approver_id c = a \<and> ap_approver_id d = a)"
    using cases
  proof cases
    case 1
    then show ?thesis using decisions kept by auto
  next
    case (2 d)
    then have "c = d" if "c \<in> set approvals" and "ap_approver_id c = a" for c
      using decisions(2) that by auto
    then show ?thesis using 2 kept by auto
  next
    case (3 c d rest)
    then have "c \<noteq> d" and "c \<in> set approvals \<and> ap_approver_id c = a"
      and "d \<in> set approvals \<and> ap_approver_id d = a"
      using decisions by auto
    then show ?thesis using 3 kept by auto
  qed
qed

definition set_tally :: "approval_decision set \<Rightarrow> ident list \<Rightarrow> approval_tally" where
  "set_tally decisions eligible =
     \<lparr>tally_approved = card {a \<in> set eligible. \<exists>d. {d \<in> decisions. ap_approver_id d = a} = {d} \<and>
        ap_decision d = Approval_Approve},
      tally_undecided = card {a \<in> set eligible. \<forall>d \<in> decisions. ap_approver_id d \<noteq> a},
      tally_conflicted = (\<exists>a \<in> set eligible. \<exists>c \<in> decisions. \<exists>d \<in> decisions.
        c \<noteq> d \<and> ap_approver_id c = a \<and> ap_approver_id d = a)\<rparr>"

lemma length_filter_card: "distinct xs \<Longrightarrow> length (filter P xs) = card {x \<in> set xs. P x}"
  by (metis distinct_card distinct_filter set_filter)

definition sample_approval :: "u8 \<Rightarrow> approval_decision_kind \<Rightarrow> approval_decision" where
  "sample_approval n kind =
     \<lparr>ap_schema = 1, ap_approval_id = id_repeat 1, ap_request_id = id_repeat 2,
      ap_request_digest = fixed_repeat 3, ap_action_manifest_digest = fixed_repeat 4,
      ap_presentation_digest = fixed_repeat 5, ap_witness_policy_id = id_repeat 6,
      ap_witness_policy_revision = 1, ap_witness_policy_digest = fixed_repeat 7,
      ap_approver_id = id_repeat n, ap_approver_key_fingerprint = fixed_repeat 8,
      ap_approver_key_epoch = 1, ap_approval_mode = Approval_Human, ap_decision = kind,
      ap_reason = (if kind = Approval_Approve then Reason_None else Reason_PolicyDenied),
      ap_issued_at_ms = 1000, ap_not_before_ms = None, ap_expires_at_ms = 2000,
      ap_nonce = id_repeat 9, ap_intended_witness_set_digest = fixed_repeat 10,
      ap_signature = fixed_repeat 11\<rparr>"

definition sample_access_rule :: "ident list \<Rightarrow> u8 \<Rightarrow> witness_access_rule" where
  "sample_access_rule approvers threshold =
     \<lparr>war_policy_id = id_repeat 6, war_policy_revision = 1, war_policy_digest = fixed_repeat 7,
      war_operation = core_operation Op_ReadStdout, war_eligible_approver_ids = approvers,
      war_approval_threshold = threshold, war_witness_ids = [], war_witness_threshold = 2,
      war_allowed_request_lifetime_ms = 1000, war_max_timeout_ms = 1000,
      war_max_output_bytes = 1000, war_max_target_count = 1,
      war_required_platform_assurance = CorePlatform_NormalizedPathOnly,
      war_automatic_read_targets = [], war_carries_quorum_claim = True\<rparr>"

lemma sample_approval_bytes: "\<exists>bytes. ap_canonical_bytes (sample_approval n kind) = Inr bytes"
  by (cases kind) (simp_all add: ap_canonical_bytes_def ap_validate_shape_def sample_approval_def
      ap_append_fields_def valid_interval_def checked_sub_def
      max_request_lifetime_ms_def max_approval_bytes_def optional_u64_def Let_def)

lemma sample_normalize:
  "normalize_approvals [sample_approval n kind, sample_approval n kind] =
     Inr [sample_approval n kind]"
  using sample_approval_bytes [of n kind]
  by (auto simp: normalize_approvals_def Let_def retain_two_def max_recorded_approvals_def
      max_policy_actors_def)

lemma sample_approval_fields:
  "ap_approver_id (sample_approval n kind) = id_repeat n"
  "ap_decision (sample_approval n kind) = kind"
  by (simp_all add: sample_approval_def)

lemma sample_access_rule_approvers:
  "war_eligible_approver_ids (sample_access_rule approvers threshold) = approvers"
  by (simp add: sample_access_rule_def)

lemma distinct_sample_approvers:
  "distinct (war_eligible_approver_ids (sample_access_rule [a] threshold))"
  by (simp add: sample_access_rule_approvers)

lemma set_tally_single:
  assumes "ap_decision d = Approval_Approve"
  shows "tally_approved (set_tally {d} [ap_approver_id d]) = 1"
proof -
  have "{c \<in> {d}. ap_approver_id c = ap_approver_id d} = {d}"
    by auto
  then have "{a \<in> set [ap_approver_id d]. \<exists>e. {c \<in> {d}. ap_approver_id c = a} = {e} \<and>
      ap_decision e = Approval_Approve} = {ap_approver_id d}"
    using assms by auto
  then show ?thesis by (simp add: set_tally_def)
qed

section \<open>Properties\<close>

text \<open>
  C33. The tally of the recorded approvals is a count over sets. However often and in whatever
  order decisions are submitted, an eligible approver counts as approving exactly when the
  decisions submitted in their name are one single approving decision; an approver with two
  different decisions is a conflict that the limit of two recorded decisions never hides, and an
  approver without a decision is undecided.
\<close>

theorem approvals_counted_as_sets:
  assumes "normalize_approvals approvals = Inr kept"
    and "distinct (war_eligible_approver_ids rule)"
  shows "tally_approvals kept rule = set_tally (set approvals) (war_eligible_approver_ids rule)"
proof (rule approval_tally.equality)
  show "approval_tally.more (tally_approvals kept rule) =
      approval_tally.more (set_tally (set approvals) (war_eligible_approver_ids rule))"
    by simp
qed (simp_all only: tally_approvals_fields set_tally_def approval_tally.select_convs
    normalized_counts [OF assms(1)] length_filter_card [OF assms(2)])

theorem approvals_counted_as_sets_witness:
  "tally_approved (tally_approvals [sample_approval 20 Approval_Approve]
     (sample_access_rule [id_repeat 20] 1)) = 1"
  unfolding approvals_counted_as_sets [OF sample_normalize distinct_sample_approvers]
  using set_tally_single [of "sample_approval 20 Approval_Approve"]
  by (simp add: sample_approval_fields sample_access_rule_approvers)

end
