(* ===== verification/Jury_Engine_Contract.thy ===== *)
theory Jury_Engine_Contract
  imports Jury_Engine Jury_Tally
begin

text \<open>
  What the engine relies on and what it does with it. The locale \<open>witness_services\<close> is the
  contract of the store, the external anchor, the clock, the entropy source and the contribution
  provider: which part of the world each call may change, on success and on failure. A failed
  commit, swap or mark may or may not have taken effect. Inside the locale, the lemmas give the
  weakest preconditions of reconciliation and commit for any world.
\<close>

section \<open>States and anchors that agree\<close>

definition published_state :: "persisted_witness_state \<Rightarrow> persisted_witness_state" where
  "published_state s = s\<lparr>ps_published_anchor := ps_pending_anchor s, ps_pending_anchor := None\<rparr>"

definition settles ::
    "'w witness_engine \<Rightarrow> persisted_witness_state \<Rightarrow> witness_state_anchor option \<Rightarrow> bool" where
  "settles e s external \<longleftrightarrow>
     ps_pending_anchor s = None \<and> validate_stored_identity e s = Inr () \<and>
     published_equality e s external = Inr ()"

definition committed :: "witness_logical_state \<Rightarrow> u64 \<Rightarrow> witness_logical_state" where
  "committed l now_ms =
     l\<lparr>lg_state_generation := lg_state_generation l + 1,
       lg_last_accepted_wall_time_ms := max (lg_last_accepted_wall_time_ms l) now_ms\<rparr>"

text \<open>
  A step of the external anchor: the first anchor has generation one and no predecessor, each
  later one extends the generation by one and carries the digest of the anchor it replaces.
\<close>

definition anchor_extends ::
    "hash_fun \<Rightarrow> witness_state_anchor option \<Rightarrow> witness_state_anchor \<Rightarrow> bool" where
  "anchor_extends H before after =
     (case before of
        None \<Rightarrow> an_state_generation after = 1 \<and> an_predecessor_anchor_digest after = zero_digest
      | Some anchor \<Rightarrow>
          an_state_generation after = saturating_add (an_state_generation anchor) 1 \<and>
          an_digest H anchor = Inr (an_predecessor_anchor_digest after))"

definition reconciled ::
    "hash_fun \<Rightarrow> persisted_witness_state \<Rightarrow> witness_state_anchor option
      \<Rightarrow> persisted_witness_state \<Rightarrow> witness_state_anchor option \<Rightarrow> bool" where
  "reconciled H s a s' a' \<longleftrightarrow>
     (s' = s \<or> ps_pending_anchor s \<noteq> None \<and> s' = published_state s) \<and>
     (a' = a \<or> (\<exists>candidate. ps_pending_anchor s = Some candidate \<and> a' = Some candidate \<and>
        anchor_extends H a candidate))"

lemma reconciled_refl [simp]: "reconciled H s a s a"
  by (simp add: reconciled_def)

lemma published_state_logical [simp]: "ps_logical (published_state s) = ps_logical s"
  by (simp add: published_state_def)

lemma reconciled_logical: "reconciled H s a s' a' \<Longrightarrow> ps_logical s' = ps_logical s"
  by (auto simp: reconciled_def)

text \<open>
  A settled state is empty with no anchor anywhere, or its published anchor is the external
  anchor, carries the state's generation and the digest of its canonical form, and is signed by
  the engine's identity.
\<close>

lemma settles_cases:
  assumes "settles e s external"
  obtains (empty) "ps_published_anchor s = None" "external = None"
      "lg_state_generation (ps_logical s) = 0"
  | (anchored) anchor where "ps_published_anchor s = Some anchor" "external = Some anchor"
      "an_state_generation anchor = lg_state_generation (ps_logical s)"
      "logical_digest (en_hash e) (ps_logical s) = Inr (an_database_state_digest anchor)"
      "validate_anchor e anchor = Inr ()"
proof -
  have "published_equality e s external = Inr ()"
    using assms by (simp add: settles_def)
  then show thesis
    by (auto simp: published_equality_def result_simps split: option.splits if_splits
        dest!: exact_anchor_eq_True intro: empty anchored)
qed

section \<open>The contract of the services\<close>

locale witness_services =
  fixes e :: "'w witness_engine"
    and stored :: "'w \<Rightarrow> persisted_witness_state"
    and anchored :: "'w \<Rightarrow> witness_state_anchor option"
  assumes load: "call_wp (en_load e)
      (\<lambda>s w'. s = stored w \<and> stored w' = stored w \<and> anchored w' = anchored w)
      (\<lambda>_ w'. stored w' = stored w \<and> anchored w' = anchored w) w"
    and commit: "call_wp (en_commit e g s)
      (\<lambda>_ w'. lg_state_generation (ps_logical (stored w)) = g \<and>
        ps_pending_anchor (stored w) = None \<and> stored w' = s \<and> anchored w' = anchored w)
      (\<lambda>_ w'. (stored w' = stored w \<or>
        lg_state_generation (ps_logical (stored w)) = g \<and>
        ps_pending_anchor (stored w) = None \<and> stored w' = s) \<and> anchored w' = anchored w) w"
    and mark: "call_wp (en_mark_anchor_published e d)
      (\<lambda>_ w'. ps_pending_anchor (stored w) \<noteq> None \<and> stored w' = published_state (stored w) \<and>
        anchored w' = anchored w)
      (\<lambda>_ w'. (stored w' = stored w \<or>
        ps_pending_anchor (stored w) \<noteq> None \<and> stored w' = published_state (stored w)) \<and>
        anchored w' = anchored w) w"
    and ensure_publishable: "call_wp (en_ensure_publishable e c)
      (\<lambda>_ w'. stored w' = stored w \<and> anchored w' = anchored w)
      (\<lambda>_ w'. stored w' = stored w \<and> anchored w' = anchored w) w"
    and read: "call_wp (en_read e)
      (\<lambda>a w'. a = anchored w \<and> stored w' = stored w \<and> anchored w' = anchored w)
      (\<lambda>_ w'. stored w' = stored w \<and> anchored w' = anchored w) w"
    and compare_and_swap: "call_wp (en_compare_and_swap e x c)
      (\<lambda>outcome w'. stored w' = stored w \<and>
        (outcome = Cas_Published \<longrightarrow> anchored w' = Some c) \<and>
        (anchored w' = anchored w \<or>
          anchored w' = Some c \<and> anchor_extends (en_hash e) (anchored w) c))
      (\<lambda>_ w'. stored w' = stored w \<and>
        (anchored w' = anchored w \<or>
          anchored w' = Some c \<and> anchor_extends (en_hash e) (anchored w) c)) w"
    and seal: "call_wp (en_seal_witness_contribution e suite capsule target)
      (\<lambda>_ w'. stored w' = stored w \<and> anchored w' = anchored w)
      (\<lambda>_ w'. stored w' = stored w \<and> anchored w' = anchored w) w"
    and fill: "call_wp (en_fill e)
      (\<lambda>_ w'. stored w' = stored w \<and> anchored w' = anchored w)
      (\<lambda>_ w'. stored w' = stored w \<and> anchored w' = anchored w) w"
    and wall_time_ms: "stored (snd (en_wall_time_ms e w)) = stored w \<and>
      anchored (snd (en_wall_time_ms e w)) = anchored w"
begin

section \<open>Reconciliation\<close>

lemma wall_time_wp:
  "call_wp (wall_time e) (\<lambda>_ w'. stored w' = stored w \<and> anchored w' = anchored w) E w"
  using wall_time_ms [of w] by (auto simp: call_wp_def wall_time_def split: prod.splits)

lemma store_load_wp:
  "call_wp (store_load e)
     (\<lambda>s w'. s = stored w \<and> stored w' = stored w \<and> anchored w' = anchored w)
     (\<lambda>_ w'. stored w' = stored w \<and> anchored w' = anchored w) w"
  unfolding store_load_def call_wp_map_err by (rule load)

lemma anchor_read_wp:
  "call_wp (anchor_read e)
     (\<lambda>a w'. a = anchored w \<and> stored w' = stored w \<and> anchored w' = anchored w)
     (\<lambda>_ w'. stored w' = stored w \<and> anchored w' = anchored w) w"
  unfolding anchor_read_def call_wp_map_err by (rule read)

lemma require_published_equality_wp:
  "call_wp (require_published_equality e s)
     (\<lambda>_ w'. published_equality e s (anchored w) = Inr () \<and> stored w' = stored w \<and>
       anchored w' = anchored w)
     (\<lambda>_ w'. stored w' = stored w \<and> anchored w' = anchored w) w"
  unfolding require_published_equality_def call_wp_then
  by (rule call_wp_mono [OF anchor_read_wp]) (auto simp: call_wp_result split: sum.split)

lemma mark_published_wp:
  "call_wp (mark_published e candidate)
     (\<lambda>_ w'. ps_pending_anchor (stored w) \<noteq> None \<and> stored w' = published_state (stored w) \<and>
       anchored w' = anchored w)
     (\<lambda>_ w'. (stored w' = stored w \<or>
       ps_pending_anchor (stored w) \<noteq> None \<and> stored w' = published_state (stored w)) \<and>
       anchored w' = anchored w) w"
  unfolding mark_published_def call_wp_then call_wp_result
  by (auto simp: call_wp_map_err split: sum.split intro: call_wp_mono [OF mark])

lemma swap_in_wp:
  "call_wp (swap_in e x c)
     (\<lambda>_ w'. stored w' = stored w \<and>
       (anchored w' = anchored w \<or> anchored w' = Some c \<and> anchor_extends (en_hash e) (anchored w) c))
     (\<lambda>_ w'. stored w' = stored w \<and>
       (anchored w' = anchored w \<or> anchored w' = Some c \<and> anchor_extends (en_hash e) (anchored w) c))
     w"
  unfolding swap_in_def call_wp_then call_wp_map_err
proof (rule call_wp_mono [OF compare_and_swap], goal_cases)
  case (1 outcome w')
  then show ?case
  proof (cases outcome)
    case Cas_Published
    then show ?thesis using 1 by (auto simp: call_wp_result)
  next
    case Cas_Conflict
    then show ?thesis
      using 1 by (auto simp: wp_simps ensure_def intro!: call_wp_mono [OF anchor_read_wp]
          split: sum.split)
  qed
qed simp

lemma check_candidate_pending: "check_candidate e' s = Inr c \<Longrightarrow> ps_pending_anchor s = Some c"
  by (auto simp: check_candidate_def result_simps split: if_splits)

lemma publish_pending_wp:
  fixes w
  defines "R \<equiv> \<lambda>w'. reconciled (en_hash e) (stored w) (anchored w) (stored w') (anchored w')"
  shows "call_wp (publish_pending e (stored w)) (\<lambda>_. R) (\<lambda>_. R) w"
proof (cases "check_candidate e (stored w)")
  case (Inl a)
  then show ?thesis by (simp add: publish_pending_def wp_simps R_def)
next
  case (Inr c)
  note pending = check_candidate_pending [OF this]
  define near where "near v \<longleftrightarrow> stored v = stored w \<and> (anchored v = anchored w \<or>
    anchored v = Some c \<and> anchor_extends (en_hash e) (anchored w) c)" for v
  have near: "R v" if "near v" for v
    using that pending by (auto simp: near_def R_def reconciled_def)
  have keeps: "call_wp (anchor_read e) (\<lambda>_. near) (\<lambda>_. near) v" if "near v" for v
    by (rule call_wp_mono [OF anchor_read_wp]) (use that in \<open>auto simp: near_def\<close>)
  have swap: "call_wp (swap_in e x c) (\<lambda>_. near) (\<lambda>_. near) v"
    if "near v" and "anchored v = anchored w" for v x
    by (rule call_wp_mono [OF swap_in_wp]) (use that in \<open>auto simp: near_def\<close>)
  have marked: "call_wp (mark_published e c) (\<lambda>_. R) (\<lambda>_. R) v" if "near v" for v
    by (rule call_wp_mono [OF mark_published_wp])
      (use that pending in \<open>auto simp: near_def R_def reconciled_def\<close>)
  have readback: "call_wp (anchor_read e) (\<lambda>readback. call_wp (
      call_then (call_result (ok_or (Engine_Refused Reason_AnchorConflict) readback)) (\<lambda>readback.
      call_then (call_result (exact_anchor_eq readback c)) (\<lambda>equal.
      if \<not> equal then call_refuse Reason_AnchorConflict else mark_published e c)))
      (\<lambda>_. R) (\<lambda>_. R)) (\<lambda>_. R) v" if "near v" for v
    by (rule call_wp_mono [OF keeps [OF that]])
      (auto simp: wp_simps call_refuse_def near marked split: sum.split)
  show ?thesis
    unfolding publish_pending_def Inr call_wp_then call_wp_result sum.case
  proof (rule call_wp_mono [OF anchor_read_wp], goal_cases)
    case (1 external v)
    then have v: "near v" "anchored v = anchored w"
      by (auto simp: near_def)
    have "call_wp (swap_in e x c) (\<lambda>_. call_wp (anchor_read e) (\<lambda>readback. call_wp (
      call_then (call_result (ok_or (Engine_Refused Reason_AnchorConflict) readback)) (\<lambda>readback.
      call_then (call_result (exact_anchor_eq readback c)) (\<lambda>equal.
      if \<not> equal then call_refuse Reason_AnchorConflict else mark_published e c)))
      (\<lambda>_. R) (\<lambda>_. R)) (\<lambda>_. R)) (\<lambda>_. R) v" for x
      by (rule call_wp_mono [OF swap [OF v]]) (auto intro: readback near)
    then show ?case
      using v by (auto simp: call_wp_then call_wp_if call_wp_result call_refuse_def near marked
          split: sum.split)
  qed (use near in \<open>auto simp: near_def\<close>)
qed

lemma reconcile_wp:
  "call_wp (if ps_pending_anchor (stored w) \<noteq> None then publish_pending e (stored w)
      else require_published_equality e (stored w))
     (\<lambda>_ w'. reconciled (en_hash e) (stored w) (anchored w) (stored w') (anchored w'))
     (\<lambda>_ w'. reconciled (en_hash e) (stored w) (anchored w) (stored w') (anchored w')) w"
  unfolding call_wp_if
  by (auto intro: publish_pending_wp call_wp_mono [OF require_published_equality_wp])

lemma ready_state_wp:
  "call_wp (ready_state e)
     (\<lambda>s w'. s = stored w' \<and> settles e s (anchored w') \<and>
       reconciled (en_hash e) (stored w) (anchored w) (stored w') (anchored w'))
     (\<lambda>_ w'. reconciled (en_hash e) (stored w) (anchored w) (stored w') (anchored w')) w"
proof -
  define R where
    "R w' \<longleftrightarrow> reconciled (en_hash e) (stored w) (anchored w) (stored w') (anchored w')" for w'
  define Q where "Q s w' \<longleftrightarrow> s = stored w' \<and> settles e s (anchored w') \<and> R w'" for s w'
  define reconcile where "reconcile state = (if ps_pending_anchor state \<noteq> None
    then publish_pending e state else require_published_equality e state)" for state
  define finish where "finish ready = call_then (call_result (validate_stored_identity e ready)) (\<lambda>_.
    if ps_pending_anchor ready \<noteq> None then call_refuse Reason_AnchorConflict
    else call_then (require_published_equality e ready) (\<lambda>_. call_result (Inr ready)))" for ready
  have finish: "call_wp (finish (stored v)) Q (\<lambda>_. R) v" if "R v" for v
    using that unfolding finish_def
    by (auto simp: wp_simps call_refuse_def settles_def R_def Q_def split: sum.split
        intro!: call_wp_mono [OF require_published_equality_wp])
  have reload: "call_wp (call_then (store_load e) finish) Q (\<lambda>_. R) v" if "R v" for v
    unfolding call_wp_then
  proof (rule call_wp_mono [OF store_load_wp], goal_cases)
    case (1 ready u)
    then show ?case
      using that finish [of u] by (simp add: R_def)
  qed (use that in \<open>simp add: R_def\<close>)
  have reconcile: "call_wp (reconcile (stored w)) (\<lambda>_. R) (\<lambda>_. R) v"
    if "stored v = stored w" and "anchored v = anchored w" for v
    using reconcile_wp [of v] unfolding reconcile_def R_def [abs_def] that .
  have body: "call_wp (call_then (call_result (validate_stored_identity e (stored w))) (\<lambda>_.
      call_then (reconcile (stored w)) (\<lambda>_. call_then (store_load e) finish))) Q (\<lambda>_. R) v"
    if v: "stored v = stored w" "anchored v = anchored w" for v
    unfolding call_wp_then call_wp_result
    by (auto simp: R_def v split: sum.split intro!: call_wp_mono [OF reconcile [OF v]]
        reload [unfolded call_wp_then])
  have "ready_state e = call_then (store_load e) (\<lambda>state.
      call_then (call_result (validate_stored_identity e state)) (\<lambda>_.
      call_then (reconcile state) (\<lambda>_. call_then (store_load e) finish)))"
    by (simp add: ready_state_def reconcile_def finish_def [abs_def])
  moreover have "call_wp (call_then (store_load e) (\<lambda>state.
      call_then (call_result (validate_stored_identity e state)) (\<lambda>_.
      call_then (reconcile state) (\<lambda>_. call_then (store_load e) finish)))) Q (\<lambda>_. R) w"
    unfolding call_wp_then [of "store_load e"]
    by (rule call_wp_mono [OF store_load_wp]) (auto simp: R_def intro: body)
  ultimately show ?thesis
    by (simp add: Q_def [abs_def] R_def [abs_def])
qed

lemma safe_state_wp:
  assumes "\<And>now_ms s v. s = stored v \<Longrightarrow> settles e s (anchored v) \<Longrightarrow>
      reconciled (en_hash e) (stored w) (anchored w) (stored v) (anchored v) \<Longrightarrow>
      require_safe_clock s now_ms = Inr () \<Longrightarrow> call_wp (continue now_ms s) Q E v"
    and "\<And>error v. reconciled (en_hash e) (stored w) (anchored w) (stored v) (anchored v) \<Longrightarrow>
      E error v"
  shows "call_wp (safe_state e continue) Q E w"
  unfolding safe_state_def call_wp_then
proof (rule call_wp_mono [OF wall_time_wp [where E = "\<lambda>_ _. False"]], goal_cases)
  case (1 now_ms v)
  show ?case
  proof (rule call_wp_mono [OF ready_state_wp], goal_cases)
    case (1 s u)
    then show ?case
      using \<open>stored v = stored w \<and> anchored v = anchored w\<close>
      by (auto simp: call_wp_result split: sum.split intro: assms)
  next
    case (2 error u)
    then show ?case
      using \<open>stored v = stored w \<and> anchored v = anchored w\<close> by (auto intro: assms(2))
  qed
qed simp

section \<open>Commit\<close>

lemma commit_and_publish_wp:
  "call_wp (commit_and_publish e s now_ms)
     (\<lambda>s' w'. s' = stored w' \<and> settles e s' (anchored w') \<and>
       unat (lg_state_generation (ps_logical s)) + 1 < 2 ^ 64 \<and>
       ps_logical s' = committed (ps_logical s) now_ms)
     (\<lambda>_ w'. stored w' = stored w \<and> anchored w' = anchored w \<or>
       unat (lg_state_generation (ps_logical s)) + 1 < 2 ^ 64 \<and>
       ps_logical (stored w') = committed (ps_logical s) now_ms) w"
proof (cases "checked_add (lg_state_generation (ps_logical s)) 1")
  case None
  then show ?thesis by (simp add: commit_and_publish_def Let_def wp_simps)
next
  case (Some generation)
  then have generation: "generation = lg_state_generation (ps_logical s) + 1"
    and room: "unat (lg_state_generation (ps_logical s)) + 1 < 2 ^ 64"
    by (auto simp: checked_add_def split: if_splits)
  define state where "state = s\<lparr>ps_logical := committed (ps_logical s) now_ms\<rparr>"
  have publish: "call_wp (ready_state e)
      (\<lambda>s' w'. s' = stored w' \<and> settles e s' (anchored w') \<and>
        ps_logical s' = committed (ps_logical s) now_ms)
      (\<lambda>_ w'. ps_logical (stored w') = committed (ps_logical s) now_ms) v"
    if "ps_logical (stored v) = committed (ps_logical s) now_ms" for v
    by (rule call_wp_mono [OF ready_state_wp]) (use that in \<open>auto dest: reconciled_logical\<close>)
  have commit: "call_wp (en_commit e g (state\<lparr>ps_pending_anchor := Some candidate\<rparr>))
      (\<lambda>_ v. ps_logical (stored v) = committed (ps_logical s) now_ms)
      (\<lambda>_ w'. stored w' = stored w \<and> anchored w' = anchored w \<or>
        ps_logical (stored w') = committed (ps_logical s) now_ms) v"
    if "stored v = stored w" and "anchored v = anchored w" for v g candidate
    by (rule call_wp_mono [OF commit]) (use that in \<open>auto simp: state_def\<close>)
  have ensure: "call_wp (en_ensure_publishable e candidate)
      (\<lambda>_ v. stored v = stored w \<and> anchored v = anchored w)
      (\<lambda>_ v. stored v = stored w \<and> anchored v = anchored w) w" for candidate
    by (rule ensure_publishable)
  show ?thesis
    using Some room unfolding commit_and_publish_def Let_def generation [symmetric]
    by (auto simp: wp_simps generation committed_def [symmetric] state_def [symmetric]
        split: sum.split intro!: call_wp_mono [OF ensure] call_wp_mono [OF commit]
        call_wp_mono [OF publish])
qed

end

end
