(* ===== verification/Jury_Engine_Steps.thy ===== *)
theory Jury_Engine_Steps
  imports Jury_Engine_Contract
begin

text \<open>
  The witness as a state machine on its logical state, and the proof that the engine implements
  it. The relation \<open>prepares\<close> has one rule per change an operation makes; \<open>witness_step\<close> adds
  the clock guard and the commit. Under the contract of the services, every operation of the
  engine leaves the stored logical state where it was or takes one step of this machine, on
  every branch and whatever call fails.
\<close>

section \<open>The state machine\<close>

definition is_denial :: "witness_response \<Rightarrow> bool" where
  "is_denial r \<longleftrightarrow> wd_decision (wr_decision r) = Decision_Deny \<and> wr_contribution r = None"

definition is_approval :: "witness_response \<Rightarrow> bool" where
  "is_approval r \<longleftrightarrow> wd_decision (wr_decision r) = Decision_Approve \<and> wr_contribution r \<noteq> None"

definition stale_denied ::
    "ident \<Rightarrow> (ident \<times> ident, witness_replay_entry) btree_map
      \<Rightarrow> (ident \<times> ident, witness_replay_entry) btree_map \<Rightarrow> bool" where
  "stale_denied vault_id replay replay' \<longleftrightarrow>
     (\<forall>key. case bt_get replay key of
        None \<Rightarrow> bt_get replay' key = None
      | Some entry \<Rightarrow>
          if fst key = vault_id \<and> re_state entry = Replay_Reserved
          then (\<exists>r. is_denial r \<and> bt_get replay' key = Some (deny_entry entry r))
          else bt_get replay' key = Some entry)"

text \<open>
  The evidence behind a contribution: the request was valid for this witness under some replayed
  policy, every recorded approval was valid and current, and the rule's threshold was met.
\<close>

definition quorum_reached ::
    "'w witness_engine \<Rightarrow> witness_logical_state \<Rightarrow> u64 \<Rightarrow> witness_request \<Rightarrow> digest32
      \<Rightarrow> approval_decision list \<Rightarrow> bool" where
  "quorum_reached e l now_ms request manifest_digest accepted \<longleftrightarrow>
     (\<exists>policy state manifest validated submitted.
        ps_logical state = l \<and>
        validate_request e policy state request manifest now_ms = Inr validated \<and>
        mf_digest (en_hash e) manifest = Inr manifest_digest \<and>
        (\<forall>a \<in> set submitted. validate_approval e a request manifest validated now_ms = Inr ()) \<and>
        normalize_approvals submitted = Inr accepted \<and>
        unat (war_approval_threshold (vr_rule validated)) \<le>
          tally_approved (tally_approvals accepted (vr_rule validated)))"

definition cancelled_by ::
    "'w witness_engine \<Rightarrow> witness_request \<Rightarrow> cancellation_bytes \<Rightarrow> bool" where
  "cancelled_by e request bytes \<longleftrightarrow>
     (\<exists>policy cancellation now_ms.
        validate_request_cancellation (en_hash e) (en_verify e) policy request cancellation now_ms =
          Inr () \<and>
        ca_canonical_bytes cancellation = Inr (bounded_as_bytes bytes))"

definition open_entry :: "witness_replay_entry \<Rightarrow> bool" where
  "open_entry entry \<longleftrightarrow> re_state entry = Replay_Reserved \<or> re_response entry = None"

inductive prepares ::
    "'w witness_engine \<Rightarrow> u64 \<Rightarrow> witness_logical_state \<Rightarrow> witness_logical_state \<Rightarrow> bool"
  for e :: "'w witness_engine" and now_ms l where
  prepare_register:
    "validate_checkpoint e policy (rw_current_checkpoint vault) = Inr () \<Longrightarrow>
     bt_get (lg_vaults l) (cp_vault_id (rw_current_checkpoint vault)) = None \<Longrightarrow>
     prepares e now_ms l (l\<lparr>lg_vaults :=
       bt_insert (cp_vault_id (rw_current_checkpoint vault)) vault (lg_vaults l)\<rparr>)"
| prepare_advance:
    "validate_checkpoint_public (en_hash e) (en_verify e) policy checkpoint = Inr policies \<Longrightarrow>
     bt_get (lg_vaults l) (cp_vault_id checkpoint) = Some current \<Longrightarrow>
     check_descendant (en_hash e) current checkpoint = Inr () \<Longrightarrow>
     stale_denied (cp_vault_id checkpoint) (lg_replay l) replay \<Longrightarrow>
     prepares e now_ms l (l\<lparr>lg_vaults := bt_insert (cp_vault_id checkpoint)
       (current\<lparr>rw_current_checkpoint := checkpoint, rw_current_policy_material := material\<rparr>)
       (lg_vaults l), lg_replay := replay\<rparr>)"
| prepare_reserve:
    "ps_logical state = l \<Longrightarrow>
     validate_request e policy state request manifest now_ms = Inr validated \<Longrightarrow>
     bt_get (lg_replay l) (request_key request) = None \<Longrightarrow>
     \<not> replay_at_capacity l (rq_vault_id request) \<Longrightarrow>
     mf_digest (en_hash e) manifest = Inr digest \<Longrightarrow>
     checked_add (rq_expires_at_ms request) replay_retention_ms = Some retain \<Longrightarrow>
     prepares e now_ms l (l\<lparr>lg_replay := bt_insert (request_key request)
       \<lparr>re_request = request, re_action_manifest_digest = digest, re_state = Replay_Reserved,
        re_retain_through_ms = retain, re_approvals = [], re_cancellation = None,
        re_response = None\<rparr> (lg_replay l)\<rparr>)"
| prepare_cancel_unknown:
    "bt_get (lg_replay l) (request_key request) = None \<Longrightarrow>
     now_ms < rq_expires_at_ms request \<Longrightarrow>
     cancelled_by e request bytes \<Longrightarrow> is_denial r \<Longrightarrow>
     checked_add (rq_expires_at_ms request) replay_retention_ms = Some retain \<Longrightarrow>
     prepares e now_ms l (l\<lparr>lg_replay := bt_insert (request_key request)
       \<lparr>re_request = request, re_action_manifest_digest = rq_action_manifest_digest request,
        re_state = Replay_Cancelled, re_retain_through_ms = retain, re_approvals = [],
        re_cancellation = Some bytes, re_response = Some r\<rparr> (lg_replay l)\<rparr>)"
| prepare_cancel:
    "bt_get (lg_replay l) key = Some known \<Longrightarrow> re_response known = None \<Longrightarrow>
     cancelled_by e (re_request known) bytes \<Longrightarrow> is_denial r \<Longrightarrow>
     prepares e now_ms l (l\<lparr>lg_replay := bt_insert key (known\<lparr>re_state := Replay_Cancelled,
       re_cancellation := Some bytes, re_response := Some r\<rparr>) (lg_replay l)\<rparr>)"
| prepare_record:
    "bt_get (lg_replay l) key = Some known \<Longrightarrow> re_response known = None \<Longrightarrow>
     prepares e now_ms l (l\<lparr>lg_replay := bt_insert key (known\<lparr>re_approvals := accepted\<rparr>)
       (lg_replay l)\<rparr>)"
| prepare_deny:
    "bt_get (lg_replay l) key = Some known \<Longrightarrow> open_entry known \<Longrightarrow> is_denial r \<Longrightarrow>
     prepares e now_ms l (l\<lparr>lg_replay := bt_insert key
       (deny_entry (known\<lparr>re_approvals := accepted\<rparr>) r) (lg_replay l)\<rparr>)"
| prepare_approve:
    "bt_get (lg_replay l) key = Some known \<Longrightarrow> re_response known = None \<Longrightarrow>
     quorum_reached e l now_ms (re_request known) (re_action_manifest_digest known) accepted \<Longrightarrow>
     is_approval r \<Longrightarrow>
     prepares e now_ms l (l\<lparr>lg_replay := bt_insert key (known\<lparr>re_approvals := accepted,
       re_state := Replay_Approved, re_response := Some r\<rparr>) (lg_replay l)\<rparr>)"
| prepare_compact:
    "prepares e now_ms l (l\<lparr>lg_replay :=
       bt_retain (\<lambda>_ entry. now_ms \<le> re_retain_through_ms entry) (lg_replay l)\<rparr>)"

definition safe_clock :: "witness_logical_state \<Rightarrow> u64 \<Rightarrow> bool" where
  "safe_clock l now_ms \<longleftrightarrow>
     lg_last_accepted_wall_time_ms l \<le> saturating_add now_ms accepted_clock_skew_ms"

definition witness_step ::
    "'w witness_engine \<Rightarrow> witness_logical_state \<Rightarrow> witness_logical_state \<Rightarrow> bool" where
  "witness_step e l l' \<longleftrightarrow>
     (\<exists>now_ms prepared. safe_clock l now_ms \<and> prepares e now_ms l prepared \<and>
        unat (lg_state_generation l) + 1 < 2 ^ 64 \<and> l' = committed prepared now_ms)"

lemma prepares_header:
  assumes "prepares e now_ms l l'"
  shows "lg_state_generation l' = lg_state_generation l \<and> lg_witness_id l' = lg_witness_id l \<and>
    lg_last_accepted_wall_time_ms l' = lg_last_accepted_wall_time_ms l"
  using assms by cases auto

definition stays_or_steps ::
    "'w witness_engine \<Rightarrow> witness_logical_state \<Rightarrow> witness_logical_state \<Rightarrow> bool" where
  "stays_or_steps e l l' \<longleftrightarrow> l' = l \<or> witness_step e l l'"

lemma require_safe_clock_Inr:
  "require_safe_clock s now_ms = Inr () \<longleftrightarrow> safe_clock (ps_logical s) now_ms"
  by (auto simp: require_safe_clock_def safe_clock_def not_less)

lemma with_replay_logical [simp]:
  "ps_logical (with_replay s replay) = (ps_logical s)\<lparr>lg_replay := replay\<rparr>"
  by (simp add: with_replay_def)

lemma with_vaults_logical [simp]:
  "ps_logical (with_vaults s vaults) = (ps_logical s)\<lparr>lg_vaults := vaults\<rparr>"
  by (simp add: with_vaults_def)

definition denied_among ::
    "((ident \<times> ident) \<times> witness_replay_entry) list
      \<Rightarrow> (ident \<times> ident, witness_replay_entry) btree_map
      \<Rightarrow> (ident \<times> ident, witness_replay_entry) btree_map \<Rightarrow> bool" where
  "denied_among stale replay replay' \<longleftrightarrow>
     (\<forall>key. case bt_get replay key of
        None \<Rightarrow> bt_get replay' key = None
      | Some entry \<Rightarrow>
          if (key, entry) \<in> set stale
          then (\<exists>r. is_denial r \<and> bt_get replay' key = Some (deny_entry entry r))
          else bt_get replay' key = Some entry)"

lemma deny_entry_twice [simp]: "deny_entry (deny_entry entry r) r' = deny_entry entry r'"
  by (simp add: deny_entry_def)

lemma denied_among_insert:
  assumes "denied_among stale replay replay'" and "bt_get replay key = Some entry"
    and "bt_get replay' key = Some current" and "is_denial r"
  shows "denied_among (stale @ [(key, entry)]) replay (bt_insert key (deny_entry current r) replay')"
  unfolding denied_among_def
proof
  fix other
  show "case bt_get replay other of
        None \<Rightarrow> bt_get (bt_insert key (deny_entry current r) replay') other = None
      | Some found \<Rightarrow>
          if (other, found) \<in> set (stale @ [(key, entry)])
          then (\<exists>r'. is_denial r' \<and>
            bt_get (bt_insert key (deny_entry current r) replay') other = Some (deny_entry found r'))
          else bt_get (bt_insert key (deny_entry current r) replay') other = Some found"
    using assms(2-4) assms(1) [unfolded denied_among_def, rule_format, of other]
    by (cases "other = key") (auto simp: split: option.splits if_splits)
qed

lemma stale_denied_among:
  "stale_denied vault_id (lg_replay l) replay' \<longleftrightarrow>
     denied_among (stale_keys l vault_id) (lg_replay l) replay'"
  unfolding stale_denied_def denied_among_def stale_keys_def
  by (intro arg_cong [where f = All] ext)
    (auto split: option.split simp: btree.mem_entries)

text \<open>What an answer says about the stored record of its request.\<close>

definition recorded ::
    "witness_logical_state \<Rightarrow> ident \<times> ident \<Rightarrow> witness_request \<Rightarrow> witness_response option
      \<Rightarrow> bool" where
  "recorded l key request answer \<longleftrightarrow>
     (\<exists>entry. bt_get (lg_replay l) key = Some entry \<and> re_request entry = request \<and>
       re_response entry = answer)"

lemma recordedI:
  "bt_get (lg_replay l) key = Some entry \<Longrightarrow> recorded l key (re_request entry) (re_response entry)"
  by (auto simp: recorded_def)

fun progress_answer :: "witness_progress \<Rightarrow> witness_response option" where
  "progress_answer (Progress_Stable response) = Some response"
| "progress_answer _ = None"

definition cancellation_recorded ::
    "witness_logical_state \<Rightarrow> witness_request \<Rightarrow> cancellation_progress \<Rightarrow> bool" where
  "cancellation_recorded l request progress \<longleftrightarrow>
     (\<exists>entry. bt_get (lg_replay l) (request_key request) = Some entry \<and>
       re_request entry = request \<and>
       (case progress of
          Cancellation_Cancelled response \<Rightarrow>
            re_response entry = Some response \<and> re_state entry = Replay_Cancelled
        | Cancellation_TooLate response \<Rightarrow>
            re_response entry = Some response \<and> re_state entry \<noteq> Replay_Cancelled))"

text \<open>The approvals a decision counts were all validated against this request and are current.\<close>

lemma accept_approvals_valid:
  assumes "accept_approvals e request manifest validated now_ms known approvals = Inr accepted"
  obtains submitted where "normalize_approvals submitted = Inr accepted"
    and "\<forall>a \<in> set submitted. validate_approval e a request manifest validated now_ms = Inr ()"
proof -
  obtain recorded where
    recorded: "collect_results (\<lambda>approval. and_then (validate_approval_static e approval request
      manifest validated) (\<lambda>_. Inr approval)) known = Inr recorded"
    and "(\<exists>submitted. fold_results (\<lambda>accepted approval.
        and_then (validate_approval e approval request manifest validated now_ms) (\<lambda>_.
        Inr (accepted @ [approval])))
      (filter (\<lambda>approval. approval_is_current approval now_ms) recorded) approvals = Inr submitted \<and>
      normalize_approvals submitted = Inr accepted)"
    using assms by (auto simp: accept_approvals_def and_then_Inr)
  then obtain submitted where
    submitted: "fold_results (\<lambda>accepted approval.
        and_then (validate_approval e approval request manifest validated now_ms) (\<lambda>_.
        Inr (accepted @ [approval])))
      (filter (\<lambda>approval. approval_is_current approval now_ms) recorded) approvals = Inr submitted"
    and normal: "normalize_approvals submitted = Inr accepted"
    by blast
  have "\<forall>a \<in> set recorded. validate_approval_static e a request manifest validated = Inr ()"
    using recorded
    by (fastforce simp: collect_results_Inr list_all2_conv_all_nth in_set_conv_nth and_then_Inr)
  then have "\<forall>a \<in> set (filter (\<lambda>approval. approval_is_current approval now_ms) recorded).
      validate_approval e a request manifest validated now_ms = Inr ()"
    by (auto simp: validate_approval_def result_simps)
  then have "\<forall>a \<in> set submitted. validate_approval e a request manifest validated now_ms = Inr ()"
    by (rule fold_results_invariant [OF submitted]) (auto simp: and_then_Inr)
  then show thesis
    using normal that by blast
qed

section \<open>The engine takes these steps\<close>

context witness_services
begin

text \<open>Calls that leave the stored state and the anchor alone.\<close>

definition quiet :: "('w, 'e, 'a) call \<Rightarrow> ('a \<Rightarrow> bool) \<Rightarrow> bool" where
  "quiet call P \<longleftrightarrow> (\<forall>w. call_wp call
     (\<lambda>x w'. P x \<and> stored w' = stored w \<and> anchored w' = anchored w)
     (\<lambda>_ w'. stored w' = stored w \<and> anchored w' = anchored w) w)"

lemma quiet_wp:
  "quiet call P \<Longrightarrow> call_wp call (\<lambda>x w'. P x \<and> stored w' = stored w \<and> anchored w' = anchored w)
     (\<lambda>_ w'. stored w' = stored w \<and> anchored w' = anchored w) w"
  by (simp add: quiet_def)

lemma quiet_result: "(\<And>x. r = Inr x \<Longrightarrow> P x) \<Longrightarrow> quiet (call_result r) P"
  by (auto simp: quiet_def call_wp_result split: sum.split)

lemma quiet_then:
  assumes "quiet call P" and "\<And>x. P x \<Longrightarrow> quiet (continue x) Q"
  shows "quiet (call_then call continue) Q"
  unfolding quiet_def call_wp_then
proof
  fix w
  show "call_wp call (\<lambda>x. call_wp (continue x)
      (\<lambda>x w'. Q x \<and> stored w' = stored w \<and> anchored w' = anchored w)
      (\<lambda>_ w'. stored w' = stored w \<and> anchored w' = anchored w))
      (\<lambda>_ w'. stored w' = stored w \<and> anchored w' = anchored w) w"
    by (rule call_wp_mono [OF quiet_wp [OF assms(1)]])
      (auto intro!: call_wp_mono [OF quiet_wp [OF assms(2)]])
qed

lemma quiet_map_err: "quiet call P \<Longrightarrow> quiet (call_map_err g call) P"
  by (simp add: quiet_def call_wp_map_err)

lemma fill_quiet: "quiet (en_fill e) (\<lambda>_. True)"
  by (simp add: quiet_def fill)

lemma seal_quiet: "quiet (en_seal_witness_contribution e suite capsule target) (\<lambda>_. True)"
  by (simp add: quiet_def seal)

lemma random_response_id_quiet: "quiet (random_response_id e) (\<lambda>_. True)"
  unfolding random_response_id_def
  by (rule quiet_then [OF quiet_map_err [OF fill_quiet]]) (rule quiet_result, simp)

lemma denial_response_quiet:
  "quiet (denial_response e request digest reason generation now_ms) is_denial"
  unfolding denial_response_def
  by (rule quiet_then [OF random_response_id_quiet])
    (auto intro!: quiet_result simp: result_simps sign_decision_def is_denial_def)

lemma approval_response_quiet:
  "quiet (approval_response e request manifest validated generation now_ms) is_approval"
  unfolding approval_response_def
  by (rule quiet_then [OF random_response_id_quiet],
      rule quiet_then [OF quiet_result [where P = "\<lambda>_. True"]], simp,
      rule quiet_then [OF quiet_result [where P = "\<lambda>_. True"]], simp,
      rule quiet_then [OF quiet_map_err [OF seal_quiet]])
    (auto intro!: quiet_result simp: result_simps sign_decision_def is_approval_def)

lemma commit_step:
  assumes "safe_clock (ps_logical (stored v)) now_ms"
    and "prepares e now_ms (ps_logical (stored v)) (ps_logical s)"
  shows "call_wp (commit_and_publish e s now_ms)
    (\<lambda>s' w'. s' = stored w' \<and> settles e s' (anchored w') \<and>
      ps_logical (stored w') = committed (ps_logical s) now_ms \<and>
      witness_step e (ps_logical (stored v)) (ps_logical (stored w')))
    (\<lambda>_ w'. stays_or_steps e (ps_logical (stored v)) (ps_logical (stored w'))) v"
  by (rule call_wp_mono [OF commit_and_publish_wp])
    (use assms prepares_header [OF assms(2)] in
      \<open>auto simp: stays_or_steps_def witness_step_def\<close>)

lemma safe_step_wp:
  assumes "\<And>now_ms v. settles e (stored v) (anchored v) \<Longrightarrow> safe_clock (ps_logical (stored v)) now_ms \<Longrightarrow>
      ps_logical (stored v) = ps_logical (stored w) \<Longrightarrow>
      call_wp (continue now_ms (stored v)) Q
        (\<lambda>_ w'. stays_or_steps e (ps_logical (stored v)) (ps_logical (stored w'))) v"
  shows "call_wp (safe_state e continue) Q
    (\<lambda>_ w'. stays_or_steps e (ps_logical (stored w)) (ps_logical (stored w'))) w"
proof (rule safe_state_wp, goal_cases)
  case (1 now_ms s v)
  then show ?case
    using assms [of v now_ms] reconciled_logical [OF 1(3)] by (simp add: require_safe_clock_Inr)
next
  case (2 error v)
  then show ?case
    by (simp add: reconciled_logical stays_or_steps_def)
qed

lemma register_vault_wp:
  "call_wp (register_vault e policy registration checkpoint material)
     (\<lambda>ack w'. settles e (stored w') (anchored w') \<and>
       checkpoint_acknowledgement (en_hash e) (stored w') (cp_vault_id checkpoint) = Inr ack \<and>
       stays_or_steps e (ps_logical (stored w)) (ps_logical (stored w')))
     (\<lambda>_ w'. stays_or_steps e (ps_logical (stored w)) (ps_logical (stored w'))) w"
  unfolding register_vault_def call_wp_if
proof (intro conjI impI safe_step_wp, goal_cases)
  case 1
  then show ?case
    by (simp add: call_refuse_def call_wp_result stays_or_steps_def)
next
  case (2 now_ms v)
  then show ?case
    by (auto simp: wp_simps Let_def call_refuse_def stays_or_steps_def split: sum.split option.split
        intro!: call_wp_mono [OF commit_step] prepare_register [where
          vault = "\<lparr>rw_accepted_registration = registration, rw_current_checkpoint = checkpoint,
            rw_current_policy_material = material\<rparr>", simplified])
qed

lemma deny_stale_wp:
  assumes "set stale \<subseteq> set (bt_entries replay)"
  shows "call_wp (call_fold (deny_stale e generation now_ms) replay stale)
    (\<lambda>replay' w'. denied_among stale replay replay' \<and> stored w' = stored w \<and>
      anchored w' = anchored w)
    (\<lambda>_ w'. stored w' = stored w \<and> anchored w' = anchored w) w"
proof (rule call_wp_fold_prefix [where I = "\<lambda>ys replay' w'. denied_among ys replay replay' \<and>
      stored w' = stored w \<and> anchored w' = anchored w"], goal_cases)
  case 1
  then show ?case by (simp add: denied_among_def split: option.split)
next
  case (2 ys x replay' v)
  obtain key entry where x: "x = (key, entry)"
    by (cases x)
  then have "bt_get replay key = Some entry"
    using 2(1) assms by (auto simp: btree.mem_entries)
  then show ?case
    unfolding x deny_stale_def prod.case call_wp_then
    by (rule_tac call_wp_mono [OF quiet_wp [OF denial_response_quiet]])
      (use 2 in \<open>auto simp: wp_simps ok_or_def split: sum.split option.split
        intro!: denied_among_insert\<close>)
qed

lemma stays [simp]: "stays_or_steps e l l"
  by (simp add: stays_or_steps_def)

lemma steps [simp]: "witness_step e l l' \<Longrightarrow> stays_or_steps e l l'"
  by (simp add: stays_or_steps_def)

lemma advance_checkpoint_wp:
  "call_wp (advance_checkpoint e policy checkpoint material)
     (\<lambda>ack w'. settles e (stored w') (anchored w') \<and>
       checkpoint_acknowledgement (en_hash e) (stored w') (cp_vault_id checkpoint) = Inr ack \<and>
       stays_or_steps e (ps_logical (stored w)) (ps_logical (stored w')))
     (\<lambda>_ w'. stays_or_steps e (ps_logical (stored w)) (ps_logical (stored w'))) w"
  unfolding advance_checkpoint_def call_wp_if
proof (intro conjI impI safe_step_wp, goal_cases)
  case 1
  then show ?case
    by (simp add: call_refuse_def call_wp_result)
next
  case (2 now_ms v)
  have stale: "set (stale_keys l vault_id) \<subseteq> set (bt_entries (lg_replay l))" for l vault_id
    by (auto simp: stale_keys_def)
  show ?case
    using 2
    by (auto simp: wp_simps Let_def call_refuse_def split: sum.split option.split
        intro!: call_wp_mono [OF deny_stale_wp [OF stale]] call_wp_mono [OF commit_step]
          prepare_advance simp: stale_denied_among result_simps)
qed

lemma validate_request_time_live:
  "validate_request_time request now_ms = Inr () \<Longrightarrow> now_ms < rq_expires_at_ms request"
  by (auto simp: validate_request_time_def Let_def not_le split: if_splits)

lemma validate_embedded_request_live:
  "validate_embedded_request e policy s request now_ms = Inr () \<Longrightarrow>
     now_ms < rq_expires_at_ms request"
  by (auto simp: validate_embedded_request_def result_simps intro: validate_request_time_live)

lemma cancelled_byI:
  "validate_request_cancellation (en_hash e) (en_verify e) policy request cancellation now_ms =
     Inr () \<Longrightarrow> ca_canonical_bytes cancellation = Inr (bounded_as_bytes bytes) \<Longrightarrow>
     cancelled_by e request bytes"
  by (auto simp: cancelled_by_def)

lemma cancel_entry_wp:
  assumes "safe_clock (ps_logical (stored v)) now_ms"
    and "\<And>known. bt_get (lg_replay (ps_logical (stored v))) (request_key request) = Some known \<Longrightarrow>
      re_request known = request \<and> re_response known = None"
  shows "call_wp (cancel_entry e policy request cancellation now_ms (stored v))
     (\<lambda>progress w'. settles e (stored w') (anchored w') \<and>
       cancellation_recorded (ps_logical (stored w')) request progress \<and>
       stays_or_steps e (ps_logical (stored v)) (ps_logical (stored w')))
     (\<lambda>_ w'. stays_or_steps e (ps_logical (stored v)) (ps_logical (stored w'))) v"
proof (cases "bt_get (lg_replay (ps_logical (stored v))) (request_key request)")
  case None
  then show ?thesis
    unfolding cancel_entry_def Let_def
    using assms(1)
    by (auto simp: wp_simps result_simps cancellation_recorded_def committed_def
        split: sum.split intro!: call_wp_mono [OF quiet_wp [OF denial_response_quiet]]
        call_wp_mono [OF commit_step] prepare_cancel_unknown cancelled_byI
        dest!: validate_embedded_request_live)
next
  case (Some known)
  note known = assms(2) [OF this, THEN conjunct1, symmetric] assms(2) [OF this, THEN conjunct2]
  from Some show ?thesis
    unfolding cancel_entry_def Let_def known(1)
    using assms(1) known(2)
    by (auto simp: wp_simps result_simps cancellation_recorded_def committed_def
        split: sum.split intro!: call_wp_mono [OF quiet_wp [OF denial_response_quiet]]
        call_wp_mono [OF commit_step] prepare_cancel cancelled_byI)
qed

lemma cancel_wp:
  "call_wp (cancel e policy request cancellation)
     (\<lambda>progress w'. settles e (stored w') (anchored w') \<and>
       cancellation_recorded (ps_logical (stored w')) request progress \<and>
       stays_or_steps e (ps_logical (stored w)) (ps_logical (stored w')))
     (\<lambda>_ w'. stays_or_steps e (ps_logical (stored w)) (ps_logical (stored w'))) w"
  unfolding cancel_def
proof (rule safe_step_wp, goal_cases)
  case (1 now_ms v)
  then show ?case
    by (auto simp: wp_simps call_refuse_def cancellation_recorded_def
      dest: same_request_True intro!: call_wp_mono [OF cancel_entry_wp] split: sum.split option.split)
qed

lemma compact_replay_wp:
  "call_wp (compact_replay e)
     (\<lambda>_ w'. settles e (stored w') (anchored w') \<and>
       stays_or_steps e (ps_logical (stored w)) (ps_logical (stored w')))
     (\<lambda>_ w'. stays_or_steps e (ps_logical (stored w)) (ps_logical (stored w'))) w"
  unfolding compact_replay_def
proof (rule safe_step_wp, goal_cases)
  case (1 now_ms v)
  then show ?case
    by (auto simp: wp_simps Let_def intro!: call_wp_mono [OF commit_step] prepare_compact)
qed

lemma store_denial_wp:
  assumes "safe_clock (ps_logical (stored v)) now_ms"
    and "bt_get (lg_replay (ps_logical (stored v))) key = Some known" and "open_entry known"
  shows "call_wp (store_denial e request (known\<lparr>re_approvals := accepted\<rparr>) key reason now_ms (stored v))
     (\<lambda>progress w'. settles e (stored w') (anchored w') \<and>
       (\<exists>r. progress = Progress_Stable r \<and> is_denial r \<and>
         recorded (ps_logical (stored w')) key (re_request known) (Some r)) \<and>
       stays_or_steps e (ps_logical (stored v)) (ps_logical (stored w')))
     (\<lambda>_ w'. stays_or_steps e (ps_logical (stored v)) (ps_logical (stored w'))) v"
  unfolding store_denial_def
  using assms
  by (auto simp: wp_simps recorded_def committed_def deny_entry_def
      intro!: call_wp_mono [OF quiet_wp [OF denial_response_quiet]]
      call_wp_mono [OF commit_step] prepare_deny [unfolded deny_entry_def, simplified])

lemma reserve_wp:
  "call_wp (reserve e policy request manifest)
     (\<lambda>progress w'. settles e (stored w') (anchored w') \<and>
       (\<exists>asked. recorded (ps_logical (stored w')) (request_key request) asked
           (progress_answer progress) \<and>
         (asked = request \<or> (\<exists>r. progress = Progress_Stable r \<and> is_denial r))) \<and>
       stays_or_steps e (ps_logical (stored w)) (ps_logical (stored w')))
     (\<lambda>_ w'. stays_or_steps e (ps_logical (stored w)) (ps_logical (stored w'))) w"
  unfolding reserve_def
proof (rule safe_step_wp, goal_cases)
  case (1 now_ms v)
  have denial: "call_wp (store_denial e (re_request known) known (request_key request)
      Reason_ReplayConflict now_ms (stored v))
     (\<lambda>progress w'. settles e (stored w') (anchored w') \<and>
       (\<exists>r. progress = Progress_Stable r \<and> is_denial r \<and>
         recorded (ps_logical (stored w')) (request_key request) (re_request known) (Some r)) \<and>
       stays_or_steps e (ps_logical (stored v)) (ps_logical (stored w')))
     (\<lambda>_ w'. stays_or_steps e (ps_logical (stored v)) (ps_logical (stored w'))) v"
    if "bt_get (lg_replay (ps_logical (stored v))) (request_key request) = Some known"
      and "re_state known = Replay_Reserved" for known
    using store_denial_wp [OF 1(2) that(1), where accepted = "re_approvals known"] that
    by (simp add: open_entry_def)
  show ?case
  proof (cases "bt_get (lg_replay (ps_logical (stored v))) (request_key request)")
    case None
    then show ?thesis
      using 1
      by (auto simp: wp_simps Let_def call_refuse_def recorded_def committed_def result_simps
          intro!: call_wp_mono [OF commit_step] prepare_reserve split: sum.split)
  next
    case (Some known)
    show ?thesis
    proof (cases "same_request (en_hash e) (re_request known) request = Inr True")
      case True
      note request = same_request_True [OF True]
      then show ?thesis
        using Some 1 recordedI [OF Some] True
        by (auto simp: wp_simps Let_def call_refuse_def split: sum.split option.split
            intro!: exI [where x = request])
    next
      case False
      then show ?thesis
        using Some 1
        by (auto simp: wp_simps Let_def call_refuse_def split: sum.split
            intro!: call_wp_mono [OF denial])
    qed
  qed
qed

lemma conclude_wp:
  assumes "safe_clock (ps_logical (stored v)) now_ms"
    and "settles e (stored v) (anchored v)"
    and "bt_get (lg_replay (ps_logical (stored v))) (request_key (re_request known)) = Some known"
    and "re_response known = None"
    and "unat (war_approval_threshold (vr_rule validated)) \<le>
        tally_approved (tally_approvals accepted (vr_rule validated)) \<Longrightarrow>
      quorum_reached e (ps_logical (stored v)) now_ms (re_request known)
        (re_action_manifest_digest known) accepted"
  shows "call_wp (conclude e (re_request known) manifest validated now_ms (stored v) known accepted)
     (\<lambda>progress w'. settles e (stored w') (anchored w') \<and>
       recorded (ps_logical (stored w')) (request_key (re_request known)) (re_request known)
         (progress_answer progress) \<and>
       stays_or_steps e (ps_logical (stored v)) (ps_logical (stored w')))
     (\<lambda>_ w'. stays_or_steps e (ps_logical (stored v)) (ps_logical (stored w'))) v"
proof -
  have "open_entry known"
    using assms(4) by (simp add: open_entry_def)
  note denial = store_denial_wp [OF assms(1,3) this]
  show ?thesis
    unfolding conclude_def Let_def
    using assms
    by (auto simp: wp_simps recorded_def committed_def
      intro!: call_wp_mono [OF quiet_wp [OF approval_response_quiet]] call_wp_mono [OF denial]
      call_wp_mono [OF commit_step] prepare_approve prepare_record)
qed

lemma accept_approvals_quorum:
  assumes "validate_request e policy s request manifest now_ms = Inr validated"
    and "mf_digest (en_hash e) manifest = Inr digest"
    and "accept_approvals e request manifest validated now_ms known approvals = Inr accepted"
    and "unat (war_approval_threshold (vr_rule validated)) \<le>
      tally_approved (tally_approvals accepted (vr_rule validated))"
  shows "quorum_reached e (ps_logical s) now_ms request digest accepted"
  by (rule accept_approvals_valid [OF assms(3)]) (use assms in \<open>unfold quorum_reached_def, blast\<close>)

lemma decide_open_wp:
  fixes v known
  defines "R w' \<equiv> stays_or_steps e (ps_logical (stored v)) (ps_logical (stored w'))"
  defines "Q progress w' \<equiv> settles e (stored w') (anchored w') \<and>
    recorded (ps_logical (stored w')) (request_key (re_request known)) (re_request known)
      (progress_answer progress) \<and> R w'"
  assumes "safe_clock (ps_logical (stored v)) now_ms"
    and "settles e (stored v) (anchored v)"
    and "bt_get (lg_replay (ps_logical (stored v))) (request_key (re_request known)) = Some known"
    and "re_response known = None"
    and "mf_digest (en_hash e) manifest = Inr (re_action_manifest_digest known)"
  shows "call_wp (decide_open e policy (re_request known) manifest approvals now_ms (stored v) known)
    Q (\<lambda>_. R) v"
proof (cases "validate_request e policy (stored v) (re_request known) manifest now_ms")
  case (Inl error)
  have "call_wp (store_denial e (re_request known) known (request_key (re_request known))
      Reason_Expired now_ms (stored v)) Q (\<lambda>_. R) v"
    using store_denial_wp [OF assms(3,5), of "re_request known" "re_approvals known" Reason_Expired]
      assms(6)
    by (auto simp: Q_def R_def open_entry_def elim!: call_wp_mono)
  then show ?thesis
    using Inl by (simp add: decide_open_def wp_simps R_def)
next
  case (Inr validated)
  have "call_wp (conclude e (re_request known) manifest validated now_ms (stored v) known accepted)
      Q (\<lambda>_. R) v"
    if "accept_approvals e (re_request known) manifest validated now_ms (re_approvals known)
      approvals = Inr accepted" for accepted
    by (rule call_wp_mono [OF conclude_wp [OF assms(3-6)
          accept_approvals_quorum [OF Inr assms(7) that]]])
      (auto simp: Q_def R_def)
  then show ?thesis
    using Inr assms(7) by (auto simp: decide_open_def wp_simps R_def split: sum.split)
qed

lemma decide_wp:
  "call_wp (decide e policy request manifest approvals)
     (\<lambda>progress w'. settles e (stored w') (anchored w') \<and>
       recorded (ps_logical (stored w')) (request_key request) request (progress_answer progress) \<and>
       stays_or_steps e (ps_logical (stored w)) (ps_logical (stored w')))
     (\<lambda>_ w'. stays_or_steps e (ps_logical (stored w)) (ps_logical (stored w'))) w"
  unfolding decide_def call_wp_if
proof (intro conjI impI safe_step_wp, goal_cases)
  case 1
  then show ?case
    by (simp add: call_refuse_def call_wp_result)
next
  case (2 now_ms v)
  note v = 2(2) 2(3) 2(4)
  show ?case
  proof (cases "bt_get (lg_replay (ps_logical (stored v))) (request_key request)")
    case None
    then show ?thesis
      by (simp add: Let_def wp_simps v)
  next
    case (Some known)
    show ?thesis
    proof (cases "same_request (en_hash e) (re_request known) request = Inr True")
      case False
      then show ?thesis
        using Some by (auto simp: Let_def wp_simps call_refuse_def v split: sum.split)
    next
      case True
      note request = same_request_True [OF True]
      note opened = decide_open_wp [OF v(2,1) Some [folded request]]
      show ?thesis
        using Some 2(1) v recordedI [OF Some] True
        by (auto simp: wp_simps Let_def call_refuse_def request [symmetric] result_simps
            split: sum.split option.split intro: opened [unfolded v(3)])
    qed
  qed
qed

lemma check_ready_wp:
  "call_wp (check_ready e)
     (\<lambda>_ w'. settles e (stored w') (anchored w') \<and> ps_logical (stored w') = ps_logical (stored w))
     (\<lambda>_ w'. ps_logical (stored w') = ps_logical (stored w)) w"
  unfolding check_ready_def call_wp_then
  by (rule call_wp_mono [OF ready_state_wp])
    (auto simp: call_wp_result split: sum.split dest: reconciled_logical
      intro!: call_wp_mono [OF wall_time_wp [where E = "\<lambda>_ _. False"]])

lemma operational_status_wp:
  "call_wp (operational_status e)
     (\<lambda>status w'. settles e (stored w') (anchored w') \<and>
       wos_published_anchor status = anchored w' \<and>
       wos_state_generation status = lg_state_generation (ps_logical (stored w')) \<and>
       ps_logical (stored w') = ps_logical (stored w))
     (\<lambda>_ w'. ps_logical (stored w') = ps_logical (stored w)) w"
  unfolding operational_status_def
proof (rule safe_state_wp, goal_cases)
  case (1 now_ms s v)
  then show ?case
    by (auto simp: wp_simps Let_def reconciled_logical elim: settles_cases)
qed (simp add: reconciled_logical)

end

section \<open>The external anchor is a chain\<close>

definition anchor_step ::
    "hash_fun \<Rightarrow> witness_state_anchor option \<Rightarrow> witness_state_anchor option \<Rightarrow> bool" where
  "anchor_step H before after \<longleftrightarrow> (\<exists>anchor. after = Some anchor \<and> anchor_extends H before anchor)"

abbreviation anchor_path ::
    "hash_fun \<Rightarrow> witness_state_anchor option \<Rightarrow> witness_state_anchor option \<Rightarrow> bool" where
  "anchor_path H \<equiv> (anchor_step H)\<^sup>*\<^sup>*"

sublocale witness_services \<subseteq>
  chain: world_order "\<lambda>w w'. anchor_path (en_hash e) (anchored w) (anchored w')"
  by unfold_locales auto

context witness_services
begin

abbreviation keeps_chain :: "('w, 'e, 'a) call \<Rightarrow> bool" where
  "keeps_chain \<equiv> call_keeps (\<lambda>w w'. anchor_path (en_hash e) (anchored w) (anchored w'))"

lemma reconciled_path: "reconciled H s a s' a' \<Longrightarrow> anchor_path H a a'"
  by (auto simp: reconciled_def anchor_step_def)

lemma ready_state_keeps: "keeps_chain (ready_state e)"
  by (rule call_keepsI, rule call_wp_mono [OF ready_state_wp]) (auto intro: reconciled_path)

lemma service_keeps:
  "keeps_chain (en_commit e g s)" "keeps_chain (en_ensure_publishable e c)"
  "keeps_chain (wall_time e)" "keeps_chain (en_fill e)"
  "keeps_chain (en_seal_witness_contribution e suite capsule target)"
  by (rule call_keepsI, rule call_wp_mono [OF commit] call_wp_mono [OF ensure_publishable]
      call_wp_mono [OF wall_time_wp [where E = "\<lambda>_ _. False"]] call_wp_mono [OF fill]
      call_wp_mono [OF seal]; simp)+

lemmas chain_intros = keeps_intros chain.keeps_result chain.keeps_then chain.keeps_map_err
  chain.keeps_fold ready_state_keeps service_keeps

lemma refuse_keeps: "keeps_chain (call_refuse reason)"
  by (simp add: call_refuse_def chain.keeps_result)

lemma commit_and_publish_keeps: "keeps_chain (commit_and_publish e s now_ms)"
  unfolding commit_and_publish_def Let_def by (intro chain_intros)

lemma denial_response_keeps:
  "keeps_chain (denial_response e request digest reason generation now_ms)"
  unfolding denial_response_def random_response_id_def by (intro chain_intros)

lemma approval_response_keeps:
  "keeps_chain (approval_response e request manifest validated generation now_ms)"
  unfolding approval_response_def random_response_id_def Let_def by (intro chain_intros)

lemmas operation_intros = chain_intros refuse_keeps commit_and_publish_keeps denial_response_keeps
  approval_response_keeps

lemma store_denial_keeps:
  "keeps_chain (store_denial e request known key reason now_ms state)"
  unfolding store_denial_def by (intro operation_intros)

lemma operations_keep:
  "keeps_chain (check_ready e)" "keeps_chain (operational_status e)"
  "keeps_chain (compact_replay e)"
  "keeps_chain (register_vault e policy registration checkpoint material)"
  "keeps_chain (advance_checkpoint e policy checkpoint material)"
  "keeps_chain (cancel e policy request cancellation)"
  "keeps_chain (reserve e policy request manifest)"
  "keeps_chain (decide e policy request manifest approvals)"
  unfolding check_ready_def operational_status_def compact_replay_def register_vault_def
    advance_checkpoint_def cancel_def cancel_entry_def reserve_def decide_def decide_open_def
    conclude_def deny_stale_def safe_state_def Let_def
  by (intro operation_intros store_denial_keeps)+

end

end
