(* ===== verification/Jury_Store.thy ===== *)
theory Jury_Store
  imports Jury_Engine_Steps
begin

text \<open>
  The stores of a deployed witness: the SQLite state store of
  \<open>jury-witness/src/persistence\<close> with its snapshot codec, and the external anchor of
  \<open>jury-witness/src/anchor.rs\<close>, from the client's HTTP calls through the anchor service of
  \<open>server.rs\<close> down to its compare-and-swap transaction. A world holds the row of each database
  and counts the calls made; a schedule gives, for each call, whether it fails before or after
  taking effect. JSON text is carried as the value it denotes; its length is a parameter. The
  theory ends with the proof that these stores keep the contract the engine relies on.
\<close>

section \<open>Errors\<close>

datatype adapter_error_kind =
    Adapter_InvalidConfiguration | Adapter_InvalidCredential | Adapter_InvalidIdentity
  | Adapter_InvalidPolicyMaterial | Adapter_InvalidState | Adapter_DatabaseUnavailable
  | Adapter_AnchorUnavailable | Adapter_AuthenticationFailed | Adapter_Conflict
  | Adapter_CapacityExhausted | Adapter_TargetExists | Adapter_Io

datatype state_codec_error = Codec_Invalid | Codec_CapacityExhausted

fun map_codec_adapter_error :: "state_codec_error \<Rightarrow> adapter_error_kind" where
  "map_codec_adapter_error Codec_Invalid = Adapter_InvalidState"
| "map_codec_adapter_error Codec_CapacityExhausted = Adapter_CapacityExhausted"

fun map_codec_store_error :: "state_codec_error \<Rightarrow> witness_store_error" where
  "map_codec_store_error Codec_Invalid = Store_Unavailable"
| "map_codec_store_error Codec_CapacityExhausted = Store_CapacityExhausted"

definition map_adapter_store_error :: "adapter_error_kind \<Rightarrow> witness_store_error" where
  "map_adapter_store_error error =
     (case error of Adapter_CapacityExhausted \<Rightarrow> Store_CapacityExhausted | _ \<Rightarrow> Store_Unavailable)"

section \<open>The snapshot codec\<close>

definition max_persisted_witness_state_bytes :: nat where
  "max_persisted_witness_state_bytes = 64 * 1024 * 1024"

record stored_logical_state =
  sl_witness_id :: ident
  sl_state_generation :: u64
  sl_vaults :: "(ident, registered_witness_vault) btree_map"
  sl_replay :: "witness_replay_entry list"
  sl_last_accepted_wall_time_ms :: u64

record stored_state =
  ss_logical :: stored_logical_state
  ss_published_anchor :: "witness_state_anchor option"
  ss_pending_anchor :: "witness_state_anchor option"

definition replay_records_serialize ::
    "(ident \<times> ident, witness_replay_entry) btree_map
      \<Rightarrow> state_codec_error + witness_replay_entry list" where
  "replay_records_serialize records =
     (if bt_len records > max_replay_records_per_service then Inl Codec_Invalid
      else fold_results (\<lambda>elements (key, record).
        if key \<noteq> (rq_vault_id (re_request record), rq_request_id (re_request record))
        then Inl Codec_Invalid
        else Inr (elements @ [record])) [] (bt_entries records))"

definition replay_records_deserialize ::
    "witness_replay_entry list
      \<Rightarrow> state_codec_error + (ident \<times> ident, witness_replay_entry) btree_map" where
  "replay_records_deserialize elements =
     fold_results (\<lambda>records record.
       if bt_len records \<ge> max_replay_records_per_service then Inl Codec_Invalid
       else
         let key = (rq_vault_id (re_request record), rq_request_id (re_request record)) in
         if bt_contains_key records key then Inl Codec_Invalid
         else Inr (bt_insert key record records)) bt_empty elements"

definition encode_persisted_state ::
    "(stored_state \<Rightarrow> nat) \<Rightarrow> persisted_witness_state \<Rightarrow> state_codec_error + stored_state" where
  "encode_persisted_state json_length state =
     and_then (replay_records_serialize (lg_replay (ps_logical state))) (\<lambda>replay.
     let snapshot =
       \<lparr>ss_logical =
          \<lparr>sl_witness_id = lg_witness_id (ps_logical state),
           sl_state_generation = lg_state_generation (ps_logical state),
           sl_vaults = lg_vaults (ps_logical state), sl_replay = replay,
           sl_last_accepted_wall_time_ms = lg_last_accepted_wall_time_ms (ps_logical state)\<rparr>,
        ss_published_anchor = ps_published_anchor state,
        ss_pending_anchor = ps_pending_anchor state\<rparr> in
     if json_length snapshot > max_persisted_witness_state_bytes then Inl Codec_CapacityExhausted
     else Inr snapshot)"

definition decode_persisted_state ::
    "(stored_state \<Rightarrow> nat) \<Rightarrow> stored_state \<Rightarrow> state_codec_error + persisted_witness_state" where
  "decode_persisted_state json_length snapshot =
     (if json_length snapshot > max_persisted_witness_state_bytes
      then Inl Codec_CapacityExhausted
      else
      and_then (replay_records_deserialize (sl_replay (ss_logical snapshot))) (\<lambda>replay.
      Inr \<lparr>ps_logical =
             \<lparr>lg_witness_id = sl_witness_id (ss_logical snapshot),
              lg_state_generation = sl_state_generation (ss_logical snapshot),
              lg_vaults = sl_vaults (ss_logical snapshot), lg_replay = replay,
              lg_last_accepted_wall_time_ms =
                sl_last_accepted_wall_time_ms (ss_logical snapshot)\<rparr>,
           ps_published_anchor = ss_published_anchor snapshot,
           ps_pending_anchor = ss_pending_anchor snapshot\<rparr>))"

section \<open>Worlds, schedules and faults\<close>

datatype fault = No_Fault | Fault_Before | Fault_After

record state_row =
  row_generation :: int
  row_state_json :: stored_state

record anchor_row =
  ar_generation :: int
  ar_digest :: digest32
  ar_anchor :: witness_state_anchor

datatype anchor_cas_outcome = Outcome_Applied | Outcome_Conflict

record anchor_cas_request =
  acr_expected_anchor_digest :: "digest32 option"
  acr_next_exact_anchor :: witness_state_anchor

record anchor_cas_response =
  acs_outcome :: anchor_cas_outcome
  acs_exact_anchor :: "witness_state_anchor option"

record service_world =
  sw_calls :: nat
  sw_state :: state_row
  sw_anchor :: "anchor_row option"

text \<open>
  The configuration of a deployment: the identity the daemon loaded, the identity the anchor
  service is configured for, the lengths of JSON texts, and the schedule of the environment by
  call number (faults, system time, random bytes, sealed contributions).
\<close>

record service_config =
  sc_hash :: hash_fun
  sc_verify :: verify_fun
  sc_principal_id :: ident
  sc_public_descriptor :: "provider_failure + principal_descriptor"
  sc_sign :: "bytes \<Rightarrow> provider_failure + signature64"
  sc_anchor_witness_id :: ident
  sc_state_json_length :: "stored_state \<Rightarrow> nat"
  sc_anchor_json_length :: "witness_state_anchor \<Rightarrow> nat"
  sc_cas_request_json_length :: "anchor_cas_request \<Rightarrow> nat"
  sc_cas_response_json_length :: "anchor_cas_response \<Rightarrow> nat"
  sc_fault :: "nat \<Rightarrow> fault"
  sc_system_time_ms :: "nat \<Rightarrow> int"
  sc_random :: "nat \<Rightarrow> provider_failure + 32 fixed_bytes"
  sc_seal :: "nat \<Rightarrow> vault_suite \<Rightarrow> witness_share_capsule \<Rightarrow> witness_contribution_target
    \<Rightarrow> provider_failure + witness_contribution_envelope"

definition service_call ::
    "service_config \<Rightarrow> 'e \<Rightarrow> (service_world, 'e, 'a) call \<Rightarrow> (service_world, 'e, 'a) call" where
  "service_call cfg unavailable body w =
     (let started = w\<lparr>sw_calls := sw_calls w + 1\<rparr> in
      case sc_fault cfg (sw_calls w) of
        No_Fault \<Rightarrow> body started
      | Fault_Before \<Rightarrow> (Inl unavailable, started)
      | Fault_After \<Rightarrow> (Inl unavailable, snd (body started)))"

section \<open>The state store\<close>

definition validate_state_length :: "int \<Rightarrow> adapter_error_kind + unit" where
  "validate_state_length serialized_length =
     (if serialized_length < 0 then Inl Adapter_InvalidState
      else if nat serialized_length > max_persisted_witness_state_bytes
      then Inl Adapter_CapacityExhausted
      else Inr ())"

definition i64_try_from :: "u64 \<Rightarrow> int option" where
  "i64_try_from value = (if uint value < 2 ^ 63 then Some (uint value) else None)"

definition u64_try_from :: "int \<Rightarrow> u64 option" where
  "u64_try_from value = (if 0 \<le> value \<and> value < 2 ^ 64 then Some (word_of_int value) else None)"

definition load_witness_state ::
    "service_config \<Rightarrow> state_row \<Rightarrow> adapter_error_kind + persisted_witness_state" where
  "load_witness_state cfg row =
     and_then (validate_state_length (int (sc_state_json_length cfg (row_state_json row)))) (\<lambda>_.
     and_then (map_err map_codec_adapter_error
       (decode_persisted_state (sc_state_json_length cfg) (row_state_json row))) (\<lambda>state.
     and_then (ok_or Adapter_InvalidState (u64_try_from (row_generation row))) (\<lambda>generation.
     if lg_witness_id (ps_logical state) \<noteq> sc_principal_id cfg \<or>
        lg_state_generation (ps_logical state) \<noteq> generation
     then Inl Adapter_InvalidState
     else
     and_then (map_err (\<lambda>_. Adapter_InvalidState)
       (canonical_database_state (sc_hash cfg) (ps_logical state))) (\<lambda>_.
     Inr state))))"

definition store_initialize ::
    "service_config \<Rightarrow> adapter_error_kind + state_row" where
  "store_initialize cfg =
     and_then (map_err map_codec_adapter_error (encode_persisted_state (sc_state_json_length cfg)
       (ps_empty (sc_principal_id cfg)))) (\<lambda>initial_json.
     Inr \<lparr>row_generation = 0, row_state_json = initial_json\<rparr>)"

definition sqlite_load ::
    "service_config \<Rightarrow> (service_world, witness_store_error, persisted_witness_state) call" where
  "sqlite_load cfg =
     service_call cfg Store_Unavailable (\<lambda>w.
       (map_err map_adapter_store_error (load_witness_state cfg (sw_state w)), w))"

definition commit_row ::
    "service_config \<Rightarrow> u64 \<Rightarrow> persisted_witness_state \<Rightarrow> state_row
      \<Rightarrow> witness_store_error + state_row" where
  "commit_row cfg expected_generation replacement row =
     (if lg_witness_id (ps_logical replacement) \<noteq> sc_principal_id cfg \<or>
         lg_state_generation (ps_logical replacement) \<noteq> saturating_add expected_generation 1 \<or>
         ps_pending_anchor replacement = None
      then Inl Store_Unavailable
      else
      and_then (map_err map_adapter_store_error (load_witness_state cfg row)) (\<lambda>current.
      if lg_state_generation (ps_logical current) \<noteq> expected_generation \<or>
         ps_pending_anchor current \<noteq> None
      then Inl Store_Unavailable
      else
      and_then (map_err map_codec_store_error
        (encode_persisted_state (sc_state_json_length cfg) replacement)) (\<lambda>state_json.
      and_then (ok_or Store_Unavailable
        (i64_try_from (lg_state_generation (ps_logical replacement)))) (\<lambda>replacement_generation.
      and_then (ok_or Store_Unavailable (i64_try_from expected_generation)) (\<lambda>expected_generation.
      if row_generation row \<noteq> expected_generation then Inl Store_Unavailable
      else Inr \<lparr>row_generation = replacement_generation, row_state_json = state_json\<rparr>)))))"

definition mark_row ::
    "service_config \<Rightarrow> digest32 \<Rightarrow> state_row \<Rightarrow> witness_store_error + state_row" where
  "mark_row cfg candidate_digest row =
     and_then (map_err map_adapter_store_error (load_witness_state cfg row)) (\<lambda>current.
     and_then (ok_or Store_Unavailable (ps_pending_anchor current)) (\<lambda>candidate.
     and_then (map_err (\<lambda>_. Store_Unavailable) (an_digest (sc_hash cfg) candidate)) (\<lambda>digest.
     if digest \<noteq> candidate_digest then Inl Store_Unavailable
     else
     and_then (map_err map_codec_store_error (encode_persisted_state (sc_state_json_length cfg)
       (current\<lparr>ps_pending_anchor := None, ps_published_anchor := Some candidate\<rparr>)))
       (\<lambda>state_json.
     and_then (ok_or Store_Unavailable (i64_try_from (lg_state_generation (ps_logical current))))
       (\<lambda>generation.
     if row_generation row \<noteq> generation then Inl Store_Unavailable
     else Inr (row\<lparr>row_state_json := state_json\<rparr>))))))"

definition store_transaction ::
    "(state_row \<Rightarrow> witness_store_error + state_row)
      \<Rightarrow> (service_world, witness_store_error, unit) call" where
  "store_transaction update w =
     (case update (sw_state w) of
        Inl error \<Rightarrow> (Inl error, w)
      | Inr row \<Rightarrow> (Inr (), w\<lparr>sw_state := row\<rparr>))"

definition sqlite_commit ::
    "service_config \<Rightarrow> u64 \<Rightarrow> persisted_witness_state
      \<Rightarrow> (service_world, witness_store_error, unit) call" where
  "sqlite_commit cfg expected_generation replacement =
     service_call cfg Store_Unavailable
       (store_transaction (commit_row cfg expected_generation replacement))"

definition sqlite_mark_anchor_published ::
    "service_config \<Rightarrow> digest32 \<Rightarrow> (service_world, witness_store_error, unit) call" where
  "sqlite_mark_anchor_published cfg candidate_digest =
     service_call cfg Store_Unavailable (store_transaction (mark_row cfg candidate_digest))"

section \<open>The anchor repository\<close>

definition max_anchor_http_bytes :: nat where
  "max_anchor_http_bytes = 1024 * 1024"

datatype anchor_cas_result =
    Cas_Result_Applied witness_state_anchor
  | Cas_Result_Conflict "witness_state_anchor option"

definition validate_candidate ::
    "ident \<Rightarrow> witness_state_anchor \<Rightarrow> adapter_error_kind + unit" where
  "validate_candidate witness_id candidate =
     and_then (map_err (\<lambda>_. Adapter_InvalidState) (an_validate_shape candidate)) (\<lambda>_.
     ensure (an_witness_id candidate = witness_id) Adapter_InvalidState)"

definition load_anchor ::
    "hash_fun \<Rightarrow> ident \<Rightarrow> anchor_row option
      \<Rightarrow> adapter_error_kind + witness_state_anchor option" where
  "load_anchor H witness_id row =
     (case row of
        None \<Rightarrow> Inr None
      | Some found \<Rightarrow>
          and_then (validate_candidate witness_id (ar_anchor found)) (\<lambda>_.
          and_then (ok_or Adapter_InvalidState (u64_try_from (ar_generation found))) (\<lambda>generation.
          if an_state_generation (ar_anchor found) \<noteq> generation then Inl Adapter_InvalidState
          else
          and_then (map_err (\<lambda>_. Adapter_InvalidState) (an_digest H (ar_anchor found))) (\<lambda>digest.
          if digest \<noteq> ar_digest found then Inl Adapter_InvalidState
          else Inr (Some (ar_anchor found))))))"

definition prepare_swap ::
    "hash_fun \<Rightarrow> digest32 option \<Rightarrow> witness_state_anchor \<Rightarrow> witness_state_anchor option
      \<Rightarrow> adapter_error_kind + anchor_row option" where
  "prepare_swap H expected_digest candidate current =
     and_then (map_err (\<lambda>_. Adapter_InvalidState)
       (transpose_result (map_option (an_digest H) current))) (\<lambda>current_digest.
     let predecessor = (case expected_digest of None \<Rightarrow> zero_digest | Some d \<Rightarrow> d);
         generation = (case current of
           None \<Rightarrow> 1 | Some anchor \<Rightarrow> saturating_add (an_state_generation anchor) 1) in
     if current_digest \<noteq> expected_digest \<or>
        an_predecessor_anchor_digest candidate \<noteq> predecessor \<or>
        an_state_generation candidate \<noteq> generation
     then Inr None
     else
     and_then (map_err (\<lambda>_. Adapter_InvalidState) (an_digest H candidate)) (\<lambda>digest.
     and_then (ok_or Adapter_CapacityExhausted (i64_try_from (an_state_generation candidate)))
       (\<lambda>generation.
     Inr (Some \<lparr>ar_generation = generation, ar_digest = digest, ar_anchor = candidate\<rparr>))))"

definition repository_compare_and_swap ::
    "hash_fun \<Rightarrow> ident \<Rightarrow> digest32 option \<Rightarrow> witness_state_anchor
      \<Rightarrow> (anchor_row option, adapter_error_kind, anchor_cas_result) call" where
  "repository_compare_and_swap H witness_id expected_digest candidate row =
     (case and_then (validate_candidate witness_id candidate) (\<lambda>_. load_anchor H witness_id row) of
        Inl error \<Rightarrow> (Inl error, row)
      | Inr current \<Rightarrow>
          if current = Some candidate then (Inr (Cas_Result_Applied candidate), row)
          else (case prepare_swap H expected_digest candidate current of
              Inl error \<Rightarrow> (Inl error, row)
            | Inr None \<Rightarrow> (Inr (Cas_Result_Conflict current), row)
            | Inr (Some written) \<Rightarrow>
                (and_then (load_anchor H witness_id (Some written)) (\<lambda>readback.
                 and_then (ok_or Adapter_AnchorUnavailable readback) (\<lambda>readback.
                 if readback \<noteq> candidate then Inl Adapter_Conflict
                 else Inr (Cas_Result_Applied readback))), Some written)))"

section \<open>The anchor service and its client\<close>

datatype 'a http_reply = Http_Ok 'a | Http_NotFound | Http_BadRequest | Http_Unavailable

definition handle_read_anchor ::
    "service_config \<Rightarrow> ident \<Rightarrow> anchor_row option \<Rightarrow> witness_state_anchor http_reply" where
  "handle_read_anchor cfg witness_id row =
     (if witness_id \<noteq> sc_anchor_witness_id cfg then Http_NotFound
      else (case load_anchor (sc_hash cfg) (sc_anchor_witness_id cfg) row of
          Inr (Some anchor) \<Rightarrow> Http_Ok anchor
        | Inr None \<Rightarrow> Http_NotFound
        | Inl _ \<Rightarrow> Http_Unavailable))"

definition handle_compare_and_swap_anchor ::
    "service_config \<Rightarrow> ident \<Rightarrow> anchor_cas_request \<Rightarrow> anchor_row option
      \<Rightarrow> anchor_cas_response http_reply \<times> anchor_row option" where
  "handle_compare_and_swap_anchor cfg witness_id payload row =
     (if witness_id \<noteq> sc_anchor_witness_id cfg then (Http_BadRequest, row)
      else (case repository_compare_and_swap (sc_hash cfg) (sc_anchor_witness_id cfg)
          (acr_expected_anchor_digest payload) (acr_next_exact_anchor payload) row of
          (Inr (Cas_Result_Applied anchor), row') \<Rightarrow>
            (Http_Ok \<lparr>acs_outcome = Outcome_Applied, acs_exact_anchor = Some anchor\<rparr>, row')
        | (Inr (Cas_Result_Conflict anchor), row') \<Rightarrow>
            (Http_Ok \<lparr>acs_outcome = Outcome_Conflict, acs_exact_anchor = anchor\<rparr>, row')
        | (Inl error, row') \<Rightarrow>
            (if error = Adapter_InvalidState then Http_BadRequest else Http_Unavailable, row')))"

definition ensure_bounded_json :: "nat \<Rightarrow> witness_anchor_error + unit" where
  "ensure_bounded_json json_length =
     ensure (json_length \<le> max_anchor_http_bytes) Anchor_CapacityExhausted"

definition http_ensure_publishable ::
    "service_config \<Rightarrow> witness_state_anchor \<Rightarrow> witness_anchor_error + unit" where
  "http_ensure_publishable cfg candidate =
     and_then (map_err (\<lambda>_. Anchor_Unavailable)
       (validate_candidate (sc_principal_id cfg) candidate)) (\<lambda>_.
     and_then (ensure_bounded_json (sc_cas_request_json_length cfg
       \<lparr>acr_expected_anchor_digest = Some zero_digest, acr_next_exact_anchor = candidate\<rparr>)) (\<lambda>_.
     ensure_bounded_json (sc_cas_response_json_length cfg
       \<lparr>acs_outcome = Outcome_Applied, acs_exact_anchor = Some candidate\<rparr>)))"

definition http_read ::
    "service_config \<Rightarrow> (service_world, witness_anchor_error, witness_state_anchor option) call" where
  "http_read cfg =
     service_call cfg Anchor_Unavailable (\<lambda>w.
       (case handle_read_anchor cfg (sc_principal_id cfg) (sw_anchor w) of
          Http_NotFound \<Rightarrow> Inr None
        | Http_Ok anchor \<Rightarrow>
            if sc_anchor_json_length cfg anchor > max_anchor_http_bytes
            then Inl Anchor_Unavailable
            else
            and_then (map_err (\<lambda>_. Anchor_Unavailable)
              (validate_candidate (sc_principal_id cfg) anchor)) (\<lambda>_.
            Inr (Some anchor))
        | _ \<Rightarrow> Inl Anchor_Unavailable, w))"

definition read_cas_reply ::
    "service_config \<Rightarrow> witness_state_anchor \<Rightarrow> anchor_cas_response http_reply
      \<Rightarrow> witness_anchor_error + anchor_compare_and_swap" where
  "read_cas_reply cfg candidate reply =
     (case reply of
        Http_Ok response \<Rightarrow>
          if sc_cas_response_json_length cfg response > max_anchor_http_bytes
          then Inl Anchor_Unavailable
          else (case acs_outcome response of
              Outcome_Conflict \<Rightarrow> Inr Cas_Conflict
            | Outcome_Applied \<Rightarrow>
                if acs_exact_anchor response = Some candidate then Inr Cas_Published
                else Inl Anchor_Unavailable)
      | _ \<Rightarrow> Inl Anchor_Unavailable)"

definition post_cas ::
    "service_config \<Rightarrow> anchor_cas_request
      \<Rightarrow> (service_world, witness_anchor_error, anchor_compare_and_swap) call" where
  "post_cas cfg request w =
     (case handle_compare_and_swap_anchor cfg (sc_principal_id cfg) request (sw_anchor w) of
        (reply, row) \<Rightarrow>
          (read_cas_reply cfg (acr_next_exact_anchor request) reply, w\<lparr>sw_anchor := row\<rparr>))"

definition http_compare_and_swap ::
    "service_config \<Rightarrow> witness_state_anchor option \<Rightarrow> witness_state_anchor
      \<Rightarrow> (service_world, witness_anchor_error, anchor_compare_and_swap) call" where
  "http_compare_and_swap cfg expected candidate =
     call_then (call_result (map_err (\<lambda>_. Anchor_Unavailable)
       (validate_candidate (sc_principal_id cfg) candidate))) (\<lambda>_.
     call_then (call_result (map_err (\<lambda>_. Anchor_Unavailable)
       (transpose_result (map_option (an_digest (sc_hash cfg)) expected)))) (\<lambda>expected_digest.
     let request = \<lparr>acr_expected_anchor_digest = expected_digest,
           acr_next_exact_anchor = candidate\<rparr> in
     call_then (call_result (ensure_bounded_json (sc_cas_request_json_length cfg request))) (\<lambda>_.
     service_call cfg Anchor_Unavailable (post_cas cfg request))))"

section \<open>The clock and the engine of a deployment\<close>

definition system_wall_time_ms :: "service_config \<Rightarrow> service_world \<Rightarrow> u64 \<times> service_world" where
  "system_wall_time_ms cfg w =
     (case u64_try_from (sc_system_time_ms cfg (sw_calls w)) of None \<Rightarrow> 0 | Some now_ms \<Rightarrow> now_ms,
      w\<lparr>sw_calls := sw_calls w + 1\<rparr>)"

definition scheduled ::
    "(nat \<Rightarrow> provider_failure + 'a) \<Rightarrow> (service_world, provider_failure, 'a) call" where
  "scheduled answer w = (answer (sw_calls w), w\<lparr>sw_calls := sw_calls w + 1\<rparr>)"

definition service_engine :: "service_config \<Rightarrow> service_world witness_engine" where
  "service_engine cfg =
     \<lparr>en_hash = sc_hash cfg, en_verify = sc_verify cfg, en_principal_id = sc_principal_id cfg,
      en_public_descriptor = sc_public_descriptor cfg,
      en_sign_witness_statement = sc_sign cfg,
      en_seal_witness_contribution =
        (\<lambda>suite capsule target. scheduled (\<lambda>n. sc_seal cfg n suite capsule target)),
      en_load = sqlite_load cfg, en_commit = sqlite_commit cfg,
      en_mark_anchor_published = sqlite_mark_anchor_published cfg,
      en_ensure_publishable = (\<lambda>candidate. call_result (http_ensure_publishable cfg candidate)),
      en_read = http_read cfg, en_compare_and_swap = http_compare_and_swap cfg,
      en_wall_time_ms = system_wall_time_ms cfg, en_fill = scheduled (sc_random cfg)\<rparr>"

section \<open>Round trip of a snapshot\<close>

definition keyed_record :: "witness_replay_entry \<Rightarrow> (ident \<times> ident) \<times> witness_replay_entry" where
  "keyed_record record = (request_key (re_request record), record)"

definition replay_of :: "witness_replay_entry list \<Rightarrow> (ident \<times> ident, witness_replay_entry) btree_map"
  where
  "replay_of elements = fold (\<lambda>(k, v). bt_insert k v) (map keyed_record elements) bt_empty"

definition snapshot_state :: "stored_state \<Rightarrow> persisted_witness_state" where
  "snapshot_state snapshot =
     \<lparr>ps_logical =
        \<lparr>lg_witness_id = sl_witness_id (ss_logical snapshot),
         lg_state_generation = sl_state_generation (ss_logical snapshot),
         lg_vaults = sl_vaults (ss_logical snapshot),
         lg_replay = replay_of (sl_replay (ss_logical snapshot)),
         lg_last_accepted_wall_time_ms = sl_last_accepted_wall_time_ms (ss_logical snapshot)\<rparr>,
      ps_published_anchor = ss_published_anchor snapshot,
      ps_pending_anchor = ss_pending_anchor snapshot\<rparr>"

lemma fold_insert_entries: "fold (\<lambda>(k, v). bt_insert k v) (bt_entries m) bt_empty = m"
proof (rule btree.lookup_ext, rule ext)
  fix k
  have "map_of (rev (bt_entries m)) = map_of (bt_entries m)"
    by (subst map_of_inject_set) (simp_all add: strict_keys_distinct rev_map [symmetric])
  then show "bt_get (fold (\<lambda>(k, v). bt_insert k v) (bt_entries m) bt_empty) k = bt_get m k"
    by (simp add: btree.lookup_fold_put split: option.split) (simp add: bt_get_def)
qed

lemma serialize_Inr:
  assumes "replay_records_serialize records = Inr elements"
  shows "map keyed_record elements = bt_entries records"
    and "length elements \<le> max_replay_records_per_service"
proof -
  have "fold_results (\<lambda>elements (key, record).
      if key \<noteq> (rq_vault_id (re_request record), rq_request_id (re_request record))
      then Inl Codec_Invalid
      else Inr (elements @ [record])) [] (bt_entries records) = Inr elements"
    using assms by (auto simp: replay_records_serialize_def split: if_splits)
  then show entries: "map keyed_record elements = bt_entries records"
    by (rule fold_results_prefix [where P = "\<lambda>entries elements. map keyed_record elements = entries"])
      (auto simp: keyed_record_def request_key_def split: if_splits prod.splits)
  show "length elements \<le> max_replay_records_per_service"
    using assms arg_cong [OF entries, where f = length]
    by (auto simp: replay_records_serialize_def bt_len_def split: if_splits)
qed

lemma deserialize_Inr:
  assumes "replay_records_deserialize elements = Inr records"
  shows "records = replay_of elements"
  using assms unfolding replay_records_deserialize_def
  by (rule fold_results_prefix [where P = "\<lambda>elements records. records = replay_of elements"])
    (auto simp: replay_of_def keyed_record_def request_key_def Let_def split: if_splits)

lemma bt_len_card: "bt_len m = card {k. bt_contains_key m k}"
  using distinct_card [OF distinct_bt_keys, of m]
  by (simp add: set_bt_keys) (simp add: bt_keys_def bt_len_def)

lemma bt_len_insert_new:
  assumes "\<not> bt_contains_key m k"
  shows "bt_len (bt_insert k v m) = bt_len m + 1"
proof -
  have "{j. bt_contains_key (bt_insert k v m) j} = insert k {j. bt_contains_key m j}"
    by auto
  moreover have "finite {j. bt_contains_key m j}"
    by (metis List.finite_set set_bt_keys)
  ultimately show ?thesis
    using assms by (simp add: bt_len_card)
qed

lemma deserialize_distinct:
  assumes "distinct (map (request_key \<circ> re_request) elements)"
    and "length elements \<le> max_replay_records_per_service"
  shows "replay_records_deserialize elements = Inr (replay_of elements)"
proof -
  have "fold_results (\<lambda>records record.
       if bt_len records \<ge> max_replay_records_per_service then Inl Codec_Invalid
       else
         let key = (rq_vault_id (re_request record), rq_request_id (re_request record)) in
         if bt_contains_key records key then Inl Codec_Invalid
         else Inr (bt_insert key record records)) m elements =
      Inr (fold (\<lambda>(k, v). bt_insert k v) (map keyed_record elements) m)"
    if "bt_len m + length elements \<le> max_replay_records_per_service"
      and "\<forall>x \<in> set elements. \<not> bt_contains_key m (request_key (re_request x))" for m
    using assms(1) that
  proof (induction elements arbitrary: m)
    case (Cons head elements)
    let ?m = "bt_insert (request_key (re_request head)) head m"
    have "bt_len ?m + length elements \<le> max_replay_records_per_service"
      using Cons.prems by (simp add: bt_len_insert_new)
    moreover have "\<forall>x \<in> set elements. \<not> bt_contains_key ?m (request_key (re_request x))"
      using Cons.prems by (fastforce simp: image_iff)
    ultimately show ?case
      using Cons.IH [of ?m] Cons.prems by (simp add: keyed_record_def request_key_def Let_def)
  qed simp
  then show ?thesis
    using assms(2) by (simp add: replay_records_deserialize_def replay_of_def bt_len_def)
qed

lemma encode_snapshot:
  assumes "encode_persisted_state json_length state = Inr snapshot"
  shows "snapshot_state snapshot = state"
    and "decode_persisted_state json_length snapshot = Inr state"
proof -
  obtain replay where replay: "replay_records_serialize (lg_replay (ps_logical state)) = Inr replay"
    and snapshot: "snapshot =
       \<lparr>ss_logical =
          \<lparr>sl_witness_id = lg_witness_id (ps_logical state),
           sl_state_generation = lg_state_generation (ps_logical state),
           sl_vaults = lg_vaults (ps_logical state), sl_replay = replay,
           sl_last_accepted_wall_time_ms = lg_last_accepted_wall_time_ms (ps_logical state)\<rparr>,
        ss_published_anchor = ps_published_anchor state,
        ss_pending_anchor = ps_pending_anchor state\<rparr>"
    and small: "json_length snapshot \<le> max_persisted_witness_state_bytes"
    using assms by (auto simp: encode_persisted_state_def and_then_Inr Let_def split: if_splits)
  note entries = serialize_Inr [OF replay]
  have replay_of: "replay_of replay = lg_replay (ps_logical state)"
    by (simp add: replay_of_def entries(1) fold_insert_entries)
  then show state: "snapshot_state snapshot = state"
    by (simp add: snapshot_state_def snapshot)
  have "distinct (map fst (map keyed_record replay))"
    by (simp only: entries(1)) (simp add: strict_keys_distinct)
  then have "replay_records_deserialize replay = Inr (lg_replay (ps_logical state))"
    using deserialize_distinct [OF _ entries(2)]
    by (simp add: replay_of keyed_record_def comp_def)
  then show "decode_persisted_state json_length snapshot = Inr state"
    using small by (simp add: decode_persisted_state_def snapshot)
qed

lemma decode_snapshot:
  "decode_persisted_state json_length snapshot = Inr state \<Longrightarrow> state = snapshot_state snapshot"
  by (auto simp: decode_persisted_state_def snapshot_state_def and_then_Inr split: if_splits
      dest: deserialize_Inr)

section \<open>The stores keep the engine's contract\<close>

definition stored_of :: "service_world \<Rightarrow> persisted_witness_state" where
  "stored_of w = snapshot_state (row_state_json (sw_state w))"

definition anchored_of :: "service_config \<Rightarrow> service_world \<Rightarrow> witness_state_anchor option" where
  "anchored_of cfg w =
     (if sc_principal_id cfg = sc_anchor_witness_id cfg then map_option ar_anchor (sw_anchor w)
      else None)"

lemma stored_of_simps [simp]:
  "stored_of (w\<lparr>sw_calls := n\<rparr>) = stored_of w"
  "stored_of (w\<lparr>sw_anchor := row\<rparr>) = stored_of w"
  "stored_of (w\<lparr>sw_state := r\<rparr>) = snapshot_state (row_state_json r)"
  by (simp_all add: stored_of_def)

lemma anchored_of_simps [simp]:
  "anchored_of cfg (w\<lparr>sw_calls := n\<rparr>) = anchored_of cfg w"
  "anchored_of cfg (w\<lparr>sw_state := r\<rparr>) = anchored_of cfg w"
  by (simp_all add: anchored_of_def)

lemma service_call_wp:
  assumes "\<And>v. sw_state v = sw_state w \<Longrightarrow> sw_anchor v = sw_anchor w \<Longrightarrow>
      call_wp body Q E v \<and> E unavailable v \<and> E unavailable (snd (body v))"
  shows "call_wp (service_call cfg unavailable body) Q E w"
  using assms [of "w\<lparr>sw_calls := sw_calls w + 1\<rparr>"]
  by (auto simp: call_wp_def service_call_def Let_def split: fault.split)

lemma load_witness_state_Inr:
  assumes "load_witness_state cfg row = Inr state"
  shows "state = snapshot_state (row_state_json row)"
    and "row_generation row = uint (lg_state_generation (ps_logical state))"
    and "lg_witness_id (ps_logical state) = sc_principal_id cfg"
  using assms
  by (auto simp: load_witness_state_def result_simps u64_try_from_def uint_word_of_int
      split: if_splits dest!: decode_snapshot)

lemma commit_row_Inr:
  assumes "commit_row cfg g s row = Inr row'"
  shows "lg_state_generation (ps_logical (snapshot_state (row_state_json row))) = g"
    and "ps_pending_anchor (snapshot_state (row_state_json row)) = None"
    and "snapshot_state (row_state_json row') = s"
  using assms
  by (auto simp: commit_row_def result_simps split: if_splits
      dest!: load_witness_state_Inr(1) encode_snapshot(1))

lemma mark_row_Inr:
  assumes "mark_row cfg d row = Inr row'"
  shows "ps_pending_anchor (snapshot_state (row_state_json row)) \<noteq> None"
    and "snapshot_state (row_state_json row') =
      published_state (snapshot_state (row_state_json row))"
  using assms
  by (auto simp: mark_row_def result_simps published_state_def split: if_splits
      dest!: load_witness_state_Inr(1) encode_snapshot(1))

lemma validate_candidate_shape: "validate_candidate i c = Inr () \<Longrightarrow> an_witness_id c = i"
  by (auto simp: validate_candidate_def result_simps)

lemma load_anchor_Inr: "load_anchor H i row = Inr a \<Longrightarrow> a = map_option ar_anchor row"
  by (auto simp: load_anchor_def result_simps split: option.splits if_splits)

lemma prepare_swap_Some:
  assumes "prepare_swap H expected candidate current = Inr (Some written)"
  shows "ar_anchor written = candidate" and "anchor_extends H current candidate"
proof -
  show "ar_anchor written = candidate"
    using assms by (auto simp: prepare_swap_def result_simps Let_def split: if_splits)
  show "anchor_extends H current candidate"
    using assms by (cases current; simp add: prepare_swap_def anchor_extends_def
      result_simps Let_def split: if_splits option.splits; fastforce?)
qed

lemma repository_cas:
  assumes "repository_compare_and_swap H i expected candidate row = (result, row')"
  shows "(row' = row \<or>
      (\<exists>written. row' = Some written \<and> ar_anchor written = candidate \<and>
        anchor_extends H (map_option ar_anchor row) candidate)) \<and>
    (\<forall>anchor. result = Inr (Cas_Result_Applied anchor) \<longrightarrow>
      anchor = candidate \<and> map_option ar_anchor row' = Some candidate)"
proof (cases "and_then (validate_candidate i candidate) (\<lambda>_. load_anchor H i row)")
  case (Inl error)
  then show ?thesis
    using assms by (auto simp: repository_compare_and_swap_def)
next
  case (Inr current)
  then have current: "current = map_option ar_anchor row"
    by (auto simp: result_simps dest: load_anchor_Inr)
  show ?thesis
    using assms Inr prepare_swap_Some [of H expected candidate current] current [symmetric]
    by (auto simp: repository_compare_and_swap_def and_then_Inr
        split: if_splits sum.splits option.splits)
qed

lemma cas_handler:
  assumes "handle_compare_and_swap_anchor cfg i request row = (reply, row')"
  shows "(row' = row \<or> i = sc_anchor_witness_id cfg \<and>
      (\<exists>written. row' = Some written \<and> ar_anchor written = acr_next_exact_anchor request \<and>
        anchor_extends (sc_hash cfg) (map_option ar_anchor row) (acr_next_exact_anchor request))) \<and>
    (\<forall>response. reply = Http_Ok response \<and> acs_outcome response = Outcome_Applied \<longrightarrow>
      i = sc_anchor_witness_id cfg \<and>
      map_option ar_anchor row' = Some (acr_next_exact_anchor request))"
  using assms
  by (auto simp: handle_compare_and_swap_anchor_def
      split: if_splits prod.splits sum.splits anchor_cas_result.splits dest: repository_cas)

lemma post_cas_effect:
  shows "stored_of (snd (post_cas cfg request v)) = stored_of v"
    and "anchored_of cfg (snd (post_cas cfg request v)) = anchored_of cfg v \<or>
      anchored_of cfg (snd (post_cas cfg request v)) = Some (acr_next_exact_anchor request) \<and>
      anchor_extends (sc_hash cfg) (anchored_of cfg v) (acr_next_exact_anchor request)"
    and "fst (post_cas cfg request v) = Inr Cas_Published \<Longrightarrow>
      anchored_of cfg (snd (post_cas cfg request v)) = Some (acr_next_exact_anchor request)"
proof -
  obtain reply row where
    swap: "handle_compare_and_swap_anchor cfg (sc_principal_id cfg) request (sw_anchor v) = (reply, row)"
    by fastforce
  show "stored_of (snd (post_cas cfg request v)) = stored_of v"
    by (simp add: post_cas_def swap)
  show "anchored_of cfg (snd (post_cas cfg request v)) = anchored_of cfg v \<or>
      anchored_of cfg (snd (post_cas cfg request v)) = Some (acr_next_exact_anchor request) \<and>
      anchor_extends (sc_hash cfg) (anchored_of cfg v) (acr_next_exact_anchor request)"
    using cas_handler [OF swap] by (auto simp: post_cas_def swap anchored_of_def)
  show "anchored_of cfg (snd (post_cas cfg request v)) = Some (acr_next_exact_anchor request)"
    if "fst (post_cas cfg request v) = Inr Cas_Published"
    using cas_handler [OF swap] that
    by (auto simp: post_cas_def swap anchored_of_def read_cas_reply_def
        split: http_reply.splits anchor_cas_outcome.splits if_splits)
qed

lemma same_world:
  assumes "sw_state v = sw_state w" and "sw_anchor v = sw_anchor w"
  shows "stored_of v = stored_of w" and "anchored_of cfg v = anchored_of cfg w"
  using assms by (simp_all add: stored_of_def anchored_of_def)

definition swapped_or_same ::
    "service_config \<Rightarrow> witness_state_anchor \<Rightarrow> service_world \<Rightarrow> service_world \<Rightarrow> bool" where
  "swapped_or_same cfg candidate w w' \<longleftrightarrow> stored_of w' = stored_of w \<and>
     (anchored_of cfg w' = anchored_of cfg w \<or>
       anchored_of cfg w' = Some candidate \<and>
       anchor_extends (sc_hash cfg) (anchored_of cfg w) candidate)"

lemma http_compare_and_swap_wp:
  "call_wp (http_compare_and_swap cfg expected candidate)
     (\<lambda>outcome w'. swapped_or_same cfg candidate w w' \<and>
       (outcome = Cas_Published \<longrightarrow> anchored_of cfg w' = Some candidate))
     (\<lambda>_ w'. swapped_or_same cfg candidate w w') w"
proof -
  have "call_wp (service_call cfg Anchor_Unavailable (post_cas cfg
      \<lparr>acr_expected_anchor_digest = d, acr_next_exact_anchor = candidate\<rparr>))
     (\<lambda>outcome w'. swapped_or_same cfg candidate w w' \<and>
       (outcome = Cas_Published \<longrightarrow> anchored_of cfg w' = Some candidate))
     (\<lambda>_ w'. swapped_or_same cfg candidate w w') w" for d
  proof (rule service_call_wp, goal_cases)
    case (1 v)
    then show ?case
      using same_world [OF 1] post_cas_effect
        [of cfg "\<lparr>acr_expected_anchor_digest = d, acr_next_exact_anchor = candidate\<rparr>" v]
      by (auto simp: call_wp_def swapped_or_same_def split: sum.split prod.split)
  qed
  then show ?thesis
    by (auto simp: http_compare_and_swap_def wp_simps Let_def swapped_or_same_def split: sum.split)
qed

interpretation services: witness_services "service_engine cfg" stored_of "anchored_of cfg" for cfg
proof (unfold_locales, goal_cases)
  case (1 w)
  then show ?case
    by (simp add: service_engine_def sqlite_load_def)
      (rule service_call_wp, auto simp: call_wp_def stored_of_def anchored_of_def result_simps
        split: sum.split dest: load_witness_state_Inr(1))
next
  case (2 g s w)
  then show ?case
    by (simp add: service_engine_def sqlite_commit_def)
      (rule service_call_wp, auto simp: call_wp_def store_transaction_def stored_of_def
        anchored_of_def split: sum.split dest: commit_row_Inr)
next
  case (3 d w)
  then show ?case
    by (simp add: service_engine_def sqlite_mark_anchor_published_def)
      (rule service_call_wp, auto simp: call_wp_def store_transaction_def stored_of_def
        anchored_of_def split: sum.split dest: mark_row_Inr)
next
  case (4 c w)
  then show ?case
    by (simp add: service_engine_def call_wp_result split: sum.split)
next
  case (5 w)
  then show ?case
    by (simp add: service_engine_def http_read_def)
      (rule service_call_wp, auto simp: call_wp_def stored_of_def anchored_of_def result_simps
        handle_read_anchor_def split: sum.split http_reply.splits if_splits sum.splits option.splits
        dest: load_anchor_Inr)
next
  case (6 x c w)
  show ?case
    unfolding service_engine_def
    by (simp, rule call_wp_mono [OF http_compare_and_swap_wp]) (auto simp: swapped_or_same_def)
qed (auto simp: service_engine_def scheduled_def system_wall_time_ms_def call_wp_def
    split: sum.split)

end
