(* ===== verification/Jury_Engine_Runs.thy ===== *)
theory Jury_Engine_Runs
  imports Jury_Engine_Steps
begin

text \<open>
  Runs of the witness state machine. A step is read per replay record (\<open>entry_steps\<close>) and per
  vault (\<open>checkpoint_extends\<close>); from these follow the well-formedness of every reachable state,
  that an answer is never revised, that a compacted request cannot come back, and that the
  checkpoint of a vault only moves along its chain.
\<close>

section \<open>One record across a step\<close>

inductive entry_steps ::
    "'w witness_engine \<Rightarrow> u64 \<Rightarrow> witness_logical_state \<Rightarrow> ident \<times> ident
      \<Rightarrow> witness_replay_entry option \<Rightarrow> witness_replay_entry option \<Rightarrow> bool"
  for e :: "'w witness_engine" and now_ms l key where
  entry_unchanged: "entry_steps e now_ms l key found found"
| entry_reserved:
    "request_key request = key \<Longrightarrow> now_ms < rq_expires_at_ms request \<Longrightarrow>
     checked_add (rq_expires_at_ms request) replay_retention_ms = Some retain \<Longrightarrow>
     entry_steps e now_ms l key None
       (Some \<lparr>re_request = request, re_action_manifest_digest = digest,
         re_state = Replay_Reserved, re_retain_through_ms = retain, re_approvals = [],
         re_cancellation = None, re_response = None\<rparr>)"
| entry_refused:
    "request_key request = key \<Longrightarrow> now_ms < rq_expires_at_ms request \<Longrightarrow>
     checked_add (rq_expires_at_ms request) replay_retention_ms = Some retain \<Longrightarrow>
     cancelled_by e request bytes \<Longrightarrow> is_denial r \<Longrightarrow>
     entry_steps e now_ms l key None
       (Some \<lparr>re_request = request, re_action_manifest_digest = digest,
         re_state = Replay_Cancelled, re_retain_through_ms = retain, re_approvals = [],
         re_cancellation = Some bytes, re_response = Some r\<rparr>)"
| entry_cancelled:
    "re_response known = None \<Longrightarrow> cancelled_by e (re_request known) bytes \<Longrightarrow> is_denial r \<Longrightarrow>
     entry_steps e now_ms l key (Some known) (Some (known\<lparr>re_state := Replay_Cancelled,
       re_cancellation := Some bytes, re_response := Some r\<rparr>))"
| entry_recorded:
    "re_response known = None \<Longrightarrow>
     entry_steps e now_ms l key (Some known) (Some (known\<lparr>re_approvals := accepted\<rparr>))"
| entry_denied:
    "open_entry known \<Longrightarrow> is_denial r \<Longrightarrow>
     entry_steps e now_ms l key (Some known)
       (Some (known\<lparr>re_approvals := accepted, re_state := Replay_Denied, re_response := Some r\<rparr>))"
| entry_approved:
    "re_response known = None \<Longrightarrow>
     quorum_reached e l now_ms (re_request known) (re_action_manifest_digest known) accepted \<Longrightarrow>
     is_approval r \<Longrightarrow>
     entry_steps e now_ms l key (Some known) (Some (known\<lparr>re_approvals := accepted,
       re_state := Replay_Approved, re_response := Some r\<rparr>))"
| entry_compacted:
    "re_retain_through_ms entry < now_ms \<Longrightarrow> entry_steps e now_ms l key (Some entry) None"

inductive_cases entry_steps_fromE: "entry_steps e now_ms l key (Some entry) found"

inductive_cases entry_steps_newE: "entry_steps e now_ms l key None (Some entry)"

lemma entry_stale:
  assumes "stale_denied vault_id replay replay'"
  shows "entry_steps e now_ms l key (bt_get replay key) (bt_get replay' key)"
proof (cases "bt_get replay key")
  case None
  then show ?thesis
    using assms [unfolded stale_denied_def, rule_format, of key] by (simp add: entry_unchanged)
next
  case (Some entry)
  then consider "bt_get replay' key = Some entry"
    | r where "re_state entry = Replay_Reserved" "is_denial r"
        "bt_get replay' key = Some (deny_entry entry r)"
    using assms [unfolded stale_denied_def, rule_format, of key] by (auto split: if_splits)
  then show ?thesis
  proof cases
    case (2 r)
    then show ?thesis
      using Some entry_denied [of entry r e now_ms l key "re_approvals entry"]
      by (simp add: open_entry_def deny_entry_def)
  qed (use Some in \<open>simp add: entry_unchanged\<close>)
qed

lemma validate_request_live:
  "validate_request e policy state request manifest now_ms = Inr validated \<Longrightarrow>
     now_ms < rq_expires_at_ms request"
  by (auto simp: validate_request_def validate_request_time_def Let_def and_then_Inr not_le
      split: if_splits)

lemma prepares_entry:
  assumes "prepares e now_ms l l'"
  shows "entry_steps e now_ms l key (bt_get (lg_replay l) key) (bt_get (lg_replay l') key)"
  using assms
proof cases
  case (prepare_deny key' known r accepted)
  then show ?thesis
    by (auto simp: deny_entry_def intro: entry_steps.intros)
next
  case (prepare_compact)
  then show ?thesis
    by (auto simp: not_le intro: entry_steps.intros split: option.split)
qed (auto intro: entry_steps.intros entry_stale dest: validate_request_live)

section \<open>Well-formed states\<close>

definition entry_ok :: "'w witness_engine \<Rightarrow> ident \<times> ident \<Rightarrow> witness_replay_entry \<Rightarrow> bool" where
  "entry_ok e key entry \<longleftrightarrow>
     request_key (re_request entry) = key \<and>
     checked_add (rq_expires_at_ms (re_request entry)) replay_retention_ms =
       Some (re_retain_through_ms entry) \<and>
     (case re_state entry of
        Replay_Reserved \<Rightarrow> re_response entry = None \<and> re_cancellation entry = None
      | Replay_Approved \<Rightarrow> re_cancellation entry = None \<and>
          (\<exists>r. re_response entry = Some r \<and> is_approval r)
      | Replay_Denied \<Rightarrow> re_cancellation entry = None \<and>
          (\<exists>r. re_response entry = Some r \<and> is_denial r)
      | Replay_Cancelled \<Rightarrow>
          (\<exists>bytes. re_cancellation entry = Some bytes \<and> cancelled_by e (re_request entry) bytes) \<and>
          (\<exists>r. re_response entry = Some r \<and> is_denial r))"

definition state_ok :: "'w witness_engine \<Rightarrow> witness_logical_state \<Rightarrow> bool" where
  "state_ok e l \<longleftrightarrow>
     (\<forall>key entry. bt_get (lg_replay l) key = Some entry \<longrightarrow> entry_ok e key entry)"

lemma state_okD: "state_ok e l \<Longrightarrow> bt_get (lg_replay l) key = Some entry \<Longrightarrow> entry_ok e key entry"
  by (cases key) (simp add: state_ok_def)

lemma entry_ok_open:
  assumes "entry_ok e key entry"
  shows "open_entry entry \<longleftrightarrow> re_state entry = Replay_Reserved"
    and "re_response entry = None \<longleftrightarrow> re_state entry = Replay_Reserved"
  using assms by (auto simp: entry_ok_def open_entry_def split: replay_state.splits)

lemma entry_steps_ok:
  assumes "entry_steps e now_ms l key found (Some entry')"
    and "\<And>entry. found = Some entry \<Longrightarrow> entry_ok e key entry"
  shows "entry_ok e key entry'"
  using assms(1)
proof cases
  case (entry_cancelled known bytes r)
  then show ?thesis
    using assms(2) [of known] by (auto simp: entry_ok_def)
next
  case (entry_recorded known accepted)
  then show ?thesis
    using assms(2) [of known] by (auto simp: entry_ok_def split: replay_state.splits)
next
  case (entry_denied known r accepted)
  then show ?thesis
    using assms(2) [of known] by (auto simp: entry_ok_def open_entry_def split: replay_state.splits)
next
  case (entry_approved known accepted r)
  then show ?thesis
    using assms(2) [of known] by (auto simp: entry_ok_def split: replay_state.splits)
qed (use assms(2) in \<open>auto simp: entry_ok_def\<close>)

abbreviation witness_run ::
    "'w witness_engine \<Rightarrow> witness_logical_state \<Rightarrow> witness_logical_state \<Rightarrow> bool" where
  "witness_run e \<equiv> (witness_step e)\<^sup>*\<^sup>*"

lemma witness_stepE:
  assumes "witness_step e l l'"
  obtains now_ms where "safe_clock l now_ms"
    and "\<And>key. entry_steps e now_ms l key (bt_get (lg_replay l) key) (bt_get (lg_replay l') key)"
    and "unat (lg_state_generation l') = unat (lg_state_generation l) + 1"
    and "lg_witness_id l' = lg_witness_id l"
    and "lg_last_accepted_wall_time_ms l' = max (lg_last_accepted_wall_time_ms l) now_ms"
proof -
  obtain now_ms prepared where step: "safe_clock l now_ms" "prepares e now_ms l prepared"
      "unat (lg_state_generation l) + 1 < 2 ^ 64" "l' = committed prepared now_ms"
    using assms by (auto simp: witness_step_def)
  have "unat (lg_state_generation l + 1) = unat (lg_state_generation l) + 1"
    using step(3) by (simp add: unat_word_ariths)
  then show thesis
    using step prepares_header [OF step(2)] prepares_entry [OF step(2)]
    by (intro that [of now_ms]) (auto simp: committed_def)
qed

lemma state_ok_step: "witness_step e l l' \<Longrightarrow> state_ok e l \<Longrightarrow> state_ok e l'"
  by (erule witness_stepE) (metis (no_types, lifting) entry_steps_ok state_ok_def)

lemma state_ok_run: "witness_run e l l' \<Longrightarrow> state_ok e l \<Longrightarrow> state_ok e l'"
  by (induction rule: rtranclp_induct) (auto intro: state_ok_step)

lemma state_ok_empty [simp]: "state_ok e (lg_empty witness_id)"
  by (simp add: state_ok_def lg_empty_def)

section \<open>Answers are final\<close>

lemma run_wall_time:
  "witness_run e l l' \<Longrightarrow> lg_last_accepted_wall_time_ms l \<le> lg_last_accepted_wall_time_ms l'"
proof (induction rule: rtranclp_induct)
  case (step l' l'')
  from step(2) show ?case
    by (rule witness_stepE) (use step.IH in \<open>simp add: max.coboundedI1\<close>)
qed simp

lemma run_generation:
  "witness_run e l l' \<Longrightarrow> unat (lg_state_generation l) \<le> unat (lg_state_generation l')"
proof (induction rule: rtranclp_induct)
  case (step l' l'')
  from step(2) show ?case
    by (rule witness_stepE) (use step.IH in auto)
qed simp

lemma retention_outlives_clock:
  assumes "safe_clock l now_ms" and "retain < lg_last_accepted_wall_time_ms l"
    and "checked_add expires replay_retention_ms = Some retain"
  shows "expires \<le> now_ms"
proof -
  have "unat retain = unat expires + unat replay_retention_ms"
    using assms(3) by (auto simp: checked_add_def unat_word_ariths split: if_splits)
  moreover have "unat retain < unat (saturating_add now_ms accepted_clock_skew_ms)"
    using assms(1,2) by (simp add: safe_clock_def word_less_nat_alt [symmetric])
  moreover have "unat (saturating_add now_ms accepted_clock_skew_ms) \<le>
      unat now_ms + unat accepted_clock_skew_ms"
    using unsigned_less [where 'a = nat, of "- 1 :: u64"]
    by (auto simp: saturating_add_def unat_word_ariths)
  moreover have "unat accepted_clock_skew_ms \<le> unat replay_retention_ms"
    by (simp add: accepted_clock_skew_ms_def replay_retention_ms_def)
  ultimately show ?thesis
    by (simp add: word_le_nat_alt)
qed

definition answer_stands ::
    "witness_logical_state \<Rightarrow> ident \<times> ident \<Rightarrow> witness_replay_entry \<Rightarrow> bool" where
  "answer_stands l key entry \<longleftrightarrow>
     bt_get (lg_replay l) key = Some entry \<or>
     re_retain_through_ms entry < lg_last_accepted_wall_time_ms l \<and>
     (\<forall>other. bt_get (lg_replay l) key = Some other \<longrightarrow> re_request other \<noteq> re_request entry)"

lemma answer_stands_step:
  assumes "witness_step e l l'" and "entry_ok e key entry" and "re_response entry \<noteq> None"
    and "answer_stands l key entry"
  shows "answer_stands l' key entry"
proof -
  from assms(1) obtain now_ms where clock: "safe_clock l now_ms"
    and change: "entry_steps e now_ms l key (bt_get (lg_replay l) key) (bt_get (lg_replay l') key)"
    and time: "lg_last_accepted_wall_time_ms l' = max (lg_last_accepted_wall_time_ms l) now_ms"
    by (rule witness_stepE) blast
  have settled: "re_state entry \<noteq> Replay_Reserved" "\<not> open_entry entry"
    using assms(3) entry_ok_open [OF assms(2)] by auto
  show ?thesis
  proof (cases "bt_get (lg_replay l) key = Some entry")
    case True
    with change show ?thesis
      using assms(3) settled time
      by (auto elim!: entry_steps_fromE simp: answer_stands_def less_max_iff_disj)
  next
    case False
    then have gone: "re_retain_through_ms entry < lg_last_accepted_wall_time_ms l"
      "\<And>other. bt_get (lg_replay l) key = Some other \<Longrightarrow> re_request other \<noteq> re_request entry"
      using assms(4) by (auto simp: answer_stands_def)
    have "rq_expires_at_ms (re_request entry) \<le> now_ms"
      using retention_outlives_clock [OF clock gone(1)] assms(2) by (simp add: entry_ok_def)
    then have "re_request other \<noteq> re_request entry" if "bt_get (lg_replay l') key = Some other" for other
      using change gone(2) that by (cases "bt_get (lg_replay l) key") (auto elim: entry_steps.cases)
    then show ?thesis
      using gone(1) time by (simp add: answer_stands_def less_max_iff_disj)
  qed
qed

lemma answer_stands_run:
  assumes "witness_run e l l'" and "entry_ok e key entry" and "re_response entry \<noteq> None"
    and "answer_stands l key entry"
  shows "answer_stands l' key entry"
  using assms by (induction rule: rtranclp_induct) (auto intro: answer_stands_step)

lemma recorded_once:
  assumes "witness_run e l l'" and "state_ok e l"
    and "recorded l key request (Some r)" and "recorded l' key request (Some r')"
  shows "r' = r"
proof -
  obtain entry where entry: "bt_get (lg_replay l) key = Some entry" "re_request entry = request"
      "re_response entry = Some r"
    using assms(3) by (auto simp: recorded_def)
  then have "answer_stands l' key entry"
    using assms(1) state_okD [OF assms(2) entry(1)]
    by (intro answer_stands_run [of e l l']) (auto simp: answer_stands_def)
  then show ?thesis
    using entry assms(4) by (auto simp: answer_stands_def recorded_def)
qed

section \<open>Contributions have a quorum\<close>

definition justified ::
    "'w witness_engine \<Rightarrow> witness_logical_state \<Rightarrow> witness_logical_state \<Rightarrow> bool" where
  "justified e start l \<longleftrightarrow>
     (\<forall>key entry. bt_get (lg_replay l) key = Some entry \<and> re_state entry = Replay_Approved \<longrightarrow>
       (\<exists>before now_ms. witness_run e start before \<and>
         quorum_reached e before now_ms (re_request entry) (re_action_manifest_digest entry)
           (re_approvals entry)))"

lemma justified_step:
  assumes "witness_step e l l'" and "witness_run e start l" and "state_ok e l"
    and "justified e start l"
  shows "justified e start l'"
  unfolding justified_def
proof (intro allI impI, elim conjE)
  fix key entry
  assume entry: "bt_get (lg_replay l') key = Some entry" "re_state entry = Replay_Approved"
  from assms(1) obtain now_ms where
    "entry_steps e now_ms l key (bt_get (lg_replay l) key) (bt_get (lg_replay l') key)"
    by (rule witness_stepE) blast
  then show "\<exists>before now_ms. witness_run e start before \<and>
      quorum_reached e before now_ms (re_request entry) (re_action_manifest_digest entry)
        (re_approvals entry)"
    unfolding entry(1)
  proof cases
    case entry_unchanged
    then show ?thesis
      using entry assms(4) [unfolded justified_def, rule_format, of key entry] by simp
  next
    case (entry_recorded known accepted)
    then have "entry_ok e key known"
      using state_okD [OF assms(3)] by simp
    then show ?thesis
      using entry_recorded entry(2) by (auto simp: entry_ok_def)
  next
    case (entry_approved known accepted r)
    then show ?thesis
      using assms(2) by (intro exI [where x = l] exI [where x = now_ms]) simp
  qed (use entry(2) in auto)
qed

lemma justified_run:
  assumes "witness_run e start l" and "state_ok e start" and "justified e start start"
  shows "justified e start l"
  using assms
  by (induction rule: rtranclp_induct) (auto intro: justified_step state_ok_run)

lemma justified_empty [simp]: "justified e (lg_empty witness_id) (lg_empty witness_id)"
  by (simp add: justified_def lg_empty_def)

text \<open>
  What a quorum is, spelled out: the vault is registered with the checkpoint the request names;
  that checkpoint certifies a policy state (same vault, genesis, sequence, terminal hash and
  witness policies, signed by an owner of that state, with this witness among its members); the
  request is valid in that policy state; and at least as many eligible approvers as the threshold
  of the rule the policy state gives for the request each have exactly one recorded decision, an
  approval of this request and manifest signed by the approver's active key.
\<close>

definition approval_signed ::
    "'w witness_engine \<Rightarrow> witness_policy \<Rightarrow> witness_request \<Rightarrow> digest32 \<Rightarrow> ident \<Rightarrow> approval_decision
      \<Rightarrow> bool" where
  "approval_signed e policy request manifest_digest approver approval \<longleftrightarrow>
     ap_approver_id approval = approver \<and> ap_decision approval = Approval_Approve \<and>
     rq_digest (en_hash e) request = Inr (ap_request_digest approval) \<and>
     ap_action_manifest_digest approval = manifest_digest \<and>
     (\<exists>descriptor preimage. descriptor \<in> set (wp_approver_descriptors policy) \<and>
       apd_status descriptor = Status_Active \<and> apd_approver_id descriptor = approver \<and>
       ap_signature_preimage approval = Inr preimage \<and>
       en_verify e (apd_signing_public_key descriptor) preimage (ap_signature approval))"

definition signed_quorum ::
    "'w witness_engine \<Rightarrow> witness_logical_state \<Rightarrow> witness_request \<Rightarrow> digest32
      \<Rightarrow> approval_decision list \<Rightarrow> bool" where
  "signed_quorum e l request manifest_digest accepted \<longleftrightarrow>
     (\<exists>vault state validated.
        bt_get (lg_vaults l) (rq_vault_id request) = Some vault \<and>
        cp_digest (en_hash e) (rw_current_checkpoint vault) =
          Inr (rq_policy_checkpoint_digest request) \<and>
        validate_checkpoint e state (rw_current_checkpoint vault) = Inr () \<and>
        validate_request_policy (en_hash e) (en_verify e) state request = Inr validated \<and>
        unat (war_approval_threshold (vrp_rule validated)) \<le>
          length (filter (\<lambda>a. \<exists>approval. decisions_of accepted a = [approval] \<and>
            approval_signed e (vrp_policy validated) request manifest_digest a approval)
            (war_eligible_approver_ids (vrp_rule validated))))"

lemma validate_approval_signed:
  assumes "validate_approval e approval request manifest validated now_ms = Inr ()"
    and "mf_digest (en_hash e) manifest = Inr manifest_digest"
    and "ap_decision approval = Approval_Approve"
  shows "approval_signed e (vr_policy validated) request manifest_digest (ap_approver_id approval)
    approval"
proof -
  obtain descriptor preimage where
    "find (\<lambda>descriptor. apd_status descriptor = Status_Active \<and>
       apd_approver_id descriptor = ap_approver_id approval)
       (wp_approver_descriptors (vr_policy validated)) = Some descriptor"
    "ap_signature_preimage approval = Inr preimage"
    "en_verify e (apd_signing_public_key descriptor) preimage (ap_signature approval)"
    "rq_digest (en_hash e) request = Inr (ap_request_digest approval)"
    "mf_digest (en_hash e) manifest = Inr (ap_action_manifest_digest approval)"
    using assms(1)
    by (auto simp: validate_approval_def validate_approval_static_def
        validate_approval_against_policy_def result_simps split: if_splits)
  then show ?thesis
    using assms(2,3) by (auto simp: approval_signed_def find_Some_iff in_set_conv_nth)
qed

lemma normalize_approvals_subset:
  assumes "normalize_approvals submitted = Inr accepted" and "decisions_of accepted a = [approval]"
  shows "approval \<in> set submitted \<and> ap_approver_id approval = a"
proof -
  obtain decisions where "decisions_of accepted a = take 2 decisions"
    and "set decisions = {d \<in> set submitted. ap_approver_id d = a}"
    using normalize_approvals_decisions [OF assms(1)] by blast
  then have "approval \<in> set decisions"
    using assms(2) by (metis in_set_takeD list.set_intros(1))
  then show ?thesis
    using \<open>set decisions = _\<close> by simp
qed

lemma length_filter_mono:
  "(\<And>x. x \<in> set xs \<Longrightarrow> P x \<Longrightarrow> Q x) \<Longrightarrow> length (filter P xs) \<le> length (filter Q xs)"
  by (induction xs) auto

lemma quorum_reached_signed:
  assumes "quorum_reached e l now_ms request manifest_digest accepted"
  shows "signed_quorum e l request manifest_digest accepted"
proof -
  obtain policy state manifest validated submitted where
    state: "ps_logical state = l"
    and request: "validate_request e policy state request manifest now_ms = Inr validated"
    and digest: "mf_digest (en_hash e) manifest = Inr manifest_digest"
    and valid: "\<forall>a \<in> set submitted. validate_approval e a request manifest validated now_ms = Inr ()"
    and normal: "normalize_approvals submitted = Inr accepted"
    and threshold: "unat (war_approval_threshold (vr_rule validated)) \<le>
      tally_approved (tally_approvals accepted (vr_rule validated))"
    using assms by (auto simp: quorum_reached_def)
  obtain vault where vault: "bt_get (lg_vaults l) (rq_vault_id request) = Some vault"
    "cp_digest (en_hash e) (rw_current_checkpoint vault) =
      Inr (rq_policy_checkpoint_digest request)"
    "validate_checkpoint e policy (rw_current_checkpoint vault) = Inr ()"
    using request state
    by (auto simp: validate_request_def current_registration_def validate_registered_checkpoint_def
        result_simps split: if_splits)
  obtain granted where granted:
    "validate_request_policy (en_hash e) (en_verify e) policy request = Inr granted"
    "vr_rule validated = vrp_rule granted" "vr_policy validated = vrp_policy granted"
    using request
    by (auto simp: validate_request_def validate_manifest_policy_def result_simps split: if_splits)
  have "\<exists>approval. decisions_of accepted a = [approval] \<and>
      approval_signed e (vr_policy validated) request manifest_digest a approval"
    if "counts_as_approved (decisions_of accepted a)" for a
    using that normalize_approvals_subset [OF normal] valid validate_approval_signed [OF _ digest]
    by (fastforce simp: counts_as_approved_def)
  then have "unat (war_approval_threshold (vr_rule validated)) \<le>
      length (filter (\<lambda>a. \<exists>approval. decisions_of accepted a = [approval] \<and>
        approval_signed e (vr_policy validated) request manifest_digest a approval)
        (war_eligible_approver_ids (vr_rule validated)))"
    using threshold unfolding tally_approvals_fields
    by (elim order_trans) (rule length_filter_mono, blast)
  then show ?thesis
    using vault granted unfolding signed_quorum_def by auto
qed

section \<open>Checkpoints only advance\<close>

definition checkpoint_extends ::
    "hash_fun \<Rightarrow> vault_policy_checkpoint \<Rightarrow> vault_policy_checkpoint \<Rightarrow> bool" where
  "checkpoint_extends H before after \<longleftrightarrow>
     cp_vault_id after = cp_vault_id before \<and>
     unat (cp_vault_policy_sequence after) = unat (cp_vault_policy_sequence before) + 1 \<and>
     cp_digest H before = Inr (cp_predecessor_checkpoint_digest after) \<and>
     cp_issued_at_ms before < cp_issued_at_ms after"

abbreviation checkpoint_path ::
    "hash_fun \<Rightarrow> vault_policy_checkpoint \<Rightarrow> vault_policy_checkpoint \<Rightarrow> bool" where
  "checkpoint_path H \<equiv> (checkpoint_extends H)\<^sup>*\<^sup>*"

lemma check_descendant_extends:
  assumes "check_descendant H current checkpoint = Inr ()"
    and "cp_vault_id (rw_current_checkpoint current) = cp_vault_id checkpoint"
  shows "checkpoint_extends H (rw_current_checkpoint current) checkpoint"
proof -
  define old where "old = cp_vault_policy_sequence (rw_current_checkpoint current)"
  have "old < cp_vault_policy_sequence checkpoint"
    and "cp_vault_policy_sequence checkpoint = saturating_add old 1"
    using assms(1) by (auto simp: check_descendant_def Let_def old_def split: if_splits)
  then have "unat (cp_vault_policy_sequence checkpoint) = unat old + 1"
    using unsigned_less [where 'a = nat, of "- 1 :: u64"]
    by (auto simp: saturating_add_def unat_word_ariths word_less_nat_alt split: if_splits)
  then show ?thesis
    using assms by (auto simp: checkpoint_extends_def check_descendant_def Let_def old_def
        result_simps split: if_splits)
qed

definition vaults_ok :: "witness_logical_state \<Rightarrow> bool" where
  "vaults_ok l \<longleftrightarrow> (\<forall>vault_id vault. bt_get (lg_vaults l) vault_id = Some vault \<longrightarrow>
     cp_vault_id (rw_current_checkpoint vault) = vault_id)"

definition vault_advances ::
    "'w witness_engine \<Rightarrow> ident \<Rightarrow> registered_witness_vault \<Rightarrow> registered_witness_vault
      \<Rightarrow> witness_logical_state \<Rightarrow> bool" where
  "vault_advances e vault_id vault vault' l' \<longleftrightarrow>
     rw_accepted_registration vault' = rw_accepted_registration vault \<and>
     (vault' = vault \<or>
       checkpoint_extends (en_hash e) (rw_current_checkpoint vault) (rw_current_checkpoint vault') \<and>
       (\<forall>request_id entry. bt_get (lg_replay l') (vault_id, request_id) = Some entry \<longrightarrow>
         re_state entry \<noteq> Replay_Reserved))"

lemma stale_denied_settled:
  assumes "stale_denied vault_id replay replay'"
    and "bt_get replay' (vault_id, request_id) = Some entry"
  shows "re_state entry \<noteq> Replay_Reserved"
  using assms(2) assms(1) [unfolded stale_denied_def, rule_format, of "(vault_id, request_id)"]
  by (auto simp: deny_entry_def split: option.splits if_splits)

lemma prepares_vault:
  assumes "prepares e now_ms l l'" and "vaults_ok l"
    and "bt_get (lg_vaults l) vault_id = Some vault"
  shows "\<exists>vault'. bt_get (lg_vaults l') vault_id = Some vault' \<and>
    vault_advances e vault_id vault vault' l'"
  using assms(1)
proof cases
  case (prepare_advance policy checkpoint policies current replay material)
  have id: "cp_vault_id (rw_current_checkpoint current) = cp_vault_id checkpoint"
    using assms(2) prepare_advance(3) by (simp add: vaults_ok_def)
  show ?thesis
  proof (cases "vault_id = cp_vault_id checkpoint")
    case True
    then show ?thesis
      using prepare_advance assms(3) check_descendant_extends [OF prepare_advance(4) id]
        stale_denied_settled [OF prepare_advance(5)]
      by (auto simp: vault_advances_def)
  next
    case False
    then show ?thesis
      using prepare_advance assms(3) by (simp add: vault_advances_def)
  qed
qed (use assms(3) in \<open>auto simp: vault_advances_def\<close>)

lemma prepares_vaults_ok: "prepares e now_ms l l' \<Longrightarrow> vaults_ok l \<Longrightarrow> vaults_ok l'"
  by (erule prepares.cases) (auto simp: vaults_ok_def split: if_splits)

lemma witness_step_vault:
  assumes "witness_step e l l'" and "vaults_ok l"
  shows "vaults_ok l' \<and> (\<forall>vault_id vault. bt_get (lg_vaults l) vault_id = Some vault \<longrightarrow>
    (\<exists>vault'. bt_get (lg_vaults l') vault_id = Some vault' \<and>
      vault_advances e vault_id vault vault' l'))"
proof -
  obtain now_ms prepared where step: "prepares e now_ms l prepared" "l' = committed prepared now_ms"
    using assms(1) by (auto simp: witness_step_def)
  have "lg_vaults l' = lg_vaults prepared" "lg_replay l' = lg_replay prepared"
    by (simp_all add: step(2) committed_def)
  then show ?thesis
    using prepares_vaults_ok [OF step(1) assms(2)] prepares_vault [OF step(1) assms(2)]
    by (simp add: vaults_ok_def vault_advances_def)
qed

lemma vaults_ok_run: "witness_run e l l' \<Longrightarrow> vaults_ok l \<Longrightarrow> vaults_ok l'"
  by (induction rule: rtranclp_induct) (auto dest: witness_step_vault)

lemma vaults_ok_empty [simp]: "vaults_ok (lg_empty witness_id)"
  by (simp add: vaults_ok_def lg_empty_def)

lemma run_checkpoint:
  assumes "witness_run e l l'" and "vaults_ok l" and "bt_get (lg_vaults l) vault_id = Some vault"
  shows "\<exists>vault'. bt_get (lg_vaults l') vault_id = Some vault' \<and>
    rw_accepted_registration vault' = rw_accepted_registration vault \<and>
    checkpoint_path (en_hash e) (rw_current_checkpoint vault) (rw_current_checkpoint vault')"
  using assms
proof (induction rule: rtranclp_induct)
  case (step l' l'')
  then obtain vault' where vault': "bt_get (lg_vaults l') vault_id = Some vault'"
      "rw_accepted_registration vault' = rw_accepted_registration vault"
      "checkpoint_path (en_hash e) (rw_current_checkpoint vault) (rw_current_checkpoint vault')"
    by blast
  then obtain vault'' where "bt_get (lg_vaults l'') vault_id = Some vault''"
      "vault_advances e vault_id vault' vault'' l''"
    using witness_step_vault [OF step(2) vaults_ok_run [OF step(1) step.prems(1)]] by blast
  then show ?case
    using vault' by (auto simp: vault_advances_def)
qed auto

end
