(* ===== verification/Jury_Material.thy ===== *)
theory Jury_Material
  imports Jury_Policy_Replay Jury_Witness_Base
begin

text \<open>
  Public policy material, the policy evidence a witness stores and a receipt embeds:
  \<open>ReceiptPolicyMaterialV1\<close> of \<open>witness_receipt.rs\<close>. The JSON text of the material is a
  parameter: a function to bytes and one from bytes.
\<close>

datatype receipt_verification_error =
    Receipt_InvalidFormat | Receipt_InvalidPolicy | Receipt_InvalidScope | Receipt_InvalidDigest
  | Receipt_InvalidSignature | Receipt_InvalidQuorum | Receipt_CheckpointMismatch
  | Receipt_CapacityExhausted

record receipt_policy_material =
  pm_schema :: u16
  pm_journal :: policy_journal
  pm_witness_policies :: "witness_policy list"

record material_json =
  mj_to_vec :: "receipt_policy_material \<Rightarrow> bytes option"
  mj_from_slice :: "bytes \<Rightarrow> receipt_policy_material option"

definition material_replay ::
    "hash_fun \<Rightarrow> verify_fun \<Rightarrow> receipt_policy_material \<Rightarrow> receipt_verification_error + policy_state"
  where
  "material_replay H V material =
     (if pm_schema material \<noteq> 1 then Inl Receipt_InvalidPolicy
      else map_err (\<lambda>_. Receipt_InvalidPolicy)
        (replay_policy_with_witness_policies H V (pm_journal material)
          (pm_witness_policies material)))"

definition material_encode ::
    "hash_fun \<Rightarrow> verify_fun \<Rightarrow> material_json \<Rightarrow> receipt_policy_material
      \<Rightarrow> receipt_verification_error + policy_material_bytes" where
  "material_encode H V json material =
     and_then (material_replay H V material) (\<lambda>_.
     and_then (ok_or Receipt_InvalidPolicy (mj_to_vec json material)) (\<lambda>bytes.
     map_err (\<lambda>_. Receipt_CapacityExhausted) (bounded_new bytes)))"

definition material_decode ::
    "hash_fun \<Rightarrow> verify_fun \<Rightarrow> material_json \<Rightarrow> policy_material_bytes
      \<Rightarrow> receipt_verification_error + receipt_policy_material" where
  "material_decode H V json encoded =
     and_then (ok_or Receipt_InvalidPolicy (mj_from_slice json (bounded_as_bytes encoded)))
       (\<lambda>material.
     and_then (material_encode H V json material) (\<lambda>canonical.
     if bounded_as_bytes canonical \<noteq> bounded_as_bytes encoded then Inl Receipt_InvalidPolicy
     else Inr material))"

text \<open>Only the exact encoding of a material that replays is decoded.\<close>

lemma material_decode_Inr:
  assumes "material_decode H V json encoded = Inr material"
  shows "mj_to_vec json material = Some (bounded_as_bytes encoded)"
    and "\<exists>policy. material_replay H V material = Inr policy"
  using assms by (auto simp: material_decode_def material_encode_def result_simps split: if_splits)

lemma material_decode_inject:
  assumes "material_decode H V json a = Inr material" and "material_decode H V json b = Inr material"
  shows "a = b"
  using material_decode_Inr(1) [OF assms(1)] material_decode_Inr(1) [OF assms(2)]
  by (simp add: bounded_as_bytes_inject)

end
