(* ===== verification/Jury_Runtime.thy ===== *)
theory Jury_Runtime
  imports Jury_Store Jury_Engine_Runs Jury_Material
begin

text \<open>
  The daemon's runtime: \<open>jury-witness/src/runtime.rs\<close>, \<open>policy_material.rs\<close> and the queue of
  \<open>state_worker.rs\<close>. Every operation opens the state store, builds an engine over the stores of
  the deployment and runs one engine operation; operations on a request first take the policy
  from the material stored with the vault's checkpoint. The worker runs the queued commands one
  after the other and skips those whose caller has gone.
\<close>

section \<open>Errors\<close>

datatype runtime_error =
    Runtime_Refused witness_reason | Runtime_DeadlineExceeded | Runtime_StoreUnavailable
  | Runtime_AnchorUnavailable | Runtime_InvalidPolicyMaterial | Runtime_InternalFailure

fun map_engine_error :: "witness_engine_error \<Rightarrow> runtime_error" where
  "map_engine_error (Engine_Refused reason) = Runtime_Refused reason"
| "map_engine_error Engine_StoreUnavailable = Runtime_StoreUnavailable"
| "map_engine_error Engine_AnchorUnavailable = Runtime_AnchorUnavailable"

fun map_adapter_error :: "adapter_error_kind \<Rightarrow> runtime_error" where
  "map_adapter_error Adapter_DatabaseUnavailable = Runtime_StoreUnavailable"
| "map_adapter_error Adapter_InvalidState = Runtime_StoreUnavailable"
| "map_adapter_error Adapter_AnchorUnavailable = Runtime_AnchorUnavailable"
| "map_adapter_error Adapter_Conflict = Runtime_AnchorUnavailable"
| "map_adapter_error Adapter_InvalidPolicyMaterial = Runtime_InvalidPolicyMaterial"
| "map_adapter_error Adapter_CapacityExhausted = Runtime_InvalidPolicyMaterial"
| "map_adapter_error Adapter_InvalidConfiguration = Runtime_InternalFailure"
| "map_adapter_error Adapter_InvalidCredential = Runtime_InternalFailure"
| "map_adapter_error Adapter_InvalidIdentity = Runtime_InternalFailure"
| "map_adapter_error Adapter_AuthenticationFailed = Runtime_InternalFailure"
| "map_adapter_error Adapter_TargetExists = Runtime_InternalFailure"
| "map_adapter_error Adapter_Io = Runtime_InternalFailure"

section \<open>Policy material\<close>

record witness_runtime =
  rt_services :: service_config
  rt_material_json :: material_json
  rt_expired :: "nat \<Rightarrow> bool"

abbreviation rt_engine :: "witness_runtime \<Rightarrow> service_world witness_engine" where
  "rt_engine rt \<equiv> service_engine (rt_services rt)"

definition public_material_encode ::
    "witness_runtime \<Rightarrow> receipt_policy_material \<Rightarrow> adapter_error_kind + policy_material_bytes" where
  "public_material_encode rt material =
     map_err (\<lambda>error. case error of
         Receipt_CapacityExhausted \<Rightarrow> Adapter_CapacityExhausted
       | _ \<Rightarrow> Adapter_InvalidPolicyMaterial)
       (material_encode (sc_hash (rt_services rt)) (sc_verify (rt_services rt))
         (rt_material_json rt) material)"

definition public_material_decode ::
    "witness_runtime \<Rightarrow> policy_material_bytes \<Rightarrow> adapter_error_kind + receipt_policy_material" where
  "public_material_decode rt encoded =
     map_err (\<lambda>_. Adapter_InvalidPolicyMaterial)
       (material_decode (sc_hash (rt_services rt)) (sc_verify (rt_services rt))
         (rt_material_json rt) encoded)"

definition public_material_replay ::
    "witness_runtime \<Rightarrow> receipt_policy_material \<Rightarrow> adapter_error_kind + policy_state" where
  "public_material_replay rt material =
     map_err (\<lambda>_. Adapter_InvalidPolicyMaterial)
       (material_replay (sc_hash (rt_services rt)) (sc_verify (rt_services rt)) material)"

section \<open>Operations\<close>

type_synonym 'a runtime_call = "(service_world, runtime_error, 'a) call"

definition ensure_remaining :: "witness_runtime \<Rightarrow> unit runtime_call" where
  "ensure_remaining rt w =
     (if rt_expired rt (sw_calls w) then Inl Runtime_DeadlineExceeded else Inr (),
      w\<lparr>sw_calls := sw_calls w + 1\<rparr>)"

definition load_validated ::
    "witness_runtime \<Rightarrow> (service_world, adapter_error_kind, persisted_witness_state) call" where
  "load_validated rt =
     service_call (rt_services rt) Adapter_DatabaseUnavailable (\<lambda>w.
       (load_witness_state (rt_services rt) (sw_state w), w))"

definition open_store :: "witness_runtime \<Rightarrow> unit runtime_call" where
  "open_store rt =
     call_then (call_map_err map_adapter_error (load_validated rt)) (\<lambda>_. call_result (Inr ()))"

definition with_engine ::
    "witness_runtime \<Rightarrow> (service_world, 'a) engine_call \<Rightarrow> 'a runtime_call" where
  "with_engine rt operation =
     call_then (ensure_remaining rt) (\<lambda>_.
     call_then (open_store rt) (\<lambda>_.
     call_then (ensure_remaining rt) (\<lambda>_.
     call_map_err map_engine_error operation)))"

definition stored_policy ::
    "witness_runtime \<Rightarrow> persisted_witness_state \<Rightarrow> ident \<Rightarrow> runtime_error + policy_state" where
  "stored_policy rt persisted vault_id =
     and_then (ok_or (Runtime_Refused Reason_StalePolicy)
       (bt_get (lg_vaults (ps_logical persisted)) vault_id)) (\<lambda>vault.
     map_err map_adapter_error
       (and_then (public_material_decode rt (rw_current_policy_material vault))
         (public_material_replay rt)))"

definition with_policy_engine ::
    "witness_runtime \<Rightarrow> ident \<Rightarrow> (policy_state \<Rightarrow> (service_world, 'a) engine_call)
      \<Rightarrow> 'a runtime_call" where
  "with_policy_engine rt vault_id operation =
     call_then (ensure_remaining rt) (\<lambda>_.
     call_then (open_store rt) (\<lambda>_.
     call_then (ensure_remaining rt) (\<lambda>_.
     call_then (call_map_err map_engine_error (check_ready (rt_engine rt))) (\<lambda>_.
     call_then (ensure_remaining rt) (\<lambda>_.
     call_then (call_map_err map_adapter_error (load_validated rt)) (\<lambda>persisted.
     call_then (call_result (stored_policy rt persisted vault_id)) (\<lambda>policy.
     call_then (ensure_remaining rt) (\<lambda>_.
     call_map_err map_engine_error (operation policy)))))))))"

definition runtime_register_vault ::
    "witness_runtime \<Rightarrow> receipt_policy_material \<Rightarrow> registration_bytes \<Rightarrow> vault_policy_checkpoint
      \<Rightarrow> witness_checkpoint_acknowledgement runtime_call" where
  "runtime_register_vault rt material accepted_registration checkpoint =
     call_then (ensure_remaining rt) (\<lambda>_.
     call_then (call_result (map_err map_adapter_error (public_material_replay rt material)))
       (\<lambda>policy.
     call_then (call_result (map_err map_adapter_error (public_material_encode rt material)))
       (\<lambda>encoded.
     with_engine rt
       (register_vault (rt_engine rt) policy accepted_registration checkpoint encoded))))"

definition runtime_advance_checkpoint ::
    "witness_runtime \<Rightarrow> receipt_policy_material \<Rightarrow> vault_policy_checkpoint
      \<Rightarrow> witness_checkpoint_acknowledgement runtime_call" where
  "runtime_advance_checkpoint rt material checkpoint =
     call_then (ensure_remaining rt) (\<lambda>_.
     call_then (call_result (map_err map_adapter_error (public_material_replay rt material)))
       (\<lambda>policy.
     call_then (call_result (map_err map_adapter_error (public_material_encode rt material)))
       (\<lambda>encoded.
     with_engine rt (advance_checkpoint (rt_engine rt) policy checkpoint encoded))))"

definition runtime_reserve ::
    "witness_runtime \<Rightarrow> witness_request \<Rightarrow> action_manifest \<Rightarrow> witness_progress runtime_call" where
  "runtime_reserve rt request manifest =
     with_policy_engine rt (rq_vault_id request) (\<lambda>policy.
       reserve (rt_engine rt) policy request manifest)"

definition runtime_decide ::
    "witness_runtime \<Rightarrow> witness_request \<Rightarrow> action_manifest \<Rightarrow> approval_decision list
      \<Rightarrow> witness_progress runtime_call" where
  "runtime_decide rt request manifest approvals =
     with_policy_engine rt (rq_vault_id request) (\<lambda>policy.
       decide (rt_engine rt) policy request manifest approvals)"

definition runtime_cancel ::
    "witness_runtime \<Rightarrow> witness_request \<Rightarrow> request_cancellation
      \<Rightarrow> cancellation_progress runtime_call" where
  "runtime_cancel rt request cancellation =
     with_policy_engine rt (rq_vault_id request) (\<lambda>policy.
       cancel (rt_engine rt) policy request cancellation)"

section \<open>Commands and the worker\<close>

datatype runtime_command =
    Command_CheckReady
  | Command_OperationalStatus
  | Command_Register receipt_policy_material registration_bytes vault_policy_checkpoint
  | Command_AdvanceCheckpoint receipt_policy_material vault_policy_checkpoint
  | Command_Reserve witness_request action_manifest
  | Command_Decide witness_request action_manifest "approval_decision list"
  | Command_Cancel witness_request request_cancellation
  | Command_Compact

datatype runtime_reply =
    Reply_Ready
  | Reply_Status witness_operational_status
  | Reply_Acknowledgement witness_checkpoint_acknowledgement
  | Reply_Progress witness_progress
  | Reply_Cancellation cancellation_progress
  | Reply_Compacted nat

definition call_reply :: "('a \<Rightarrow> runtime_reply) \<Rightarrow> 'a runtime_call \<Rightarrow> runtime_reply runtime_call" where
  "call_reply wrap call = call_then call (\<lambda>x. call_result (Inr (wrap x)))"

fun dispatch :: "witness_runtime \<Rightarrow> runtime_command \<Rightarrow> runtime_reply runtime_call" where
  "dispatch rt Command_CheckReady =
     call_reply (\<lambda>_. Reply_Ready) (with_engine rt (check_ready (rt_engine rt)))"
| "dispatch rt Command_OperationalStatus =
     call_reply Reply_Status (with_engine rt (operational_status (rt_engine rt)))"
| "dispatch rt (Command_Register material accepted_registration checkpoint) =
     call_reply Reply_Acknowledgement
       (runtime_register_vault rt material accepted_registration checkpoint)"
| "dispatch rt (Command_AdvanceCheckpoint material checkpoint) =
     call_reply Reply_Acknowledgement (runtime_advance_checkpoint rt material checkpoint)"
| "dispatch rt (Command_Reserve request manifest) =
     call_reply Reply_Progress (runtime_reserve rt request manifest)"
| "dispatch rt (Command_Decide request manifest approvals) =
     call_reply Reply_Progress (runtime_decide rt request manifest approvals)"
| "dispatch rt (Command_Cancel request cancellation) =
     call_reply Reply_Cancellation (runtime_cancel rt request cancellation)"
| "dispatch rt Command_Compact =
     call_reply Reply_Compacted (with_engine rt (compact_replay (rt_engine rt)))"

text \<open>
  The worker's loop over its queue: a queued command comes with whether its caller has gone by
  the time it is taken from the queue.
\<close>

fun run_worker ::
    "witness_runtime \<Rightarrow> (bool \<times> runtime_command) list \<Rightarrow> service_world
      \<Rightarrow> (runtime_command \<times> (runtime_error + runtime_reply)) list \<times> service_world" where
  "run_worker rt [] w = ([], w)"
| "run_worker rt ((is_abandoned, command) # queue) w =
     (if is_abandoned then run_worker rt queue w
      else (case dispatch rt command w of (reply, w') \<Rightarrow>
        case run_worker rt queue w' of (replies, w'') \<Rightarrow> ((command, reply) # replies, w'')))"

end
