(* ===== verification/Jury_Runtime_Theorems.thy ===== *)
theory Jury_Runtime_Theorems
  imports Jury_Runtime
begin

text \<open>
  What a witness daemon guarantees over its whole life, for every queue of commands and every
  schedule of faults: the lemmas lift the engine's contracts through the runtime to the worker,
  and the theorems read off the guarantees.
\<close>

section \<open>From the engine to the worker\<close>

abbreviation logical_of :: "service_world \<Rightarrow> witness_logical_state" where
  "logical_of w \<equiv> ps_logical (stored_of w)"

definition reply_holds ::
    "witness_runtime \<Rightarrow> runtime_command \<Rightarrow> runtime_reply \<Rightarrow> witness_logical_state \<Rightarrow> bool" where
  "reply_holds rt command reply l =
     (case (command, reply) of
        (Command_Decide request _ _, Reply_Progress progress) \<Rightarrow>
          recorded l (request_key request) request (progress_answer progress)
      | (Command_Reserve request _, Reply_Progress progress) \<Rightarrow>
          (\<exists>asked. recorded l (request_key request) asked (progress_answer progress) \<and>
            (asked = request \<or> (\<exists>r. progress = Progress_Stable r \<and> is_denial r)))
      | (Command_Cancel request _, Reply_Cancellation progress) \<Rightarrow>
          cancellation_recorded l request progress
      | (Command_OperationalStatus, Reply_Status status) \<Rightarrow>
          wos_state_generation status = lg_state_generation l
      | (Command_Register _ _ checkpoint, Reply_Acknowledgement ack) \<Rightarrow>
          ack_vault_id ack = cp_vault_id checkpoint \<and>
          ack_state_generation ack = lg_state_generation l
      | (Command_AdvanceCheckpoint _ checkpoint, Reply_Acknowledgement ack) \<Rightarrow>
          ack_vault_id ack = cp_vault_id checkpoint \<and>
          ack_state_generation ack = lg_state_generation l
      | (Command_CheckReady, Reply_Ready) \<Rightarrow> True
      | (Command_Compact, Reply_Compacted _) \<Rightarrow> True
      | _ \<Rightarrow> False)"

definition durable :: "witness_runtime \<Rightarrow> service_world \<Rightarrow> bool" where
  "durable rt w \<longleftrightarrow> settles (rt_engine rt) (stored_of w) (anchored_of (rt_services rt) w)"

lemma checkpoint_acknowledgement_fields:
  assumes "checkpoint_acknowledgement H s vault_id = Inr ack"
  shows "ack_vault_id ack = vault_id" and "ack_state_generation ack = lg_state_generation (ps_logical s)"
  using assms by (auto simp: checkpoint_acknowledgement_def result_simps Let_def)

text \<open>Calls of the runtime that leave the stored state and the anchor alone.\<close>

lemma ensure_remaining_wp:
  "call_wp (ensure_remaining rt)
     (\<lambda>_ w'. stored_of w' = stored_of w \<and> anchored_of cfg w' = anchored_of cfg w)
     (\<lambda>_ w'. stored_of w' = stored_of w \<and> anchored_of cfg w' = anchored_of cfg w) w"
  by (simp add: call_wp_def ensure_remaining_def)

lemma load_validated_wp:
  "call_wp (load_validated rt)
     (\<lambda>s w'. s = stored_of w \<and> stored_of w' = stored_of w \<and> anchored_of cfg w' = anchored_of cfg w)
     (\<lambda>_ w'. stored_of w' = stored_of w \<and> anchored_of cfg w' = anchored_of cfg w) w"
  unfolding load_validated_def
  by (rule service_call_wp) (auto simp: call_wp_def same_world stored_of_def anchored_of_def
      split: sum.split dest: load_witness_state_Inr(1))

lemma open_store_wp:
  "call_wp (open_store rt)
     (\<lambda>_ w'. stored_of w' = stored_of w \<and> anchored_of cfg w' = anchored_of cfg w)
     (\<lambda>_ w'. stored_of w' = stored_of w \<and> anchored_of cfg w' = anchored_of cfg w) w"
  unfolding open_store_def call_wp_then call_wp_map_err
  by (rule call_wp_mono [OF load_validated_wp]) (auto simp: call_wp_result)

text \<open>An operation is a transition when it keeps the logical state or takes one step.\<close>

definition transition ::
    "witness_runtime \<Rightarrow> (service_world, 'e, 'a) call \<Rightarrow> ('a \<Rightarrow> service_world \<Rightarrow> bool) \<Rightarrow> bool" where
  "transition rt call Q \<longleftrightarrow> (\<forall>w. call_wp call
     (\<lambda>x w'. Q x w' \<and> stays_or_steps (rt_engine rt) (logical_of w) (logical_of w'))
     (\<lambda>_ w'. stays_or_steps (rt_engine rt) (logical_of w) (logical_of w')) w)"

lemma stays_or_steps_refl: "stays_or_steps e l l"
  by (simp add: stays_or_steps_def)

lemma transition_wp:
  "transition rt call Q \<Longrightarrow> logical_of v = logical_of w \<Longrightarrow> call_wp call
     (\<lambda>x w'. Q x w' \<and> stays_or_steps (rt_engine rt) (logical_of w) (logical_of w'))
     (\<lambda>_ w'. stays_or_steps (rt_engine rt) (logical_of w) (logical_of w')) v"
  unfolding transition_def by (drule spec [where x = v]) simp

lemma transition_mono:
  assumes "transition rt call Q" and "\<And>x w. Q x w \<Longrightarrow> Q' x w"
  shows "transition rt call Q'"
  unfolding transition_def
  by (intro allI, rule call_wp_mono [OF transition_wp [OF assms(1) refl]]) (simp_all add: assms(2))

lemma transition_quiet:
  assumes "\<And>w. call_wp first (\<lambda>_ w'. logical_of w' = logical_of w)
      (\<lambda>_ w'. logical_of w' = logical_of w) w"
    and "\<And>x. transition rt (continue x) Q"
  shows "transition rt (call_then first continue) Q"
  unfolding transition_def call_wp_then
proof
  fix w
  show "call_wp first (\<lambda>x. call_wp (continue x)
      (\<lambda>x w'. Q x w' \<and> stays_or_steps (rt_engine rt) (logical_of w) (logical_of w'))
      (\<lambda>_ w'. stays_or_steps (rt_engine rt) (logical_of w) (logical_of w')))
      (\<lambda>_ w'. stays_or_steps (rt_engine rt) (logical_of w) (logical_of w')) w"
    by (rule call_wp_mono [OF assms(1)])
      (simp_all add: transition_wp [OF assms(2)] stays_or_steps_refl)
qed

lemma transition_map_err: "transition rt call Q \<Longrightarrow> transition rt (call_map_err g call) Q"
  by (simp add: transition_def call_wp_map_err)

lemma transition_reply:
  assumes "transition rt call (\<lambda>x w'. Q (wrap x) w')"
  shows "transition rt (call_reply wrap call) Q"
  unfolding transition_def call_reply_def call_wp_then
  by (intro allI, rule call_wp_mono [OF transition_wp [OF assms refl]])
    (simp_all add: call_wp_result)

lemma transition_result_then:
  "(\<And>x. transition rt (continue x) Q) \<Longrightarrow> transition rt (call_then (call_result r) continue) Q"
  by (rule transition_quiet) (auto simp: call_wp_result split: sum.split)

lemma transition_remaining_then:
  "(\<And>x. transition rt (continue x) Q) \<Longrightarrow>
     transition rt (call_then (ensure_remaining rt') continue) Q"
  by (rule transition_quiet, rule call_wp_mono [OF ensure_remaining_wp]) auto

lemma transition_open_then:
  "(\<And>x. transition rt (continue x) Q) \<Longrightarrow> transition rt (call_then (open_store rt') continue) Q"
  by (rule transition_quiet, rule call_wp_mono [OF open_store_wp]) auto

lemma transition_load_then:
  "(\<And>x. transition rt (continue x) Q) \<Longrightarrow>
     transition rt (call_then (call_map_err g (load_validated rt')) continue) Q"
  by (rule transition_quiet, unfold call_wp_map_err, rule call_wp_mono [OF load_validated_wp]) auto

lemma transition_ready_then:
  "(\<And>x. transition rt (continue x) Q) \<Longrightarrow>
     transition rt (call_then (call_map_err g (check_ready (rt_engine rt'))) continue) Q"
  by (rule transition_quiet, unfold call_wp_map_err,
      rule call_wp_mono [OF services.check_ready_wp]) auto

lemmas transition_intros = transition_map_err transition_result_then transition_remaining_then
  transition_open_then transition_load_then transition_ready_then

lemma check_ready_transition:
  "transition rt (check_ready (rt_engine rt))
     (\<lambda>_ w'. durable rt w')"
  unfolding transition_def durable_def
  by (intro allI, rule call_wp_mono [OF services.check_ready_wp])
    (auto simp: stays_or_steps_def checkpoint_acknowledgement_fields)

lemma operational_status_transition:
  "transition rt (operational_status (rt_engine rt))
     (\<lambda>status w'. durable rt w' \<and>
       wos_state_generation status = lg_state_generation (logical_of w'))"
  unfolding transition_def durable_def
  by (intro allI, rule call_wp_mono [OF services.operational_status_wp])
    (auto simp: stays_or_steps_def checkpoint_acknowledgement_fields)

lemma compact_replay_transition:
  "transition rt (compact_replay (rt_engine rt))
     (\<lambda>_ w'. durable rt w')"
  unfolding transition_def durable_def
  by (intro allI, rule call_wp_mono [OF services.compact_replay_wp])
    (auto simp: stays_or_steps_def checkpoint_acknowledgement_fields)

lemma register_vault_transition:
  "transition rt (register_vault (rt_engine rt) policy registration checkpoint material)
     (\<lambda>ack w'. durable rt w' \<and> ack_vault_id ack = cp_vault_id checkpoint \<and>
       ack_state_generation ack = lg_state_generation (logical_of w'))"
  unfolding transition_def durable_def
  by (intro allI, rule call_wp_mono [OF services.register_vault_wp])
    (auto simp: stays_or_steps_def checkpoint_acknowledgement_fields)

lemma advance_checkpoint_transition:
  "transition rt (advance_checkpoint (rt_engine rt) policy checkpoint material)
     (\<lambda>ack w'. durable rt w' \<and> ack_vault_id ack = cp_vault_id checkpoint \<and>
       ack_state_generation ack = lg_state_generation (logical_of w'))"
  unfolding transition_def durable_def
  by (intro allI, rule call_wp_mono [OF services.advance_checkpoint_wp])
    (auto simp: stays_or_steps_def checkpoint_acknowledgement_fields)

lemma cancel_transition:
  "transition rt (cancel (rt_engine rt) policy request cancellation)
     (\<lambda>progress w'. durable rt w' \<and> cancellation_recorded (logical_of w') request progress)"
  unfolding transition_def durable_def
  by (intro allI, rule call_wp_mono [OF services.cancel_wp])
    (auto simp: stays_or_steps_def checkpoint_acknowledgement_fields)

lemma reserve_transition:
  "transition rt (reserve (rt_engine rt) policy request manifest)
     (\<lambda>progress w'. durable rt w' \<and>
       (\<exists>asked. recorded (logical_of w') (request_key request) asked (progress_answer progress) \<and>
         (asked = request \<or> (\<exists>r. progress = Progress_Stable r \<and> is_denial r))))"
  unfolding transition_def durable_def
  by (intro allI, rule call_wp_mono [OF services.reserve_wp])
    (auto simp: stays_or_steps_def checkpoint_acknowledgement_fields)

lemma decide_transition:
  "transition rt (decide (rt_engine rt) policy request manifest approvals)
     (\<lambda>progress w'. durable rt w' \<and>
       recorded (logical_of w') (request_key request) request (progress_answer progress))"
  unfolding transition_def durable_def
  by (intro allI, rule call_wp_mono [OF services.decide_wp])
    (auto simp: stays_or_steps_def checkpoint_acknowledgement_fields)

lemmas engine_transitions = check_ready_transition operational_status_transition
  compact_replay_transition register_vault_transition advance_checkpoint_transition
  cancel_transition reserve_transition decide_transition

lemma with_engine_transition:
  "transition rt operation Q \<Longrightarrow> transition rt (with_engine rt operation) Q"
  unfolding with_engine_def by (intro transition_intros)

lemma with_policy_engine_transition:
  "(\<And>policy. transition rt (operation policy) Q) \<Longrightarrow>
     transition rt (with_policy_engine rt vault_id operation) Q"
  unfolding with_policy_engine_def by (intro transition_intros)

lemma dispatch_transition:
  "transition rt (dispatch rt command)
     (\<lambda>reply w'. durable rt w' \<and> reply_holds rt command reply (logical_of w'))"
  unfolding reply_holds_def
  by (cases command)
    (simp_all add: runtime_register_vault_def runtime_advance_checkpoint_def runtime_reserve_def
      runtime_decide_def runtime_cancel_def transition_reply transition_result_then
      transition_remaining_then with_engine_transition with_policy_engine_transition
      engine_transitions)

text \<open>The worker: every answer was durable and recorded when it was given.\<close>

definition answered_during ::
    "witness_runtime \<Rightarrow> service_world \<Rightarrow> service_world \<Rightarrow> runtime_command \<Rightarrow> runtime_reply \<Rightarrow> bool"
  where
  "answered_during rt w w' command reply \<longleftrightarrow>
     (\<exists>v. durable rt v \<and> reply_holds rt command reply (logical_of v) \<and>
       witness_run (rt_engine rt) (logical_of w) (logical_of v) \<and>
       witness_run (rt_engine rt) (logical_of v) (logical_of w'))"

lemma stays_or_steps_run: "stays_or_steps e l l' \<Longrightarrow> witness_run e l l'"
  by (auto simp: stays_or_steps_def)

lemma dispatch_run:
  assumes "dispatch rt command w = (reply, w')"
  shows "witness_run (rt_engine rt) (logical_of w) (logical_of w')"
    and "reply = Inr answer \<Longrightarrow> durable rt w' \<and> reply_holds rt command answer (logical_of w')"
  using transition_wp [OF dispatch_transition refl, of rt command w] assms
  by (auto simp: call_wp_def split: sum.splits dest: stays_or_steps_run)

lemma run_worker_run:
  assumes "run_worker rt queue w = (replies, w')"
  shows "witness_run (rt_engine rt) (logical_of w) (logical_of w') \<and>
    (\<forall>command reply. (command, Inr reply) \<in> set replies \<longrightarrow>
      answered_during rt w w' command reply)"
  using assms
proof (induction rt queue w arbitrary: replies rule: run_worker.induct)
  case (2 rt is_abandoned command queue w)
  show ?case
  proof (cases is_abandoned)
    case True
    then show ?thesis
      using 2 by simp
  next
    case False
    obtain reply v where dispatch: "dispatch rt command w = (reply, v)"
      by fastforce
    obtain rest v' where rest: "run_worker rt queue v = (rest, v')"
      by fastforce
    have replies: "replies = (command, reply) # rest" "w' = v'"
      using 2(3) False dispatch rest by auto
    note IH = 2(2) [OF False dispatch [symmetric] rest [folded replies(2)]]
    have run: "witness_run (rt_engine rt) (logical_of w) (logical_of v)"
      by (rule dispatch_run(1) [OF dispatch])
    have later: "answered_during rt w w' command' answer"
      if "answered_during rt v w' command' answer" for command' answer
      using that run by (auto simp: answered_during_def intro: rtranclp_trans)
    have now: "answered_during rt w w' command answer" if "reply = Inr answer" for answer
      using dispatch_run(2) [OF dispatch that] run IH by (auto simp: answered_during_def)
    show ?thesis
      using IH run later now by (auto simp: replies intro: rtranclp_trans)
  qed
qed auto

section \<open>The anchor's history\<close>

abbreviation keeps_anchor_chain :: "witness_runtime \<Rightarrow> (service_world, 'e, 'a) call \<Rightarrow> bool" where
  "keeps_anchor_chain rt \<equiv> call_keeps (\<lambda>w w'. anchor_path (en_hash (rt_engine rt))
     (anchored_of (rt_services rt) w) (anchored_of (rt_services rt) w'))"

lemma runtime_keeps:
  "keeps_anchor_chain rt (ensure_remaining rt')" "keeps_anchor_chain rt (open_store rt')"
  "keeps_anchor_chain rt (load_validated rt')"
  by (rule call_keepsI, rule call_wp_mono [OF ensure_remaining_wp [where cfg = "rt_services rt"]]
      call_wp_mono [OF open_store_wp [where cfg = "rt_services rt"]]
      call_wp_mono [OF load_validated_wp [where cfg = "rt_services rt"]]; simp)+

lemma dispatch_keeps: "keeps_anchor_chain rt (dispatch rt command)"
  by (cases command)
    (simp_all add: call_reply_def runtime_register_vault_def runtime_advance_checkpoint_def
      runtime_reserve_def runtime_decide_def runtime_cancel_def with_engine_def
      with_policy_engine_def services.chain_intros services.operations_keep runtime_keeps)

lemma run_worker_chain:
  "anchor_path (sc_hash (rt_services rt)) (anchored_of (rt_services rt) w)
     (anchored_of (rt_services rt) (snd (run_worker rt queue w)))"
proof (induction rt queue w rule: run_worker.induct)
  case (2 rt is_abandoned command queue w)
  have "anchor_path (sc_hash (rt_services rt)) (anchored_of (rt_services rt) w)
      (anchored_of (rt_services rt) (snd (dispatch rt command w)))"
    using dispatch_keeps [of rt command] by (simp add: call_keeps_def service_engine_def)
  then show ?case
    using 2 by (auto split: prod.split intro: rtranclp_trans)
qed simp

end
