(* ===== verification/Jury_Witness_Theorems.thy ===== *)
theory Jury_Witness_Theorems
  imports Jury_Runtime_Theorems
begin

text \<open>
  The guarantees of the witness service as theorems about its worker, each for every queue of
  commands and every schedule of store, network, clock and deadline failures. The first section
  has the deployments the closed instances are evaluated on.
\<close>

section \<open>Sample deployments\<close>

definition sample_services :: service_config where
  "sample_services =
     \<lparr>sc_hash = (\<lambda>_. fixed_repeat 14), sc_verify = (\<lambda>_ _ _. True),
      sc_principal_id = id_repeat 30, sc_public_descriptor = Inl Provider_Failure,
      sc_sign = (\<lambda>_. Inl Provider_Failure), sc_anchor_witness_id = id_repeat 30,
      sc_state_json_length = (\<lambda>_. 0), sc_anchor_json_length = (\<lambda>_. 0),
      sc_cas_request_json_length = (\<lambda>_. 0), sc_cas_response_json_length = (\<lambda>_. 0),
      sc_fault = (\<lambda>n. if n = 3 then Fault_Before else No_Fault),
      sc_system_time_ms = (\<lambda>_. 1000), sc_random = (\<lambda>_. Inl Provider_Failure),
      sc_seal = (\<lambda>_ _ _ _. Inl Provider_Failure)\<rparr>"

definition sample_runtime :: witness_runtime where
  "sample_runtime =
     \<lparr>rt_services = sample_services,
      rt_material_json = \<lparr>mj_to_vec = (\<lambda>_. None), mj_from_slice = (\<lambda>_. None)\<rparr>,
      rt_expired = (\<lambda>_. False)\<rparr>"

definition sample_logical :: "u64 \<Rightarrow> witness_replay_entry list \<Rightarrow> stored_logical_state" where
  "sample_logical last_ms entries =
     \<lparr>sl_witness_id = id_repeat 30, sl_state_generation = 0, sl_vaults = bt_empty,
      sl_replay = entries, sl_last_accepted_wall_time_ms = last_ms\<rparr>"

definition sample_world :: "stored_logical_state \<Rightarrow> service_world" where
  "sample_world l =
     \<lparr>sw_calls = 0,
      sw_state = \<lparr>row_generation = 0,
        row_state_json = \<lparr>ss_logical = l, ss_published_anchor = None, ss_pending_anchor = None\<rparr>\<rparr>,
      sw_anchor = None\<rparr>"

definition fresh_world :: service_world where
  "fresh_world = sample_world (sample_logical 0 [])"

definition sample_denial :: witness_response where
  "sample_denial =
     \<lparr>wr_decision =
        \<lparr>wd_schema = 1, wd_response_id = id_repeat 50, wd_request_id = id_repeat 1,
         wd_request_digest = fixed_repeat 14, wd_action_manifest_digest = fixed_repeat 14,
         wd_witness_id = id_repeat 30, wd_witness_signing_key_fingerprint = fixed_repeat 31,
         wd_witness_signing_key_epoch = 1, wd_witness_policy_id = id_repeat 8,
         wd_witness_policy_revision = 1, wd_witness_policy_digest = fixed_repeat 9,
         wd_policy_checkpoint_digest = fixed_repeat 21, wd_state_generation = 1,
         wd_decision = Decision_Deny, wd_reason = Reason_ApprovalDenied, wd_issued_at_ms = 1000,
         wd_expires_at_ms = 2000, wd_contribution_digest = None, wd_share_index = None,
         wd_share_commitment = None, wd_signature = fixed_repeat 0\<rparr>,
      wr_contribution = None\<rparr>"

definition sample_entry :: witness_replay_entry where
  "sample_entry =
     \<lparr>re_request = sample_request 2000, re_action_manifest_digest = fixed_repeat 14,
      re_state = Replay_Denied, re_retain_through_ms = 86402000, re_approvals = [],
      re_cancellation = None, re_response = Some sample_denial\<rparr>"

lemma stored_of_sample:
  "stored_of (sample_world l) =
     \<lparr>ps_logical =
        \<lparr>lg_witness_id = sl_witness_id l, lg_state_generation = sl_state_generation l,
         lg_vaults = sl_vaults l, lg_replay = replay_of (sl_replay l),
         lg_last_accepted_wall_time_ms = sl_last_accepted_wall_time_ms l\<rparr>,
      ps_published_anchor = None, ps_pending_anchor = None\<rparr>"
  by (simp add: stored_of_def sample_world_def snapshot_state_def)

lemma stored_of_fresh: "stored_of fresh_world = ps_empty (id_repeat 30)"
  by (simp add: fresh_world_def stored_of_sample sample_logical_def ps_empty_def lg_empty_def
      replay_of_def)

lemma sample_entry_ok: "entry_ok e (request_key (sample_request 2000)) sample_entry"
  by (simp add: entry_ok_def sample_entry_def sample_request_def sample_denial_def is_denial_def
      checked_add_def replay_retention_ms_def)

lemma sample_entry_stored:
  "bt_get (lg_replay (logical_of (sample_world (sample_logical 0 [sample_entry])))) key =
     (if key = request_key (sample_request 2000) then Some sample_entry else None)"
  by (simp add: stored_of_sample sample_logical_def replay_of_def keyed_record_def sample_entry_def)

lemma sample_state_ok:
  "state_ok (rt_engine rt) (logical_of (sample_world (sample_logical 0 [sample_entry])))"
  unfolding state_ok_def sample_entry_stored using sample_entry_ok by auto

lemmas worker_eval = sample_runtime_def sample_services_def fresh_world_def sample_world_def
  sample_logical_def call_reply_def with_engine_def ensure_remaining_def open_store_def
  load_validated_def service_call_def load_witness_state_def validate_state_length_def
  decode_persisted_state_def replay_records_deserialize_def u64_try_from_def
  canonical_database_state_def service_engine_def call_then_def call_map_err_def call_result_def
  check_ready_def ready_state_def store_load_def sqlite_load_def map_adapter_store_error_def
  validate_stored_identity_def require_published_equality_def anchor_read_def http_read_def
  handle_read_anchor_def load_anchor_def published_equality_def wall_time_def
  system_wall_time_ms_def require_safe_clock_def saturating_add_def accepted_clock_skew_ms_def
  bt_is_empty_def max_persisted_witness_state_bytes_def

lemma sample_vaults_ok: "vaults_ok (logical_of (sample_world (sample_logical last_ms entries)))"
  by (simp add: vaults_ok_def stored_of_sample sample_logical_def)

lemma sample_entry_response: "re_response sample_entry = Some sample_denial"
  by (simp add: sample_entry_def)

section \<open>The service refines the state machine\<close>

text \<open>
  C1. Whatever commands the worker runs and whichever store, anchor, clock or deadline failures
  occur, the logical state the database holds at the end is reached from the one it held at the
  start by steps of the witness state machine: registrations, checkpoint advances, reservations,
  cancellations, recorded approvals, denials, quorum-backed approvals and compactions, each
  committed with the next generation under a safe clock. No failure leaves a partial step.
\<close>

theorem worker_refines_state_machine:
  "witness_run (rt_engine rt) (logical_of w) (logical_of (snd (run_worker rt queue w)))"
  using run_worker_run [of rt queue w] by (cases "run_worker rt queue w") auto



section \<open>Invariants of the stored state\<close>

abbreviation logical_after ::
    "witness_runtime \<Rightarrow> (bool \<times> runtime_command) list \<Rightarrow> service_world \<Rightarrow> witness_logical_state" where
  "logical_after rt queue w \<equiv> logical_of (snd (run_worker rt queue w))"



section \<open>Checkpoints and anchors over time\<close>

text \<open>
  C8. The checkpoint of a registered vault only moves along its chain, and the registration
  accepted for it never changes: after any commands the vault is still registered, with a
  checkpoint reached by steps that raise the policy sequence by exactly one, name the digest of
  the checkpoint they replace and are issued later.
\<close>

theorem checkpoints_only_advance:
  assumes "vaults_ok (logical_of w)"
    and "bt_get (lg_vaults (logical_of w)) vault_id = Some vault"
  shows "\<exists>vault'. bt_get (lg_vaults (logical_after rt queue w)) vault_id = Some vault' \<and>
    rw_accepted_registration vault' = rw_accepted_registration vault \<and>
    checkpoint_path (sc_hash (rt_services rt)) (rw_current_checkpoint vault)
      (rw_current_checkpoint vault')"
proof -
  have "witness_run (rt_engine rt) (logical_of w) (logical_after rt queue w)"
    using run_worker_run [of rt queue w] by (cases "run_worker rt queue w") auto
  from run_checkpoint [OF this assms] show ?thesis
    by (simp add: service_engine_def)
qed

definition sample_checkpoint :: "u64 \<Rightarrow> vault_policy_checkpoint" where
  "sample_checkpoint sequence =
     \<lparr>cp_schema = 1, cp_vault_id = id_repeat 2, cp_genesis_fingerprint = fixed_repeat 3,
      cp_vault_policy_sequence = sequence, cp_vault_policy_hash = fixed_repeat 7,
      cp_active_witness_policy_set_digest = fixed_repeat 14,
      cp_predecessor_checkpoint_digest = fixed_repeat 14, cp_issued_at_ms = 500,
      cp_issuer_owner_id = id_repeat 10, cp_issuer_key_fingerprint = fixed_repeat 14,
      cp_issuer_key_epoch = 1, cp_signature = fixed_repeat 23\<rparr>"

definition sample_vault :: registered_witness_vault where
  "sample_vault =
     \<lparr>rw_accepted_registration = bounded_of_list [1], rw_current_checkpoint = sample_checkpoint 1,
      rw_current_policy_material = bounded_of_list [1]\<rparr>"

definition sample_vault_world :: service_world where
  "sample_vault_world =
     sample_world ((sample_logical 0 [])\<lparr>sl_vaults := bt_insert (id_repeat 2) sample_vault bt_empty\<rparr>)"

lemma sample_vault_stored:
  "bt_get (lg_vaults (logical_of sample_vault_world)) vault_id =
     (if vault_id = id_repeat 2 then Some sample_vault else None)"
  by (simp add: sample_vault_world_def stored_of_sample)

lemma sample_vault_ok: "vaults_ok (logical_of sample_vault_world)"
  unfolding vaults_ok_def sample_vault_stored
  by (auto simp: sample_vault_def sample_checkpoint_def)

theorem checkpoints_only_advance_witness:
  "\<exists>vault'. bt_get (lg_vaults (logical_after sample_runtime [(False, Command_CheckReady)]
       sample_vault_world)) (id_repeat 2) = Some vault' \<and>
     checkpoint_path (sc_hash (rt_services sample_runtime)) (sample_checkpoint 1)
       (rw_current_checkpoint vault')"
proof -
  have vault: "bt_get (lg_vaults (logical_of sample_vault_world)) (id_repeat 2) = Some sample_vault"
    by (simp add: sample_vault_stored)
  have "rw_current_checkpoint sample_vault = sample_checkpoint 1"
    by (simp add: sample_vault_def)
  then show ?thesis
    using checkpoints_only_advance [OF sample_vault_ok vault, of sample_runtime
        "[(False, Command_CheckReady)]"] by metis
qed

text \<open>
  C7. The external anchor is a hash chain. Whatever the commands and failures, the anchor held
  by the anchor service moves from its value before to its value after by steps that each raise
  the generation by one and carry the digest of the anchor they replace, the first having
  generation one and no predecessor; nothing the daemon does removes or rewinds it.
\<close>

theorem external_anchor_is_chain:
  "anchor_path (sc_hash (rt_services rt)) (anchored_of (rt_services rt) w)
     (anchored_of (rt_services rt) (snd (run_worker rt queue w)))"
  by (rule run_worker_chain)

section \<open>Refusals\<close>

text \<open>A clock that is behind the last accepted time by more than the tolerated skew.\<close>

definition clock_ms :: "service_config \<Rightarrow> nat \<Rightarrow> u64" where
  "clock_ms cfg n =
     (case u64_try_from (sc_system_time_ms cfg n) of None \<Rightarrow> 0 | Some now_ms \<Rightarrow> now_ms)"

definition clock_behind :: "service_config \<Rightarrow> witness_logical_state \<Rightarrow> bool" where
  "clock_behind cfg l \<longleftrightarrow> (\<forall>n. \<not> safe_clock l (clock_ms cfg n))"

definition refuses :: "witness_runtime \<Rightarrow> (service_world, 'e, 'a) call \<Rightarrow> bool" where
  "refuses rt call \<longleftrightarrow> (\<forall>w. clock_behind (rt_services rt) (logical_of w) \<longrightarrow>
     call_wp call (\<lambda>_ _. False) (\<lambda>_ w'. logical_of w' = logical_of w) w)"

lemma wall_time_clock:
  "call_wp (wall_time (service_engine cfg))
     (\<lambda>now_ms w'. (\<exists>n. now_ms = clock_ms cfg n) \<and> stored_of w' = stored_of w) E w"
  by (auto simp: call_wp_def wall_time_def service_engine_def system_wall_time_ms_def clock_ms_def)

lemma ready_logical:
  "call_wp (ready_state (service_engine cfg))
     (\<lambda>s w'. ps_logical s = logical_of w \<and> logical_of w' = logical_of w)
     (\<lambda>_ w'. logical_of w' = logical_of w) w"
  by (rule call_wp_mono [OF services.ready_state_wp]) (auto dest: reconciled_logical)

lemma safe_state_refuses: "refuses rt (safe_state (rt_engine rt) continue)"
  unfolding refuses_def safe_state_def call_wp_then
proof (intro allI impI)
  fix w
  assume behind: "clock_behind (rt_services rt) (logical_of w)"
  show "call_wp (wall_time (rt_engine rt)) (\<lambda>now_ms. call_wp (ready_state (rt_engine rt))
      (\<lambda>state. call_wp (call_result (require_safe_clock state now_ms))
        (\<lambda>_. call_wp (continue now_ms state) (\<lambda>_ _. False) (\<lambda>_ w'. logical_of w' = logical_of w))
        (\<lambda>_ w'. logical_of w' = logical_of w)) (\<lambda>_ w'. logical_of w' = logical_of w))
      (\<lambda>_ w'. logical_of w' = logical_of w) w"
    by (rule call_wp_mono [OF wall_time_clock [where E = "\<lambda>_ _. False"]])
      (use behind in \<open>auto simp: call_wp_result require_safe_clock_Inr clock_behind_def
        split: sum.split intro!: call_wp_mono [OF ready_logical]\<close>)
qed

lemma refuse_refuses: "refuses rt (call_refuse reason)"
  by (simp add: refuses_def call_refuse_def call_wp_result)

lemma check_ready_refuses: "refuses rt (check_ready (rt_engine rt))"
  unfolding refuses_def check_ready_def call_wp_then
proof (intro allI impI)
  fix w
  assume behind: "clock_behind (rt_services rt) (logical_of w)"
  show "call_wp (ready_state (rt_engine rt)) (\<lambda>state. call_wp (wall_time (rt_engine rt))
      (\<lambda>now_ms. call_wp (call_result (require_safe_clock state now_ms)) (\<lambda>_ _. False)
        (\<lambda>_ w'. logical_of w' = logical_of w)) (\<lambda>_ w'. logical_of w' = logical_of w))
      (\<lambda>_ w'. logical_of w' = logical_of w) w"
    by (rule call_wp_mono [OF ready_logical])
      (use behind in \<open>auto simp: call_wp_result require_safe_clock_Inr clock_behind_def
        split: sum.split intro!: call_wp_mono [OF wall_time_clock [where E = "\<lambda>_ _. False"]]\<close>)
qed

lemma operations_refuse:
  "refuses rt (operational_status (rt_engine rt))" "refuses rt (compact_replay (rt_engine rt))"
  "refuses rt (register_vault (rt_engine rt) policy registration checkpoint material)"
  "refuses rt (advance_checkpoint (rt_engine rt) policy checkpoint material)"
  "refuses rt (cancel (rt_engine rt) policy request cancellation)"
  "refuses rt (reserve (rt_engine rt) policy request manifest)"
  "refuses rt (decide (rt_engine rt) policy request manifest approvals)"
  by (simp_all add: operational_status_def compact_replay_def register_vault_def
      advance_checkpoint_def cancel_def reserve_def decide_def safe_state_refuses refuse_refuses)

lemma refuses_then:
  assumes "\<And>w. call_wp first (\<lambda>_ w'. logical_of w' = logical_of w)
      (\<lambda>_ w'. logical_of w' = logical_of w) w"
    and "\<And>x. refuses rt (continue x)"
  shows "refuses rt (call_then first continue)"
  unfolding refuses_def call_wp_then
proof (intro allI impI)
  fix w
  assume behind: "clock_behind (rt_services rt) (logical_of w)"
  have "call_wp (continue x) (\<lambda>_ _. False) (\<lambda>_ w'. logical_of w' = logical_of w) v"
    if "logical_of v = logical_of w" for x v
    using assms(2) [unfolded refuses_def, rule_format, of v x] behind that by simp
  then show "call_wp first (\<lambda>x. call_wp (continue x) (\<lambda>_ _. False)
      (\<lambda>_ w'. logical_of w' = logical_of w)) (\<lambda>_ w'. logical_of w' = logical_of w) w"
    by (rule_tac call_wp_mono [OF assms(1)]) auto
qed

lemma refuses_first: "refuses rt first \<Longrightarrow> refuses rt (call_then first continue)"
  unfolding refuses_def call_wp_then by (auto elim!: call_wp_mono)

lemma refuses_map_err: "refuses rt call \<Longrightarrow> refuses rt (call_map_err g call)"
  by (simp add: refuses_def call_wp_map_err)

lemma runtime_quiet:
  "call_wp (call_result r) (\<lambda>_ w'. logical_of w' = logical_of w) (\<lambda>_ w'. logical_of w' = logical_of w) w"
  "call_wp (ensure_remaining rt) (\<lambda>_ w'. logical_of w' = logical_of w)
     (\<lambda>_ w'. logical_of w' = logical_of w) w"
  "call_wp (open_store rt) (\<lambda>_ w'. logical_of w' = logical_of w)
     (\<lambda>_ w'. logical_of w' = logical_of w) w"
  by (auto simp: call_wp_result split: sum.split intro: call_wp_mono [OF ensure_remaining_wp]
      call_wp_mono [OF open_store_wp])

lemma with_engine_refuses: "refuses rt operation \<Longrightarrow> refuses rt (with_engine rt operation)"
  unfolding with_engine_def by (intro refuses_then runtime_quiet refuses_map_err)

lemma with_policy_engine_refuses: "refuses rt (with_policy_engine rt vault_id operation)"
  unfolding with_policy_engine_def
  by (rule refuses_then [OF runtime_quiet(2)], rule refuses_then [OF runtime_quiet(3)],
      rule refuses_then [OF runtime_quiet(2)], rule refuses_first)
    (rule refuses_map_err [OF check_ready_refuses])

lemma dispatch_refuses: "refuses rt (dispatch rt command)"
  by (cases command)
    (simp_all add: call_reply_def refuses_first with_engine_refuses check_ready_refuses
      operations_refuse runtime_reserve_def runtime_decide_def runtime_cancel_def
      with_policy_engine_refuses runtime_register_vault_def runtime_advance_checkpoint_def
      refuses_then [OF runtime_quiet(1)] refuses_then [OF runtime_quiet(2)])



section \<open>Persistence\<close>

lemma serialize_matching:
  assumes "bt_len records \<le> max_replay_records_per_service"
    and "\<And>key entry. bt_get records key = Some entry \<Longrightarrow> request_key (re_request entry) = key"
  shows "replay_records_serialize records = Inr (map snd (bt_entries records))"
proof -
  have "fold_results (\<lambda>elements (key, entry).
        if key \<noteq> (rq_vault_id (re_request entry), rq_request_id (re_request entry))
        then Inl Codec_Invalid
        else Inr (elements @ [entry])) elements es = Inr (elements @ map snd es)"
    if "set es \<subseteq> set (bt_entries records)" for elements es
    using that
  proof (induction es arbitrary: elements)
    case (Cons pair es)
    obtain key entry where pair: "pair = (key, entry)"
      by (cases pair)
    then have "request_key (re_request entry) = key"
      using Cons.prems assms(2) by (auto simp: btree.mem_entries)
    then show ?case
      using Cons pair by (auto simp: request_key_def)
  qed simp
  then show ?thesis
    using assms(1) by (simp add: replay_records_serialize_def)
qed



end
