(* ===== verification/Jury_Recovery.thy ===== *)
theory Jury_Recovery
  imports Jury_Witness_Theorems
begin

text \<open>
  Crash recovery of the witness service. A world is recoverable when its rows load and either
  agree, or hold a pending candidate the anchor service can still take or has already taken.
  Every call of the service keeps the world recoverable whatever fails, and a service whose calls
  no longer fail reaches an agreeing, ready state from every recoverable world.
\<close>

section \<open>Deployments and recoverable worlds\<close>

text \<open>
  What recovery asks of a deployment: the anchor service is configured for this witness; the
  identity's descriptor is its own and verifies its signatures; and the JSON texts have the
  lengths that follow from their format (an anchor is shorter than the reply that contains it, a
  request with any expected digest is at most as long as one with a digest, the text of a request
  is longer than the bytes its anchor signs, and moving the pending anchor into the published
  field does not lengthen a snapshot).
\<close>

definition sound_deployment :: "service_config \<Rightarrow> bool" where
  "sound_deployment cfg \<longleftrightarrow>
     sc_anchor_witness_id cfg = sc_principal_id cfg \<and>
     (\<exists>descriptor. sc_public_descriptor cfg = Inr descriptor \<and>
       pd_principal_id descriptor = sc_principal_id cfg \<and>
       (\<forall>preimage signature. sc_sign cfg preimage = Inr signature \<longrightarrow>
         sc_verify cfg (pd_verification_public_key descriptor) preimage signature)) \<and>
     (\<forall>anchor. sc_anchor_json_length cfg anchor \<le> sc_cas_response_json_length cfg
       \<lparr>acs_outcome = Outcome_Applied, acs_exact_anchor = Some anchor\<rparr>) \<and>
     (\<forall>expected anchor. sc_cas_request_json_length cfg
         \<lparr>acr_expected_anchor_digest = expected, acr_next_exact_anchor = anchor\<rparr> \<le>
       sc_cas_request_json_length cfg
         \<lparr>acr_expected_anchor_digest = Some zero_digest, acr_next_exact_anchor = anchor\<rparr>) \<and>
     (\<forall>anchor preimage. an_signature_preimage anchor = Inr preimage \<longrightarrow>
       length preimage \<le> sc_cas_request_json_length cfg
         \<lparr>acr_expected_anchor_digest = Some zero_digest, acr_next_exact_anchor = anchor\<rparr>) \<and>
     (\<forall>snapshot. sc_state_json_length cfg (snapshot\<lparr>
         ss_published_anchor := ss_pending_anchor snapshot, ss_pending_anchor := None\<rparr>) \<le>
       sc_state_json_length cfg snapshot)"

definition calm :: "service_config \<Rightarrow> service_world \<Rightarrow> bool" where
  "calm cfg w \<longleftrightarrow> (\<forall>n \<ge> sw_calls w. sc_fault cfg n = No_Fault)"

definition loads ::
    "service_config \<Rightarrow> bool \<Rightarrow> persisted_witness_state \<Rightarrow> witness_state_anchor option
      \<Rightarrow> service_world \<Rightarrow> bool" where
  "loads cfg b s a w \<longleftrightarrow>
     load_witness_state cfg (sw_state w) = Inr s \<and> row_generation (sw_state w) < 2 ^ 63 \<and>
     encode_persisted_state (sc_state_json_length cfg) s = Inr (row_state_json (sw_state w)) \<and>
     validate_stored_identity (service_engine cfg) s = Inr () \<and>
     load_anchor (sc_hash cfg) (sc_principal_id cfg) (sw_anchor w) = Inr a \<and>
     (\<forall>anchor. a = Some anchor \<longrightarrow> sc_anchor_json_length cfg anchor \<le> max_anchor_http_bytes) \<and>
     (b \<longrightarrow> calm cfg w)"

definition candidate ::
    "service_config \<Rightarrow> persisted_witness_state \<Rightarrow> witness_state_anchor \<Rightarrow> bool" where
  "candidate cfg s c \<longleftrightarrow>
     check_candidate (service_engine cfg) s = Inr c \<and> http_ensure_publishable cfg c = Inr () \<and>
     anchor_extends (sc_hash cfg) (ps_published_anchor s) c"

definition recovers :: "service_config \<Rightarrow> bool \<Rightarrow> service_world \<Rightarrow> bool" where
  "recovers cfg b w \<longleftrightarrow>
     (\<exists>s a. loads cfg b s a w \<and>
       (settles (service_engine cfg) s a \<or>
        (\<exists>c. candidate cfg s c \<and> (a = ps_published_anchor s \<or> a = Some c))))"

lemma calm_next: "calm cfg w \<Longrightarrow> calm cfg (w\<lparr>sw_calls := sw_calls w + 1\<rparr>)"
  by (simp add: calm_def)

lemma loads_weaken: "loads cfg b s a w \<Longrightarrow> (b' \<longrightarrow> b) \<Longrightarrow> loads cfg b' s a w"
  by (auto simp: loads_def)

lemma recovers_weaken: "recovers cfg b w \<Longrightarrow> (b' \<longrightarrow> b) \<Longrightarrow> recovers cfg b' w"
  unfolding recovers_def using loads_weaken by blast

lemma loads_stored: "loads cfg b s a w \<Longrightarrow> s = stored_of w"
  by (auto simp: loads_def stored_of_def dest: load_witness_state_Inr(1))

section \<open>Facts about one candidate\<close>

lemma check_candidate_facts:
  assumes "check_candidate (service_engine cfg) s = Inr c"
  shows "ps_pending_anchor s = Some c" and "validate_anchor (service_engine cfg) c = Inr ()"
    and "logical_digest (sc_hash cfg) (ps_logical s) = Inr (an_database_state_digest c)"
    and "predecessor_digest (sc_hash cfg) (ps_published_anchor s) =
      Inr (an_predecessor_anchor_digest c)"
    and "an_state_generation c = lg_state_generation (ps_logical s)"
  using assms by (auto simp: check_candidate_def service_engine_def result_simps split: if_splits)

lemma canonical_anchor:
  assumes "an_signature_preimage c = Inr preimage"
  shows "\<exists>bytes. an_canonical_bytes c = Inr bytes" and "exact_anchor_eq c c = Inr True"
  using assms
  by (auto simp: an_signature_preimage_def an_canonical_bytes_def exact_anchor_eq_def result_simps)

lemma validate_anchor_preimage:
  "validate_anchor e c = Inr () \<Longrightarrow> \<exists>preimage. an_signature_preimage c = Inr preimage"
  by (auto simp: validate_anchor_def result_simps split: if_splits)

lemma candidate_digest:
  assumes "sound_deployment cfg" and "http_ensure_publishable cfg c = Inr ()"
    and "validate_anchor (service_engine cfg) c = Inr ()"
  shows "\<exists>digest. an_digest (sc_hash cfg) c = Inr digest"
proof -
  obtain preimage where preimage: "an_signature_preimage c = Inr preimage"
    using validate_anchor_preimage [OF assms(3)] by blast
  have "length preimage \<le> max_anchor_http_bytes"
    using assms(1,2) preimage
    by (force simp: sound_deployment_def http_ensure_publishable_def ensure_bounded_json_def
        result_simps intro: order_trans)
  then have "length preimage < 2 ^ 32"
    by (simp add: max_anchor_http_bytes_def)
  then show ?thesis
    using preimage by (simp add: an_digest_def hash_signed_def w_bytes_field_def bytes_field_def
        result_simps)
qed

lemma settles_published:
  assumes "candidate cfg s c" and "validate_stored_identity (service_engine cfg) s = Inr ()"
  shows "settles (service_engine cfg) (published_state s) (Some c)"
    and "validate_stored_identity (service_engine cfg) (published_state s) = Inr ()"
proof -
  have check: "check_candidate (service_engine cfg) s = Inr c"
    using assms(1) by (simp add: candidate_def)
  note facts = check_candidate_facts [OF check]
  obtain preimage where "an_signature_preimage c = Inr preimage"
    using validate_anchor_preimage [OF facts(2)] by blast
  then have same: "exact_anchor_eq c c = Inr True"
    by (rule canonical_anchor(2))
  show identity: "validate_stored_identity (service_engine cfg) (published_state s) = Inr ()"
    using assms(2) facts(1) by (auto simp: validate_stored_identity_def published_state_def
        split: if_splits)
  show "settles (service_engine cfg) (published_state s) (Some c)"
    using identity facts same
    by (simp add: settles_def published_equality_def published_state_def service_engine_def)
qed

section \<open>The calls of the stores\<close>

lemma service_call_rec:
  assumes "b \<longrightarrow> calm cfg w"
    and "\<And>v. sw_state v = sw_state w \<Longrightarrow> sw_anchor v = sw_anchor w \<Longrightarrow> (b \<longrightarrow> calm cfg v) \<Longrightarrow>
      call_wp body Q E v \<and> (\<not> b \<longrightarrow> E unavailable v \<and> E unavailable (snd (body v)))"
  shows "call_wp (service_call cfg unavailable body) Q E w"
proof -
  have "b \<longrightarrow> calm cfg (w\<lparr>sw_calls := sw_calls w + 1\<rparr>) \<and> sc_fault cfg (sw_calls w) = No_Fault"
    using assms(1) by (auto simp: calm_def)
  then show ?thesis
    using assms(2) [of "w\<lparr>sw_calls := sw_calls w + 1\<rparr>"]
    by (auto simp: call_wp_def service_call_def Let_def split: fault.split)
qed

lemma loads_rows:
  "loads cfg b s a w \<Longrightarrow> sw_state v = sw_state w \<Longrightarrow> sw_anchor v = sw_anchor w \<Longrightarrow>
     (b \<longrightarrow> calm cfg v) \<Longrightarrow> loads cfg b s a v"
  by (simp add: loads_def)

lemma loads_calm: "loads cfg b s a w \<Longrightarrow> b \<longrightarrow> calm cfg w"
  by (simp add: loads_def)

lemma load_rec:
  assumes "loads cfg b s a w"
  shows "call_wp (store_load (service_engine cfg)) (\<lambda>x w'. x = s \<and> loads cfg b s a w')
    (\<lambda>_ w'. \<not> b \<and> loads cfg b s a w') w"
proof -
  have "call_wp (sqlite_load cfg) (\<lambda>x w'. x = s \<and> loads cfg b s a w')
      (\<lambda>_ w'. \<not> b \<and> loads cfg b s a w') w"
    unfolding sqlite_load_def
  proof (rule service_call_rec [OF loads_calm [OF assms]], goal_cases)
    case (1 v)
    then show ?case
      using loads_rows [OF assms 1] assms by (simp add: call_wp_def loads_def)
  qed
  then show ?thesis
    by (simp add: store_load_def call_wp_map_err service_engine_def)
qed

lemma read_rec:
  assumes "sound_deployment cfg" and "loads cfg b s a w"
  shows "call_wp (anchor_read (service_engine cfg)) (\<lambda>x w'. x = a \<and> loads cfg b s a w')
    (\<lambda>_ w'. \<not> b \<and> loads cfg b s a w') w"
proof -
  have "call_wp (http_read cfg) (\<lambda>x w'. x = a \<and> loads cfg b s a w')
      (\<lambda>_ w'. \<not> b \<and> loads cfg b s a w') w"
    unfolding http_read_def
  proof (rule service_call_rec [OF loads_calm [OF assms(2)]], goal_cases)
    case (1 v)
    have "validate_candidate (sc_principal_id cfg) anchor = Inr ()" if "a = Some anchor" for anchor
      using assms(2) that by (auto simp: loads_def load_anchor_def result_simps split: option.splits if_splits)
    then show ?case
      using loads_rows [OF assms(2) 1] assms 1
      by (cases a) (auto simp: call_wp_def loads_def handle_read_anchor_def sound_deployment_def
          result_simps not_less)
  qed
  then show ?thesis
    by (simp add: anchor_read_def call_wp_map_err service_engine_def)
qed

lemma loads_anchor_digest:
  "loads cfg b s (Some anchor) w \<Longrightarrow> \<exists>digest. an_digest (sc_hash cfg) anchor = Inr digest"
  by (auto simp: loads_def load_anchor_def result_simps split: option.splits if_splits)

lemma written_row_loads:
  assumes "validate_candidate i c = Inr ()" and "an_digest H c = Inr digest"
    and "uint (an_state_generation c) < 2 ^ 63"
  shows "load_anchor H i (Some \<lparr>ar_generation = uint (an_state_generation c), ar_digest = digest,
    ar_anchor = c\<rparr>) = Inr (Some c)"
proof -
  have "uint (an_state_generation c) < 2 ^ 64"
    using assms(3) by simp
  then show ?thesis
    using assms by (simp add: load_anchor_def u64_try_from_def)
qed

lemma candidate_swaps:
  assumes "sound_deployment cfg" and "loads cfg b s a w" and "candidate cfg s c"
    and "a = ps_published_anchor s \<or> a = Some c"
  shows "\<exists>expected row. transpose_result (map_option (an_digest (sc_hash cfg)) (ps_published_anchor s)) =
      Inr expected \<and>
    repository_compare_and_swap (sc_hash cfg) (sc_principal_id cfg) expected c (sw_anchor w) =
      (Inr (Cas_Result_Applied c), row) \<and>
    load_anchor (sc_hash cfg) (sc_principal_id cfg) row = Inr (Some c)"
proof -
  have check: "check_candidate (service_engine cfg) s = Inr c"
    and publishable: "http_ensure_publishable cfg c = Inr ()"
    and extends: "anchor_extends (sc_hash cfg) (ps_published_anchor s) c"
    using assms(3) by (simp_all add: candidate_def)
  note facts = check_candidate_facts [OF check]
  obtain expected where expected:
      "transpose_result (map_option (an_digest (sc_hash cfg)) (ps_published_anchor s)) = Inr expected"
    and predecessor: "an_predecessor_anchor_digest c =
      (case expected of None \<Rightarrow> zero_digest | Some d \<Rightarrow> d)"
    using facts(4) by (auto simp: predecessor_digest_def result_simps)
  obtain digest where digest: "an_digest (sc_hash cfg) c = Inr digest"
    using candidate_digest [OF assms(1) publishable facts(2)] by blast
  have valid: "validate_candidate (sc_principal_id cfg) c = Inr ()"
    using publishable by (auto simp: http_ensure_publishable_def result_simps)
  have load: "load_anchor (sc_hash cfg) (sc_principal_id cfg) (sw_anchor w) = Inr a"
    using assms(2) by (simp add: loads_def)
  have small: "uint (an_state_generation c) < 2 ^ 63"
    using assms(2) facts(5) by (auto simp: loads_def dest!: load_witness_state_Inr(2))
  show ?thesis
  proof (cases "a = Some c")
    case True
    then show ?thesis
      using expected valid load by (simp add: repository_compare_and_swap_def)
  next
    case False
    then have a: "a = ps_published_anchor s"
      using assms(4) by simp
    have "an_state_generation c = (case a of
        None \<Rightarrow> 1 | Some anchor \<Rightarrow> saturating_add (an_state_generation anchor) 1)"
      using extends a by (auto simp: anchor_extends_def split: option.splits)
    then have "prepare_swap (sc_hash cfg) expected c a =
        Inr (Some \<lparr>ar_generation = uint (an_state_generation c), ar_digest = digest, ar_anchor = c\<rparr>)"
      using expected [folded a] predecessor digest small
      by (simp add: prepare_swap_def i64_try_from_def)
    then show ?thesis
      using expected valid load False written_row_loads [OF valid digest small]
      by (simp add: repository_compare_and_swap_def)
  qed
qed

lemma candidate_posts:
  assumes "sound_deployment cfg" and "loads cfg b s a w" and "candidate cfg s c"
    and "a = ps_published_anchor s \<or> a = Some c"
  shows "\<exists>expected. transpose_result (map_option (an_digest (sc_hash cfg)) (ps_published_anchor s)) =
      Inr expected \<and>
    (\<forall>v. sw_state v = sw_state w \<longrightarrow> sw_anchor v = sw_anchor w \<longrightarrow> (b \<longrightarrow> calm cfg v) \<longrightarrow>
      (\<exists>v'. post_cas cfg \<lparr>acr_expected_anchor_digest = expected, acr_next_exact_anchor = c\<rparr> v =
        (Inr Cas_Published, v') \<and> loads cfg b s (Some c) v'))"
proof -
  obtain expected row where expected:
      "transpose_result (map_option (an_digest (sc_hash cfg)) (ps_published_anchor s)) = Inr expected"
    and swap: "repository_compare_and_swap (sc_hash cfg) (sc_principal_id cfg) expected c (sw_anchor w) =
      (Inr (Cas_Result_Applied c), row)"
    and row: "load_anchor (sc_hash cfg) (sc_principal_id cfg) row = Inr (Some c)"
    using candidate_swaps [OF assms] by blast
  have bounds: "sc_cas_response_json_length cfg
      \<lparr>acs_outcome = Outcome_Applied, acs_exact_anchor = Some c\<rparr> \<le> max_anchor_http_bytes"
    using assms(3) by (auto simp: candidate_def http_ensure_publishable_def ensure_bounded_json_def
        result_simps)
  moreover have "sc_anchor_json_length cfg c \<le> max_anchor_http_bytes"
    using bounds assms(1) by (auto simp: sound_deployment_def intro: order_trans)
  ultimately have "\<exists>v'. post_cas cfg
      \<lparr>acr_expected_anchor_digest = expected, acr_next_exact_anchor = c\<rparr> v = (Inr Cas_Published, v') \<and>
      loads cfg b s (Some c) v'"
    if "sw_state v = sw_state w" "sw_anchor v = sw_anchor w" "b \<longrightarrow> calm cfg v" for v
    using that assms(1,2) swap row
    by (simp add: post_cas_def handle_compare_and_swap_anchor_def read_cas_reply_def loads_def
        sound_deployment_def calm_def)
  then show ?thesis
    using expected by blast
qed

lemma swap_rec:
  assumes "sound_deployment cfg" and "loads cfg b s a w" and "candidate cfg s c"
    and "a = ps_published_anchor s \<or> a = Some c"
  shows "call_wp (swap_in (service_engine cfg) (ps_published_anchor s) c)
    (\<lambda>_ w'. loads cfg b s (Some c) w')
    (\<lambda>_ w'. \<not> b \<and> (loads cfg b s a w' \<or> loads cfg b s (Some c) w')) w"
proof -
  obtain expected where expected:
      "transpose_result (map_option (an_digest (sc_hash cfg)) (ps_published_anchor s)) = Inr expected"
    and post: "\<And>v. sw_state v = sw_state w \<Longrightarrow> sw_anchor v = sw_anchor w \<Longrightarrow> (b \<longrightarrow> calm cfg v) \<Longrightarrow>
      \<exists>v'. post_cas cfg \<lparr>acr_expected_anchor_digest = expected, acr_next_exact_anchor = c\<rparr> v =
        (Inr Cas_Published, v') \<and> loads cfg b s (Some c) v'"
    using candidate_posts [OF assms] by blast
  have publishable: "validate_candidate (sc_principal_id cfg) c = Inr ()"
    and small: "ensure_bounded_json (sc_cas_request_json_length cfg
      \<lparr>acr_expected_anchor_digest = expected, acr_next_exact_anchor = c\<rparr>) = Inr ()"
    using assms(1,3)
    by (auto simp: candidate_def http_ensure_publishable_def ensure_bounded_json_def result_simps
        sound_deployment_def intro: order_trans)
  have "call_wp (service_call cfg Anchor_Unavailable (post_cas cfg
      \<lparr>acr_expected_anchor_digest = expected, acr_next_exact_anchor = c\<rparr>))
      (\<lambda>outcome w'. outcome = Cas_Published \<and> loads cfg b s (Some c) w')
      (\<lambda>_ w'. \<not> b \<and> (loads cfg b s a w' \<or> loads cfg b s (Some c) w')) w"
  proof (rule service_call_rec [OF loads_calm [OF assms(2)]], goal_cases)
    case (1 v)
    then show ?case
      using post [OF 1] loads_rows [OF assms(2) 1] by (auto simp: call_wp_def)
  qed
  then have cas: "call_wp (en_compare_and_swap (service_engine cfg) (ps_published_anchor s) c)
      (\<lambda>outcome w'. outcome = Cas_Published \<and> loads cfg b s (Some c) w')
      (\<lambda>_ w'. \<not> b \<and> (loads cfg b s a w' \<or> loads cfg b s (Some c) w')) w"
    using expected publishable small
    by (simp add: service_engine_def http_compare_and_swap_def call_wp_then call_wp_result Let_def)
  then show ?thesis
    unfolding swap_in_def call_wp_then call_wp_map_err
    by (rule_tac call_wp_mono [OF cas]) (auto simp: call_wp_result)
qed

lemma moved_snapshot:
  assumes "encode_persisted_state json_length s = Inr snapshot"
    and "json_length (snapshot\<lparr>ss_published_anchor := ss_pending_anchor snapshot,
      ss_pending_anchor := None\<rparr>) \<le> json_length snapshot"
  shows "encode_persisted_state json_length (published_state s) =
    Inr (snapshot\<lparr>ss_published_anchor := ss_pending_anchor snapshot, ss_pending_anchor := None\<rparr>)"
  using assms
  by (cases "replay_records_serialize (lg_replay (ps_logical s))")
    (auto simp: encode_persisted_state_def published_state_def Let_def result_simps split: if_splits)

lemma mark_row_succeeds:
  assumes "sound_deployment cfg" and "loads cfg b s (Some c) w"
    and "check_candidate (service_engine cfg) s = Inr c" and "an_digest (sc_hash cfg) c = Inr digest"
  shows "\<exists>row. mark_row cfg digest (sw_state w) = Inr row \<and>
    load_witness_state cfg row = Inr (published_state s) \<and> row_generation row < 2 ^ 63 \<and>
    encode_persisted_state (sc_state_json_length cfg) (published_state s) = Inr (row_state_json row)"
proof -
  define snapshot where "snapshot = (row_state_json (sw_state w))\<lparr>
    ss_published_anchor := ss_pending_anchor (row_state_json (sw_state w)), ss_pending_anchor := None\<rparr>"
  define row where "row = (sw_state w)\<lparr>row_state_json := snapshot\<rparr>"
  have load: "load_witness_state cfg (sw_state w) = Inr s" "row_generation (sw_state w) < 2 ^ 63"
    "encode_persisted_state (sc_state_json_length cfg) s = Inr (row_state_json (sw_state w))"
    using assms(2) by (simp_all add: loads_def)
  note pending = check_candidate_facts(1) [OF assms(3)]
  have encode: "encode_persisted_state (sc_state_json_length cfg) (published_state s) = Inr snapshot"
    unfolding snapshot_def
    by (rule moved_snapshot [OF load(3)]) (use assms(1) in \<open>simp add: sound_deployment_def\<close>)
  have "s\<lparr>ps_pending_anchor := None, ps_published_anchor := Some c\<rparr> = published_state s"
    by (simp add: published_state_def pending)
  moreover have generation: "row_generation (sw_state w) = uint (lg_state_generation (ps_logical s))"
    by (rule load_witness_state_Inr(2) [OF load(1)])
  ultimately have "mark_row cfg digest (sw_state w) = Inr row"
    using load pending assms(4) encode
    by (simp add: mark_row_def row_def i64_try_from_def)
  moreover have "load_witness_state cfg row = Inr (published_state s)"
    using load(1) encode_snapshot(2) [OF encode] generation
    by (auto simp: load_witness_state_def row_def result_simps validate_state_length_def
        decode_persisted_state_def split: if_splits)
  ultimately show ?thesis
    using encode load(2) by (auto simp: row_def)
qed

lemma mark_rec:
  assumes "sound_deployment cfg" and "loads cfg b s (Some c) w" and "candidate cfg s c"
  shows "call_wp (mark_published (service_engine cfg) c)
    (\<lambda>_ w'. loads cfg b (published_state s) (Some c) w')
    (\<lambda>_ w'. \<not> b \<and> (loads cfg b s (Some c) w' \<or> loads cfg b (published_state s) (Some c) w')) w"
proof -
  have check: "check_candidate (service_engine cfg) s = Inr c"
    and publishable: "http_ensure_publishable cfg c = Inr ()"
    using assms(3) by (simp_all add: candidate_def)
  obtain digest where digest: "an_digest (sc_hash cfg) c = Inr digest"
    using candidate_digest [OF assms(1) publishable check_candidate_facts(2) [OF check]] by blast
  obtain row where mark: "mark_row cfg digest (sw_state w) = Inr row"
    and row: "load_witness_state cfg row = Inr (published_state s)" "row_generation row < 2 ^ 63"
      "encode_persisted_state (sc_state_json_length cfg) (published_state s) = Inr (row_state_json row)"
    using mark_row_succeeds [OF assms(1,2) check digest] by blast
  have identity: "validate_stored_identity (service_engine cfg) (published_state s) = Inr ()"
    using settles_published(2) [OF assms(3)] assms(2) by (simp add: loads_def)
  have marked: "loads cfg b (published_state s) (Some c) (v\<lparr>sw_state := row\<rparr>)"
    if "sw_anchor v = sw_anchor w" "b \<longrightarrow> calm cfg v" for v
    using assms(2) row identity that by (simp add: loads_def calm_def)
  have "call_wp (sqlite_mark_anchor_published cfg digest)
    (\<lambda>_ w'. loads cfg b (published_state s) (Some c) w')
    (\<lambda>_ w'. \<not> b \<and> (loads cfg b s (Some c) w' \<or> loads cfg b (published_state s) (Some c) w')) w"
    unfolding sqlite_mark_anchor_published_def
  proof (rule service_call_rec [OF loads_calm [OF assms(2)]], goal_cases)
    case (1 v)
    then show ?case
      using loads_rows [OF assms(2) 1] marked [of v] mark by (auto simp: call_wp_def store_transaction_def)
  qed
  then show ?thesis
    using digest
    by (simp add: mark_published_def call_wp_then call_wp_result call_wp_map_err service_engine_def)
qed

section \<open>Reconciliation\<close>

lemma recovers_pending:
  "loads cfg b s a w \<Longrightarrow> candidate cfg s c \<Longrightarrow> a = ps_published_anchor s \<or> a = Some c \<Longrightarrow>
     recovers cfg b w"
  unfolding recovers_def by blast

lemma recovers_settled:
  "loads cfg b s a w \<Longrightarrow> settles (service_engine cfg) s a \<Longrightarrow> recovers cfg b w"
  unfolding recovers_def by blast

lemma recovers_marked:
  assumes "candidate cfg s c" and "loads cfg b' s a' v" and "loads cfg b (published_state s) (Some c) w"
  shows "recovers cfg b w"
proof (rule recovers_settled [OF assms(3)])
  show "settles (service_engine cfg) (published_state s) (Some c)"
    by (rule settles_published(1) [OF assms(1)]) (use assms(2) in \<open>simp add: loads_def\<close>)
qed

lemma anchor_self: "an_digest H c = Inr d \<Longrightarrow> exact_anchor_eq c c = Inr True"
  by (auto simp: an_digest_def and_then_Inr dest: canonical_anchor(2))

lemma publish_pending_rec:
  assumes "sound_deployment cfg" and "loads cfg b s a w" and "candidate cfg s c"
    and "a = ps_published_anchor s \<or> a = Some c"
  shows "call_wp (publish_pending (service_engine cfg) s)
    (\<lambda>_ w'. loads cfg b (published_state s) (Some c) w')
    (\<lambda>_ w'. \<not> b \<and> recovers cfg b w') w"
proof -
  have check: "check_candidate (service_engine cfg) s = Inr c"
    using assms(3) by (simp add: candidate_def)
  have self: "exact_anchor_eq c c = Inr True"
    using validate_anchor_preimage [OF check_candidate_facts(2) [OF check]]
    by (auto dest: canonical_anchor(2))
  have mark: "call_wp (mark_published (service_engine cfg) c)
      (\<lambda>_ w'. loads cfg b (published_state s) (Some c) w') (\<lambda>_ w'. \<not> b \<and> recovers cfg b w') v"
    if "loads cfg b s (Some c) v" for v
    by (rule call_wp_mono [OF mark_rec [OF assms(1) that assms(3)]])
      (auto intro: recovers_pending [OF _ assms(3)] recovers_marked [OF assms(3) that])
  have recover: "recovers cfg b' v" if "loads cfg b' s a v" for b' v
    by (rule recovers_pending [OF that assms(3,4)])
  define finish where "finish readback =
    call_then (call_result (ok_or (Engine_Refused Reason_AnchorConflict) readback)) (\<lambda>readback.
    call_then (call_result (exact_anchor_eq readback c)) (\<lambda>equal.
    if \<not> equal then call_refuse Reason_AnchorConflict
    else mark_published (service_engine cfg) c))" for readback
  have finish: "call_wp (finish (Some c)) (\<lambda>_ w'. loads cfg b (published_state s) (Some c) w')
      (\<lambda>_ w'. \<not> b \<and> recovers cfg b w') v" if "loads cfg b s (Some c) v" for v
    using mark [OF that] by (simp add: finish_def call_wp_then call_wp_result self)
  note read = read_rec [OF assms(1), THEN call_wp_mono]
  show ?thesis
  proof (cases "a = Some c")
    case True
    then show ?thesis
      unfolding publish_pending_def check call_wp_then call_wp_result sum.case
      by (intro read [OF assms(2)]) (auto simp: is_exactly_def self intro: mark recover [unfolded True])
  next
    case False
    then have a: "a = ps_published_anchor s"
      using assms(4) by simp
    have "\<not> is_exactly a c"
      using False by (auto simp: is_exactly_def split: option.splits sum.splits dest: exact_anchor_eq_True)
    moreover have "predecessor_matches s a = Inr True"
      using loads_anchor_digest [of cfg b s _ w] assms(2)
      by (cases a) (auto simp: predecessor_matches_def a [symmetric] dest: anchor_self)
    moreover have "call_wp (swap_in (service_engine cfg) (ps_published_anchor s) c)
      (\<lambda>_. call_wp (anchor_read (service_engine cfg)) (\<lambda>readback. call_wp (finish readback)
        (\<lambda>_ w'. loads cfg b (published_state s) (Some c) w') (\<lambda>_ w'. \<not> b \<and> recovers cfg b w'))
        (\<lambda>_ w'. \<not> b \<and> recovers cfg b w')) (\<lambda>_ w'. \<not> b \<and> recovers cfg b w') v"
      if "loads cfg b s a v" for v
      by (rule call_wp_mono [OF swap_rec [OF assms(1) that assms(3,4)]])
        (auto intro!: read intro: finish recovers_pending [OF _ assms(3)] recover)
    ultimately show ?thesis
      unfolding publish_pending_def check call_wp_then call_wp_result sum.case
      by (intro read [OF assms(2)]) (auto simp: wp_simps finish_def intro: recover)
  qed
qed

lemma equality_rec:
  assumes "sound_deployment cfg" and "loads cfg b s a w" and "settles (service_engine cfg) s a"
  shows "call_wp (require_published_equality (service_engine cfg) s) (\<lambda>_ w'. loads cfg b s a w')
    (\<lambda>_ w'. \<not> b \<and> recovers cfg b w') w"
  unfolding require_published_equality_def call_wp_then
  by (rule call_wp_mono [OF read_rec [OF assms(1,2)]])
    (use assms(3) in \<open>auto simp: wp_simps settles_def intro: recovers_settled [OF _ assms(3)]\<close>)

lemma settled_rec:
  assumes "sound_deployment cfg" and "loads cfg b s a w" and "settles (service_engine cfg) s a"
  shows "call_wp (call_then (store_load (service_engine cfg)) (\<lambda>ready.
     call_then (call_result (validate_stored_identity (service_engine cfg) ready)) (\<lambda>_.
     if ps_pending_anchor ready \<noteq> None then call_refuse Reason_AnchorConflict
     else
     call_then (require_published_equality (service_engine cfg) ready) (\<lambda>_.
     call_result (Inr ready)))))
    (\<lambda>ready w'. loads cfg b ready a w' \<and> settles (service_engine cfg) ready a)
    (\<lambda>_ w'. \<not> b \<and> recovers cfg b w') w"
proof -
  have equal: "call_wp (call_then (require_published_equality (service_engine cfg) s)
      (\<lambda>_. call_result (Inr s))) (\<lambda>ready w'. loads cfg b ready a w' \<and> settles (service_engine cfg) ready a)
      (\<lambda>_ w'. \<not> b \<and> recovers cfg b w') v" if "loads cfg b s a v" for v
    unfolding call_wp_then
    by (rule call_wp_mono [OF equality_rec [OF assms(1) that assms(3)]])
      (use assms(3) in \<open>auto simp: call_wp_result\<close>)
  have "ps_pending_anchor s = None" "validate_stored_identity (service_engine cfg) s = Inr ()"
    using assms(3) by (simp_all add: settles_def)
  with equal show ?thesis
    unfolding call_wp_then
    by (intro call_wp_mono [OF load_rec [OF assms(2)]])
      (auto simp: call_wp_then call_wp_result intro: recovers_settled [OF _ assms(3)])
qed

lemma ready_state_rec:
  assumes "sound_deployment cfg" and "recovers cfg b w"
  shows "call_wp (ready_state (service_engine cfg))
    (\<lambda>s w'. \<exists>a. loads cfg b s a w' \<and> settles (service_engine cfg) s a)
    (\<lambda>_ w'. \<not> b \<and> recovers cfg b w') w"
proof -
  obtain s a where loads: "loads cfg b s a w"
    and state: "settles (service_engine cfg) s a \<or>
      (\<exists>c. candidate cfg s c \<and> (a = ps_published_anchor s \<or> a = Some c))"
    using assms(2) unfolding recovers_def by blast
  define finish where "finish = call_then (store_load (service_engine cfg)) (\<lambda>ready.
     call_then (call_result (validate_stored_identity (service_engine cfg) ready)) (\<lambda>_.
     if ps_pending_anchor ready \<noteq> None then call_refuse Reason_AnchorConflict
     else
     call_then (require_published_equality (service_engine cfg) ready) (\<lambda>_.
     call_result (Inr ready))))"
  define reconcile where "reconcile state = (if ps_pending_anchor state \<noteq> None
    then publish_pending (service_engine cfg) state
    else require_published_equality (service_engine cfg) state)" for state
  have finish: "call_wp finish (\<lambda>s w'. \<exists>a. loads cfg b s a w' \<and> settles (service_engine cfg) s a)
      (\<lambda>_ w'. \<not> b \<and> recovers cfg b w') v"
    if "loads cfg b ready x v" "settles (service_engine cfg) ready x" for ready x v
    unfolding finish_def
    by (rule call_wp_mono [OF settled_rec [OF assms(1) that]]) auto
  have "call_wp (reconcile s) (\<lambda>_. call_wp finish
      (\<lambda>s w'. \<exists>a. loads cfg b s a w' \<and> settles (service_engine cfg) s a)
      (\<lambda>_ w'. \<not> b \<and> recovers cfg b w')) (\<lambda>_ w'. \<not> b \<and> recovers cfg b w') v"
    if "loads cfg b s a v" for v
    using state
  proof
    assume settled: "settles (service_engine cfg) s a"
    then have eq: "reconcile s = require_published_equality (service_engine cfg) s"
      by (simp add: reconcile_def settles_def)
    show ?thesis
      unfolding eq by (rule call_wp_mono [OF equality_rec [OF assms(1) that settled]])
        (auto intro: finish [OF _ settled])
  next
    assume "\<exists>c. candidate cfg s c \<and> (a = ps_published_anchor s \<or> a = Some c)"
    then obtain c where c: "candidate cfg s c" and a: "a = ps_published_anchor s \<or> a = Some c"
      by blast
    have eq: "reconcile s = publish_pending (service_engine cfg) s"
      using c by (auto simp: reconcile_def candidate_def dest: check_candidate_facts(1))
    have settled: "settles (service_engine cfg) (published_state s) (Some c)"
      by (rule settles_published(1) [OF c]) (use that in \<open>simp add: loads_def\<close>)
    show ?thesis
      unfolding eq by (rule call_wp_mono [OF publish_pending_rec [OF assms(1) that c a]])
        (auto intro: finish [OF _ settled])
  qed
  moreover have "recovers cfg b v" if "loads cfg b s a v" for v
    using state that unfolding recovers_def by blast
  moreover have "validate_stored_identity (service_engine cfg) s = Inr ()"
    using loads by (simp add: loads_def)
  moreover have "ready_state (service_engine cfg) = call_then (store_load (service_engine cfg)) (\<lambda>state.
      call_then (call_result (validate_stored_identity (service_engine cfg) state)) (\<lambda>_.
      call_then (reconcile state) (\<lambda>_. finish)))"
    by (simp add: ready_state_def reconcile_def finish_def [abs_def])
  ultimately show ?thesis
    by (simp add: call_wp_then)
      (rule call_wp_mono [OF load_rec [OF loads]], auto simp: call_wp_then call_wp_result)
qed

lemma settles_anchor: "settles e s a \<Longrightarrow> a = ps_published_anchor s"
  by (elim settles_cases) auto

lemma ready_settled:
  assumes "sound_deployment cfg" and "loads cfg b s a w" and "settles (service_engine cfg) s a"
  shows "call_wp (ready_state (service_engine cfg)) (\<lambda>s' w'. s' = s \<and> loads cfg b s a w')
    (\<lambda>_ w'. \<not> b \<and> recovers cfg b w') w"
proof (rule call_wp_mono [OF call_wp_conj [OF services.ready_state_wp
        ready_state_rec [OF assms(1) recovers_settled [OF assms(2,3)]]]], goal_cases)
  case (1 s' w')
  then obtain a' where "loads cfg b s' a' w'" "settles (service_engine cfg) s' a'"
    by blast
  moreover have "s' = s"
    using 1 assms(3) loads_stored [OF assms(2)] by (auto simp: reconciled_def settles_def)
  ultimately show ?case
    using settles_anchor assms(3) by metis
qed auto

lemma loads_row:
  assumes "loads cfg b s a w" and "loads cfg b' s a' w'"
  shows "sw_state w' = sw_state w"
  using assms load_witness_state_Inr(2) [of cfg "sw_state w" s]
    load_witness_state_Inr(2) [of cfg "sw_state w'" s]
  by (intro state_row.equality) (simp_all add: loads_def)

section \<open>Commits\<close>

text \<open>A state an operation derived from the settled state it loaded.\<close>

definition based :: "service_config \<Rightarrow> persisted_witness_state \<Rightarrow> service_world \<Rightarrow> bool" where
  "based cfg s w \<longleftrightarrow>
     (\<exists>s0 a. loads cfg False s0 a w \<and> settles (service_engine cfg) s0 a \<and>
       ps_published_anchor s = ps_published_anchor s0 \<and>
       lg_state_generation (ps_logical s) = lg_state_generation (ps_logical s0))"

lemma based_recovers: "based cfg s w \<Longrightarrow> recovers cfg False w"
  unfolding based_def using recovers_settled by blast

lemma service_engine_simps:
  "en_hash (service_engine cfg) = sc_hash cfg" "en_verify (service_engine cfg) = sc_verify cfg"
  "en_public_descriptor (service_engine cfg) = sc_public_descriptor cfg"
  "en_sign_witness_statement (service_engine cfg) = sc_sign cfg"
  by (simp_all add: service_engine_def)

lemma build_anchor_facts:
  assumes "sound_deployment cfg" and "build_anchor (service_engine cfg) s now_ms = Inr c"
  shows "validate_anchor (service_engine cfg) c = Inr ()"
    and "logical_digest (sc_hash cfg) (ps_logical s) = Inr (an_database_state_digest c)"
    and "predecessor_digest (sc_hash cfg) (ps_published_anchor s) =
      Inr (an_predecessor_anchor_digest c)"
    and "an_state_generation c = lg_state_generation (ps_logical s)"
proof -
  have preimage: "an_signature_preimage (c\<lparr>an_signature := zero_signature\<rparr>) = an_signature_preimage c"
    by (simp add: an_signature_preimage_def an_validate_shape_def an_append_fields_def)
  have "\<exists>descriptor bytes. sc_public_descriptor cfg = Inr descriptor \<and>
      an_witness_id c = pd_principal_id descriptor \<and>
      an_witness_signing_key_fingerprint c =
        engine_signing_fingerprint (service_engine cfg) descriptor \<and>
      an_witness_signing_key_epoch c = 1 \<and>
      an_signature_preimage (c\<lparr>an_signature := zero_signature\<rparr>) = Inr bytes \<and>
      sc_sign cfg bytes = Inr (an_signature c)"
    using assms(2)
    by (auto simp: build_anchor_def engine_descriptor_def service_engine_simps result_simps Let_def)
  then show "validate_anchor (service_engine cfg) c = Inr ()"
    using assms(1)
    by (auto simp: validate_anchor_def engine_descriptor_def service_engine_simps
        sound_deployment_def preimage)
  show "logical_digest (sc_hash cfg) (ps_logical s) = Inr (an_database_state_digest c)"
    "predecessor_digest (sc_hash cfg) (ps_published_anchor s) =
      Inr (an_predecessor_anchor_digest c)"
    "an_state_generation c = lg_state_generation (ps_logical s)"
    using assms(2) by (auto simp: build_anchor_def service_engine_simps result_simps Let_def)
qed

lemma next_extends:
  assumes "settles (service_engine cfg) s a"
    and "checked_add (lg_state_generation (ps_logical s)) 1 = Some (an_state_generation c)"
    and "predecessor_digest (sc_hash cfg) (ps_published_anchor s) =
      Inr (an_predecessor_anchor_digest c)"
  shows "anchor_extends (sc_hash cfg) (ps_published_anchor s) c"
  using assms(1)
proof (cases rule: settles_cases)
  case empty
  then show ?thesis
    using assms(2,3)
    by (auto simp: anchor_extends_def predecessor_digest_def checked_add_def
        split: if_splits)
next
  case (anchored anchor)
  then show ?thesis
    using assms(2,3)
    by (auto simp: anchor_extends_def predecessor_digest_def checked_add_def saturating_add_def
        result_simps split: if_splits)
qed

lemma committed_candidate:
  assumes "sound_deployment cfg" and "settles (service_engine cfg) s0 a"
    and "ps_published_anchor s = ps_published_anchor s0"
    and "checked_add (lg_state_generation (ps_logical s0)) 1 =
      Some (lg_state_generation (ps_logical s))"
    and "build_anchor (service_engine cfg) s now_ms = Inr c"
    and "http_ensure_publishable cfg c = Inr ()"
  shows "candidate cfg (s\<lparr>ps_pending_anchor := Some c\<rparr>) c"
proof -
  note facts = build_anchor_facts [OF assms(1,5)]
  have "anchor_extends (sc_hash cfg) (ps_published_anchor s) c"
    using next_extends [OF assms(2), of c] assms(3,4) facts by simp
  then show ?thesis
    using facts assms(6)
    by (simp add: candidate_def check_candidate_def service_engine_def)
qed

lemma committed_row_loads:
  assumes "loads cfg b s0 a w" and "candidate cfg s c"
    and "commit_row cfg generation s (sw_state w) = Inr row" and "sw_anchor v = sw_anchor w"
    and "b \<longrightarrow> calm cfg v"
  shows "loads cfg b s a (v\<lparr>sw_state := row\<rparr>)"
proof -
  have check: "check_candidate (service_engine cfg) s = Inr c"
    using assms(2) by (simp add: candidate_def)
  have id: "lg_witness_id (ps_logical s) = sc_principal_id cfg"
    and small: "uint (lg_state_generation (ps_logical s)) < 2 ^ 63"
    and encode: "encode_persisted_state (sc_state_json_length cfg) s = Inr (row_state_json row)"
    and generation: "row_generation row = uint (lg_state_generation (ps_logical s))"
    using assms(3) by (auto simp: commit_row_def result_simps i64_try_from_def split: if_splits)
  obtain database where "canonical_database_state (sc_hash cfg) (ps_logical s) = Inr database"
    using check_candidate_facts(3) [OF check] by (auto simp: logical_digest_def result_simps)
  moreover have "u64_try_from (row_generation row) = Some (lg_state_generation (ps_logical s))"
    using small by (simp add: u64_try_from_def generation)
  moreover have "sc_state_json_length cfg (row_state_json row) \<le> max_persisted_witness_state_bytes"
    using encode by (auto simp: encode_persisted_state_def result_simps Let_def split: if_splits)
  ultimately have "load_witness_state cfg row = Inr s"
    using encode_snapshot(2) [OF encode] id
    by (simp add: load_witness_state_def validate_state_length_def)
  moreover have "lg_state_generation (ps_logical s) \<noteq> 0"
    using check_candidate_facts(2,5) [OF check]
    by (auto simp: validate_anchor_def an_signature_preimage_def an_validate_shape_def
        result_simps split: if_splits)
  then have "validate_stored_identity (service_engine cfg) s = Inr ()"
    using id by (simp add: validate_stored_identity_def service_engine_def)
  ultimately show ?thesis
    using assms(1,4,5) encode generation small by (simp add: loads_def calm_def)
qed

lemma commit_rec:
  assumes "sound_deployment cfg" and "based cfg s w"
  shows "call_wp (commit_and_publish (service_engine cfg) s now_ms)
    (\<lambda>_. recovers cfg False) (\<lambda>_. recovers cfg False) w"
proof -
  obtain s0 a where loads: "loads cfg False s0 a w" and settled: "settles (service_engine cfg) s0 a"
    and published: "ps_published_anchor s = ps_published_anchor s0"
    and generation: "lg_state_generation (ps_logical s) = lg_state_generation (ps_logical s0)"
    using assms(2) by (auto simp: based_def)
  have keep: "recovers cfg False v" if "sw_state v = sw_state w" "sw_anchor v = sw_anchor w" for v
    using recovers_settled [OF _ settled] loads_rows [OF loads that] by simp
  have commit: "call_wp (sqlite_commit cfg g s') (\<lambda>_. recovers cfg False) (\<lambda>_. recovers cfg False) w"
    if "candidate cfg s' c" "ps_published_anchor s' = ps_published_anchor s0" for g s' c
    unfolding sqlite_commit_def
  proof (rule service_call_rec [where b = False], simp, goal_cases)
    case (1 v)
    have "a = ps_published_anchor s0"
      using settled by (elim settles_cases) auto
    then have "recovers cfg False (v\<lparr>sw_state := row\<rparr>)" if "commit_row cfg g s' (sw_state v) = Inr row" for row
      using recovers_pending [OF committed_row_loads [OF loads \<open>candidate cfg s' c\<close>]] 1
        \<open>candidate cfg s' c\<close> \<open>ps_published_anchor s' = _\<close> that by simp
    then show ?case
      using keep [OF 1(1,2)] by (auto simp: call_wp_def store_transaction_def split: sum.split)
  qed
  have publish: "call_wp (ready_state (service_engine cfg)) (\<lambda>_. recovers cfg False)
      (\<lambda>_. recovers cfg False) v" if "recovers cfg False v" for v
    by (rule call_wp_mono [OF ready_state_rec [OF assms(1) that]]) (auto intro: recovers_settled)
  show ?thesis
  proof (cases "checked_add (lg_state_generation (ps_logical s)) 1")
    case None
    then show ?thesis
      using keep [of w] by (simp add: commit_and_publish_def Let_def wp_simps)
  next
    case (Some generation')
    define s1 where "s1 = s\<lparr>ps_logical := (ps_logical s)\<lparr>lg_state_generation := generation',
      lg_last_accepted_wall_time_ms := max (lg_last_accepted_wall_time_ms (ps_logical s)) now_ms\<rparr>\<rparr>"
    have "call_wp (call_map_err map_store_error (sqlite_commit cfg g (s1\<lparr>ps_pending_anchor := Some c\<rparr>)))
        (\<lambda>_. call_wp (ready_state (service_engine cfg)) (\<lambda>_. recovers cfg False) (\<lambda>_. recovers cfg False))
        (\<lambda>_. recovers cfg False) w"
      if "build_anchor (service_engine cfg) s1 now_ms = Inr c" "http_ensure_publishable cfg c = Inr ()"
      for c g
    proof -
      have "candidate cfg (s1\<lparr>ps_pending_anchor := Some c\<rparr>) c"
        by (rule committed_candidate [OF assms(1) settled _ _ that])
          (use Some generation published in \<open>simp_all add: s1_def\<close>)
      then show ?thesis
        unfolding call_wp_map_err
        by (rule call_wp_mono [OF commit]) (auto simp: s1_def published intro: publish)
    qed
    then show ?thesis
      using keep [of w] Some
      by (simp add: commit_and_publish_def Let_def call_wp_then s1_def call_wp_result call_wp_map_err
          service_engine_def split: sum.split)
  qed
qed

text \<open>A commit that no call fails goes through.\<close>

lemma commit_total:
  assumes "sound_deployment cfg" and "loads cfg True s0 a w" and "settles (service_engine cfg) s0 a"
    and "ps_published_anchor s = ps_published_anchor s0"
    and "lg_state_generation (ps_logical s) = lg_state_generation (ps_logical s0)"
    and "checked_add (lg_state_generation (ps_logical s)) 1 = Some generation"
    and "committed_state = s\<lparr>ps_logical := (ps_logical s)\<lparr>lg_state_generation := generation,
      lg_last_accepted_wall_time_ms := max (lg_last_accepted_wall_time_ms (ps_logical s)) now_ms\<rparr>\<rparr>"
    and "build_anchor (service_engine cfg) committed_state now_ms = Inr c"
    and "http_ensure_publishable cfg c = Inr ()"
    and "commit_row cfg (lg_state_generation (ps_logical s)) (committed_state\<lparr>ps_pending_anchor := Some c\<rparr>)
      (sw_state w) = Inr row"
  shows "call_wp (commit_and_publish (service_engine cfg) s now_ms) (\<lambda>_ _. True) (\<lambda>_ _. False) w"
proof -
  have "candidate cfg (committed_state\<lparr>ps_pending_anchor := Some c\<rparr>) c"
    by (rule committed_candidate [OF assms(1,3) _ _ assms(8,9)])
      (use assms(4-7) in \<open>simp_all\<close>)
  moreover have "a = ps_published_anchor s0"
    using assms(3) by (elim settles_cases) auto
  moreover have calm: "calm cfg (w\<lparr>sw_calls := sw_calls w + 1\<rparr>)"
    by (rule calm_next) (use loads_calm [OF assms(2)] in simp)
  ultimately have "recovers cfg True (w\<lparr>sw_calls := sw_calls w + 1, sw_state := row\<rparr>)"
    using recovers_pending [OF committed_row_loads [OF assms(2) _ assms(10), of c
        "w\<lparr>sw_calls := sw_calls w + 1\<rparr>"]] assms(4,7) by simp
  from ready_state_rec [OF assms(1) this]
  have "call_wp (ready_state (service_engine cfg)) (\<lambda>_ _. True) (\<lambda>_ _. False)
      (w\<lparr>sw_calls := sw_calls w + 1, sw_state := row\<rparr>)"
    by (rule call_wp_mono) auto
  moreover have "sc_fault cfg (sw_calls w) = No_Fault"
    using loads_calm [OF assms(2)] by (simp add: calm_def)
  then have "sqlite_commit cfg (lg_state_generation (ps_logical s)) (committed_state\<lparr>ps_pending_anchor := Some c\<rparr>) w =
      (Inr (), w\<lparr>sw_calls := sw_calls w + 1, sw_state := row\<rparr>)"
    using assms(10) by (simp add: sqlite_commit_def service_call_def store_transaction_def)
  ultimately show ?thesis
    using assms(6-9)
    by (simp add: commit_and_publish_def Let_def call_wp_then call_wp_result call_wp_map_err)
      (simp add: service_engine_def call_wp_def call_result_def call_map_err_def)
qed

section \<open>Operations keep the service recoverable\<close>

abbreviation keeps_rows :: "(service_world, 'e, 'a) call \<Rightarrow> bool" where
  "keeps_rows \<equiv> call_keeps (\<lambda>w w'. sw_state w' = sw_state w \<and> sw_anchor w' = sw_anchor w)"

abbreviation keeps_recovery :: "service_config \<Rightarrow> (service_world, 'e, 'a) call \<Rightarrow> bool" where
  "keeps_recovery cfg \<equiv> call_keeps (\<lambda>w w'. recovers cfg False w \<longrightarrow> recovers cfg False w')"

abbreviation commits :: "service_config \<Rightarrow> persisted_witness_state \<Rightarrow> (service_world, 'e, 'a) call \<Rightarrow> bool"
  where
  "commits cfg s \<equiv> call_keeps (\<lambda>w w'. based cfg s w \<longrightarrow> recovers cfg False w')"

interpretation rows: world_order "\<lambda>w w'. sw_state w' = sw_state w \<and> sw_anchor w' = sw_anchor w"
  by unfold_locales auto

interpretation recovery: world_order "\<lambda>w w'. recovers cfg False w \<longrightarrow> recovers cfg False w'" for cfg
  by unfold_locales auto

lemma rows_services:
  "keeps_rows (wall_time (service_engine cfg))" "keeps_rows (en_fill (service_engine cfg))"
  "keeps_rows (en_seal_witness_contribution (service_engine cfg) suite capsule target)"
  by (simp_all add: call_keeps_def wall_time_def service_engine_def scheduled_def
      system_wall_time_ms_def)

lemmas rows_intros = keeps_intros rows.keeps_result rows.keeps_then rows.keeps_map_err
  rows.keeps_fold rows_services

lemma rows_responses:
  "keeps_rows (denial_response (service_engine cfg) request digest reason generation now_ms)"
  "keeps_rows (approval_response (service_engine cfg) request manifest validated generation now_ms)"
  unfolding denial_response_def approval_response_def random_response_id_def Let_def
  by (intro rows_intros)+

lemma rows_deny_stale:
  "keeps_rows (deny_stale (service_engine cfg) generation now_ms replay stale)"
  unfolding deny_stale_def by (intro rows_intros rows_responses)

lemma based_rows:
  "based cfg s w \<Longrightarrow> sw_state v = sw_state w \<Longrightarrow> sw_anchor v = sw_anchor w \<Longrightarrow> based cfg s v"
  unfolding based_def loads_def by auto

lemma recovers_rows:
  "recovers cfg False w \<Longrightarrow> sw_state v = sw_state w \<Longrightarrow> sw_anchor v = sw_anchor w \<Longrightarrow>
     recovers cfg False v"
  unfolding recovers_def loads_def by auto

lemma rows_recovery: "keeps_rows call \<Longrightarrow> keeps_recovery cfg call"
  unfolding call_keeps_def using recovers_rows by blast

lemma commits_result: "commits cfg s (call_result r)"
  by (simp add: call_keeps_def call_result_def based_recovers)

lemma commits_refuse: "commits cfg s (call_refuse reason)"
  by (simp add: call_refuse_def commits_result)

lemma commits_then:
  assumes "keeps_rows call" and "\<And>x. commits cfg s (continue x)"
  shows "commits cfg s (call_then call continue)"
  unfolding call_keeps_def
proof (intro allI impI)
  fix w
  assume "based cfg s w"
  then have based: "based cfg s (snd (call w))"
    using assms(1) based_rows unfolding call_keeps_def by blast
  show "recovers cfg False (snd (call_then call continue w))"
    using based based_recovers [OF based] assms(2)
    by (cases "call w") (auto simp: call_then_def call_keeps_def split: sum.splits)
qed

lemma commits_commit:
  assumes "sound_deployment cfg" and "ps_published_anchor s' = ps_published_anchor s"
    and "lg_state_generation (ps_logical s') = lg_state_generation (ps_logical s)"
    and "\<And>x. keeps_recovery cfg (continue x)"
  shows "commits cfg s (call_then (commit_and_publish (service_engine cfg) s' now_ms) continue)"
  unfolding call_keeps_def
proof (intro allI impI)
  fix w
  assume "based cfg s w"
  then have "based cfg s' w"
    using assms(2,3) by (simp add: based_def)
  then have recovers: "recovers cfg False (snd (commit_and_publish (service_engine cfg) s' now_ms w))"
    using commit_rec [OF assms(1)] by (simp add: call_wp_snd)
  then show "recovers cfg False
      (snd (call_then (commit_and_publish (service_engine cfg) s' now_ms) continue w))"
    using assms(4)
    by (cases "commit_and_publish (service_engine cfg) s' now_ms w")
      (auto simp: call_then_def call_keeps_def split: sum.splits)
qed

lemma ready_keeps: "sound_deployment cfg \<Longrightarrow> keeps_recovery cfg (ready_state (service_engine cfg))"
  unfolding call_keeps_def call_wp_snd [symmetric]
  by (intro allI impI, rule call_wp_mono [OF ready_state_rec]) (auto intro: recovers_settled)

lemma safe_state_keeps:
  assumes "sound_deployment cfg" and "\<And>now_ms s. commits cfg s (continue now_ms s)"
  shows "keeps_recovery cfg (safe_state (service_engine cfg) continue)"
proof -
  have clock: "commits cfg s (call_then (call_result (require_safe_clock s now_ms))
      (\<lambda>_. continue now_ms s))" for s now_ms
    by (rule commits_then [OF rows.keeps_result assms(2)])
  have "call_wp (call_then (ready_state (service_engine cfg)) (\<lambda>s.
      call_then (call_result (require_safe_clock s now_ms)) (\<lambda>_. continue now_ms s)))
      (\<lambda>_. recovers cfg False) (\<lambda>_. recovers cfg False) w"
    if "recovers cfg False w" for now_ms w
    unfolding call_wp_then [of "ready_state _"]
  proof (rule call_wp_mono [OF ready_state_rec [OF assms(1) that]], goal_cases)
    case (1 s v)
    then have "based cfg s v"
      by (auto simp: based_def)
    then show ?case
      unfolding call_wp_snd using clock unfolding call_keeps_def by blast
  qed simp
  then have "keeps_recovery cfg (call_then (ready_state (service_engine cfg)) (\<lambda>s.
      call_then (call_result (require_safe_clock s now_ms)) (\<lambda>_. continue now_ms s)))" for now_ms
    by (simp add: call_keeps_def call_wp_snd)
  then show ?thesis
    unfolding safe_state_def by (rule recovery.keeps_then [OF rows_recovery [OF rows_services(1)]])
qed

lemma based_with [simp]:
  "ps_published_anchor (with_replay s r) = ps_published_anchor s"
  "lg_state_generation (ps_logical (with_replay s r)) = lg_state_generation (ps_logical s)"
  "ps_published_anchor (with_vaults s v) = ps_published_anchor s"
  "lg_state_generation (ps_logical (with_vaults s v)) = lg_state_generation (ps_logical s)"
  by (simp_all add: with_replay_def with_vaults_def)

lemma operations_keep_recovery:
  assumes "sound_deployment cfg"
  shows "keeps_recovery cfg (check_ready (service_engine cfg))"
    and "keeps_recovery cfg (operational_status (service_engine cfg))"
    and "keeps_recovery cfg (compact_replay (service_engine cfg))"
    and "keeps_recovery cfg (register_vault (service_engine cfg) policy registration checkpoint material)"
    and "keeps_recovery cfg (advance_checkpoint (service_engine cfg) policy checkpoint material)"
    and "keeps_recovery cfg (cancel (service_engine cfg) policy request cancellation)"
    and "keeps_recovery cfg (reserve (service_engine cfg) policy request manifest)"
    and "keeps_recovery cfg (decide (service_engine cfg) policy request manifest approvals)"
proof -
  have denial: "commits cfg s (store_denial (service_engine cfg) request known key reason now_ms s)"
    for request known key reason now_ms s
    unfolding store_denial_def
    by (intro commits_then commits_commit [OF assms] recovery.keeps_result rows_responses) simp_all
  note intros = keeps_intros commits_result commits_refuse commits_commit [OF assms]
    recovery.keeps_result denial commits_then rows.keeps_result rows.keeps_fold rows_deny_stale
    rows_responses
  have refuse: "keeps_recovery cfg (call_refuse reason)" for reason
    by (simp add: call_refuse_def recovery.keeps_result)
  show "keeps_recovery cfg (check_ready (service_engine cfg))"
    unfolding check_ready_def
    by (intro recovery.keeps_then ready_keeps [OF assms] rows_recovery [OF rows_services(1)]
        recovery.keeps_result)
  show "keeps_recovery cfg (operational_status (service_engine cfg))"
    unfolding operational_status_def Let_def
    by (intro safe_state_keeps [OF assms] intros)
  show "keeps_recovery cfg (compact_replay (service_engine cfg))"
    unfolding compact_replay_def Let_def
    by (intro safe_state_keeps [OF assms] intros) simp_all
  show "keeps_recovery cfg (register_vault (service_engine cfg) policy registration checkpoint material)"
    unfolding register_vault_def Let_def
    by (intro safe_state_keeps [OF assms] intros refuse) simp_all
  show "keeps_recovery cfg (advance_checkpoint (service_engine cfg) policy checkpoint material)"
    unfolding advance_checkpoint_def Let_def
    by (intro safe_state_keeps [OF assms] intros refuse) simp_all
  show "keeps_recovery cfg (cancel (service_engine cfg) policy request cancellation)"
    unfolding cancel_def cancel_entry_def Let_def
    by (intro safe_state_keeps [OF assms] intros refuse) simp_all
  show "keeps_recovery cfg (reserve (service_engine cfg) policy request manifest)"
    unfolding reserve_def Let_def
    by (intro safe_state_keeps [OF assms] intros refuse) simp_all
  show "keeps_recovery cfg (decide (service_engine cfg) policy request manifest approvals)"
    unfolding decide_def decide_open_def conclude_def Let_def
    by (intro safe_state_keeps [OF assms] intros refuse) simp_all
qed

section \<open>The worker keeps the service recoverable\<close>

lemma runtime_rows:
  "keeps_rows (ensure_remaining rt)" "keeps_rows (load_validated rt)" "keeps_rows (open_store rt)"
proof -
  show load: "keeps_rows (load_validated rt)"
    by (auto simp: call_keeps_def load_validated_def service_call_def Let_def split: fault.split)
  show "keeps_rows (ensure_remaining rt)"
    by (simp add: call_keeps_def ensure_remaining_def)
  show "keeps_rows (open_store rt)"
    unfolding open_store_def by (intro rows_intros load)
qed

lemma dispatch_recovery:
  assumes "sound_deployment (rt_services rt)"
  shows "keeps_recovery (rt_services rt) (dispatch rt command)"
proof -
  note operations = operations_keep_recovery [OF assms]
  note intros = recovery.keeps_then recovery.keeps_map_err recovery.keeps_result
    rows_recovery [OF runtime_rows(1)] rows_recovery [OF runtime_rows(2)]
    rows_recovery [OF runtime_rows(3)] operations
  have engine: "keeps_recovery (rt_services rt) (with_engine rt operation)"
    if "keeps_recovery (rt_services rt) operation" for operation :: "(service_world, 'a) engine_call"
    unfolding with_engine_def by (intro intros that)
  have policy: "keeps_recovery (rt_services rt) (with_policy_engine rt vault_id operation)"
    if "\<And>policy. keeps_recovery (rt_services rt) (operation policy)"
    for vault_id and operation :: "policy_state \<Rightarrow> (service_world, 'a) engine_call"
    unfolding with_policy_engine_def by (intro intros that)
  show ?thesis
    by (cases command)
      (simp_all add: call_reply_def runtime_register_vault_def runtime_advance_checkpoint_def
        runtime_reserve_def runtime_decide_def runtime_cancel_def intros engine policy)
qed

lemma run_worker_recovery:
  assumes "sound_deployment (rt_services rt)" and "recovers (rt_services rt) False w"
  shows "recovers (rt_services rt) False (snd (run_worker rt queue w))"
  using assms
proof (induction rt queue w rule: run_worker.induct)
  case (2 rt is_abandoned command queue w)
  have "recovers (rt_services rt) False (snd (dispatch rt command w))"
    using dispatch_recovery [OF 2(3), of command] 2(4) by (simp add: call_keeps_def)
  then show ?case
    using 2 by (auto split: prod.split)
qed simp

lemma initialized_recovers:
  assumes "store_initialize cfg = Inr row" and "sw_state w = row" and "sw_anchor w = None"
    and "b \<longrightarrow> calm cfg w"
  shows "recovers cfg b w"
proof (rule recovers_settled)
  define s where "s = ps_empty (sc_principal_id cfg)"
  have encode: "encode_persisted_state (sc_state_json_length cfg) s = Inr (row_state_json row)"
    and generation: "row_generation row = 0"
    using assms(1) by (auto simp: store_initialize_def s_def result_simps)
  have "sc_state_json_length cfg (row_state_json row) \<le> max_persisted_witness_state_bytes"
    using encode by (auto simp: encode_persisted_state_def result_simps Let_def split: if_splits)
  then have "load_witness_state cfg row = Inr s"
    using encode_snapshot(2) [OF encode]
    by (simp add: load_witness_state_def validate_state_length_def generation u64_try_from_def
        s_def ps_empty_def lg_empty_def canonical_database_state_def)
  moreover have identity: "validate_stored_identity (service_engine cfg) s = Inr ()"
    by (simp add: validate_stored_identity_def s_def ps_empty_def lg_empty_def service_engine_def
        bt_is_empty_def)
  ultimately show "loads cfg b s None w"
    using assms encode generation by (simp add: loads_def load_anchor_def)
  show "settles (service_engine cfg) s None"
    using identity by (simp add: settles_def published_equality_def)
      (simp add: s_def ps_empty_def lg_empty_def)
qed

section \<open>A calm service becomes ready\<close>

interpretation calls: world_order "\<lambda>w w'. sw_calls w \<le> sw_calls w'"
  by unfold_locales auto

abbreviation keeps_calls :: "(service_world, 'e, 'a) call \<Rightarrow> bool" where
  "keeps_calls \<equiv> call_keeps (\<lambda>w w'. sw_calls w \<le> sw_calls w')"

lemma service_calls:
  assumes "keeps_calls body"
  shows "keeps_calls (service_call cfg unavailable body)"
  unfolding call_keeps_def
proof
  fix w
  have "sw_calls (w\<lparr>sw_calls := sw_calls w + 1\<rparr>) \<le> sw_calls (snd (body (w\<lparr>sw_calls := sw_calls w + 1\<rparr>)))"
    using assms unfolding call_keeps_def by blast
  then show "sw_calls w \<le> sw_calls (snd (service_call cfg unavailable body w))"
    by (auto simp: service_call_def Let_def split: fault.split)
qed

lemma store_calls:
  "keeps_calls (en_load (service_engine cfg))" "keeps_calls (en_mark_anchor_published (service_engine cfg) d)"
  "keeps_calls (en_read (service_engine cfg))"
  "keeps_calls (en_compare_and_swap (service_engine cfg) x c)"
proof -
  have transaction: "keeps_calls (store_transaction update)" for update
    by (auto simp: call_keeps_def store_transaction_def split: sum.split)
  have post: "keeps_calls (post_cas cfg request)" for request
    by (auto simp: call_keeps_def post_cas_def split: prod.split)
  show "keeps_calls (en_load (service_engine cfg))" "keeps_calls (en_read (service_engine cfg))"
    by (auto simp: service_engine_def sqlite_load_def http_read_def intro!: service_calls)
      (auto simp: call_keeps_def)
  show "keeps_calls (en_mark_anchor_published (service_engine cfg) d)"
    by (auto simp: service_engine_def sqlite_mark_anchor_published_def intro!: service_calls transaction)
  show "keeps_calls (en_compare_and_swap (service_engine cfg) x c)"
    by (auto simp: service_engine_def http_compare_and_swap_def Let_def
        intro!: service_calls calls.keeps_then calls.keeps_result post)
qed

definition steady :: "witness_runtime \<Rightarrow> witness_logical_state \<Rightarrow> nat \<Rightarrow> bool" where
  "steady rt l n \<longleftrightarrow>
     (\<forall>m \<ge> n. sc_fault (rt_services rt) m = No_Fault \<and> \<not> rt_expired rt m \<and>
       safe_clock l (clock_ms (rt_services rt) m))"

lemma keeps_outcome:
  "call_keeps R c \<Longrightarrow> call_keeps R d \<Longrightarrow>
     call_keeps R (case outcome of Cas_Published \<Rightarrow> c | Cas_Conflict \<Rightarrow> d)"
  by (cases outcome) auto

lemma ready_calls: "keeps_calls (ready_state (service_engine cfg))"
  unfolding ready_state_def publish_pending_def require_published_equality_def mark_published_def
    swap_in_def anchor_read_def store_load_def call_refuse_def
  by (intro keeps_intros keeps_outcome calls.keeps_then calls.keeps_result calls.keeps_map_err
      store_calls)

lemma recovers_calm:
  assumes "recovers cfg False w" and "calm cfg w"
  shows "recovers cfg True w"
  using assms unfolding recovers_def loads_def by auto

lemma wall_time_now:
  "call_wp (wall_time (service_engine cfg)) Q E w \<longleftrightarrow>
     Q (clock_ms cfg (sw_calls w)) (w\<lparr>sw_calls := sw_calls w + 1\<rparr>)"
  by (simp add: call_wp_def wall_time_def service_engine_def system_wall_time_ms_def clock_ms_def)

lemma check_ready_succeeds:
  assumes "sound_deployment (rt_services rt)" and "recovers (rt_services rt) True w"
    and "steady rt (logical_of w) (sw_calls w)"
  shows "call_wp (check_ready (rt_engine rt))
    (\<lambda>_ w'. settles (rt_engine rt) (stored_of w') (anchored_of (rt_services rt) w') \<and>
      logical_of w' = logical_of w) (\<lambda>_ _. False) w"
proof -
  have "call_wp (ready_state (rt_engine rt))
      (\<lambda>s w'. settles (rt_engine rt) (stored_of w') (anchored_of (rt_services rt) w') \<and>
        s = stored_of w' \<and> logical_of w' = logical_of w \<and> sw_calls w \<le> sw_calls w')
      (\<lambda>_ _. False) w"
    by (rule call_wp_mono [OF call_wp_conj [OF services.ready_state_wp
          call_wp_conj [OF call_keeps_wp [OF ready_calls] ready_state_rec [OF assms(1,2)]]]])
      (auto dest: reconciled_logical)
  moreover have "require_safe_clock (stored_of v) (clock_ms (rt_services rt) (sw_calls v)) = Inr ()"
    if "logical_of v = logical_of w" "sw_calls w \<le> sw_calls v" for v
    using assms(3) that by (simp add: steady_def require_safe_clock_Inr)
  ultimately show ?thesis
    unfolding check_ready_def call_wp_then
    by (elim call_wp_mono) (auto simp: wall_time_now call_wp_result anchored_of_def)
qed

lemma steady_later: "steady rt l n \<Longrightarrow> n \<le> m \<Longrightarrow> steady rt l m"
  by (auto simp: steady_def)

lemma steady_calm: "steady rt l (sw_calls w) \<Longrightarrow> calm (rt_services rt) w"
  by (simp add: steady_def calm_def)

lemma dispatch_ready:
  assumes "sound_deployment (rt_services rt)" and "recovers (rt_services rt) False w"
    and "steady rt (logical_of w) (sw_calls w)"
  shows "\<exists>w'. dispatch rt Command_CheckReady w = (Inr Reply_Ready, w') \<and>
    settles (rt_engine rt) (stored_of w') (anchored_of (rt_services rt) w') \<and>
    logical_of w' = logical_of w"
proof -
  define v where "v = w\<lparr>sw_calls := sw_calls w + 3\<rparr>"
  have rows: "sw_state v = sw_state w" "sw_anchor v = sw_anchor w" "logical_of v = logical_of w"
    by (simp_all add: v_def)
  have steady: "steady rt (logical_of v) (sw_calls v)"
    using steady_later [OF assms(3)] rows by (simp add: v_def)
  have "recovers (rt_services rt) True v"
    by (rule recovers_calm [OF recovers_rows [OF assms(2) rows(1,2)] steady_calm [OF steady]])
  note ready = check_ready_succeeds [OF assms(1) this steady]
  have now: "sc_fault (rt_services rt) m = No_Fault" "\<not> rt_expired rt m" if "sw_calls w \<le> m" for m
    using assms(3) that by (auto simp: steady_def)
  obtain s where "load_witness_state (rt_services rt) (sw_state w) = Inr s"
    using assms(2) by (auto simp: recovers_def loads_def)
  then have "with_engine rt (check_ready (rt_engine rt)) w =
      call_map_err map_engine_error (check_ready (rt_engine rt)) v"
    using now
    by (simp add: with_engine_def call_then_def ensure_remaining_def open_store_def call_map_err_def
        load_validated_def service_call_def call_result_def v_def numeral_3_eq_3)
  then show ?thesis
    using ready rows(3)
    by (cases "check_ready (rt_engine rt) v")
      (auto simp: call_reply_def call_then_def call_map_err_def call_result_def call_wp_def
        split: sum.splits)
qed

end
