(* ===== verification/Jury_Scenario.thy ===== *)
theory Jury_Scenario
  imports Jury_Recovery Jury_Policy_Quorum
begin

text \<open>
  A concrete deployment in which one approver's approval makes the witness contribute: a policy
  state with a witnessed item, a request for it with its manifest, the approval, and a witness
  service that has registered the vault and reserved the request. The hash is constant, every
  signature verifies and no call fails.
\<close>

section \<open>A vault with a witnessed item\<close>

definition scene_request :: witness_request where
  "scene_request = (sample_request 2000)
     \<lparr>rq_policy_checkpoint_digest := fixed_repeat 14, rq_witness_policy_digest := fixed_repeat 14\<rparr>"

definition scene_manifest :: action_manifest where
  "scene_manifest = (sample_manifest 500)\<lparr>mf_witness_policy_digest := fixed_repeat 14\<rparr>"

definition scene_approver :: approver_policy_descriptor where
  "scene_approver = sample_approver\<lparr>apd_allowed_operations := [Core_ChildStdin]\<rparr>"

definition scene_member :: "u8 \<Rightarrow> u8 \<Rightarrow> witness_policy_descriptor" where
  "scene_member n share = (sample_member n)
     \<lparr>wpd_share_index := share, wpd_signing_key_fingerprint := fixed_repeat (n + 1),
      wpd_contribution_key_fingerprint := fixed_repeat (n + 2)\<rparr>"

definition scene_rule :: operation_rule where
  "scene_rule =
     \<lparr>or_operation = Core_ChildStdin, or_eligible_approver_ids = [id_repeat 21],
      or_approval_threshold = 1, or_allowed_request_lifetime_ms = 1000,
      or_max_timeout_ms = 1000, or_max_output_bytes = 4096, or_max_target_count = 1,
      or_required_platform_assurance = CorePlatform_NormalizedPathOnly,
      or_automatic_read_targets = []\<rparr>"

definition scene_witness_policy :: witness_policy where
  "scene_witness_policy =
     \<lparr>wp_schema = 1, wp_witness_policy_id = id_repeat 8, wp_revision = 1,
      wp_predecessor_policy_digest = zero_digest, wp_vault_id = id_repeat 2,
      wp_genesis_fingerprint = fixed_repeat 3, wp_vault_policy_sequence = 1,
      wp_vault_policy_hash = fixed_repeat 3, wp_construction = 1, wp_suite = 1,
      wp_approver_descriptors = [scene_approver],
      wp_witness_descriptors = [scene_member 30 1, scene_member 40 2],
      wp_witness_threshold = 2, wp_operation_rules = [scene_rule],
      wp_review_label_set_digest = fixed_repeat 3, wp_direct_fallback = False\<rparr>"

definition scene_capsule :: "u8 \<Rightarrow> u8 \<Rightarrow> witness_share_capsule" where
  "scene_capsule n share =
     \<lparr>cap_capsule_schema = 1, cap_protocol = 1, cap_construction = 1, cap_vault_id = id_repeat 2,
      cap_genesis_fingerprint = fixed_repeat 3, cap_item_id = id_repeat 4, cap_key_epoch = 1,
      cap_item_access_mode = Mode_WitnessedOnly, cap_slot_id = id_repeat 5,
      cap_content_role = Content_Body, cap_revision = 1, cap_revision_seal_id = id_repeat 6,
      cap_vault_policy_sequence = 1, cap_witness_policy_id = id_repeat 8,
      cap_witness_policy_revision = 1, cap_witness_policy_digest = fixed_repeat 14,
      cap_threshold = 2, cap_member_count = 2, cap_witness_id = id_repeat n,
      cap_contribution_key_fingerprint = fixed_repeat (n + 2), cap_share_index = share,
      cap_context_digest = fixed_repeat 14, cap_share_commitment = fixed_repeat 15,
      cap_encapsulation = fixed_repeat n, cap_ciphertext = fixed_repeat n\<rparr>"

definition scene_slot :: witnessed_slot where
  "scene_slot =
     \<lparr>ws_slot_schema = 1, ws_slot_algorithm = 2, ws_suite = 1, ws_protocol = 1,
      ws_construction = 1, ws_vault_id = id_repeat 2, ws_genesis_fingerprint = fixed_repeat 3,
      ws_item_id = id_repeat 4, ws_key_epoch = 1, ws_item_access_mode = Mode_WitnessedOnly,
      ws_slot_id = id_repeat 5, ws_content_role = Content_Body, ws_revision = 1,
      ws_revision_seal_id = id_repeat 6, ws_vault_policy_sequence = 1,
      ws_witness_policy_id = id_repeat 8, ws_witness_policy_revision = 1,
      ws_witness_policy_digest = fixed_repeat 14, ws_threshold = 2, ws_member_count = 2,
      ws_capsules = [scene_capsule 30 1, scene_capsule 40 2],
      ws_capsule_set_digest = fixed_repeat 14\<rparr>"

definition scene_principal :: "u8 \<Rightarrow> principal_policy_state" where
  "scene_principal n =
     \<lparr>pps_descriptor = sample_descriptor n Kind_Human, pps_display_label = ''''\<rparr>"

definition scene_state :: policy_state where
  "scene_state =
     \<lparr>st_suite = 1, st_vault_id = id_repeat 2, st_genesis_fingerprint = fixed_repeat 3,
      st_sequence = 1, st_terminal_revision_hash = fixed_repeat 7,
      st_revision_hashes = [fixed_repeat 3, fixed_repeat 7],
      st_principals = bt_insert (id_repeat 11) (scene_principal 11)
        (bt_insert (id_repeat 10) (scene_principal 10) bt_empty),
      st_historical_principal_descriptors = bt_empty, st_historical_principal_ids = bt_empty,
      st_historical_recipient_keys = bt_empty, st_historical_verification_keys = bt_empty,
      st_owners = bts_insert (id_repeat 11) bt_empty,
      st_items = bt_insert (id_repeat 4)
        \<lparr>ips_item_kind = Item_Canonical, ips_key_epoch = 1, ips_descriptor = sample_metadata 1,
         ips_current_item_revision_hash = fixed_repeat 6,
         ips_grants = bt_insert (id_repeat 10) Role_Reader bt_empty, ips_direct_slots = [],
         ips_witnessed_state = Some \<lparr>wst_slots = [scene_slot], wst_digest = fixed_repeat 14\<rparr>\<rparr>
        bt_empty,
      st_historical_item_ids = bt_empty, st_tombstones = bt_empty,
      st_witness_policies = bt_insert (fixed_repeat 14) scene_witness_policy bt_empty\<rparr>"

definition scene_checkpoint :: vault_policy_checkpoint where
  "scene_checkpoint = (sample_checkpoint 1)\<lparr>cp_issuer_owner_id := id_repeat 11\<rparr>"

definition scene_approval :: approval_decision where
  "scene_approval =
     \<lparr>ap_schema = 1, ap_approval_id = id_repeat 60, ap_request_id = id_repeat 1,
      ap_request_digest = fixed_repeat 14, ap_action_manifest_digest = fixed_repeat 14,
      ap_presentation_digest = fixed_repeat 13, ap_witness_policy_id = id_repeat 8,
      ap_witness_policy_revision = 1, ap_witness_policy_digest = fixed_repeat 14,
      ap_approver_id = id_repeat 21, ap_approver_key_fingerprint = fixed_repeat 14,
      ap_approver_key_epoch = 1, ap_approval_mode = Approval_Human,
      ap_decision = Approval_Approve, ap_reason = Reason_None, ap_issued_at_ms = 1000,
      ap_not_before_ms = None, ap_expires_at_ms = 2000, ap_nonce = id_repeat 61,
      ap_intended_witness_set_digest = fixed_repeat 14, ap_signature = fixed_repeat 1\<rparr>"

section \<open>A deployment\<close>

definition scene_contribution :: witness_contribution_envelope where
  "scene_contribution =
     \<lparr>ce_schema = 1, ce_response_id = id_repeat 50, ce_share_index = 1,
      ce_share_commitment = fixed_repeat 15, ce_capsule_context_digest = fixed_repeat 14,
      ce_capsule_set_digest = fixed_repeat 14,
      ce_request_session_key_fingerprint = fixed_repeat 14, ce_encapsulation = fixed_repeat 1,
      ce_ciphertext = fixed_repeat 1\<rparr>"

definition scene_services :: "(nat \<Rightarrow> fault) \<Rightarrow> service_config" where
  "scene_services faults =
     \<lparr>sc_hash = (\<lambda>_. fixed_repeat 14), sc_verify = (\<lambda>_ _ _. True), sc_principal_id = id_repeat 30,
      sc_public_descriptor = Inr (sample_descriptor 30 Kind_Witness),
      sc_sign = (\<lambda>_. Inr (fixed_repeat 1)), sc_anchor_witness_id = id_repeat 30,
      sc_state_json_length = (\<lambda>_. 0), sc_anchor_json_length = (\<lambda>_. 0),
      sc_cas_request_json_length = (\<lambda>request.
        case an_signature_preimage (acr_next_exact_anchor request) of
          Inl _ \<Rightarrow> 0 | Inr preimage \<Rightarrow> length preimage),
      sc_cas_response_json_length = (\<lambda>_. 0), sc_fault = faults,
      sc_system_time_ms = (\<lambda>_. 1500), sc_random = (\<lambda>_. Inr (fixed_repeat 50)),
      sc_seal = (\<lambda>_ _ _ _. Inr scene_contribution)\<rparr>"

lemma scene_sound: "sound_deployment (scene_services faults)"
  by (auto simp: sound_deployment_def scene_services_def split: sum.split)

section \<open>The request is valid\<close>

lemma scene_request_valid: "rq_validate_shape (\<lambda>_. fixed_repeat 14) scene_request = Inr ()"
  using sample_request_valid(1)
  by (simp add: rq_validate_shape_def scene_request_def)

lemma scene_request_bytes:
  "\<exists>bytes. rq_signature_preimage (\<lambda>_. fixed_repeat 14) scene_request = Inr bytes"
  "\<exists>bytes. rq_canonical_bytes (\<lambda>_. fixed_repeat 14) scene_request = Inr bytes"
  "rq_digest (\<lambda>_. fixed_repeat 14) scene_request = Inr (fixed_repeat 14)"
  "rq_intended_witness_set_digest (\<lambda>_. fixed_repeat 14) scene_request = Inr (fixed_repeat 14)"
  by (simp_all add: rq_digest_def rq_signature_preimage_def rq_canonical_bytes_def
      scene_request_valid rq_intended_witness_set_digest_def)
    (simp_all add: scene_request_def sample_request_def rq_append_fields_def iw_canonical_bytes_def
      run_simps max_request_bytes_def)

lemma scene_manifest_valid: "mf_validate_shape (\<lambda>_. fixed_repeat 14) scene_manifest = Inr ()"
proof -
  have target: "at_digest (\<lambda>_. fixed_repeat 14) (mf_approval_target scene_manifest) = Inr (fixed_repeat 14)"
    by (simp add: scene_manifest_def sample_manifest_def at_digest_def at_canonical_bytes_def
        max_manifest_targets_def ate_canonical_bytes_def run_simps)
  show ?thesis
    by (simp add: mf_validate_shape_def target)
      (simp add: scene_manifest_def sample_manifest_def mf_validate_workload_shape_def
        mf_target_is_approved_def mf_sink_shape_def mf_secret_arguments_match_def valid_interval_def
        checked_sub_def max_arguments_def max_environment_names_def max_request_lifetime_ms_def)
qed

lemma scene_manifest_digest:
  "mf_digest (\<lambda>_. fixed_repeat 14) scene_manifest = Inr (fixed_repeat 14)"
  "mf_workload_digest (\<lambda>_. fixed_repeat 14) scene_manifest = Inr (fixed_repeat 14)"
  by (simp_all add: mf_digest_def mf_canonical_body_def mf_workload_digest_def
      mf_workload_preimage_def scene_manifest_valid)
    (simp_all add: scene_manifest_def sample_manifest_def operation_context_canonical_bytes_def
      at_canonical_bytes_def max_manifest_targets_def ate_canonical_bytes_def
      max_manifest_bytes_def wt_canonical_bytes_def run_simps)

lemma scene_manifest_matches:
  "validate_request_manifest (\<lambda>_. fixed_repeat 14) scene_request scene_manifest = Inr ()"
  by (simp add: validate_request_manifest_def scene_request_valid scene_manifest_valid
      scene_manifest_digest)
    (simp add: scene_request_def sample_request_def scene_manifest_def sample_manifest_def
      protocol_version_def construction_def request_differs_from_manifest_def)

lemma scene_policy_digest:
  "wp_digest (\<lambda>_. fixed_repeat 14) scene_witness_policy = Inr (fixed_repeat 14)"
  by (simp add: wp_digest_def wp_canonical_body_def hash_body_def preimage_with_body_def
      scene_witness_policy_def apd_canonical_bytes_def apd_canonical_body_def wpd_canonical_bytes_def
      wpd_canonical_body_def or_canonical_bytes_def scene_approver_def sample_approver_def
      scene_member_def sample_member_def scene_rule_def policy_encoders_run vault_encoders_run
      framable_def)

lemma scene_checkpoint_digest:
  "cp_digest (\<lambda>_. fixed_repeat 14) scene_checkpoint = Inr (fixed_repeat 14)"
  by (simp add: cp_digest_def cp_signature_preimage_def cp_validate_shape_def scene_checkpoint_def
      sample_checkpoint_def cp_append_fields_def run_simps)

lemma scene_state_fields:
  "st_vault_id scene_state = id_repeat 2" "st_genesis_fingerprint scene_state = fixed_repeat 3"
  "st_sequence scene_state = 1" "st_terminal_revision_hash scene_state = fixed_repeat 7"
  "st_is_owner scene_state p \<longleftrightarrow> p = id_repeat 11"
  "st_principal scene_state (id_repeat 10) = Some (scene_principal 10)"
  "st_principal scene_state (id_repeat 11) = Some (scene_principal 11)"
  "st_witness_policy scene_state (fixed_repeat 14) = Some scene_witness_policy"
  "bt_get (st_witness_policies scene_state) (fixed_repeat 14) = Some scene_witness_policy"
  "predecessor_hash_for_sequence scene_state 1 = Some (fixed_repeat 3)"
  by (auto simp: scene_state_def st_is_owner_def bts_insert_def st_principal_def
      st_witness_policy_def predecessor_hash_for_sequence_def slice_get_def)

lemma scene_active_policies:
  "active_witness_policy_entries (\<lambda>_. fixed_repeat 14) scene_state =
     Inr [(fixed_repeat 14, scene_witness_policy)]"
proof -
  have "bt_keys (bts_of_list (map ws_witness_policy_digest (st_witnessed_slots scene_state))) =
      [fixed_repeat 14]"
    by (simp add: scene_state_def st_witnessed_slots_def bt_values_def scene_slot_def bts_of_list_def
        bts_insert_def bt_keys_def map_filter_simps)
  then show ?thesis
    by (simp add: active_witness_policy_entries_def scene_state_fields scene_policy_digest)
      (simp add: scene_witness_policy_def scene_state_fields wp_active_witnesses_def scene_member_def
        sample_member_def)
qed

lemma scene_checkpoint_valid:
  "validate_checkpoint (service_engine (scene_services faults)) scene_state scene_checkpoint = Inr ()"
proof -
  have "validate_checkpoint_policy (\<lambda>_. fixed_repeat 14) (\<lambda>_ _ _. True) scene_state scene_checkpoint =
      Inr [scene_witness_policy]"
    by (simp add: validate_checkpoint_policy_def scene_active_policies)
      (simp add: scene_checkpoint_def sample_checkpoint_def scene_state_fields scene_principal_def
        cp_validate_shape_def active_witness_policy_set_digest_def signing_key_fingerprint_def
        cp_signature_preimage_def run_simps max_current_slots_def)
  then show ?thesis
    by (simp add: validate_checkpoint_def validate_checkpoint_public_def service_engine_simps
        engine_descriptor_def)
      (simp add: scene_services_def scene_witness_policy_def scene_member_def sample_member_def)
qed

definition scene_access_rule :: witness_access_rule where
  "scene_access_rule =
     \<lparr>war_policy_id = id_repeat 8, war_policy_revision = 1, war_policy_digest = fixed_repeat 14,
      war_operation = Core_ChildStdin, war_eligible_approver_ids = [id_repeat 21],
      war_approval_threshold = 1, war_witness_ids = [id_repeat 30, id_repeat 40],
      war_witness_threshold = 2, war_allowed_request_lifetime_ms = 1000, war_max_timeout_ms = 1000,
      war_max_output_bytes = 4096, war_max_target_count = 1,
      war_required_platform_assurance = CorePlatform_NormalizedPathOnly,
      war_automatic_read_targets = [], war_carries_quorum_claim = True\<rparr>"

lemma scene_authority:
  "\<exists>reachable. witness_authority_of scene_state (id_repeat 4) = Inr (Some
     \<lparr>wa_policy_id = id_repeat 8, wa_policy_revision = 1, wa_policy_digest = fixed_repeat 14,
      wa_threshold = 2, wa_member_ids = [id_repeat 30, id_repeat 40], wa_reachable = reachable,
      wa_carries_quorum_claim = True\<rparr>)"
  by (simp add: witness_authority_of_def scene_state_def slice_first_def scene_slot_def
      scene_capsule_def Let_def)

lemma scene_rule_found:
  "witness_access_rule_of scene_state (id_repeat 4) Core_ChildStdin = Inr scene_access_rule"
  using scene_authority
  by (auto simp: witness_access_rule_of_def scene_state_fields)
    (simp add: scene_witness_policy_def scene_rule_def scene_access_rule_def
      wp_active_witnesses_def scene_member_def sample_member_def)

lemma scene_access:
  "ax_allowed (access scene_state (id_repeat 4) (id_repeat 10) Capability_Read)"
  "ax_effective_role (access scene_state (id_repeat 4) (id_repeat 10) Capability_Read) =
     Some Role_Reader"
  by (simp_all add: access_def scene_state_def effective_role_def bts_insert_def Let_def)

lemma scene_item:
  "request_item_slot scene_state scene_request scene_witness_policy scene_access_rule = Inr scene_slot"
  by (simp add: request_item_slot_def st_item_def scene_state_def scene_request_def
      sample_request_def ips_access_mode_def request_slot_matches_def scene_slot_def
      scene_witness_policy_def scene_access_rule_def expected_witnesses_def scene_member_def
      sample_member_def)

lemma scene_witnesses:
  "validate_intended_witnesses (\<lambda>_. fixed_repeat 14) scene_state scene_request scene_witness_policy =
     Inr ()"
proof -
  have "rq_intended_witness_set scene_request = expected_witnesses scene_witness_policy"
    by (simp add: scene_request_def sample_request_def scene_witness_policy_def
        expected_witnesses_def scene_member_def sample_member_def)
  moreover have "st_intended_witness_set_digest (\<lambda>_. fixed_repeat 14) scene_state (id_repeat 4) =
      Inr (fixed_repeat 14)"
    using scene_authority
    by (auto simp: st_intended_witness_set_digest_def scene_state_fields)
      (simp add: scene_witness_policy_def wp_active_witnesses_def scene_member_def
        sample_member_def vault_encoders_run framable_def)
  moreover have "rq_item_id scene_request = id_repeat 4"
    by (simp add: scene_request_def sample_request_def)
  ultimately show ?thesis
    by (simp add: validate_intended_witnesses_def scene_request_bytes)
qed

lemma scene_request_policy:
  "validate_request_policy (\<lambda>_. fixed_repeat 14) (\<lambda>_ _ _. True) scene_state scene_request =
     Inr \<lparr>vrp_rule = scene_access_rule, vrp_policy = scene_witness_policy, vrp_slot = scene_slot\<rparr>"
proof -
  obtain bytes where "rq_signature_preimage (\<lambda>_. fixed_repeat 14) scene_request = Inr bytes"
    using scene_request_bytes(1) by blast
  then have "validate_requester (\<lambda>_. fixed_repeat 14) (\<lambda>_ _ _. True) scene_state scene_request = Inr ()"
    by (simp add: validate_requester_def)
      (simp add: scene_request_def sample_request_def scene_state_fields scene_principal_def
        signing_key_fingerprint_def)
  moreover have fields: "rq_vault_id scene_request = id_repeat 2"
    "rq_genesis_fingerprint scene_request = fixed_repeat 3" "rq_vault_policy_sequence scene_request = 1"
    "rq_vault_policy_hash scene_request = fixed_repeat 7" "rq_expires_at_ms scene_request = 2000"
    "rq_issued_at_ms scene_request = 1000" "rq_item_id scene_request = id_repeat 4"
    "rq_operation scene_request = Op_ChildStdin" "rq_witness_policy_id scene_request = id_repeat 8"
    "rq_witness_policy_revision scene_request = 1"
    "rq_witness_policy_digest scene_request = fixed_repeat 14"
    "rq_requester_principal_id scene_request = id_repeat 10"
    "rq_requested_access_role scene_request = Role_Reader"
    by (simp_all add: scene_request_def sample_request_def)
  moreover have "wp_vault_policy_sequence scene_witness_policy = 1"
    "wp_vault_policy_hash scene_witness_policy = fixed_repeat 3"
    by (simp_all add: scene_witness_policy_def)
  moreover have "war_policy_id scene_access_rule = id_repeat 8" "war_policy_revision scene_access_rule = 1"
    "war_policy_digest scene_access_rule = fixed_repeat 14"
    "war_allowed_request_lifetime_ms scene_access_rule = 1000"
    by (simp_all add: scene_access_rule_def)
  ultimately show ?thesis
    by (simp add: validate_request_policy_def scene_request_valid scene_state_fields checked_sub_def
        scene_rule_found scene_access scene_witnesses scene_item Let_def)
qed

section \<open>The stored state\<close>

definition scene_vault :: registered_witness_vault where
  "scene_vault =
     \<lparr>rw_accepted_registration = bounded_of_list [1], rw_current_checkpoint = scene_checkpoint,
      rw_current_policy_material = bounded_of_list [1]\<rparr>"

definition scene_entry :: witness_replay_entry where
  "scene_entry =
     \<lparr>re_request = scene_request, re_action_manifest_digest = fixed_repeat 14,
      re_state = Replay_Reserved, re_retain_through_ms = 86402000, re_approvals = [],
      re_cancellation = None, re_response = None\<rparr>"

definition scene_stored :: "u64 \<Rightarrow> witness_replay_entry \<Rightarrow> witness_logical_state" where
  "scene_stored generation entry =
     \<lparr>lg_witness_id = id_repeat 30, lg_state_generation = generation,
      lg_vaults = bt_insert (id_repeat 2) scene_vault bt_empty,
      lg_replay = bt_insert (request_key scene_request) entry bt_empty,
      lg_last_accepted_wall_time_ms = 1500\<rparr>"

definition scene_anchor :: witness_state_anchor where
  "scene_anchor =
     \<lparr>an_schema = 1, an_witness_id = id_repeat 30,
      an_witness_signing_key_fingerprint = fixed_repeat 14, an_witness_signing_key_epoch = 1,
      an_state_generation = 1, an_database_state_digest = fixed_repeat 14,
      an_vault_high_watermarks = [\<lparr>hw_vault_id = id_repeat 2, hw_genesis_fingerprint = fixed_repeat 3,
        hw_policy_sequence = 1, hw_checkpoint_digest = fixed_repeat 14,
        hw_highest_retained_request_expiry_ms = 2000\<rparr>],
      an_replay_retain_through_ms = 86402000, an_last_accepted_wall_time_ms = 1500,
      an_predecessor_anchor_digest = zero_digest, an_issued_at_ms = 1500,
      an_signature = fixed_repeat 1\<rparr>"

definition scene_persisted :: persisted_witness_state where
  "scene_persisted =
     \<lparr>ps_logical = scene_stored 1 scene_entry, ps_published_anchor = Some scene_anchor, ps_pending_anchor = None\<rparr>"

definition scene_world :: service_world where
  "scene_world =
     \<lparr>sw_calls = 0,
      sw_state = \<lparr>row_generation = 1,
        row_state_json = \<lparr>ss_logical = \<lparr>sl_witness_id = id_repeat 30, sl_state_generation = 1,
            sl_vaults = bt_insert (id_repeat 2) scene_vault bt_empty, sl_replay = [scene_entry],
            sl_last_accepted_wall_time_ms = 1500\<rparr>,
          ss_published_anchor = Some scene_anchor, ss_pending_anchor = None\<rparr>\<rparr>,
      sw_anchor = Some \<lparr>ar_generation = 1, ar_digest = fixed_repeat 14, ar_anchor = scene_anchor\<rparr>\<rparr>"

lemma scene_anchor_bytes:
  "\<exists>bytes. an_signature_preimage scene_anchor = Inr bytes"
  "an_digest (\<lambda>_. fixed_repeat 14) scene_anchor = Inr (fixed_repeat 14)"
  "exact_anchor_eq scene_anchor scene_anchor = Inr True"
proof -
  show bytes: "\<exists>bytes. an_signature_preimage scene_anchor = Inr bytes"
    by (simp add: an_signature_preimage_def an_validate_shape_def an_append_fields_def
        scene_anchor_def run_simps)
  then show "exact_anchor_eq scene_anchor scene_anchor = Inr True"
    by (auto dest: canonical_anchor(2))
  show "an_digest (\<lambda>_. fixed_repeat 14) scene_anchor = Inr (fixed_repeat 14)"
    by (simp add: an_digest_def an_signature_preimage_def an_validate_shape_def an_append_fields_def
        scene_anchor_def hw_canonical_bytes_def run_simps)
qed

lemma bounded_framable: "LENGTH('n) < 2 ^ 32 \<Longrightarrow> framable (bounded_as_bytes (x :: 'n::len bounded_bytes))"
  using length_bounded_as_bytes [of x] by (simp add: framable_def)

lemma scene_logical_digest:
  assumes "re_to_protocol (\<lambda>_. fixed_repeat 14) (request_key scene_request, entry) = Inr rp"
    and "rp_canonical_bytes rp = Inr bytes" and "length bytes \<le> 100000"
  shows "logical_digest (\<lambda>_. fixed_repeat 14) (scene_stored generation entry) = Inr (fixed_repeat 14)"
proof -
  obtain vault where vault: "canonical_vault_state (id_repeat 2, scene_vault) = Inr vault"
    and "vs_schema vault = 1" "vs_accepted_registration vault = bounded_of_list [1]"
      "vs_current_policy_material vault = bounded_of_list [1]"
    by (simp add: canonical_vault_state_def scene_vault_def cp_canonical_bytes_def
        cp_validate_shape_def scene_checkpoint_def sample_checkpoint_def cp_append_fields_def
        bounded_new_def)
  then obtain vault_bytes where "vs_canonical_bytes vault = Inr vault_bytes"
    "length vault_bytes \<le> 100000"
    using bounded_framable [of "vs_current_checkpoint vault"]
      length_bounded_as_bytes [of "vs_current_checkpoint vault"]
    by (simp add: vs_canonical_bytes_def run_simps)
  then show ?thesis
    using assms vault
    by (simp add: logical_digest_def canonical_database_state_def scene_stored_def db_digest_def
        db_canonical_body_def max_replay_records_per_service_def run_simps)
qed

definition scene_decision :: witness_decision where
  "scene_decision =
     \<lparr>wd_schema = 1, wd_response_id = id_repeat 50, wd_request_id = id_repeat 1,
      wd_request_digest = fixed_repeat 14, wd_action_manifest_digest = fixed_repeat 14,
      wd_witness_id = id_repeat 30, wd_witness_signing_key_fingerprint = fixed_repeat 14,
      wd_witness_signing_key_epoch = 1, wd_witness_policy_id = id_repeat 8,
      wd_witness_policy_revision = 1, wd_witness_policy_digest = fixed_repeat 14,
      wd_policy_checkpoint_digest = fixed_repeat 14, wd_state_generation = 2,
      wd_decision = Decision_Approve, wd_reason = Reason_None, wd_issued_at_ms = 1500,
      wd_expires_at_ms = 2000, wd_contribution_digest = Some (fixed_repeat 14),
      wd_share_index = Some 1, wd_share_commitment = Some (fixed_repeat 15),
      wd_signature = fixed_repeat 1\<rparr>"

definition scene_response :: witness_response where
  "scene_response = \<lparr>wr_decision = scene_decision, wr_contribution = Some scene_contribution\<rparr>"

definition scene_approved :: witness_replay_entry where
  "scene_approved = scene_entry\<lparr>re_approvals := [scene_approval], re_state := Replay_Approved,
     re_response := Some scene_response\<rparr>"

lemma scene_approval_bytes:
  "\<exists>bytes. ap_canonical_bytes scene_approval = Inr bytes \<and> length bytes \<le> 4096"
  "\<exists>bytes. ap_signature_preimage scene_approval = Inr bytes"
  by (simp_all add: ap_canonical_bytes_def ap_validate_shape_def scene_approval_def
      ap_append_fields_def valid_interval_def checked_sub_def max_request_lifetime_ms_def
      max_approval_bytes_def optional_u64_def Let_def ap_signature_preimage_def)

lemma scene_response_bytes:
  "\<exists>bytes. wr_canonical_bytes (\<lambda>_. fixed_repeat 14) scene_response = Inr bytes \<and> length bytes \<le> 4096"
  by (simp add: wr_canonical_bytes_def scene_response_def scene_decision_def wd_canonical_bytes_def
      wd_validate_shape_def wd_append_fields_def ce_digest_def scene_contribution_def
      ce_canonical_bytes_def max_response_bytes_def Let_def optional_fixed_def optional_u8_def
      run_simps)

lemma scene_record_digest:
  assumes "entry = scene_entry \<or> entry = scene_approved"
  shows "logical_digest (\<lambda>_. fixed_repeat 14) (scene_stored generation entry) = Inr (fixed_repeat 14)"
proof -
  obtain request where request:
    "rq_canonical_bytes (\<lambda>_. fixed_repeat 14) scene_request = Inr request" "length request \<le> 4096"
    by (simp add: rq_canonical_bytes_def scene_request_valid)
      (simp add: scene_request_def sample_request_def rq_append_fields_def iw_canonical_bytes_def
        run_simps max_request_bytes_def)
  obtain approval where approval: "ap_canonical_bytes scene_approval = Inr approval"
    "length approval \<le> 4096"
    using scene_approval_bytes(1) by blast
  obtain response where response:
    "wr_canonical_bytes (\<lambda>_. fixed_repeat 14) scene_response = Inr response" "length response \<le> 4096"
    using scene_response_bytes by blast
  have fields: "rq_expires_at_ms scene_request = 2000"
    by (simp add: scene_request_def sample_request_def)
  define rp where "rp =
    \<lparr>rp_schema = 1, rp_vault_id = rq_vault_id scene_request,
     rp_request_id = rq_request_id scene_request, rp_request_digest = fixed_repeat 14,
     rp_request_message = bounded_of_list request, rp_action_manifest_digest = fixed_repeat 14,
     rp_state = re_state entry, rp_expires_at_ms = 2000, rp_retain_through_ms = 86402000,
     rp_approval_decisions = (if entry = scene_entry then [] else [bounded_of_list approval]),
     rp_cancellation = None,
     rp_witness_response = (if entry = scene_entry then None else Some (bounded_of_list response))\<rparr>"
  have differ: "scene_approved \<noteq> scene_entry"
    by (simp add: scene_approved_def scene_entry_def)
  have "re_to_protocol (\<lambda>_. fixed_repeat 14) (request_key scene_request, entry) = Inr rp"
    using assms request approval response fields scene_request_bytes(3) differ
    by (auto simp: re_to_protocol_def request_key_def rp_def bounded_new_def)
      (auto simp: scene_entry_def scene_approved_def)
  moreover have "\<exists>bytes. rp_canonical_bytes rp = Inr bytes \<and> length bytes \<le> 100000"
    using request(2) approval(2) response(2)
    by (cases "entry = scene_entry")
      (simp_all add: rp_canonical_bytes_def rp_def saturating_add_def replay_retention_ms_def
        max_recorded_approvals_def max_policy_actors_def run_simps frame_option_def)
  ultimately show ?thesis
    using scene_logical_digest by blast
qed

abbreviation scene_config :: service_config where
  "scene_config \<equiv> scene_services (\<lambda>_. No_Fault)"

lemma scene_stored_of: "load_witness_state (scene_services faults) (sw_state scene_world) = Inr scene_persisted"
  using scene_record_digest [of scene_entry 1]
  by (auto simp: load_witness_state_def scene_world_def validate_state_length_def scene_services_def
      decode_persisted_state_def replay_records_deserialize_def u64_try_from_def
      max_persisted_witness_state_bytes_def max_replay_records_per_service_def
      logical_digest_def scene_persisted_def scene_stored_def request_key_def and_then_Inr
      scene_entry_def bt_len_def)

lemma scene_encode:
  "encode_persisted_state (sc_state_json_length (scene_services faults)) scene_persisted =
     Inr (row_state_json (sw_state scene_world))"
  by (simp add: encode_persisted_state_def scene_services_def scene_persisted_def scene_stored_def
      replay_records_serialize_def request_key_def scene_entry_def bt_len_def
      max_replay_records_per_service_def scene_world_def Let_def)

lemma scene_settles: "settles (service_engine (scene_services faults)) scene_persisted (Some scene_anchor)"
proof -
  obtain bytes where bytes: "an_signature_preimage scene_anchor = Inr bytes"
    using scene_anchor_bytes(1) by blast
  have fields: "an_state_generation scene_anchor = 1" "an_database_state_digest scene_anchor = fixed_repeat 14"
    "an_witness_id scene_anchor = id_repeat 30" "an_witness_signing_key_epoch scene_anchor = 1"
    "an_witness_signing_key_fingerprint scene_anchor = fixed_repeat 14"
    by (simp_all add: scene_anchor_def)
  have "validate_anchor (service_engine (scene_services faults)) scene_anchor = Inr ()"
    using bytes fields
    by (simp add: validate_anchor_def engine_descriptor_def service_engine_simps
        engine_signing_fingerprint_def signing_key_fingerprint_def scene_services_def)
  moreover have "logical_digest (sc_hash (scene_services faults)) (scene_stored 1 scene_entry) =
      Inr (fixed_repeat 14)"
    using scene_record_digest by (simp add: scene_services_def)
  ultimately show ?thesis
    using fields scene_anchor_bytes(3)
    by (simp add: settles_def published_equality_def validate_stored_identity_def
        scene_persisted_def service_engine_simps)
      (simp add: scene_stored_def service_engine_def scene_services_def)
qed

lemma scene_loads:
  assumes "b \<longrightarrow> calm (scene_services faults) scene_world"
  shows "loads (scene_services faults) b scene_persisted (Some scene_anchor) scene_world"
proof -
  have "load_anchor (\<lambda>_. fixed_repeat 14) (id_repeat 30) (sw_anchor scene_world) = Inr (Some scene_anchor)"
    using scene_anchor_bytes(2)
    by (simp add: load_anchor_def scene_world_def u64_try_from_def)
      (simp add: validate_candidate_def an_validate_shape_def scene_anchor_def)
  moreover have "validate_stored_identity (service_engine (scene_services faults)) scene_persisted = Inr ()"
    using scene_settles by (simp add: settles_def)
  ultimately show ?thesis
    using assms scene_stored_of scene_encode [of faults]
    by (simp add: loads_def) (simp add: scene_services_def scene_world_def)
qed

section \<open>The decision\<close>

definition scene_validated :: validated_request where
  "scene_validated =
     \<lparr>vr_suite = the (suite_from_id 1), vr_rule = scene_access_rule, vr_policy = scene_witness_policy,
      vr_capsule = scene_capsule 30 1, vr_capsule_set_digest = fixed_repeat 14\<rparr>"

lemma scene_validate_request:
  "validate_request (service_engine scene_config) scene_state scene_persisted scene_request
     scene_manifest 1500 = Inr scene_validated"
proof -
  have hash: "sc_hash scene_config = (\<lambda>_. fixed_repeat 14)" "sc_verify scene_config = (\<lambda>_ _ _. True)"
    by (simp_all add: scene_services_def)
  have "current_registration (service_engine scene_config) scene_state scene_persisted scene_request =
      Inr ()"
    using scene_checkpoint_valid [of "\<lambda>_. No_Fault"] scene_checkpoint_digest
    by (simp add: current_registration_def service_engine_simps hash scene_persisted_def
        scene_stored_def scene_vault_def validate_registered_checkpoint_def scene_state_fields)
      (simp add: scene_request_def sample_request_def scene_checkpoint_def sample_checkpoint_def)
  moreover have "validate_request_time scene_request 1500 = Inr ()"
    by (simp add: validate_request_time_def scene_request_def sample_request_def saturating_add_def
        accepted_clock_skew_ms_def Let_def)
  moreover have "validate_owner_change_context scene_state p (mf_operation_context scene_manifest) =
      Inr ()" for p
    by (simp add: scene_manifest_def sample_manifest_def)
  moreover have "\<not> workload_exceeds scene_manifest scene_access_rule"
    "validate_automatic_rule scene_manifest scene_access_rule = Inr ()"
    by (simp_all add: workload_exceeds_def validate_automatic_rule_def scene_manifest_def
        sample_manifest_def scene_access_rule_def core_platform_assurance_tag_def)
  moreover have "own_capsule (service_engine scene_config)
      \<lparr>vrp_rule = scene_access_rule, vrp_policy = scene_witness_policy, vrp_slot = scene_slot\<rparr> =
      Inr (scene_capsule 30 1)"
    by (simp add: own_capsule_def engine_descriptor_def service_engine_def scene_services_def
        scene_slot_def scene_capsule_def scene_witness_policy_def scene_member_def sample_member_def)
  moreover have "ws_suite scene_slot = 1" "ws_capsule_set_digest scene_slot = fixed_repeat 14"
    by (simp_all add: scene_slot_def)
  ultimately show ?thesis
    by (simp add: validate_request_def service_engine_simps hash scene_manifest_matches
        validate_manifest_policy_def scene_request_policy scene_validated_def suite_from_id_def)
qed

lemma scene_request_fields:
  "rq_vault_id scene_request = id_repeat 2" "rq_request_id scene_request = id_repeat 1"
  "rq_witness_policy_id scene_request = id_repeat 8" "rq_witness_policy_revision scene_request = 1"
  "rq_witness_policy_digest scene_request = fixed_repeat 14"
  "rq_policy_checkpoint_digest scene_request = fixed_repeat 14"
  "rq_issued_at_ms scene_request = 1000" "rq_expires_at_ms scene_request = 2000"
  "mf_presentation_digest scene_manifest = fixed_repeat 13"
  by (simp_all add: scene_request_def sample_request_def scene_manifest_def sample_manifest_def)

lemma scene_approval_fields:
  "ap_approver_id scene_approval = id_repeat 21" "ap_request_id scene_approval = id_repeat 1"
  "ap_request_digest scene_approval = fixed_repeat 14"
  "ap_action_manifest_digest scene_approval = fixed_repeat 14"
  "ap_presentation_digest scene_approval = fixed_repeat 13"
  "ap_witness_policy_id scene_approval = id_repeat 8" "ap_witness_policy_revision scene_approval = 1"
  "ap_witness_policy_digest scene_approval = fixed_repeat 14"
  "ap_intended_witness_set_digest scene_approval = fixed_repeat 14"
  "ap_approver_key_fingerprint scene_approval = fixed_repeat 14"
  "ap_approver_key_epoch scene_approval = 1" "ap_approval_mode scene_approval = Approval_Human"
  "ap_issued_at_ms scene_approval = 1000" "ap_expires_at_ms scene_approval = 2000"
  "ap_not_before_ms scene_approval = None" "ap_decision scene_approval = Approval_Approve"
  by (simp_all add: scene_approval_def)

lemma scene_accept:
  "accept_approvals (service_engine scene_config) scene_request scene_manifest scene_validated 1500
     [] [scene_approval] = Inr [scene_approval]"
proof -
  have hash: "sc_hash scene_config = (\<lambda>_. fixed_repeat 14)" "sc_verify scene_config = (\<lambda>_ _ _. True)"
    by (simp_all add: scene_services_def)
  obtain bytes preimage where "ap_canonical_bytes scene_approval = Inr bytes"
    "ap_signature_preimage scene_approval = Inr preimage"
    using scene_approval_bytes by blast
  moreover have "ap_validate_shape scene_approval = Inr ()"
    by (simp add: ap_validate_shape_def scene_approval_def valid_interval_def checked_sub_def
        max_request_lifetime_ms_def Let_def)
  ultimately have "validate_approval (service_engine scene_config) scene_approval scene_request
      scene_manifest scene_validated 1500 = Inr ()"
    by (simp add: validate_approval_def validate_approval_static_def validate_approval_against_policy_def
        service_engine_simps scene_validated_def)
      (simp add: hash scene_request_bytes scene_manifest_digest scene_approval_fields
        scene_request_fields scene_access_rule_def scene_witness_policy_def scene_approver_def
        sample_approver_def approval_is_current_def saturating_add_def accepted_clock_skew_ms_def)
  then show ?thesis
    using \<open>ap_canonical_bytes scene_approval = Inr bytes\<close>
    by (simp add: accept_approvals_def normalize_approvals_def Let_def retain_two_def
        max_recorded_approvals_def max_policy_actors_def)
qed

lemma scene_respond:
  "approval_response (service_engine scene_config) scene_request scene_manifest scene_validated 2 1500 w =
     (Inr scene_response, w\<lparr>sw_calls := sw_calls w + 2\<rparr>)"
proof -
  have hash: "sc_hash scene_config = (\<lambda>_. fixed_repeat 14)"
    by (simp add: scene_services_def)
  have digest: "ce_digest (\<lambda>_. fixed_repeat 14) scene_contribution = Inr (fixed_repeat 14)"
    by (simp add: ce_digest_def scene_contribution_def ce_canonical_bytes_def run_simps)
  have sign: "sign_decision (service_engine scene_config) (scene_decision\<lparr>wd_signature := zero_signature\<rparr>) =
      Inr scene_decision"
    by (simp add: sign_decision_def service_engine_simps scene_services_def wd_signature_preimage_def
        wd_validate_shape_def Let_def) (simp add: scene_decision_def)
  have contribution: "ce_share_index scene_contribution = 1"
    "ce_share_commitment scene_contribution = fixed_repeat 15"
    by (simp_all add: scene_contribution_def)
  have response_id: "identifier_from_bytes (fixed_repeat 50) = Inr (id_repeat 50)"
    by (simp add: identifier_from_bytes_Inr as_bytes_fixed_repeat id_bytes_id_repeat)
  have services: "en_fill (service_engine scene_config) v =
      (Inr (fixed_repeat 50), v\<lparr>sw_calls := sw_calls v + 1\<rparr>)"
    "en_seal_witness_contribution (service_engine scene_config) suite capsule target v =
      (Inr scene_contribution, v\<lparr>sw_calls := sw_calls v + 1\<rparr>)"
    "engine_descriptor (service_engine scene_config) = Inr (sample_descriptor 30 Kind_Witness)"
    "engine_signing_fingerprint (service_engine scene_config) descriptor = fixed_repeat 14"
    for v suite capsule target descriptor
    by (simp_all add: service_engine_def scheduled_def scene_services_def engine_descriptor_def
        engine_signing_fingerprint_def signing_key_fingerprint_def)
  have "sign_decision (service_engine scene_config)
      \<lparr>wd_schema = 1, wd_response_id = id_repeat 50, wd_request_id = id_repeat 1,
       wd_request_digest = fixed_repeat 14, wd_action_manifest_digest = fixed_repeat 14,
       wd_witness_id = id_repeat 30, wd_witness_signing_key_fingerprint = fixed_repeat 14,
       wd_witness_signing_key_epoch = 1, wd_witness_policy_id = id_repeat 8,
       wd_witness_policy_revision = 1, wd_witness_policy_digest = fixed_repeat 14,
       wd_policy_checkpoint_digest = fixed_repeat 14, wd_state_generation = 2,
       wd_decision = Decision_Approve, wd_reason = Reason_None, wd_issued_at_ms = 1500,
       wd_expires_at_ms = 2000, wd_contribution_digest = Some (fixed_repeat 14),
       wd_share_index = Some 1, wd_share_commitment = Some (fixed_repeat 15),
       wd_signature = zero_signature\<rparr> = Inr scene_decision"
    using sign by (simp add: scene_decision_def)
  then show ?thesis
    by (simp add: approval_response_def random_response_id_def call_then_def call_map_err_def
        call_result_def services response_id service_engine_simps hash scene_request_bytes
        scene_manifest_digest digest scene_request_fields contribution scene_response_def)
qed

definition scene_next_anchor :: witness_state_anchor where
  "scene_next_anchor = scene_anchor\<lparr>an_state_generation := 2,
     an_predecessor_anchor_digest := fixed_repeat 14\<rparr>"

definition scene_next :: persisted_witness_state where
  "scene_next =
     \<lparr>ps_logical = scene_stored 2 scene_approved, ps_published_anchor = Some scene_anchor,
      ps_pending_anchor = None\<rparr>"

lemma scene_next_publishable: "http_ensure_publishable scene_config scene_next_anchor = Inr ()"
  by (simp add: http_ensure_publishable_def validate_candidate_def ensure_bounded_json_def
      scene_services_def an_signature_preimage_def an_validate_shape_def an_append_fields_def
      scene_next_anchor_def scene_anchor_def hw_canonical_bytes_def run_simps
      max_anchor_http_bytes_def)

lemma scene_next_anchor:
  "build_anchor (service_engine scene_config) scene_next 1500 = Inr scene_next_anchor"
proof -
  have hash: "sc_hash scene_config = (\<lambda>_. fixed_repeat 14)"
    by (simp add: scene_services_def)
  have "vault_watermark (service_engine scene_config) scene_next (id_repeat 2, scene_vault) =
      Inr \<lparr>hw_vault_id = id_repeat 2, hw_genesis_fingerprint = fixed_repeat 3,
        hw_policy_sequence = 1, hw_checkpoint_digest = fixed_repeat 14,
        hw_highest_retained_request_expiry_ms = 2000\<rparr>"
    using scene_checkpoint_digest
    by (simp add: vault_watermark_def service_engine_simps hash scene_vault_def scene_next_def
        scene_stored_def max_or_zero_def scene_approved_def scene_entry_def request_key_def
        scene_request_fields) (simp add: scene_checkpoint_def sample_checkpoint_def)
  moreover have "predecessor_digest (\<lambda>_. fixed_repeat 14) (Some scene_anchor) = Inr (fixed_repeat 14)"
    using scene_anchor_bytes(2) by (simp add: predecessor_digest_def)
  moreover have "\<exists>bytes. an_signature_preimage (scene_next_anchor\<lparr>an_signature := zero_signature\<rparr>) =
      Inr bytes"
    by (simp add: an_signature_preimage_def an_validate_shape_def an_append_fields_def
        scene_next_anchor_def scene_anchor_def hw_canonical_bytes_def run_simps)
  ultimately show ?thesis
    using scene_record_digest [of scene_approved 2]
    by (auto simp: build_anchor_def engine_descriptor_def service_engine_simps hash Let_def
        engine_signing_fingerprint_def signing_key_fingerprint_def)
      (auto simp: scene_next_def scene_stored_def scene_next_anchor_def scene_anchor_def scene_services_def
        bt_values_def max_or_zero_def scene_approved_def scene_entry_def)
qed

lemma scene_commit:
  assumes "loads scene_config True scene_persisted (Some scene_anchor) w"
  shows "call_wp (commit_and_publish (service_engine scene_config)
     (with_replay scene_persisted (bt_insert (request_key scene_request) scene_approved
       (lg_replay (ps_logical scene_persisted)))) 1500) (\<lambda>_ _. True) (\<lambda>_ _. False) w"
proof -
  define s where "s = with_replay scene_persisted (bt_insert (request_key scene_request) scene_approved
    (lg_replay (ps_logical scene_persisted)))"
  have s: "s = \<lparr>ps_logical = scene_stored 1 scene_approved, ps_published_anchor = Some scene_anchor,
      ps_pending_anchor = None\<rparr>"
    by (simp add: s_def with_replay_def scene_persisted_def scene_stored_def btree.put_put)
  have "\<exists>row. commit_row scene_config 1 (scene_next\<lparr>ps_pending_anchor := Some scene_next_anchor\<rparr>)
      (sw_state scene_world) = Inr row"
    using scene_stored_of [of "\<lambda>_. No_Fault"]
    by (simp add: commit_row_def encode_persisted_state_def replay_records_serialize_def
        i64_try_from_def saturating_add_def Let_def)
      (simp add: scene_next_def scene_persisted_def scene_stored_def scene_services_def
        scene_world_def bt_len_def max_replay_records_per_service_def request_key_def
        scene_approved_def scene_entry_def)
  then obtain row where "commit_row scene_config 1 (scene_next\<lparr>ps_pending_anchor := Some scene_next_anchor\<rparr>)
      (sw_state w) = Inr row"
    using loads_row [OF scene_loads [of False] assms] by auto
  then have "call_wp (commit_and_publish (service_engine scene_config) s 1500) (\<lambda>_ _. True)
      (\<lambda>_ _. False) w"
    by (intro commit_total [OF scene_sound assms(1) scene_settles, where c = scene_next_anchor and
          committed_state = scene_next and row = row and generation = 2])
      (simp_all add: s scene_next_def scene_persisted_def scene_stored_def checked_add_def
        scene_next_anchor [unfolded scene_next_def scene_stored_def] scene_next_publishable)
  then show ?thesis
    by (simp add: s_def)
qed

lemma scene_decide:
  "call_wp (decide (service_engine scene_config) scene_state scene_request scene_manifest
     [scene_approval]) (\<lambda>progress _. progress = Progress_Stable scene_response) (\<lambda>_ _. False) scene_world"
proof -
  define w where "w = scene_world\<lparr>sw_calls := sw_calls scene_world + 1\<rparr>"
  have start: "loads scene_config True scene_persisted (Some scene_anchor) w"
    by (rule loads_rows [OF scene_loads]) (simp_all add: w_def calm_def scene_services_def)
  have hash: "sc_hash scene_config = (\<lambda>_. fixed_repeat 14)" "clock_ms scene_config n = 1500" for n
    by (simp_all add: scene_services_def clock_ms_def u64_try_from_def)
  have known: "bt_get (lg_replay (ps_logical scene_persisted)) (request_key scene_request) = Some scene_entry"
    by (simp add: scene_persisted_def scene_stored_def)
  have entry: "re_request scene_entry = scene_request" "re_action_manifest_digest scene_entry = fixed_repeat 14"
    "re_response scene_entry = None" "re_approvals scene_entry = []"
    by (simp_all add: scene_entry_def)
  have same: "same_request (\<lambda>_. fixed_repeat 14) scene_request scene_request = Inr True"
    using scene_request_bytes(2) by (auto simp: same_request_def)
  have safe: "require_safe_clock scene_persisted 1500 = Inr ()"
    by (simp add: require_safe_clock_def scene_persisted_def scene_stored_def saturating_add_def
        accepted_clock_skew_ms_def)
  have commit: "call_wp (call_then (commit_and_publish (service_engine scene_config)
      (with_replay scene_persisted (bt_insert (request_key scene_request) scene_approved
        (lg_replay (ps_logical scene_persisted)))) 1500) (\<lambda>_. call_result (Inr (Progress_Stable scene_response))))
      (\<lambda>progress _. progress = Progress_Stable scene_response) (\<lambda>_ _. False) v"
    if "loads scene_config True scene_persisted (Some scene_anchor) v" for v
    unfolding call_wp_then
    by (rule call_wp_mono [OF scene_commit [OF that]]) (auto simp: call_wp_result)
  have conclude: "call_wp (conclude (service_engine scene_config) scene_request scene_manifest
      scene_validated 1500 scene_persisted scene_entry [scene_approval])
      (\<lambda>progress _. progress = Progress_Stable scene_response) (\<lambda>_ _. False) v"
    if "loads scene_config True scene_persisted (Some scene_anchor) v" for v
  proof -
    have "unat (war_approval_threshold (vr_rule scene_validated)) \<le>
        tally_approved (tally_approvals [scene_approval] (vr_rule scene_validated))"
      by (simp add: scene_validated_def scene_access_rule_def tally_approvals_def tally_approver_def
          scene_approval_fields)
    moreover have "saturating_add (lg_state_generation (ps_logical scene_persisted)) 1 = 2"
      by (simp add: scene_persisted_def scene_stored_def saturating_add_def)
    moreover have "loads scene_config True scene_persisted (Some scene_anchor)
        (v\<lparr>sw_calls := sw_calls v + 2\<rparr>)"
      by (rule loads_rows [OF that]) (simp_all add: calm_def scene_services_def)
    moreover have respond: "call_wp (call_then (approval_response (service_engine scene_config) scene_request
        scene_manifest scene_validated 2 1500) continue) Q E v =
        call_wp (continue scene_response) Q E (v\<lparr>sw_calls := sw_calls v + 2\<rparr>)" for continue Q E
      by (simp add: call_wp_def call_then_def scene_respond)
    ultimately show ?thesis
      using commit [of "v\<lparr>sw_calls := sw_calls v + 2\<rparr>"]
      by (simp add: conclude_def Let_def scene_approved_def respond)
  qed
  have "call_wp (ready_state (service_engine scene_config)) (\<lambda>s v. s = scene_persisted \<and>
      loads scene_config True scene_persisted (Some scene_anchor) v) (\<lambda>_ _. False) w"
    by (rule call_wp_mono [OF ready_settled [OF scene_sound start scene_settles]]) auto
  then show ?thesis
    unfolding decide_def safe_state_def
    by (simp add: max_recorded_approvals_def max_policy_actors_def call_wp_then wall_time_now hash w_def)
      (elim call_wp_mono, auto simp: call_wp_then call_wp_result safe known entry same
        service_engine_simps hash scene_manifest_matches scene_manifest_digest decide_open_def
        scene_validate_request scene_accept intro!: conclude)
qed

end
