(* ===== verification/Jury_Decision_Theorems.thy ===== *)
theory Jury_Decision_Theorems
  imports Jury_Scenario
begin

text \<open>
  What the witness engine promises about its answers. The lemmas on runs of the witness state
  machine (theory Jury_Engine_Runs) are read here for the engine over the service's store and
  anchor adapters: a contribution needs a signed quorum, an answer is final,
  and the service recovers from every crash.
\<close>

section \<open>Contributions\<close>

lemma decide_answer:
  assumes "decide (service_engine cfg) policy request manifest approvals w =
      (Inr (Progress_Stable r), w')"
  shows "recorded (logical_of w') (request_key request) request (Some r)"
    and "stays_or_steps (service_engine cfg) (logical_of w) (logical_of w')"
  using services.decide_wp [of cfg policy request manifest approvals w] assms
  by (auto simp: call_wp_def)

lemma open_answer_step:
  assumes "stays_or_steps e l l'" and "bt_get (lg_replay l) key = Some known"
    and "re_response known = None" and "bt_get (lg_replay l') key = Some entry"
    and "re_response entry = Some r" and "wr_contribution r \<noteq> None"
  shows "\<exists>now_ms. re_state entry = Replay_Approved \<and> re_request entry = re_request known \<and>
    re_action_manifest_digest entry = re_action_manifest_digest known \<and>
    quorum_reached e l now_ms (re_request known) (re_action_manifest_digest known)
      (re_approvals entry)"
proof -
  have "l' \<noteq> l"
    using assms(2-5) by auto
  then have "witness_step e l l'"
    using assms(1) by (simp add: stays_or_steps_def)
  then obtain now_ms where "entry_steps e now_ms l key (Some known) (Some entry)"
    by (rule witness_stepE) (metis assms(2,4))
  then show ?thesis
    by cases (use assms(3,5,6) in \<open>auto simp: is_denial_def\<close>)
qed

text \<open>
  C2. No contribution without a quorum. When a decision answers an open request with a
  contribution, the vault of the request is registered with exactly the checkpoint the request
  names, the request is valid under the policy state that checkpoint describes, and at least as
  many eligible approvers as the threshold of the rule each had exactly one decision among those
  recorded: an approval of this request and this manifest that verifies under the approver's
  active key in the witness policy. The answer and these approvals are in the stored record.
\<close>

theorem contribution_needs_quorum:
  assumes "decide (service_engine cfg) policy request manifest approvals w =
      (Inr (Progress_Stable r), w')"
    and "bt_get (lg_replay (logical_of w)) (request_key request) = Some known"
    and "re_response known = None" and "wr_contribution r \<noteq> None"
  shows "\<exists>entry. bt_get (lg_replay (logical_of w')) (request_key request) = Some entry \<and>
    re_request entry = request \<and> re_state entry = Replay_Approved \<and> re_response entry = Some r \<and>
    signed_quorum (service_engine cfg) (logical_of w) request (re_action_manifest_digest known)
      (re_approvals entry)"
proof -
  obtain entry where entry: "bt_get (lg_replay (logical_of w')) (request_key request) = Some entry"
      "re_request entry = request" "re_response entry = Some r"
    using decide_answer(1) [OF assms(1)] by (auto simp: recorded_def)
  from open_answer_step [OF decide_answer(2) [OF assms(1)] assms(2,3) entry(1,3) assms(4)]
  show ?thesis
    using entry by (auto intro: quorum_reached_signed)
qed

lemma scene_logical: "logical_of scene_world = scene_stored 1 scene_entry"
  using load_witness_state_Inr(1) [OF scene_stored_of [of "\<lambda>_. No_Fault"]]
  by (simp add: stored_of_def scene_persisted_def) (metis persisted_witness_state.select_convs(1))

theorem contribution_needs_quorum_witness:
  "\<exists>w'. decide (service_engine scene_config) scene_state scene_request scene_manifest
       [scene_approval] scene_world = (Inr (Progress_Stable scene_response), w') \<and>
     (\<exists>entry. bt_get (lg_replay (logical_of w')) (request_key scene_request) = Some entry \<and>
       re_request entry = scene_request \<and> re_state entry = Replay_Approved \<and>
       re_response entry = Some scene_response \<and>
       signed_quorum (service_engine scene_config) (logical_of scene_world) scene_request
         (re_action_manifest_digest scene_entry) (re_approvals entry))"
proof -
  obtain w' where run: "decide (service_engine scene_config) scene_state scene_request scene_manifest
      [scene_approval] scene_world = (Inr (Progress_Stable scene_response), w')"
    using scene_decide by (auto simp: call_wp_def split: prod.splits sum.splits)
  moreover have "bt_get (lg_replay (logical_of scene_world)) (request_key scene_request) =
      Some scene_entry"
    by (simp add: scene_logical scene_stored_def)
  moreover have "re_response scene_entry = None" "wr_contribution scene_response \<noteq> None"
    by (simp_all add: scene_entry_def scene_response_def)
  ultimately show ?thesis
    using contribution_needs_quorum [OF run] by blast
qed



section \<open>Answers\<close>

text \<open>
  C4. A witness answers a request once. A record with an answer is either still stored unchanged
  after any further commands, or its retention has run out on the service's own clock record and
  no record of the same request can exist again: the request expired before its record was
  compacted and the clock may not step back that far.
\<close>

theorem answers_are_final:
  assumes "state_ok (rt_engine rt) (logical_of w)"
    and "bt_get (lg_replay (logical_of w)) key = Some entry" and "re_response entry = Some r"
  shows "bt_get (lg_replay (logical_after rt queue w)) key = Some entry \<or>
    re_retain_through_ms entry < lg_last_accepted_wall_time_ms (logical_after rt queue w) \<and>
    (\<forall>other. bt_get (lg_replay (logical_after rt queue w)) key = Some other \<longrightarrow>
      re_request other \<noteq> re_request entry)"
proof -
  have "witness_run (rt_engine rt) (logical_of w) (logical_after rt queue w)"
    using run_worker_run [of rt queue w] by (cases "run_worker rt queue w") auto
  from answer_stands_run [OF this state_okD [OF assms(1,2)]] assms(2,3) show ?thesis
    by (simp add: answer_stands_def)
qed

lemma ready_keeps_logical: "logical_of (snd (dispatch rt Command_CheckReady w)) = logical_of w"
proof -
  have "call_wp (dispatch rt Command_CheckReady) (\<lambda>_ v. logical_of v = logical_of w)
      (\<lambda>_ v. logical_of v = logical_of w) w"
    unfolding dispatch.simps call_reply_def with_engine_def call_wp_then call_wp_map_err
    by (rule call_wp_mono [OF ensure_remaining_wp [where cfg = "rt_services rt"]],
        rule call_wp_mono [OF open_store_wp [where cfg = "rt_services rt"]],
        rule call_wp_mono [OF ensure_remaining_wp [where cfg = "rt_services rt"]],
        rule call_wp_mono [OF services.check_ready_wp])
      (auto simp: call_wp_result)
  then show ?thesis
    by (simp add: call_wp_snd)
qed

theorem answers_are_final_witness:
  "re_response sample_entry = Some sample_denial \<and>
   bt_get (lg_replay (logical_after sample_runtime [(False, Command_CheckReady)]
     (sample_world (sample_logical 0 [sample_entry])))) (request_key (sample_request 2000)) =
   Some sample_entry"
proof -
  have "bt_get (lg_replay (logical_of (sample_world (sample_logical 0 [sample_entry]))))
      (request_key (sample_request 2000)) = Some sample_entry"
    by (simp only: sample_entry_stored if_True refl)
  note final = answers_are_final [OF sample_state_ok this sample_entry_response, of sample_runtime
      "[(False, Command_CheckReady)]"]
  have "logical_after sample_runtime [(False, Command_CheckReady)] v = logical_of v" for v
    using ready_keeps_logical [of sample_runtime v]
    by (cases "dispatch sample_runtime Command_CheckReady v") (simp del: dispatch.simps)
  then have "lg_last_accepted_wall_time_ms (logical_after sample_runtime [(False, Command_CheckReady)]
      (sample_world (sample_logical 0 [sample_entry]))) = 0"
    by (simp add: stored_of_sample sample_logical_def)
  then show ?thesis
    using final sample_entry_response by simp
qed


section \<open>Recovery\<close>

text \<open>
  C5. The service recovers from every crash. Start a witness on a freshly initialised store, run
  any commands, and let any calls to the store and the anchor service fail before or after they
  took effect, deadlines run out and callers leave. Once calls stop failing and the clock is not
  behind, the next readiness check succeeds: it publishes whatever commit was interrupted, loses
  no committed state, and leaves the store and the external anchor in agreement.
\<close>

theorem recovers_after_faults:
  assumes "sound_deployment (rt_services rt)" and "store_initialize (rt_services rt) = Inr row"
    and "run_worker rt queue \<lparr>sw_calls = 0, sw_state = row, sw_anchor = None\<rparr> = (replies, w)"
    and "steady rt (logical_of w) (sw_calls w)"
  shows "\<exists>w'. dispatch rt Command_CheckReady w = (Inr Reply_Ready, w') \<and>
    logical_of w' = logical_of w \<and>
    settles (rt_engine rt) (stored_of w') (anchored_of (rt_services rt) w')"
proof -
  have "recovers (rt_services rt) False \<lparr>sw_calls = 0, sw_state = row, sw_anchor = None\<rparr>"
    by (rule initialized_recovers [OF assms(2)]) simp_all
  from run_worker_recovery [OF assms(1) this, of queue] dispatch_ready [OF assms(1) _ assms(4)]
  show ?thesis
    using assms(3) by auto
qed


text \<open>Deployments of the scene: which calls fail is given, the clock stands at 1500.\<close>

definition scene_runtime :: "(nat \<Rightarrow> fault) \<Rightarrow> witness_runtime" where
  "scene_runtime faults =
     \<lparr>rt_services = scene_services faults,
      rt_material_json = \<lparr>mj_to_vec = (\<lambda>_. None), mj_from_slice = (\<lambda>_. None)\<rparr>,
      rt_expired = (\<lambda>_. False)\<rparr>"

definition scene_row :: state_row where
  "scene_row = \<lparr>row_generation = 0, row_state_json = \<lparr>ss_logical = \<lparr>sl_witness_id = id_repeat 30,
     sl_state_generation = 0, sl_vaults = bt_empty, sl_replay = [],
     sl_last_accepted_wall_time_ms = 0\<rparr>, ss_published_anchor = None, ss_pending_anchor = None\<rparr>\<rparr>"

definition early_faults :: "nat \<Rightarrow> fault" where
  "early_faults n = (if n < 4 then Fault_Before else No_Fault)"

lemma scene_initialize: "store_initialize (scene_services faults) = Inr scene_row"
  by (simp add: store_initialize_def encode_persisted_state_def ps_empty_def lg_empty_def
      scene_services_def scene_row_def replay_records_serialize_def bt_len_def)

lemma scene_broken:
  "run_worker (scene_runtime early_faults) [(False, Command_Compact), (False, Command_CheckReady)]
     \<lparr>sw_calls = 0, sw_state = scene_row, sw_anchor = None\<rparr> =
   ([(Command_Compact, Inl Runtime_StoreUnavailable), (Command_CheckReady, Inl Runtime_StoreUnavailable)],
    \<lparr>sw_calls = 4, sw_state = scene_row, sw_anchor = None\<rparr>)"
  by (simp add: call_reply_def with_engine_def ensure_remaining_def open_store_def
      load_validated_def service_call_def call_then_def call_map_err_def call_result_def scene_runtime_def
      scene_services_def early_faults_def)

theorem recovers_after_faults_witness:
  "fst (run_worker (scene_runtime early_faults)
     [(False, Command_Compact), (False, Command_CheckReady), (False, Command_CheckReady)]
     \<lparr>sw_calls = 0, sw_state = scene_row, sw_anchor = None\<rparr>) =
   [(Command_Compact, Inl Runtime_StoreUnavailable), (Command_CheckReady, Inl Runtime_StoreUnavailable),
    (Command_CheckReady, Inr Reply_Ready)]"
proof -
  let ?w = "\<lparr>sw_calls = 4, sw_state = scene_row, sw_anchor = None\<rparr>"
  have services: "rt_services (scene_runtime early_faults) = scene_services early_faults"
    by (simp add: scene_runtime_def)
  have "steady (scene_runtime early_faults) (logical_of ?w) (sw_calls ?w)"
    by (simp add: steady_def scene_runtime_def scene_services_def early_faults_def safe_clock_def
        clock_ms_def stored_of_def scene_row_def snapshot_state_def saturating_add_def
        accepted_clock_skew_ms_def)
  from recovers_after_faults [OF _ _ scene_broken this] obtain w' where
    "dispatch (scene_runtime early_faults) Command_CheckReady ?w = (Inr Reply_Ready, w')"
    by (auto simp: services scene_sound scene_initialize)
  then show ?thesis
    using scene_broken by (auto simp del: dispatch.simps split: prod.splits)
qed

section \<open>Where the code and the protocol text differ\<close>

text \<open>
  The protocol text refuses a checkpoint of a different genesis. The check that a checkpoint
  extends the registered one does not look at the genesis fingerprint, and the other checks of
  \<^const>\<open>advance_checkpoint\<close> compare the checkpoint with the policy of the caller only.
\<close>

lemma advance_ignores_genesis:
  assumes "cp_vault_policy_sequence checkpoint = saturating_add
      (cp_vault_policy_sequence (rw_current_checkpoint current)) 1"
    and "cp_vault_policy_sequence (rw_current_checkpoint current) < cp_vault_policy_sequence checkpoint"
    and "cp_digest H (rw_current_checkpoint current) = Inr (cp_predecessor_checkpoint_digest checkpoint)"
    and "cp_issued_at_ms (rw_current_checkpoint current) < cp_issued_at_ms checkpoint"
  shows "check_descendant H current (checkpoint\<lparr>cp_genesis_fingerprint := genesis\<rparr>) = Inr ()"
  using assms by (auto simp: check_descendant_def Let_def not_less not_le dest: less_imp_neq)

text \<open>
  The protocol text has a denial carry none of the three contribution fields. The shape check
  accepts a denial that carries some of them.
\<close>

lemma denial_may_name_share:
  "wd_validate_shape (scene_decision\<lparr>wd_decision := Decision_Deny,
     wd_reason := Reason_ApprovalDenied, wd_share_commitment := None\<rparr>) = Inr ()"
  by (simp add: wd_validate_shape_def scene_decision_def)

text \<open>
  The protocol text tells a request below, above and beside the current checkpoint apart. The
  code answers each of them with a stale policy.
\<close>

lemma request_off_checkpoint_is_stale:
  assumes "bt_get (lg_vaults (ps_logical s)) (rq_vault_id request) = Some vault"
    and "validate_registered_checkpoint e policy (rw_current_checkpoint vault) = Inr ()"
    and "cp_digest (en_hash e) (rw_current_checkpoint vault) = Inr digest"
    and "rq_policy_checkpoint_digest request \<noteq> digest"
  shows "current_registration e policy s request = Inl (Engine_Refused Reason_StalePolicy)"
  using assms by (simp add: current_registration_def)

end
