(* ===== verification/Jury_Redact.thy ===== *)
theory Jury_Redact
  imports Jury_Prelude
begin

text \<open>
  The needles of \<open>jury-protected/src/redact.rs\<close>: the spellings of a secret that must not appear in
  the output of a child process. A Rust \<open>String\<close> is its UTF-8 bytes. The base64 engines and the
  JSON printer are third-party code and parameters of the model, as one record of functions.
\<close>

section \<open>Text\<close>

text \<open>
  The standard library's UTF-8: the code points of a byte string, and the bytes of a code point.
\<close>

definition utf8_tail :: "u8 \<Rightarrow> bool" where
  "utf8_tail b \<longleftrightarrow> 128 \<le> unat b \<and> unat b < 192"

definition utf8_scalar :: "nat \<Rightarrow> nat \<Rightarrow> nat option" where
  "utf8_scalar least c =
     (if least \<le> c \<and> c < 1114112 \<and> \<not> (55296 \<le> c \<and> c < 57344) then Some c else None)"

fun utf8_chars :: "bytes \<Rightarrow> nat list option" where
  "utf8_chars [] = Some []"
| "utf8_chars (a # rest) =
     (if unat a < 128 then map_option ((#) (unat a)) (utf8_chars rest)
      else if unat a < 192 then None
      else if unat a < 224 then
        (case rest of
           b # rest' \<Rightarrow>
             if utf8_tail b then
               (case utf8_scalar 128 ((unat a - 192) * 64 + (unat b - 128)) of
                  None \<Rightarrow> None | Some c \<Rightarrow> map_option ((#) c) (utf8_chars rest'))
             else None
         | _ \<Rightarrow> None)
      else if unat a < 240 then
        (case rest of
           b # c # rest' \<Rightarrow>
             if utf8_tail b \<and> utf8_tail c then
               (case utf8_scalar 2048
                   ((unat a - 224) * 4096 + (unat b - 128) * 64 + (unat c - 128)) of
                  None \<Rightarrow> None | Some x \<Rightarrow> map_option ((#) x) (utf8_chars rest'))
             else None
         | _ \<Rightarrow> None)
      else if unat a < 248 then
        (case rest of
           b # c # d # rest' \<Rightarrow>
             if utf8_tail b \<and> utf8_tail c \<and> utf8_tail d then
               (case utf8_scalar 65536 ((unat a - 240) * 262144 + (unat b - 128) * 4096 +
                   (unat c - 128) * 64 + (unat d - 128)) of
                  None \<Rightarrow> None | Some x \<Rightarrow> map_option ((#) x) (utf8_chars rest'))
             else None
         | _ \<Rightarrow> None)
      else None)"

definition utf8_char :: "nat \<Rightarrow> bytes" where
  "utf8_char c =
     map word_of_nat
       (if c < 128 then [c]
        else if c < 2048 then [192 + c div 64, 128 + c mod 64]
        else if c < 65536 then [224 + c div 4096, 128 + c div 64 mod 64, 128 + c mod 64]
        else [240 + c div 262144, 128 + c div 4096 mod 64, 128 + c div 64 mod 64,
              128 + c mod 64])"

text \<open>The number formats the source prints with.\<close>

definition hex_digit :: "bool \<Rightarrow> nat \<Rightarrow> u8" where
  "hex_digit upper n = word_of_nat (if n < 10 then 48 + n else if upper then 55 + n else 87 + n)"

fun decimal :: "nat \<Rightarrow> bytes" where
  "decimal n = (if n < 10 then [] else decimal (n div 10)) @ [word_of_nat (48 + n mod 10)]"

fun hexadecimal :: "bool \<Rightarrow> nat \<Rightarrow> bytes" where
  "hexadecimal upper n =
     (if n < 16 then [] else hexadecimal upper (n div 16)) @ [hex_digit upper (n mod 16)]"

definition zero_padded :: "nat \<Rightarrow> bytes \<Rightarrow> bytes" where
  "zero_padded width digits = replicate (width - length digits) 48 @ digits"

definition ascii_lowercase :: "bytes \<Rightarrow> bytes" where
  "ascii_lowercase text = map (\<lambda>b. if 65 \<le> b \<and> b \<le> 90 then b + 32 else b) text"

declare utf8_chars.simps [simp del] decimal.simps [simp del] hexadecimal.simps [simp del]

section \<open>Encodings\<close>

definition hex :: "bytes \<Rightarrow> bool \<Rightarrow> bytes" where
  "hex value upper =
     concat (map (\<lambda>b. [hex_digit upper (unat b div 16), hex_digit upper (unat b mod 16)]) value)"

definition base32_alphabet :: bytes where
  "base32_alphabet = str_bytes ''ABCDEFGHIJKLMNOPQRSTUVWXYZ234567''"

fun base32_groups :: "u16 \<Rightarrow> nat \<Rightarrow> bytes \<times> nat" where
  "base32_groups buffer bits =
     (if 5 \<le> bits
      then (case base32_groups buffer (bits - 5) of (output, rest) \<Rightarrow>
        (base32_alphabet ! unat (and (drop_bit (bits - 5) buffer) 31) # output, rest))
      else ([], bits))"

declare base32_groups.simps [simp del]

fun base32_bytes :: "u16 \<Rightarrow> nat \<Rightarrow> bytes \<Rightarrow> bytes" where
  "base32_bytes buffer bits [] =
     (if 0 < bits
      then [base32_alphabet ! unat (and (push_bit (5 - bits) buffer) 31)] else [])"
| "base32_bytes buffer bits (byte # value) =
     (let buffer' = or (push_bit 8 buffer) (ucast byte) in
      case base32_groups buffer' (bits + 8) of (output, rest) \<Rightarrow>
        output @ base32_bytes buffer' rest value)"

definition base32 :: "bytes \<Rightarrow> bool \<Rightarrow> bytes" where
  "base32 value padded =
     (let output = base32_bytes 0 0 value in
      if padded then output @ replicate ((8 - length output mod 8) mod 8) 61 else output)"

definition byte_is_alphanumeric :: "u8 \<Rightarrow> bool" where
  "byte_is_alphanumeric b \<longleftrightarrow>
     48 \<le> b \<and> b \<le> 57 \<or> 65 \<le> b \<and> b \<le> 90 \<or> 97 \<le> b \<and> b \<le> 122"

definition percent_encode :: "bytes \<Rightarrow> bool \<Rightarrow> bytes" where
  "percent_encode text upper =
     concat (map (\<lambda>b.
       if byte_is_alphanumeric b \<or> b \<in> set (str_bytes ''-_.~'') then [b]
       else [37, hex_digit upper (unat b div 16), hex_digit upper (unat b mod 16)]) text)"

definition double_url_encode :: "bytes \<Rightarrow> bool \<Rightarrow> bytes" where
  "double_url_encode text upper = percent_encode (percent_encode text upper) upper"

definition doubled_percent_encode :: "bytes \<Rightarrow> bool \<Rightarrow> bytes" where
  "doubled_percent_encode text upper =
     concat (map (\<lambda>b. if b = 37 then [37, 37] else [b]) (percent_encode text upper))"

definition html_decimal_escape :: "nat list \<Rightarrow> bytes" where
  "html_decimal_escape chars =
     concat (map (\<lambda>c. str_bytes ''&#'' @ decimal c @ str_bytes '';'') chars)"

definition html_hex_escape :: "nat list \<Rightarrow> bool \<Rightarrow> bool \<Rightarrow> bytes" where
  "html_hex_escape chars upper_x upper_digits =
     concat (map (\<lambda>c. (if upper_x then str_bytes ''&#X'' else str_bytes ''&#x'') @
       hexadecimal upper_digits c @ str_bytes '';'') chars)"

definition unicode_escape :: "nat list \<Rightarrow> bool \<Rightarrow> bytes" where
  "unicode_escape chars upper =
     concat (map (\<lambda>c. if c < 128
       then [92, 117] @ zero_padded 4 (hexadecimal upper c) else utf8_char c) chars)"

record codecs =
  co_b64 :: "bytes \<Rightarrow> bytes"
  co_b64_nopad :: "bytes \<Rightarrow> bytes"
  co_b64_url :: "bytes \<Rightarrow> bytes"
  co_b64_url_nopad :: "bytes \<Rightarrow> bytes"
  co_json_to_string :: "bytes \<Rightarrow> bytes option"

definition strip_quotes :: "bytes \<Rightarrow> bytes option" where
  "strip_quotes text =
     (case text of
        [] \<Rightarrow> None
      | first # rest \<Rightarrow>
          if first = 34 \<and> rest \<noteq> [] \<and> last rest = 34 then Some (butlast rest) else None)"

definition json_escape :: "codecs \<Rightarrow> bytes \<Rightarrow> bytes" where
  "json_escape co text =
     (let quoted = (case co_json_to_string co text of None \<Rightarrow> text | Some printed \<Rightarrow> printed) in
      case strip_quotes quoted of None \<Rightarrow> quoted | Some stripped \<Rightarrow> stripped)"

section \<open>Needles\<close>

definition min_redactable_len :: nat where "min_redactable_len = 4"
definition max_redaction_secrets :: nat where "max_redaction_secrets = 128"
definition max_redaction_source_bytes :: nat where "max_redaction_source_bytes = 128 * 1024"
definition max_redaction_secret_len :: nat where "max_redaction_secret_len = 32 * 1024"
definition max_redaction_input_bytes :: nat where "max_redaction_input_bytes = 1024 * 1024"

datatype redactor_error =
    Redactor_TooManySecrets
  | Redactor_SourceBytes
  | Redactor_SecretLength
  | Redactor_InputBytes

record text_needle =
  tn_value :: bytes
  tn_marker :: string

record redactor =
  rd_text_needles :: "text_needle list"
  rd_raw_needles :: "bytes list"

definition push_unique_text :: "bytes \<Rightarrow> string \<Rightarrow> text_needle list \<Rightarrow> text_needle list" where
  "push_unique_text value marker needles =
     (if length value < min_redactable_len then needles
      else if list_ex (\<lambda>needle. tn_value needle = value) needles then needles
      else needles @ [\<lparr>tn_value = value, tn_marker = marker\<rparr>])"

definition push_unique_raw :: "bytes \<Rightarrow> bytes list \<Rightarrow> bytes list" where
  "push_unique_raw value needles =
     (if length value < min_redactable_len then needles
      else if list_ex (\<lambda>needle. needle = value) needles then needles
      else needles @ [value])"

text \<open>The spellings of one secret, in the order the source adds them, each with its marker.\<close>

definition text_spellings :: "codecs \<Rightarrow> bytes \<Rightarrow> (bytes \<times> string) list" where
  "text_spellings co value =
     [(co_b64 co value, ''[REDACTED_B64]''),
      (co_b64_nopad co value, ''[REDACTED_B64]''),
      (co_b64_url co value, ''[REDACTED_B64URL]''),
      (co_b64_url_nopad co value, ''[REDACTED_B64URL]''),
      (hex value False, ''[REDACTED_HEX]''),
      (hex value True, ''[REDACTED_HEX]''),
      (base32 value True, ''[REDACTED_BASE32]''),
      (base32 value False, ''[REDACTED_BASE32]''),
      (ascii_lowercase (base32 value True), ''[REDACTED_BASE32]''),
      (ascii_lowercase (base32 value False), ''[REDACTED_BASE32]'')] @
     (case utf8_chars value of
        None \<Rightarrow> []
      | Some chars \<Rightarrow>
          [(value, ''[REDACTED]''),
           (percent_encode value True, ''[REDACTED_URL]''),
           (percent_encode value False, ''[REDACTED_URL]''),
           (double_url_encode value True, ''[REDACTED_URL2]''),
           (double_url_encode value False, ''[REDACTED_URL2]''),
           (doubled_percent_encode value True, ''[REDACTED_DOUBLE_PERCENT]''),
           (doubled_percent_encode value False, ''[REDACTED_DOUBLE_PERCENT]''),
           (json_escape co value, ''[REDACTED_JSON]''),
           (html_decimal_escape chars, ''[REDACTED_HTML]''),
           (html_hex_escape chars False False, ''[REDACTED_HTML]''),
           (html_hex_escape chars False True, ''[REDACTED_HTML]''),
           (html_hex_escape chars True False, ''[REDACTED_HTML]''),
           (html_hex_escape chars True True, ''[REDACTED_HTML]''),
           (unicode_escape chars False, ''[REDACTED_UNICODE]''),
           (unicode_escape chars True, ''[REDACTED_UNICODE]'')])"

definition add_needles :: "codecs \<Rightarrow> bytes \<Rightarrow> redactor \<Rightarrow> redactor" where
  "add_needles co value r =
     (if value = [] then r
      else \<lparr>rd_text_needles = fold (\<lambda>(spelling, marker). push_unique_text spelling marker)
              (text_spellings co value) (rd_text_needles r),
            rd_raw_needles = push_unique_raw value (rd_raw_needles r)\<rparr>)"

definition try_from_secret_slices :: "codecs \<Rightarrow> bytes list \<Rightarrow> redactor_error + redactor" where
  "try_from_secret_slices co values =
     (if length values > max_redaction_secrets then Inl Redactor_TooManySecrets
      else
      and_then (fold_results (\<lambda>source_bytes value.
        if length value > max_redaction_secret_len then Inl Redactor_SecretLength
        else
        and_then (ok_or Redactor_SourceBytes (usize_checked_add source_bytes (length value)))
          (\<lambda>total.
        if total > max_redaction_source_bytes then Inl Redactor_SourceBytes else Inr total))
        0 values) (\<lambda>_.
      let r = fold (add_needles co) values \<lparr>rd_text_needles = [], rd_raw_needles = []\<rparr> in
      Inr \<lparr>rd_text_needles = sort_key (\<lambda>needle. - int (length (tn_value needle)))
             (rd_text_needles r),
           rd_raw_needles = sort_key (\<lambda>needle. - int (length needle)) (rd_raw_needles r)\<rparr>))"

section \<open>One-shot redaction\<close>

text \<open>The loop of \<open>replace_bytes\<close>: copy up to the next occurrence, then the marker.\<close>

function replace_bytes :: "bytes \<Rightarrow> bytes \<Rightarrow> bytes \<Rightarrow> bytes" where
  "replace_bytes input needle marker =
     (if needle = [] \<or> input = [] then input
      else if take (length needle) input = needle
      then marker @ replace_bytes (drop (length needle) input) needle marker
      else hd input # replace_bytes (tl input) needle marker)"
  by pat_completeness auto

termination replace_bytes
  by (relation "measure (\<lambda>(input, _, _). length input)")
    (auto simp: length_greater_0_conv [symmetric] simp del: length_greater_0_conv)

declare replace_bytes.simps [simp del]

definition redact_str :: "redactor \<Rightarrow> bytes \<Rightarrow> redactor_error + bytes" where
  "redact_str r input =
     (if length input > max_redaction_input_bytes then Inl Redactor_InputBytes
      else Inr (fold (\<lambda>needle output. if tn_value needle \<noteq> []
        then replace_bytes output (tn_value needle) (str_bytes (tn_marker needle)) else output)
        (rd_text_needles r) input))"

definition redact_raw_bytes :: "redactor \<Rightarrow> bytes \<Rightarrow> bytes" where
  "redact_raw_bytes r input =
     fold (\<lambda>needle output. replace_bytes output needle (str_bytes ''[REDACTED]''))
       (rd_raw_needles r) input"

section \<open>What the needles cover\<close>

definition spellings :: "codecs \<Rightarrow> bytes \<Rightarrow> bytes set" where
  "spellings co value =
     {spelling. min_redactable_len \<le> length spelling \<and> value \<noteq> [] \<and>
       (spelling = value \<or> spelling \<in> fst ` set (text_spellings co value))}"

definition rd_patterns :: "redactor \<Rightarrow> bytes list" where
  "rd_patterns r = rd_raw_needles r @ map tn_value (rd_text_needles r)"

lemma push_unique_text_values:
  "tn_value ` set (push_unique_text value marker needles) =
     tn_value ` set needles \<union> (if length value < min_redactable_len then {} else {value})"
  by (auto simp: push_unique_text_def list_ex_iff)

lemma fold_push_values:
  "tn_value ` set (fold (\<lambda>(spelling, marker). push_unique_text spelling marker) xs needles) =
     tn_value ` set needles \<union> {s \<in> fst ` set xs. min_redactable_len \<le> length s}"
proof (induction xs arbitrary: needles)
  case (Cons x xs)
  show ?case
    by (cases x) (auto simp only: fold_Cons comp_def prod.case Cons push_unique_text_values
        list.set image_insert fst_conv split: if_splits)
qed simp

lemma push_unique_raw_values:
  "set (push_unique_raw value needles) =
     set needles \<union> (if length value < min_redactable_len then {} else {value})"
  by (auto simp: push_unique_raw_def list_ex_iff)

lemma add_needles_patterns:
  "set (rd_patterns (add_needles co value r)) = set (rd_patterns r) \<union> spellings co value"
  by (auto simp: rd_patterns_def add_needles_def spellings_def fold_push_values
      push_unique_raw_values not_less image_iff split: if_splits)

lemma fold_needles_patterns:
  "set (rd_patterns (fold (add_needles co) secrets r)) =
     set (rd_patterns r) \<union> \<Union> (spellings co ` set secrets)"
  by (induction secrets arbitrary: r) (auto simp: add_needles_patterns)

lemma try_from_secret_slices_patterns:
  assumes "try_from_secret_slices co secrets = Inr r"
  shows "set (rd_patterns r) = \<Union> (spellings co ` set secrets)"
  using assms fold_needles_patterns [of co secrets "\<lparr>rd_text_needles = [], rd_raw_needles = []\<rparr>"]
  by (auto simp: try_from_secret_slices_def rd_patterns_def result_simps Let_def split: if_splits)

end
