(* ===== verification/Jury_Redact_Stream.thy ===== *)
theory Jury_Redact_Stream
  imports Jury_Redact Jury_Calls "HOL-Library.Sublist"
begin

text \<open>
  The streaming redactor of \<open>jury-protected/src/streaming_redaction.rs\<close>. The Aho-Corasick automaton
  is third-party code: \<open>find_iter patterns input\<close> are the matches, as start and end, of the
  automaton built from the patterns. A writer is a call that takes bytes.
\<close>

section \<open>The redactor\<close>

definition redaction_marker :: bytes where "redaction_marker = str_bytes ''[REDACTED]''"
definition max_redaction_patterns :: nat where "max_redaction_patterns = 4096"
definition max_redaction_pattern_bytes :: nat where
  "max_redaction_pattern_bytes = 16 * 1024 * 1024"
definition max_redaction_pattern_len :: nat where "max_redaction_pattern_len = 512 * 1024"
definition max_output_chunk_len :: nat where "max_output_chunk_len = 64 * 1024"

datatype streaming_redactor_error =
    Streaming_PatternCount
  | Streaming_PatternBytes
  | Streaming_PatternLength
  | Streaming_PatternTooShort
  | Streaming_ProtectedMemory
  | Streaming_Matcher

type_synonym find_iter = "bytes list \<Rightarrow> bytes \<Rightarrow> (nat \<times> nat) list"

text \<open>The automaton is the list of the patterns it was built from.\<close>

record streaming_redactor =
  sr_matcher :: "bytes list option"
  sr_pattern_count :: nat
  sr_max_pattern_len :: nat
  sr_pending :: bytes

definition validate_patterns :: "bytes list \<Rightarrow> streaming_redactor_error + unit" where
  "validate_patterns patterns =
     (if length patterns > max_redaction_patterns then Inl Streaming_PatternCount
      else
      and_then (fold_results (\<lambda>total pattern.
        if length pattern < min_redactable_len then Inl Streaming_PatternTooShort
        else if length pattern > max_redaction_pattern_len then Inl Streaming_PatternLength
        else
        and_then (ok_or Streaming_PatternBytes (usize_checked_add total (length pattern)))
          (\<lambda>sum.
        if sum > max_redaction_pattern_bytes then Inl Streaming_PatternBytes else Inr sum))
        0 patterns) (\<lambda>_. Inr ()))"

definition streaming_new ::
    "(bytes list \<Rightarrow> bool) \<Rightarrow> bytes list \<Rightarrow> streaming_redactor_error + streaming_redactor" where
  "streaming_new automaton_builds patterns =
     and_then (validate_patterns patterns) (\<lambda>_.
     let distinct_patterns = remdups_adj (sort patterns) in
     let max_pattern_len = fold (\<lambda>pattern. max (length pattern)) distinct_patterns 0 in
     and_then
       (if distinct_patterns = [] then Inr None
        else if automaton_builds distinct_patterns then Inr (Some distinct_patterns)
        else Inl Streaming_Matcher) (\<lambda>matcher.
     and_then (ok_or Streaming_PatternBytes
       (usize_checked_add (max_pattern_len - 1) max_output_chunk_len)) (\<lambda>_.
     Inr \<lparr>sr_matcher = matcher, sr_pattern_count = length distinct_patterns,
          sr_max_pattern_len = max_pattern_len, sr_pending = []\<rparr>)))"

definition independent_stream :: "streaming_redactor \<Rightarrow> streaming_redactor" where
  "independent_stream r = r\<lparr>sr_pending := []\<rparr>"

text \<open>Appending the needles of a redactor to the patterns, with the number of bytes so far.\<close>

definition append_streaming_patterns ::
    "redactor \<Rightarrow> bytes list \<times> nat \<Rightarrow> streaming_redactor_error + bytes list \<times> nat" where
  "append_streaming_patterns r start =
     fold_results (\<lambda>(patterns, total_bytes) value.
       if length value > max_redaction_pattern_len then Inl Streaming_PatternLength
       else
       and_then (ok_or Streaming_PatternBytes (usize_checked_add total_bytes (length value)))
         (\<lambda>total.
       if total > max_redaction_pattern_bytes then Inl Streaming_PatternBytes
       else if length patterns \<ge> max_redaction_patterns then Inl Streaming_PatternCount
       else Inr (patterns @ [value], total))) start (rd_patterns r)"

definition from_redactors ::
    "(bytes list \<Rightarrow> bool) \<Rightarrow> redactor list \<Rightarrow> streaming_redactor_error + streaming_redactor" where
  "from_redactors automaton_builds redactors =
     and_then (fold_results (\<lambda>collected r. append_streaming_patterns r collected) ([], 0)
       redactors) (\<lambda>(patterns, _).
     streaming_new automaton_builds patterns)"

fun map_redactor_error :: "redactor_error \<Rightarrow> streaming_redactor_error" where
  "map_redactor_error Redactor_TooManySecrets = Streaming_PatternCount"
| "map_redactor_error Redactor_SourceBytes = Streaming_PatternBytes"
| "map_redactor_error Redactor_SecretLength = Streaming_PatternLength"
| "map_redactor_error Redactor_InputBytes = Streaming_PatternBytes"

text \<open>
  A protected value is what exposing it gives: its bytes, or nothing when the memory is not
  available.
\<close>

definition from_protected_values ::
    "codecs \<Rightarrow> (bytes list \<Rightarrow> bool) \<Rightarrow> bytes option list
      \<Rightarrow> streaming_redactor_error + streaming_redactor" where
  "from_protected_values co automaton_builds protected =
     and_then (fold_results (\<lambda>collected (index, value).
       if index \<ge> max_redaction_secrets then Inl Streaming_PatternCount
       else
       and_then (ok_or Streaming_ProtectedMemory value) (\<lambda>bytes.
       and_then (map_err map_redactor_error (try_from_secret_slices co [bytes])) (\<lambda>r.
       append_streaming_patterns r collected))) ([], 0) (enumerate 0 protected))
       (\<lambda>(patterns, _).
     streaming_new automaton_builds patterns)"

datatype io_error = Io_Interrupted | Io_WouldBlock | Io_InvalidInput | Io_Other

type_synonym 'w writer = "bytes \<Rightarrow> ('w, io_error, unit) call"

definition byte_range :: "bytes \<Rightarrow> nat \<Rightarrow> nat \<Rightarrow> bytes" where
  "byte_range input start stop = take (stop - start) (drop start input)"

text \<open>The loop over the matches: where it stopped writing, and how much is consumed.\<close>

fun emit_loop ::
    "'w writer \<Rightarrow> bytes \<Rightarrow> nat \<Rightarrow> nat \<Rightarrow> nat \<Rightarrow> (nat \<times> nat) list
      \<Rightarrow> ('w, io_error, nat \<times> nat) call" where
  "emit_loop write_all input limit cursor consumed [] = call_result (Inr (cursor, consumed))"
| "emit_loop write_all input limit cursor consumed ((start, stop) # matches) =
     (if start \<ge> limit then call_result (Inr (cursor, consumed))
      else
      call_then (write_all (byte_range input cursor start)) (\<lambda>_.
      call_then (write_all redaction_marker) (\<lambda>_.
      emit_loop write_all input limit stop (max consumed stop) matches)))"

definition emit_matches ::
    "find_iter \<Rightarrow> bytes list \<Rightarrow> 'w writer \<Rightarrow> bytes \<Rightarrow> nat \<Rightarrow> ('w, io_error, nat) call" where
  "emit_matches find_iter matcher write_all input safe_start_limit =
     call_then (emit_loop write_all input safe_start_limit 0 safe_start_limit
       (find_iter matcher input)) (\<lambda>(cursor, consumed).
     call_then (if cursor < safe_start_limit
       then write_all (byte_range input cursor safe_start_limit) else call_result (Inr ())) (\<lambda>_.
     call_result (Inr consumed)))"

definition push_chunk ::
    "find_iter \<Rightarrow> 'w writer \<Rightarrow> streaming_redactor \<Rightarrow> bytes \<Rightarrow> 'w
      \<Rightarrow> (io_error + unit) \<times> streaming_redactor \<times> 'w" where
  "push_chunk find_iter write_all r chunk w =
     (if length chunk > max_output_chunk_len then (Inl Io_InvalidInput, r, w)
      else case sr_matcher r of
        None \<Rightarrow> (case write_all chunk w of (result, w') \<Rightarrow> (result, r, w'))
      | Some matcher \<Rightarrow>
          if chunk = [] then (Inr (), r, w)
          else
          let pending = sr_pending r @ chunk;
              grown = r\<lparr>sr_pending := pending\<rparr>;
              safe_start_limit = length pending - (sr_max_pattern_len r - 1) in
          if safe_start_limit = 0 then (Inr (), grown, w)
          else
          (case emit_matches find_iter matcher write_all pending safe_start_limit w of
             (Inl e, w') \<Rightarrow> (Inl e, grown, w')
           | (Inr consumed, w') \<Rightarrow>
               (Inr (), grown\<lparr>sr_pending := drop consumed pending\<rparr>, w')))"

definition streaming_finish ::
    "find_iter \<Rightarrow> 'w writer \<Rightarrow> streaming_redactor \<Rightarrow> ('w, io_error, unit) call" where
  "streaming_finish find_iter write_all r =
     (case sr_matcher r of
        None \<Rightarrow> call_result (Inr ())
      | Some matcher \<Rightarrow>
          call_then (emit_matches find_iter matcher write_all (sr_pending r)
            (length (sr_pending r))) (\<lambda>_. call_result (Inr ())))"

section \<open>Leftmost-longest redaction\<close>

text \<open>
  The reference: at every position the longest pattern that starts there is replaced, and the
  search goes on after it. A segment is a byte that is kept or a match that is replaced.
\<close>

datatype segment = Kept u8 | Redacted bytes

definition match_at :: "bytes list \<Rightarrow> bytes \<Rightarrow> nat" where
  "match_at patterns input =
     fold max (map length (filter (\<lambda>pattern. prefix pattern input) patterns)) 0"

function segments :: "bytes list \<Rightarrow> bytes \<Rightarrow> segment list" where
  "segments patterns input =
     (case input of
        [] \<Rightarrow> []
      | byte # rest \<Rightarrow>
          (let n = match_at patterns input in
           if n = 0 then Kept byte # segments patterns rest
           else Redacted (take n input) # segments patterns (drop n input)))"
  by pat_completeness auto

termination segments
  by (relation "measure (\<lambda>(_, input). length input)") auto

declare segments.simps [simp del]

fun source_of :: "segment \<Rightarrow> bytes" where
  "source_of (Kept byte) = [byte]"
| "source_of (Redacted secret) = secret"

fun shown_of :: "segment \<Rightarrow> bytes" where
  "shown_of (Kept byte) = [byte]"
| "shown_of (Redacted secret) = redaction_marker"

definition shown_text :: "segment list \<Rightarrow> bytes" where
  "shown_text segs = concat (map shown_of segs)"

definition redacted :: "bytes list \<Rightarrow> bytes \<Rightarrow> bytes" where
  "redacted patterns input = shown_text (segments patterns input)"

text \<open>
  The documented behaviour of the leftmost-longest automaton: successive matches that do not
  overlap, each the leftmost one from the end of the match before and the longest there.
\<close>

function leftmost_longest :: "bytes list \<Rightarrow> nat \<Rightarrow> bytes \<Rightarrow> (nat \<times> nat) list" where
  "leftmost_longest patterns offset input =
     (case input of
        [] \<Rightarrow> []
      | byte # rest \<Rightarrow>
          (let n = match_at patterns input in
           if n = 0 then leftmost_longest patterns (offset + 1) rest
           else (offset, offset + n) # leftmost_longest patterns (offset + n) (drop n input)))"
  by pat_completeness auto

termination leftmost_longest
  by (relation "measure (\<lambda>(_, _, input). length input)") auto

declare leftmost_longest.simps [simp del]

definition leftmost_longest_iter :: "find_iter \<Rightarrow> bool" where
  "leftmost_longest_iter find_iter \<longleftrightarrow>
     (\<forall>patterns input. [] \<notin> set patterns \<longrightarrow>
       find_iter patterns input = leftmost_longest patterns 0 input)"

section \<open>The reference\<close>

lemma fold_max_le: "(\<forall>x \<in> set xs. x \<le> m) \<and> a \<le> m \<Longrightarrow> fold max xs a \<le> (m :: nat)"
  by (induction xs arbitrary: a) auto

lemma fold_max_ge: "x \<in> insert a (set xs) \<Longrightarrow> x \<le> fold max xs (a :: nat)"
proof (induction xs arbitrary: a x)
  case (Cons y xs)
  from Cons.IH [of "max y a" "max y a"] Cons.IH [of x "max y a"] Cons.prems show ?case
    by (auto simp: max_def split: if_splits)
qed simp

lemma fold_max_mem: "fold max xs (a :: nat) \<in> insert a (set xs)"
proof (induction xs arbitrary: a)
  case (Cons x xs)
  from Cons [of "max x a"] show ?case
    by (auto simp: max_def split: if_splits)
qed simp

lemma match_at_ge: "p \<in> set patterns \<Longrightarrow> prefix p input \<Longrightarrow> length p \<le> match_at patterns input"
  unfolding match_at_def by (rule fold_max_ge) auto

lemma match_at_mem:
  assumes "match_at patterns input \<noteq> 0"
  shows "take (match_at patterns input) input \<in> set patterns"
    and "match_at patterns input \<le> length input"
proof -
  have "match_at patterns input \<in> length ` {p \<in> set patterns. prefix p input}"
    using assms fold_max_mem [of "map length (filter (\<lambda>p. prefix p input) patterns)" 0]
    unfolding match_at_def by auto
  then obtain p where "p \<in> set patterns" "prefix p input" "match_at patterns input = length p"
    by auto
  then show "take (match_at patterns input) input \<in> set patterns"
    and "match_at patterns input \<le> length input"
    by (auto simp: prefix_def)
qed

lemma match_at_append:
  assumes "\<forall>p \<in> set patterns. length p \<le> length input"
  shows "match_at patterns (input @ later) = match_at patterns input"
proof -
  have "prefix p (input @ later) \<longleftrightarrow> prefix p input" if "p \<in> set patterns" for p
    using assms that by (auto simp: prefix_append dest: prefix_length_le)
  then have "filter (\<lambda>p. prefix p (input @ later)) patterns = filter (\<lambda>p. prefix p input) patterns"
    by (intro filter_cong) auto
  then show ?thesis
    by (simp add: match_at_def)
qed

lemma match_at_Nil [simp]: "match_at patterns [] = 0"
  using match_at_mem(2) [of patterns "[]"] by auto

lemma segments_Nil [simp]: "segments patterns [] = []"
  by (simp add: segments.simps)

lemma segments_keep:
  "match_at patterns (byte # rest) = 0 \<Longrightarrow>
     segments patterns (byte # rest) = Kept byte # segments patterns rest"
  by (simp add: segments.simps [of patterns "byte # rest"])

lemma segments_match:
  "match_at patterns input = n \<Longrightarrow> n \<noteq> 0 \<Longrightarrow>
     segments patterns input = Redacted (take n input) # segments patterns (drop n input)"
  by (subst segments.simps) (auto simp: Let_def split: list.split)

lemma shown_text_simps [simp]:
  "shown_text [] = []" "shown_text (seg # segs) = shown_of seg @ shown_text segs"
  "shown_text (segs @ segs') = shown_text segs @ shown_text segs'"
  by (simp_all add: shown_text_def)

lemma redacted_Nil [simp]: "redacted patterns [] = []"
  by (simp add: redacted_def)

lemma redacted_keep:
  "match_at patterns (byte # rest) = 0 \<Longrightarrow>
     redacted patterns (byte # rest) = byte # redacted patterns rest"
  by (simp add: redacted_def segments_keep)

lemma redacted_match:
  "match_at patterns input = n \<Longrightarrow> n \<noteq> 0 \<Longrightarrow>
     redacted patterns input = redaction_marker @ redacted patterns (drop n input)"
  by (simp add: redacted_def segments_match)

lemma leftmost_longest_Nil [simp]: "leftmost_longest patterns i [] = []"
  by (simp add: leftmost_longest.simps)

lemma leftmost_longest_keep:
  "match_at patterns (byte # rest) = 0 \<Longrightarrow>
     leftmost_longest patterns i (byte # rest) = leftmost_longest patterns (i + 1) rest"
  by (simp add: leftmost_longest.simps [of patterns i])

lemma leftmost_longest_match:
  "match_at patterns input = n \<Longrightarrow> n \<noteq> 0 \<Longrightarrow>
     leftmost_longest patterns i input =
       (i, i + n) # leftmost_longest patterns (i + n) (drop n input)"
  by (subst leftmost_longest.simps) (auto simp: Let_def split: list.split)

lemma segments_none: "segments [] input = map Kept input"
  by (induction input) (simp_all add: segments_keep match_at_def)

lemma shown_text_kept [simp]: "shown_text (map Kept bs) = bs"
  by (induction bs) simp_all

lemma redacted_none [simp]: "redacted [] input = input"
  by (simp add: redacted_def segments_none)

lemma leftmost_longest_start:
  "leftmost_longest patterns i input = (start, stop) # matches \<Longrightarrow> i \<le> start"
proof (induction "length input" arbitrary: i input rule: less_induct)
  case less
  show ?case
  proof (cases "match_at patterns input = 0")
    case True
    then obtain byte rest where input: "input = byte # rest"
      using less.prems by (cases input) auto
    then show ?thesis
      using True less.hyps [of rest "i + 1"] less.prems by (auto simp: leftmost_longest_keep)
  qed (use less.prems in \<open>simp add: leftmost_longest_match\<close>)
qed

section \<open>Writing\<close>

locale byte_writer =
  fixes write_all :: "'w writer" and written :: "'w \<Rightarrow> bytes"
  assumes write_all_wp: "call_wp (write_all bs) (\<lambda>_ w'. written w' = written w @ bs)
    (\<lambda>_ w'. prefix (written w') (written w @ bs)) w"
begin

lemma write_then_wp:
  assumes "\<And>v. written v = written w @ bs \<Longrightarrow> call_wp (continue ()) Q E v"
    and "\<And>e v. prefix (written v) (written w @ bs) \<Longrightarrow> E e v"
  shows "call_wp (call_then (write_all bs) continue) Q E w"
  unfolding call_wp_then by (rule call_wp_mono [OF write_all_wp]) (simp_all add: assms)

lemma emit_loop_wp:
  fixes patterns :: "bytes list" and input rest :: bytes
  defines "segs i \<equiv> segments patterns (drop i input @ rest)"
  assumes decided: "\<And>i. i < limit \<Longrightarrow>
      match_at patterns (drop i input @ rest) = match_at patterns (drop i input)"
    and "limit \<le> length input" and "cursor \<le> i" and "i \<le> limit \<or> cursor = i"
    and "i \<le> length input"
  shows "call_wp (emit_loop write_all input limit cursor (max limit cursor)
      (leftmost_longest patterns i (drop i input)))
    (\<lambda>(stop, consumed) w'. consumed = max limit stop \<and> stop \<le> length input \<and>
      (\<exists>out found. written w' = written w @ out \<and> segs i = found @ segs consumed \<and>
        byte_range input cursor i @ shown_text found = out @ byte_range input stop consumed))
    (\<lambda>_ w'. prefix (written w') (written w @ byte_range input cursor i @ shown_text (segs i))) w"
  using assms(4-6)
proof (induction "length input - i" arbitrary: i cursor w rule: less_induct)
  case less
  let ?matches = "leftmost_longest patterns i (drop i input)"
  show ?case
  proof (cases "i < limit")
    case False
    then have stop: "emit_loop write_all input limit cursor (max limit cursor) ?matches =
        call_result (Inr (cursor, max limit cursor))"
      by (cases ?matches) (auto dest: leftmost_longest_start)
    have "i = max limit cursor"
      using False less.prems by auto
    then show ?thesis
      using less.prems unfolding stop by (auto simp: call_wp_result byte_range_def)
  next
    case True
    then obtain byte tail where drop: "drop i input = byte # tail"
      using assms(3) by (cases "drop i input") auto
    then have tail: "tail = drop (i + 1) input"
      by (metis drop_Suc Suc_eq_plus1 drop_drop list.sel(3) plus_1_eq_Suc tl_drop)
    let ?n = "match_at patterns (drop i input)"
    show ?thesis
    proof (cases "?n = 0")
      case True
      then have matches: "?matches = leftmost_longest patterns (i + 1) (drop (i + 1) input)"
        using leftmost_longest_keep [of patterns byte tail i] by (simp add: drop tail)
      have segs_i: "segs i = Kept byte # segs (i + 1)"
        using True decided [OF \<open>i < limit\<close>] segments_keep [of patterns byte "tail @ rest"]
        by (simp add: segs_def drop tail)
      have kept: "byte_range input cursor (i + 1) = byte_range input cursor i @ [byte]"
        using less.prems(1) \<open>i < limit\<close> assms(3) drop
        by (simp add: byte_range_def Suc_diff_le take_Suc_conv_app_nth nth_via_drop)
      have "\<exists>out found'. written w' = written w @ out \<and> Kept byte # segs (i + 1) = found' @ segs consumed \<and>
          byte_range input cursor i @ shown_text found' = out @ byte_range input stop consumed"
        if "written w' = written w @ out" "segs (i + 1) = found @ segs consumed"
          "byte_range input cursor (i + 1) @ shown_text found = out @ byte_range input stop consumed"
        for w' out found stop consumed
        by (rule exI [where x = out], rule exI [where x = "Kept byte # found"])
          (use that kept in simp)
      then show ?thesis
        using less.prems \<open>i < limit\<close> assms(3) unfolding matches segs_i
        by (intro call_wp_mono [OF less.hyps [of "i + 1" cursor w]]) (auto simp: kept [simplified])
    next
      case False
      let ?next = "i + ?n"
      have bound: "?next \<le> length input"
        using match_at_mem(2) [OF False] \<open>i < limit\<close> assms(3) by simp
      have matches: "?matches = (i, ?next) # leftmost_longest patterns ?next (drop ?next input)"
        using leftmost_longest_match [OF refl False, of i] by (simp add: add.commute)
      obtain secret where segs_i: "segs i = Redacted secret # segs ?next"
        using segments_match [OF decided [OF \<open>i < limit\<close>] False] match_at_mem(2) [OF False]
        by (simp add: segs_def add.commute)
      have next_consumed: "max (max limit cursor) ?next = max limit ?next"
        using less.prems(1) by simp
      have "call_wp (emit_loop write_all input limit ?next (max limit ?next)
          (leftmost_longest patterns ?next (drop ?next input)))
        (\<lambda>(stop, consumed) w'. consumed = max limit stop \<and> stop \<le> length input \<and>
          (\<exists>out found. written w' = written v @ out \<and> segs ?next = found @ segs consumed \<and>
            shown_text found = out @ byte_range input stop consumed))
        (\<lambda>_ w'. prefix (written w') (written v @ shown_text (segs ?next))) v" for v
        using less.hyps [of ?next ?next v] False \<open>i < limit\<close> assms(3) bound
        by (simp add: byte_range_def)
      note continued = this
      have continue: "\<exists>out found'. written w' = written w @ out \<and>
          Redacted secret # segs ?next = found' @ segs consumed \<and>
          byte_range input cursor i @ shown_text found' = out @ byte_range input stop consumed"
        if "written w' = (written w @ byte_range input cursor i @ redaction_marker) @ out"
          "segs ?next = found @ segs consumed" "shown_text found = out @ byte_range input stop consumed"
        for w' out found stop consumed
        by (rule exI [where x = "byte_range input cursor i @ redaction_marker @ out"],
            rule exI [where x = "Redacted secret # found"]) (use that in simp)
      show ?thesis
        using \<open>i < limit\<close> unfolding matches emit_loop.simps next_consumed segs_i
      proof (simp del: emit_loop.simps, intro write_then_wp, goal_cases)
        case (1 v u)
        then show ?case
          by (intro call_wp_mono [OF continued [of u]]) (auto intro!: continue)
      next
        case (2 v e u)
        then show ?case
          using prefix_prefix [of "written u" "written v @ redaction_marker"] by simp
      next
        case (3 e v)
        then show ?case
          using prefix_prefix [of "written v" "written w @ byte_range input cursor i"] by simp
      qed
    qed
  qed
qed

lemma emit_matches_wp:
  assumes "leftmost_longest_iter find_iter" and "[] \<notin> set patterns" and "limit \<le> length input"
    and "\<And>i. i < limit \<Longrightarrow>
      match_at patterns (drop i input @ rest) = match_at patterns (drop i input)"
  shows "call_wp (emit_matches find_iter patterns write_all input limit)
    (\<lambda>consumed w'. limit \<le> consumed \<and> consumed \<le> length input \<and>
      (\<exists>found. segments patterns (input @ rest) = found @ segments patterns (drop consumed input @ rest) \<and>
        written w' = written w @ shown_text found))
    (\<lambda>_ w'. prefix (written w') (written w @ redacted patterns (input @ rest))) w"
proof -
  have matches: "find_iter patterns input = leftmost_longest patterns 0 input"
    using assms(1,2) by (simp add: leftmost_longest_iter_def)
  note loop = emit_loop_wp [where cursor = 0 and i = 0 and rest = rest, OF assms(4,3), simplified]
  show ?thesis
    unfolding emit_matches_def matches call_wp_then
  proof (rule call_wp_mono [OF loop], clarsimp, goal_cases)
    case (1 cursor v out found)
    then have found: "shown_text found = out @ byte_range input cursor (max limit cursor)"
      by (simp add: byte_range_def)
    show ?case
    proof (cases "cursor < limit")
      case True
      then have "call_wp (call_then (write_all (byte_range input cursor limit))
          (\<lambda>_. call_result (Inr limit)))
          (\<lambda>consumed w'. limit \<le> consumed \<and> consumed \<le> length input \<and>
            (\<exists>found. segments patterns (input @ rest) =
                found @ segments patterns (drop consumed input @ rest) \<and>
              written w' = written w @ shown_text found))
          (\<lambda>_ w'. prefix (written w') (written w @ redacted patterns (input @ rest))) v"
      proof (intro write_then_wp, goal_cases)
        case (1 u)
        then show ?case
          using \<open>written v = written w @ out\<close> \<open>segments patterns (input @ rest) = found @ _\<close> found True
            assms(3) by (auto simp: call_wp_result max_def intro!: exI [where x = found])
      next
        case (2 e u)
        moreover have "prefix (written v @ byte_range input cursor limit)
            (written w @ redacted patterns (input @ rest))"
          using \<open>written v = written w @ out\<close> \<open>segments patterns (input @ rest) = found @ _\<close> found True
          by (simp add: redacted_def max_def)
        ultimately show ?case
          using prefix_order.trans by blast
      qed
      then show ?thesis
        using True 1 by (simp add: call_wp_then max_def)
    next
      case False
      then show ?thesis
        using 1 found assms(3)
        by (auto simp: call_wp_then call_wp_result byte_range_def max_def intro!: exI [where x = found])
    qed
  qed (simp add: byte_range_def redacted_def)
qed

end

text \<open>A writer that hands over the whole text also when it then reports a failure.\<close>

locale logged_writer = byte_writer +
  assumes failed_write: "write_all bs w = (Inl e, w') \<Longrightarrow> written w' = written w @ bs"

section \<open>Streams\<close>

definition stream_patterns :: "streaming_redactor \<Rightarrow> bytes list" where
  "stream_patterns r = (case sr_matcher r of None \<Rightarrow> [] | Some patterns \<Rightarrow> patterns)"

definition stream_ok :: "streaming_redactor \<Rightarrow> bool" where
  "stream_ok r \<longleftrightarrow>
     [] \<notin> set (stream_patterns r) \<and>
     (\<forall>p \<in> set (stream_patterns r). length p \<le> sr_max_pattern_len r) \<and>
     (sr_matcher r = None \<longrightarrow> sr_pending r = [])"

lemma fold_max_length:
  "p \<in> set xs \<Longrightarrow> length p \<le> fold (\<lambda>pattern. max (length pattern)) xs a"
  using fold_max_ge [of "length p" a "map length xs"] by (simp add: fold_map comp_def)

lemma streaming_new_ok:
  assumes "streaming_new automaton_builds patterns = Inr r"
  shows "stream_ok r" and "set (stream_patterns r) = set patterns" and "sr_pending r = []"
proof -
  have valid: "validate_patterns patterns = Inr ()"
    and r: "stream_patterns r = remdups_adj (sort patterns)" "sr_pending r = []"
      "sr_max_pattern_len r = fold (\<lambda>p. max (length p)) (remdups_adj (sort patterns)) 0"
    using assms by (auto simp: streaming_new_def result_simps Let_def stream_patterns_def
        split: if_splits)
  have "p \<noteq> []" if "p \<in> set patterns" for p
  proof -
    obtain total where "fold_results (\<lambda>total pattern.
        if length pattern < min_redactable_len then Inl Streaming_PatternTooShort
        else if length pattern > max_redaction_pattern_len then Inl Streaming_PatternLength
        else
        and_then (ok_or Streaming_PatternBytes (usize_checked_add total (length pattern)))
          (\<lambda>sum.
        if sum > max_redaction_pattern_bytes then Inl Streaming_PatternBytes else Inr sum))
        0 patterns = Inr total"
      using valid by (auto simp: validate_patterns_def result_simps split: if_splits)
    then have "\<forall>p \<in> set patterns. min_redactable_len \<le> length p"
      by (rule fold_results_prefix [where P = "\<lambda>ps _. \<forall>p \<in> set ps. min_redactable_len \<le> length p"])
        (auto simp: not_less split: if_splits)
    then show ?thesis
      using that by (auto simp: min_redactable_len_def)
  qed
  then show "stream_ok r" "set (stream_patterns r) = set patterns" "sr_pending r = []"
    using r fold_max_length [of _ "remdups_adj (sort patterns)" 0] by (auto simp: stream_ok_def)
qed

context byte_writer
begin

lemma undecided_tail:
  assumes "stream_ok r" and "sr_matcher r = Some patterns"
    and "i < length pending - (sr_max_pattern_len r - 1)"
  shows "match_at patterns (drop i pending @ rest) = match_at patterns (drop i pending)"
  by (rule match_at_append) (use assms in \<open>auto simp: stream_ok_def stream_patterns_def\<close>)

lemma push_chunk_Inr:
  assumes "leftmost_longest_iter find_iter" and "stream_ok r"
    and "push_chunk find_iter write_all r chunk w = (Inr (), r', w')"
  shows "stream_ok r'" and "stream_patterns r' = stream_patterns r"
    and "\<exists>found. segments (stream_patterns r) (sr_pending r @ chunk @ rest) =
        found @ segments (stream_patterns r) (sr_pending r' @ rest) \<and>
      written w' = written w @ shown_text found"
proof -
  have "stream_ok r' \<and> stream_patterns r' = stream_patterns r \<and>
    (\<exists>found. segments (stream_patterns r) (sr_pending r @ chunk @ rest) =
        found @ segments (stream_patterns r) (sr_pending r' @ rest) \<and>
      written w' = written w @ shown_text found)"
  proof (cases "sr_matcher r")
    case None
    then have "write_all chunk w = (Inr (), w')" "r' = r"
      using assms(3) by (auto simp: push_chunk_def split: if_splits prod.splits)
    then show ?thesis
      using write_all_wp [of chunk w] None assms(2)
      by (auto simp: call_wp_def stream_patterns_def stream_ok_def segments_none
          intro!: exI [where x = "map Kept chunk"])
  next
    case (Some patterns)
    let ?pending = "sr_pending r @ chunk" and ?limit = "length (sr_pending r @ chunk) -
      (sr_max_pattern_len r - 1)"
    have stream: "stream_patterns r = patterns"
      by (simp add: Some stream_patterns_def)
    show ?thesis
    proof (cases "chunk = [] \<or> ?limit = 0")
      case True
      then show ?thesis
        using assms(2,3) Some stream
        by (auto simp: push_chunk_def Let_def stream_ok_def stream_patterns_def split: if_splits)
    next
      case False
      then obtain consumed where emitted: "emit_matches find_iter patterns write_all ?pending ?limit w =
          (Inr consumed, w')" and r': "r' = r\<lparr>sr_pending := drop consumed ?pending\<rparr>"
        using assms(3) Some
        by (auto simp: push_chunk_def Let_def split: if_splits prod.splits sum.splits)
      have "\<exists>found. segments patterns (?pending @ rest) =
          found @ segments patterns (drop consumed ?pending @ rest) \<and>
          written w' = written w @ shown_text found"
        using emit_matches_wp [OF assms(1), of patterns ?limit ?pending rest w,
            OF _ _ undecided_tail [OF assms(2) Some]] emitted assms(2) stream
        by (auto simp: call_wp_def stream_ok_def)
      then show ?thesis
        using assms(2) stream Some by (auto simp: r' stream_ok_def stream_patterns_def)
    qed
  qed
  then show "stream_ok r'" and "stream_patterns r' = stream_patterns r"
    and "\<exists>found. segments (stream_patterns r) (sr_pending r @ chunk @ rest) =
        found @ segments (stream_patterns r) (sr_pending r' @ rest) \<and>
      written w' = written w @ shown_text found"
    by blast+
qed

lemma streaming_finish_wp:
  assumes "leftmost_longest_iter find_iter" and "stream_ok r"
  shows "call_wp (streaming_finish find_iter write_all r)
    (\<lambda>_ w'. written w' = written w @ redacted (stream_patterns r) (sr_pending r))
    (\<lambda>_ w'. prefix (written w') (written w @ redacted (stream_patterns r) (sr_pending r))) w"
proof (cases "sr_matcher r")
  case None
  then show ?thesis
    using assms(2) by (simp add: streaming_finish_def call_wp_result stream_ok_def)
next
  case (Some patterns)
  then have "stream_patterns r = patterns" "[] \<notin> set patterns"
    using assms(2) by (auto simp: stream_patterns_def stream_ok_def)
  then show ?thesis
    using Some emit_matches_wp [OF assms(1), of patterns "length (sr_pending r)" "sr_pending r" "[]" w]
    by (auto simp: streaming_finish_def call_wp_then call_wp_result redacted_def elim!: call_wp_mono)
qed

end

text \<open>What every successful write keeps, and what still holds when a write fails.\<close>

definition write_keeps :: "'w writer \<Rightarrow> ('w \<Rightarrow> bool) \<Rightarrow> ('w \<Rightarrow> bool) \<Rightarrow> bool" where
  "write_keeps write_all I E \<longleftrightarrow>
     (\<forall>w. I w \<longrightarrow> E w) \<and> (\<forall>bs w. I w \<longrightarrow> call_wp (write_all bs) (\<lambda>_. I) (\<lambda>_. E) w)"

lemma call_wp_return: "call_wp (call_result (Inr x)) Q E = Q x"
  by (rule ext) (simp add: call_wp_result)

lemma emit_loop_keeps:
  assumes "write_keeps write_all I E"
  shows "I w \<Longrightarrow> call_wp (emit_loop write_all input limit cursor consumed matches) (\<lambda>_. I) (\<lambda>_. E) w"
proof (induction matches arbitrary: cursor consumed w)
  case Nil
  then show ?case
    by (simp add: call_wp_result)
next
  case (Cons m matches)
  obtain start stop where m: "m = (start, stop)"
    by (cases m)
  have writes: "call_wp (write_all bs) (\<lambda>_. I) (\<lambda>_. E) v" if "I v" for bs v
    using assms that by (simp add: write_keeps_def)
  show ?case
    unfolding m emit_loop.simps call_wp_if call_wp_then
    using Cons by (auto simp: call_wp_result intro!: call_wp_mono [OF writes])
qed

lemma emit_matches_keeps:
  assumes "write_keeps write_all I E" and "I w"
  shows "call_wp (emit_matches find_iter matcher write_all input limit) (\<lambda>_. I) (\<lambda>_. E) w"
  unfolding emit_matches_def call_wp_then
proof (rule call_wp_mono [OF emit_loop_keeps [OF assms]], clarify)
  fix cursor consumed v
  assume "I v"
  then have "call_wp (write_all bs) (\<lambda>_. I) (\<lambda>_. E) v" for bs
    using assms(1) by (simp add: write_keeps_def)
  then show "call_wp (call_then (if cursor < limit then write_all (byte_range input cursor limit)
      else call_result (Inr ())) (\<lambda>_. call_result (Inr consumed))) (\<lambda>_. I) (\<lambda>_. E) v"
    using \<open>I v\<close> by (simp add: call_wp_then call_wp_return)
qed

lemma push_chunk_keeps:
  assumes "write_keeps write_all I E" and "I w"
    and "push_chunk find_iter write_all r chunk w = (result, r', w')"
  shows "E w'" and "result = Inr () \<Longrightarrow> I w'"
proof -
  have imp: "I v \<Longrightarrow> E v" for v
    using assms(1) by (simp add: write_keeps_def)
  have "E w' \<and> (result = Inr () \<longrightarrow> I w')"
  proof (cases "sr_matcher r")
    case None
    have "call_wp (write_all chunk) (\<lambda>_. I) (\<lambda>_. E) w"
      using assms(1,2) by (simp add: write_keeps_def)
    then show ?thesis
      using assms(2,3) imp None
      by (auto simp: push_chunk_def call_wp_def split: if_splits prod.splits sum.splits)
  next
    case (Some matcher)
    let ?pending = "sr_pending r @ chunk"
    have "call_wp (emit_matches find_iter matcher write_all ?pending
        (length ?pending - (sr_max_pattern_len r - 1))) (\<lambda>_. I) (\<lambda>_. E) w"
      by (rule emit_matches_keeps [OF assms(1,2)])
    then show ?thesis
      using assms(2,3) imp Some
      by (auto simp: push_chunk_def call_wp_def Let_def split: if_splits prod.splits sum.splits)
  qed
  then show "E w'" and "result = Inr () \<Longrightarrow> I w'"
    by auto
qed

lemma streaming_finish_keeps:
  assumes "write_keeps write_all I E" and "I w"
  shows "call_wp (streaming_finish find_iter write_all r) (\<lambda>_. I) (\<lambda>_. E) w"
  using assms emit_matches_keeps [OF assms]
  by (auto simp: streaming_finish_def call_wp_then call_wp_return split: option.split)

context logged_writer
begin

lemma writes_grow:
  "write_keeps write_all (\<lambda>v. prefix before (written v)) (\<lambda>v. prefix before (written v))"
  unfolding write_keeps_def
proof (intro conjI allI impI)
  fix bs w
  assume "prefix before (written w)"
  then show "call_wp (write_all bs) (\<lambda>_ v. prefix before (written v)) (\<lambda>_ v. prefix before (written v)) w"
    using write_all_wp [of bs w] failed_write [of bs w]
    by (cases "write_all bs w") (auto simp: call_wp_def split: sum.splits)
qed

text \<open>
  After a failed write the redactor still holds everything it had not let go of before, so a later
  call starts over at the last byte that was let go.
\<close>

lemma push_chunk_Inl:
  assumes "leftmost_longest_iter find_iter" and "stream_ok r"
    and "push_chunk find_iter write_all r chunk w = (Inl e, r', w')"
    and "length chunk \<le> max_output_chunk_len"
  shows "stream_ok r'" and "stream_patterns r' = stream_patterns r"
    and "prefix (written w') (written w @ redacted (stream_patterns r) (sr_pending r @ chunk @ rest))"
    and "\<exists>found. segments (stream_patterns r) (sr_pending r @ chunk @ rest) =
        found @ segments (stream_patterns r) (sr_pending r' @ rest) \<and>
      prefix (written w @ shown_text found) (written w')"
proof -
  have "stream_ok r' \<and> stream_patterns r' = stream_patterns r \<and>
    prefix (written w') (written w @ redacted (stream_patterns r) (sr_pending r @ chunk @ rest)) \<and>
    (\<exists>found. segments (stream_patterns r) (sr_pending r @ chunk @ rest) =
        found @ segments (stream_patterns r) (sr_pending r' @ rest) \<and>
      prefix (written w @ shown_text found) (written w'))"
  proof (cases "sr_matcher r")
    case None
    then have "write_all chunk w = (Inl e, w')" "r' = r"
      using assms(3,4) by (auto simp: push_chunk_def split: if_splits prod.splits)
    then show ?thesis
      using failed_write None assms(2)
      by (auto simp: stream_patterns_def stream_ok_def segments_none
          intro!: exI [where x = "map Kept chunk"])
  next
    case (Some patterns)
    let ?pending = "sr_pending r @ chunk" and ?limit = "length (sr_pending r @ chunk) -
      (sr_max_pattern_len r - 1)"
    have stream: "stream_patterns r = patterns"
      by (simp add: Some stream_patterns_def)
    have emitted: "emit_matches find_iter patterns write_all ?pending ?limit w = (Inl e, w')"
      and r': "r' = r\<lparr>sr_pending := ?pending\<rparr>"
      using assms(3,4) Some
      by (auto simp: push_chunk_def Let_def split: if_splits prod.splits sum.splits)
    have "prefix (written w') (written w @ redacted patterns (?pending @ rest))"
      using emit_matches_wp [OF assms(1), of patterns ?limit ?pending rest w,
          OF _ _ undecided_tail [OF assms(2) Some]] emitted assms(2) stream
      by (auto simp: call_wp_def stream_ok_def)
    moreover have "prefix (written w) (written w')"
      using emit_matches_keeps [OF writes_grow [of "written w"], of w find_iter patterns ?pending ?limit]
        emitted by (simp add: call_wp_def)
    ultimately show ?thesis
      using assms(2) stream Some by (auto simp: r' stream_ok_def stream_patterns_def)
  qed
  then show "stream_ok r'" and "stream_patterns r' = stream_patterns r"
    and "prefix (written w') (written w @ redacted (stream_patterns r) (sr_pending r @ chunk @ rest))"
    and "\<exists>found. segments (stream_patterns r) (sr_pending r @ chunk @ rest) =
        found @ segments (stream_patterns r) (sr_pending r' @ rest) \<and>
      prefix (written w @ shown_text found) (written w')"
    by blast+
qed

end

section \<open>What is hidden\<close>

text \<open>The segments are the input again, and no pattern is left between two redactions.\<close>

lemma segments_source: "concat (map source_of (segments patterns input)) = input"
proof (induction "length input" arbitrary: input rule: less_induct)
  case less
  show ?case
  proof (cases "match_at patterns input = 0")
    case True
    then show ?thesis
      using less by (cases input) (simp_all add: segments_keep)
  next
    case False
    moreover from this have "input \<noteq> []"
      by auto
    ultimately show ?thesis
      using less [of "drop (match_at patterns input) input"] by (simp add: segments_match)
  qed
qed

lemma segments_redact_patterns:
  "Redacted secret \<in> set (segments patterns input) \<Longrightarrow> secret \<in> set patterns"
proof (induction "length input" arbitrary: input rule: less_induct)
  case less
  show ?case
  proof (cases "match_at patterns input = 0")
    case True
    then show ?thesis
      using less by (cases input) (auto simp: segments_keep)
  next
    case False
    moreover from this have "input \<noteq> []"
      by auto
    ultimately show ?thesis
      using less.prems less.hyps [of "drop (match_at patterns input) input"] match_at_mem(1) [OF False]
      by (auto simp: segments_match)
  qed
qed

lemma segments_suffix:
  "segments patterns input = before @ after \<Longrightarrow>
     segments patterns (concat (map source_of after)) = after"
proof (induction before arbitrary: input)
  case Nil
  then show ?case
    using segments_source [of patterns input] by simp
next
  case (Cons segment before)
  then obtain rest where "segments patterns rest = before @ after"
  proof (cases "match_at patterns input = 0")
    case True
    with Cons.prems that show ?thesis
      by (cases input) (auto simp: segments_keep)
  qed (auto simp: segments_match)
  then show ?case
    by (rule Cons.IH)
qed

lemma segments_hide:
  assumes "segments patterns input = before @ map Kept kept @ after" and "p \<in> set patterns"
    and "p \<noteq> []"
  shows "\<not> sublist p kept"
proof
  assume "sublist p kept"
  then obtain xs ys where "kept = xs @ p @ ys"
    by (auto simp: sublist_def)
  then have segments: "segments patterns input =
      (before @ map Kept xs) @ (map Kept p @ map Kept ys @ after)"
    using assms(1) by simp
  let ?rest = "concat (map source_of (map Kept ys @ after))"
  have "concat (map source_of (map Kept zs)) = zs" for zs
    by (induction zs) simp_all
  then have found: "segments patterns (p @ ?rest) = map Kept p @ map Kept ys @ after"
    using segments_suffix [OF segments] by simp
  have "0 < length p"
    using assms(3) by simp
  also have "length p \<le> match_at patterns (p @ ?rest)"
    by (rule match_at_ge [OF assms(2)]) simp
  finally have "match_at patterns (p @ ?rest) \<noteq> 0"
    by simp
  from segments_match [OF refl this] found show False
    using assms(3) by (cases p) auto
qed

section \<open>The patterns of protected values\<close>

lemma append_streaming_patterns_Inr:
  assumes "append_streaming_patterns r (patterns, used) = Inr (patterns', used')"
  shows "patterns' = patterns @ rd_patterns r"
proof -
  have "fst (patterns', used') = patterns @ rd_patterns r"
    using assms unfolding append_streaming_patterns_def
    by (rule fold_results_prefix [where P = "\<lambda>added collected. fst collected = patterns @ added"])
      (auto simp: result_simps split: if_splits)
  then show ?thesis
    by simp
qed

lemma from_protected_values_patterns:
  assumes "from_protected_values co automaton_builds protected = Inr r"
  shows "stream_ok r" and "sr_pending r = []"
    and "set (stream_patterns r) = \<Union> (spellings co ` {value. Some value \<in> set protected})"
    and "None \<notin> set protected"
proof -
  define step where "step = (\<lambda>collected (index, value).
       if index \<ge> max_redaction_secrets then Inl Streaming_PatternCount
       else
       and_then (ok_or Streaming_ProtectedMemory value) (\<lambda>bytes.
       and_then (map_err map_redactor_error (try_from_secret_slices co [bytes])) (\<lambda>r.
       append_streaming_patterns r collected)))"
  obtain patterns used where
    collected: "fold_results step ([], 0) (enumerate 0 protected) = Inr (patterns, used)"
    and new: "streaming_new automaton_builds patterns = Inr r"
    using assms by (auto simp: from_protected_values_def step_def result_simps)
  have "set (fst (patterns, used)) =
      \<Union> (spellings co ` {value. Some value \<in> snd ` set (enumerate 0 protected)}) \<and>
      None \<notin> snd ` set (enumerate 0 protected)"
    using collected
  proof (rule fold_results_prefix [where P = "\<lambda>added collected. set (fst collected) =
      \<Union> (spellings co ` {value. Some value \<in> snd ` set added}) \<and> None \<notin> snd ` set added"])
    fix added :: "(nat \<times> bytes option) list" and indexed collected collected'
    assume before: "set (fst collected) =
        \<Union> (spellings co ` {value. Some value \<in> snd ` set added}) \<and> None \<notin> snd ` set added"
      and step: "step collected indexed = Inr collected'"
    obtain secret needles where exposed: "snd indexed = Some secret"
      and needles: "try_from_secret_slices co [secret] = Inr needles"
      and appended: "append_streaming_patterns needles collected = Inr collected'"
      using step by (cases indexed) (auto simp: step_def result_simps split: if_splits)
    have "fst collected' = fst collected @ rd_patterns needles"
      using append_streaming_patterns_Inr appended by (cases collected; cases collected') auto
    then show "set (fst collected') =
        \<Union> (spellings co ` {value. Some value \<in> snd ` set (added @ [indexed])}) \<and>
        None \<notin> snd ` set (added @ [indexed])"
      using before exposed try_from_secret_slices_patterns [OF needles] by auto
  qed simp
  then show "set (stream_patterns r) = \<Union> (spellings co ` {value. Some value \<in> set protected})"
    and "None \<notin> set protected" and "stream_ok r" and "sr_pending r = []"
    using streaming_new_ok [OF new] by (simp_all flip: set_map)
qed

end
