(* ===== verification/Jury_Output.thy ===== *)
theory Jury_Output
  imports Jury_Redact_Stream
begin

text \<open>
  The capture of a child's output in \<open>jury-process/src/process/output.rs\<close>: bytes are read from the
  pipe, go through the streaming redactor, are shown to the observer and kept up to a limit. The
  pipe is a sequence of results of its nonblocking reads, and the observer is a function of
  everything it was given so far. What is handed to the observer counts as shown also when the
  observer then fails. The observers do not fail with \<open>Interrupted\<close>: the only one that shows
  anything (\<open>execution_commands.rs\<close>) goes through \<open>write_all\<close> and a buffered \<open>flush\<close>, which
  retry it.
\<close>

section \<open>The drains\<close>

datatype output_stream = Stream_Stdout | Stream_Stderr

datatype read_result = Read_Ok bytes | Read_Err io_error

text \<open>
  The answers of the world to one run: the \<open>n\<close>-th read of a pipe, whether the observer fails on
  what it was given, and the \<open>n\<close>-th write to the standard input of the child.
\<close>

datatype input_write = Input_Unavailable | Input_Taken nat | Input_Err io_error

record process_env =
  pe_find_iter :: find_iter
  pe_pipe :: "output_stream \<Rightarrow> nat \<Rightarrow> read_result"
  pe_observer_fails :: "(output_stream \<times> bytes) list \<Rightarrow> bool"
  pe_input_write :: "nat \<Rightarrow> input_write"

text \<open>How far a run got: reads and writes made, output shown, input bytes the pipe took.\<close>

record process_io =
  pi_reads :: "output_stream \<Rightarrow> nat"
  pi_seen :: "(output_stream \<times> bytes) list"
  pi_writes :: nat
  pi_delivered :: bytes

record output_drain =
  od_reader :: bool
  od_redactor :: "streaming_redactor option"
  od_bytes :: bytes
  od_limit :: nat
  od_truncated :: bool
  od_complete :: bool

record output_poll =
  op_made_progress :: bool
  op_overflow :: "output_stream option"

record capture_sink =
  cs_bytes :: bytes
  cs_truncated :: bool
  cs_seen :: "(output_stream \<times> bytes) list"

definition max_output_reads_per_poll :: nat where "max_output_reads_per_poll = 64"
definition max_output_reads_per_poll_after_truncation :: nat where
  "max_output_reads_per_poll_after_truncation = 16"
definition output_chunk_len :: nat where "output_chunk_len = 4096"

definition sink_write ::
    "process_env \<Rightarrow> output_stream \<Rightarrow> nat \<Rightarrow> bytes \<Rightarrow> (capture_sink, io_error, nat) call" where
  "sink_write env stream limit visible sink =
     (let seen = cs_seen sink @ [(stream, visible)] in
      if pe_observer_fails env seen then (Inl Io_Other, sink\<lparr>cs_seen := seen\<rparr>)
      else
      let remaining = limit - length (cs_bytes sink);
          retained = min remaining (length visible) in
      (Inr (length visible),
       sink\<lparr>cs_bytes := cs_bytes sink @ take retained visible,
            cs_truncated := (cs_truncated sink \<or> retained < length visible),
            cs_seen := seen\<rparr>))"

text \<open>The standard library's \<open>write_all\<close> over a sink that takes everything at once.\<close>

definition sink_write_all :: "process_env \<Rightarrow> output_stream \<Rightarrow> nat \<Rightarrow> capture_sink writer" where
  "sink_write_all env stream limit visible =
     (if visible = [] then call_result (Inr ())
      else call_then (sink_write env stream limit visible) (\<lambda>_. call_result (Inr ())))"

definition drain_start :: "nat \<Rightarrow> streaming_redactor option \<Rightarrow> output_drain" where
  "drain_start limit redactor =
     \<lparr>od_reader = True, od_redactor = redactor, od_bytes = [], od_limit = limit,
      od_truncated = False, od_complete = False\<rparr>"

definition drain_sink :: "output_drain \<Rightarrow> (output_stream \<times> bytes) list \<Rightarrow> capture_sink" where
  "drain_sink d seen =
     \<lparr>cs_bytes = od_bytes d, cs_truncated = od_truncated d, cs_seen = seen\<rparr>"

definition drain_captured :: "output_drain \<Rightarrow> capture_sink \<Rightarrow> output_drain" where
  "drain_captured d sink =
     d\<lparr>od_bytes := cs_bytes sink, od_truncated := cs_truncated sink\<rparr>"

definition drain_emit ::
    "process_env \<Rightarrow> output_stream \<Rightarrow> bytes \<Rightarrow> output_drain \<Rightarrow> (output_stream \<times> bytes) list
      \<Rightarrow> (io_error + bool) \<times> output_drain \<times> (output_stream \<times> bytes) list" where
  "drain_emit env stream raw d seen =
     (let write_all = sink_write_all env stream (od_limit d) in
      case (case od_redactor d of
          Some redactor \<Rightarrow>
            (case push_chunk (pe_find_iter env) write_all redactor raw (drain_sink d seen) of
               (result, redactor', sink) \<Rightarrow> (result, Some redactor', sink))
        | None \<Rightarrow>
            (case write_all raw (drain_sink d seen) of (result, sink) \<Rightarrow> (result, None, sink)))
      of (result, redactor', sink) \<Rightarrow>
        let d' = drain_captured (d\<lparr>od_redactor := redactor'\<rparr>) sink in
        (and_then result (\<lambda>_. Inr (\<not> od_truncated d \<and> od_truncated d')), d', cs_seen sink))"

definition finish_redaction ::
    "process_env \<Rightarrow> output_stream \<Rightarrow> output_drain \<Rightarrow> (output_stream \<times> bytes) list
      \<Rightarrow> (io_error + bool) \<times> output_drain \<times> (output_stream \<times> bytes) list" where
  "finish_redaction env stream d seen =
     (case od_redactor d of
        None \<Rightarrow> (Inr False, d, seen)
      | Some redactor \<Rightarrow>
          (case streaming_finish (pe_find_iter env) (sink_write_all env stream (od_limit d))
              redactor (drain_sink d seen) of
             (result, sink) \<Rightarrow>
               let d' = drain_captured (d\<lparr>od_redactor := None\<rparr>) sink in
               (and_then result (\<lambda>_. Inr (\<not> od_truncated d \<and> od_truncated d')), d',
                cs_seen sink)))"

definition read_available ::
    "process_env \<Rightarrow> output_stream \<Rightarrow> process_io \<Rightarrow> (io_error + bytes) \<times> process_io" where
  "read_available env stream io =
     ((case pe_pipe env stream (pi_reads io stream) of
         Read_Ok bytes \<Rightarrow> Inr (take output_chunk_len bytes)
       | Read_Err e \<Rightarrow> Inl e),
      io\<lparr>pi_reads := (pi_reads io)(stream := pi_reads io stream + 1)\<rparr>)"

fun poll_reads ::
    "process_env \<Rightarrow> output_stream \<Rightarrow> nat \<Rightarrow> output_poll \<Rightarrow> output_drain \<Rightarrow> process_io
      \<Rightarrow> (io_error + output_poll) \<times> output_drain \<times> process_io" where
  "poll_reads env stream 0 poll d io = (Inr poll, d, io)"
| "poll_reads env stream (Suc attempts) poll d io =
     (if od_truncated d \<and>
         max_output_reads_per_poll - Suc attempts \<ge> max_output_reads_per_poll_after_truncation
      then (Inr poll, d, io)
      else case read_available env stream io of
        (Inr [], io') \<Rightarrow>
          (case finish_redaction env stream (d\<lparr>od_reader := False\<rparr>) (pi_seen io') of
             (Inl e, d', seen) \<Rightarrow> (Inl e, d', io'\<lparr>pi_seen := seen\<rparr>)
           | (Inr overflowed, d', seen) \<Rightarrow>
               (Inr (if overflowed then poll\<lparr>op_overflow := Some stream\<rparr> else poll),
                d'\<lparr>od_complete := True\<rparr>, io'\<lparr>pi_seen := seen\<rparr>))
      | (Inr raw, io') \<Rightarrow>
          (case drain_emit env stream raw d (pi_seen io') of
             (Inl e, d', seen) \<Rightarrow> (Inl e, d', io'\<lparr>pi_seen := seen\<rparr>)
           | (Inr overflowed, d', seen) \<Rightarrow>
               let progress = poll\<lparr>op_made_progress := True\<rparr> in
               poll_reads env stream attempts
                 (if overflowed then progress\<lparr>op_overflow := Some stream\<rparr> else progress)
                 d' (io'\<lparr>pi_seen := seen\<rparr>))
      | (Inl Io_Interrupted, io') \<Rightarrow> poll_reads env stream attempts poll d io'
      | (Inl Io_WouldBlock, io') \<Rightarrow> (Inr poll, d, io')
      | (Inl _, io') \<Rightarrow> (Inr poll, d\<lparr>od_reader := False, od_redactor := None\<rparr>, io'))"

definition drain_poll ::
    "process_env \<Rightarrow> output_stream \<Rightarrow> output_drain \<Rightarrow> process_io
      \<Rightarrow> (io_error + output_poll) \<times> output_drain \<times> process_io" where
  "drain_poll env stream d io =
     (let idle = \<lparr>op_made_progress = False, op_overflow = None\<rparr> in
      if od_reader d then poll_reads env stream max_output_reads_per_poll idle d io
      else (Inr idle, d, io))"

record output_drains =
  ods_stdout :: "output_drain option"
  ods_stderr :: "output_drain option"

definition into_streams :: "streaming_redactor \<Rightarrow> streaming_redactor \<times> streaming_redactor" where
  "into_streams r = (independent_stream r, independent_stream r)"

text \<open>
  The limits are for standard output and standard error. A stream is piped or not; preparing the
  pipe of a stream that is can fail.
\<close>

datatype child_pipe = Pipe_None | Pipe_Ready | Pipe_Unprepared io_error

definition drain_start_piped ::
    "child_pipe \<Rightarrow> nat \<Rightarrow> streaming_redactor option \<Rightarrow> io_error + output_drain option" where
  "drain_start_piped pipe limit redactor =
     (case pipe of
        Pipe_None \<Rightarrow> Inr None
      | Pipe_Ready \<Rightarrow> Inr (Some (drain_start limit redactor))
      | Pipe_Unprepared e \<Rightarrow> Inl e)"

definition drains_start ::
    "(output_stream \<Rightarrow> child_pipe) \<Rightarrow> nat \<times> nat \<Rightarrow> streaming_redactor option
      \<Rightarrow> io_error + output_drains" where
  "drains_start pipes limits redaction =
     (case (case redaction of
          None \<Rightarrow> (None, None)
        | Some r \<Rightarrow> (case into_streams r of (stdout, stderr) \<Rightarrow> (Some stdout, Some stderr)))
      of (stdout_redactor, stderr_redactor) \<Rightarrow>
        and_then (drain_start_piped (pipes Stream_Stdout) (fst limits) stdout_redactor) (\<lambda>stdout.
        and_then (drain_start_piped (pipes Stream_Stderr) (snd limits) stderr_redactor) (\<lambda>stderr.
        Inr \<lparr>ods_stdout = stdout, ods_stderr = stderr\<rparr>)))"

definition poll_stream ::
    "process_env \<Rightarrow> output_stream \<Rightarrow> output_drain option \<Rightarrow> process_io
      \<Rightarrow> (io_error + output_poll) \<times> output_drain option \<times> process_io" where
  "poll_stream env stream drain io =
     (case drain of
        None \<Rightarrow> (Inr \<lparr>op_made_progress = False, op_overflow = None\<rparr>, None, io)
      | Some d \<Rightarrow>
          (case drain_poll env stream d io of (result, d', io') \<Rightarrow> (result, Some d', io')))"

definition drains_poll ::
    "process_env \<Rightarrow> output_drains \<Rightarrow> process_io
      \<Rightarrow> (io_error + output_poll) \<times> output_drains \<times> process_io" where
  "drains_poll env ds io =
     (case poll_stream env Stream_Stdout (ods_stdout ds) io of
        (Inl e, stdout, io') \<Rightarrow> (Inl e, ds\<lparr>ods_stdout := stdout\<rparr>, io')
      | (Inr stdout_poll, stdout, io') \<Rightarrow>
          (case poll_stream env Stream_Stderr (ods_stderr ds) io' of
             (Inl e, stderr, io'') \<Rightarrow>
               (Inl e, ds\<lparr>ods_stdout := stdout, ods_stderr := stderr\<rparr>, io'')
           | (Inr stderr_poll, stderr, io'') \<Rightarrow>
               (Inr \<lparr>op_made_progress =
                       (op_made_progress stdout_poll \<or> op_made_progress stderr_poll),
                     op_overflow = (case op_overflow stdout_poll of
                         Some stream \<Rightarrow> Some stream | None \<Rightarrow> op_overflow stderr_poll)\<rparr>,
                ds\<lparr>ods_stdout := stdout, ods_stderr := stderr\<rparr>, io'')))"

definition drains_terminal :: "output_drains \<Rightarrow> bool" where
  "drains_terminal ds \<longleftrightarrow>
     (case ods_stdout ds of None \<Rightarrow> True | Some d \<Rightarrow> \<not> od_reader d) \<and>
     (case ods_stderr ds of None \<Rightarrow> True | Some d \<Rightarrow> \<not> od_reader d)"

text \<open>The last wait: as many polls as there is time for, and one more when a pipe is open.\<close>

fun finish_polls ::
    "process_env \<Rightarrow> nat \<Rightarrow> output_drains \<Rightarrow> process_io
      \<Rightarrow> (io_error + unit) \<times> output_drains \<times> process_io" where
  "finish_polls env 0 ds io = (Inr (), ds, io)"
| "finish_polls env (Suc polls) ds io =
     (if drains_terminal ds then (Inr (), ds, io)
      else case drains_poll env ds io of
        (Inl e, ds', io') \<Rightarrow> (Inl e, ds', io')
      | (Inr _, ds', io') \<Rightarrow> finish_polls env polls ds' io')"

definition drains_last_poll ::
    "process_env \<Rightarrow> nat \<Rightarrow> output_drains \<Rightarrow> process_io
      \<Rightarrow> (io_error + unit) \<times> output_drains \<times> process_io" where
  "drains_last_poll env polls ds io =
     (case finish_polls env polls ds io of
        (Inl e, ds', io') \<Rightarrow> (Inl e, ds', io')
      | (Inr _, ds', io') \<Rightarrow>
          if drains_terminal ds' then (Inr (), ds', io')
          else (case drains_poll env ds' io' of
            (Inl e, ds'', io'') \<Rightarrow> (Inl e, ds'', io'')
          | (Inr _, ds'', io'') \<Rightarrow> (Inr (), ds'', io'')))"

text \<open>What is left of a drain when it is finished.\<close>

record bounded_output =
  bo_bytes :: bytes
  bo_truncated :: bool
  bo_complete :: bool

definition drain_output :: "output_drain \<Rightarrow> bounded_output" where
  "drain_output d =
     \<lparr>bo_bytes = od_bytes d, bo_truncated = od_truncated d, bo_complete = od_complete d\<rparr>"

definition drains_finish ::
    "process_env \<Rightarrow> nat \<Rightarrow> output_drains \<Rightarrow> process_io
      \<Rightarrow> (io_error + bounded_output option \<times> bounded_output option) \<times> process_io" where
  "drains_finish env polls ds io =
     (case drains_last_poll env polls ds io of
        (Inl e, _, io') \<Rightarrow> (Inl e, io')
      | (Inr _, ds', io') \<Rightarrow>
          (Inr (map_option drain_output (ods_stdout ds'), map_option drain_output (ods_stderr ds')),
           io'))"

end
