(* ===== verification/Jury_Process.thy ===== *)
theory Jury_Process
  imports Jury_Output
begin

text \<open>
  A supervised child process, \<open>jury-process/src/process.rs\<close> and \<open>process/input.rs\<close>: the protected
  standard input is written while output is drained, until the child exits, the run is cancelled,
  times out or fails; then the process tree is ended and, on every outcome, the output is drained
  once more. What the operating system answers in each turn of the loop is an input of the model
  (\<open>wait_tick\<close>), as is the answer of the cleanup of the process tree. Sleeping is left out.
\<close>

section \<open>Protected input\<close>

definition max_input_writes_per_poll :: nat where "max_input_writes_per_poll = 64"

record input_drain =
  idr_writer :: bool
  idr_input :: bytes
  idr_offset :: nat

datatype child_stdin = Stdin_None | Stdin_Ready | Stdin_Unprepared io_error

definition input_start :: "child_stdin \<Rightarrow> bytes \<Rightarrow> io_error + input_drain" where
  "input_start stdin input =
     (case stdin of
        Stdin_None \<Rightarrow> Inl Io_Other
      | Stdin_Unprepared e \<Rightarrow> Inl e
      | Stdin_Ready \<Rightarrow> Inr \<lparr>idr_writer = (input \<noteq> []), idr_input = input, idr_offset = 0\<rparr>)"

fun input_writes ::
    "process_env \<Rightarrow> nat \<Rightarrow> bool \<Rightarrow> input_drain \<Rightarrow> process_io
      \<Rightarrow> (io_error + bool) \<times> input_drain \<times> process_io" where
  "input_writes env 0 made_progress d io = (Inr made_progress, d, io)"
| "input_writes env (Suc attempts) made_progress d io =
     (let io' = io\<lparr>pi_writes := pi_writes io + 1\<rparr>; rest = drop (idr_offset d) (idr_input d) in
      case pe_input_write env (pi_writes io) of
        Input_Unavailable \<Rightarrow> (Inl Io_Other, d, io')
      | Input_Taken n \<Rightarrow>
          let written = min n (length rest);
              io' = io'\<lparr>pi_delivered := pi_delivered io' @ take written rest\<rparr> in
          if written = 0 then (Inl Io_Other, d, io')
          else (case usize_checked_add (idr_offset d) written of
            None \<Rightarrow> (Inl Io_Other, d, io')
          | Some offset \<Rightarrow>
              let d' = d\<lparr>idr_offset := offset\<rparr> in
              if offset = length (idr_input d) then (Inr True, d'\<lparr>idr_writer := False\<rparr>, io')
              else input_writes env attempts True d' io')
      | Input_Err Io_Interrupted \<Rightarrow> input_writes env attempts made_progress d io'
      | Input_Err Io_WouldBlock \<Rightarrow> (Inr made_progress, d, io')
      | Input_Err e \<Rightarrow> (Inl e, d, io'))"

definition input_poll ::
    "process_env \<Rightarrow> input_drain \<Rightarrow> process_io \<Rightarrow> (io_error + bool) \<times> input_drain \<times> process_io" where
  "input_poll env d io =
     (if idr_writer d then input_writes env max_input_writes_per_poll False d io
      else (Inr False, d, io))"

definition prepare_process_input ::
    "child_stdin \<Rightarrow> bytes option \<Rightarrow> io_error + input_drain option" where
  "prepare_process_input stdin input =
     (case input of
        Some bytes \<Rightarrow> and_then (input_start stdin bytes) (\<lambda>d. Inr (Some d))
      | None \<Rightarrow> Inr None)"

section \<open>Waiting\<close>

datatype process_signal =
    Signal_Hangup | Signal_Interrupt | Signal_Quit | Signal_Terminate | Signal_User1 | Signal_User2

datatype overflow_policy = Overflow_Truncate | Overflow_Error

datatype unreaped_child = Child_Running | Child_Exited

datatype owned_process_wait =
    Wait_ExitedUnreaped | Wait_TimedOut | Wait_Cancelled | Wait_OutputLimitExceeded output_stream
  | Wait_SignalForward process_signal | Wait_InputFailure | Wait_OutputFailure

record wait_tick =
  wt_cancelled :: bool
  wt_signal :: "process_signal option"
  wt_forwarded :: bool
  wt_observed :: "io_error + unreaped_child"
  wt_elapsed :: bool

definition tick_outcome :: "wait_tick \<Rightarrow> (io_error + owned_process_wait) option" where
  "tick_outcome tick =
     (if wt_cancelled tick then Some (Inr Wait_Cancelled)
      else case (wt_signal tick, wt_forwarded tick) of
        (Some signal, False) \<Rightarrow> Some (Inr (Wait_SignalForward signal))
      | _ \<Rightarrow>
        (case wt_observed tick of
           Inl e \<Rightarrow> Some (Inl e)
         | Inr Child_Exited \<Rightarrow> Some (Inr Wait_ExitedUnreaped)
         | Inr Child_Running \<Rightarrow> if wt_elapsed tick then Some (Inr Wait_TimedOut) else None))"

definition input_poll_option ::
    "process_env \<Rightarrow> input_drain option \<Rightarrow> process_io
      \<Rightarrow> (io_error + bool) \<times> input_drain option \<times> process_io" where
  "input_poll_option env input io =
     (case input of
        None \<Rightarrow> (Inr False, None, io)
      | Some d \<Rightarrow> (case input_poll env d io of (result, d', io') \<Rightarrow> (result, Some d', io')))"

text \<open>
  The loop ends with a tick; a run whose ticks are used up is still waiting, which is the result
  \<open>None\<close>.
\<close>

fun wait_for_owned_process ::
    "process_env \<Rightarrow> overflow_policy \<Rightarrow> wait_tick list \<Rightarrow> output_drains \<Rightarrow> input_drain option \<Rightarrow> process_io
      \<Rightarrow> (io_error + owned_process_wait) option \<times> output_drains \<times> process_io" where
  "wait_for_owned_process env policy [] ds input io = (None, ds, io)"
| "wait_for_owned_process env policy (tick # ticks) ds input io =
     (case input_poll_option env input io of
        (Inl _, _, io1) \<Rightarrow> (Some (Inr Wait_InputFailure), ds, io1)
      | (Inr _, input', io1) \<Rightarrow>
          (case drains_poll env ds io1 of
             (Inl _, ds', io2) \<Rightarrow> (Some (Inr Wait_OutputFailure), ds', io2)
           | (Inr poll, ds', io2) \<Rightarrow>
               (case (policy, op_overflow poll) of
                  (Overflow_Error, Some stream) \<Rightarrow>
                    (Some (Inr (Wait_OutputLimitExceeded stream)), ds', io2)
                | _ \<Rightarrow>
                  (case tick_outcome tick of
                     Some outcome \<Rightarrow> (Some outcome, ds', io2)
                   | None \<Rightarrow> wait_for_owned_process env policy ticks ds' input' io2))))"

section \<open>The whole run\<close>

datatype owned_process_tree_error =
    Tree_Start io_error | Tree_InvalidTimeout | Tree_TimedOut | Tree_CancelledBeforeStart
  | Tree_Cancelled | Tree_OutputLimitExceeded output_stream | Tree_SignalForward process_signal
  | Tree_Stdin | Tree_Output | Tree_Await | Tree_Cleanup
  | Tree_CleanupAfterFailure owned_process_tree_error

type_synonym exit_status = int

record owned_process_tree_output =
  pto_status :: exit_status
  pto_stdout :: "bounded_output option"
  pto_stderr :: "bounded_output option"

fun wait_error :: "owned_process_wait \<Rightarrow> owned_process_tree_error option" where
  "wait_error Wait_ExitedUnreaped = None"
| "wait_error Wait_TimedOut = Some Tree_TimedOut"
| "wait_error Wait_Cancelled = Some Tree_Cancelled"
| "wait_error (Wait_OutputLimitExceeded stream) = Some (Tree_OutputLimitExceeded stream)"
| "wait_error (Wait_SignalForward signal) = Some (Tree_SignalForward signal)"
| "wait_error Wait_InputFailure = Some Tree_Stdin"
| "wait_error Wait_OutputFailure = Some Tree_Output"

definition finish_owned_process_wait ::
    "io_error + owned_process_wait \<Rightarrow> io_error + exit_status
      \<Rightarrow> owned_process_tree_error + exit_status" where
  "finish_owned_process_wait wait_result cleanup =
     (let outcome = (case wait_result of Inl _ \<Rightarrow> Some Tree_Await | Inr wait \<Rightarrow> wait_error wait) in
      case cleanup of
        Inl _ \<Rightarrow> Inl (case outcome of
            Some primary \<Rightarrow> Tree_CleanupAfterFailure primary | None \<Rightarrow> Tree_Cleanup)
      | Inr status \<Rightarrow> (case outcome of Some primary \<Rightarrow> Inl primary | None \<Rightarrow> Inr status))"

definition first_truncated ::
    "bounded_output option \<Rightarrow> bounded_output option \<Rightarrow> output_stream option" where
  "first_truncated stdout stderr =
     (case stdout of
        Some output \<Rightarrow> if bo_truncated output then Some Stream_Stdout
          else (case stderr of
            Some output \<Rightarrow> if bo_truncated output then Some Stream_Stderr else None | None \<Rightarrow> None)
      | None \<Rightarrow>
          (case stderr of
             Some output \<Rightarrow> if bo_truncated output then Some Stream_Stderr else None | None \<Rightarrow> None))"

definition finalize_owned_process_output ::
    "exit_status \<Rightarrow> bounded_output option \<Rightarrow> bounded_output option \<Rightarrow> overflow_policy
      \<Rightarrow> owned_process_tree_error + owned_process_tree_output" where
  "finalize_owned_process_output status stdout stderr policy =
     (case (case policy of
          Overflow_Truncate \<Rightarrow> None | Overflow_Error \<Rightarrow> first_truncated stdout stderr)
      of
        Some stream \<Rightarrow> Inl (Tree_OutputLimitExceeded stream)
      | None \<Rightarrow> Inr \<lparr>pto_status = status, pto_stdout = stdout, pto_stderr = stderr\<rparr>)"

record process_options =
  px_limits :: "nat \<times> nat"
  px_overflow_policy :: overflow_policy
  px_redaction :: "streaming_redactor option"
  px_stdin :: "bytes option"

text \<open>What the host answers to one run.\<close>

record process_host =
  ph_cancelled :: bool
  ph_timeout_representable :: bool
  ph_spawn :: "io_error option"
  ph_stdin :: child_stdin
  ph_pipes :: "output_stream \<Rightarrow> child_pipe"
  ph_ticks :: "wait_tick list"
  ph_cleanup :: "io_error + exit_status"
  ph_drain_polls :: nat

definition after_cleanup ::
    "process_host \<Rightarrow> owned_process_tree_error \<Rightarrow> owned_process_tree_error" where
  "after_cleanup host primary =
     (case ph_cleanup host of Inr _ \<Rightarrow> primary | Inl _ \<Rightarrow> Tree_CleanupAfterFailure primary)"

definition process_start :: process_io where
  "process_start = \<lparr>pi_reads = (\<lambda>_. 0), pi_seen = [], pi_writes = 0, pi_delivered = []\<rparr>"

definition supervise_child ::
    "process_env \<Rightarrow> process_host \<Rightarrow> process_options \<Rightarrow> output_drains \<Rightarrow> input_drain option
      \<Rightarrow> (owned_process_tree_error + owned_process_tree_output) option \<times> process_io" where
  "supervise_child env host options drains input =
     (case wait_for_owned_process env (px_overflow_policy options) (ph_ticks host) drains input
         process_start of
        (None, _, io) \<Rightarrow> (None, io)
      | (Some wait_result, drains', io) \<Rightarrow>
          let status = finish_owned_process_wait wait_result (ph_cleanup host) in
          (case drains_finish env (ph_drain_polls host) drains' io of
             (drained, io') \<Rightarrow>
               (Some (
                  and_then status (\<lambda>status.
                  and_then (map_err (\<lambda>_. Tree_Output) drained) (\<lambda>(stdout, stderr).
                  finalize_owned_process_output status stdout stderr
                    (px_overflow_policy options)))), io')))"

definition run_owned_process_tree ::
    "process_env \<Rightarrow> process_host \<Rightarrow> process_options
      \<Rightarrow> (owned_process_tree_error + owned_process_tree_output) option \<times> process_io" where
  "run_owned_process_tree env host options =
     (if ph_cancelled host then (Some (Inl Tree_CancelledBeforeStart), process_start)
      else if \<not> ph_timeout_representable host then (Some (Inl Tree_InvalidTimeout), process_start)
      else case ph_spawn host of
        Some e \<Rightarrow> (Some (Inl (Tree_Start e)), process_start)
      | None \<Rightarrow>
        (case prepare_process_input (ph_stdin host) (px_stdin options) of
           Inl _ \<Rightarrow> (Some (Inl (after_cleanup host Tree_Stdin)), process_start)
         | Inr input \<Rightarrow>
           (case drains_start (ph_pipes host) (px_limits options) (px_redaction options) of
              Inl _ \<Rightarrow> (Some (Inl (after_cleanup host Tree_Output)), process_start)
            | Inr drains \<Rightarrow> supervise_child env host options drains input)))"

end
