(* ===== verification/Jury_Output_Safety.thy ===== *)
theory Jury_Output_Safety
  imports Jury_Process
begin

text \<open>
  What the observer of a child process gets to see. The invariant of a drain says that everything
  read was shown in redacted form, up to the bytes the redactor holds back. When the observer
  fails, the redactor keeps the bytes of the failed write, and the last drain of the run shows
  them again from there: the output is then shown in two passes, each of them redacted.
\<close>

section \<open>What was read and what was shown\<close>

definition read_bytes :: "process_env \<Rightarrow> output_stream \<Rightarrow> nat \<Rightarrow> bytes" where
  "read_bytes env stream n =
     concat (map (\<lambda>k. case pe_pipe env stream k of
       Read_Ok bytes \<Rightarrow> take output_chunk_len bytes | Read_Err _ \<Rightarrow> []) [0..<n])"

abbreviation bytes_read :: "process_env \<Rightarrow> output_stream \<Rightarrow> process_io \<Rightarrow> bytes" where
  "bytes_read env stream io \<equiv> read_bytes env stream (pi_reads io stream)"

definition shown_on :: "output_stream \<Rightarrow> (output_stream \<times> bytes) list \<Rightarrow> bytes" where
  "shown_on stream seen = concat (map snd (filter (\<lambda>(s, _). s = stream) seen))"

lemma shown_on_append [simp]:
  "shown_on stream (seen @ more_seen) = shown_on stream seen @ shown_on stream more_seen"
  by (simp add: shown_on_def)

lemma shown_on_single [simp]:
  "shown_on stream [(s, visible)] = (if s = stream then visible else [])"
  "shown_on stream [] = []"
  by (simp_all add: shown_on_def)

text \<open>
  Two passes over a redacted output: the second starts at the end of some redacted segment, not
  after the place where the first stopped. A clean run needs one pass.
\<close>

definition shown_in_passes :: "bool \<Rightarrow> segment list \<Rightarrow> bytes \<Rightarrow> bool" where
  "shown_in_passes clean segs shown \<longleftrightarrow>
     (\<exists>n first second. shown = first @ second \<and> prefix first (shown_text segs) \<and>
       prefix (shown_text (take n segs)) first \<and> prefix second (shown_text (drop n segs)) \<and>
       (clean \<longrightarrow> n = 0 \<and> first = []))"

text \<open>What the sink keeps is the beginning of what it showed, up to the limit.\<close>

definition captures :: "output_stream \<Rightarrow> nat \<Rightarrow> capture_sink \<Rightarrow> bool" where
  "captures stream limit sink \<longleftrightarrow>
     cs_bytes sink = take limit (shown_on stream (cs_seen sink)) \<and>
     (cs_truncated sink \<longleftrightarrow> limit < length (shown_on stream (cs_seen sink)))"

lemma sink_write_all_shows:
  assumes "sink_write_all env stream limit visible sink = (result, sink')"
  shows "shown_on stream (cs_seen sink') = shown_on stream (cs_seen sink) @ visible"
  using assms
  by (auto simp: sink_write_all_def sink_write_def call_then_def call_result_def Let_def
      split: if_splits)

interpretation sink: logged_writer "sink_write_all env stream limit"
    "\<lambda>sink. shown_on stream (cs_seen sink)" for env stream limit
  by unfold_locales
    (auto simp: call_wp_def split: prod.splits sum.splits dest: sink_write_all_shows)

definition others_shown ::
    "output_stream \<Rightarrow> (output_stream \<times> bytes) list \<Rightarrow> (output_stream \<times> bytes) list \<Rightarrow> bool" where
  "others_shown stream seen seen' \<longleftrightarrow>
     (\<forall>other. other \<noteq> stream \<longrightarrow> shown_on other seen' = shown_on other seen)"

lemma sink_keeps:
  "write_keeps (sink_write_all env stream limit)
     (\<lambda>sink. (clean \<longrightarrow> captures stream limit sink) \<and> others_shown stream seen (cs_seen sink))
     (\<lambda>sink. others_shown stream seen (cs_seen sink))"
  unfolding write_keeps_def captures_def others_shown_def
  by (auto simp: sink_write_all_def sink_write_def call_wp_def call_then_def call_result_def Let_def
      min_def)

section \<open>The invariant of a drain\<close>

definition follows ::
    "bool \<Rightarrow> bytes list \<Rightarrow> output_stream \<Rightarrow> bytes \<Rightarrow> output_drain \<Rightarrow> (output_stream \<times> bytes) list \<Rightarrow> bool"
  where
  "follows clean patterns stream read d seen \<longleftrightarrow>
     (\<exists>r first current. od_redactor d = Some r \<and> stream_ok r \<and> stream_patterns r = patterns \<and>
       shown_on stream seen = first @ current \<and> (clean \<longrightarrow> first = []) \<and>
       (\<forall>rest. prefix first (redacted patterns (read @ rest)) \<and>
         (\<exists>before after. segments patterns (read @ rest) =
             before @ after @ segments patterns (sr_pending r @ rest) \<and>
           prefix (shown_text before) first \<and> shown_text after = current)))"

definition same_settings :: "output_drain \<Rightarrow> output_drain \<Rightarrow> bool" where
  "same_settings d d' \<longleftrightarrow> od_limit d' = od_limit d \<and> od_reader d' = od_reader d \<and>
     od_complete d' = od_complete d"

lemma drain_sink_captured [simp]:
  "cs_seen sink = seen \<Longrightarrow> drain_sink (drain_captured d sink) seen = sink"
  by (auto simp: drain_sink_def drain_captured_def)

lemma shown_text_empty [simp]: "shown_text segs = [] \<longleftrightarrow> segs = []"
proof (cases segs)
  case (Cons seg rest)
  have "redaction_marker \<noteq> []"
    by (simp add: redaction_marker_def str_bytes_def)
  then show ?thesis
    using Cons by (cases seg) simp_all
qed simp

lemma shown_in_passesI:
  assumes "segs = before @ after" and "prefix first (shown_text segs)"
    and "prefix (shown_text before) first" and "prefix second (shown_text after)"
    and "clean \<Longrightarrow> first = []"
  shows "shown_in_passes clean segs (first @ second)"
  unfolding shown_in_passes_def
  by (rule exI [where x = "length before"], rule exI [where x = first], rule exI [where x = second])
    (use assms in auto)

lemma shown_in_passes_weaken: "shown_in_passes clean segs shown \<Longrightarrow> shown_in_passes False segs shown"
  unfolding shown_in_passes_def by blast

lemma shown_in_one_pass: "shown_in_passes True segs shown \<longleftrightarrow> prefix shown (shown_text segs)"
  by (auto simp: shown_in_passes_def)

lemma follows_passes:
  assumes "follows clean patterns stream read d seen" and "od_redactor d = Some r"
    and "prefix shown (redacted patterns (sr_pending r))"
  shows "shown_in_passes clean (segments patterns read) (shown_on stream seen @ shown)"
proof -
  obtain first current where shown: "shown_on stream seen = first @ current" "clean \<longrightarrow> first = []"
    and rest: "\<And>rest. prefix first (redacted patterns (read @ rest)) \<and>
      (\<exists>before after. segments patterns (read @ rest) =
         before @ after @ segments patterns (sr_pending r @ rest) \<and>
         prefix (shown_text before) first \<and> shown_text after = current)"
    using assms(1,2) unfolding follows_def by auto
  obtain before after where "segments patterns read = before @ after @ segments patterns (sr_pending r)"
    "prefix (shown_text before) first" "shown_text after = current"
    using rest [of "[]"] by auto
  then show ?thesis
    using shown rest [of "[]"] assms(3) unfolding shown(1) append_assoc
    by (intro shown_in_passesI) (auto simp: redacted_def)
qed

lemma follows_passes_now:
  assumes "follows clean patterns stream read d seen"
  shows "shown_in_passes clean (segments patterns read) (shown_on stream seen)"
  using follows_passes [OF assms, of _ "[]"] assms by (auto simp: follows_def)

lemma drain_emit_follows:
  assumes "leftmost_longest_iter (pe_find_iter env)" and "follows clean patterns stream read d seen"
    and "clean \<longrightarrow> captures stream (od_limit d) (drain_sink d seen)"
    and "drain_emit env stream raw d seen = (result, d', seen')" and "length raw \<le> output_chunk_len"
  shows "others_shown stream seen seen'" and "same_settings d d'"
    and "result = Inr overflowed \<Longrightarrow> follows clean patterns stream (read @ raw) d' seen' \<and>
      (clean \<longrightarrow> captures stream (od_limit d') (drain_sink d' seen'))"
    and "result = Inl e \<Longrightarrow>
      shown_in_passes clean (segments patterns (read @ raw)) (shown_on stream seen')"
    and "result = Inl e \<Longrightarrow> clean \<Longrightarrow> follows False patterns stream (read @ raw) d' seen'"
proof -
  obtain r first current where r: "od_redactor d = Some r" "stream_ok r" "stream_patterns r = patterns"
    and shown: "shown_on stream seen = first @ current" "clean \<longrightarrow> first = []"
    and parts: "\<And>rest. prefix first (redacted patterns (read @ rest))"
      "\<And>rest. \<exists>before after. segments patterns (read @ rest) =
         before @ after @ segments patterns (sr_pending r @ rest) \<and>
         prefix (shown_text before) first \<and> shown_text after = current"
    using assms(2) unfolding follows_def by blast
  let ?sink_writer = "sink_write_all env stream (od_limit d)"
  obtain pushed r' sink where push: "push_chunk (pe_find_iter env) ?sink_writer r raw (drain_sink d seen) =
      (pushed, r', sink)"
    by (cases "push_chunk (pe_find_iter env) ?sink_writer r raw (drain_sink d seen)") auto
  have d': "d' = drain_captured (d\<lparr>od_redactor := Some r'\<rparr>) sink" "seen' = cs_seen sink"
    and result: "result = and_then pushed (\<lambda>_. Inr (\<not> od_truncated d \<and> od_truncated d'))"
    using assms(4) by (auto simp: drain_emit_def r(1) push Let_def)
  have start: "cs_seen (drain_sink d seen) = seen"
    by (simp add: drain_sink_def)
  have r': "od_redactor d' = Some r'"
    by (simp add: d'(1) drain_captured_def)
  have chunk: "length raw \<le> max_output_chunk_len"
    using assms(5) by (simp add: output_chunk_len_def max_output_chunk_len_def)
  note keeps = push_chunk_keeps [OF sink_keeps [of env stream "od_limit d" clean seen] _ push]
  have kept: "others_shown stream seen seen'"
    "pushed = Inr () \<Longrightarrow> clean \<longrightarrow> captures stream (od_limit d) sink"
    using keeps assms(3) by (auto simp: start others_shown_def d'(2))
  show settings: "same_settings d d'" and "others_shown stream seen seen'"
    using kept by (simp_all add: same_settings_def d'(1) drain_captured_def)
  show "follows clean patterns stream (read @ raw) d' seen' \<and>
      (clean \<longrightarrow> captures stream (od_limit d') (drain_sink d' seen'))" if "result = Inr overflowed"
  proof -
    have "pushed = Inr ()"
      using that result by (cases pushed) auto
    note inr = sink.push_chunk_Inr [OF assms(1) r(2) push [unfolded this]]
    have found: "\<exists>found. segments patterns (sr_pending r @ raw @ rest) =
        found @ segments patterns (sr_pending r' @ rest) \<and>
        shown_on stream seen' = first @ current @ shown_text found" for rest
      using inr(3) [of rest] by (simp add: r(3) start d'(2) shown)
    then obtain added where added: "shown_on stream seen' = first @ current @ added"
      by blast
    have "\<exists>before after. segments patterns ((read @ raw) @ rest) =
        before @ after @ segments patterns (sr_pending r' @ rest) \<and>
        prefix (shown_text before) first \<and> shown_text after = current @ added" for rest
    proof -
      obtain before after where "segments patterns (read @ raw @ rest) =
          before @ after @ segments patterns (sr_pending r @ raw @ rest)"
        "prefix (shown_text before) first" "shown_text after = current"
        using parts(2) [of "raw @ rest"] by blast
      moreover obtain found where "segments patterns (sr_pending r @ raw @ rest) =
          found @ segments patterns (sr_pending r' @ rest)" "shown_text found = added"
        using found [of rest] added by auto
      ultimately show ?thesis
        by (intro exI [where x = before] exI [where x = "after @ found"]) simp
    qed
    then have "follows clean patterns stream (read @ raw) d' seen'"
      unfolding follows_def
      using r' inr(1,2) r(3) added shown(2) parts(1) [of "raw @ _"]
      by (intro exI [where x = r'] exI [where x = first] exI [where x = "current @ added"]) auto
    then show ?thesis
      using kept(2) [OF \<open>pushed = Inr ()\<close>] d' settings by (simp add: same_settings_def)
  qed
  have failed: "(\<exists>x. shown_on stream seen' = first @ current @ x \<and>
        (\<forall>rest. prefix x (redacted patterns (sr_pending r @ raw @ rest)) \<and>
          (\<exists>found. segments patterns (sr_pending r @ raw @ rest) =
              found @ segments patterns (sr_pending r' @ rest) \<and> prefix (shown_text found) x))) \<and>
      stream_ok r' \<and> stream_patterns r' = patterns" if error: "result = Inl e"
  proof -
    obtain e' where "pushed = Inl e'"
      using error result by (cases pushed) auto
    note inl = sink.push_chunk_Inl [OF assms(1) r(2) push [unfolded this] chunk]
    obtain x where x: "shown_on stream seen' = first @ current @ x"
      using inl(4) [of "[]"] by (auto simp: start d'(2) shown prefix_def)
    then show ?thesis
      using inl(1-4) by (intro conjI exI [where x = x]) (auto simp: start d'(2) shown r(3))
  qed
  show "shown_in_passes clean (segments patterns (read @ raw)) (shown_on stream seen')"
    if error: "result = Inl e"
  proof -
    obtain x where x: "shown_on stream seen' = first @ current @ x"
      "prefix x (redacted patterns (sr_pending r @ raw))"
      using failed [OF error] by (metis append_Nil2)
    obtain before after where "segments patterns (read @ raw) =
        before @ after @ segments patterns (sr_pending r @ raw)"
      "prefix (shown_text before) first" "shown_text after = current"
      using parts(2) [of raw] by auto
    then show ?thesis
      unfolding x(1) using parts(1) [of raw] shown(2) x(2)
      by (intro shown_in_passesI) (auto simp: redacted_def)
  qed
  show "follows False patterns stream (read @ raw) d' seen'" if error: "result = Inl e" and clean
  proof -
    have "first = []"
      using shown(2) \<open>clean\<close> by simp
    obtain x where x: "shown_on stream seen' = current @ x"
      "\<And>rest. prefix x (redacted patterns (sr_pending r @ raw @ rest))"
      "\<And>rest. \<exists>found. segments patterns (sr_pending r @ raw @ rest) =
        found @ segments patterns (sr_pending r' @ rest) \<and> prefix (shown_text found) x"
      and ok: "stream_ok r'" "stream_patterns r' = patterns"
      using failed [OF error] \<open>first = []\<close> by auto
    have "prefix (current @ x) (redacted patterns ((read @ raw) @ rest)) \<and>
        (\<exists>before after. segments patterns ((read @ raw) @ rest) =
           before @ after @ segments patterns (sr_pending r' @ rest) \<and>
           prefix (shown_text before) (current @ x) \<and> shown_text after = [])" for rest
    proof -
      obtain after where "segments patterns (read @ raw @ rest) =
          after @ segments patterns (sr_pending r @ raw @ rest)" "shown_text after = current"
        using parts(2) [of "raw @ rest"] \<open>first = []\<close> by auto
      moreover obtain found where "segments patterns (sr_pending r @ raw @ rest) =
          found @ segments patterns (sr_pending r' @ rest)" "prefix (shown_text found) x"
        using x(3) by blast
      ultimately show ?thesis
        using x(2) [of rest]
        by (auto simp: redacted_def intro!: exI [where x = "after @ found"] exI [where x = "[]"])
    qed
    then show ?thesis
      unfolding follows_def using r' ok x(1)
      by (intro exI [where x = r'] exI [where x = "current @ x"] exI [where x = "[]"]) auto
  qed
qed

lemma finish_redaction_follows:
  assumes "leftmost_longest_iter (pe_find_iter env)" and "follows clean patterns stream read d seen"
    and "clean \<longrightarrow> captures stream (od_limit d) (drain_sink d seen)"
    and "finish_redaction env stream d seen = (result, d', seen')"
  shows "others_shown stream seen seen'" and "same_settings d d'"
    and "shown_in_passes clean (segments patterns read) (shown_on stream seen')"
    and "result = Inr overflowed \<Longrightarrow> clean \<Longrightarrow>
      captures stream (od_limit d) (drain_sink d' seen') \<and> shown_on stream seen' = redacted patterns read"
proof -
  obtain r where r: "od_redactor d = Some r" "stream_ok r" "stream_patterns r = patterns"
    using assms(2) by (auto simp: follows_def)
  let ?sink_writer = "sink_write_all env stream (od_limit d)"
  obtain finished sink where finish: "streaming_finish (pe_find_iter env) ?sink_writer r (drain_sink d seen) =
      (finished, sink)"
    by (cases "streaming_finish (pe_find_iter env) ?sink_writer r (drain_sink d seen)") auto
  have d': "d' = drain_captured (d\<lparr>od_redactor := None\<rparr>) sink" "seen' = cs_seen sink"
    and result: "result = and_then finished (\<lambda>_. Inr (\<not> od_truncated d \<and> od_truncated d'))"
    using assms(4) by (auto simp: finish_redaction_def r(1) finish Let_def)
  have start: "cs_seen (drain_sink d seen) = seen"
    by (simp add: drain_sink_def)
  have kept: "others_shown stream seen seen'"
    "finished = Inr () \<Longrightarrow> clean \<longrightarrow> captures stream (od_limit d) sink"
    using streaming_finish_keeps [OF sink_keeps [of env stream "od_limit d" clean seen],
        of "drain_sink d seen" "pe_find_iter env" r] assms(3)
    by (auto simp: call_wp_def finish start others_shown_def d'(2) split: sum.splits)
  have wp: "prefix (shown_on stream seen') (shown_on stream seen @ redacted patterns (sr_pending r))"
    "finished = Inr () \<Longrightarrow> shown_on stream seen' = shown_on stream seen @ redacted patterns (sr_pending r)"
    using sink.streaming_finish_wp [OF assms(1) r(2), of env stream "od_limit d" "drain_sink d seen"]
    by (auto simp: call_wp_def finish start r(3) d'(2) split: sum.splits)
  have "prefix (shown_on stream seen) (shown_on stream seen')"
    using streaming_finish_keeps [OF sink.writes_grow [of env stream "od_limit d" "shown_on stream seen"],
        of "drain_sink d seen" "pe_find_iter env" r]
    by (auto simp: call_wp_def finish start d'(2) split: sum.splits)
  then obtain shown where shown: "shown_on stream seen' = shown_on stream seen @ shown"
    by (auto simp: prefix_def)
  show "same_settings d d'" "others_shown stream seen seen'"
    using kept(1) by (simp_all add: same_settings_def d' drain_captured_def)
  show "shown_in_passes clean (segments patterns read) (shown_on stream seen')"
    unfolding shown using wp(1) by (intro follows_passes [OF assms(2) r(1)]) (simp add: shown)
  show "captures stream (od_limit d) (drain_sink d' seen') \<and> shown_on stream seen' = redacted patterns read"
    if "result = Inr overflowed" and clean
  proof -
    have "finished = Inr ()"
      using that(1) result by (cases finished) auto
    moreover have "shown_on stream seen @ redacted patterns (sr_pending r) = redacted patterns read"
    proof -
      obtain current where "shown_on stream seen = current" and
        rest: "\<And>rest. \<exists>after. segments patterns (read @ rest) =
          after @ segments patterns (sr_pending r @ rest) \<and> shown_text after = current"
        using assms(2) \<open>clean\<close> r(1) unfolding follows_def by fastforce
      then show ?thesis
        using rest [of "[]"] by (auto simp: redacted_def)
    qed
    ultimately show ?thesis
      using kept(2) wp(2) \<open>clean\<close> d' by simp
  qed
qed

section \<open>Polls\<close>

definition drain_ok ::
    "bool \<Rightarrow> process_env \<Rightarrow> bytes list \<Rightarrow> output_stream \<Rightarrow> output_drain \<Rightarrow> process_io \<Rightarrow> bool" where
  "drain_ok clean env patterns stream d io \<longleftrightarrow>
     shown_in_passes clean (segments patterns (bytes_read env stream io))
       (shown_on stream (pi_seen io)) \<and>
     (od_reader d \<longrightarrow> \<not> od_complete d \<and>
       follows clean patterns stream (bytes_read env stream io) d (pi_seen io)) \<and>
     (clean \<longrightarrow> captures stream (od_limit d) (drain_sink d (pi_seen io)) \<and>
       (od_complete d \<longrightarrow>
         shown_on stream (pi_seen io) = redacted patterns (bytes_read env stream io)))"

definition untouched :: "output_stream \<Rightarrow> process_io \<Rightarrow> process_io \<Rightarrow> bool" where
  "untouched stream io io' \<longleftrightarrow> others_shown stream (pi_seen io) (pi_seen io') \<and>
     (\<forall>other. other \<noteq> stream \<longrightarrow> pi_reads io' other = pi_reads io other)"

lemma untouched_refl [simp]: "untouched stream io io"
  by (simp add: untouched_def others_shown_def)

lemma untouched_trans:
  "untouched stream io io' \<Longrightarrow> untouched stream io' io'' \<Longrightarrow> untouched stream io io''"
  by (simp add: untouched_def others_shown_def)

lemma drain_ok_cong:
  assumes "shown_on stream (pi_seen io') = shown_on stream (pi_seen io)"
    and "pi_reads io' stream = pi_reads io stream"
  shows "drain_ok clean env patterns stream d io' = drain_ok clean env patterns stream d io"
  using assms by (simp add: drain_ok_def follows_def captures_def drain_sink_def)

lemma follows_weaken:
  "follows clean patterns stream read d seen \<Longrightarrow> follows False patterns stream read d seen"
  unfolding follows_def by blast

lemma drain_ok_weaken:
  "drain_ok clean env patterns stream d io \<Longrightarrow> drain_ok False env patterns stream d io"
  by (auto simp: drain_ok_def intro: shown_in_passes_weaken follows_weaken)

text \<open>A poll keeps the invariant; a failed one of a clean stream leaves the weaker one.\<close>

definition poll_ok ::
    "bool \<Rightarrow> process_env \<Rightarrow> bytes list \<Rightarrow> output_stream \<Rightarrow> 'e + 'a \<Rightarrow> output_drain \<Rightarrow> process_io \<Rightarrow> bool"
  where
  "poll_ok clean env patterns stream result d io \<longleftrightarrow>
     shown_in_passes clean (segments patterns (bytes_read env stream io))
       (shown_on stream (pi_seen io)) \<and>
     (is_ok result \<longrightarrow> drain_ok clean env patterns stream d io) \<and>
     (\<not> is_ok result \<longrightarrow> clean \<longrightarrow> drain_ok False env patterns stream d io)"

lemma poll_ok_Inr: "drain_ok clean env patterns stream d io \<Longrightarrow>
    poll_ok clean env patterns stream (Inr x) d io"
  by (simp add: poll_ok_def drain_ok_def)

lemma read_available_bytes:
  assumes "read_available env stream io = (result, io')"
  shows "bytes_read env stream io' =
      bytes_read env stream io @ (case result of Inr raw \<Rightarrow> raw | Inl _ \<Rightarrow> [])"
    and "pi_seen io' = pi_seen io" and "untouched stream io io'"
    and "result = Inr raw \<Longrightarrow> length raw \<le> output_chunk_len"
  using assms
  by (auto simp: read_available_def read_bytes_def untouched_def others_shown_def
      split: read_result.splits)

text \<open>The end of the pipe, and a chunk of data.\<close>

lemma poll_end_ok:
  assumes "leftmost_longest_iter (pe_find_iter env)" and "drain_ok clean env patterns stream d io"
    and "od_reader d"
    and "finish_redaction env stream (d\<lparr>od_reader := False\<rparr>) (pi_seen io) = (result, d', seen)"
  shows "untouched stream io (io\<lparr>pi_seen := seen\<rparr>)" and "od_limit d' = od_limit d"
    and "result = Inl e \<Longrightarrow>
      poll_ok clean env patterns stream (Inl e :: io_error + output_poll) d' (io\<lparr>pi_seen := seen\<rparr>)"
    and "result = Inr overflowed \<Longrightarrow> drain_ok clean env patterns stream (d'\<lparr>od_complete := True\<rparr>)
      (io\<lparr>pi_seen := seen\<rparr>)"
proof -
  have "follows clean patterns stream (bytes_read env stream io) (d\<lparr>od_reader := False\<rparr>) (pi_seen io)"
    "clean \<longrightarrow> captures stream (od_limit (d\<lparr>od_reader := False\<rparr>))
       (drain_sink (d\<lparr>od_reader := False\<rparr>) (pi_seen io))"
    using assms(2,3) by (simp_all add: drain_ok_def follows_def drain_sink_def)
  note ended = finish_redaction_follows [OF assms(1) this assms(4)]
  have incomplete: "\<not> od_complete d"
    using assms(2,3) by (simp add: drain_ok_def)
  show "untouched stream io (io\<lparr>pi_seen := seen\<rparr>)" "od_limit d' = od_limit d"
    using ended(1,2) by (simp_all add: untouched_def same_settings_def)
  show "poll_ok clean env patterns stream (Inl e :: io_error + output_poll) d' (io\<lparr>pi_seen := seen\<rparr>)"
    if "result = Inl e"
    using ended(2,3) incomplete that
    by (auto simp: poll_ok_def drain_ok_def same_settings_def intro: shown_in_passes_weaken)
  show "drain_ok clean env patterns stream (d'\<lparr>od_complete := True\<rparr>) (io\<lparr>pi_seen := seen\<rparr>)"
    if "result = Inr overflowed"
    using ended(2-4) that by (auto simp: drain_ok_def drain_sink_def same_settings_def)
qed

lemma poll_data_ok:
  assumes "leftmost_longest_iter (pe_find_iter env)" and "drain_ok clean env patterns stream d io"
    and "od_reader d" and "read_available env stream io = (Inr raw, io1)"
    and "drain_emit env stream raw d (pi_seen io1) = (result, d', seen)"
  shows "untouched stream io (io1\<lparr>pi_seen := seen\<rparr>)" and "od_limit d' = od_limit d"
    and "od_reader d'"
    and "result = Inl e \<Longrightarrow>
      poll_ok clean env patterns stream (Inl e :: io_error + output_poll) d' (io1\<lparr>pi_seen := seen\<rparr>)"
    and "result = Inr overflowed \<Longrightarrow> drain_ok clean env patterns stream d' (io1\<lparr>pi_seen := seen\<rparr>)"
proof -
  note io1 = read_available_bytes [OF assms(4)]
  have before: "follows clean patterns stream (bytes_read env stream io) d (pi_seen io1)"
    "clean \<longrightarrow> captures stream (od_limit d) (drain_sink d (pi_seen io1))" "\<not> od_complete d"
    using assms(2,3) io1(2) by (simp_all add: drain_ok_def)
  note ended = drain_emit_follows [OF assms(1) before(1,2) assms(5) io1(4) [OF refl]]
  show "untouched stream io (io1\<lparr>pi_seen := seen\<rparr>)" "od_limit d' = od_limit d" "od_reader d'"
    using ended(1,2) io1(2,3) assms(3) by (simp_all add: untouched_def same_settings_def)
  show "poll_ok clean env patterns stream (Inl e :: io_error + output_poll) d' (io1\<lparr>pi_seen := seen\<rparr>)"
    if "result = Inl e"
    using ended(2) ended(4,5) [OF that] before(3) io1(1)
    by (auto simp: poll_ok_def drain_ok_def same_settings_def intro: shown_in_passes_weaken)
  show "drain_ok clean env patterns stream d' (io1\<lparr>pi_seen := seen\<rparr>)"
    if "result = Inr overflowed"
    using ended(2) ended(3) [OF that] before(3) io1(1)
    by (auto simp: drain_ok_def same_settings_def intro: follows_passes_now)
qed

lemma poll_quiet_ok:
  assumes "drain_ok clean env patterns stream d io" and "read_available env stream io = (Inl e, io1)"
  shows "drain_ok clean env patterns stream d io1"
  using assms(1) read_available_bytes(1,2) [OF assms(2)] by (simp add: drain_ok_def)

lemma poll_reads_ok:
  assumes "leftmost_longest_iter (pe_find_iter env)"
  shows "od_reader d \<Longrightarrow> drain_ok clean env patterns stream d io \<Longrightarrow>
     poll_reads env stream attempts poll d io = (result, d', io') \<Longrightarrow>
     untouched stream io io' \<and> od_limit d' = od_limit d \<and> poll_ok clean env patterns stream result d' io'"
proof (induction attempts arbitrary: poll d io)
  case 0
  then show ?case
    by (auto intro: poll_ok_Inr)
next
  case (Suc attempts)
  obtain got io1 where read: "read_available env stream io = (got, io1)"
    by (cases "read_available env stream io")
  note io1 = read_available_bytes(1-3) [OF read]
  show ?case
  proof (cases "od_truncated d \<and>
      max_output_reads_per_poll - Suc attempts \<ge> max_output_reads_per_poll_after_truncation")
    case True
    then show ?thesis
      using Suc.prems by (auto intro: poll_ok_Inr)
  next
    case False
    note step = Suc.prems(3) [unfolded poll_reads.simps if_not_P [OF False] read prod.case]
    consider "got = Inr []" | raw where "got = Inr raw" "raw \<noteq> []" | "got = Inl Io_Interrupted"
      | "got = Inl Io_WouldBlock" | e where "got = Inl e" "e \<noteq> Io_Interrupted" "e \<noteq> Io_WouldBlock"
      by (cases got) blast+
    then show ?thesis
    proof cases
      case 1
      have "drain_ok clean env patterns stream d io1"
        using Suc.prems(2) io1 1 by (simp add: drain_ok_def)
      note ended = poll_end_ok [OF assms this Suc.prems(1)]
      obtain finished d1 seen where finish: "finish_redaction env stream (d\<lparr>od_reader := False\<rparr>)
          (pi_seen io1) = (finished, d1, seen)"
        by (cases "finish_redaction env stream (d\<lparr>od_reader := False\<rparr>) (pi_seen io1)") auto
      show ?thesis
        using step 1 finish ended [OF finish] untouched_trans [OF io1(3)]
        by (cases finished) (auto intro: poll_ok_Inr)
    next
      case (2 raw)
      note chunk = poll_data_ok [OF assms Suc.prems(2,1) read [unfolded 2(1)]]
      obtain emitted d1 seen where emit: "drain_emit env stream raw d (pi_seen io1) =
          (emitted, d1, seen)"
        by (cases "drain_emit env stream raw d (pi_seen io1)") auto
      note chunk = chunk [OF emit]
      show ?thesis
      proof (cases emitted)
        case (Inl e)
        then have "result = Inl e" "d' = d1" "io' = io1\<lparr>pi_seen := seen\<rparr>"
          using step 2 emit by (auto split: list.splits)
        then show ?thesis
          using chunk Inl by simp
      next
        case (Inr overflowed)
        then obtain poll' where
          "poll_reads env stream attempts poll' d1 (io1\<lparr>pi_seen := seen\<rparr>) = (result, d', io')"
          using step 2 emit by (auto simp: Let_def split: list.splits)
        from Suc.IH [OF chunk(3,5) this] chunk Inr show ?thesis
          by (auto intro: untouched_trans)
      qed
    next
      case 3
      then show ?thesis
        using step Suc.IH [OF Suc.prems(1) poll_quiet_ok [OF Suc.prems(2)]] read
          untouched_trans [OF io1(3)] by auto
    next
      case 4
      then show ?thesis
        using step poll_quiet_ok [OF Suc.prems(2)] read io1(3) by (auto intro: poll_ok_Inr)
    next
      case (5 e)
      then have "result = Inr poll" "d' = d\<lparr>od_reader := False, od_redactor := None\<rparr>" "io' = io1"
        using step by (cases e; simp)+
      then show ?thesis
        using poll_quiet_ok [OF Suc.prems(2)] read 5(1) io1(3) Suc.prems(1)
        by (auto simp: drain_ok_def drain_sink_def intro!: poll_ok_Inr)
    qed
  qed
qed

section \<open>Both streams\<close>

fun drain_of :: "output_stream \<Rightarrow> output_drains \<Rightarrow> output_drain option" where
  "drain_of Stream_Stdout ds = ods_stdout ds"
| "drain_of Stream_Stderr ds = ods_stderr ds"

lemma drain_of_update:
  "other \<noteq> Stream_Stdout \<Longrightarrow> drain_of other (ds\<lparr>ods_stdout := drain\<rparr>) = drain_of other ds"
  "other \<noteq> Stream_Stderr \<Longrightarrow> drain_of other (ds\<lparr>ods_stderr := drain\<rparr>) = drain_of other ds"
  by (cases other, simp_all)+

definition drains_part :: "bool \<Rightarrow> process_env \<Rightarrow> bytes list \<Rightarrow> process_io \<Rightarrow> bool" where
  "drains_part clean env patterns io \<longleftrightarrow>
     (\<forall>stream. shown_in_passes clean (segments patterns (bytes_read env stream io))
        (shown_on stream (pi_seen io)))"

definition drains_ok ::
    "bool \<Rightarrow> process_env \<Rightarrow> bytes list \<Rightarrow> output_drains \<Rightarrow> process_io \<Rightarrow> bool" where
  "drains_ok clean env patterns ds io \<longleftrightarrow> drains_part clean env patterns io \<and>
     (\<forall>stream d. drain_of stream ds = Some d \<longrightarrow> drain_ok clean env patterns stream d io)"

definition same_limits :: "output_drains \<Rightarrow> output_drains \<Rightarrow> bool" where
  "same_limits ds ds' \<longleftrightarrow> (\<forall>stream.
     map_option od_limit (drain_of stream ds') = map_option od_limit (drain_of stream ds))"

lemma drains_part_weaken: "drains_part clean env patterns io \<Longrightarrow> drains_part False env patterns io"
  by (auto simp: drains_part_def intro: shown_in_passes_weaken)

lemma drains_ok_weaken: "drains_ok clean env patterns ds io \<Longrightarrow> drains_ok False env patterns ds io"
  by (auto simp: drains_ok_def intro: drains_part_weaken drain_ok_weaken)

lemma drains_ok_cong:
  assumes "pi_seen io' = pi_seen io" and "pi_reads io' = pi_reads io"
  shows "drains_ok clean env patterns ds io' = drains_ok clean env patterns ds io"
  using assms drain_ok_cong [of _ io' io] by (simp add: drains_ok_def drains_part_def)

text \<open>
  Polls that keep the invariant while they succeed; the first failure leaves the weaker invariant
  of a second pass, and any failure leaves only redacted bytes behind.
\<close>

definition polls_ok ::
    "bool \<Rightarrow> process_env \<Rightarrow> bytes list \<Rightarrow> output_drains
      \<Rightarrow> ('e + 'a) \<times> output_drains \<times> process_io \<Rightarrow> bool" where
  "polls_ok clean env patterns ds outcome \<longleftrightarrow> (case outcome of (result, ds', io') \<Rightarrow>
     same_limits ds ds' \<and> drains_part clean env patterns io' \<and>
     (is_ok result \<longrightarrow> drains_ok clean env patterns ds' io') \<and>
     (\<not> is_ok result \<longrightarrow> clean \<longrightarrow> drains_ok False env patterns ds' io'))"

lemma polls_ok_stay: "drains_ok clean env patterns ds io \<Longrightarrow> polls_ok clean env patterns ds (Inr x, ds, io)"
  by (simp add: polls_ok_def drains_ok_def same_limits_def)

lemma polls_ok_limits:
  "polls_ok clean env patterns ds' outcome \<Longrightarrow> same_limits ds ds' \<Longrightarrow> polls_ok clean env patterns ds outcome"
  by (auto simp: polls_ok_def same_limits_def)

lemma drain_poll_ok:
  assumes "leftmost_longest_iter (pe_find_iter env)" and "drain_ok clean env patterns stream d io"
    and "drain_poll env stream d io = (result, d', io')"
  shows "untouched stream io io' \<and> od_limit d' = od_limit d \<and> poll_ok clean env patterns stream result d' io'"
proof (cases "od_reader d")
  case True
  then show ?thesis
    using poll_reads_ok [OF assms(1) True assms(2)] assms(3) by (simp add: drain_poll_def)
next
  case False
  then show ?thesis
    using assms(2,3) by (auto simp: drain_poll_def intro: poll_ok_Inr)
qed

lemma poll_stream_ok:
  assumes "leftmost_longest_iter (pe_find_iter env)" and "drains_ok clean env patterns ds io"
    and "poll_stream env stream (drain_of stream ds) io = (result, drain, io')"
    and "drain_of stream ds' = drain"
    and "\<And>other. other \<noteq> stream \<Longrightarrow> drain_of other ds' = drain_of other ds"
  shows "polls_ok clean env patterns ds (result, ds', io')"
proof (cases "drain_of stream ds")
  case None
  then have "is_ok result" "io' = io" "drain_of stream ds' = drain_of stream ds"
    using assms(3,4) by (auto simp: poll_stream_def)
  moreover from this(3) have "drain_of other ds' = drain_of other ds" for other
    using assms(5) [of other] by (cases "other = stream") auto
  ultimately show ?thesis
    using assms(2) by (simp add: polls_ok_def drains_ok_def same_limits_def)
next
  case (Some d)
  obtain d' where poll: "drain_poll env stream d io = (result, d', io')" and drain: "drain = Some d'"
    using assms(3) Some by (auto simp: poll_stream_def split: prod.splits)
  have ok: "drain_ok clean env patterns stream d io"
    using assms(2) Some by (simp add: drains_ok_def)
  note polled = drain_poll_ok [OF assms(1) ok poll]
  have quiet: "shown_on other (pi_seen io') = shown_on other (pi_seen io)"
    "pi_reads io' other = pi_reads io other" if "other \<noteq> stream" for other
    using polled that by (auto simp: untouched_def others_shown_def)
  have part: "drains_part clean env patterns io'"
    unfolding drains_part_def
  proof
    fix other
    show "shown_in_passes clean (segments patterns (bytes_read env other io'))
        (shown_on other (pi_seen io'))"
      using polled quiet [of other] assms(2)
      by (cases "other = stream") (auto simp: poll_ok_def drains_ok_def drains_part_def)
  qed
  have other: "drain_ok clean env patterns other d'' io'" if "other \<noteq> stream" "drain_of other ds = Some d''"
    for other d''
    using assms(2) that quiet drain_ok_cong [of other io' io clean env patterns d'']
    by (auto simp: drains_ok_def)
  have all: "drains_ok level env patterns ds' io'"
    if "drain_ok level env patterns stream d' io'" "drains_part level env patterns io'"
      "level = clean \<or> \<not> level" for level
    unfolding drains_ok_def
  proof (intro conjI allI impI)
    fix s d''
    assume "drain_of s ds' = Some d''"
    then show "drain_ok level env patterns s d'' io'"
      using that other [of s d''] drain_ok_weaken [of clean env patterns s d'' io'] assms(4,5) drain
      by (cases "s = stream") auto
  qed (fact that(2))
  have "same_limits ds ds'"
    unfolding same_limits_def
  proof
    fix s
    show "map_option od_limit (drain_of s ds') = map_option od_limit (drain_of s ds)"
      using assms(4,5) drain Some polled by (cases "s = stream") auto
  qed
  then show ?thesis
    using polled part all [of clean] all [of False] drains_part_weaken [OF part]
    by (auto simp: polls_ok_def poll_ok_def)
qed

lemma drains_poll_ok:
  assumes "leftmost_longest_iter (pe_find_iter env)" and "drains_ok clean env patterns ds io"
  shows "polls_ok clean env patterns ds (drains_poll env ds io)"
proof -
  obtain result stdout io1 where first: "poll_stream env Stream_Stdout (ods_stdout ds) io =
      (result, stdout, io1)"
    by (cases "poll_stream env Stream_Stdout (ods_stdout ds) io") auto
  let ?ds = "ds\<lparr>ods_stdout := stdout\<rparr>"
  have ok: "polls_ok clean env patterns ds (result, ?ds, io1)"
    by (rule poll_stream_ok [OF assms, of Stream_Stdout])
      (simp_all add: first drain_of_update)
  show ?thesis
  proof (cases result)
    case (Inl e)
    then show ?thesis
      using ok first by (simp add: drains_poll_def polls_ok_def)
  next
    case (Inr polled)
    then have next_ok: "drains_ok clean env patterns ?ds io1" and limits: "same_limits ds ?ds"
      using ok by (simp_all add: polls_ok_def)
    obtain result2 stderr io2 where second: "poll_stream env Stream_Stderr (ods_stderr ds) io1 =
        (result2, stderr, io2)"
      by (cases "poll_stream env Stream_Stderr (ods_stderr ds) io1") auto
    have "polls_ok clean env patterns ?ds (result2, ?ds\<lparr>ods_stderr := stderr\<rparr>, io2)"
      by (rule poll_stream_ok [OF assms(1) next_ok, of Stream_Stderr])
        (simp_all add: second drain_of_update)
    from polls_ok_limits [OF this limits] show ?thesis
      using Inr first second
      by (auto simp: drains_poll_def polls_ok_def split: sum.splits)
  qed
qed

lemma polls_ok_then:
  assumes "polls_ok clean env patterns ds outcome"
    and "\<And>ds' io'. drains_ok clean env patterns ds' io' \<Longrightarrow> polls_ok clean env patterns ds' (continue ds' io')"
  shows "polls_ok clean env patterns ds (case outcome of
    (Inl e, ds', io') \<Rightarrow> (Inl e, ds', io') | (Inr _, ds', io') \<Rightarrow> continue ds' io')"
proof -
  obtain result ds' io' where outcome: "outcome = (result, ds', io')"
    by (cases outcome)
  show ?thesis
  proof (cases result)
    case (Inl e)
    then show ?thesis
      using assms(1) by (simp add: outcome polls_ok_def)
  next
    case (Inr x)
    then have "same_limits ds ds'" "drains_ok clean env patterns ds' io'"
      using assms(1) by (simp_all add: outcome polls_ok_def)
    then show ?thesis
      using polls_ok_limits [OF assms(2)] by (simp add: outcome Inr)
  qed
qed

lemma finish_polls_ok:
  assumes "leftmost_longest_iter (pe_find_iter env)"
  shows "drains_ok clean env patterns ds io \<Longrightarrow> polls_ok clean env patterns ds (finish_polls env polls ds io)"
  by (induction polls arbitrary: ds io)
    (auto simp: polls_ok_stay intro!: polls_ok_then drains_poll_ok [OF assms])

lemma drains_last_poll_ok:
  assumes "leftmost_longest_iter (pe_find_iter env)" and "drains_ok clean env patterns ds io"
  shows "polls_ok clean env patterns ds (drains_last_poll env polls ds io)"
  unfolding drains_last_poll_def
  by (intro polls_ok_then finish_polls_ok assms)
    (auto simp: polls_ok_stay intro!: polls_ok_then drains_poll_ok [OF assms(1)])

section \<open>The whole run\<close>

text \<open>Writing the input does not touch the output, and reading output does not touch the input.\<close>

lemma input_writes_output:
  "input_writes env attempts progress d io = (result, d', io') \<Longrightarrow>
     pi_seen io' = pi_seen io \<and> pi_reads io' = pi_reads io"
proof (induction attempts arbitrary: progress d io)
  case (Suc attempts)
  from Suc.prems show ?case
    by (auto simp: Let_def dest!: Suc.IH split: input_write.splits io_error.splits if_splits option.splits)
qed simp

lemma input_poll_option_output:
  "input_poll_option env input io = (result, input', io') \<Longrightarrow>
     pi_seen io' = pi_seen io \<and> pi_reads io' = pi_reads io"
  by (auto simp: input_poll_option_def input_poll_def dest: input_writes_output
      split: option.splits prod.splits if_splits)

lemma wait_output_ok:
  assumes "leftmost_longest_iter (pe_find_iter env)"
  shows "drains_ok True env patterns ds io \<Longrightarrow>
     wait_for_owned_process env policy ticks ds input io = (outcome, ds', io') \<Longrightarrow>
     same_limits ds ds' \<and>
     drains_ok (outcome \<noteq> Some (Inr Wait_OutputFailure)) env patterns ds' io'"
proof (induction ticks arbitrary: ds input io)
  case Nil
  then show ?case
    by (auto simp: same_limits_def)
next
  case (Cons tick ticks)
  obtain given input1 io1 where polled: "input_poll_option env input io = (given, input1, io1)"
    by (cases "input_poll_option env input io") auto
  have ok1: "drains_ok True env patterns ds io1"
    using Cons.prems(1) input_poll_option_output [OF polled] drains_ok_cong [of io1 io] by simp
  obtain shown ds2 io2 where drained: "drains_poll env ds io1 = (shown, ds2, io2)"
    by (cases "drains_poll env ds io1") auto
  note polls = drains_poll_ok [OF assms ok1, unfolded drained polls_ok_def prod.case]
  show ?case
  proof (cases "\<exists>e. given = Inl e \<or> shown = Inl e")
    case True
    then show ?thesis
      using Cons.prems(2) ok1 polls
      by (cases given) (auto simp: polled drained same_limits_def drains_ok_weaken)
  next
    case False
    then obtain poll progress where Inr: "shown = Inr poll" "given = Inr progress"
      by (cases shown; cases given) auto
    then have ok2: "same_limits ds ds2" "drains_ok True env patterns ds2 io2"
      using polls by simp_all
    have ended: "tick_outcome tick \<noteq> Some (Inr Wait_OutputFailure)"
      by (auto simp: tick_outcome_def split: option.splits bool.splits sum.splits unreaped_child.splits)
    consider "ds' = ds2" "io' = io2" "outcome \<noteq> Some (Inr Wait_OutputFailure)"
      | "wait_for_owned_process env policy ticks ds2 input1 io2 = (outcome, ds', io')"
      using Cons.prems(2) Inr ended
      by (cases "tick_outcome tick")
        (auto simp: polled drained split: overflow_policy.splits option.splits,
          (metis option.inject)+)
    then show ?thesis
    proof cases
      case 1
      then show ?thesis
        using ok2 by simp
    next
      case 2
      from Cons.IH [OF ok2(2) this] ok2(1) show ?thesis
        by (auto simp: same_limits_def)
    qed
  qed
qed

lemma drains_start_ok:
  assumes "stream_ok r" and "drains_start pipes limits (Some r) = Inr ds"
  shows "drains_ok True env (stream_patterns r) ds process_start"
proof -
  let ?r = "independent_stream r"
  have r: "stream_ok ?r" "stream_patterns ?r = stream_patterns r" "sr_pending ?r = []"
    using assms(1) by (simp_all add: independent_stream_def stream_ok_def stream_patterns_def)
  have start: "shown_on stream (pi_seen process_start) = []" "bytes_read env stream process_start = []"
    for stream
    by (simp_all add: process_start_def read_bytes_def)
  have "follows True (stream_patterns r) stream [] (drain_start limit (Some ?r)) (pi_seen process_start)"
    for stream limit
    unfolding follows_def using r
    by (intro exI [where x = ?r] exI [where x = "[]"])
      (auto simp: drain_start_def start intro!: exI [where x = "[]"])
  then have "drain_ok True env (stream_patterns r) stream (drain_start limit (Some ?r)) process_start"
    for stream limit
    by (simp add: drain_ok_def start shown_in_one_pass drain_start_def captures_def drain_sink_def)
  then have "drain_ok True env (stream_patterns r) stream d process_start"
    if "drain_of stream ds = Some d" for stream d
    using assms(2) that
    by (cases stream)
      (auto simp: drains_start_def into_streams_def drain_start_piped_def result_simps
        split: child_pipe.splits)
  then show ?thesis
    by (simp add: drains_ok_def drains_part_def start shown_in_one_pass)
qed

definition limit_of :: "output_stream \<Rightarrow> nat \<times> nat \<Rightarrow> nat" where
  "limit_of stream limits = (case stream of Stream_Stdout \<Rightarrow> fst limits | Stream_Stderr \<Rightarrow> snd limits)"

lemma start_limits:
  assumes "drains_start pipes limits redaction = Inr ds0" and "same_limits ds0 ds"
    and "drain_of stream ds = Some d"
  shows "od_limit d = limit_of stream limits"
proof -
  have "map_option od_limit (drain_of stream ds0) = Some (od_limit d)"
    using assms(2,3) unfolding same_limits_def by (metis option.simps(9))
  then show ?thesis
    using assms(1)
    by (cases stream; cases redaction)
      (auto simp: drains_start_def drain_start_def drain_start_piped_def limit_of_def into_streams_def
        result_simps split: child_pipe.splits)
qed

text \<open>What the caller of a run gets back for a stream, and the runs that the observer failed.\<close>

fun output_of :: "output_stream \<Rightarrow> owned_process_tree_output \<Rightarrow> bounded_output option" where
  "output_of Stream_Stdout output = pto_stdout output"
| "output_of Stream_Stderr output = pto_stderr output"

definition output_failure :: "owned_process_tree_error + owned_process_tree_output \<Rightarrow> bool" where
  "output_failure outcome \<longleftrightarrow>
     outcome \<in> {Inl Tree_Output, Inl (Tree_CleanupAfterFailure Tree_Output)}"

definition returned_ok ::
    "process_env \<Rightarrow> bytes list \<Rightarrow> nat \<times> nat \<Rightarrow> owned_process_tree_output \<Rightarrow> process_io \<Rightarrow> bool" where
  "returned_ok env patterns limits output io \<longleftrightarrow>
     (\<forall>stream b. output_of stream output = Some b \<longrightarrow>
       (let shown = shown_on stream (pi_seen io) in
        bo_bytes b = take (limit_of stream limits) shown \<and>
        (bo_truncated b \<longleftrightarrow> limit_of stream limits < length shown) \<and>
        (bo_complete b \<longrightarrow> shown = redacted patterns (bytes_read env stream io))))"

lemma finished_output_ok:
  assumes "leftmost_longest_iter (pe_find_iter env)" and "drains_ok clean env patterns ds io"
    and "drains_start pipes limits redaction = Inr ds0" and "same_limits ds0 ds"
    and "drains_finish env polls ds io = (drained, io')"
  shows "drains_part clean env patterns io'"
    and "drained = Inr (stdout, stderr) \<Longrightarrow> clean \<Longrightarrow>
      returned_ok env patterns limits
        \<lparr>pto_status = status, pto_stdout = stdout, pto_stderr = stderr\<rparr> io'"
proof -
  obtain result ds' where last: "drains_last_poll env polls ds io = (result, ds', io')"
    using assms(5) by (auto simp: drains_finish_def split: prod.splits sum.splits)
  note polls = drains_last_poll_ok [OF assms(1,2), of polls, unfolded last polls_ok_def prod.case]
  then show "drains_part clean env patterns io'"
    by simp
  show "returned_ok env patterns limits
      \<lparr>pto_status = status, pto_stdout = stdout, pto_stderr = stderr\<rparr> io'"
    if drained: "drained = Inr (stdout, stderr)" and clean
    unfolding returned_ok_def
  proof (intro allI impI)
    fix stream b
    assume b: "output_of stream \<lparr>pto_status = status, pto_stdout = stdout, pto_stderr = stderr\<rparr> = Some b"
    have "is_ok result" "stdout = map_option drain_output (ods_stdout ds')"
      "stderr = map_option drain_output (ods_stderr ds')"
      using assms(5) drained last by (auto simp: drains_finish_def split: sum.splits)
    then obtain d where d: "drain_of stream ds' = Some d" "b = drain_output d"
      using b by (cases stream) auto
    have "drain_ok True env patterns stream d io'" "same_limits ds0 ds'"
      using polls \<open>is_ok result\<close> \<open>clean\<close> d(1) assms(4) by (auto simp: drains_ok_def same_limits_def)
    moreover from this(2) have "od_limit d = limit_of stream limits"
      using start_limits [OF assms(3) _ d(1)] by simp
    ultimately show "let shown = shown_on stream (pi_seen io') in
        bo_bytes b = take (limit_of stream limits) shown \<and>
        (bo_truncated b \<longleftrightarrow> limit_of stream limits < length shown) \<and>
        (bo_complete b \<longrightarrow> shown = redacted patterns (bytes_read env stream io'))"
      by (simp add: d(2) drain_output_def drain_ok_def captures_def drain_sink_def Let_def)
  qed
qed

lemma wait_status:
  assumes "finish_owned_process_wait wait_result cleanup = status"
  shows "wait_result = Inr Wait_OutputFailure \<Longrightarrow>
      status = Inl Tree_Output \<or> status = Inl (Tree_CleanupAfterFailure Tree_Output)"
    and "status = Inr code \<Longrightarrow> wait_result = Inr Wait_ExitedUnreaped"
proof -
  show "status = Inl Tree_Output \<or> status = Inl (Tree_CleanupAfterFailure Tree_Output)"
    if "wait_result = Inr Wait_OutputFailure"
    using assms that by (auto simp: finish_owned_process_wait_def Let_def split: sum.splits)
  show "wait_result = Inr Wait_ExitedUnreaped" if "status = Inr code"
  proof (cases wait_result)
    case (Inr wait)
    then show ?thesis
      using assms that by (cases wait) (auto simp: finish_owned_process_wait_def Let_def split: sum.splits)
  qed (use assms that in \<open>auto simp: finish_owned_process_wait_def Let_def split: sum.splits\<close>)
qed

lemma supervised_output_ok:
  assumes "leftmost_longest_iter (pe_find_iter env)" and "stream_ok r"
    and "drains_start pipes (px_limits options) (Some r) = Inr ds"
    and "supervise_child env host options ds input = (outcome, io)"
  shows "drains_part (outcome = None \<or> \<not> output_failure (the outcome)) env (stream_patterns r) io"
    and "outcome = Some (Inr output) \<Longrightarrow>
      returned_ok env (stream_patterns r) (px_limits options) output io"
proof -
  let ?patterns = "stream_patterns r"
  obtain wait ds1 io1 where waited: "wait_for_owned_process env (px_overflow_policy options)
      (ph_ticks host) ds input process_start = (wait, ds1, io1)"
    by (cases "wait_for_owned_process env (px_overflow_policy options) (ph_ticks host) ds input
        process_start") auto
  note ok = wait_output_ok [OF assms(1) drains_start_ok [OF assms(2,3)] waited]
  obtain drained io2 where finished: "drains_finish env (ph_drain_polls host) ds1 io1 = (drained, io2)"
    by (cases "drains_finish env (ph_drain_polls host) ds1 io1") auto
  note drain = finished_output_ok [OF assms(1) conjunct2 [OF ok] assms(3) conjunct1 [OF ok] finished]
  have "drains_part (outcome = None \<or> \<not> output_failure (the outcome)) env ?patterns io \<and>
      (\<forall>output. outcome = Some (Inr output) \<longrightarrow> returned_ok env ?patterns (px_limits options) output io)"
  proof (cases wait)
    case None
    then show ?thesis
      using assms(4) waited ok by (auto simp: supervise_child_def drains_ok_def)
  next
    case (Some wait_result)
    define status where "status = finish_owned_process_wait wait_result (ph_cleanup host)"
    have outcome: "io = io2" "outcome = Some (and_then status (\<lambda>status.
        and_then (map_err (\<lambda>_. Tree_Output) drained) (\<lambda>(stdout, stderr).
        finalize_owned_process_output status stdout stderr (px_overflow_policy options))))"
      using assms(4) by (simp_all add: supervise_child_def waited Some finished status_def Let_def)
    note status = wait_status [OF status_def [symmetric]]
    have part: "drains_part (outcome = None \<or> \<not> output_failure (the outcome)) env ?patterns io"
    proof (cases "wait_result = Inr Wait_OutputFailure")
      case True
      then show ?thesis
        using drain(1) status(1) outcome Some by (auto simp: output_failure_def)
    next
      case False
      then show ?thesis
        using drain(1) outcome(1) Some drains_part_weaken
        by (cases "outcome = None \<or> \<not> output_failure (the outcome)") auto
    qed
    moreover have "returned_ok env ?patterns (px_limits options) returned io"
      if result: "outcome = Some (Inr returned)" for returned
    proof -
      obtain code stdout stderr where "status = Inr code" "drained = Inr (stdout, stderr)"
        "returned = \<lparr>pto_status = code, pto_stdout = stdout, pto_stderr = stderr\<rparr>"
        using result outcome(2)
        by (auto simp: result_simps finalize_owned_process_output_def split: option.splits)
      then show ?thesis
        using drain(2) status(2) Some outcome(1) by auto
    qed
    ultimately show ?thesis
      by blast
  qed
  then show "drains_part (outcome = None \<or> \<not> output_failure (the outcome)) env ?patterns io"
    and "outcome = Some (Inr output) \<Longrightarrow> returned_ok env ?patterns (px_limits options) output io"
    by simp_all
qed

lemma run_output_ok:
  assumes "leftmost_longest_iter (pe_find_iter env)" and "stream_ok r"
    and "px_redaction options = Some r"
    and "run_owned_process_tree env host options = (outcome, io)"
  shows "drains_part (outcome = None \<or> \<not> output_failure (the outcome)) env (stream_patterns r) io"
    and "outcome = Some (Inr output) \<Longrightarrow>
      returned_ok env (stream_patterns r) (px_limits options) output io"
proof -
  have start: "drains_part clean env (stream_patterns r) process_start" for clean
    by (auto simp: drains_part_def process_start_def read_bytes_def shown_in_passes_def)
  consider "io = process_start" "\<exists>e. outcome = Some (Inl e)"
    | input ds where "drains_start (ph_pipes host) (px_limits options) (Some r) = Inr ds"
      "supervise_child env host options ds input = (outcome, io)"
    using assms(3,4)
    by (auto simp: run_owned_process_tree_def split: if_splits option.splits sum.splits)
  then have "drains_part (outcome = None \<or> \<not> output_failure (the outcome)) env (stream_patterns r) io \<and>
      (\<forall>output. outcome = Some (Inr output) \<longrightarrow>
        returned_ok env (stream_patterns r) (px_limits options) output io)"
    by cases (use start supervised_output_ok [OF assms(1,2)] in auto)
  then show "drains_part (outcome = None \<or> \<not> output_failure (the outcome)) env (stream_patterns r) io"
    and "outcome = Some (Inr output) \<Longrightarrow>
      returned_ok env (stream_patterns r) (px_limits options) output io"
    by simp_all
qed

lemma run_overflow:
  assumes "run_owned_process_tree env host options = (Some (Inr out), io)"
    and "px_overflow_policy options = Overflow_Error" and "output_of stream out = Some b"
  shows "\<not> bo_truncated b"
proof -
  obtain status stdout stderr where "finalize_owned_process_output status stdout stderr Overflow_Error = Inr out"
    using assms(1,2)
    by (auto simp: run_owned_process_tree_def supervise_child_def Let_def result_simps
        split: if_splits option.splits sum.splits prod.splits)
  then show ?thesis
    using assms(3)
    by (cases stream) (auto simp: finalize_owned_process_output_def first_truncated_def
        split: option.splits if_splits)
qed

end
