(* ===== verification/Jury_Output_Theorems.thy ===== *)
theory Jury_Output_Theorems
  imports Jury_Output_Safety
begin

text \<open>
  Secrets stay hidden in the captured output of a child process, and a run of the capture.
\<close>

section \<open>Secrets stay hidden\<close>

text \<open>
  In a redacted output the bytes between two redactions contain no spelling of a secret.
\<close>

definition hides :: "codecs \<Rightarrow> bytes option list \<Rightarrow> segment list \<Rightarrow> bool" where
  "hides co protected segs \<longleftrightarrow>
     (\<forall>before kept after secret. segs = before @ map Kept kept @ after \<longrightarrow>
       Some secret \<in> set protected \<longrightarrow>
       (\<forall>spelling \<in> spellings co secret. \<not> sublist spelling kept))"

lemma segments_hides:
  assumes "set patterns = \<Union> (spellings co ` {value. Some value \<in> set protected})"
  shows "hides co protected (segments patterns input)"
proof -
  have "spelling \<noteq> []" if "spelling \<in> spellings co secret" for spelling secret
    using that by (auto simp: spellings_def min_redactable_len_def)
  then show ?thesis
    using assms segments_hide unfolding hides_def by blast
qed



section \<open>A run\<close>

definition sample_codecs :: codecs where
  "sample_codecs = \<lparr>co_b64 = id, co_b64_nopad = id, co_b64_url = id, co_b64_url_nopad = id,
     co_json_to_string = (\<lambda>_. None)\<rparr>"

definition sample_secret :: bytes where "sample_secret = [255, 1, 2, 3]"

text \<open>A child that prints the secret in two halves with a byte on each side.\<close>

definition sample_env :: process_env where
  "sample_env =
     \<lparr>pe_find_iter = (\<lambda>patterns input. leftmost_longest patterns 0 input),
      pe_pipe = (\<lambda>stream n. if n = 0 then Read_Ok [65, 255, 1] else if n = 1 then Read_Ok [2, 3, 66]
        else Read_Ok []),
      pe_observer_fails = (\<lambda>_. False), pe_input_write = (\<lambda>_. Input_Unavailable)\<rparr>"

lemma sample_spellings:
  "hex sample_secret False = [102, 102, 48, 49, 48, 50, 48, 51]"
  "hex sample_secret True = [70, 70, 48, 49, 48, 50, 48, 51]"
  "utf8_chars sample_secret = None"
  "base32 sample_secret False = [55, 52, 65, 81, 69, 65, 89]"
  "base32 sample_secret True = [55, 52, 65, 81, 69, 65, 89, 61]"
proof -
  have "base32_bytes 0 0 sample_secret = [55, 52, 65, 81, 69, 65, 89]"
    by (simp add: sample_secret_def base32_groups.simps base32_alphabet_def str_bytes_def)
  then show "base32 sample_secret False = [55, 52, 65, 81, 69, 65, 89]"
    and "base32 sample_secret True = [55, 52, 65, 81, 69, 65, 89, 61]"
    by (simp_all add: base32_def)
qed (simp_all add: hex_def sample_secret_def hex_digit_def utf8_chars.simps)

definition sample_patterns :: "bytes list" where
  "sample_patterns =
     [[55, 52, 65, 81, 69, 65, 89], [55, 52, 65, 81, 69, 65, 89, 61],
      [55, 52, 97, 113, 101, 97, 121], [55, 52, 97, 113, 101, 97, 121, 61],
      [70, 70, 48, 49, 48, 50, 48, 51], [102, 102, 48, 49, 48, 50, 48, 51], [255, 1, 2, 3]]"

lemma sample_text: "text_spellings sample_codecs sample_secret =
   [([255, 1, 2, 3], ''[REDACTED_B64]''), ([255, 1, 2, 3], ''[REDACTED_B64]''),
    ([255, 1, 2, 3], ''[REDACTED_B64URL]''), ([255, 1, 2, 3], ''[REDACTED_B64URL]''),
    ([102, 102, 48, 49, 48, 50, 48, 51], ''[REDACTED_HEX]''),
    ([70, 70, 48, 49, 48, 50, 48, 51], ''[REDACTED_HEX]''),
    ([55, 52, 65, 81, 69, 65, 89, 61], ''[REDACTED_BASE32]''),
    ([55, 52, 65, 81, 69, 65, 89], ''[REDACTED_BASE32]''),
    ([55, 52, 97, 113, 101, 97, 121, 61], ''[REDACTED_BASE32]''),
    ([55, 52, 97, 113, 101, 97, 121], ''[REDACTED_BASE32]'')]"
  by (simp add: text_spellings_def sample_spellings sample_codecs_def ascii_lowercase_def)
    (simp add: sample_secret_def)

lemma sample_added: "add_needles sample_codecs sample_secret \<lparr>rd_text_needles = [], rd_raw_needles = []\<rparr> =
   \<lparr>rd_text_needles = map (\<lambda>(v, m). \<lparr>tn_value = v, tn_marker = m\<rparr>) 
     [([255, 1, 2, 3], ''[REDACTED_B64]''),
    ([102, 102, 48, 49, 48, 50, 48, 51], ''[REDACTED_HEX]''),
    ([70, 70, 48, 49, 48, 50, 48, 51], ''[REDACTED_HEX]''),
    ([55, 52, 65, 81, 69, 65, 89, 61], ''[REDACTED_BASE32]''),
    ([55, 52, 65, 81, 69, 65, 89], ''[REDACTED_BASE32]''),
    ([55, 52, 97, 113, 101, 97, 121, 61], ''[REDACTED_BASE32]''),
    ([55, 52, 97, 113, 101, 97, 121], ''[REDACTED_BASE32]'')], rd_raw_needles = [[255, 1, 2, 3]]\<rparr>"
proof -
  have "sample_secret \<noteq> []" by (simp add: sample_secret_def)
  then show ?thesis
  unfolding add_needles_def sample_text
  by (simp add: push_unique_text_def push_unique_raw_def min_redactable_len_def) (simp add: sample_secret_def)
qed

definition sample_needles :: "bytes list" where
  "sample_needles = [[255, 1, 2, 3], [102, 102, 48, 49, 48, 50, 48, 51],
      [70, 70, 48, 49, 48, 50, 48, 51], [55, 52, 65, 81, 69, 65, 89, 61], 
       [55, 52, 97, 113, 101, 97, 121, 61], [55, 52, 65, 81, 69, 65, 89], [55, 52, 97, 113, 101, 97, 121], [255, 1, 2, 3]]"

lemma sample_slices: "\<exists>needles. try_from_secret_slices sample_codecs [sample_secret] = Inr needles \<and>
  rd_patterns needles = sample_needles"
proof -
  have "length sample_secret = 4" by (simp add: sample_secret_def)
  then show ?thesis
  by (simp add: try_from_secret_slices_def max_redaction_secrets_def max_redaction_secret_len_def
    max_redaction_source_bytes_def usize_checked_add_def sample_added rd_patterns_def sample_needles_def)
qed

lemma sample_collected: "append_streaming_patterns needles ([], 0) = Inr (sample_needles, 54)"
  if "rd_patterns needles = sample_needles"
  unfolding append_streaming_patterns_def that
  by (simp add: sample_needles_def max_redaction_pattern_len_def usize_checked_add_def
    max_redaction_pattern_bytes_def max_redaction_patterns_def)

lemma sample_sorted: "remdups_adj (sort sample_needles) = sample_patterns"
  by (simp add: sample_needles_def sample_patterns_def)

definition sample_stream :: streaming_redactor where
  "sample_stream = \<lparr>sr_matcher = Some sample_patterns, sr_pattern_count = 7, sr_max_pattern_len = 8,
     sr_pending = []\<rparr>"

lemma sample_redactor:
  "from_protected_values sample_codecs (\<lambda>_. True) [Some sample_secret] = Inr sample_stream"
proof -
  obtain needles where "try_from_secret_slices sample_codecs [sample_secret] = Inr needles"
    and patterns: "rd_patterns needles = sample_needles"
    using sample_slices by blast
  moreover have "validate_patterns sample_needles = Inr ()"
    by (simp add: validate_patterns_def sample_needles_def max_redaction_patterns_def
        min_redactable_len_def max_redaction_pattern_len_def usize_checked_add_def
        max_redaction_pattern_bytes_def)
  moreover have "fold (\<lambda>pattern. max (length pattern)) sample_patterns 0 = 8"
      "sort sample_needles \<noteq> []" "length sample_patterns = 7"
    by (simp_all add: sample_patterns_def sample_needles_def)
  ultimately show ?thesis
    by (simp add: from_protected_values_def sample_collected [OF patterns] streaming_new_def
        sample_sorted sample_stream_def max_redaction_secrets_def usize_checked_add_def
        max_output_chunk_len_def)
qed

lemma sample_find: "leftmost_longest_iter (pe_find_iter sample_env)"
  by (simp add: leftmost_longest_iter_def sample_env_def)

lemma sample_matches: "leftmost_longest sample_patterns 0 [65, 255, 1, 2, 3, 66] = [(1, 5)]"
proof -
  have "match_at sample_patterns [65, 255, 1, 2, 3, 66] = 0"
    and found: "match_at sample_patterns [255, 1, 2, 3, 66] = 4" and "match_at sample_patterns [66] = 0"
    by (simp_all add: match_at_def sample_patterns_def)
  then show ?thesis
    using leftmost_longest_match [OF found, of 1] by (simp add: leftmost_longest_keep)
qed

lemma sample_holds_back:
  assumes "length pending + length chunk < 8" and "chunk \<noteq> []"
  shows "push_chunk find_iter write_all (sample_stream\<lparr>sr_pending := pending\<rparr>) chunk w =
    (Inr (), sample_stream\<lparr>sr_pending := pending @ chunk\<rparr>, w)"
  using assms by (simp add: push_chunk_def sample_stream_def max_output_chunk_len_def Let_def)

definition sample_drain :: "bytes \<Rightarrow> output_drain" where
  "sample_drain pending = drain_start 6 (Some (sample_stream\<lparr>sr_pending := pending\<rparr>))"

lemma sample_emit:
  assumes "length pending + length chunk < 8" and "chunk \<noteq> []"
  shows "drain_emit sample_env stream chunk (sample_drain pending) seen =
    (Inr False, sample_drain (pending @ chunk), seen)"
  using assms
  by (simp add: drain_emit_def sample_drain_def drain_start_def sample_holds_back drain_sink_def
      drain_captured_def)

definition sample_end :: output_drain where
  "sample_end = \<lparr>od_reader = False, od_redactor = None, od_bytes = [65, 91, 82, 69, 68, 65],
     od_limit = 6, od_truncated = True, od_complete = True\<rparr>"

definition sample_seen :: "(output_stream \<times> bytes) list" where
  "sample_seen = [(Stream_Stdout, [65]), (Stream_Stdout, redaction_marker), (Stream_Stdout, [66])]"

lemma sample_finish:
  "finish_redaction sample_env Stream_Stdout
     ((sample_drain [65, 255, 1, 2, 3, 66])\<lparr>od_reader := False\<rparr>) [] =
   (Inr True, sample_end\<lparr>od_complete := False\<rparr>, sample_seen)"
proof -
  have marker: "redaction_marker = [91, 82, 69, 68, 65, 67, 84, 69, 68, 93]"
    by (simp add: redaction_marker_def str_bytes_def)
  have find: "pe_find_iter sample_env sample_patterns [65, 255, 1, 2, 3, 66] = [(1, 5)]"
    by (simp add: sample_env_def sample_matches)
  have accepts: "\<not> pe_observer_fails sample_env seen" for seen
    by (simp add: sample_env_def)
  show ?thesis
    by (simp add: finish_redaction_def sample_drain_def drain_start_def streaming_finish_def
        sample_stream_def emit_matches_def find call_then_def call_result_def sink_write_all_def
        sink_write_def byte_range_def drain_sink_def drain_captured_def accepts marker sample_end_def
        sample_seen_def)
qed

definition sample_options :: process_options where
  "sample_options = \<lparr>px_limits = (6, 0), px_overflow_policy = Overflow_Truncate,
     px_redaction = Some sample_stream, px_stdin = None\<rparr>"

definition exit_tick :: wait_tick where
  "exit_tick = \<lparr>wt_cancelled = False, wt_signal = None, wt_forwarded = False,
     wt_observed = Inr Child_Exited, wt_elapsed = False\<rparr>"

definition sample_host :: process_host where
  "sample_host = \<lparr>ph_cancelled = False, ph_timeout_representable = True, ph_spawn = None,
     ph_stdin = Stdin_None, ph_pipes = (\<lambda>_. Pipe_None)(Stream_Stdout := Pipe_Ready),
     ph_ticks = [exit_tick], ph_cleanup = Inr 0, ph_drain_polls = 2\<rparr>"

definition sample_output :: bounded_output where
  "sample_output = \<lparr>bo_bytes = [65, 91, 82, 69, 68, 65], bo_truncated = True, bo_complete = True\<rparr>"

definition sample_result :: owned_process_tree_output where
  "sample_result = \<lparr>pto_status = 0, pto_stdout = Some sample_output, pto_stderr = None\<rparr>"

definition sample_io :: process_io where
  "sample_io = process_start\<lparr>pi_reads := (\<lambda>_. 0)(Stream_Stdout := 3), pi_seen := sample_seen\<rparr>"

lemma sample_start:
  "drains_start (ph_pipes sample_host) (6, 0) (Some sample_stream) =
     Inr \<lparr>ods_stdout = Some (sample_drain []), ods_stderr = None\<rparr>"
  by (simp add: drains_start_def drain_start_piped_def into_streams_def independent_stream_def
      sample_drain_def sample_host_def)

lemma sample_poll:
  "drain_poll sample_env Stream_Stdout (sample_drain []) process_start =
     (Inr \<lparr>op_made_progress = True, op_overflow = Some Stream_Stdout\<rparr>, sample_end, sample_io)"
proof -
  have fields: "od_reader (sample_drain pending)" "\<not> od_truncated (sample_drain pending)"
    for pending
    by (simp_all add: sample_drain_def drain_start_def)
  moreover have "read_available sample_env stream io = (Inr (take 4096 (if pi_reads io stream = 0
      then [65, 255, 1] else if pi_reads io stream = 1 then [2, 3, 66] else [])),
      io\<lparr>pi_reads := (pi_reads io)(stream := pi_reads io stream + 1)\<rparr>)" for stream io
    by (simp add: read_available_def sample_env_def output_chunk_len_def)
  moreover have "sample_end\<lparr>od_complete := True\<rparr> = sample_end"
    by (simp add: sample_end_def)
  ultimately have "poll_reads sample_env Stream_Stdout (Suc (Suc (Suc n)))
      \<lparr>op_made_progress = False, op_overflow = None\<rparr> (sample_drain []) process_start =
      (Inr \<lparr>op_made_progress = True, op_overflow = Some Stream_Stdout\<rparr>, sample_end, sample_io)" for n
    by (simp add: sample_io_def process_start_def sample_emit sample_finish numeral_3_eq_3)
  from this [of 61] show ?thesis
    using fields by (simp add: drain_poll_def max_output_reads_per_poll_def)
qed

lemma sample_run:
  "run_owned_process_tree sample_env sample_host sample_options =
     (Some (Inr sample_result), sample_io)"
proof -
  let ?ended = "\<lparr>ods_stdout = Some sample_end, ods_stderr = None\<rparr>"
  have "wait_for_owned_process sample_env Overflow_Truncate [exit_tick]
      \<lparr>ods_stdout = Some (sample_drain []), ods_stderr = None\<rparr> None process_start =
      (Some (Inr Wait_ExitedUnreaped), ?ended, sample_io)"
    by (simp add: input_poll_option_def drains_poll_def poll_stream_def sample_poll tick_outcome_def
        exit_tick_def)
  moreover have "drains_finish sample_env 2 ?ended sample_io =
      (Inr (Some sample_output, None), sample_io)"
    by (simp add: drains_finish_def drains_last_poll_def drains_terminal_def sample_end_def
        drain_output_def sample_output_def numeral_2_eq_2)
  moreover have "prepare_process_input (ph_stdin sample_host) None = Inr None"
    by (simp add: prepare_process_input_def)
  ultimately show ?thesis
    using sample_start
    by (simp add: run_owned_process_tree_def supervise_child_def sample_options_def
        finish_owned_process_wait_def finalize_owned_process_output_def sample_result_def
        sample_host_def)
qed



section \<open>An observer that fails, and a child that leaves input behind\<close>

text \<open>
  The observer fails on its first call. The last drain calls it again, with the bytes it already
  got first: the redactor holds them until a write succeeds.
\<close>

definition plain_stream :: streaming_redactor where
  "plain_stream = \<lparr>sr_matcher = Some [[1, 2, 3, 4]], sr_pattern_count = 1, sr_max_pattern_len = 4,
     sr_pending = []\<rparr>"

definition failing_env :: process_env where
  "failing_env = sample_env\<lparr>
     pe_pipe := (\<lambda>stream n. if n = 0 then Read_Ok [65, 66, 67, 68, 69] else Read_Ok []),
     pe_observer_fails := (\<lambda>seen. length seen = 1)\<rparr>"

definition failing_drain :: "bool \<Rightarrow> output_drain" where
  "failing_drain pending =
     drain_start 6 (Some (plain_stream\<lparr>sr_pending := if pending then [65, 66, 67, 68, 69] else []\<rparr>))"

lemma plain_matches: "leftmost_longest [[1, 2, 3, 4]] 0 [65, 66, 67, 68, 69] = []"
proof -
  have "match_at [[1, 2, 3, 4]] (x # xs) = 0" if "x \<noteq> 1" for x and xs :: bytes
    using that by (simp add: match_at_def)
  then show ?thesis
    by (simp add: leftmost_longest_keep)
qed

lemmas failing_simps = failing_env_def sample_env_def plain_stream_def plain_matches emit_matches_def
  call_then_def call_result_def sink_write_all_def sink_write_def byte_range_def drain_sink_def
  drain_captured_def drain_start_def

lemma failing_emit:
  "drain_emit failing_env Stream_Stdout [65, 66, 67, 68, 69] (failing_drain False) [] =
     (Inl Io_Other, failing_drain True, [(Stream_Stdout, [65, 66])])"
  by (simp add: drain_emit_def failing_drain_def push_chunk_def max_output_chunk_len_def failing_simps)

lemma failing_finish:
  "finish_redaction failing_env Stream_Stdout ((failing_drain True)\<lparr>od_reader := False\<rparr>)
     [(Stream_Stdout, [65, 66])] =
   (Inr False, drain_start 6 None\<lparr>od_reader := False, od_bytes := [65, 66, 67, 68, 69]\<rparr>,
    [(Stream_Stdout, [65, 66]), (Stream_Stdout, [65, 66, 67, 68, 69])])"
  by (simp add: finish_redaction_def failing_drain_def streaming_finish_def failing_simps)

definition failing_io :: process_io where
  "failing_io = process_start\<lparr>pi_reads := (\<lambda>_. 0)(Stream_Stdout := 1),
     pi_seen := [(Stream_Stdout, [65, 66])]\<rparr>"

definition failing_end :: process_io where
  "failing_end = process_start\<lparr>pi_reads := (\<lambda>_. 0)(Stream_Stdout := 2),
     pi_seen := [(Stream_Stdout, [65, 66]), (Stream_Stdout, [65, 66, 67, 68, 69])]\<rparr>"

definition failing_closed :: output_drain where
  "failing_closed = drain_start 6 None
     \<lparr>od_reader := False, od_bytes := [65, 66, 67, 68, 69], od_complete := True\<rparr>"

lemma failing_polls:
  "drain_poll failing_env Stream_Stdout (failing_drain False) process_start =
     (Inl Io_Other, failing_drain True, failing_io)"
  "drain_poll failing_env Stream_Stdout (failing_drain True) failing_io =
     (Inr \<lparr>op_made_progress = False, op_overflow = None\<rparr>, failing_closed, failing_end)"
proof -
  have fields: "od_reader (failing_drain pending)" "\<not> od_truncated (failing_drain pending)" for pending
    by (simp_all add: failing_drain_def drain_start_def)
  have available: "read_available failing_env stream io = (Inr (if pi_reads io stream = 0
      then [65, 66, 67, 68, 69] else []),
      io\<lparr>pi_reads := (pi_reads io)(stream := pi_reads io stream + 1)\<rparr>)" for stream io
    by (simp add: read_available_def failing_env_def output_chunk_len_def)
  let ?idle = "\<lparr>op_made_progress = False, op_overflow = None\<rparr>"
  have "poll_reads failing_env Stream_Stdout (Suc n) ?idle (failing_drain False) process_start =
      (Inl Io_Other, failing_drain True, failing_io)" for n
    by (simp add: fields available process_start_def failing_io_def failing_emit)
  from this [of 63] show "drain_poll failing_env Stream_Stdout (failing_drain False) process_start =
      (Inl Io_Other, failing_drain True, failing_io)"
    by (simp add: drain_poll_def max_output_reads_per_poll_def fields)
  have "poll_reads failing_env Stream_Stdout (Suc n) ?idle (failing_drain True) failing_io =
     (Inr ?idle, failing_closed, failing_end)" for n
    by (simp add: fields available process_start_def failing_finish failing_io_def failing_end_def
        failing_closed_def drain_start_def numeral_2_eq_2)
  from this [of 63] show "drain_poll failing_env Stream_Stdout (failing_drain True) failing_io =
     (Inr ?idle, failing_closed, failing_end)"
    by (simp add: drain_poll_def max_output_reads_per_poll_def fields)
qed

lemma observer_called_after_failure:
  "run_owned_process_tree failing_env sample_host (sample_options\<lparr>px_redaction := Some plain_stream\<rparr>) =
     (Some (Inl Tree_Output), failing_end)"
proof -
  let ?drains = "\<lambda>drain. \<lparr>ods_stdout = Some drain, ods_stderr = None\<rparr>"
  have "drains_start (ph_pipes sample_host) (6, 0) (Some plain_stream) = Inr (?drains (failing_drain False))"
    by (simp add: drains_start_def drain_start_piped_def into_streams_def independent_stream_def
        failing_drain_def sample_host_def plain_stream_def)
  moreover have "wait_for_owned_process failing_env Overflow_Truncate [exit_tick]
      (?drains (failing_drain False)) None process_start =
      (Some (Inr Wait_OutputFailure), ?drains (failing_drain True), failing_io)"
    by (simp add: input_poll_option_def drains_poll_def poll_stream_def failing_polls)
  moreover have "\<exists>drained. drains_finish failing_env 2 (?drains (failing_drain True)) failing_io =
      (drained, failing_end)"
  proof -
    have "drains_poll failing_env (?drains (failing_drain True)) failing_io =
        (Inr \<lparr>op_made_progress = False, op_overflow = None\<rparr>, ?drains failing_closed, failing_end)"
      by (simp add: drains_poll_def poll_stream_def failing_polls)
    moreover have "\<not> drains_terminal (?drains (failing_drain True))"
      "drains_terminal (?drains failing_closed)"
      by (simp_all add: drains_terminal_def failing_drain_def failing_closed_def drain_start_def)
    ultimately show ?thesis
      by (simp add: drains_finish_def drains_last_poll_def numeral_2_eq_2)
  qed
  ultimately show ?thesis
    by (auto simp: run_owned_process_tree_def supervise_child_def sample_options_def
        finish_owned_process_wait_def sample_host_def prepare_process_input_def)
qed

text \<open>
  The input pipe is full when the loop polls it, and the child has exited when the loop looks: the
  run succeeds although no byte of the input was delivered.
\<close>

lemma success_without_input:
  "run_owned_process_tree (sample_env\<lparr>pe_input_write := \<lambda>_. Input_Err Io_WouldBlock\<rparr>)
     (sample_host\<lparr>ph_stdin := Stdin_Ready, ph_pipes := \<lambda>_. Pipe_None\<rparr>)
     (sample_options\<lparr>px_stdin := Some [1, 2, 3]\<rparr>) =
   (Some (Inr \<lparr>pto_status = 0, pto_stdout = None, pto_stderr = None\<rparr>), process_start\<lparr>pi_writes := 1\<rparr>)"
proof -
  let ?env = "sample_env\<lparr>pe_input_write := \<lambda>_. Input_Err Io_WouldBlock\<rparr>"
  let ?drains = "\<lparr>ods_stdout = None, ods_stderr = None\<rparr>"
  let ?input = "\<lparr>idr_writer = True, idr_input = [1, 2, 3], idr_offset = 0\<rparr>"
  have "input_writes ?env (Suc n) False ?input process_start =
      (Inr False, ?input, process_start\<lparr>pi_writes := 1\<rparr>)" for n
    by (simp add: process_start_def)
  from this [of 63] have "input_poll_option ?env (Some ?input) process_start =
      (Inr False, Some ?input, process_start\<lparr>pi_writes := 1\<rparr>)"
    by (simp add: input_poll_option_def input_poll_def max_input_writes_per_poll_def)
  then have "wait_for_owned_process ?env Overflow_Truncate [exit_tick] ?drains (Some ?input) process_start =
      (Some (Inr Wait_ExitedUnreaped), ?drains, process_start\<lparr>pi_writes := 1\<rparr>)"
    by (simp add: drains_poll_def poll_stream_def tick_outcome_def exit_tick_def)
  moreover have "drains_finish ?env 2 ?drains io = (Inr (None, None), io)" for io
    by (simp add: drains_finish_def drains_last_poll_def drains_terminal_def numeral_2_eq_2)
  moreover have "drains_start (\<lambda>_. Pipe_None) limits redaction = Inr ?drains" for limits redaction
    by (cases redaction) (simp_all add: drains_start_def drain_start_piped_def into_streams_def)
  moreover have "prepare_process_input Stdin_Ready (Some [1, 2, 3]) = Inr (Some ?input)"
    by (simp add: prepare_process_input_def input_start_def)
  ultimately show ?thesis
    by (simp add: run_owned_process_tree_def supervise_child_def sample_options_def sample_host_def
        finish_owned_process_wait_def finalize_owned_process_output_def)
qed

end
