(* ===== verification/Spec2Isabelle.thy ===== *)
theory Spec2Isabelle
  imports Jury_Vault_Validate Jury_Policy_Quorum Jury_Decision_Theorems Jury_Output_Theorems
begin

text \<open>
  \<^bold>\<open>A verification development for Jury\<close>, a portable secrets vault whose items can require the
  witnessed approval of other people before they are opened.

  \<^bold>\<open>The program.\<close> A vault is a public document: a signed journal of policy revisions (who owns the
  vault, who may read which item, which witnesses and approvers guard an item) and sealed items
  with key slots. Opening a witnessed item takes contributions of several witness services. A
  requester sends a signed request with a manifest of what will run; approvers sign decisions on
  exactly that request and manifest; each witness checks the policy, counts the approvals and
  releases its share at most once. A witness keeps its state in a database row and publishes a
  signed anchor of every state to a second service, so that a restored backup of the database is
  noticed. A child process that receives a secret has its output redacted.

  \<^bold>\<open>Encodings.\<close> \<open>Jury_Prelude\<close> has machine integers, results (\<open>'e + 'a\<close> for \<open>Result\<close>) and the shared
  rewrite sets. \<open>Jury_BTree\<close> models \<open>BTreeMap\<close>. \<open>Jury_Bytes\<close> has the byte strings of
  \<open>jury-protocol/src/vault_v1/bytes.rs\<close>. \<open>Jury_Canonical\<close> and \<open>Jury_Encoding\<close> model \<open>canonical.rs\<close>
  and \<open>witness_v1/encoding.rs\<close>, with a locale of prefix-free codes that every field encoder
  interprets: encodings are injective and the decoder is an exact inverse.

  \<^bold>\<open>Vault and policy.\<close> \<open>Jury_Vault_Types\<close>, \<open>Jury_Vault_Preimage\<close> and \<open>Jury_Vault_Validate\<close> model
  \<open>vault_v1\<close>. \<open>Jury_Policy_State\<close>, \<open>Jury_Policy_Witness\<close>, \<open>Jury_Policy_Replay\<close> and
  \<open>Jury_Policy_Rotation\<close> model \<open>jury-core/src/policy\<close>: the state a journal replays to is a record, and
  each policy operation is a function on it. \<open>Jury_Policy_Safety\<close> has the invariants of a replay,
  \<open>Jury_Policy_Theorems\<close> and \<open>Jury_Policy_Quorum\<close> the properties: a changed reader set rotates the
  key, owners keep access, identifiers and keys are never reused, revisions are signed by owners,
  the journal is a hash chain bound by its last hash, a prepared revision is accepted, witness
  policies form linear lineages and define a quorum.

  \<^bold>\<open>Messages.\<close> \<open>Jury_Witness_Base\<close>, \<open>Jury_Witness_Manifest\<close>, \<open>Jury_Witness_Request\<close>,
  \<open>Jury_Witness_Decision\<close> and \<open>Jury_Witness_State\<close> model \<open>jury-protocol/src/witness_v1\<close>: shapes,
  preimages, digests. A digest binds the message up to a collision of the hash, and a valid manifest
  releases only approved targets.

  \<^bold>\<open>The witness engine.\<close> \<open>Jury_Validation\<close> models \<open>checkpoint_validation.rs\<close>,
  \<open>witness_validation.rs\<close> and the engine's checks; \<open>Jury_Engine_State\<close> and \<open>Jury_Engine\<close> model
  \<open>witness_engine/\<close>, every operation whole. Effects are calls on a world (\<open>Jury_Calls\<close>: combinators,
  weakest preconditions with one postcondition for success and one for failure, and relations
  calls keep). What the engine needs of its store and its anchor is the locale \<open>witness_services\<close>
  of \<open>Jury_Engine_Contract\<close>. \<open>Jury_Engine_Steps\<close> proves, in that locale, that each operation keeps
  the logical state or takes one step of an abstract witness state machine (the inductive relation
  \<open>prepares\<close> and \<open>witness_step\<close>); \<open>Jury_Engine_Runs\<close> has the invariants of its runs; \<open>Jury_Tally\<close>
  relates the counting loops to sets of approvers.

  \<^bold>\<open>The service.\<close> \<open>Jury_Store\<close> models \<open>jury-witness/src/persistence\<close> and \<open>anchor.rs\<close> and interprets the
  locale on them. \<open>Jury_Material\<close> and \<open>Jury_Runtime\<close> model the public policy material, the runtime
  and its worker; \<open>Jury_Runtime_Theorems\<close> and \<open>Jury_Witness_Theorems\<close> state the results for whole
  queues of commands: the worker refines the state machine, replies are durable, the external
  anchor is a chain, checkpoints only advance, stored records are well formed, a clock that went
  back refuses everything, the stored state round trips. \<open>Jury_Recovery\<close> shows that every crash
  leaves a state from which readiness is restored. \<open>Jury_Scenario\<close> is a concrete deployment in which
  one approval makes the witness contribute, and \<open>Jury_Decision_Theorems\<close> has the decision
  properties with it as witness: no contribution without a signed quorum, answers are final,
  the service recovers. It also has the lemmas behind the recorded differences between the
  protocol text and the code.

  \<^bold>\<open>Redaction.\<close> \<open>Jury_Redact\<close> and \<open>Jury_Redact_Stream\<close> model \<open>jury-protected/src/redact.rs\<close> and
  \<open>streaming_redaction.rs\<close>; \<open>Jury_Output\<close> models \<open>jury-process/src/process/output.rs\<close>.
  \<open>Jury_Output_Theorems\<close> shows that the captured output of a child hides every spelling of the
  secrets and does not depend on how the reads split it. The writer the redactor writes to is the
  locale \<open>byte_writer\<close>, interpreted on the capture sink.

  \<^bold>\<open>Parameters.\<close> The hash, signature verification and signing, sealing of a contribution, randomness
  and the clock are functions or oracles of the configuration; no property assumes that the hash
  is free of collisions, each names the collision as the alternative. JSON text appears as its
  length, and parsing of the policy material as a pair of functions. Calls of the store and of the
  anchor service may fail before or after they took effect, at any call, chosen by the
  configuration. Base64, JSON escaping and the Aho-Corasick automaton are parameters; of the
  automaton the documented leftmost-longest semantics is a hypothesis.

  \<^bold>\<open>Bounds.\<close> All loops of the modelled code are over data and need no fuel. The number of polls and of
  running rounds of a supervised child are arguments of the model and arbitrary in the properties;
  the 64 read attempts of one poll are those of the source. A queue of commands is a list of any
  length. Sizes that the source keeps in \<open>usize\<close> are natural numbers, with overflow written out where
  the source checks it. Liveness after a crash assumes that calls stop failing, deadlines are not
  exceeded and the clock is not behind.

  \<^bold>\<open>Not modelled.\<close> Cryptographic algorithms and sealed items; JSON, TOML and SQL text; HTTP routes,
  authentication, rate limits and asynchronous scheduling beyond the order of the worker's queue;
  files, locks, process groups and signals; assembling and verifying portable receipts; the
  approver's and requester's client code; registration and rollover ceremonies above the policy
  replay; backups and transfers; the command line. They are operating-system and library calls, or
  clients of the modelled validation. An observer of a child's output that fails with an
  interrupted error, which the standard library retries, is not modelled either.
\<close>

end
